(* ===== verification/Prelude.thy ===== *)
theory Prelude
  imports
    Main
    "HOL-Library.Word"
    "HOL-Library.Sublist"
    "HOL-Library.AList"
    "HOL-Library.Char_ord"
    "HOL-Library.List_Lexorder"
    "HOL-Library.State_Monad"
begin

text \<open>
  Shared vocabulary of the development: Go strings (byte lists) and the functions of package
  \<^verbatim>\<open>strings\<close> the operator calls, Go maps as association lists, errors as values, durations,
  and the collections of facts the component theories use.

  A Go string is a list of bytes (\<^typ>\<open>string\<close>). A Go map is an association list read with
  \<^const>\<open>map_of\<close> and written with \<^const>\<open>AList.update\<close>; ranging over it visits the list, and
  every statement about a range loop is about the resulting \<^const>\<open>map_of\<close>, so it does not
  depend on the order. A pointer is an option. A time or a duration is an integer number of
  nanoseconds.
\<close>

named_theorems go_string "definitions of the functions of package strings"
named_theorems run_simps "running a handler in the state monad"
named_theorems spec_frame "what an operation leaves unchanged"

section \<open>Strings\<close>

definition hasPrefix :: "string \<Rightarrow> string \<Rightarrow> bool" where
  "hasPrefix s p = prefix p s"

definition hasSuffix :: "string \<Rightarrow> string \<Rightarrow> bool" where
  "hasSuffix s p = suffix p s"

definition trimPrefix :: "string \<Rightarrow> string \<Rightarrow> string" where
  "trimPrefix s p = (if prefix p s then drop (length p) s else s)"

definition trimSuffix :: "string \<Rightarrow> string \<Rightarrow> string" where
  "trimSuffix s p = (if suffix p s then take (length s - length p) s else s)"

text \<open>\<^verbatim>\<open>strings.CutPrefix\<close>: the rest and whether the prefix was there.\<close>

definition cutPrefix :: "string \<Rightarrow> string \<Rightarrow> string option" where
  "cutPrefix s p = (if prefix p s then Some (drop (length p) s) else None)"

text \<open>\<^verbatim>\<open>strings.Index\<close>; \<^const>\<open>None\<close> stands for -1.\<close>

fun strIndex :: "string \<Rightarrow> string \<Rightarrow> nat option" where
  "strIndex s sub =
     (if prefix sub s then Some 0
      else case s of [] \<Rightarrow> None | _ # t \<Rightarrow> map_option Suc (strIndex t sub))"

declare strIndex.simps [simp del]

definition strContains :: "string \<Rightarrow> string \<Rightarrow> bool" where
  "strContains s sub = (strIndex s sub \<noteq> None)"

text \<open>\<^verbatim>\<open>strings.LastIndex\<close> for a one-byte needle.\<close>

fun lastIndexByte :: "string \<Rightarrow> char \<Rightarrow> nat option" where
  "lastIndexByte [] c = None"
| "lastIndexByte (x # xs) c =
     (case lastIndexByte xs c of
        Some i \<Rightarrow> Some (Suc i)
      | None \<Rightarrow> if x = c then Some 0 else None)"

text \<open>\<^verbatim>\<open>strings.Split\<close> with a one-byte separator; the result is never empty.\<close>

fun splitByte :: "char \<Rightarrow> string \<Rightarrow> string list" where
  "splitByte c [] = [[]]"
| "splitByte c (x # xs) =
     (if x = c then [] # splitByte c xs
      else case splitByte c xs of [] \<Rightarrow> [[x]] | seg # segs \<Rightarrow> (x # seg) # segs)"

text \<open>\<^verbatim>\<open>strings.SplitN\<close> with a one-byte separator and at least one piece.\<close>

fun splitNByte :: "nat \<Rightarrow> char \<Rightarrow> string \<Rightarrow> string list" where
  "splitNByte 0 c s = []"
| "splitNByte (Suc 0) c s = [s]"
| "splitNByte (Suc (Suc n)) c s =
     (if c \<in> set s
      then takeWhile (\<lambda>x. x \<noteq> c) s # splitNByte (Suc n) c (tl (dropWhile (\<lambda>x. x \<noteq> c) s))
      else [s])"

text \<open>\<^verbatim>\<open>strings.ReplaceAll\<close> of a one-byte pattern.\<close>

definition replaceByte :: "char \<Rightarrow> string \<Rightarrow> string \<Rightarrow> string" where
  "replaceByte c new s = concat (map (\<lambda>x. if x = c then new else [x]) s)"

definition trimRightByte :: "char \<Rightarrow> string \<Rightarrow> string" where
  "trimRightByte c s = rev (dropWhile (\<lambda>x. x = c) (rev s))"

definition trimByte :: "char \<Rightarrow> string \<Rightarrow> string" where
  "trimByte c s = dropWhile (\<lambda>x. x = c) (trimRightByte c s)"

definition asciiSpace :: "char \<Rightarrow> bool" where
  "asciiSpace c = (of_char c \<in> {9::nat, 10, 11, 12, 13, 32})"

text \<open>\<^verbatim>\<open>strings.TrimSpace\<close> on ASCII text (the header values it is applied to).\<close>

definition trimSpace :: "string \<Rightarrow> string" where
  "trimSpace s = dropWhile asciiSpace (rev (dropWhile asciiSpace (rev s)))"

fun joinStr :: "string \<Rightarrow> string list \<Rightarrow> string" where
  "joinStr sep [] = []"
| "joinStr sep [x] = x"
| "joinStr sep (x # y # zs) = x @ sep @ joinStr sep (y # zs)"

text \<open>Decimal printing (\<^verbatim>\<open>%d\<close>) and quoting (\<^verbatim>\<open>%q\<close> on printable ASCII).\<close>

fun natStr :: "nat \<Rightarrow> string" where
  "natStr n = (if n < 10 then [char_of (48 + n)] else natStr (n div 10) @ [char_of (48 + n mod 10)])"

declare natStr.simps [simp del]

definition intStr :: "int \<Rightarrow> string" where
  "intStr i = (if i < 0 then CHR ''-'' # natStr (nat (- i)) else natStr (nat i))"

definition dquote :: char where "dquote = CHR 0x22"
definition backslash :: char where "backslash = CHR 0x5C"

text \<open>The UTF-8 bytes of the em dash the messages contain.\<close>

definition emDash :: string where "emDash = [CHR 0xE2, CHR 0x80, CHR 0x94]"

definition quoteStr :: "string \<Rightarrow> string" where
  "quoteStr s = dquote # concat (map (\<lambda>c. if c = dquote \<or> c = backslash then [backslash, c] else [c]) s) @ [dquote]"

lemmas [go_string] = hasPrefix_def hasSuffix_def trimPrefix_def trimSuffix_def cutPrefix_def
  strContains_def replaceByte_def trimRightByte_def trimByte_def

lemma prefix_append_drop [simp]: "prefix p s \<Longrightarrow> p @ drop (length p) s = s"
  by (auto elim!: prefixE)

lemma trimPrefix_append [simp]: "trimPrefix (p @ s) p = s"
  by (simp add: trimPrefix_def)

lemma hasPrefix_append [simp]: "hasPrefix (p @ s) p"
  by (simp add: hasPrefix_def)

lemma cutPrefix_Some: "cutPrefix s p = Some t \<longleftrightarrow> s = p @ t"
  by (auto simp: cutPrefix_def prefix_def)

lemma splitByte_not_Nil [simp]: "splitByte c s \<noteq> []"
  by (cases s) (auto split: list.splits)

text \<open>Splitting and joining on the separator is the identity; no piece contains it.\<close>

lemma joinStr_Cons: "xs \<noteq> [] \<Longrightarrow> joinStr sep (x # xs) = x @ sep @ joinStr sep xs"
  by (cases xs) auto

lemma join_splitByte: "joinStr [c] (splitByte c s) = s"
proof (induction s)
  case (Cons x xs)
  show ?case
  proof (cases "splitByte c xs")
    case (Cons seg segs)
    then show ?thesis using Cons.IH by (cases segs) (auto simp: joinStr_Cons)
  qed simp
qed simp

lemma splitByte_no_sep: "seg \<in> set (splitByte c s) \<Longrightarrow> c \<notin> set seg"
proof (induction s arbitrary: seg)
  case (Cons x xs)
  then show ?case by (cases "splitByte c xs") (auto split: if_splits)
qed simp

lemma lastIndexByte_None: "lastIndexByte s c = None \<longleftrightarrow> c \<notin> set s"
  by (induction s) (auto split: option.splits)

lemma lastIndexByte_Some:
  "lastIndexByte s c = Some i \<Longrightarrow> i < length s \<and> s ! i = c \<and> c \<notin> set (drop (Suc i) s)"
proof (induction s arbitrary: i)
  case (Cons x xs)
  then show ?case by (auto simp: lastIndexByte_None split: option.splits if_splits)
qed simp

lemma strIndex_bound: "strIndex s sub = Some i \<Longrightarrow> i + length sub \<le> length s"
proof (induction s arbitrary: i)
  case Nil
  then show ?case by (subst (asm) strIndex.simps) (auto split: if_splits)
next
  case (Cons x xs)
  from Cons.prems consider "prefix sub (x # xs)" "i = 0"
    | j where "strIndex xs sub = Some j" "i = Suc j"
    by (subst (asm) strIndex.simps) (auto split: if_splits)
  then show ?case
    using Cons.IH by cases (auto dest: prefix_length_le)
qed

lemma strIndex_None: "strIndex s sub = None \<Longrightarrow> \<not> sublist sub s"
proof (induction s)
  case Nil
  then show ?case by (subst (asm) strIndex.simps) (auto split: if_splits)
next
  case (Cons x xs)
  then have "\<not> prefix sub (x # xs)" "strIndex xs sub = None"
    by (subst (asm) strIndex.simps, auto split: if_splits)+
  with Cons.IH show ?case by (auto simp: sublist_Cons_right)
qed

lemma strIndex_Some: "strIndex s sub = Some i \<Longrightarrow> prefix sub (drop i s)"
proof (induction s arbitrary: i)
  case Nil
  then show ?case by (subst (asm) strIndex.simps) (auto split: if_splits)
next
  case (Cons x xs)
  from Cons.prems show ?case
    by (subst (asm) strIndex.simps) (auto split: if_splits dest: Cons.IH)
qed

lemma strContains_iff: "strContains s sub \<longleftrightarrow> sublist sub s"
proof
  assume "strContains s sub"
  then obtain i where "prefix sub (drop i s)"
    by (auto simp: strContains_def dest: strIndex_Some)
  then show "sublist sub s"
    by (meson prefix_imp_sublist sublist_drop sublist_order.order_trans)
next
  assume "sublist sub s"
  then show "strContains s sub" using strIndex_None [of s sub] by (auto simp: strContains_def)
qed

lemma strContains_byte: "strContains s [c] \<longleftrightarrow> c \<in> set s"
  by (auto simp: strContains_iff sublist_def in_set_conv_decomp)

section \<open>Maps\<close>

type_synonym gomap = "(string \<times> string) list"

text \<open>Writing every entry of one map over another (\<^verbatim>\<open>for k, v := range src { dst[k] = v }\<close>).\<close>

definition overlay :: "('k \<times> 'v) list \<Rightarrow> ('k \<times> 'v) list \<Rightarrow> ('k \<times> 'v) list" where
  "overlay dst src = fold (\<lambda>(k, v) m. AList.update k v m) src dst"

lemma map_of_overlay:
  "distinct (map fst src) \<Longrightarrow> map_of (overlay dst src) = map_of dst ++ map_of src"
proof (induction src arbitrary: dst)
  case (Cons kv src)
  then show ?case
    by (cases kv)
      (auto simp: overlay_def update_conv' fun_eq_iff map_add_def
        dest: weak_map_of_SomeI split: option.splits intro: rev_image_eqI
        dest!: map_of_SomeD)
qed (simp add: overlay_def)

section \<open>Errors\<close>

text \<open>
  A Go error is its text and the class the Kubernetes error helpers
  (\<^verbatim>\<open>apierrors.IsNotFound\<close>, \<^verbatim>\<open>IsAlreadyExists\<close>, \<^verbatim>\<open>IsConflict\<close>)
  see. Wrapping with \<^verbatim>\<open>%w\<close> keeps the class; a fresh \<^verbatim>\<open>fmt.Errorf\<close> has none.
\<close>

datatype err_kind = KNotFound | KAlreadyExists | KConflict | KOther

datatype go_error = GoErr (ekind: err_kind) (emsg: string)

definition errorf :: "string \<Rightarrow> go_error" where
  "errorf msg = GoErr KOther msg"

definition wrapErr :: "string \<Rightarrow> go_error \<Rightarrow> go_error" where
  "wrapErr pre e = GoErr (ekind e) (pre @ '': '' @ emsg e)"

definition isNotFound :: "go_error \<Rightarrow> bool" where "isNotFound e = (ekind e = KNotFound)"
definition isAlreadyExists :: "go_error \<Rightarrow> bool" where "isAlreadyExists e = (ekind e = KAlreadyExists)"
definition isConflict :: "go_error \<Rightarrow> bool" where "isConflict e = (ekind e = KConflict)"

lemma wrapErr_kind [simp]:
  "isNotFound (wrapErr p e) = isNotFound e" "isConflict (wrapErr p e) = isConflict e"
  "isAlreadyExists (wrapErr p e) = isAlreadyExists e"
  by (simp_all add: wrapErr_def isNotFound_def isConflict_def isAlreadyExists_def)

lemma errorf_kind [simp]:
  "\<not> isNotFound (errorf m)" "\<not> isConflict (errorf m)" "\<not> isAlreadyExists (errorf m)"
  by (simp_all add: errorf_def isNotFound_def isConflict_def isAlreadyExists_def)

section \<open>Semantic versions\<close>

text \<open>
  The library \<^verbatim>\<open>github.com/Masterminds/semver/v3\<close> is not part of the repository; the
  operations the operator calls are the fields of this record, over the library's version type.
\<close>

record 'v semver =
  sv_NewVersion :: "string \<Rightarrow> 'v option"
  sv_GreaterThan :: "'v \<Rightarrow> 'v \<Rightarrow> bool"
  sv_Prerelease :: "'v \<Rightarrow> string"

section \<open>Pointers\<close>

text \<open>\<^verbatim>\<open>p == nil || *p\<close>: an optional flag that defaults to true.\<close>

definition defaultTrue :: "bool option \<Rightarrow> bool" where
  "defaultTrue p = (case p of None \<Rightarrow> True | Some b \<Rightarrow> b)"

definition derefOr :: "'a \<Rightarrow> 'a option \<Rightarrow> 'a" where
  "derefOr d p = (case p of None \<Rightarrow> d | Some v \<Rightarrow> v)"

lemma defaultTrue_simps [simp]: "defaultTrue None" "defaultTrue (Some b) = b"
  by (simp_all add: defaultTrue_def)

lemma derefOr_simps [simp]: "derefOr d None = d" "derefOr d (Some v) = v"
  by (simp_all add: derefOr_def)

text \<open>The first of two strings that is not empty.\<close>

definition strOr :: "string \<Rightarrow> string \<Rightarrow> string" where
  "strOr s d = (if s = [] then d else s)"

lemma strOr_simps [simp]: "strOr [] d = d" "strOr (c # s) d = c # s"
  by (simp_all add: strOr_def)

end
