(* ===== verification/Json.thy ===== *)
theory Json
  imports Prelude
begin

text \<open>
  JSON documents as Go's \<^verbatim>\<open>encoding/json\<close> decodes them into \<^verbatim>\<open>interface{}\<close>, the byte
  strings that hold them, and \<^verbatim>\<open>deepMerge\<close> of internal/controller/selfconfig_apply.go.

  An object is an association list (the decoded Go map). A number is the bit pattern of its
  float64; the operator never looks inside one. A byte string is either the encoding of a
  document (\<open>Doc\<close>) or text that \<^verbatim>\<open>json.Unmarshal\<close> rejects (\<open>Text\<close>), so encoding
  after decoding is the identity by construction, as it is for documents made of maps, slices,
  strings, booleans and numbers.
\<close>

datatype json =
    JNull
  | JBool bool
  | JNum "64 word"
  | JStr string
  | JArr "json list"
  | JObj "(string \<times> json) list"

type_synonym obj = "(string \<times> json) list"

datatype bytes = Doc json | Text string

definition bytesEmpty :: "bytes \<Rightarrow> bool" where
  "bytesEmpty b = (b = Text [])"

text \<open>
  Unmarshalling into a \<^verbatim>\<open>map[string]interface{}\<close>: an object gives the map, \<^verbatim>\<open>null\<close> gives the
  nil map without an error, everything else is an error.
\<close>

fun unmarshalMap :: "bytes \<Rightarrow> obj option option" where
  "unmarshalMap (Doc (JObj m)) = Some (Some m)"
| "unmarshalMap (Doc JNull) = Some None"
| "unmarshalMap _ = None"

text \<open>Type assertions with the comma-ok form, and reads from a possibly nil map.\<close>

fun asMap :: "json option \<Rightarrow> obj option" where
  "asMap (Some (JObj m)) = Some m"
| "asMap _ = None"

fun asStr :: "json option \<Rightarrow> string option" where
  "asStr (Some (JStr s)) = Some s"
| "asStr _ = None"

fun asArr :: "json option \<Rightarrow> json list option" where
  "asArr (Some (JArr xs)) = Some xs"
| "asArr _ = None"

definition mget :: "obj option \<Rightarrow> string \<Rightarrow> json option" where
  "mget m k = (case m of None \<Rightarrow> None | Some xs \<Rightarrow> map_of xs k)"

lemma mget_simps [simp]: "mget None k = None" "mget (Some xs) k = map_of xs k"
  by (simp_all add: mget_def)

text \<open>The map at a key, or a fresh empty map (\<^verbatim>\<open>gw, _ := m[k].(map...); if gw == nil { gw = make(...) }\<close>).\<close>

definition subMap :: "obj option \<Rightarrow> string \<Rightarrow> obj" where
  "subMap m k = derefOr [] (asMap (mget m k))"

text \<open>A computation that may panic; assigning into a nil map does.\<close>

datatype 'a outcome = Panic | Ret 'a

definition mapSet :: "string \<Rightarrow> json \<Rightarrow> obj option \<Rightarrow> obj outcome" where
  "mapSet k v m = (case m of None \<Rightarrow> Panic | Some xs \<Rightarrow> Ret (AList.update k v xs))"

section \<open>Lookup along a path\<close>

fun jlookup :: "json \<Rightarrow> string list \<Rightarrow> json option" where
  "jlookup j [] = Some j"
| "jlookup (JObj m) (k # ks) = (case map_of m k of None \<Rightarrow> None | Some j \<Rightarrow> jlookup j ks)"
| "jlookup _ (k # ks) = None"

definition isObj :: "json \<Rightarrow> bool" where
  "isObj j = (case j of JObj _ \<Rightarrow> True | _ \<Rightarrow> False)"

lemma isObj_simps [simp]:
  "isObj (JObj m)" "\<not> isObj JNull" "\<not> isObj (JBool b)" "\<not> isObj (JNum n)" "\<not> isObj (JStr s)"
  "\<not> isObj (JArr xs)"
  by (simp_all add: isObj_def)

lemma jlookup_not_obj: "\<not> isObj j \<Longrightarrow> ks \<noteq> [] \<Longrightarrow> jlookup j ks = None"
  by (cases j; cases ks) (auto simp: isObj_def)

text \<open>Well-formed documents: every object has each key once, at every depth.\<close>

fun wf_json :: "json \<Rightarrow> bool" where
  "wf_json (JArr xs) = (\<forall>x \<in> set xs. wf_json x)"
| "wf_json (JObj m) = (distinct (map fst m) \<and> (\<forall>kv \<in> set m. wf_json (snd kv)))"
| "wf_json _ = True"

lemma wf_json_lookup: "wf_json (JObj m) \<Longrightarrow> map_of m k = Some j \<Longrightarrow> wf_json j"
  by (auto dest!: map_of_SomeD)

lemma distinct_AList_update: "distinct (map fst m) \<Longrightarrow> distinct (map fst (AList.update k v m))"
  by (rule distinct_update)

lemma AList_update_values: "kv \<in> set (AList.update k v m) \<Longrightarrow> kv = (k, v) \<or> kv \<in> set m"
  by (induction m) (auto split: if_splits)

lemma wf_json_update [simp]:
  assumes "wf_json (JObj m)" "wf_json v" shows "wf_json (JObj (AList.update k v m))"
  using assms by (auto simp: distinct_update dest!: AList_update_values)

lemma wf_json_ConsD: "wf_json (JObj ((k, v) # m)) \<Longrightarrow> wf_json v \<and> wf_json (JObj m)"
  by simp

lemma wf_json_distinct: "wf_json (JObj m) \<Longrightarrow> distinct (map fst m)"
  by simp

lemma wf_json_Nil [simp]: "wf_json (JObj [])"
  by simp

declare wf_json.simps(2) [simp del]

section \<open>deepMerge\<close>

function (sequential) deepMerge :: "obj \<Rightarrow> obj \<Rightarrow> obj" where
  "deepMerge dst [] = dst"
| "deepMerge dst ((k, JObj srcMap) # src) =
     (case map_of dst k of
        Some (JObj dstMap) \<Rightarrow> deepMerge (AList.update k (JObj (deepMerge dstMap srcMap)) dst) src
      | _ \<Rightarrow> deepMerge (AList.update k (JObj srcMap) dst) src)"
| "deepMerge dst ((k, v) # src) = deepMerge (AList.update k v dst) src"
  by pat_completeness auto
termination
  by (relation "measure (\<lambda>(dst, src). size_list (size_prod (\<lambda>_. 0) size) src)") auto

text \<open>What one key holds after the merge.\<close>

definition mergeVal :: "json option \<Rightarrow> json \<Rightarrow> json" where
  "mergeVal old v =
     (case v of
        JObj s \<Rightarrow> (case old of Some (JObj d) \<Rightarrow> JObj (deepMerge d s) | _ \<Rightarrow> v)
      | _ \<Rightarrow> v)"

lemma deepMerge_Cons:
  "deepMerge dst ((k, v) # src) = deepMerge (AList.update k (mergeVal (map_of dst k) v) dst) src"
  by (cases v) (auto simp: mergeVal_def split: option.splits json.splits)

lemma map_of_deepMerge:
  "distinct (map fst src) \<Longrightarrow>
   map_of (deepMerge dst src) k =
     (case map_of src k of None \<Rightarrow> map_of dst k | Some v \<Rightarrow> Some (mergeVal (map_of dst k) v))"
proof (induction src arbitrary: dst)
  case (Cons kv src)
  obtain k' v where kv: "kv = (k', v)" by (cases kv)
  with Cons.prems have "k' \<notin> dom (map_of src)" "distinct (map fst src)"
    by (auto simp: dom_map_of_conv_image_fst)
  then show ?case
    using Cons.IH by (auto simp: kv deepMerge_Cons update_conv' split: option.splits)
qed simp

declare deepMerge.simps [simp del]

lemma mergeVal_not_obj:
  assumes "\<nexists>s d. v = JObj s \<and> old = Some (JObj d)" shows "mergeVal old v = v"
  using assms by (cases v) (auto simp: mergeVal_def split: option.splits json.splits)

lemma deepMerge_wf:
  "wf_json (JObj dst) \<Longrightarrow> wf_json (JObj src) \<Longrightarrow> wf_json (JObj (deepMerge dst src))"
proof (induction dst src rule: deepMerge.induct)
  case (2 dst k srcMap src)
  note wf = wf_json_ConsD [OF "2.prems"(2)]
  show ?case
  proof (cases "\<exists>d. map_of dst k = Some (JObj d)")
    case True
    then obtain d where d: "map_of dst k = Some (JObj d)" by blast
    have "wf_json (JObj d)" by (rule wf_json_lookup [OF "2.prems"(1) d])
    then have "wf_json (JObj (deepMerge d srcMap))" using "2.IH" d wf by blast
    then have "wf_json (JObj (AList.update k (JObj (deepMerge d srcMap)) dst))"
      using "2.prems"(1) by simp
    then have "wf_json (JObj (deepMerge (AList.update k (JObj (deepMerge d srcMap)) dst) src))"
      using "2.IH" d wf by blast
    with d show ?thesis by (simp add: deepMerge.simps)
  next
    case False
    then have "mergeVal (map_of dst k) (JObj srcMap) = JObj srcMap" by (intro mergeVal_not_obj) auto
    moreover have "wf_json (JObj (deepMerge (AList.update k (JObj srcMap) dst) src))"
    proof (cases "map_of dst k")
      case None
      then show ?thesis using "2.IH" "2.prems"(1) wf by simp
    next
      case (Some a)
      then show ?thesis using False "2.IH" "2.prems"(1) wf by (cases a) simp_all
    qed
    ultimately show ?thesis by (simp add: deepMerge_Cons)
  qed
qed (auto simp: deepMerge.simps dest: wf_json_ConsD)

text \<open>
  A path on which the patch holds a value that is not an object is set to that value; a path
  that leaves the patch at a missing key keeps what the base had there.
\<close>

lemma jlookup_deepMerge_set:
  assumes "wf_json (JObj src)" "jlookup (JObj src) ks = Some v" "\<not> isObj v"
  shows "jlookup (JObj (deepMerge dst src)) ks = Some v"
  using assms
proof (induction ks arbitrary: dst src)
  case (Cons k ks)
  then obtain w where w: "map_of src k = Some w" "jlookup w ks = Some v"
    by (auto split: option.splits)
  have "jlookup (mergeVal (map_of dst k) w) ks = Some v"
  proof (cases "\<exists>s d. w = JObj s \<and> map_of dst k = Some (JObj d)")
    case True
    then obtain s d where sd: "w = JObj s" "map_of dst k = Some (JObj d)" by blast
    have "wf_json (JObj s)" using wf_json_lookup [OF Cons.prems(1) w(1)] sd by simp
    then have "jlookup (JObj (deepMerge d s)) ks = Some v"
      using Cons.IH w(2) sd(1) Cons.prems(3) by blast
    with sd show ?thesis by (simp add: mergeVal_def)
  next
    case False
    with w show ?thesis by (auto simp: mergeVal_def split: json.splits option.splits)
  qed
  with w Cons.prems show ?case by (simp add: map_of_deepMerge wf_json_distinct)
qed auto

text \<open>\<open>leaves p ks\<close>: following \<open>ks\<close> in the patch stops at a key an object of the patch lacks.\<close>

fun leaves :: "json \<Rightarrow> string list \<Rightarrow> bool" where
  "leaves (JObj m) (k # ks) = (case map_of m k of None \<Rightarrow> True | Some j \<Rightarrow> leaves j ks)"
| "leaves _ _ = False"

lemma jlookup_deepMerge_keep:
  assumes "wf_json (JObj src)" "leaves (JObj src) ks" "jlookup (JObj dst) ks = Some v"
  shows "jlookup (JObj (deepMerge dst src)) ks = Some v"
  using assms
proof (induction ks arbitrary: dst src)
  case (Cons k ks)
  from Cons.prems(3) obtain d where d: "map_of dst k = Some d" "jlookup d ks = Some v"
    by (auto split: option.splits)
  show ?case
  proof (cases "map_of src k")
    case None
    with d Cons.prems(1) show ?thesis by (simp add: map_of_deepMerge wf_json_distinct)
  next
    case (Some w)
    with Cons.prems(2) have lw: "leaves w ks" by simp
    then obtain s where s: "w = JObj s" by (cases w; cases ks) auto
    from lw s have "ks \<noteq> []" by (cases ks) auto
    with d(2) obtain dm where dm: "d = JObj dm" by (cases d; cases ks) auto
    have "wf_json (JObj s)" using wf_json_lookup [OF Cons.prems(1) Some] s by simp
    with Cons.IH lw s d dm have "jlookup (JObj (deepMerge dm s)) ks = Some v" by blast
    with Some s d dm Cons.prems(1) show ?thesis by (simp add: map_of_deepMerge mergeVal_def wf_json_distinct)
  qed
qed simp

end
