(* ===== verification/Types.thy ===== *)
theory Types
  imports Json
begin

text \<open>
  The API types of api/v1alpha1: one record per Go struct, fields in the order of the source,
  each field prefixed by an abbreviation of its struct (a HOL record field is a global name).
  A pointer is an option, a slice a list, a \<^verbatim>\<open>map[string]string\<close> an association list, a
  \<^verbatim>\<open>metav1.Time\<close> an integer number of nanoseconds, a string enum a string. Integers that are
  only compared or copied are \<^typ>\<open>int\<close>; the rollback counter, which the code increments,
  keeps its 32 bits. Kubernetes types the operator carries through without looking inside are
  \<^typ>\<open>json\<close> fragments. \<open>zero_T\<close> is the zero value of \<open>T\<close>.
\<close>

type_synonym int32 = "32 word"

section \<open>Kubernetes types the operator looks into\<close>

record EnvVarSource =
  evs_SecretKeyRef :: "(string \<times> string) option" \<comment> \<open>Secret name and key\<close>
  evs_Other :: "json option"

record EnvVar =
  ev_Name :: string
  ev_Value :: string
  ev_ValueFrom :: "EnvVarSource option"

definition envVal :: "string \<Rightarrow> string \<Rightarrow> EnvVar" where
  "envVal n v = \<lparr>ev_Name = n, ev_Value = v, ev_ValueFrom = None\<rparr>"

definition envSecret :: "string \<Rightarrow> string \<Rightarrow> string \<Rightarrow> EnvVar" where
  "envSecret n secret k =
     \<lparr>ev_Name = n, ev_Value = [],
      ev_ValueFrom = Some \<lparr>evs_SecretKeyRef = Some (secret, k), evs_Other = None\<rparr>\<rparr>"

record VolumeMount =
  vm_Name :: string
  vm_MountPath :: string
  vm_SubPath :: string
  vm_ReadOnly :: bool

datatype VolumeSource = PVCSource string | OtherSource json

record Volume =
  vol_Name :: string
  vol_Source :: VolumeSource

record Container =
  con_Name :: string
  con_Image :: string
  con_ImagePullPolicy :: string
  con_Command :: "string list"
  con_Args :: "string list"
  con_Env :: "EnvVar list"
  con_VolumeMounts :: "VolumeMount list"
  con_Other :: json \<comment> \<open>fields the operator does not look into\<close>

record Condition =
  cond_Type :: string
  cond_Status :: string
  cond_Reason :: string
  cond_Message :: string
  cond_ObservedGeneration :: int

record OwnerReference =
  or_UID :: string
  or_Controller :: bool

record ManagedFieldsEntry =
  mfe_Manager :: string
  mfe_Operation :: string
  mfe_FieldsV1 :: "bytes option"

record ObjectMeta =
  om_Name :: string
  om_Namespace :: string
  om_UID :: string
  om_Generation :: int
  om_Labels :: gomap
  om_Annotations :: gomap
  om_Finalizers :: "string list"
  om_OwnerReferences :: "OwnerReference list"
  om_DeletionTimestamp :: "int option"
  om_ManagedFields :: "ManagedFieldsEntry list"

definition zero_ObjectMeta :: ObjectMeta where
  "zero_ObjectMeta = \<lparr>om_Name = [], om_Namespace = [], om_UID = [], om_Generation = 0,
     om_Labels = [], om_Annotations = [], om_Finalizers = [], om_OwnerReferences = [],
     om_DeletionTimestamp = None, om_ManagedFields = []\<rparr>"

section \<open>The operator's types\<close>

record SidecarImageSpec =
  si_Repository :: string
  si_Tag :: string
  si_Digest :: string

definition zero_SidecarImageSpec :: SidecarImageSpec where
  "zero_SidecarImageSpec = \<lparr>si_Repository = [], si_Tag = [], si_Digest = []\<rparr>"

type_synonym ChromiumImageSpec = SidecarImageSpec
type_synonym TailscaleImageSpec = SidecarImageSpec
type_synonym NetBirdImageSpec = SidecarImageSpec
type_synonym OllamaImageSpec = SidecarImageSpec
type_synonym WebTerminalImageSpec = SidecarImageSpec
type_synonym OTelCollectorImageSpec = SidecarImageSpec
type_synonym UVImageSpec = SidecarImageSpec
type_synonym GatewayProxyImageSpec = SidecarImageSpec

record ImageSpec =
  img_Repository :: string
  img_Tag :: string
  img_Digest :: string
  img_PullPolicy :: string
  img_PullSecrets :: "string list"

definition zero_ImageSpec :: ImageSpec where
  "zero_ImageSpec = \<lparr>img_Repository = [], img_Tag = [], img_Digest = [], img_PullPolicy = [], img_PullSecrets =
     []\<rparr>"

record ConfigMapKeySelector =
  cmk_Name :: string
  cmk_Key :: string

definition zero_ConfigMapKeySelector :: ConfigMapKeySelector where
  "zero_ConfigMapKeySelector = \<lparr>cmk_Name = [], cmk_Key = []\<rparr>"

record ConfigSpec =
  cfg_ConfigMapRef :: "ConfigMapKeySelector option"
  cfg_Raw :: "bytes option"
  cfg_MergeMode :: string
  cfg_Format :: string
  cfg_ForcePaths :: "string list"

definition zero_ConfigSpec :: ConfigSpec where
  "zero_ConfigSpec = \<lparr>cfg_ConfigMapRef = None, cfg_Raw = None, cfg_MergeMode = [], cfg_Format = [],
     cfg_ForcePaths = []\<rparr>"

record ConfigMapNameSelector =
  cmn_Name :: string

definition zero_ConfigMapNameSelector :: ConfigMapNameSelector where
  "zero_ConfigMapNameSelector = \<lparr>cmn_Name = []\<rparr>"

record ManagedWorkspaceFile =
  mf_Path :: string
  mf_UpdatePolicy :: string

definition zero_ManagedWorkspaceFile :: ManagedWorkspaceFile where
  "zero_ManagedWorkspaceFile = \<lparr>mf_Path = [], mf_UpdatePolicy = []\<rparr>"

record AdditionalWorkspace =
  aw_Name :: string
  aw_ConfigMapRef :: "ConfigMapNameSelector option"
  aw_InitialFiles :: gomap
  aw_InitialDirectories :: "string list"
  aw_Skills :: "string list"
  aw_FileUpdatePolicy :: "string option"
  aw_ManagedFiles :: "ManagedWorkspaceFile list"

definition zero_AdditionalWorkspace :: AdditionalWorkspace where
  "zero_AdditionalWorkspace = \<lparr>aw_Name = [], aw_ConfigMapRef = None, aw_InitialFiles = [], aw_InitialDirectories = [],
     aw_Skills = [], aw_FileUpdatePolicy = None, aw_ManagedFiles = []\<rparr>"

record BootstrapSpec =
  boot_Enabled :: "bool option"

definition zero_BootstrapSpec :: BootstrapSpec where
  "zero_BootstrapSpec = \<lparr>boot_Enabled = None\<rparr>"

record WorkspaceSpec =
  ws_ConfigMapRef :: "ConfigMapNameSelector option"
  ws_InitialFiles :: gomap
  ws_InitialDirectories :: "string list"
  ws_AdditionalWorkspaces :: "AdditionalWorkspace list"
  ws_Bootstrap :: BootstrapSpec
  ws_FileUpdatePolicy :: string
  ws_ManagedFiles :: "ManagedWorkspaceFile list"

definition zero_WorkspaceSpec :: WorkspaceSpec where
  "zero_WorkspaceSpec = \<lparr>ws_ConfigMapRef = None, ws_InitialFiles = [], ws_InitialDirectories = [],
     ws_AdditionalWorkspaces = [], ws_Bootstrap = zero_BootstrapSpec, ws_FileUpdatePolicy = [],
     ws_ManagedFiles = []\<rparr>"

record VerifiedPluginSpec =
  vp_Package :: string
  vp_Version :: string
  vp_Integrity :: string
  vp_AcceptCapabilities :: bool

definition zero_VerifiedPluginSpec :: VerifiedPluginSpec where
  "zero_VerifiedPluginSpec = \<lparr>vp_Package = [], vp_Version = [], vp_Integrity = [], vp_AcceptCapabilities = False\<rparr>"

record PluginInstallSpec =
  pi_Resources :: json
  pi_InheritEnv :: "bool option"
  pi_ReadOnlyRootFilesystem :: bool

definition zero_PluginInstallSpec :: PluginInstallSpec where
  "zero_PluginInstallSpec = \<lparr>pi_Resources = JNull, pi_InheritEnv = None, pi_ReadOnlyRootFilesystem = False\<rparr>"

record ResourceList =
  rl_CPU :: string
  rl_Memory :: string

definition zero_ResourceList :: ResourceList where
  "zero_ResourceList = \<lparr>rl_CPU = [], rl_Memory = []\<rparr>"

record ResourcesSpec =
  rs_Requests :: ResourceList
  rs_Limits :: ResourceList

definition zero_ResourcesSpec :: ResourcesSpec where
  "zero_ResourcesSpec = \<lparr>rs_Requests = zero_ResourceList, rs_Limits = zero_ResourceList\<rparr>"

record PodSecurityContextSpec =
  psc_RunAsUser :: "int option"
  psc_RunAsGroup :: "int option"
  psc_FSGroup :: "int option"
  psc_FSGroupChangePolicy :: "string option"
  psc_RunAsNonRoot :: "bool option"

definition zero_PodSecurityContextSpec :: PodSecurityContextSpec where
  "zero_PodSecurityContextSpec = \<lparr>psc_RunAsUser = None, psc_RunAsGroup = None, psc_FSGroup = None, psc_FSGroupChangePolicy =
     None, psc_RunAsNonRoot = None\<rparr>"

record ContainerSecurityContextSpec =
  csc_AllowPrivilegeEscalation :: "bool option"
  csc_ReadOnlyRootFilesystem :: "bool option"
  csc_Capabilities :: "json option"
  csc_RunAsNonRoot :: "bool option"
  csc_RunAsUser :: "int option"

definition zero_ContainerSecurityContextSpec :: ContainerSecurityContextSpec where
  "zero_ContainerSecurityContextSpec = \<lparr>csc_AllowPrivilegeEscalation = None, csc_ReadOnlyRootFilesystem = None, csc_Capabilities =
     None, csc_RunAsNonRoot = None, csc_RunAsUser = None\<rparr>"

record NetworkPolicySpec =
  np_Enabled :: "bool option"
  np_AllowedIngressCIDRs :: "string list"
  np_AllowedIngressNamespaces :: "string list"
  np_AllowSameNamespaceIngress :: "bool option"
  np_AllowedEgressCIDRs :: "string list"
  np_AllowDNS :: "bool option"
  np_AllowHTTPS :: "bool option"
  np_AdditionalEgress :: "json list"

definition zero_NetworkPolicySpec :: NetworkPolicySpec where
  "zero_NetworkPolicySpec = \<lparr>np_Enabled = None, np_AllowedIngressCIDRs = [], np_AllowedIngressNamespaces = [],
     np_AllowSameNamespaceIngress = None, np_AllowedEgressCIDRs = [], np_AllowDNS = None,
     np_AllowHTTPS = None, np_AdditionalEgress = []\<rparr>"

record RBACRule =
  rule_APIGroups :: "string list"
  rule_Resources :: "string list"
  rule_Verbs :: "string list"

definition zero_RBACRule :: RBACRule where
  "zero_RBACRule = \<lparr>rule_APIGroups = [], rule_Resources = [], rule_Verbs = []\<rparr>"

record RBACSpec =
  rbac_CreateServiceAccount :: "bool option"
  rbac_ServiceAccountName :: string
  rbac_ServiceAccountAnnotations :: gomap
  rbac_AdditionalRules :: "RBACRule list"

definition zero_RBACSpec :: RBACSpec where
  "zero_RBACSpec = \<lparr>rbac_CreateServiceAccount = None, rbac_ServiceAccountName = [],
     rbac_ServiceAccountAnnotations = [], rbac_AdditionalRules = []\<rparr>"

record CABundleSpec =
  cab_ConfigMapName :: string
  cab_SecretName :: string
  cab_Key :: string

definition zero_CABundleSpec :: CABundleSpec where
  "zero_CABundleSpec = \<lparr>cab_ConfigMapName = [], cab_SecretName = [], cab_Key = []\<rparr>"

record SecuritySpec =
  sec_PodSecurityContext :: "PodSecurityContextSpec option"
  sec_ContainerSecurityContext :: "ContainerSecurityContextSpec option"
  sec_NetworkPolicy :: NetworkPolicySpec
  sec_RBAC :: RBACSpec
  sec_CABundle :: "CABundleSpec option"

definition zero_SecuritySpec :: SecuritySpec where
  "zero_SecuritySpec = \<lparr>sec_PodSecurityContext = None, sec_ContainerSecurityContext = None, sec_NetworkPolicy =
     zero_NetworkPolicySpec, sec_RBAC = zero_RBACSpec, sec_CABundle = None\<rparr>"

record PersistenceSpec =
  pers_Enabled :: "bool option"
  pers_StorageClass :: "string option"
  pers_Size :: string
  pers_AccessModes :: "string list"
  pers_ExistingClaim :: string
  pers_Orphan :: "bool option"

definition zero_PersistenceSpec :: PersistenceSpec where
  "zero_PersistenceSpec = \<lparr>pers_Enabled = None, pers_StorageClass = None, pers_Size = [], pers_AccessModes = [],
     pers_ExistingClaim = [], pers_Orphan = None\<rparr>"

record StorageSpec =
  stor_Persistence :: PersistenceSpec
  stor_FixOwnership :: "bool option"

definition zero_StorageSpec :: StorageSpec where
  "zero_StorageSpec = \<lparr>stor_Persistence = zero_PersistenceSpec, stor_FixOwnership = None\<rparr>"

record ChromiumPersistenceSpec =
  chp_Enabled :: bool
  chp_StorageClass :: "string option"
  chp_Size :: string
  chp_ExistingClaim :: string

definition zero_ChromiumPersistenceSpec :: ChromiumPersistenceSpec where
  "zero_ChromiumPersistenceSpec = \<lparr>chp_Enabled = False, chp_StorageClass = None, chp_Size = [], chp_ExistingClaim = []\<rparr>"

record ChromiumSpec =
  ch_Enabled :: bool
  ch_Image :: ChromiumImageSpec
  ch_Resources :: ResourcesSpec
  ch_Persistence :: ChromiumPersistenceSpec
  ch_ExtraArgs :: "string list"
  ch_ExtraEnv :: "EnvVar list"

definition zero_ChromiumSpec :: ChromiumSpec where
  "zero_ChromiumSpec = \<lparr>ch_Enabled = False, ch_Image = zero_SidecarImageSpec, ch_Resources = zero_ResourcesSpec,
     ch_Persistence = zero_ChromiumPersistenceSpec, ch_ExtraArgs = [], ch_ExtraEnv = []\<rparr>"

record TailscaleSpec =
  ts_Enabled :: bool
  ts_Mode :: string
  ts_Image :: TailscaleImageSpec
  ts_AuthKeySecretRef :: "string option"
  ts_AuthKeySecretKey :: string
  ts_Hostname :: string
  ts_AuthSSO :: bool
  ts_Resources :: ResourcesSpec

definition zero_TailscaleSpec :: TailscaleSpec where
  "zero_TailscaleSpec = \<lparr>ts_Enabled = False, ts_Mode = [], ts_Image = zero_SidecarImageSpec, ts_AuthKeySecretRef =
     None, ts_AuthKeySecretKey = [], ts_Hostname = [], ts_AuthSSO = False, ts_Resources =
     zero_ResourcesSpec\<rparr>"

record NetBirdSpec =
  nb_Enabled :: bool
  nb_Image :: NetBirdImageSpec
  nb_SetupKeySecretRef :: "string option"
  nb_SetupKeySecretKey :: string
  nb_ManagementURL :: string
  nb_Hostname :: string
  nb_Resources :: ResourcesSpec

definition zero_NetBirdSpec :: NetBirdSpec where
  "zero_NetBirdSpec = \<lparr>nb_Enabled = False, nb_Image = zero_SidecarImageSpec, nb_SetupKeySecretRef = None,
     nb_SetupKeySecretKey = [], nb_ManagementURL = [], nb_Hostname = [], nb_Resources =
     zero_ResourcesSpec\<rparr>"

record OllamaStorageSpec =
  ols_SizeLimit :: string
  ols_ExistingClaim :: string

definition zero_OllamaStorageSpec :: OllamaStorageSpec where
  "zero_OllamaStorageSpec = \<lparr>ols_SizeLimit = [], ols_ExistingClaim = []\<rparr>"

record OllamaSpec =
  ol_Enabled :: bool
  ol_Image :: OllamaImageSpec
  ol_Models :: "string list"
  ol_Resources :: ResourcesSpec
  ol_Storage :: OllamaStorageSpec
  ol_GPU :: "int option"

definition zero_OllamaSpec :: OllamaSpec where
  "zero_OllamaSpec = \<lparr>ol_Enabled = False, ol_Image = zero_SidecarImageSpec, ol_Models = [], ol_Resources =
     zero_ResourcesSpec, ol_Storage = zero_OllamaStorageSpec, ol_GPU = None\<rparr>"

record WebTerminalCredentialSpec =
  wtc_SecretRef :: string

definition zero_WebTerminalCredentialSpec :: WebTerminalCredentialSpec where
  "zero_WebTerminalCredentialSpec = \<lparr>wtc_SecretRef = []\<rparr>"

record WebTerminalSpec =
  wt_Enabled :: bool
  wt_Image :: WebTerminalImageSpec
  wt_Resources :: ResourcesSpec
  wt_ReadOnly :: bool
  wt_Credential :: "WebTerminalCredentialSpec option"

definition zero_WebTerminalSpec :: WebTerminalSpec where
  "zero_WebTerminalSpec = \<lparr>wt_Enabled = False, wt_Image = zero_SidecarImageSpec, wt_Resources = zero_ResourcesSpec,
     wt_ReadOnly = False, wt_Credential = None\<rparr>"

record ServicePortSpec =
  sp_Name :: string
  sp_Port :: int
  sp_TargetPort :: "int option"
  sp_Protocol :: string

definition zero_ServicePortSpec :: ServicePortSpec where
  "zero_ServicePortSpec = \<lparr>sp_Name = [], sp_Port = 0, sp_TargetPort = None, sp_Protocol = []\<rparr>"

record ServiceSpec =
  svc_Type :: string
  svc_Annotations :: gomap
  svc_Ports :: "ServicePortSpec list"

definition zero_ServiceSpec :: ServiceSpec where
  "zero_ServiceSpec = \<lparr>svc_Type = [], svc_Annotations = [], svc_Ports = []\<rparr>"

record IngressPath =
  ip_Path :: string
  ip_PathType :: string
  ip_Port :: "int option"

definition zero_IngressPath :: IngressPath where
  "zero_IngressPath = \<lparr>ip_Path = [], ip_PathType = [], ip_Port = None\<rparr>"

record IngressHost =
  ih_Host :: string
  ih_Paths :: "IngressPath list"

definition zero_IngressHost :: IngressHost where
  "zero_IngressHost = \<lparr>ih_Host = [], ih_Paths = []\<rparr>"

record IngressTLS =
  itls_Hosts :: "string list"
  itls_SecretName :: string

definition zero_IngressTLS :: IngressTLS where
  "zero_IngressTLS = \<lparr>itls_Hosts = [], itls_SecretName = []\<rparr>"

record RateLimitingSpec =
  rate_Enabled :: "bool option"
  rate_RequestsPerSecond :: "int option"

definition zero_RateLimitingSpec :: RateLimitingSpec where
  "zero_RateLimitingSpec = \<lparr>rate_Enabled = None, rate_RequestsPerSecond = None\<rparr>"

record IngressBasicAuthSpec =
  iba_Enabled :: "bool option"
  iba_ExistingSecret :: string
  iba_Username :: string
  iba_Realm :: string

definition zero_IngressBasicAuthSpec :: IngressBasicAuthSpec where
  "zero_IngressBasicAuthSpec = \<lparr>iba_Enabled = None, iba_ExistingSecret = [], iba_Username = [], iba_Realm = []\<rparr>"

record IngressSecuritySpec =
  isec_ForceHTTPS :: "bool option"
  isec_EnableHSTS :: "bool option"
  isec_RateLimiting :: "RateLimitingSpec option"
  isec_BasicAuth :: "IngressBasicAuthSpec option"

definition zero_IngressSecuritySpec :: IngressSecuritySpec where
  "zero_IngressSecuritySpec = \<lparr>isec_ForceHTTPS = None, isec_EnableHSTS = None, isec_RateLimiting = None, isec_BasicAuth =
     None\<rparr>"

record IngressSpec =
  ing_Enabled :: bool
  ing_ClassName :: "string option"
  ing_Annotations :: gomap
  ing_Hosts :: "IngressHost list"
  ing_TLS :: "IngressTLS list"
  ing_Security :: IngressSecuritySpec

definition zero_IngressSpec :: IngressSpec where
  "zero_IngressSpec = \<lparr>ing_Enabled = False, ing_ClassName = None, ing_Annotations = [], ing_Hosts = [], ing_TLS =
     [], ing_Security = zero_IngressSecuritySpec\<rparr>"

record HTTPRouteParentRef =
  hpr_Name :: string
  hpr_Namespace :: "string option"
  hpr_SectionName :: "string option"

definition zero_HTTPRouteParentRef :: HTTPRouteParentRef where
  "zero_HTTPRouteParentRef = \<lparr>hpr_Name = [], hpr_Namespace = None, hpr_SectionName = None\<rparr>"

record HTTPRouteSpec =
  hr_Enabled :: bool
  hr_ParentRefs :: "HTTPRouteParentRef list"
  hr_Hostnames :: "string list"
  hr_Port :: "int option"
  hr_Annotations :: gomap

definition zero_HTTPRouteSpec :: HTTPRouteSpec where
  "zero_HTTPRouteSpec = \<lparr>hr_Enabled = False, hr_ParentRefs = [], hr_Hostnames = [], hr_Port = None, hr_Annotations
     = []\<rparr>"

record MetricsIngressSpec =
  mi_From :: string
  mi_AllowedNamespaces :: "string list"
  mi_AllowedCIDRs :: "string list"
  mi_PodSelector :: "json option"

definition zero_MetricsIngressSpec :: MetricsIngressSpec where
  "zero_MetricsIngressSpec = \<lparr>mi_From = [], mi_AllowedNamespaces = [], mi_AllowedCIDRs = [], mi_PodSelector = None\<rparr>"

record NetworkingSpec =
  net_Service :: ServiceSpec
  net_Ingress :: IngressSpec
  net_HTTPRoute :: "HTTPRouteSpec option"
  net_MetricsIngress :: "MetricsIngressSpec option"

definition zero_NetworkingSpec :: NetworkingSpec where
  "zero_NetworkingSpec = \<lparr>net_Service = zero_ServiceSpec, net_Ingress = zero_IngressSpec, net_HTTPRoute = None,
     net_MetricsIngress = None\<rparr>"

record ProbeSpec =
  probe_Enabled :: "bool option"
  probe_InitialDelaySeconds :: "int option"
  probe_PeriodSeconds :: "int option"
  probe_TimeoutSeconds :: "int option"
  probe_FailureThreshold :: "int option"

definition zero_ProbeSpec :: ProbeSpec where
  "zero_ProbeSpec = \<lparr>probe_Enabled = None, probe_InitialDelaySeconds = None, probe_PeriodSeconds = None,
     probe_TimeoutSeconds = None, probe_FailureThreshold = None\<rparr>"

record DiskReadinessSpec =
  dr_Enabled :: "bool option"
  dr_Path :: string
  dr_MinFree :: string

definition zero_DiskReadinessSpec :: DiskReadinessSpec where
  "zero_DiskReadinessSpec = \<lparr>dr_Enabled = None, dr_Path = [], dr_MinFree = []\<rparr>"

record ProbesSpec =
  probes_Liveness :: "ProbeSpec option"
  probes_Readiness :: "ProbeSpec option"
  probes_Startup :: "ProbeSpec option"
  probes_DiskReadiness :: "DiskReadinessSpec option"

definition zero_ProbesSpec :: ProbesSpec where
  "zero_ProbesSpec = \<lparr>probes_Liveness = None, probes_Readiness = None, probes_Startup = None,
     probes_DiskReadiness = None\<rparr>"

record OTelCollectorSpec =
  otel_Image :: OTelCollectorImageSpec
  otel_Resources :: ResourcesSpec

definition zero_OTelCollectorSpec :: OTelCollectorSpec where
  "zero_OTelCollectorSpec = \<lparr>otel_Image = zero_SidecarImageSpec, otel_Resources = zero_ResourcesSpec\<rparr>"

record ServiceMonitorSpec =
  sm_Enabled :: "bool option"
  sm_Interval :: string
  sm_Labels :: gomap

definition zero_ServiceMonitorSpec :: ServiceMonitorSpec where
  "zero_ServiceMonitorSpec = \<lparr>sm_Enabled = None, sm_Interval = [], sm_Labels = []\<rparr>"

record PrometheusRuleSpec =
  pr_Enabled :: "bool option"
  pr_Labels :: gomap
  pr_RunbookBaseURL :: string

definition zero_PrometheusRuleSpec :: PrometheusRuleSpec where
  "zero_PrometheusRuleSpec = \<lparr>pr_Enabled = None, pr_Labels = [], pr_RunbookBaseURL = []\<rparr>"

record GrafanaDashboardSpec =
  gd_Enabled :: "bool option"
  gd_Labels :: gomap
  gd_Folder :: string

definition zero_GrafanaDashboardSpec :: GrafanaDashboardSpec where
  "zero_GrafanaDashboardSpec = \<lparr>gd_Enabled = None, gd_Labels = [], gd_Folder = []\<rparr>"

record MetricsSpec =
  met_Enabled :: "bool option"
  met_Port :: "int option"
  met_Collector :: OTelCollectorSpec
  met_ServiceMonitor :: "ServiceMonitorSpec option"
  met_PrometheusRule :: "PrometheusRuleSpec option"
  met_GrafanaDashboard :: "GrafanaDashboardSpec option"

definition zero_MetricsSpec :: MetricsSpec where
  "zero_MetricsSpec = \<lparr>met_Enabled = None, met_Port = None, met_Collector = zero_OTelCollectorSpec,
     met_ServiceMonitor = None, met_PrometheusRule = None, met_GrafanaDashboard = None\<rparr>"

record LoggingSpec =
  lg_Level :: string
  lg_Format :: string

definition zero_LoggingSpec :: LoggingSpec where
  "zero_LoggingSpec = \<lparr>lg_Level = [], lg_Format = []\<rparr>"

record ObservabilitySpec =
  obs_Metrics :: MetricsSpec
  obs_Logging :: LoggingSpec

definition zero_ObservabilitySpec :: ObservabilitySpec where
  "zero_ObservabilitySpec = \<lparr>obs_Metrics = zero_MetricsSpec, obs_Logging = zero_LoggingSpec\<rparr>"

record PodDisruptionBudgetSpec =
  pdb_Enabled :: "bool option"
  pdb_MaxUnavailable :: "int option"

definition zero_PodDisruptionBudgetSpec :: PodDisruptionBudgetSpec where
  "zero_PodDisruptionBudgetSpec = \<lparr>pdb_Enabled = None, pdb_MaxUnavailable = None\<rparr>"

record AutoScalingSpec =
  asc_Enabled :: "bool option"
  asc_MinReplicas :: "int option"
  asc_MaxReplicas :: "int option"
  asc_TargetCPUUtilization :: "int option"
  asc_TargetMemoryUtilization :: "int option"

definition zero_AutoScalingSpec :: AutoScalingSpec where
  "zero_AutoScalingSpec = \<lparr>asc_Enabled = None, asc_MinReplicas = None, asc_MaxReplicas = None,
     asc_TargetCPUUtilization = None, asc_TargetMemoryUtilization = None\<rparr>"

record AvailabilitySpec =
  av_PodDisruptionBudget :: "PodDisruptionBudgetSpec option"
  av_AutoScaling :: "AutoScalingSpec option"
  av_NodeSelector :: gomap
  av_Tolerations :: "json list"
  av_Affinity :: "json option"
  av_TopologySpreadConstraints :: "json list"
  av_RuntimeClassName :: "string option"

definition zero_AvailabilitySpec :: AvailabilitySpec where
  "zero_AvailabilitySpec = \<lparr>av_PodDisruptionBudget = None, av_AutoScaling = None, av_NodeSelector = [], av_Tolerations
     = [], av_Affinity = None, av_TopologySpreadConstraints = [], av_RuntimeClassName = None\<rparr>"

record BackupSpec =
  bk_Schedule :: string
  bk_HistoryLimit :: "int option"
  bk_FailedHistoryLimit :: "int option"
  bk_Timeout :: string
  bk_ServiceAccountName :: string
  bk_RetentionDays :: "int option"

definition zero_BackupSpec :: BackupSpec where
  "zero_BackupSpec = \<lparr>bk_Schedule = [], bk_HistoryLimit = None, bk_FailedHistoryLimit = None, bk_Timeout = [],
     bk_ServiceAccountName = [], bk_RetentionDays = None\<rparr>"

record RuntimeDepsSpec =
  rd_Pnpm :: bool
  rd_Python :: bool
  rd_UVImage :: "UVImageSpec option"

definition zero_RuntimeDepsSpec :: RuntimeDepsSpec where
  "zero_RuntimeDepsSpec = \<lparr>rd_Pnpm = False, rd_Python = False, rd_UVImage = None\<rparr>"

record GatewaySpec =
  gw_Enabled :: "bool option"
  gw_Image :: GatewayProxyImageSpec
  gw_Resources :: ResourcesSpec
  gw_ExistingSecret :: string
  gw_ControlUIOrigins :: "string list"

definition zero_GatewaySpec :: GatewaySpec where
  "zero_GatewaySpec = \<lparr>gw_Enabled = None, gw_Image = zero_SidecarImageSpec, gw_Resources = zero_ResourcesSpec,
     gw_ExistingSecret = [], gw_ControlUIOrigins = []\<rparr>"

record AutoUpdateSpec =
  au_Enabled :: "bool option"
  au_CheckInterval :: string
  au_BackupBeforeUpdate :: "bool option"
  au_RollbackOnFailure :: "bool option"
  au_HealthCheckTimeout :: string

definition zero_AutoUpdateSpec :: AutoUpdateSpec where
  "zero_AutoUpdateSpec = \<lparr>au_Enabled = None, au_CheckInterval = [], au_BackupBeforeUpdate = None,
     au_RollbackOnFailure = None, au_HealthCheckTimeout = []\<rparr>"

record SelfConfigureSpec =
  scf_Enabled :: bool
  scf_AllowedActions :: "string list"

definition zero_SelfConfigureSpec :: SelfConfigureSpec where
  "zero_SelfConfigureSpec = \<lparr>scf_Enabled = False, scf_AllowedActions = []\<rparr>"

record OpenClawInstanceSpec =
  spec_Registry :: string
  spec_Image :: ImageSpec
  spec_Config :: ConfigSpec
  spec_Workspace :: "WorkspaceSpec option"
  spec_Skills :: "string list"
  spec_SkillPackUpdatePolicy :: string
  spec_Plugins :: "string list"
  spec_VerifiedPlugins :: "VerifiedPluginSpec list"
  spec_PluginInstall :: "PluginInstallSpec option"
  spec_EnvFrom :: "json list"
  spec_Env :: "EnvVar list"
  spec_Resources :: ResourcesSpec
  spec_Security :: SecuritySpec
  spec_ShareProcessNamespace :: "bool option"
  spec_Storage :: StorageSpec
  spec_Chromium :: ChromiumSpec
  spec_Tailscale :: TailscaleSpec
  spec_NetBird :: "NetBirdSpec option"
  spec_Ollama :: OllamaSpec
  spec_WebTerminal :: WebTerminalSpec
  spec_InitContainers :: "Container list"
  spec_Sidecars :: "Container list"
  spec_SidecarVolumes :: "Volume list"
  spec_ExtraVolumes :: "Volume list"
  spec_ExtraVolumeMounts :: "VolumeMount list"
  spec_Networking :: NetworkingSpec
  spec_Probes :: "ProbesSpec option"
  spec_Observability :: ObservabilitySpec
  spec_Availability :: AvailabilitySpec
  spec_Suspended :: bool
  spec_Backup :: BackupSpec
  spec_RestoreFrom :: string
  spec_RuntimeDeps :: RuntimeDepsSpec
  spec_Gateway :: GatewaySpec
  spec_AutoUpdate :: AutoUpdateSpec
  spec_SelfConfigure :: SelfConfigureSpec
  spec_PodAnnotations :: gomap

definition zero_OpenClawInstanceSpec :: OpenClawInstanceSpec where
  "zero_OpenClawInstanceSpec = \<lparr>spec_Registry = [], spec_Image = zero_ImageSpec, spec_Config = zero_ConfigSpec,
     spec_Workspace = None, spec_Skills = [], spec_SkillPackUpdatePolicy = [], spec_Plugins =
     [], spec_VerifiedPlugins = [], spec_PluginInstall = None, spec_EnvFrom = [], spec_Env =
     [], spec_Resources = zero_ResourcesSpec, spec_Security = zero_SecuritySpec,
     spec_ShareProcessNamespace = None, spec_Storage = zero_StorageSpec, spec_Chromium =
     zero_ChromiumSpec, spec_Tailscale = zero_TailscaleSpec, spec_NetBird = None, spec_Ollama =
     zero_OllamaSpec, spec_WebTerminal = zero_WebTerminalSpec, spec_InitContainers = [],
     spec_Sidecars = [], spec_SidecarVolumes = [], spec_ExtraVolumes = [],
     spec_ExtraVolumeMounts = [], spec_Networking = zero_NetworkingSpec, spec_Probes = None,
     spec_Observability = zero_ObservabilitySpec, spec_Availability = zero_AvailabilitySpec,
     spec_Suspended = False, spec_Backup = zero_BackupSpec, spec_RestoreFrom = [],
     spec_RuntimeDeps = zero_RuntimeDepsSpec, spec_Gateway = zero_GatewaySpec, spec_AutoUpdate
     = zero_AutoUpdateSpec, spec_SelfConfigure = zero_SelfConfigureSpec, spec_PodAnnotations =
     []\<rparr>"

record ManagedWorkspaceFileStatus =
  mfs_Workspace :: string
  mfs_Path :: string
  mfs_UpdatePolicy :: string
  mfs_SourceHash :: string

definition zero_ManagedWorkspaceFileStatus :: ManagedWorkspaceFileStatus where
  "zero_ManagedWorkspaceFileStatus = \<lparr>mfs_Workspace = [], mfs_Path = [], mfs_UpdatePolicy = [], mfs_SourceHash = []\<rparr>"

record ManagedResourcesStatus =
  mr_StatefulSet :: string
  mr_Deployment :: string
  mr_Service :: string
  mr_ConfigMap :: string
  mr_PVC :: string
  mr_ChromiumPVC :: string
  mr_NetworkPolicy :: string
  mr_PodDisruptionBudget :: string
  mr_ServiceAccount :: string
  mr_Role :: string
  mr_RoleBinding :: string
  mr_GatewayTokenSecret :: string
  mr_PrometheusRule :: string
  mr_ServiceMonitor :: string
  mr_WorkspaceFiles :: "ManagedWorkspaceFileStatus list"
  mr_GrafanaDashboardOperator :: string
  mr_GrafanaDashboardInstance :: string
  mr_HorizontalPodAutoscaler :: string
  mr_BasicAuthSecret :: string
  mr_HTTPRoute :: string
  mr_BackupCronJob :: string
  mr_TailscaleStateSecret :: string

definition zero_ManagedResourcesStatus :: ManagedResourcesStatus where
  "zero_ManagedResourcesStatus = \<lparr>mr_StatefulSet = [], mr_Deployment = [], mr_Service = [], mr_ConfigMap = [], mr_PVC = [],
     mr_ChromiumPVC = [], mr_NetworkPolicy = [], mr_PodDisruptionBudget = [], mr_ServiceAccount
     = [], mr_Role = [], mr_RoleBinding = [], mr_GatewayTokenSecret = [], mr_PrometheusRule =
     [], mr_ServiceMonitor = [], mr_WorkspaceFiles = [], mr_GrafanaDashboardOperator = [],
     mr_GrafanaDashboardInstance = [], mr_HorizontalPodAutoscaler = [], mr_BasicAuthSecret =
     [], mr_HTTPRoute = [], mr_BackupCronJob = [], mr_TailscaleStateSecret = []\<rparr>"

record AutoUpdateStatus =
  aus_LastCheckTime :: "int option"
  aus_LatestVersion :: string
  aus_CurrentVersion :: string
  aus_PendingVersion :: string
  aus_UpdatePhase :: string
  aus_LastUpdateTime :: "int option"
  aus_LastUpdateError :: string
  aus_PreviousVersion :: string
  aus_PreUpdateBackupPath :: string
  aus_FailedVersion :: string
  aus_RollbackCount :: int32

definition zero_AutoUpdateStatus :: AutoUpdateStatus where
  "zero_AutoUpdateStatus = \<lparr>aus_LastCheckTime = None, aus_LatestVersion = [], aus_CurrentVersion = [],
     aus_PendingVersion = [], aus_UpdatePhase = [], aus_LastUpdateTime = None,
     aus_LastUpdateError = [], aus_PreviousVersion = [], aus_PreUpdateBackupPath = [],
     aus_FailedVersion = [], aus_RollbackCount = 0\<rparr>"

record OpenClawInstanceStatus =
  st_Phase :: string
  st_Conditions :: "Condition list"
  st_ObservedGeneration :: int
  st_GatewayEndpoint :: string
  st_CanvasEndpoint :: string
  st_LastReconcileTime :: "int option"
  st_ManagedResources :: ManagedResourcesStatus
  st_BackingUpSince :: "int option"
  st_BackupJobName :: string
  st_RestoreJobName :: string
  st_LastBackupPath :: string
  st_LastBackupTime :: "int option"
  st_RestoredFrom :: string
  st_AutoUpdate :: AutoUpdateStatus

definition zero_OpenClawInstanceStatus :: OpenClawInstanceStatus where
  "zero_OpenClawInstanceStatus = \<lparr>st_Phase = [], st_Conditions = [], st_ObservedGeneration = 0, st_GatewayEndpoint = [],
     st_CanvasEndpoint = [], st_LastReconcileTime = None, st_ManagedResources =
     zero_ManagedResourcesStatus, st_BackingUpSince = None, st_BackupJobName = [],
     st_RestoreJobName = [], st_LastBackupPath = [], st_LastBackupTime = None, st_RestoredFrom
     = [], st_AutoUpdate = zero_AutoUpdateStatus\<rparr>"

record OpenClawClusterDefaultsSpec =
  cd_Registry :: string
  cd_Image :: ImageSpec
  cd_Env :: "EnvVar list"
  cd_RuntimeDeps :: RuntimeDepsSpec

definition zero_OpenClawClusterDefaultsSpec :: OpenClawClusterDefaultsSpec where
  "zero_OpenClawClusterDefaultsSpec = \<lparr>cd_Registry = [], cd_Image = zero_ImageSpec, cd_Env = [], cd_RuntimeDeps =
     zero_RuntimeDepsSpec\<rparr>"

record SelfConfigEnvVar =
  sce_Name :: string
  sce_Value :: string

definition zero_SelfConfigEnvVar :: SelfConfigEnvVar where
  "zero_SelfConfigEnvVar = \<lparr>sce_Name = [], sce_Value = []\<rparr>"

record OpenClawSelfConfigSpec =
  scs_InstanceRef :: string
  scs_AddSkills :: "string list"
  scs_RemoveSkills :: "string list"
  scs_ConfigPatch :: "bytes option"
  scs_AddWorkspaceFiles :: gomap
  scs_RemoveWorkspaceFiles :: "string list"
  scs_AddEnvVars :: "SelfConfigEnvVar list"
  scs_RemoveEnvVars :: "string list"

definition zero_OpenClawSelfConfigSpec :: OpenClawSelfConfigSpec where
  "zero_OpenClawSelfConfigSpec = \<lparr>scs_InstanceRef = [], scs_AddSkills = [], scs_RemoveSkills = [], scs_ConfigPatch = None,
     scs_AddWorkspaceFiles = [], scs_RemoveWorkspaceFiles = [], scs_AddEnvVars = [],
     scs_RemoveEnvVars = []\<rparr>"

record OpenClawSelfConfigStatus =
  sct_Phase :: string
  sct_Message :: string
  sct_CompletionTime :: "int option"

definition zero_OpenClawSelfConfigStatus :: OpenClawSelfConfigStatus where
  "zero_OpenClawSelfConfigStatus = \<lparr>sct_Phase = [], sct_Message = [], sct_CompletionTime = None\<rparr>"

lemmas zero_defs =
  zero_SidecarImageSpec_def zero_ImageSpec_def zero_ConfigMapKeySelector_def zero_ConfigSpec_def
  zero_ConfigMapNameSelector_def zero_ManagedWorkspaceFile_def zero_AdditionalWorkspace_def
  zero_BootstrapSpec_def zero_WorkspaceSpec_def zero_VerifiedPluginSpec_def
  zero_PluginInstallSpec_def zero_ResourceList_def zero_ResourcesSpec_def
  zero_PodSecurityContextSpec_def zero_ContainerSecurityContextSpec_def
  zero_NetworkPolicySpec_def zero_RBACRule_def zero_RBACSpec_def zero_CABundleSpec_def
  zero_SecuritySpec_def zero_PersistenceSpec_def zero_StorageSpec_def
  zero_ChromiumPersistenceSpec_def zero_ChromiumSpec_def zero_TailscaleSpec_def
  zero_NetBirdSpec_def zero_OllamaStorageSpec_def zero_OllamaSpec_def
  zero_WebTerminalCredentialSpec_def zero_WebTerminalSpec_def zero_ServicePortSpec_def
  zero_ServiceSpec_def zero_IngressPath_def zero_IngressHost_def zero_IngressTLS_def
  zero_RateLimitingSpec_def zero_IngressBasicAuthSpec_def zero_IngressSecuritySpec_def
  zero_IngressSpec_def zero_HTTPRouteParentRef_def zero_HTTPRouteSpec_def
  zero_MetricsIngressSpec_def zero_NetworkingSpec_def zero_ProbeSpec_def
  zero_DiskReadinessSpec_def zero_ProbesSpec_def zero_OTelCollectorSpec_def
  zero_ServiceMonitorSpec_def zero_PrometheusRuleSpec_def zero_GrafanaDashboardSpec_def
  zero_MetricsSpec_def zero_LoggingSpec_def zero_ObservabilitySpec_def
  zero_PodDisruptionBudgetSpec_def zero_AutoScalingSpec_def zero_AvailabilitySpec_def
  zero_BackupSpec_def zero_RuntimeDepsSpec_def zero_GatewaySpec_def zero_AutoUpdateSpec_def
  zero_SelfConfigureSpec_def zero_OpenClawInstanceSpec_def zero_ManagedWorkspaceFileStatus_def
  zero_ManagedResourcesStatus_def zero_AutoUpdateStatus_def zero_OpenClawInstanceStatus_def
  zero_OpenClawClusterDefaultsSpec_def zero_SelfConfigEnvVar_def zero_OpenClawSelfConfigSpec_def
  zero_OpenClawSelfConfigStatus_def

section \<open>The custom resources\<close>

record OpenClawInstance =
  oci_Meta :: ObjectMeta
  oci_Spec :: OpenClawInstanceSpec
  oci_Status :: OpenClawInstanceStatus

record OpenClawSelfConfig =
  osc_Meta :: ObjectMeta
  osc_Spec :: OpenClawSelfConfigSpec
  osc_Status :: OpenClawSelfConfigStatus

definition zero_OpenClawInstance :: OpenClawInstance where
  "zero_OpenClawInstance =
     \<lparr>oci_Meta = zero_ObjectMeta, oci_Spec = zero_OpenClawInstanceSpec,
      oci_Status = zero_OpenClawInstanceStatus\<rparr>"

section \<open>Phases and condition types\<close>

definition PhasePending :: string where "PhasePending = ''Pending''"
definition PhaseProvisioning :: string where "PhaseProvisioning = ''Provisioning''"
definition PhaseRunning :: string where "PhaseRunning = ''Running''"
definition PhaseDegraded :: string where "PhaseDegraded = ''Degraded''"
definition PhaseFailed :: string where "PhaseFailed = ''Failed''"
definition PhaseTerminating :: string where "PhaseTerminating = ''Terminating''"
definition PhaseBackingUp :: string where "PhaseBackingUp = ''BackingUp''"
definition PhaseRestoring :: string where "PhaseRestoring = ''Restoring''"
definition PhaseUpdating :: string where "PhaseUpdating = ''Updating''"
definition PhaseSuspended :: string where "PhaseSuspended = ''Suspended''"

lemmas phase_defs = PhasePending_def PhaseProvisioning_def PhaseRunning_def PhaseDegraded_def
  PhaseFailed_def PhaseTerminating_def PhaseBackingUp_def PhaseRestoring_def PhaseUpdating_def
  PhaseSuspended_def

definition ConditionTypeReady :: string where "ConditionTypeReady = ''Ready''"
definition ConditionTypeConfigValid :: string where "ConditionTypeConfigValid = ''ConfigValid''"
definition ConditionTypeStatefulSetReady :: string where
  "ConditionTypeStatefulSetReady = ''StatefulSetReady''"
definition ConditionTypeBackupComplete :: string where
  "ConditionTypeBackupComplete = ''BackupComplete''"
definition ConditionTypeRestoreComplete :: string where
  "ConditionTypeRestoreComplete = ''RestoreComplete''"
definition ConditionTypeAutoUpdateAvailable :: string where
  "ConditionTypeAutoUpdateAvailable = ''AutoUpdateAvailable''"
definition ConditionTypeScheduledBackupReady :: string where
  "ConditionTypeScheduledBackupReady = ''ScheduledBackupReady''"
definition ConditionTypeSkillPacksReady :: string where
  "ConditionTypeSkillPacksReady = ''SkillPacksReady''"

definition ConditionTrue :: string where "ConditionTrue = ''True''"
definition ConditionFalse :: string where "ConditionFalse = ''False''"

section \<open>Writing through the nested records\<close>

text \<open>
  \<open>setPhase\<close>, \<open>updAU\<close> and \<open>setTag\<close> are the assignments
  \<^verbatim>\<open>instance.Status.Phase = p\<close>, \<^verbatim>\<open>instance.Status.AutoUpdate.X = v\<close> and
  \<^verbatim>\<open>instance.Spec.Image.Tag = t\<close>.
\<close>

abbreviation au_of :: "OpenClawInstance \<Rightarrow> AutoUpdateStatus" where
  "au_of i \<equiv> st_AutoUpdate (oci_Status i)"

abbreviation tag_of :: "OpenClawInstance \<Rightarrow> string" where
  "tag_of i \<equiv> img_Tag (spec_Image (oci_Spec i))"

definition updStatus ::
    "(OpenClawInstanceStatus \<Rightarrow> OpenClawInstanceStatus) \<Rightarrow> OpenClawInstance \<Rightarrow> OpenClawInstance" where
  "updStatus f i = i\<lparr>oci_Status := f (oci_Status i)\<rparr>"

definition updAU :: "(AutoUpdateStatus \<Rightarrow> AutoUpdateStatus) \<Rightarrow> OpenClawInstance \<Rightarrow> OpenClawInstance" where
  "updAU f i = updStatus (\<lambda>s. s\<lparr>st_AutoUpdate := f (st_AutoUpdate s)\<rparr>) i"

definition setPhase :: "string \<Rightarrow> OpenClawInstance \<Rightarrow> OpenClawInstance" where
  "setPhase p i = updStatus (\<lambda>s. s\<lparr>st_Phase := p\<rparr>) i"

definition setTag :: "string \<Rightarrow> OpenClawInstance \<Rightarrow> OpenClawInstance" where
  "setTag t i = i\<lparr>oci_Spec := (oci_Spec i)\<lparr>spec_Image := (spec_Image (oci_Spec i))\<lparr>img_Tag := t\<rparr>\<rparr>\<rparr>"

lemma updStatus_sel [simp]:
  "oci_Status (updStatus f i) = f (oci_Status i)" "oci_Spec (updStatus f i) = oci_Spec i"
  "oci_Meta (updStatus f i) = oci_Meta i"
  by (simp_all add: updStatus_def)

lemma updAU_sel [simp]:
  "oci_Status (updAU f i) = (oci_Status i)\<lparr>st_AutoUpdate := f (au_of i)\<rparr>"
  "oci_Spec (updAU f i) = oci_Spec i" "oci_Meta (updAU f i) = oci_Meta i"
  by (simp_all add: updAU_def)

lemma setPhase_sel [simp]:
  "oci_Status (setPhase p i) = (oci_Status i)\<lparr>st_Phase := p\<rparr>"
  "oci_Spec (setPhase p i) = oci_Spec i" "oci_Meta (setPhase p i) = oci_Meta i"
  by (simp_all add: setPhase_def)

lemma setTag_sel [simp]:
  "oci_Status (setTag t i) = oci_Status i" "tag_of (setTag t i) = t"
  "oci_Meta (setTag t i) = oci_Meta i"
  by (simp_all add: setTag_def)

end
