(* ===== verification/Common.thy ===== *)
theory Common
  imports Types
begin

text \<open>
  internal/resources/common.go and cluster_defaults.go: the names of the managed resources,
  defaulted accessors, image references with the registry override, the Chromium launch
  arguments and the cluster-wide defaults. The locale \<open>keyed_override\<close> is the contract the two
  merges by key (\<open>deduplicateArgs\<close>, \<open>mergeEnvVars\<close>) share.
\<close>

section \<open>Overriding a keyed list\<close>

definition findKey :: "('a \<Rightarrow> 'k) \<Rightarrow> 'k \<Rightarrow> 'a list \<Rightarrow> 'a option" where
  "findKey key k xs = List.find (\<lambda>x. key x = k) xs"

lemma findKey_Nil [simp]: "findKey key k [] = None"
  by (simp add: findKey_def)

lemma findKey_Cons: "findKey key k (x # xs) = (if key x = k then Some x else findKey key k xs)"
  by (simp add: findKey_def)

lemma findKey_None: "findKey key k xs = None \<longleftrightarrow> k \<notin> key ` set xs"
  by (induction xs) (auto simp: findKey_Cons)

lemma findKey_fresh: "k \<notin> key ` set xs \<Longrightarrow> findKey key k xs = None"
  by (simp add: findKey_None)

lemma findKey_Some: "findKey key k xs = Some x \<Longrightarrow> x \<in> set xs \<and> key x = k"
  by (induction xs) (auto simp: findKey_Cons split: if_splits)

lemma findKey_distinct:
  "distinct (map key xs) \<Longrightarrow> findKey key k xs = Some x \<longleftrightarrow> x \<in> set xs \<and> key x = k"
  by (induction xs) (auto simp: findKey_Cons)

lemma findKey_append:
  "findKey key k (xs @ ys) = (case findKey key k xs of Some x \<Rightarrow> Some x | None \<Rightarrow> findKey key k ys)"
  by (induction xs) (auto simp: findKey_Cons)

lemma findKey_update:
  "i < length xs \<Longrightarrow> key (xs ! i) = key a \<Longrightarrow> distinct (map key xs) \<Longrightarrow>
   findKey key k (xs[i := a]) = (if key a = k then Some a else findKey key k xs)"
proof (induction xs arbitrary: i)
  case (Cons x xs)
  show ?case
  proof (cases i)
    case (Suc j)
    with Cons.prems have "key x \<noteq> key a" by (auto simp: image_iff) (metis nth_mem)
    with Suc Cons show ?thesis by (auto simp: findKey_Cons)
  qed (use Cons.prems in \<open>auto simp: findKey_Cons\<close>)
qed simp

locale keyed_override =
  fixes key :: "'a \<Rightarrow> string"
    and merge :: "'a list \<Rightarrow> 'a list \<Rightarrow> 'a list"
  assumes lookup_merge:
    "distinct (map key ds) \<Longrightarrow> distinct (map key es) \<Longrightarrow>
     findKey key k (merge ds es) =
       (case findKey key k es of Some e \<Rightarrow> Some e | None \<Rightarrow> findKey key k ds)"
    and distinct_merge:
    "distinct (map key ds) \<Longrightarrow> distinct (map key es) \<Longrightarrow> distinct (map key (merge ds es))"
begin

lemma mem_merge_iff:
  assumes "distinct (map key ds)" "distinct (map key es)"
  shows "x \<in> set (merge ds es) \<longleftrightarrow> x \<in> set es \<or> (x \<in> set ds \<and> key x \<notin> key ` set es)"
proof -
  have "x \<in> set (merge ds es) \<longleftrightarrow> findKey key (key x) (merge ds es) = Some x"
    using findKey_distinct [OF distinct_merge [OF assms]] by auto
  also have "\<dots> \<longleftrightarrow> x \<in> set es \<or> (x \<in> set ds \<and> key x \<notin> key ` set es)"
  proof (cases "findKey key (key x) es")
    case None
    then have "key x \<notin> key ` set es" by (simp add: findKey_None)
    then show ?thesis using assms None by (auto simp: lookup_merge findKey_distinct)
  next
    case (Some e)
    then have "e \<in> set es \<and> key e = key x" by (rule findKey_Some)
    then have "key x \<in> key ` set es" by (metis imageI)
    then show ?thesis
      using assms Some findKey_distinct [OF assms(2), of "key x" x] by (auto simp: lookup_merge)
  qed
  finally show ?thesis .
qed

lemma keys_merge:
  assumes "distinct (map key ds)" "distinct (map key es)"
  shows "key ` set (merge ds es) = key ` set ds \<union> key ` set es"
  using mem_merge_iff [OF assms] by (auto simp: image_iff)

lemma merge_idem:
  assumes "distinct (map key ds)" "distinct (map key es)"
  shows "set (merge (merge ds es) es) = set (merge ds es)"
  using mem_merge_iff [OF assms] mem_merge_iff [OF distinct_merge [OF assms] assms(2)] by auto

end

section \<open>Chromium launch arguments\<close>

text \<open>\<^verbatim>\<open>argKey\<close>: everything before the first \<^verbatim>\<open>=\<close>.\<close>

definition argKey :: "string \<Rightarrow> string" where
  "argKey arg = takeWhile (\<lambda>c. c \<noteq> CHR ''='') arg"

type_synonym dedup_state = "(string \<times> nat) list \<times> string list"

definition dedupDefault :: "string \<Rightarrow> dedup_state \<Rightarrow> dedup_state" where
  "dedupDefault arg st = (case st of (seen, result) \<Rightarrow>
     (AList.update (argKey arg) (length result) seen, result @ [arg]))"

definition dedupExtra :: "string \<Rightarrow> dedup_state \<Rightarrow> dedup_state" where
  "dedupExtra arg st = (case st of (seen, result) \<Rightarrow>
     (case map_of seen (argKey arg) of
        Some idx \<Rightarrow> (seen, result[idx := arg])
      | None \<Rightarrow> (AList.update (argKey arg) (length result) seen, result @ [arg])))"

definition deduplicateArgs :: "string list \<Rightarrow> string list \<Rightarrow> string list" where
  "deduplicateArgs defaults extras =
     snd (fold dedupExtra extras (fold dedupDefault defaults ([], [])))"

text \<open>The index map names, for each key of the result, the place of its argument.\<close>

definition dedup_inv :: "dedup_state \<Rightarrow> bool" where
  "dedup_inv st = (case st of (seen, result) \<Rightarrow>
     distinct (map argKey result) \<and>
     (\<forall>k i. map_of seen k = Some i \<longleftrightarrow> i < length result \<and> argKey (result ! i) = k))"

lemma dedup_inv_fresh:
  assumes "dedup_inv (seen, result)"
  shows "map_of seen k = None \<longleftrightarrow> k \<notin> argKey ` set result"
proof
  assume "map_of seen k = None"
  then show "k \<notin> argKey ` set result"
    using assms by (auto simp: dedup_inv_def in_set_conv_nth) (metis option.distinct(1))
next
  assume k: "k \<notin> argKey ` set result"
  show "map_of seen k = None"
  proof (rule ccontr)
    assume "map_of seen k \<noteq> None"
    then obtain i where "map_of seen k = Some i" by auto
    then have "i < length result \<and> argKey (result ! i) = k"
      using assms by (simp add: dedup_inv_def)
    with k show False by auto
  qed
qed

lemma dedup_inv_append:
  assumes "dedup_inv (seen, result)" "argKey arg \<notin> argKey ` set result"
  shows "dedup_inv (AList.update (argKey arg) (length result) seen, result @ [arg])"
proof -
  have "argKey (result ! i) \<noteq> argKey arg" if "i < length result" for i
    using assms(2) that by (metis imageI nth_mem)
  with assms show ?thesis by (auto simp: dedup_inv_def update_conv' nth_append)
qed

lemma dedup_inv_extra:
  assumes "dedup_inv st" shows "dedup_inv (dedupExtra arg st)"
proof (cases st)
  case (Pair seen result)
  show ?thesis
  proof (cases "map_of seen (argKey arg)")
    case None
    then have "argKey arg \<notin> argKey ` set result" using assms Pair dedup_inv_fresh by blast
    then show ?thesis using assms Pair None dedup_inv_append by (simp add: dedupExtra_def)
  next
    case (Some i)
    with assms Pair have i: "i < length result" "argKey (result ! i) = argKey arg"
      by (auto simp: dedup_inv_def)
    then have "map argKey (result[i := arg]) = map argKey result"
      by (metis list_update_id map_update)
    moreover from this have "argKey (result[i := arg] ! j) = argKey (result ! j)"
      if "j < length result" for j
      using that by (metis length_list_update nth_map)
    moreover have "dedupExtra arg st = (seen, result[i := arg])"
      using Pair Some by (simp add: dedupExtra_def)
    ultimately show ?thesis
      using assms Pair by (auto simp: dedup_inv_def)
  qed
qed

lemma dedupExtra_find:
  assumes "dedup_inv st"
  shows "findKey argKey k (snd (dedupExtra arg st)) =
         (if argKey arg = k then Some arg else findKey argKey k (snd st))"
proof -
  obtain seen result where st: "st = (seen, result)" by (cases st)
  have inv: "distinct (map argKey result)" using assms st by (simp add: dedup_inv_def)
  show ?thesis
  proof (cases "map_of seen (argKey arg)")
    case None
    with assms st have "argKey arg \<notin> argKey ` set result" using dedup_inv_fresh by blast
    then have "findKey argKey (argKey arg) result = None" by (simp add: findKey_None)
    with None st show ?thesis
      by (cases "findKey argKey k result") (auto simp: dedupExtra_def findKey_append findKey_Cons)
  next
    case (Some i)
    with assms st have i: "i < length result" "argKey (result ! i) = argKey arg"
      by (auto simp: dedup_inv_def)
    with inv st Some show ?thesis by (simp add: dedupExtra_def findKey_update)
  qed
qed

lemma dedup_defaults:
  "distinct (map argKey (result @ ds)) \<Longrightarrow> dedup_inv (seen, result) \<Longrightarrow>
   \<exists>seen'. fold dedupDefault ds (seen, result) = (seen', result @ ds) \<and> dedup_inv (seen', result @ ds)"
proof (induction ds arbitrary: seen result)
  case (Cons d ds)
  have "dedup_inv (dedupDefault d (seen, result))"
    using Cons.prems by (auto simp: dedupDefault_def intro!: dedup_inv_append)
  then show ?case
    using Cons.IH [of "result @ [d]"] Cons.prems(1) by (simp add: dedupDefault_def)
qed auto

lemma dedup_extras:
  "dedup_inv st \<Longrightarrow> distinct (map argKey es) \<Longrightarrow>
   dedup_inv (fold dedupExtra es st) \<and>
   findKey argKey k (snd (fold dedupExtra es st)) =
     (case findKey argKey k es of Some e \<Rightarrow> Some e | None \<Rightarrow> findKey argKey k (snd st))"
proof (induction es arbitrary: st)
  case (Cons e es)
  then have IH: "dedup_inv (fold dedupExtra es (dedupExtra e st))"
    "findKey argKey k (snd (fold dedupExtra es (dedupExtra e st))) =
       (case findKey argKey k es of Some e \<Rightarrow> Some e | None \<Rightarrow> findKey argKey k (snd (dedupExtra e st)))"
    using dedup_inv_extra by auto
  from Cons.prems(2) have "findKey argKey (argKey e) es = None" by (auto simp: findKey_None)
  with IH show ?case
    by (auto simp: dedupExtra_find [OF Cons.prems(1)] findKey_Cons split: option.splits)
qed simp

interpretation chromium_args: keyed_override argKey deduplicateArgs
proof
  fix ds es :: "string list" and k
  assume d: "distinct (map argKey ds)" and e: "distinct (map argKey es)"
  have "dedup_inv ([], [])" by (simp add: dedup_inv_def)
  with d obtain seen where
    "fold dedupDefault ds ([], []) = (seen, ds)" "dedup_inv (seen, ds)"
    using dedup_defaults [of "[]" ds "[]"] by auto
  with dedup_extras [OF this(2) e, of k]
  show "findKey argKey k (deduplicateArgs ds es) =
       (case findKey argKey k es of Some e \<Rightarrow> Some e | None \<Rightarrow> findKey argKey k ds)"
    and "distinct (map argKey (deduplicateArgs ds es))"
    by (auto simp: deduplicateArgs_def dedup_inv_def split: prod.splits option.splits)
qed

definition DefaultChromiumLaunchArgs :: "string list" where
  "DefaultChromiumLaunchArgs =
     [''--no-sandbox'', ''--disable-gpu'', ''--disable-software-rasterizer'',
      ''--disable-blink-features=AutomationControlled'', ''--disable-features=AutomationControlled'',
      ''--no-first-run'', ''--disable-oom-score-adj'']"

definition ChromiumArgs :: "OpenClawInstance \<Rightarrow> string list" where
  "ChromiumArgs inst =
     (let args = deduplicateArgs DefaultChromiumLaunchArgs (ch_ExtraArgs (spec_Chromium (oci_Spec inst)))
      in if chp_Enabled (ch_Persistence (spec_Chromium (oci_Spec inst)))
         then args @ [''--user-data-dir=/chromium-data''] else args)"

section \<open>Labels and names\<close>

abbreviation oname :: "OpenClawInstance \<Rightarrow> string" where
  "oname i \<equiv> om_Name (oci_Meta i)"

abbreviation onamespace :: "OpenClawInstance \<Rightarrow> string" where
  "onamespace i \<equiv> om_Namespace (oci_Meta i)"

definition AppName :: string where "AppName = ''openclaw''"
definition DefaultImageTag :: string where "DefaultImageTag = ''latest''"

definition Labels :: "OpenClawInstance \<Rightarrow> gomap" where
  "Labels inst =
     [(''app.kubernetes.io/name'', AppName),
      (''app.kubernetes.io/instance'', oname inst),
      (''app.kubernetes.io/managed-by'', ''openclaw-operator'')]"

definition SelectorLabels :: "OpenClawInstance \<Rightarrow> gomap" where
  "SelectorLabels inst =
     [(''app.kubernetes.io/name'', AppName), (''app.kubernetes.io/instance'', oname inst)]"

definition StatefulSetName :: "OpenClawInstance \<Rightarrow> string" where
  "StatefulSetName inst = oname inst"
definition DeploymentName :: "OpenClawInstance \<Rightarrow> string" where
  "DeploymentName inst = oname inst"
definition ServiceName :: "OpenClawInstance \<Rightarrow> string" where
  "ServiceName inst = oname inst"
definition ChromiumCDPServiceName :: "OpenClawInstance \<Rightarrow> string" where
  "ChromiumCDPServiceName inst = oname inst @ ''-cdp''"
definition ServiceAccountName :: "OpenClawInstance \<Rightarrow> string" where
  "ServiceAccountName inst =
     (let sa = rbac_ServiceAccountName (sec_RBAC (spec_Security (oci_Spec inst)))
      in if sa \<noteq> [] then sa else oname inst)"
definition RoleName :: "OpenClawInstance \<Rightarrow> string" where
  "RoleName inst = oname inst"
definition RoleBindingName :: "OpenClawInstance \<Rightarrow> string" where
  "RoleBindingName inst = oname inst"
definition ConfigMapName :: "OpenClawInstance \<Rightarrow> string" where
  "ConfigMapName inst = oname inst @ ''-config''"
definition WorkspaceConfigMapName :: "OpenClawInstance \<Rightarrow> string" where
  "WorkspaceConfigMapName inst = oname inst @ ''-workspace''"
definition PVCName :: "OpenClawInstance \<Rightarrow> string" where
  "PVCName inst = oname inst @ ''-data''"
definition ChromiumPVCName :: "OpenClawInstance \<Rightarrow> string" where
  "ChromiumPVCName inst = oname inst @ ''-chromium-data''"
definition NetworkPolicyName :: "OpenClawInstance \<Rightarrow> string" where
  "NetworkPolicyName inst = oname inst"
definition PDBName :: "OpenClawInstance \<Rightarrow> string" where
  "PDBName inst = oname inst"
definition IngressName :: "OpenClawInstance \<Rightarrow> string" where
  "IngressName inst = oname inst"
definition GatewayTokenSecretName :: "OpenClawInstance \<Rightarrow> string" where
  "GatewayTokenSecretName inst = oname inst @ ''-gateway-token''"
definition BasicAuthSecretName :: "OpenClawInstance \<Rightarrow> string" where
  "BasicAuthSecretName inst = oname inst @ ''-basic-auth''"
definition TailscaleStateSecretName :: "OpenClawInstance \<Rightarrow> string" where
  "TailscaleStateSecretName inst = oname inst @ ''-ts-state''"

section \<open>Defaulted flags\<close>

definition IsPersistenceEnabled :: "OpenClawInstance \<Rightarrow> bool" where
  "IsPersistenceEnabled inst = defaultTrue (pers_Enabled (stor_Persistence (spec_Storage (oci_Spec inst))))"
definition IsDataOwnershipFixEnabled :: "OpenClawInstance \<Rightarrow> bool" where
  "IsDataOwnershipFixEnabled inst = defaultTrue (stor_FixOwnership (spec_Storage (oci_Spec inst)))"
definition IsGatewayProxyEnabled :: "OpenClawInstance \<Rightarrow> bool" where
  "IsGatewayProxyEnabled inst = defaultTrue (gw_Enabled (spec_Gateway (oci_Spec inst)))"
definition IsMetricsEnabled :: "OpenClawInstance \<Rightarrow> bool" where
  "IsMetricsEnabled inst = defaultTrue (met_Enabled (obs_Metrics (spec_Observability (oci_Spec inst))))"
definition MetricsPort :: "OpenClawInstance \<Rightarrow> int" where
  "MetricsPort inst = derefOr 9090 (met_Port (obs_Metrics (spec_Observability (oci_Spec inst))))"

section \<open>Image references\<close>

text \<open>A registry with a port: everything after the last colon is a digit, and there is something.\<close>

definition looksLikeRegistry :: "string \<Rightarrow> bool" where
  "looksLikeRegistry s =
     (if strContains s ''.'' then True
      else if hasPrefix s ''['' \<and> strContains s '']'' then True
      else case lastIndexByte s (CHR '':'') of
             None \<Rightarrow> False
           | Some colonIdx \<Rightarrow>
               colonIdx < length s - 1 \<and>
               list_all (\<lambda>c. CHR ''0'' \<le> c \<and> c \<le> CHR ''9'') (drop (Suc colonIdx) s))"

definition ApplyRegistryOverride :: "string \<Rightarrow> string \<Rightarrow> string" where
  "ApplyRegistryOverride imageRef registry =
     (if registry = [] then imageRef
      else
        let registry = trimRightByte (CHR ''/'') registry;
            imageRef = trimPrefix imageRef ''docker.io/library/'';
            imageRef = trimPrefix imageRef ''docker.io/''
        in case strIndex imageRef ''/'' of
             None \<Rightarrow> registry @ ''/'' @ imageRef
           | Some slashIndex \<Rightarrow>
               if looksLikeRegistry (take slashIndex imageRef)
               then registry @ drop slashIndex imageRef
               else registry @ ''/'' @ imageRef)"

definition GetImageRepository :: "OpenClawInstance \<Rightarrow> string" where
  "GetImageRepository inst =
     (let repo = img_Repository (spec_Image (oci_Spec inst))
      in if repo \<noteq> [] then repo else ''ghcr.io/openclaw/openclaw'')"

definition GetImageTag :: "OpenClawInstance \<Rightarrow> string" where
  "GetImageTag inst =
     (let tag = img_Tag (spec_Image (oci_Spec inst)) in if tag \<noteq> [] then tag else DefaultImageTag)"

definition GetImage :: "OpenClawInstance \<Rightarrow> string" where
  "GetImage inst =
     (let repo = GetImageRepository inst;
          digest = img_Digest (spec_Image (oci_Spec inst));
          imageRef = (if digest \<noteq> [] then repo @ ''@'' @ digest else repo @ '':'' @ GetImageTag inst)
      in ApplyRegistryOverride imageRef (spec_Registry (oci_Spec inst)))"

definition GetTailscaleImage :: "OpenClawInstance \<Rightarrow> string" where
  "GetTailscaleImage inst =
     (let im = ts_Image (spec_Tailscale (oci_Spec inst));
          repo = strOr (si_Repository im) ''ghcr.io/tailscale/tailscale'';
          imageRef = (if si_Digest im \<noteq> [] then repo @ ''@'' @ si_Digest im
                   else repo @ '':'' @ strOr (si_Tag im) DefaultImageTag)
      in ApplyRegistryOverride imageRef (spec_Registry (oci_Spec inst)))"

definition GetUVImage :: "OpenClawInstance \<Rightarrow> string" where
  "GetUVImage inst =
     (let imageSpec = rd_UVImage (spec_RuntimeDeps (oci_Spec inst));
          repo = (case imageSpec of
                    Some im \<Rightarrow> strOr (si_Repository im) ''ghcr.io/astral-sh/uv''
                  | None \<Rightarrow> ''ghcr.io/astral-sh/uv'');
          imageRef = (case imageSpec of
                     Some im \<Rightarrow>
                       if si_Digest im \<noteq> [] then repo @ ''@'' @ si_Digest im
                       else repo @ '':'' @ strOr (si_Tag im) ''0.6-bookworm-slim''
                   | None \<Rightarrow> repo @ '':'' @ ''0.6-bookworm-slim'')
      in ApplyRegistryOverride imageRef (spec_Registry (oci_Spec inst)))"

definition GetGatewayProxyImage :: "OpenClawInstance \<Rightarrow> string" where
  "GetGatewayProxyImage inst =
     (let im = gw_Image (spec_Gateway (oci_Spec inst));
          repo = strOr (si_Repository im) ''docker.io/library/nginx'';
          imageRef = (if si_Digest im \<noteq> [] then repo @ ''@'' @ si_Digest im
                   else repo @ '':'' @ strOr (si_Tag im) ''1.27-alpine'')
      in ApplyRegistryOverride imageRef (spec_Registry (oci_Spec inst)))"

text \<open>
  What the override does: the text before the first slash of the normalised image is the
  only part that can be lost, so anything without a slash at the end survives.
\<close>

lemma suffix_drop_le: "suffix t s \<Longrightarrow> n + length t \<le> length s \<Longrightarrow> suffix t (drop n s)"
  by (auto simp: suffix_def)

lemma prefix_slash_le:
  assumes "prefix (p @ ''/'') (repo @ sfx)" "CHR ''/'' \<notin> set sfx"
  shows "length (p @ ''/'') \<le> length repo"
proof (rule ccontr)
  assume "\<not> length (p @ ''/'') \<le> length repo"
  then obtain m where m: "length p = length repo + m" by (metis add.commute le_Suc_ex
        length_append_singleton not_less_eq_eq)
  from assms(1) obtain zs where z: "repo @ sfx = p @ CHR ''/'' # zs" by (auto simp: prefix_def)
  have "(repo @ sfx) ! length p = CHR ''/''" "length p < length (repo @ sfx)"
    unfolding z by simp_all
  with m have "sfx ! m = CHR ''/''" "m < length sfx" by (auto simp: nth_append)
  with assms(2) show False by (metis nth_mem)
qed

lemma trimPrefix_slash_suffix:
  assumes "CHR ''/'' \<notin> set sfx"
  shows "\<exists>repo'. trimPrefix (repo @ sfx) (p @ ''/'') = repo' @ sfx"
proof (cases "prefix (p @ ''/'') (repo @ sfx)")
  case True
  then have "length (p @ ''/'') \<le> length repo" using assms by (rule prefix_slash_le)
  with True show ?thesis unfolding trimPrefix_def by (simp del: length_append)
qed (auto simp: trimPrefix_def)

lemma strIndex_slash_le:
  assumes "strIndex (repo @ sfx) ''/'' = Some i" "CHR ''/'' \<notin> set sfx"
  shows "i < length repo"
proof (rule ccontr)
  assume n: "\<not> i < length repo"
  have "prefix ''/'' (drop i (repo @ sfx))" using assms(1) by (rule strIndex_Some)
  with n have "CHR ''/'' \<in> set (drop (i - length repo) sfx)" by (auto simp: prefix_def)
  with assms(2) show False by (meson in_set_dropD)
qed

lemma suffix_slash: "suffix s (a @ c # b @ s)"
  by (rule suffixI [of _ "a @ c # b"]) simp

lemma ApplyRegistryOverride_suffix:
  assumes "CHR ''/'' \<notin> set sfx"
  shows "suffix sfx (ApplyRegistryOverride (repo @ sfx) registry)"
proof (cases "registry = []")
  case False
  obtain r1 where r1: "trimPrefix (repo @ sfx) ''docker.io/library/'' = r1 @ sfx"
    using trimPrefix_slash_suffix [OF assms, of repo "''docker.io/library''"] by auto
  obtain r2 where r2: "trimPrefix (r1 @ sfx) ''docker.io/'' = r2 @ sfx"
    using trimPrefix_slash_suffix [OF assms, of r1 "''docker.io''"] by auto
  have "suffix sfx (drop i (r2 @ sfx))" if "strIndex (r2 @ sfx) ''/'' = Some i" for i
    using strIndex_slash_le [OF that assms] by (auto simp: suffix_def)
  then show ?thesis
    using False by (auto simp: ApplyRegistryOverride_def r1 r2 Let_def suffix_appendI suffix_slash
        split: option.splits)
qed (simp add: ApplyRegistryOverride_def suffix_def)

lemma drop_strIndex_slash: "strIndex s ''/'' = Some i \<Longrightarrow> \<exists>t. drop i s = CHR ''/'' # t"
  by (drule strIndex_Some) (auto simp: prefix_def)

lemma ApplyRegistryOverride_prefix:
  assumes "registry \<noteq> []"
  shows "\<exists>rest. ApplyRegistryOverride imageRef registry =
           trimRightByte (CHR ''/'') registry @ ''/'' @ rest"
  using assms by (auto simp: ApplyRegistryOverride_def Let_def dest: drop_strIndex_slash split: option.splits)

lemma strIndex_slash_first:
  assumes "CHR ''/'' \<notin> set r" shows "strIndex (r @ CHR ''/'' # t) ''/'' = Some (length r)"
  using assms by (induction r) (auto simp: strIndex.simps)

lemma ApplyRegistryOverride_fixed:
  assumes "CHR ''/'' \<notin> set r" "looksLikeRegistry r" "r \<noteq> ''docker.io''" "trimRightByte (CHR ''/'') registry = r"
  shows "ApplyRegistryOverride (r @ ''/'' @ t) registry = r @ ''/'' @ t"
proof -
  have np: "\<not> prefix (''docker.io/'' @ q) (r @ CHR ''/'' # t)" for q
  proof
    assume p: "prefix (''docker.io/'' @ q) (r @ CHR ''/'' # t)"
    then have "strIndex (r @ CHR ''/'' # t) ''/'' = Some 9"
      by (auto simp: prefix_def strIndex.simps)
    with assms(1) have "length r = 9" by (simp add: strIndex_slash_first)
    then have "r = take 9 (r @ CHR ''/'' # t)" by simp
    also have "\<dots> = ''docker.io''" using p unfolding prefix_def by (auto simp del: take_append)
    finally have "r = ''docker.io''" .
    with assms(3) show False by simp
  qed
  have "trimPrefix (r @ CHR ''/'' # t) ''docker.io/library/'' = r @ CHR ''/'' # t"
    using np [of "''library/''"] by (simp add: trimPrefix_def)
  moreover have "trimPrefix (r @ CHR ''/'' # t) ''docker.io/'' = r @ CHR ''/'' # t"
    using np [of "[]"] by (simp add: trimPrefix_def)
  ultimately show ?thesis
    using assms(1,2,4) by (simp add: ApplyRegistryOverride_def strIndex_slash_first Let_def)
qed

section \<open>Cluster-wide defaults\<close>

text \<open>\<^verbatim>\<open>instanceByName\<close> is filled in list order, so the last entry of a name wins.\<close>

definition mergeEnvVars :: "EnvVar list \<Rightarrow> EnvVar list \<Rightarrow> EnvVar list" where
  "mergeEnvVars defaults inst =
     (if defaults = [] then inst
      else
        map (\<lambda>d. derefOr d (findKey ev_Name (ev_Name d) (rev inst))) defaults
        @ filter (\<lambda>e. ev_Name e \<notin> ev_Name ` set defaults) inst)"

lemma findKey_rev: "distinct (map key xs) \<Longrightarrow> findKey key k (rev xs) = findKey key k xs"
  by (induction xs) (auto simp: findKey_append findKey_Cons findKey_fresh split: option.splits
      dest: findKey_Some)

lemma findKey_map_override:
  "distinct (map key es) \<Longrightarrow>
   findKey key k (map (\<lambda>d. derefOr d (findKey key (key d) es)) ds) =
     (if k \<in> key ` set ds
      then (case findKey key k es of Some e \<Rightarrow> Some e | None \<Rightarrow> findKey key k ds) else None)"
  by (induction ds) (auto simp: findKey_Cons derefOr_def dest: findKey_Some split: option.splits)

lemma findKey_filter: "findKey key k (filter (\<lambda>e. key e \<notin> A) es) = (if k \<in> A then None else findKey key k es)"
  by (induction es) (auto simp: findKey_Cons)

lemma key_override [simp]: "key (derefOr d (findKey key (key d) es)) = key d"
  by (cases "findKey key (key d) es") (auto dest: findKey_Some)

interpretation env_defaults: keyed_override ev_Name mergeEnvVars
proof
  fix ds es :: "EnvVar list" and k
  assume d: "distinct (map ev_Name ds)" and e: "distinct (map ev_Name es)"
  show "findKey ev_Name k (mergeEnvVars ds es) =
       (case findKey ev_Name k es of Some e \<Rightarrow> Some e | None \<Rightarrow> findKey ev_Name k ds)"
  proof (cases "k \<in> ev_Name ` set ds")
    case True
    then show ?thesis
      using e by (auto simp: mergeEnvVars_def findKey_append findKey_rev findKey_map_override
          findKey_filter split: option.splits)
  next
    case False
    then show ?thesis
      using e by (auto simp: mergeEnvVars_def findKey_append findKey_rev findKey_map_override
          findKey_filter findKey_fresh split: option.splits)
  qed
  have "map ev_Name (map (\<lambda>d. derefOr d (findKey ev_Name (ev_Name d) (rev es))) ds) = map ev_Name ds"
    by simp
  moreover have "distinct (map ev_Name (filter (\<lambda>x. ev_Name x \<notin> ev_Name ` set ds) es))"
    using e by (simp add: distinct_map_filter)
  ultimately show "distinct (map ev_Name (mergeEnvVars ds es))"
    using d e by (auto simp: mergeEnvVars_def image_iff simp del: map_map)
qed

definition ApplyClusterDefaults ::
    "OpenClawInstance \<Rightarrow> OpenClawClusterDefaultsSpec option \<Rightarrow> OpenClawInstance" where
  "ApplyClusterDefaults inst defaults =
     (case defaults of
        None \<Rightarrow> inst
      | Some d \<Rightarrow>
          let s = oci_Spec inst; im = spec_Image s; dim = cd_Image d; rd = spec_RuntimeDeps s;
              drd = cd_RuntimeDeps d;
              im1 = im\<lparr>img_Repository := strOr (img_Repository im) (img_Repository dim)\<rparr>;
              im2 = (if img_Tag im = [] \<and> img_Digest im = [] then im1\<lparr>img_Tag := img_Tag dim\<rparr> else im1);
              im3 = im2\<lparr>img_Digest := strOr (img_Digest im) (img_Digest dim)\<rparr>;
              im4 = im3\<lparr>img_PullPolicy := strOr (img_PullPolicy im) (img_PullPolicy dim)\<rparr>;
              im5 = (if img_PullSecrets im = [] \<and> img_PullSecrets dim \<noteq> []
                     then im4\<lparr>img_PullSecrets := img_PullSecrets dim\<rparr> else im4);
              rd' = rd\<lparr>rd_Pnpm := rd_Pnpm rd \<or> rd_Pnpm drd, rd_Python := rd_Python rd \<or> rd_Python drd,
                       rd_UVImage := (case rd_UVImage rd of None \<Rightarrow> rd_UVImage drd | Some u \<Rightarrow> Some u)\<rparr>
          in inst\<lparr>oci_Spec := s\<lparr>spec_Registry := strOr (spec_Registry s) (cd_Registry d),
                               spec_Image := im5,
                               spec_Env := mergeEnvVars (cd_Env d) (spec_Env s),
                               spec_RuntimeDeps := rd'\<rparr>\<rparr>)"

text \<open>Values the user set are kept.\<close>

lemma ApplyClusterDefaults_keeps:
  fixes inst :: OpenClawInstance and d :: "OpenClawClusterDefaultsSpec option"
  defines "s \<equiv> oci_Spec inst" and "s' \<equiv> oci_Spec (ApplyClusterDefaults inst d)"
  shows "spec_Registry s \<noteq> [] \<Longrightarrow> spec_Registry s' = spec_Registry s"
    and "img_Repository (spec_Image s) \<noteq> [] \<Longrightarrow> img_Repository (spec_Image s') = img_Repository (spec_Image s)"
    and "img_Tag (spec_Image s) \<noteq> [] \<or> img_Digest (spec_Image s) \<noteq> [] \<Longrightarrow>
         img_Tag (spec_Image s') = img_Tag (spec_Image s)"
    and "img_Digest (spec_Image s) \<noteq> [] \<Longrightarrow> img_Digest (spec_Image s') = img_Digest (spec_Image s)"
    and "oci_Status (ApplyClusterDefaults inst d) = oci_Status inst"
    and "oci_Meta (ApplyClusterDefaults inst d) = oci_Meta inst"
  by (auto simp: s_def s'_def ApplyClusterDefaults_def Let_def strOr_def split: option.splits)

end
