(* ===== verification/GoTime.thy ===== *)
theory GoTime
  imports Prelude
begin

text \<open>
  Package \<^verbatim>\<open>time\<close> as the operator uses it: durations in nanoseconds, \<^verbatim>\<open>time.Since\<close>,
  \<^verbatim>\<open>time.ParseDuration\<close> (integer and fractional parts, with the float64 arithmetic of the
  fraction), the printed form of a duration and of a UTC timestamp. The locale
  \<open>clamped_duration\<close> is the contract of the operator's three bounded duration settings.
\<close>

type_synonym duration = int

definition Second :: duration where "Second = 1000000000"
definition Minute :: duration where "Minute = 60 * Second"
definition Hour :: duration where "Hour = 60 * Minute"

lemmas time_units = Second_def Minute_def Hour_def

text \<open>A difference of times saturates at the bounds of an int64.\<close>

definition since :: "int \<Rightarrow> int \<Rightarrow> duration" where
  "since now t = max (- (2 ^ 63)) (min (2 ^ 63 - 1) (now - t))"

section \<open>float64 rounding\<close>

text \<open>
  \<open>f64\<close> rounds the positive fraction \<open>p / q\<close> to the nearest float64, ties to even: with
  \<open>e\<close> the exponent that makes the significand 53 bits long, the result is an integer
  significand times a power of two, returned as a fraction again. The range of the values that
  occur (\<open>10 ^ -19\<close> to \<open>2 ^ 64\<close>) is inside the normal floats.
\<close>

definition roundHalfEven :: "nat \<Rightarrow> nat \<Rightarrow> nat" where
  "roundHalfEven p q =
     (let m = p div q; r = p mod q
      in if 2 * r > q \<or> (2 * r = q \<and> odd m) then Suc m else m)"

fun scaleUp :: "nat \<Rightarrow> nat \<Rightarrow> nat \<Rightarrow> nat" where
  "scaleUp 0 p q = 0"
| "scaleUp (Suc fuel) p q = (if p < 2 ^ 52 * q then Suc (scaleUp fuel (2 * p) q) else 0)"

fun scaleDown :: "nat \<Rightarrow> nat \<Rightarrow> nat \<Rightarrow> nat" where
  "scaleDown 0 p q = 0"
| "scaleDown (Suc fuel) p q = (if 2 ^ 53 * q \<le> p then Suc (scaleDown fuel p (2 * q)) else 0)"

definition f64 :: "nat \<times> nat \<Rightarrow> nat \<times> nat" where
  "f64 x = (case x of (p, q) \<Rightarrow>
     if p = 0 then (0, 1)
     else
       let u = scaleUp 128 p q; d = scaleDown 128 p q
       in (roundHalfEven (p * 2 ^ u) (q * 2 ^ d) * 2 ^ d, 2 ^ u))"

definition f64mul :: "nat \<times> nat \<Rightarrow> nat \<times> nat \<Rightarrow> nat \<times> nat" where
  "f64mul x y = f64 (fst x * fst y, snd x * snd y)"

definition f64div :: "nat \<times> nat \<Rightarrow> nat \<times> nat \<Rightarrow> nat \<times> nat" where
  "f64div x y = f64 (fst x * snd y, snd x * fst y)"

definition f64trunc :: "nat \<times> nat \<Rightarrow> nat" where
  "f64trunc x = fst x div snd x"

section \<open>Parsing a duration\<close>

definition isDigit :: "char \<Rightarrow> bool" where
  "isDigit c = (CHR ''0'' \<le> c \<and> c \<le> CHR ''9'')"

definition digitVal :: "char \<Rightarrow> nat" where
  "digitVal c = of_char c - 48"

text \<open>\<^verbatim>\<open>leadingInt\<close>: the leading digits; \<^const>\<open>None\<close> on overflow past \<open>2 ^ 63\<close>.\<close>

fun leadingInt :: "nat \<Rightarrow> string \<Rightarrow> (nat \<times> string) option" where
  "leadingInt x [] = Some (x, [])"
| "leadingInt x (c # s) =
     (if isDigit c then
        if 2 ^ 63 div 10 < x then None
        else let x' = x * 10 + digitVal c in if 2 ^ 63 < x' then None else leadingInt x' s
      else Some (x, c # s))"

text \<open>\<^verbatim>\<open>leadingFraction\<close>: digits past the representable range are consumed and ignored.\<close>

fun leadingFraction :: "nat \<Rightarrow> nat \<Rightarrow> bool \<Rightarrow> string \<Rightarrow> nat \<times> nat \<times> string" where
  "leadingFraction x scale over [] = (x, scale, [])"
| "leadingFraction x scale over (c # s) =
     (if isDigit c then
        if over then leadingFraction x scale True s
        else if (2 ^ 63 - 1) div 10 < x then leadingFraction x scale True s
        else let y = x * 10 + digitVal c
             in if 2 ^ 63 < y then leadingFraction x scale True s
                else leadingFraction y (scale * 10) False s
      else (x, scale, c # s))"

definition unitMap :: "(string \<times> nat) list" where
  "unitMap =
     [(''ns'', 1), (''us'', 1000), ([CHR 0xC2, CHR 0xB5, CHR ''s''], 1000),
      ([CHR 0xCE, CHR 0xBC, CHR ''s''], 1000), (''ms'', 1000000), (''s'', 1000000000),
      (''m'', 60000000000), (''h'', 3600000000000)]"

text \<open>One component of the duration: its value in nanoseconds and the rest of the string.\<close>

definition parseComponent :: "string \<Rightarrow> (nat \<times> string) option" where
  "parseComponent s =
     (case s of
        [] \<Rightarrow> None
      | c # _ \<Rightarrow>
          if \<not> (c = CHR ''.'' \<or> isDigit c) then None
          else case leadingInt 0 s of
            None \<Rightarrow> None
          | Some (v, s1) \<Rightarrow>
              let pre = length s1 \<noteq> length s;
                  (f, scale, s2) =
                    (case s1 of CHR ''.'' # t \<Rightarrow> leadingFraction 0 1 False t | _ \<Rightarrow> (0, 1, s1));
                  post = (case s1 of CHR ''.'' # t \<Rightarrow> length s2 \<noteq> length t | _ \<Rightarrow> False)
              in if \<not> pre \<and> \<not> post then None
                 else
                   let u = takeWhile (\<lambda>c. \<not> (c = CHR ''.'' \<or> isDigit c)) s2;
                       s3 = dropWhile (\<lambda>c. \<not> (c = CHR ''.'' \<or> isDigit c)) s2
                   in case map_of unitMap u of
                        None \<Rightarrow> None
                      | Some unit \<Rightarrow>
                          if 2 ^ 63 div unit < v then None
                          else
                            let v1 = v * unit;
                                v2 = (if 0 < f
                                      then v1 + f64trunc (f64mul (f64 (f, 1)) (f64div (unit, 1) (f64 (scale, 1))))
                                      else v1)
                            in if 2 ^ 63 < v2 then None else Some (v2, s3))"

text \<open>
  Every component consumes at least its unit, so the length of the string bounds the number of
  components; the counter is that bound (\<open>parseDuration_fuel\<close> below).
\<close>

fun parseComponents :: "nat \<Rightarrow> nat \<Rightarrow> string \<Rightarrow> nat option" where
  "parseComponents fuel d [] = Some d"
| "parseComponents 0 d (c # s) = None"
| "parseComponents (Suc fuel) d (c # s) =
     (case parseComponent (c # s) of
        None \<Rightarrow> None
      | Some (v, rest) \<Rightarrow>
          if 2 ^ 63 < d + v then None else parseComponents fuel (d + v) rest)"

definition parseDuration :: "string \<Rightarrow> duration option" where
  "parseDuration orig =
     (let neg = (case orig of c # _ \<Rightarrow> c = CHR ''-'' | [] \<Rightarrow> False);
          s = (case orig of c # t \<Rightarrow> if c = CHR ''-'' \<or> c = CHR ''+'' then t else orig | [] \<Rightarrow> [])
      in if s = ''0'' then Some 0
         else if s = [] then None
         else case parseComponents (length s) 0 s of
           None \<Rightarrow> None
         | Some d \<Rightarrow> if neg then Some (- int d) else if 2 ^ 63 - 1 < d then None else Some (int d))"

lemma leadingInt_rest: "leadingInt x s = Some (v, t) \<Longrightarrow> suffix t s"
  by (induction x s rule: leadingInt.induct)
    (auto simp: Let_def suffix_ConsI split: if_splits)

lemma leadingFraction_rest: "leadingFraction x sc ov s = (f, scale, t) \<Longrightarrow> suffix t s"
  by (induction x sc ov s rule: leadingFraction.induct)
    (auto simp: Let_def suffix_ConsI split: if_splits)

lemma length_dropWhile_less: "takeWhile P s \<noteq> [] \<Longrightarrow> length (dropWhile P s) < length s"
  by (metis add_less_same_cancel2 length_append length_greater_0_conv less_add_same_cancel2
      takeWhile_dropWhile_id)

lemma unitMap_not_Nil: "map_of unitMap u = Some n \<Longrightarrow> u \<noteq> []"
  by (auto simp: unitMap_def)

lemma parseComponent_shorter:
  assumes "parseComponent s = Some (v, rest)" shows "length rest < length s"
proof -
  from assms obtain v0 s1 s2 where
    s1: "leadingInt 0 s = Some (v0, s1)"
    and s2: "s2 = s1 \<or> (\<exists>t f sc. s1 = CHR ''.'' # t \<and> leadingFraction 0 1 False t = (f, sc, s2))"
    and u: "takeWhile (\<lambda>c. \<not> (c = CHR ''.'' \<or> isDigit c)) s2 \<noteq> []"
    and r: "rest = dropWhile (\<lambda>c. \<not> (c = CHR ''.'' \<or> isDigit c)) s2"
    by (auto simp: parseComponent_def Let_def split: list.splits option.splits if_splits prod.splits
        char.splits bool.splits dest!: unitMap_not_Nil)
  have "length rest < length s2" unfolding r using u by (rule length_dropWhile_less)
  moreover have "length s2 \<le> length s1"
    using s2 by (auto dest!: leadingFraction_rest suffix_length_le)
  moreover have "length s1 \<le> length s"
    using leadingInt_rest [OF s1] by (rule suffix_length_le)
  ultimately show ?thesis by simp
qed

text \<open>The counter never runs out: more of it gives the same result.\<close>

lemma parseDuration_fuel:
  "length s \<le> n \<Longrightarrow> parseComponents n d s = parseComponents (length s) d s"
proof (induction n arbitrary: d s rule: less_induct)
  case (less n)
  show ?case
  proof (cases s)
    case (Cons c t)
    with less.prems obtain m where m: "n = Suc m" by (cases n) auto
    show ?thesis
    proof (cases "parseComponent s")
      case (Some vr)
      obtain v rest where vr: "vr = (v, rest)" by (cases vr)
      have rest: "length rest < length s" using parseComponent_shorter Some vr by blast
      have "parseComponents m (d + v) rest = parseComponents (length rest) (d + v) rest"
        using less.IH [of m rest] rest less.prems m by simp
      moreover have "parseComponents (length t) (d + v) rest = parseComponents (length rest) (d + v) rest"
        using less.IH [of "length t" rest] rest less.prems m Cons by simp
      ultimately show ?thesis using Cons Some vr m by simp
    qed (use Cons m in simp)
  qed simp
qed

section \<open>Printing\<close>

text \<open>\<^verbatim>\<open>Duration.String\<close>.\<close>

definition trimZeros :: "string \<Rightarrow> string" where
  "trimZeros s = trimRightByte (CHR ''0'') s"

definition padLeft :: "nat \<Rightarrow> string \<Rightarrow> string" where
  "padLeft n s = replicate (n - length s) (CHR ''0'') @ s"

definition fracStr :: "nat \<Rightarrow> nat \<Rightarrow> string" where
  "fracStr digits n =
     (let f = trimZeros (padLeft digits (natStr n)) in if f = [] then [] else CHR ''.'' # f)"

definition durStr :: "duration \<Rightarrow> string" where
  "durStr d =
     (let u = nat \<bar>d\<bar>;
          body =
            (if u = 0 then ''0s''
             else if u < 1000 then natStr u @ ''ns''
             else if u < 1000000 then natStr (u div 1000) @ fracStr 3 (u mod 1000) @ [CHR 0xC2, CHR 0xB5, CHR ''s'']
             else if u < 1000000000 then natStr (u div 1000000) @ fracStr 6 (u mod 1000000) @ ''ms''
             else
               let sec = u div 1000000000; frac = u mod 1000000000;
                   s = natStr (sec mod 60) @ fracStr 9 frac @ ''s'';
                   mins = sec div 60
               in if mins = 0 then s
                  else if mins div 60 = 0 then natStr mins @ ''m'' @ s
                  else natStr (mins div 60) @ ''h'' @ natStr (mins mod 60) @ ''m'' @ s)
      in if d < 0 then CHR ''-'' # body else body)"

text \<open>
  \<^verbatim>\<open>t.UTC().Format("2006-01-02T150405Z")\<close> from Unix nanoseconds: the proleptic Gregorian
  date of a day number, with years counted from March 1 of year 0.
\<close>

definition civilDate :: "int \<Rightarrow> int \<times> int \<times> int" where
  "civilDate days =
     (let z = days + 719468; era = z div 146097; doe = z mod 146097;
          yoe = (doe - doe div 1460 + doe div 36524 - doe div 146096) div 365;
          doy = doe - (365 * yoe + yoe div 4 - yoe div 100);
          mp = (5 * doy + 2) div 153;
          d = doy - (153 * mp + 2) div 5 + 1;
          m = (if mp < 10 then mp + 3 else mp - 9)
      in (yoe + era * 400 + (if m \<le> 2 then 1 else 0), m, d))"

definition two :: "int \<Rightarrow> string" where
  "two n = padLeft 2 (natStr (nat n))"

definition utcStamp :: "int \<Rightarrow> string" where
  "utcStamp t =
     (let secs = t div Second; days = secs div 86400; sod = secs mod 86400;
          (y, m, d) = civilDate days
      in padLeft 4 (natStr (nat y)) @ ''-'' @ two m @ ''-'' @ two d @ ''T''
         @ two (sod div 3600) @ two (sod mod 3600 div 60) @ two (sod mod 60) @ ''Z'')"

section \<open>Bounded duration settings\<close>

definition clampDuration :: "duration \<Rightarrow> duration \<Rightarrow> duration \<Rightarrow> string \<Rightarrow> duration" where
  "clampDuration dflt lo hi s =
     (if s = [] then dflt
      else case parseDuration s of
             None \<Rightarrow> dflt
           | Some d \<Rightarrow> if d < lo then lo else if hi < d then hi else d)"

locale clamped_duration =
  fixes parse :: "string \<Rightarrow> duration" and dflt lo hi :: duration
  assumes parse_def': "parse s = clampDuration dflt lo hi s"
    and dflt_range: "lo \<le> dflt" "dflt \<le> hi"
begin

lemma parse_range: "lo \<le> parse s \<and> parse s \<le> hi"
  using dflt_range by (auto simp: parse_def' clampDuration_def split: option.splits)

lemma parse_exact: "parseDuration s = Some d \<Longrightarrow> lo \<le> d \<Longrightarrow> d \<le> hi \<Longrightarrow> s \<noteq> [] \<Longrightarrow> parse s = d"
  by (auto simp: parse_def' clampDuration_def)

lemma parse_invalid: "s = [] \<or> parseDuration s = None \<Longrightarrow> parse s = dflt"
  by (auto simp: parse_def' clampDuration_def)

end

end
