(* ===== verification/Client.thy ===== *)
theory Client
  imports Common GoTime
begin

text \<open>
  What the reconciler of internal/controller sees of its surroundings, and the monad its handlers
  run in.

  The Kubernetes client, the clock, the owner-reference, finalizer and condition helpers of
  controller-runtime and apimachinery are not part of the repository: they are the fields of the
  record \<open>Reconciler\<close>, an argument of every handler, over an abstract type \<open>'s\<close> of
  cluster states. A handler works on a context \<open>hctx\<close>: the cluster state, the in-memory instance
  (\<^verbatim>\<open>instance *OpenClawInstance\<close>, which a successful \<^verbatim>\<open>Update\<close> or
  \<^verbatim>\<open>Patch\<close> overwrites with the server's reply) and the log of the calls made, each with its
  reply. The log has no counterpart in the code; it is what statements about order and about
  replies speak of. Log lines and Prometheus metrics are left out.

  \<open>api_laws\<close> collects what the API server documents about these calls; theorems that rely
  on it name it as a hypothesis.
\<close>

section \<open>Kubernetes objects\<close>

record StatefulSet =
  sts_Meta :: ObjectMeta
  sts_Replicas :: "int option"
  sts_ReadyReplicas :: int
  sts_UpdatedReplicas :: int
  sts_Other :: json

record Secret =
  secret_Meta :: ObjectMeta
  secret_Data :: gomap

record PodAffinityTerm =
  pat_MatchLabels :: gomap
  pat_TopologyKey :: string

record PodSpec =
  ps_RestartPolicy :: string
  ps_DNSPolicy :: string
  ps_SchedulerName :: string
  ps_TerminationGracePeriodSeconds :: "int option"
  ps_ServiceAccountName :: string
  ps_NodeSelector :: gomap
  ps_Tolerations :: "json list"
  ps_RunAsUser :: "int option"
  ps_RunAsGroup :: "int option"
  ps_FSGroup :: "int option"
  ps_PodAffinity :: "PodAffinityTerm list"
  ps_Containers :: "Container list"
  ps_Volumes :: "Volume list"

record JobSpec =
  js_ActiveDeadlineSeconds :: "int option"
  js_BackoffLimit :: "int option"
  js_TTLSecondsAfterFinished :: "int option"
  js_TemplateLabels :: gomap
  js_Template :: PodSpec

record Job =
  job_Meta :: ObjectMeta
  job_Spec :: JobSpec
  job_Conditions :: "(string \<times> string) list" \<comment> \<open>type and status\<close>

record CronJobSpec =
  cj_Schedule :: string
  cj_ConcurrencyPolicy :: string
  cj_StartingDeadlineSeconds :: "int option"
  cj_SuccessfulJobsHistoryLimit :: "int option"
  cj_FailedJobsHistoryLimit :: "int option"
  cj_JobLabels :: gomap
  cj_JobSpec :: JobSpec

record CronJob =
  cron_Meta :: ObjectMeta
  cron_Spec :: CronJobSpec

record PVC =
  pvc_Meta :: ObjectMeta
  pvc_Other :: json

definition JobComplete :: string where "JobComplete = ''Complete''"
definition JobFailed :: string where "JobFailed = ''Failed''"

section \<open>The reconciler's surroundings\<close>

record 's Reconciler =
  rc_OperatorNamespace :: string
  rc_Now :: "('s, int) state"
  rc_StatusUpdate :: "OpenClawInstance \<Rightarrow> ('s, go_error + OpenClawInstance) state"
  rc_Update :: "OpenClawInstance \<Rightarrow> ('s, go_error + OpenClawInstance) state"
  rc_Patch :: "OpenClawInstance \<Rightarrow> OpenClawInstance \<Rightarrow> ('s, go_error + OpenClawInstance) state"
  rc_GetSts :: "string \<Rightarrow> string \<Rightarrow> ('s, go_error + StatefulSet) state"
  rc_PatchSts :: "StatefulSet \<Rightarrow> StatefulSet \<Rightarrow> ('s, go_error option) state"
  rc_UpdateSts :: "StatefulSet \<Rightarrow> ('s, go_error option) state"
  rc_ListPods :: "string \<Rightarrow> gomap \<Rightarrow> ('s, go_error + string list) state"
  rc_GetSecret :: "string \<Rightarrow> string \<Rightarrow> ('s, go_error + Secret) state"
  rc_CreateOrUpdateSecret ::
    "string \<Rightarrow> string \<Rightarrow> (Secret \<Rightarrow> go_error + Secret) \<Rightarrow> ('s, go_error + Secret) state"
  rc_GetJob :: "string \<Rightarrow> string \<Rightarrow> ('s, go_error + Job) state"
  rc_CreateJob :: "Job \<Rightarrow> ('s, go_error option) state"
  rc_GetPVC :: "string \<Rightarrow> string \<Rightarrow> ('s, go_error + PVC) state"
  rc_UpdatePVC :: "PVC \<Rightarrow> ('s, go_error option) state"
  rc_GetCronJob :: "string \<Rightarrow> string \<Rightarrow> ('s, go_error + CronJob) state"
  rc_DeleteCronJob :: "CronJob \<Rightarrow> ('s, go_error option) state"
  rc_CreateOrUpdateCronJob ::
    "string \<Rightarrow> string \<Rightarrow> (CronJob \<Rightarrow> go_error + CronJob) \<Rightarrow> ('s, go_error + CronJob) state"
  rc_SetControllerReference :: "OpenClawInstance \<Rightarrow> ObjectMeta \<Rightarrow> go_error + ObjectMeta"
  rc_SetStatusCondition :: "Condition \<Rightarrow> Condition list \<Rightarrow> Condition list"
  rc_RemoveStatusCondition :: "string \<Rightarrow> Condition list \<Rightarrow> Condition list"
  rc_RemoveFinalizer :: "string \<Rightarrow> string list \<Rightarrow> string list"
  rc_VersionResolver :: "(string \<Rightarrow> ('s, go_error + string) state) option"

text \<open>The kinds of object the main controller writes (theory Objects).\<close>

datatype objkind =
    ServiceAccountK | RoleK | RoleBindingK | NetworkPolicyK | ConfigMapK | PVCK | PDBK | HPAK | DeploymentK
  | StatefulSetK | ServiceK | IngressK | MiddlewareK | HTTPRouteK | ServiceMonitorK | PrometheusRuleK

datatype api_call =
    CNow int
  | CStatusUpdate OpenClawInstance "go_error option"
  | CUpdate OpenClawInstance "go_error option"
  | CPatch OpenClawInstance OpenClawInstance "go_error option"
  | CGetSts string string "go_error + StatefulSet"
  | CPatchSts StatefulSet StatefulSet "go_error option"
  | CUpdateSts StatefulSet "go_error option"
  | CListPods string gomap "go_error + string list"
  | CGetSecret string string "go_error + Secret"
  | CWriteSecret string string "go_error option"
  | CGetJob string string "go_error + Job"
  | CCreateJob Job "go_error option"
  | CGetPVC string string "go_error + PVC"
  | CUpdatePVC PVC "go_error option"
  | CGetCronJob string string "go_error + CronJob"
  | CDeleteCronJob CronJob "go_error option"
  | CWriteCronJob string string "go_error option"
  | CLatestSemver string "go_error + string"
  | CGetInstance string string "go_error option"
  | CGetDefaults "go_error option"
  | CRandRead nat "go_error option"
  | CResolvePacks "string list" "go_error option"
  | CGetObj objkind string string "go_error option"
  | CCreateObj objkind string string "go_error option"
  | CDeleteObj objkind string string "go_error option"
  | CApplyObj objkind string string "go_error option" "int \<times> int" \<comment> \<open>a StatefulSet's replicas and ready replicas in the reply\<close>
  | CEvent string string string \<comment> \<open>type, reason, message\<close>

record 's hctx =
  srv :: 's
  cur :: OpenClawInstance
  calls :: "api_call list"

text \<open>\<^verbatim>\<open>ctrl.Result\<close>.\<close>

record Result =
  res_Requeue :: bool
  res_RequeueAfter :: duration

definition noResult :: Result where
  "noResult = \<lparr>res_Requeue = False, res_RequeueAfter = 0\<rparr>"

definition requeueNow :: Result where
  "requeueNow = \<lparr>res_Requeue = True, res_RequeueAfter = 0\<rparr>"

definition requeueIn :: "duration \<Rightarrow> Result" where
  "requeueIn d = \<lparr>res_Requeue = False, res_RequeueAfter = d\<rparr>"

type_synonym 's handler = "('s hctx, Result \<times> go_error option) state"
type_synonym 's driver = "('s hctx, Result \<times> bool \<times> go_error option) state"

section \<open>Primitive steps of a handler\<close>

abbreviation ret :: "'a \<Rightarrow> ('s, 'a) state" where
  "ret \<equiv> State_Monad.return"

text \<open>\<open>api m mk\<close> runs a client action and logs it; \<open>mk\<close> builds the log entry from the reply.\<close>

definition api :: "('s, 'a) state \<Rightarrow> ('a \<Rightarrow> api_call) \<Rightarrow> ('s hctx, 'a) state" where
  "api m mk = State (\<lambda>h. case run_state m (srv h) of
     (a, s) \<Rightarrow> (a, h\<lparr>srv := s, calls := calls h @ [mk a]\<rparr>))"

definition getInst :: "('s hctx, OpenClawInstance) state" where
  "getInst = State (\<lambda>h. (cur h, h))"

definition modInst :: "(OpenClawInstance \<Rightarrow> OpenClawInstance) \<Rightarrow> ('s hctx, unit) state" where
  "modInst f = State (\<lambda>h. ((), h\<lparr>cur := f (cur h)\<rparr>))"

definition event :: "string \<Rightarrow> string \<Rightarrow> string \<Rightarrow> ('s hctx, unit) state" where
  "event typ reason msg = State (\<lambda>h. ((), h\<lparr>calls := calls h @ [CEvent typ reason msg]\<rparr>))"

definition errOf :: "'e + 'a \<Rightarrow> 'e option" where
  "errOf r = (case r of Inl e \<Rightarrow> Some e | Inr _ \<Rightarrow> None)"

text \<open>
  A write of the instance: on success the in-memory instance becomes the server's reply, on
  failure it keeps the local changes.
\<close>

definition writeInst ::
    "(OpenClawInstance \<Rightarrow> ('s, go_error + OpenClawInstance) state) \<Rightarrow>
     (OpenClawInstance \<Rightarrow> go_error option \<Rightarrow> api_call) \<Rightarrow> ('s hctx, go_error option) state" where
  "writeInst act mk = State (\<lambda>h. case run_state (act (cur h)) (srv h) of
     (r, s) \<Rightarrow> (errOf r,
       h\<lparr>srv := s, cur := (case r of Inl _ \<Rightarrow> cur h | Inr i \<Rightarrow> i),
         calls := calls h @ [mk (cur h) (errOf r)]\<rparr>))"

definition statusUpdate :: "'s Reconciler \<Rightarrow> ('s hctx, go_error option) state" where
  "statusUpdate r = writeInst (rc_StatusUpdate r) CStatusUpdate"

definition updateInst :: "'s Reconciler \<Rightarrow> ('s hctx, go_error option) state" where
  "updateInst r = writeInst (rc_Update r) CUpdate"

definition patchInst :: "'s Reconciler \<Rightarrow> OpenClawInstance \<Rightarrow> ('s hctx, go_error option) state" where
  "patchInst r original = writeInst (rc_Patch r original) (CPatch original)"

definition now :: "'s Reconciler \<Rightarrow> ('s hctx, int) state" where
  "now r = api (rc_Now r) CNow"

definition getSts :: "'s Reconciler \<Rightarrow> string \<Rightarrow> string \<Rightarrow> ('s hctx, go_error + StatefulSet) state" where
  "getSts r n ns = api (rc_GetSts r n ns) (CGetSts n ns)"

definition patchSts :: "'s Reconciler \<Rightarrow> StatefulSet \<Rightarrow> StatefulSet \<Rightarrow> ('s hctx, go_error option) state" where
  "patchSts r original sts = api (rc_PatchSts r original sts) (CPatchSts original sts)"

definition updateSts :: "'s Reconciler \<Rightarrow> StatefulSet \<Rightarrow> ('s hctx, go_error option) state" where
  "updateSts r sts = api (rc_UpdateSts r sts) (CUpdateSts sts)"

definition listPods :: "'s Reconciler \<Rightarrow> string \<Rightarrow> gomap \<Rightarrow> ('s hctx, go_error + string list) state" where
  "listPods r ns sel = api (rc_ListPods r ns sel) (CListPods ns sel)"

definition getSecret :: "'s Reconciler \<Rightarrow> string \<Rightarrow> string \<Rightarrow> ('s hctx, go_error + Secret) state" where
  "getSecret r n ns = api (rc_GetSecret r n ns) (CGetSecret n ns)"

definition createOrUpdateSecret ::
    "'s Reconciler \<Rightarrow> string \<Rightarrow> string \<Rightarrow> (Secret \<Rightarrow> go_error + Secret) \<Rightarrow> ('s hctx, go_error + Secret) state" where
  "createOrUpdateSecret r n ns f =
     api (rc_CreateOrUpdateSecret r n ns f) (\<lambda>a. CWriteSecret n ns (errOf a))"

definition createJob :: "'s Reconciler \<Rightarrow> Job \<Rightarrow> ('s hctx, go_error option) state" where
  "createJob r job = api (rc_CreateJob r job) (CCreateJob job)"

definition getPVC :: "'s Reconciler \<Rightarrow> string \<Rightarrow> string \<Rightarrow> ('s hctx, go_error + PVC) state" where
  "getPVC r n ns = api (rc_GetPVC r n ns) (CGetPVC n ns)"

definition updatePVC :: "'s Reconciler \<Rightarrow> PVC \<Rightarrow> ('s hctx, go_error option) state" where
  "updatePVC r pvc = api (rc_UpdatePVC r pvc) (CUpdatePVC pvc)"

definition getCronJob :: "'s Reconciler \<Rightarrow> string \<Rightarrow> string \<Rightarrow> ('s hctx, go_error + CronJob) state" where
  "getCronJob r n ns = api (rc_GetCronJob r n ns) (CGetCronJob n ns)"

definition deleteCronJob :: "'s Reconciler \<Rightarrow> CronJob \<Rightarrow> ('s hctx, go_error option) state" where
  "deleteCronJob r cj = api (rc_DeleteCronJob r cj) (CDeleteCronJob cj)"

definition createOrUpdateCronJob ::
    "'s Reconciler \<Rightarrow> string \<Rightarrow> string \<Rightarrow> (CronJob \<Rightarrow> go_error + CronJob) \<Rightarrow> ('s hctx, go_error + CronJob) state" where
  "createOrUpdateCronJob r n ns f =
     api (rc_CreateOrUpdateCronJob r n ns f) (\<lambda>a. CWriteCronJob n ns (errOf a))"

text \<open>\<^verbatim>\<open>meta.SetStatusCondition(&instance.Status.Conditions, c)\<close> and its removal.\<close>

definition setCondition :: "'s Reconciler \<Rightarrow> Condition \<Rightarrow> ('s hctx, unit) state" where
  "setCondition r c =
     modInst (updStatus (\<lambda>s. s\<lparr>st_Conditions := rc_SetStatusCondition r c (st_Conditions s)\<rparr>))"

definition removeCondition :: "'s Reconciler \<Rightarrow> string \<Rightarrow> ('s hctx, unit) state" where
  "removeCondition r t =
     modInst (updStatus (\<lambda>s. s\<lparr>st_Conditions := rc_RemoveStatusCondition r t (st_Conditions s)\<rparr>))"

definition mkCondition :: "string \<Rightarrow> string \<Rightarrow> string \<Rightarrow> string \<Rightarrow> Condition" where
  "mkCondition t st reason msg =
     \<lparr>cond_Type = t, cond_Status = st, cond_Reason = reason, cond_Message = msg,
      cond_ObservedGeneration = 0\<rparr>"

definition EventNormal :: string where "EventNormal = ''Normal''"
definition EventWarning :: string where "EventWarning = ''Warning''"

section \<open>Reasoning about handlers\<close>

text \<open>
  \<open>wp m Q h\<close>: running \<open>m\<close> from \<open>h\<close> ends in a result and context that satisfy
  \<open>Q\<close>. Handlers are total, so this is also a statement that they return.
\<close>

definition wp :: "('s, 'a) state \<Rightarrow> ('a \<Rightarrow> 's \<Rightarrow> bool) \<Rightarrow> 's \<Rightarrow> bool" where
  "wp m Q h = (case run_state m h of (a, h') \<Rightarrow> Q a h')"

named_theorems wp_rules "one rule per construct of a handler"

lemma wp_return [wp_rules]: "Q a h \<Longrightarrow> wp (ret a) Q h"
  by (simp add: wp_def)

lemma wp_bind [wp_rules]: "wp m (\<lambda>a. wp (f a) Q) h \<Longrightarrow> wp (State_Monad.bind m f) Q h"
  by (simp add: wp_def split: prod.splits)

lemma wp_if [wp_rules]:
  "(b \<Longrightarrow> wp m Q h) \<Longrightarrow> (\<not> b \<Longrightarrow> wp n Q h) \<Longrightarrow> wp (if b then m else n) Q h"
  by simp

lemma wp_option [wp_rules]:
  "(x = None \<Longrightarrow> wp m Q h) \<Longrightarrow> (\<And>y. x = Some y \<Longrightarrow> wp (f y) Q h) \<Longrightarrow>
   wp (case x of None \<Rightarrow> m | Some y \<Rightarrow> f y) Q h"
  by (cases x) auto

lemma wp_sum [wp_rules]:
  "(\<And>e. x = Inl e \<Longrightarrow> wp (f e) Q h) \<Longrightarrow> (\<And>y. x = Inr y \<Longrightarrow> wp (g y) Q h) \<Longrightarrow>
   wp (case x of Inl e \<Rightarrow> f e | Inr y \<Rightarrow> g y) Q h"
  by (cases x) auto

lemma wp_prod [wp_rules]:
  "(\<And>a b. x = (a, b) \<Longrightarrow> wp (f a b) Q h) \<Longrightarrow> wp (case x of (a, b) \<Rightarrow> f a b) Q h"
  by (cases x) auto

lemma wp_let [wp_rules]: "wp (f x) Q h \<Longrightarrow> wp (let y = x in f y) Q h"
  by simp

lemma wp_getInst [wp_rules]: "Q (cur h) h \<Longrightarrow> wp getInst Q h"
  by (simp add: wp_def getInst_def)

lemma wp_modInst [wp_rules]: "Q () (h\<lparr>cur := f (cur h)\<rparr>) \<Longrightarrow> wp (modInst f) Q h"
  by (simp add: wp_def modInst_def)

lemma wp_event [wp_rules]: "Q () (h\<lparr>calls := calls h @ [CEvent t rs m]\<rparr>) \<Longrightarrow> wp (event t rs m) Q h"
  by (simp add: wp_def event_def)

lemma wp_mono: "wp m P h \<Longrightarrow> (\<And>a h'. P a h' \<Longrightarrow> Q a h') \<Longrightarrow> wp m Q h"
  by (auto simp: wp_def)

lemma wp_conj: "wp m P h \<Longrightarrow> wp m Q h \<Longrightarrow> wp m (\<lambda>a h'. P a h' \<and> Q a h') h"
  by (auto simp: wp_def)

lemma wp_run: "wp m Q h \<Longrightarrow> run_state m h = (a, h') \<Longrightarrow> Q a h'"
  by (simp add: wp_def)

lemma wpI: "(\<And>a h'. run_state m h = (a, h') \<Longrightarrow> Q a h') \<Longrightarrow> wp m Q h"
  by (simp add: wp_def split: prod.splits)

lemma wp_api:
  "(\<And>a s. run_state m (srv h) = (a, s) \<Longrightarrow> Q a (h\<lparr>srv := s, calls := calls h @ [mk a]\<rparr>)) \<Longrightarrow>
   wp (api m mk) Q h"
  by (simp add: wp_def api_def split: prod.splits)

lemma wp_writeInst:
  assumes "\<And>e s. run_state (act (cur h)) (srv h) = (Inl e, s) \<Longrightarrow>
      Q (Some e) (h\<lparr>srv := s, calls := calls h @ [mk (cur h) (Some e)]\<rparr>)"
    and "\<And>i s. run_state (act (cur h)) (srv h) = (Inr i, s) \<Longrightarrow>
      Q None (h\<lparr>srv := s, cur := i, calls := calls h @ [mk (cur h) None]\<rparr>)"
  shows "wp (writeInst act mk) Q h"
  using assms by (simp add: wp_def writeInst_def errOf_def split: prod.splits sum.splits)

lemmas handler_ops = now_def getSts_def patchSts_def updateSts_def listPods_def getSecret_def
  createOrUpdateSecret_def createJob_def getPVC_def updatePVC_def getCronJob_def deleteCronJob_def
  createOrUpdateCronJob_def

section \<open>What the API server promises\<close>

text \<open>
  \<open>stored\<close> reads the instance as the server holds it. While a handler runs there is no other
  writer of this instance; a handler may still start from a stale copy of it.
\<close>

definition silent :: "('s \<Rightarrow> OpenClawInstance) \<Rightarrow> ('s, 'a) state \<Rightarrow> bool" where
  "silent stored m = (\<forall>s. stored (snd (run_state m s)) = stored s)"

text \<open>The calls on other objects leave the instance alone.\<close>

definition others_silent :: "'s Reconciler \<Rightarrow> ('s \<Rightarrow> OpenClawInstance) \<Rightarrow> bool" where
  "others_silent r stored \<longleftrightarrow>
     silent stored (rc_Now r)
     \<and> (\<forall>n ns. silent stored (rc_GetSts r n ns))
     \<and> (\<forall>o' s. silent stored (rc_PatchSts r o' s))
     \<and> (\<forall>s. silent stored (rc_UpdateSts r s))
     \<and> (\<forall>ns l. silent stored (rc_ListPods r ns l))
     \<and> (\<forall>n ns. silent stored (rc_GetSecret r n ns))
     \<and> (\<forall>n ns f. silent stored (rc_CreateOrUpdateSecret r n ns f))
     \<and> (\<forall>n ns. silent stored (rc_GetJob r n ns))
     \<and> (\<forall>j. silent stored (rc_CreateJob r j))
     \<and> (\<forall>n ns. silent stored (rc_GetPVC r n ns))
     \<and> (\<forall>p. silent stored (rc_UpdatePVC r p))
     \<and> (\<forall>n ns. silent stored (rc_GetCronJob r n ns))
     \<and> (\<forall>c. silent stored (rc_DeleteCronJob r c))
     \<and> (\<forall>n ns f. silent stored (rc_CreateOrUpdateCronJob r n ns f))
     \<and> (\<forall>vr repo. rc_VersionResolver r = Some vr \<longrightarrow> silent stored (vr repo))"

text \<open>
  The status subresource: a write of the status stores exactly that status; spec and metadata are
  those of the server. A failed call may or may not have been carried out.
\<close>

definition status_law :: "'s Reconciler \<Rightarrow> ('s \<Rightarrow> OpenClawInstance) \<Rightarrow> bool" where
  "status_law r stored \<longleftrightarrow>
     (\<forall>i s i' s'. run_state (rc_StatusUpdate r i) s = (Inr i', s') \<longrightarrow>
        i' = (stored s)\<lparr>oci_Status := oci_Status i\<rparr> \<and> stored s' = i') \<and>
     (\<forall>i s e s'. run_state (rc_StatusUpdate r i) s = (Inl e, s') \<longrightarrow>
        stored s' = stored s \<or> stored s' = (stored s)\<lparr>oci_Status := oci_Status i\<rparr>)"

text \<open>
  A merge patch of the main resource sends the fields that differ from the original; the status
  is not part of it. Only the two fields the operator patches are described.
\<close>

definition patched :: "'a \<Rightarrow> 'a \<Rightarrow> 'a \<Rightarrow> 'a" where
  "patched original modified old = (if modified = original then old else modified)"

definition patch_law :: "'s Reconciler \<Rightarrow> ('s \<Rightarrow> OpenClawInstance) \<Rightarrow> bool" where
  "patch_law r stored \<longleftrightarrow>
     (\<forall>o' i s i' s'. run_state (rc_Patch r o' i) s = (Inr i', s') \<longrightarrow>
        stored s' = i' \<and> oci_Status i' = oci_Status (stored s) \<and>
        oname i' = oname (stored s) \<and> onamespace i' = onamespace (stored s) \<and>
        tag_of i' = patched (tag_of o') (tag_of i) (tag_of (stored s)) \<and>
        spec_RestoreFrom (oci_Spec i') =
          patched (spec_RestoreFrom (oci_Spec o')) (spec_RestoreFrom (oci_Spec i))
            (spec_RestoreFrom (oci_Spec (stored s)))) \<and>
     (\<forall>o' i s e s'. run_state (rc_Patch r o' i) s = (Inl e, s') \<longrightarrow>
        oci_Status (stored s') = oci_Status (stored s))"

text \<open>An update of the main resource replaces finalizers and spec and ignores the status.\<close>

definition update_law :: "'s Reconciler \<Rightarrow> ('s \<Rightarrow> OpenClawInstance) \<Rightarrow> bool" where
  "update_law r stored \<longleftrightarrow>
     (\<forall>i s i' s'. run_state (rc_Update r i) s = (Inr i', s') \<longrightarrow>
        stored s' = i' \<and> oci_Status i' = oci_Status (stored s) \<and>
        om_Finalizers (oci_Meta i') = om_Finalizers (oci_Meta i) \<and> oci_Spec i' = oci_Spec i) \<and>
     (\<forall>i s e s'. run_state (rc_Update r i) s = (Inl e, s') \<longrightarrow>
        oci_Status (stored s') = oci_Status (stored s))"

definition api_laws :: "'s Reconciler \<Rightarrow> ('s \<Rightarrow> OpenClawInstance) \<Rightarrow> bool" where
  "api_laws r stored \<longleftrightarrow>
     others_silent r stored \<and> status_law r stored \<and> patch_law r stored \<and> update_law r stored"

text \<open>The laws as rules: after a silent call the stored instance is the same.\<close>

lemma wp_api_silent:
  assumes "silent stored m"
    and "\<And>a s. run_state m (srv h) = (a, s) \<Longrightarrow> stored s = stored (srv h) \<Longrightarrow>
      Q a (h\<lparr>srv := s, calls := calls h @ [mk a]\<rparr>)"
  shows "wp (api m mk) Q h"
  using assms by (auto simp: silent_def wp_def api_def split: prod.splits) (metis snd_conv)

lemma others_silentD:
  assumes "api_laws r stored"
  shows "silent stored (rc_Now r)" "silent stored (rc_GetSts r n ns)"
    "silent stored (rc_PatchSts r so sts)" "silent stored (rc_UpdateSts r sts)"
    "silent stored (rc_ListPods r ns l)" "silent stored (rc_GetSecret r n ns)"
    "silent stored (rc_CreateOrUpdateSecret r n ns fs)" "silent stored (rc_GetJob r n ns)"
    "silent stored (rc_CreateJob r j)" "silent stored (rc_GetPVC r n ns)"
    "silent stored (rc_UpdatePVC r p)" "silent stored (rc_GetCronJob r n ns)"
    "silent stored (rc_DeleteCronJob r c)" "silent stored (rc_CreateOrUpdateCronJob r n ns fc)"
    "rc_VersionResolver r = Some vr \<Longrightarrow> silent stored (vr repo)"
  using assms by (simp_all add: api_laws_def others_silent_def)

lemma wp_statusUpdate_law:
  assumes laws: "api_laws r stored"
    and "\<And>e s. stored s = stored (srv h) \<or> stored s = (stored (srv h))\<lparr>oci_Status := oci_Status (cur h)\<rparr> \<Longrightarrow>
      Q (Some e) (h\<lparr>srv := s, calls := calls h @ [CStatusUpdate (cur h) (Some e)]\<rparr>)"
    and "\<And>s. stored s = (stored (srv h))\<lparr>oci_Status := oci_Status (cur h)\<rparr> \<Longrightarrow>
      Q None (h\<lparr>srv := s, cur := stored s, calls := calls h @ [CStatusUpdate (cur h) None]\<rparr>)"
  shows "wp (statusUpdate r) Q h"
  unfolding statusUpdate_def
proof (rule wp_writeInst)
  have ok: "i' = (stored s)\<lparr>oci_Status := oci_Status i\<rparr> \<and> stored s' = i'"
    if "run_state (rc_StatusUpdate r i) s = (Inr i', s')" for i s i' s'
    using laws that unfolding api_laws_def status_law_def by blast
  have err: "stored s' = stored s \<or> stored s' = (stored s)\<lparr>oci_Status := oci_Status i\<rparr>"
    if "run_state (rc_StatusUpdate r i) s = (Inl e, s')" for i s e s'
    using laws that unfolding api_laws_def status_law_def by blast
  show "Q (Some e) (h\<lparr>srv := s, calls := calls h @ [CStatusUpdate (cur h) (Some e)]\<rparr>)"
    if "run_state (rc_StatusUpdate r (cur h)) (srv h) = (Inl e, s)" for e s
    using err [OF that] by (rule assms(2))
  show "Q None (h\<lparr>srv := s, cur := i, calls := calls h @ [CStatusUpdate (cur h) None]\<rparr>)"
    if "run_state (rc_StatusUpdate r (cur h)) (srv h) = (Inr i, s)" for i s
    using ok [OF that] assms(3) [of s] by auto
qed

lemma wp_patchInst_law:
  assumes laws: "api_laws r stored"
    and "\<And>e s. oci_Status (stored s) = oci_Status (stored (srv h)) \<Longrightarrow>
      Q (Some e) (h\<lparr>srv := s, calls := calls h @ [CPatch o' (cur h) (Some e)]\<rparr>)"
    and "\<And>s. oci_Status (stored s) = oci_Status (stored (srv h)) \<Longrightarrow>
      oname (stored s) = oname (stored (srv h)) \<Longrightarrow>
      onamespace (stored s) = onamespace (stored (srv h)) \<Longrightarrow>
      tag_of (stored s) = patched (tag_of o') (tag_of (cur h)) (tag_of (stored (srv h))) \<Longrightarrow>
      spec_RestoreFrom (oci_Spec (stored s)) =
            patched (spec_RestoreFrom (oci_Spec o')) (spec_RestoreFrom (oci_Spec (cur h)))
              (spec_RestoreFrom (oci_Spec (stored (srv h)))) \<Longrightarrow>
      Q None (h\<lparr>srv := s, cur := stored s, calls := calls h @ [CPatch o' (cur h) None]\<rparr>)"
  shows "wp (patchInst r o') Q h"
  unfolding patchInst_def
proof (rule wp_writeInst)
  have ok: "stored s' = i' \<and> oci_Status i' = oci_Status (stored s) \<and>
      oname i' = oname (stored s) \<and> onamespace i' = onamespace (stored s) \<and>
      tag_of i' = patched (tag_of o') (tag_of i) (tag_of (stored s)) \<and>
      spec_RestoreFrom (oci_Spec i') =
        patched (spec_RestoreFrom (oci_Spec o')) (spec_RestoreFrom (oci_Spec i))
          (spec_RestoreFrom (oci_Spec (stored s)))"
    if "run_state (rc_Patch r o' i) s = (Inr i', s')" for i s i' s'
    using laws that unfolding api_laws_def patch_law_def by blast
  have err: "oci_Status (stored s') = oci_Status (stored s)"
    if "run_state (rc_Patch r o' i) s = (Inl e, s')" for i s e s'
    using laws that unfolding api_laws_def patch_law_def by blast
  show "Q (Some e) (h\<lparr>srv := s, calls := calls h @ [CPatch o' (cur h) (Some e)]\<rparr>)"
    if "run_state (rc_Patch r o' (cur h)) (srv h) = (Inl e, s)" for e s
    using err [OF that] by (rule assms(2))
  show "Q None (h\<lparr>srv := s, cur := i, calls := calls h @ [CPatch o' (cur h) None]\<rparr>)"
    if "run_state (rc_Patch r o' (cur h)) (srv h) = (Inr i, s)" for i s
    using ok [OF that] assms(3) [of s] by auto
qed

lemma wp_updateInst_law:
  assumes laws: "api_laws r stored"
    and "\<And>e s. oci_Status (stored s) = oci_Status (stored (srv h)) \<Longrightarrow>
      Q (Some e) (h\<lparr>srv := s, calls := calls h @ [CUpdate (cur h) (Some e)]\<rparr>)"
    and "\<And>s. oci_Status (stored s) = oci_Status (stored (srv h)) \<Longrightarrow>
      om_Finalizers (oci_Meta (stored s)) = om_Finalizers (oci_Meta (cur h)) \<Longrightarrow>
      oci_Spec (stored s) = oci_Spec (cur h) \<Longrightarrow>
      Q None (h\<lparr>srv := s, cur := stored s, calls := calls h @ [CUpdate (cur h) None]\<rparr>)"
  shows "wp (updateInst r) Q h"
  unfolding updateInst_def
proof (rule wp_writeInst)
  have ok: "stored s' = i' \<and> oci_Status i' = oci_Status (stored s) \<and>
      om_Finalizers (oci_Meta i') = om_Finalizers (oci_Meta i) \<and> oci_Spec i' = oci_Spec i"
    if "run_state (rc_Update r i) s = (Inr i', s')" for i s i' s'
    using laws that unfolding api_laws_def update_law_def by blast
  have err: "oci_Status (stored s') = oci_Status (stored s)"
    if "run_state (rc_Update r i) s = (Inl e, s')" for i s e s'
    using laws that unfolding api_laws_def update_law_def by blast
  show "Q (Some e) (h\<lparr>srv := s, calls := calls h @ [CUpdate (cur h) (Some e)]\<rparr>)"
    if "run_state (rc_Update r (cur h)) (srv h) = (Inl e, s)" for e s
    using err [OF that] by (rule assms(2))
  show "Q None (h\<lparr>srv := s, cur := i, calls := calls h @ [CUpdate (cur h) None]\<rparr>)"
    if "run_state (rc_Update r (cur h)) (srv h) = (Inr i, s)" for i s
    using ok [OF that] assms(3) [of s] by auto
qed

section \<open>Framing\<close>

text \<open>
  \<open>frames stored m\<close>: \<open>m\<close> changes neither the in-memory nor the stored instance; it only
  adds to the log, no write of the instance among it, and works on other objects.
\<close>

fun writesInstance :: "api_call \<Rightarrow> bool" where
  "writesInstance (CStatusUpdate _ _) = True"
| "writesInstance (CUpdate _ _) = True"
| "writesInstance (CPatch _ _ _) = True"
| "writesInstance _ = False"

definition framed :: "('s \<Rightarrow> OpenClawInstance) \<Rightarrow> 's hctx \<Rightarrow> 's hctx \<Rightarrow> bool" where
  "framed stored h h' \<longleftrightarrow>
     cur h' = cur h \<and> stored (srv h') = stored (srv h)
     \<and> (\<exists>cs. calls h' = calls h @ cs \<and> (\<forall>c \<in> set cs. \<not> writesInstance c))"

definition frames :: "('s \<Rightarrow> OpenClawInstance) \<Rightarrow> ('s hctx, 'a) state \<Rightarrow> bool" where
  "frames stored m \<longleftrightarrow> (\<forall>h. wp m (\<lambda>_. framed stored h) h)"

lemma framed_refl: "framed stored h h"
  by (simp add: framed_def)

lemma framed_trans: "framed stored h h' \<Longrightarrow> framed stored h' h'' \<Longrightarrow> framed stored h h''"
  by (force simp: framed_def)

lemma framesD: "frames stored m \<Longrightarrow> wp m (\<lambda>_. framed stored h) h"
  by (simp add: frames_def)

lemma frames_return [spec_frame]: "frames stored (ret a)"
  by (simp add: frames_def framed_refl wp_return)

lemma frames_getInst [spec_frame]: "frames stored getInst"
  by (simp add: frames_def framed_refl wp_getInst)

lemma frames_event [spec_frame]: "frames stored (event t rs m)"
  by (simp add: frames_def framed_def wp_event)

lemma frames_api: "silent stored m \<Longrightarrow> (\<And>a. \<not> writesInstance (mk a)) \<Longrightarrow> frames stored (api m mk)"
  by (auto simp: frames_def framed_def intro: wp_api_silent)

lemma frames_wp:
  assumes "frames stored m"
    and "\<And>a h' cs. cur h' = cur h \<Longrightarrow> stored (srv h') = stored (srv h) \<Longrightarrow>
      calls h' = calls h @ cs \<Longrightarrow> \<forall>c \<in> set cs. \<not> writesInstance c \<Longrightarrow> Q a h'"
  shows "wp m Q h"
  using framesD [OF assms(1)] by (rule wp_mono) (use assms(2) in \<open>auto simp: framed_def\<close>)

lemma frames_bind [spec_frame]:
  assumes "frames stored m" "\<And>a. frames stored (f a)"
  shows "frames stored (State_Monad.bind m f)"
  unfolding frames_def
proof (intro allI wp_bind)
  show "wp m (\<lambda>a. wp (f a) (\<lambda>_. framed stored h)) h" for h
    using framesD [OF assms(1)]
    by (rule wp_mono) (rule wp_mono [OF framesD [OF assms(2)]], rule framed_trans)
qed

lemma frames_cases [spec_frame]:
  "(b \<Longrightarrow> frames stored m) \<Longrightarrow> (\<not> b \<Longrightarrow> frames stored n) \<Longrightarrow> frames stored (if b then m else n)"
  "frames stored k \<Longrightarrow> (\<And>y. frames stored (f y)) \<Longrightarrow> frames stored (case x of None \<Rightarrow> k | Some y \<Rightarrow> f y)"
  "(\<And>e. frames stored (g e)) \<Longrightarrow> (\<And>y. frames stored (g' y)) \<Longrightarrow>
   frames stored (case z of Inl e \<Rightarrow> g e | Inr y \<Rightarrow> g' y)"
  "(\<And>a b. frames stored (p a b)) \<Longrightarrow> frames stored (case q of (a, b) \<Rightarrow> p a b)"
  "frames stored (l v) \<Longrightarrow> frames stored (let y = v in l y)"
  by (simp_all split: option.split sum.split prod.split)

lemma frames_ops [spec_frame]:
  assumes "api_laws r stored"
  shows "frames stored (now r)" "frames stored (getSts r n ns)" "frames stored (patchSts r so sts)"
    "frames stored (updateSts r sts)" "frames stored (listPods r ns l)"
    "frames stored (getSecret r n ns)" "frames stored (createOrUpdateSecret r n ns fs)"
    "frames stored (createJob r j)" "frames stored (getPVC r n ns)"
    "frames stored (updatePVC r p)" "frames stored (getCronJob r n ns)"
    "frames stored (deleteCronJob r c)" "frames stored (createOrUpdateCronJob r n ns fc)"
  by (simp_all add: handler_ops frames_api others_silentD [OF assms])

section \<open>What a handler logs\<close>

text \<open>\<open>logs P m\<close>: \<open>m\<close> only appends to the log, and only calls that satisfy \<open>P\<close>.\<close>

named_theorems log_rules "what the constructs of a handler log"

definition extends :: "(api_call \<Rightarrow> bool) \<Rightarrow> 's hctx \<Rightarrow> 's hctx \<Rightarrow> bool" where
  "extends P h h' \<longleftrightarrow> (\<exists>cs. calls h' = calls h @ cs \<and> list_all P cs)"

definition logs :: "(api_call \<Rightarrow> bool) \<Rightarrow> ('s hctx, 'a) state \<Rightarrow> bool" where
  "logs P m \<longleftrightarrow> (\<forall>h. wp m (\<lambda>_. extends P h) h)"

lemma extends_refl: "calls h' = calls h \<Longrightarrow> extends P h h'"
  by (simp add: extends_def)

lemma extends_one: "calls h' = calls h @ [c] \<Longrightarrow> P c \<Longrightarrow> extends P h h'"
  by (simp add: extends_def)

lemma extends_trans: "extends P h h' \<Longrightarrow> extends P h' h'' \<Longrightarrow> extends P h h''"
  by (force simp: extends_def)

lemma logsD: "logs P m \<Longrightarrow> wp m (\<lambda>_. extends P h) h"
  by (simp add: logs_def)

lemma wp_logged:
  assumes "logs (\<lambda>_. True) m" "c \<in> set (calls h)" "P c"
  shows "wp m (\<lambda>_ h'. \<exists>c \<in> set (calls h'). P c) h"
  using logsD [OF assms(1), of h] by (rule wp_mono) (use assms(2,3) in \<open>auto simp: extends_def\<close>)

lemma logs_basic [log_rules]:
  "logs P (ret a)" "logs P getInst" "logs P (modInst f)"
  by (auto simp: logs_def intro!: wp_rules extends_refl)

lemma logs_event [log_rules]: "P (CEvent t rs m) \<Longrightarrow> logs P (event t rs m)"
  by (auto simp: logs_def intro!: wp_event extends_one)

lemma logs_api [log_rules]: "(\<And>a. P (mk a)) \<Longrightarrow> logs P (api m mk)"
  by (auto simp: logs_def intro!: wp_api extends_one)

lemma logs_writeInst: "(\<And>i e. P (mk i e)) \<Longrightarrow> logs P (writeInst act mk)"
  by (auto simp: logs_def intro!: wp_writeInst extends_one)

lemma logs_bind [log_rules]:
  assumes "logs P m" "\<And>a. logs P (f a)"
  shows "logs P (State_Monad.bind m f)"
  unfolding logs_def
proof (intro allI wp_bind)
  show "wp m (\<lambda>a. wp (f a) (\<lambda>_. extends P h)) h" for h
    using logsD [OF assms(1)]
    by (rule wp_mono) (rule wp_mono [OF logsD [OF assms(2)]], rule extends_trans)
qed

lemma logs_cases [log_rules]:
  "logs P m \<Longrightarrow> logs P n \<Longrightarrow> logs P (if b then m else n)"
  "logs P k \<Longrightarrow> (\<And>y. logs P (f y)) \<Longrightarrow> logs P (case x of None \<Rightarrow> k | Some y \<Rightarrow> f y)"
  "(\<And>e. logs P (g e)) \<Longrightarrow> (\<And>y. logs P (g' y)) \<Longrightarrow> logs P (case z of Inl e \<Rightarrow> g e | Inr y \<Rightarrow> g' y)"
  "(\<And>a b. logs P (p a b)) \<Longrightarrow> logs P (case q of (a, b) \<Rightarrow> p a b)"
  "logs P (l v) \<Longrightarrow> logs P (let y = v in l y)"
  by (simp_all split: option.split sum.split prod.split)

lemma logs_writes [log_rules]:
  "(\<And>i e. P (CStatusUpdate i e)) \<Longrightarrow> logs P (statusUpdate r)"
  "(\<And>i e. P (CUpdate i e)) \<Longrightarrow> logs P (updateInst r)"
  "(\<And>i e. P (CPatch original i e)) \<Longrightarrow> logs P (patchInst r original)"
  by (simp_all add: statusUpdate_def updateInst_def patchInst_def logs_writeInst)

lemmas handler_defs = handler_ops setCondition_def removeCondition_def

section \<open>The start of a run\<close>

text \<open>A handler run that starts from a fresh read of the instance.\<close>

definition freshCtx :: "('s \<Rightarrow> OpenClawInstance) \<Rightarrow> 's \<Rightarrow> 's hctx" where
  "freshCtx stored s = \<lparr>srv = s, cur = stored s, calls = []\<rparr>"

text \<open>One that starts from a copy of the instance out of the cache, which may be older.\<close>

definition cachedCtx :: "OpenClawInstance \<Rightarrow> 's \<Rightarrow> 's hctx" where
  "cachedCtx i s = \<lparr>srv = s, cur = i, calls = []\<rparr>"

lemma cachedCtx_sel [simp]:
  "cur (cachedCtx i s) = i" "srv (cachedCtx i s) = s" "calls (cachedCtx i s) = []"
  by (simp_all add: cachedCtx_def)

lemma freshCtx_sel [simp]:
  "cur (freshCtx stored s) = stored s" "srv (freshCtx stored s) = s" "calls (freshCtx stored s) = []"
  by (simp_all add: freshCtx_def)

end
