(* ===== verification/S3.thy ===== *)
theory S3
  imports Client
begin

text \<open>
  internal/controller/s3.go: the S3 credentials, the per-instance mirror Secret, the rclone Job
  that copies between the data volume and S3, and the periodic backup CronJob with its
  reconciliation.
\<close>

section \<open>Names and labels\<close>

definition BackupSecretName :: string where "BackupSecretName = ''s3-backup-credentials''"
definition RcloneImage :: string where "RcloneImage = ''docker.io/rclone/rclone:1.68''"
definition AnnotationSkipBackup :: string where "AnnotationSkipBackup = ''openclaw.rocks/skip-backup''"
definition LabelTenant :: string where "LabelTenant = ''openclaw.rocks/tenant''"
definition LabelInstance :: string where "LabelInstance = ''openclaw.rocks/instance''"
definition LabelManagedBy :: string where "LabelManagedBy = ''app.kubernetes.io/managed-by''"

record s3Credentials =
  s3_Bucket :: string
  s3_KeyID :: string
  s3_AppKey :: string
  s3_Endpoint :: string
  s3_Region :: string
  s3_Provider :: string
  s3_EnvAuth :: bool

definition getTenantID :: "OpenClawInstance \<Rightarrow> string" where
  "getTenantID inst =
     (let fallback =
        (if hasPrefix (onamespace inst) ''oc-tenant-''
         then trimPrefix (onamespace inst) ''oc-tenant-'' else onamespace inst)
      in case map_of (om_Labels (oci_Meta inst)) LabelTenant of
           Some tenant \<Rightarrow> if tenant \<noteq> [] then tenant else fallback
         | None \<Rightarrow> fallback)"

definition mirrorSecretName :: "OpenClawInstance \<Rightarrow> string" where
  "mirrorSecretName inst = oname inst @ ''-s3-credentials''"

definition backupJobName :: "OpenClawInstance \<Rightarrow> string" where
  "backupJobName inst = oname inst @ ''-backup''"

definition restoreJobName :: "OpenClawInstance \<Rightarrow> string" where
  "restoreJobName inst = oname inst @ ''-restore''"

definition backupCronJobName :: "OpenClawInstance \<Rightarrow> string" where
  "backupCronJobName inst = oname inst @ ''-backup-periodic''"

definition backupLabels :: "OpenClawInstance \<Rightarrow> string \<Rightarrow> gomap" where
  "backupLabels inst jobType =
     [(LabelManagedBy, ''openclaw-operator''), (LabelTenant, getTenantID inst),
      (LabelInstance, oname inst), (''openclaw.rocks/job-type'', jobType)]"

definition pvcNameForInstance :: "OpenClawInstance \<Rightarrow> string" where
  "pvcNameForInstance inst =
     (let claim = pers_ExistingClaim (stor_Persistence (spec_Storage (oci_Spec inst)))
      in if claim \<noteq> [] then claim else PVCName inst)"

text \<open>The first condition that is Complete or Failed with status True; \<^const>\<open>None\<close> is unfinished.\<close>

fun isJobFinished' :: "(string \<times> string) list \<Rightarrow> string option" where
  "isJobFinished' [] = None"
| "isJobFinished' ((t, s) # cs) =
     (if (t = JobComplete \<or> t = JobFailed) \<and> s = ConditionTrue then Some t else isJobFinished' cs)"

definition isJobFinished :: "Job \<Rightarrow> bool \<times> string" where
  "isJobFinished job =
     (case isJobFinished' (job_Conditions job) of Some t \<Rightarrow> (True, t) | None \<Rightarrow> (False, []))"

section \<open>Credentials\<close>

definition secretKey :: "Secret \<Rightarrow> string \<Rightarrow> string" where
  "secretKey secret key = derefOr [] (map_of (secret_Data secret) key)"

definition requireKey :: "Secret \<Rightarrow> string \<Rightarrow> go_error + string" where
  "requireKey secret key =
     (if secretKey secret key = []
      then Inl (errorf (''S3 credentials secret missing key '' @ quoteStr key))
      else Inr (secretKey secret key))"

definition parseCredentials :: "Secret \<Rightarrow> go_error + s3Credentials" where
  "parseCredentials secret =
     (case requireKey secret ''S3_BUCKET'' of
        Inl e \<Rightarrow> Inl e
      | Inr bucket \<Rightarrow>
     (case requireKey secret ''S3_ENDPOINT'' of
        Inl e \<Rightarrow> Inl e
      | Inr endpoint \<Rightarrow>
          let keyID = secretKey secret ''S3_ACCESS_KEY_ID'';
              appKey = secretKey secret ''S3_SECRET_ACCESS_KEY''
          in if (keyID = []) \<noteq> (appKey = [])
             then Inl (errorf ''S3 credentials secret must set both S3_ACCESS_KEY_ID and S3_SECRET_ACCESS_KEY, or omit both for workload identity (env-auth)'')
             else Inr \<lparr>s3_Bucket = bucket, s3_KeyID = keyID, s3_AppKey = appKey,
                       s3_Endpoint = endpoint, s3_Region = secretKey secret ''S3_REGION'',
                       s3_Provider = strOr (secretKey secret ''S3_PROVIDER'') ''Other'',
                       s3_EnvAuth = (keyID = [] \<and> appKey = [])\<rparr>))"

definition getS3Credentials :: "'s Reconciler \<Rightarrow> ('s hctx, go_error + s3Credentials) state" where
  "getS3Credentials r = do {
     res \<leftarrow> getSecret r BackupSecretName (rc_OperatorNamespace r);
     (case res of
        Inl err \<Rightarrow> ret (Inl (wrapErr (''failed to get S3 credentials secret ''
                     @ rc_OperatorNamespace r @ ''/'' @ BackupSecretName) err))
      | Inr secret \<Rightarrow> ret (parseCredentials secret)) }"

definition reconcileS3MirrorSecret ::
    "'s Reconciler \<Rightarrow> s3Credentials \<Rightarrow> ('s hctx, go_error option) state" where
  "reconcileS3MirrorSecret r creds =
     (if s3_EnvAuth creds then ret None
      else do {
        inst \<leftarrow> getInst;
        res \<leftarrow> createOrUpdateSecret r (mirrorSecretName inst) (onamespace inst)
          (\<lambda>secret.
             case rc_SetControllerReference r inst
                    ((secret_Meta secret)\<lparr>om_Labels :=
                       [(LabelManagedBy, ''openclaw-operator''), (LabelInstance, oname inst)]\<rparr>) of
               Inl e \<Rightarrow> Inl e
             | Inr meta \<Rightarrow>
                 Inr (secret\<lparr>secret_Meta := meta,
                   secret_Data := [(''S3_ACCESS_KEY_ID'', s3_KeyID creds),
                                   (''S3_SECRET_ACCESS_KEY'', s3_AppKey creds)]\<rparr>));
        ret (map_option (wrapErr ''failed to reconcile S3 mirror secret'') (errOf res)) })"

definition getJob :: "'s Reconciler \<Rightarrow> string \<Rightarrow> string \<Rightarrow> ('s hctx, go_error + Job) state" where
  "getJob r name namespace = api (rc_GetJob r name namespace) (CGetJob name namespace)"

section \<open>The rclone Job\<close>

definition rcloneEnv :: "s3Credentials \<Rightarrow> string \<Rightarrow> EnvVar list" where
  "rcloneEnv creds credentialSecretName =
     [envVal ''S3_ENDPOINT'' (s3_Endpoint creds)]
     @ (if s3_EnvAuth creds then []
        else [envSecret ''S3_ACCESS_KEY_ID'' credentialSecretName ''S3_ACCESS_KEY_ID'',
              envSecret ''S3_SECRET_ACCESS_KEY'' credentialSecretName ''S3_SECRET_ACCESS_KEY''])
     @ (if s3_Region creds = [] then [] else [envVal ''S3_REGION'' (s3_Region creds)])"

definition rcloneArgs :: "s3Credentials \<Rightarrow> bool \<Rightarrow> string \<Rightarrow> string list" where
  "rcloneArgs creds isBackup remotePath =
     (let rcloneRemotePath = '':s3:'' @ s3_Bucket creds @ ''/'' @ remotePath;
          authArgs = (if s3_EnvAuth creds then [''--s3-env-auth=true'']
                      else [''--s3-access-key-id=$(S3_ACCESS_KEY_ID)'',
                            ''--s3-secret-access-key=$(S3_SECRET_ACCESS_KEY)'']);
          providerFlag = ''--s3-provider='' @ s3_Provider creds
      in (if isBackup
          then [''sync'', ''/data/'', rcloneRemotePath, providerFlag, ''--s3-endpoint=$(S3_ENDPOINT)''] @ authArgs
          else [''sync'', rcloneRemotePath, ''/data/'', providerFlag, ''--s3-endpoint=$(S3_ENDPOINT)''] @ authArgs)
         @ [''--skip-links'', ''--transfers=8'', ''--checkers=16'', ''-v'']
         @ (if s3_Region creds = [] then [] else [''--s3-region=$(S3_REGION)'']))"

definition dataVolume :: "string \<Rightarrow> Volume" where
  "dataVolume pvcName = \<lparr>vol_Name = ''data'', vol_Source = PVCSource pvcName\<rparr>"

definition dataMount :: VolumeMount where
  "dataMount = \<lparr>vm_Name = ''data'', vm_MountPath = ''/data'', vm_SubPath = [], vm_ReadOnly = False\<rparr>"

definition buildRcloneJob ::
    "string \<Rightarrow> string \<Rightarrow> string \<Rightarrow> string \<Rightarrow> gomap \<Rightarrow> s3Credentials \<Rightarrow> bool \<Rightarrow> gomap \<Rightarrow> json list \<Rightarrow>
     string \<Rightarrow> string \<Rightarrow> Job" where
  "buildRcloneJob name namespace pvcName remotePath labels creds isBackup nodeSelector tolerations
     serviceAccountName credentialSecretName =
     \<lparr>job_Meta = zero_ObjectMeta\<lparr>om_Name := name, om_Namespace := namespace, om_Labels := labels\<rparr>,
      job_Spec =
        \<lparr>js_ActiveDeadlineSeconds = None, js_BackoffLimit = Some 3,
         js_TTLSecondsAfterFinished = Some 86400,
         js_TemplateLabels = labels,
         js_Template =
           \<lparr>ps_RestartPolicy = ''OnFailure'', ps_DNSPolicy = [], ps_SchedulerName = [],
            ps_TerminationGracePeriodSeconds = None,
            ps_ServiceAccountName = serviceAccountName, ps_NodeSelector = nodeSelector,
            ps_Tolerations = tolerations,
            ps_RunAsUser = Some 1000, ps_RunAsGroup = Some 1000, ps_FSGroup = Some 1000,
            ps_PodAffinity = [],
            ps_Containers =
              [\<lparr>con_Name = ''rclone'', con_Image = RcloneImage, con_ImagePullPolicy = [],
                con_Command = [''rclone''], con_Args = rcloneArgs creds isBackup remotePath,
                con_Env = rcloneEnv creds credentialSecretName, con_VolumeMounts = [dataMount],
                con_Other = JObj []\<rparr>],
            ps_Volumes = [dataVolume pvcName]\<rparr>\<rparr>,
      job_Conditions = []\<rparr>"

text \<open>The Job of an instance: the arguments every caller passes the same way.\<close>

definition instanceJob ::
    "OpenClawInstance \<Rightarrow> string \<Rightarrow> string \<Rightarrow> string \<Rightarrow> s3Credentials \<Rightarrow> bool \<Rightarrow> Job" where
  "instanceJob inst jobName jobType remotePath creds isBackup =
     buildRcloneJob jobName (onamespace inst) (pvcNameForInstance inst) remotePath
       (backupLabels inst jobType) creds isBackup
       (av_NodeSelector (spec_Availability (oci_Spec inst)))
       (av_Tolerations (spec_Availability (oci_Spec inst)))
       (bk_ServiceAccountName (spec_Backup (oci_Spec inst))) (mirrorSecretName inst)"

section \<open>The periodic backup\<close>

definition rcloneCronJobEnv :: "s3Credentials \<Rightarrow> string \<Rightarrow> EnvVar list" where
  "rcloneCronJobEnv creds credentialSecretName =
     [envVal ''S3_ENDPOINT'' (s3_Endpoint creds)]
     @ (if \<not> s3_EnvAuth creds
        then [envSecret ''S3_ACCESS_KEY_ID'' credentialSecretName ''S3_ACCESS_KEY_ID'',
              envSecret ''S3_SECRET_ACCESS_KEY'' credentialSecretName ''S3_SECRET_ACCESS_KEY'']
        else [])
     @ (if s3_Region creds \<noteq> [] then [envVal ''S3_REGION'' (s3_Region creds)] else [])"

definition dq :: "string \<Rightarrow> string" where
  "dq s = [dquote] @ s @ [dquote]"

definition cronFlags :: "s3Credentials \<Rightarrow> string" where
  "cronFlags creds =
     (let authFlags = (if s3_EnvAuth creds then ''--s3-env-auth=true''
                       else ''--s3-access-key-id='' @ dq ''${S3_ACCESS_KEY_ID}''
                            @ '' --s3-secret-access-key='' @ dq ''${S3_SECRET_ACCESS_KEY}'')
      in ''--s3-provider='' @ s3_Provider creds @ '' --s3-endpoint='' @ dq ''${S3_ENDPOINT}'' @ '' ''
         @ authFlags
         @ (if s3_Region creds \<noteq> [] then '' --s3-region='' @ dq ''${S3_REGION}'' else []))"

definition rcloneCmd :: "string \<Rightarrow> string \<Rightarrow> int \<Rightarrow> string" where
  "rcloneCmd s3Flags remote retentionDays =
     ''set -e''
     @ '' && R='' @ dq s3Flags
     @ '' && S3='' @ dq remote
     @ '' && echo '' @ dq ''Step 1: incremental sync to latest''
     @ '' && rclone sync /data/ '' @ dq ''${S3}/latest'' @ '' $R --skip-links --transfers=8 --checkers=16 -v''
     @ '' && TODAY=$(date -u +%Y-%m-%d)''
     @ '' && echo '' @ dq ''Step 2: snapshot ${TODAY}''
     @ '' && rclone copy '' @ dq ''${S3}/latest'' @ '' '' @ dq ''${S3}/snapshots/${TODAY}''
     @ '' $R --transfers=8 --checkers=16 -v''
     @ '' && CUTOFF=$(date -u -d @$(($(date -u +%s) - 86400 * '' @ intStr retentionDays @ '')) +%Y-%m-%d)''
     @ '' && echo '' @ dq (''Step 3: pruning snapshots older than ${CUTOFF} ('' @ intStr retentionDays @ '' day retention)'')
     @ '' && for dir in $(rclone lsf '' @ dq ''${S3}/snapshots/'' @ '' $R --dirs-only 2>/dev/null); do''
     @ ''   d=$(echo '' @ dq ''$dir'' @ '' | tr -d '' @ dq ''/'' @ '');''
     @ ''   if [ '' @ dq ''$d'' @ '' '' @ [backslash] @ ''< '' @ dq ''$CUTOFF'' @ '' ]; then''
     @ ''     echo '' @ dq ''Pruning snapshot $d'' @ '';''
     @ ''     rclone purge '' @ dq ''${S3}/snapshots/$d'' @ '' $R -v;''
     @ ''   fi;''
     @ '' done''
     @ '' && echo '' @ dq ''Backup complete''"

definition cronPodSpec :: "OpenClawInstance \<Rightarrow> s3Credentials \<Rightarrow> string \<Rightarrow> PodSpec" where
  "cronPodSpec inst creds credentialSecretName =
     (let retentionDays = derefOr 7 (bk_RetentionDays (spec_Backup (oci_Spec inst)));
          basePath = ''backups/'' @ getTenantID inst @ ''/'' @ oname inst @ ''/periodic'';
          remote = '':s3:'' @ s3_Bucket creds @ ''/'' @ basePath
      in \<lparr>ps_RestartPolicy = ''OnFailure'', ps_DNSPolicy = ''ClusterFirst'',
          ps_SchedulerName = ''default-scheduler'', ps_TerminationGracePeriodSeconds = Some 30,
          ps_ServiceAccountName = bk_ServiceAccountName (spec_Backup (oci_Spec inst)),
          ps_NodeSelector = av_NodeSelector (spec_Availability (oci_Spec inst)),
          ps_Tolerations = av_Tolerations (spec_Availability (oci_Spec inst)),
          ps_RunAsUser = Some 1000, ps_RunAsGroup = Some 1000, ps_FSGroup = Some 1000,
          ps_PodAffinity =
            [\<lparr>pat_MatchLabels = [(''app.kubernetes.io/name'', ''openclaw''),
                                (''app.kubernetes.io/instance'', oname inst)],
              pat_TopologyKey = ''kubernetes.io/hostname''\<rparr>],
          ps_Containers =
            [\<lparr>con_Name = ''rclone'', con_Image = RcloneImage, con_ImagePullPolicy = ''IfNotPresent'',
              con_Command = [''sh'', ''-c'', rcloneCmd (cronFlags creds) remote retentionDays],
              con_Args = [], con_Env = rcloneCronJobEnv creds credentialSecretName,
              con_VolumeMounts = [dataMount],
              con_Other = JObj [(''terminationMessagePath'', JStr ''/dev/termination-log''),
                                (''terminationMessagePolicy'', JStr ''File'')]\<rparr>],
          ps_Volumes = [dataVolume (pvcNameForInstance inst)]\<rparr>)"

definition buildBackupCronJob :: "OpenClawInstance \<Rightarrow> s3Credentials \<Rightarrow> string \<Rightarrow> CronJob" where
  "buildBackupCronJob inst creds credentialSecretName =
     (let labels = backupLabels inst ''periodic-backup''; bk = spec_Backup (oci_Spec inst)
      in \<lparr>cron_Meta = zero_ObjectMeta\<lparr>om_Name := backupCronJobName inst,
            om_Namespace := onamespace inst, om_Labels := labels\<rparr>,
          cron_Spec =
            \<lparr>cj_Schedule = bk_Schedule bk, cj_ConcurrencyPolicy = ''Forbid'',
             cj_StartingDeadlineSeconds = Some 600,
             cj_SuccessfulJobsHistoryLimit = Some (derefOr 3 (bk_HistoryLimit bk)),
             cj_FailedJobsHistoryLimit = Some (derefOr 1 (bk_FailedHistoryLimit bk)),
             cj_JobLabels = labels,
             cj_JobSpec =
               \<lparr>js_ActiveDeadlineSeconds = Some 3600, js_BackoffLimit = Some 3,
                js_TTLSecondsAfterFinished = Some 86400, js_TemplateLabels = labels,
                js_Template = cronPodSpec inst creds credentialSecretName\<rparr>\<rparr>\<rparr>)"

definition clearBackupCronJob :: "'s Reconciler \<Rightarrow> ('s hctx, unit) state" where
  "clearBackupCronJob r = do {
     modInst (updStatus (\<lambda>s. s\<lparr>st_ManagedResources := (st_ManagedResources s)\<lparr>mr_BackupCronJob := []\<rparr>\<rparr>));
     removeCondition r ConditionTypeScheduledBackupReady }"

definition cleanupBackupCronJob :: "'s Reconciler \<Rightarrow> ('s hctx, go_error option) state" where
  "cleanupBackupCronJob r = do {
     inst \<leftarrow> getInst;
     res \<leftarrow> getCronJob r (backupCronJobName inst) (onamespace inst);
     (case res of
        Inl err \<Rightarrow>
          if isNotFound err then do { clearBackupCronJob r; ret None }
          else ret (Some (wrapErr ''failed to get backup CronJob for cleanup'' err))
      | Inr cronJob \<Rightarrow> do {
          err \<leftarrow> deleteCronJob r cronJob;
          (case err of
             Some e \<Rightarrow>
               if isNotFound e then do { clearBackupCronJob r; ret None }
               else ret (Some (wrapErr ''failed to delete backup CronJob'' e))
           | None \<Rightarrow> do { clearBackupCronJob r; ret None }) }) }"

definition scheduledCondition :: "OpenClawInstance \<Rightarrow> string \<Rightarrow> string \<Rightarrow> string \<Rightarrow> Condition" where
  "scheduledCondition inst st reason msg =
     (mkCondition ConditionTypeScheduledBackupReady st reason msg)
       \<lparr>cond_ObservedGeneration := om_Generation (oci_Meta inst)\<rparr>"

definition reconcileBackupCronJob :: "'s Reconciler \<Rightarrow> ('s hctx, go_error option) state" where
  "reconcileBackupCronJob r = do {
     inst \<leftarrow> getInst;
     (if bk_Schedule (spec_Backup (oci_Spec inst)) = [] then cleanupBackupCronJob r
      else if \<not> IsPersistenceEnabled inst then do {
        setCondition r (scheduledCondition inst ConditionFalse ''PersistenceDisabled''
          ''Periodic backups require persistence to be enabled'');
        cleanupBackupCronJob r }
      else do {
        res \<leftarrow> getS3Credentials r;
        (case res of
           Inl err \<Rightarrow> do {
             setCondition r (scheduledCondition inst ConditionFalse ''S3CredentialsMissing''
               ''S3 credentials secret not found in operator namespace - create s3-backup-credentials Secret to enable periodic backups'');
             ret None }
         | Inr creds \<Rightarrow> do {
             mirrorErr \<leftarrow> reconcileS3MirrorSecret r creds;
             (case mirrorErr of
                Some e \<Rightarrow> ret (Some e)
              | None \<Rightarrow> do {
                  let desired = buildBackupCronJob inst creds (mirrorSecretName inst);
                  cres \<leftarrow> createOrUpdateCronJob r (backupCronJobName inst) (onamespace inst)
                    (\<lambda>obj.
                       case rc_SetControllerReference r inst
                              ((cron_Meta obj)\<lparr>om_Labels := om_Labels (cron_Meta desired)\<rparr>) of
                         Inl e \<Rightarrow> Inl e
                       | Inr meta \<Rightarrow> Inr (obj\<lparr>cron_Meta := meta, cron_Spec := cron_Spec desired\<rparr>));
                  (case cres of
                     Inl e \<Rightarrow> ret (Some (wrapErr ''failed to reconcile backup CronJob'' e))
                   | Inr obj \<Rightarrow> do {
                       modInst (updStatus (\<lambda>s. s\<lparr>st_ManagedResources :=
                         (st_ManagedResources s)\<lparr>mr_BackupCronJob := om_Name (cron_Meta obj)\<rparr>\<rparr>));
                       setCondition r (scheduledCondition inst ConditionTrue ''CronJobReady''
                         (''Periodic backup CronJob '' @ quoteStr (om_Name (cron_Meta obj))
                          @ '' created with schedule '' @ quoteStr (bk_Schedule (spec_Backup (oci_Spec inst)))));
                       ret None }) }) }) }) }"

section \<open>Framing\<close>

lemma frames_getS3Credentials [spec_frame]:
  "api_laws r stored \<Longrightarrow> frames stored (getS3Credentials r)"
  unfolding getS3Credentials_def by (intro spec_frame)

lemma frames_reconcileS3MirrorSecret [spec_frame]:
  "api_laws r stored \<Longrightarrow> frames stored (reconcileS3MirrorSecret r creds)"
  unfolding reconcileS3MirrorSecret_def by (intro spec_frame)

lemma frames_getJob [spec_frame]: "api_laws r stored \<Longrightarrow> frames stored (getJob r n ns)"
  unfolding getJob_def by (simp add: frames_api others_silentD)

section \<open>Properties\<close>

text \<open>
  C25: neither the backup and restore Jobs nor the periodic CronJob depend on the values of the access
  keys: changing them changes nothing in the objects written to the cluster.
\<close>

theorem jobs_hide_credentials:
  "buildRcloneJob n ns pvc path l (creds\<lparr>s3_KeyID := k, s3_AppKey := a\<rparr>) b sel tol sa secret =
     buildRcloneJob n ns pvc path l creds b sel tol sa secret \<and>
   buildBackupCronJob inst (creds\<lparr>s3_KeyID := k, s3_AppKey := a\<rparr>) secret = buildBackupCronJob inst creds secret"
  by (simp add: buildRcloneJob_def rcloneArgs_def rcloneEnv_def buildBackupCronJob_def cronPodSpec_def
      cronFlags_def rcloneCronJobEnv_def)

text \<open>
  For the same remote path a restore Job reads from exactly the place a backup Job wrote to: the
  two argument lists differ only in that source and destination are exchanged, and the local side
  is the mounted data directory in both.
\<close>

theorem restore_mirrors_backup:
  "rcloneArgs creds False path =
     (rcloneArgs creds True path)[1 := rcloneArgs creds True path ! 2, 2 := rcloneArgs creds True path ! 1] \<and>
   rcloneArgs creds True path ! 1 = vm_MountPath dataMount @ ''/'' \<and>
   rcloneArgs creds True path ! 2 = '':s3:'' @ s3_Bucket creds @ ''/'' @ path"
  by (simp add: rcloneArgs_def dataMount_def Let_def numeral_2_eq_2)

text \<open>
  Credentials are accepted exactly when bucket and endpoint are present and the two access keys
  are both present or both absent; accepted credentials use the ambient identity exactly when
  there are no keys, and always name a provider.
\<close>

theorem parseCredentials_sound:
  "case parseCredentials secret of
     Inr c \<Rightarrow> s3_Bucket c = secretKey secret ''S3_BUCKET'' \<and> s3_Bucket c \<noteq> []
       \<and> s3_Endpoint c = secretKey secret ''S3_ENDPOINT'' \<and> s3_Endpoint c \<noteq> []
       \<and> (s3_KeyID c = [] \<longleftrightarrow> s3_AppKey c = []) \<and> (s3_EnvAuth c \<longleftrightarrow> s3_KeyID c = [])
       \<and> s3_Provider c \<noteq> []
   | Inl e \<Rightarrow> secretKey secret ''S3_BUCKET'' = [] \<or> secretKey secret ''S3_ENDPOINT'' = []
       \<or> (secretKey secret ''S3_ACCESS_KEY_ID'' = [] \<longleftrightarrow> secretKey secret ''S3_SECRET_ACCESS_KEY'' \<noteq> [])"
  by (auto simp: parseCredentials_def requireKey_def strOr_def Let_def split: sum.splits)

end
