(* ===== verification/MemCluster.thy ===== *)
theory MemCluster
  imports Client
begin

text \<open>
  A small in-memory cluster that satisfies \<^const>\<open>api_laws\<close>: the concrete client, clock and
  helpers on which the witnesses of the development run the handlers. Every call succeeds unless
  the object asked for is missing.
\<close>

record Mem =
  mem_Inst :: OpenClawInstance
  mem_Time :: int
  mem_Sts :: "StatefulSet option"
  mem_Pods :: "string list"
  mem_Jobs :: "(string \<times> Job) list"
  mem_Secrets :: "(string \<times> Secret) list"
  mem_PVC :: "PVC option"
  mem_CronJob :: "CronJob option"
  mem_Latest :: string

definition memGet :: "('a \<Rightarrow> 'b option) \<Rightarrow> ('a, go_error + 'b) state" where
  "memGet f = State (\<lambda>s. (case f s of None \<Rightarrow> Inl (GoErr KNotFound ''not found'') | Some x \<Rightarrow> Inr x, s))"

definition memPut :: "(Mem \<Rightarrow> Mem) \<Rightarrow> (Mem, go_error option) state" where
  "memPut f = State (\<lambda>s. (None, f s))"

definition memWrite :: "(Mem \<Rightarrow> OpenClawInstance) \<Rightarrow> (Mem, go_error + OpenClawInstance) state" where
  "memWrite f = State (\<lambda>s. (Inr (f s), s\<lparr>mem_Inst := f s\<rparr>))"

definition memRec :: "Mem Reconciler" where
  "memRec =
     \<lparr>rc_OperatorNamespace = ''system'',
      rc_Now = State (\<lambda>s. (mem_Time s, s)),
      rc_StatusUpdate = (\<lambda>i. memWrite (\<lambda>s. (mem_Inst s)\<lparr>oci_Status := oci_Status i\<rparr>)),
      rc_Update = (\<lambda>i. memWrite (\<lambda>s. i\<lparr>oci_Status := oci_Status (mem_Inst s)\<rparr>)),
      rc_Patch = (\<lambda>o' i. memWrite (\<lambda>s.
        let t = setTag (patched (tag_of o') (tag_of i) (tag_of (mem_Inst s))) (mem_Inst s)
        in t\<lparr>oci_Spec := (oci_Spec t)\<lparr>spec_RestoreFrom :=
               patched (spec_RestoreFrom (oci_Spec o')) (spec_RestoreFrom (oci_Spec i))
                 (spec_RestoreFrom (oci_Spec (mem_Inst s)))\<rparr>\<rparr>)),
      rc_GetSts = (\<lambda>n ns. memGet mem_Sts),
      rc_PatchSts = (\<lambda>o' x. memPut (\<lambda>s. s\<lparr>mem_Sts := Some x\<rparr>)),
      rc_UpdateSts = (\<lambda>x. memPut (\<lambda>s. s\<lparr>mem_Sts := Some x\<rparr>)),
      rc_ListPods = (\<lambda>ns l. State (\<lambda>s. (Inr (mem_Pods s), s))),
      rc_GetSecret = (\<lambda>n ns. memGet (\<lambda>s. map_of (mem_Secrets s) n)),
      rc_CreateOrUpdateSecret = (\<lambda>n ns f. State (\<lambda>s.
        case f (case map_of (mem_Secrets s) n of Some x \<Rightarrow> x
                | None \<Rightarrow> \<lparr>secret_Meta = zero_ObjectMeta\<lparr>om_Name := n, om_Namespace := ns\<rparr>, secret_Data = []\<rparr>) of
          Inl e \<Rightarrow> (Inl e, s)
        | Inr x \<Rightarrow> (Inr x, s\<lparr>mem_Secrets := AList.update n x (mem_Secrets s)\<rparr>))),
      rc_GetJob = (\<lambda>n ns. memGet (\<lambda>s. map_of (mem_Jobs s) n)),
      rc_CreateJob = (\<lambda>j. memPut (\<lambda>s. s\<lparr>mem_Jobs := AList.update (om_Name (job_Meta j)) j (mem_Jobs s)\<rparr>)),
      rc_GetPVC = (\<lambda>n ns. memGet mem_PVC),
      rc_UpdatePVC = (\<lambda>p. memPut (\<lambda>s. s\<lparr>mem_PVC := Some p\<rparr>)),
      rc_GetCronJob = (\<lambda>n ns. memGet mem_CronJob),
      rc_DeleteCronJob = (\<lambda>c. memPut (\<lambda>s. s\<lparr>mem_CronJob := None\<rparr>)),
      rc_CreateOrUpdateCronJob = (\<lambda>n ns f. State (\<lambda>s.
        case mem_CronJob s of
          None \<Rightarrow> (Inl (errorf ''template missing''), s)
        | Some c \<Rightarrow> (case f c of Inl e \<Rightarrow> (Inl e, s) | Inr x \<Rightarrow> (Inr x, s\<lparr>mem_CronJob := Some x\<rparr>)))),
      rc_SetControllerReference = (\<lambda>i m.
        Inr (m\<lparr>om_OwnerReferences := \<lparr>or_UID = om_UID (oci_Meta i), or_Controller = True\<rparr> # om_OwnerReferences m\<rparr>)),
      rc_SetStatusCondition = (\<lambda>c cs. filter (\<lambda>d. cond_Type d \<noteq> cond_Type c) cs @ [c]),
      rc_RemoveStatusCondition = (\<lambda>t. filter (\<lambda>d. cond_Type d \<noteq> t)),
      rc_RemoveFinalizer = (\<lambda>f. filter (\<lambda>x. x \<noteq> f)),
      rc_VersionResolver = Some (\<lambda>repo. State (\<lambda>s. (Inr (mem_Latest s), s)))\<rparr>"

lemma silent_mem:
  "silent mem_Inst (memGet f)"
  "(\<And>s. mem_Inst (g s) = mem_Inst s) \<Longrightarrow> silent mem_Inst (memPut g)"
  by (simp_all add: silent_def memGet_def memPut_def)

theorem memRec_laws: "api_laws memRec mem_Inst"
proof -
  have "others_silent memRec mem_Inst"
    unfolding others_silent_def
    by (simp add: memRec_def silent_mem) (simp add: silent_def split: sum.splits option.splits)
  moreover have "status_law memRec mem_Inst" "update_law memRec mem_Inst"
    by (auto simp: status_law_def update_law_def memRec_def memWrite_def)
  moreover have "patch_law memRec mem_Inst"
    unfolding patch_law_def memRec_def memWrite_def
    by (simp add: Let_def setTag_def)
  ultimately show ?thesis by (simp add: api_laws_def)
qed

section \<open>Running handlers on it\<close>

text \<open>One rule per call: the in-memory cluster answers as it must, and writes never fail.\<close>

named_theorems mem_rules "the calls of a handler on the in-memory cluster"

lemma memRec_sel:
  "rc_StatusUpdate memRec i = memWrite (\<lambda>s. (mem_Inst s)\<lparr>oci_Status := oci_Status i\<rparr>)"
  "rc_Update memRec i = memWrite (\<lambda>s. i\<lparr>oci_Status := oci_Status (mem_Inst s)\<rparr>)"
  "rc_GetSts memRec n ns = memGet mem_Sts"
  "rc_PatchSts memRec o' x = memPut (\<lambda>s. s\<lparr>mem_Sts := Some x\<rparr>)"
  "rc_UpdateSts memRec x = memPut (\<lambda>s. s\<lparr>mem_Sts := Some x\<rparr>)"
  "rc_Now memRec = State (\<lambda>s. (mem_Time s, s))"
  "rc_ListPods memRec ns l = State (\<lambda>s. (Inr (mem_Pods s), s))"
  "rc_GetSecret memRec n ns = memGet (\<lambda>s. map_of (mem_Secrets s) n)"
  "rc_GetJob memRec n ns = memGet (\<lambda>s. map_of (mem_Jobs s) n)"
  "rc_CreateJob memRec j = memPut (\<lambda>s. s\<lparr>mem_Jobs := AList.update (om_Name (job_Meta j)) j (mem_Jobs s)\<rparr>)"
  "rc_GetPVC memRec n ns = memGet mem_PVC"
  "rc_UpdatePVC memRec p = memPut (\<lambda>s. s\<lparr>mem_PVC := Some p\<rparr>)"
  "rc_RemoveFinalizer memRec f = filter (\<lambda>x. x \<noteq> f)"
  "rc_OperatorNamespace memRec = ''system''"
  by (simp_all add: memRec_def)

lemma wp_mem_statusUpdate [mem_rules]:
  assumes "\<And>h'. cur h' = (mem_Inst (srv h))\<lparr>oci_Status := oci_Status (cur h)\<rparr> \<Longrightarrow>
     srv h' = (srv h)\<lparr>mem_Inst := (mem_Inst (srv h))\<lparr>oci_Status := oci_Status (cur h)\<rparr>\<rparr> \<Longrightarrow> Q None h'"
  shows "wp (statusUpdate memRec) Q h"
  unfolding statusUpdate_def wp_def writeInst_def
  by (simp add: memRec_sel memWrite_def errOf_def assms)

lemma wp_mem_patchInst [mem_rules]:
  assumes "\<And>h'. oci_Status (cur h') = oci_Status (mem_Inst (srv h)) \<Longrightarrow>
     oci_Meta (cur h') = oci_Meta (mem_Inst (srv h)) \<Longrightarrow>
     tag_of (cur h') = patched (tag_of o') (tag_of (cur h)) (tag_of (mem_Inst (srv h))) \<Longrightarrow>
     spec_AutoUpdate (oci_Spec (cur h')) = spec_AutoUpdate (oci_Spec (mem_Inst (srv h))) \<Longrightarrow>
     spec_Storage (oci_Spec (cur h')) = spec_Storage (oci_Spec (mem_Inst (srv h))) \<Longrightarrow>
     srv h' = (srv h)\<lparr>mem_Inst := cur h'\<rparr> \<Longrightarrow> Q None h'"
  shows "wp (patchInst memRec o') Q h"
  unfolding patchInst_def
  by (rule wp_writeInst; (rule assms)?) (auto simp: memRec_def memWrite_def Let_def setTag_def)

lemma wp_mem_updateInst [mem_rules]:
  assumes "\<And>h'. cur h' = (cur h)\<lparr>oci_Status := oci_Status (mem_Inst (srv h))\<rparr> \<Longrightarrow>
     srv h' = (srv h)\<lparr>mem_Inst := (cur h)\<lparr>oci_Status := oci_Status (mem_Inst (srv h))\<rparr>\<rparr> \<Longrightarrow> Q None h'"
  shows "wp (updateInst memRec) Q h"
  unfolding updateInst_def wp_def writeInst_def
  by (simp add: memRec_sel memWrite_def errOf_def assms)

definition memReply :: "'a option \<Rightarrow> go_error + 'a" where
  "memReply x = (case x of None \<Rightarrow> Inl (GoErr KNotFound ''not found'') | Some y \<Rightarrow> Inr y)"

lemma memReply_simps [simp]:
  "memReply None = Inl (GoErr KNotFound ''not found'')" "memReply (Some y) = Inr y"
  by (simp_all add: memReply_def)

lemma wp_mem_get:
  assumes "\<And>h'. cur h' = cur h \<Longrightarrow> srv h' = srv h \<Longrightarrow> Q (memReply (f (srv h))) h'"
  shows "wp (api (memGet f) mk) Q h"
  using assms by (simp add: wp_def api_def memGet_def memReply_def)

lemma wp_mem_reads [mem_rules]:
  "(\<And>h'. cur h' = cur h \<Longrightarrow> srv h' = srv h \<Longrightarrow> Q (memReply (mem_Sts (srv h))) h') \<Longrightarrow>
   wp (getSts memRec n ns) Q h"
  "(\<And>h'. cur h' = cur h \<Longrightarrow> srv h' = srv h \<Longrightarrow> Q' (memReply (map_of (mem_Secrets (srv h)) n)) h') \<Longrightarrow>
   wp (getSecret memRec n ns) Q' h"
  "(\<And>h'. cur h' = cur h \<Longrightarrow> srv h' = srv h \<Longrightarrow> Q'' (memReply (mem_PVC (srv h))) h') \<Longrightarrow>
   wp (getPVC memRec n ns) Q'' h"
  by (simp_all add: getSts_def getSecret_def getPVC_def memRec_sel wp_mem_get)

lemma wp_mem_getJob [mem_rules]:
  "(\<And>h'. cur h' = cur h \<Longrightarrow> srv h' = srv h \<Longrightarrow> Q (memReply (map_of (mem_Jobs (srv h)) n)) h') \<Longrightarrow>
   wp (api (rc_GetJob memRec n ns) mk) Q h"
  by (simp add: memRec_sel wp_mem_get)

lemma wp_mem_now [mem_rules]:
  "(\<And>h'. cur h' = cur h \<Longrightarrow> srv h' = srv h \<Longrightarrow> Q (mem_Time (srv h)) h') \<Longrightarrow> wp (now memRec) Q h"
  by (simp add: now_def wp_def api_def memRec_sel)

text \<open>The local steps, with the log forgotten.\<close>

lemma wp_mem_local [mem_rules]:
  "(\<And>h'. cur h' = f (cur h) \<Longrightarrow> srv h' = srv h \<Longrightarrow> Q () h') \<Longrightarrow> wp (modInst f) Q h"
  "(\<And>h'. cur h' = cur h \<Longrightarrow> srv h' = srv h \<Longrightarrow> Q () h') \<Longrightarrow> wp (event t rs m) Q h"
  by (simp_all add: wp_def modInst_def event_def)

lemmas mem_run = mem_rules wp_return wp_bind wp_if wp_option wp_sum wp_prod wp_let wp_getInst

definition memStart :: "OpenClawInstance \<Rightarrow> Mem" where
  "memStart i = \<lparr>mem_Inst = i, mem_Time = 0, mem_Sts = None, mem_Pods = [], mem_Jobs = [],
     mem_Secrets = [], mem_PVC = None, mem_CronJob = None, mem_Latest = ''1.0.0''\<rparr>"

text \<open>A sample instance with the given update status, image tag and phase.\<close>

definition sampleInst :: "AutoUpdateStatus \<Rightarrow> string \<Rightarrow> string \<Rightarrow> OpenClawInstance" where
  "sampleInst a tag phase =
     setTag tag (zero_OpenClawInstance
       \<lparr>oci_Meta := zero_ObjectMeta\<lparr>om_Name := ''demo'', om_Namespace := ''default''\<rparr>,
        oci_Status := zero_OpenClawInstanceStatus\<lparr>st_Phase := phase, st_AutoUpdate := a\<rparr>\<rparr>)"

definition sampleAU :: "string \<Rightarrow> string \<Rightarrow> string \<Rightarrow> AutoUpdateStatus" where
  "sampleAU pending previous phase =
     zero_AutoUpdateStatus\<lparr>aus_PendingVersion := pending, aus_PreviousVersion := previous,
       aus_UpdatePhase := phase, aus_LastUpdateTime := Some 0\<rparr>"

lemma sample_sel [simp]:
  "au_of (sampleInst a tag phase) = a" "tag_of (sampleInst a tag phase) = tag"
  "st_Phase (oci_Status (sampleInst a tag phase)) = phase"
  "oname (sampleInst a tag phase) = ''demo''" "onamespace (sampleInst a tag phase) = ''default''"
  "spec_AutoUpdate (oci_Spec (sampleInst a tag phase)) = zero_AutoUpdateSpec"
  "spec_Storage (oci_Spec (sampleInst a tag phase)) = zero_StorageSpec"
  "st_BackingUpSince (oci_Status (sampleInst a tag phase)) = None"
  "om_Annotations (oci_Meta (sampleInst a tag phase)) = []" "om_UID (oci_Meta (sampleInst a tag phase)) = []"
  "st_RestoredFrom (oci_Status (sampleInst a tag phase)) = []"
  by (simp_all add: sampleInst_def setTag_def zero_OpenClawInstance_def zero_OpenClawInstanceSpec_def
      zero_OpenClawInstanceStatus_def zero_ObjectMeta_def)

lemma sampleAU_sel [simp]:
  "aus_PendingVersion (sampleAU p v u) = p" "aus_PreviousVersion (sampleAU p v u) = v"
  "aus_UpdatePhase (sampleAU p v u) = u" "aus_PreUpdateBackupPath (sampleAU p v u) = []"
  "aus_RollbackCount (sampleAU p v u) = 0" "aus_FailedVersion (sampleAU p v u) = []"
  "aus_LastUpdateTime (sampleAU p v u) = Some 0" "aus_LastCheckTime (sampleAU p v u) = None"
  by (simp_all add: sampleAU_def zero_AutoUpdateStatus_def)

lemma memStart_sel [simp]:
  "mem_Inst (memStart i) = i" "mem_Time (memStart i) = 0" "mem_Sts (memStart i) = None"
  "mem_Jobs (memStart i) = []" "mem_Secrets (memStart i) = []" "mem_PVC (memStart i) = None"
  "mem_Pods (memStart i) = []" "mem_Latest (memStart i) = ''1.0.0''"
  by (simp_all add: memStart_def)

end
