(* ===== verification/AutoUpdate.thy ===== *)
theory AutoUpdate
  imports S3 MemCluster
begin

text \<open>
  internal/controller/autoupdate.go: the version check and the update state machine (pre-update
  backup, patching the image tag, health check, rollback, circuit breaker).

  The update phase is a string of the status, as in the code: empty, \<open>BackingUp\<close>,
  \<open>ApplyingUpdate\<close>, \<open>HealthCheck\<close> or \<open>RollingBack\<close>; an update is under way
  while \<open>PendingVersion\<close> is not empty.
\<close>

definition updatePhaseBackingUp :: string where "updatePhaseBackingUp = ''BackingUp''"
definition updatePhaseApplyingUpdate :: string where "updatePhaseApplyingUpdate = ''ApplyingUpdate''"
definition updatePhaseHealthCheck :: string where "updatePhaseHealthCheck = ''HealthCheck''"
definition updatePhaseRollingBack :: string where "updatePhaseRollingBack = ''RollingBack''"

lemmas update_phases = updatePhaseBackingUp_def updatePhaseApplyingUpdate_def
  updatePhaseHealthCheck_def updatePhaseRollingBack_def

definition maxRollbackCount :: int32 where "maxRollbackCount = 3"

definition rollbackRestoreJobName :: "OpenClawInstance \<Rightarrow> string" where
  "rollbackRestoreJobName inst = oname inst @ ''-rollback-restore''"

definition preUpdateBackupJobName :: "OpenClawInstance \<Rightarrow> string" where
  "preUpdateBackupJobName inst = oname inst @ ''-pre-update-backup''"

section \<open>Settings\<close>

definition parseHealthCheckTimeout :: "string \<Rightarrow> duration" where
  "parseHealthCheckTimeout s =
     (if s = [] then 10 * Minute
      else case parseDuration s of
        None \<Rightarrow> 10 * Minute
      | Some d \<Rightarrow> if d < 2 * Minute then 2 * Minute
                  else if d > 30 * Minute then 30 * Minute else d)"

definition parseCheckInterval :: "string \<Rightarrow> duration" where
  "parseCheckInterval s =
     (if s = [] then 24 * Hour
      else case parseDuration s of
        None \<Rightarrow> 24 * Hour
      | Some d \<Rightarrow> if d < Hour then Hour else if d > 168 * Hour then 168 * Hour else d)"

interpretation health_timeout: clamped_duration parseHealthCheckTimeout "10 * Minute" "2 * Minute" "30 * Minute"
  by unfold_locales
    (auto simp: parseHealthCheckTimeout_def clampDuration_def time_units split: option.splits)

interpretation check_interval: clamped_duration parseCheckInterval "24 * Hour" Hour "168 * Hour"
  by unfold_locales
    (auto simp: parseCheckInterval_def clampDuration_def time_units split: option.splits)

definition isAutoUpdateEnabled :: "OpenClawInstance \<Rightarrow> bool" where
  "isAutoUpdateEnabled inst =
     (case au_Enabled (spec_AutoUpdate (oci_Spec inst)) of
        None \<Rightarrow> False
      | Some b \<Rightarrow> if \<not> b then False else if img_Digest (spec_Image (oci_Spec inst)) \<noteq> [] then False else True)"

definition shouldCheckForUpdate :: "'s Reconciler \<Rightarrow> ('s hctx, bool) state" where
  "shouldCheckForUpdate r = do {
     inst \<leftarrow> getInst;
     (case aus_LastCheckTime (au_of inst) of
        None \<Rightarrow> ret True
      | Some t \<Rightarrow> do {
          n \<leftarrow> now r;
          ret (since n t \<ge> parseCheckInterval (au_CheckInterval (spec_AutoUpdate (oci_Spec inst)))) }) }"

section \<open>Backup and restore Jobs of an update\<close>

text \<open>
  The parts \<open>drivePreUpdateBackup\<close> and \<open>driveRollbackRestore\<close> have in common: scale the
  StatefulSet to zero and wait for its pods, then create or poll a Job. A missing StatefulSet
  ends the drive at once with done = true.
\<close>

definition scaledUp :: "StatefulSet \<Rightarrow> bool" where
  "scaledUp sts = (case sts_Replicas sts of None \<Rightarrow> True | Some n \<Rightarrow> n > 0)"

definition drainSts :: "'s Reconciler \<Rightarrow> 's driver \<Rightarrow> 's driver" where
  "drainSts r cont = do {
     inst \<leftarrow> getInst;
     res \<leftarrow> getSts r (StatefulSetName inst) (onamespace inst);
     (case res of
        Inl err \<Rightarrow> if isNotFound err then ret (noResult, True, None) else ret (noResult, False, Some err)
      | Inr sts \<Rightarrow>
          if scaledUp sts then do {
            err \<leftarrow> patchSts r sts (sts\<lparr>sts_Replicas := Some 0\<rparr>);
            (case err of
               Some e \<Rightarrow> ret (noResult, False, Some e)
             | None \<Rightarrow> ret (requeueIn (5 * Second), False, None)) }
          else do {
            pods \<leftarrow> listPods r (onamespace inst) (SelectorLabels inst);
            (case pods of
               Inl err \<Rightarrow> ret (noResult, False, Some err)
             | Inr items \<Rightarrow>
                 if items \<noteq> [] then ret (requeueIn (5 * Second), False, None) else cont) }) }"

definition driveJob ::
    "'s Reconciler \<Rightarrow> string \<Rightarrow> string \<Rightarrow> (s3Credentials \<Rightarrow> ('s hctx, Job) state) \<Rightarrow>
     string \<times> string \<Rightarrow> string \<Rightarrow> string \<times> string \<Rightarrow> 's driver" where
  "driveJob r credsErr jobName mkJob started failed complete = do {
     inst \<leftarrow> getInst;
     credsRes \<leftarrow> getS3Credentials r;
     (case credsRes of
        Inl err \<Rightarrow> ret (noResult, False, Some (wrapErr credsErr err))
      | Inr creds \<Rightarrow> do {
     mirrorErr \<leftarrow> reconcileS3MirrorSecret r creds;
     (case mirrorErr of
        Some e \<Rightarrow> ret (noResult, False, Some e)
      | None \<Rightarrow> do {
     jobRes \<leftarrow> getJob r jobName (onamespace inst);
     (case jobRes of
        Inl err \<Rightarrow>
          if \<not> isNotFound err then ret (noResult, False, Some err)
          else do {
            job \<leftarrow> mkJob creds;
            (case rc_SetControllerReference r inst (job_Meta job) of
               Inl e \<Rightarrow> ret (noResult, False, Some e)
             | Inr meta \<Rightarrow> do {
                 cerr \<leftarrow> createJob r (job\<lparr>job_Meta := meta\<rparr>);
                 (case cerr of
                    Some e \<Rightarrow>
                      if isAlreadyExists e then ret (requeueIn (10 * Second), False, None)
                      else ret (noResult, False, Some e)
                  | None \<Rightarrow> do {
                      event EventNormal (fst started) (snd started);
                      ret (requeueIn (10 * Second), False, None) }) }) }
      | Inr existingJob \<Rightarrow>
          (case isJobFinished existingJob of (finished, condType) \<Rightarrow>
             if \<not> finished then ret (requeueIn (10 * Second), False, None)
             else if condType = JobFailed then ret (noResult, False, Some (errorf failed))
             else do {
               event EventNormal (fst complete) (snd complete);
               ret (noResult, True, None) })) }) }) }"

definition preUpdateJob :: "'s Reconciler \<Rightarrow> OpenClawInstance \<Rightarrow> s3Credentials \<Rightarrow> ('s hctx, Job) state" where
  "preUpdateJob r inst creds = do {
     t \<leftarrow> now r;
     ret (instanceJob inst (preUpdateBackupJobName inst) ''pre-update-backup''
            (''backups/'' @ getTenantID inst @ ''/'' @ oname inst @ ''/pre-update-'' @ utcStamp t)
            creds True) }"

definition drivePreUpdateBackup :: "'s Reconciler \<Rightarrow> 's driver" where
  "drivePreUpdateBackup r = do {
     inst \<leftarrow> getInst;
     drainSts r
       (driveJob r ''failed to get S3 credentials'' (preUpdateBackupJobName inst) (preUpdateJob r inst)
          (''PreUpdateBackupStarted'',
           ''Pre-update backup job '' @ preUpdateBackupJobName inst @ '' created'')
          (''pre-update backup job '' @ preUpdateBackupJobName inst @ '' failed'')
          (''PreUpdateBackupComplete'', ''Pre-update backup completed successfully'')) }"

definition driveRollbackRestore :: "'s Reconciler \<Rightarrow> string \<Rightarrow> 's driver" where
  "driveRollbackRestore r backupPath = do {
     inst \<leftarrow> getInst;
     drainSts r
       (driveJob r ''failed to get S3 credentials for rollback'' (rollbackRestoreJobName inst)
          (\<lambda>creds. ret (instanceJob inst (rollbackRestoreJobName inst) ''rollback-restore'' backupPath creds False))
          (''RollbackRestoreStarted'',
           ''Rollback restore job '' @ rollbackRestoreJobName inst @ '' created from '' @ backupPath)
          (''rollback restore job '' @ rollbackRestoreJobName inst @ '' failed'')
          (''RollbackRestoreComplete'', ''Rollback restore completed successfully'')) }"

text \<open>
  The loop over the containers of the backup Job; a container that yields no path is passed over.
\<close>

fun backupPathOf :: "'s Reconciler \<Rightarrow> Container list \<Rightarrow> ('s hctx, string) state" where
  "backupPathOf r [] = ret []"
| "backupPathOf r (c # cs) =
     (if con_Name c = ''rclone'' \<and> 2 \<le> length (con_Args c) then do {
        let remotePath = con_Args c ! 1;
        res \<leftarrow> getS3Credentials r;
        (case res of
           Inl _ \<Rightarrow> backupPathOf r cs
         | Inr creds \<Rightarrow>
             let pfx = '':s3:'' @ s3_Bucket creds @ ''/''
             in if length pfx < length remotePath then ret (drop (length pfx) remotePath)
                else backupPathOf r cs) }
      else backupPathOf r cs)"

definition lastPreUpdateBackupPath :: "'s Reconciler \<Rightarrow> ('s hctx, string) state" where
  "lastPreUpdateBackupPath r = do {
     inst \<leftarrow> getInst;
     res \<leftarrow> getJob r (preUpdateBackupJobName inst) (onamespace inst);
     (case res of
        Inl _ \<Rightarrow> ret []
      | Inr job \<Rightarrow> backupPathOf r (ps_Containers (js_Template (job_Spec job)))) }"

section \<open>The state machine\<close>

text \<open>\<^verbatim>\<open>if err := r.Status().Update(...); err != nil { return ctrl.Result{}, err }\<close>\<close>

definition persistThen :: "'s Reconciler \<Rightarrow> 's handler \<Rightarrow> 's handler" where
  "persistThen r cont = do {
     err \<leftarrow> statusUpdate r;
     (case err of Some e \<Rightarrow> ret (noResult, Some e) | None \<Rightarrow> cont) }"

text \<open>Scaling a drained StatefulSet back to one replica; the error of the patch, if any.\<close>

definition scaleBackUp :: "'s Reconciler \<Rightarrow> ('s hctx, go_error option) state" where
  "scaleBackUp r = do {
     inst \<leftarrow> getInst;
     res \<leftarrow> getSts r (StatefulSetName inst) (onamespace inst);
     (case res of
        Inl _ \<Rightarrow> ret None
      | Inr sts \<Rightarrow>
          if sts_Replicas sts = Some 0 then patchSts r sts (sts\<lparr>sts_Replicas := Some 1\<rparr>)
          else ret None) }"

definition abortUpdate :: "'s Reconciler \<Rightarrow> string \<Rightarrow> 's handler" where
  "abortUpdate r reason = do {
     modInst (updAU (\<lambda>a. a\<lparr>aus_PendingVersion := [], aus_UpdatePhase := [], aus_LastUpdateError := reason\<rparr>));
     modInst (setPhase PhaseRunning);
     removeCondition r ConditionTypeAutoUpdateAvailable;
     event EventWarning ''AutoUpdateAborted'' reason;
     persistThen r (do {
       _ \<leftarrow> scaleBackUp r;
       ret (requeueIn (30 * Second), None) }) }"

definition driveHealthCheck :: "'s Reconciler \<Rightarrow> 's handler" where
  "driveHealthCheck r = do {
     inst \<leftarrow> getInst;
     res \<leftarrow> getSts r (StatefulSetName inst) (onamespace inst);
     (case res of
        Inl err \<Rightarrow>
          if isNotFound err then ret (requeueIn (10 * Second), None) else ret (noResult, Some err)
      | Inr sts \<Rightarrow>
          if sts_ReadyReplicas sts > 0 \<and> sts_UpdatedReplicas sts > 0 then do {
            modInst (updAU (\<lambda>a. a\<lparr>aus_CurrentVersion := aus_PendingVersion a, aus_PendingVersion := [],
              aus_UpdatePhase := [], aus_LastUpdateError := [], aus_PreviousVersion := [],
              aus_PreUpdateBackupPath := [], aus_RollbackCount := 0\<rparr>));
            modInst (setPhase PhaseRunning);
            removeCondition r ConditionTypeAutoUpdateAvailable;
            persistThen r (do {
              i \<leftarrow> getInst;
              event EventNormal ''AutoUpdateConfirmed''
                (''Update to '' @ aus_CurrentVersion (au_of i) @ '' confirmed '' @ emDash @ '' pod is healthy'');
              ret (requeueNow, None) }) }
          else do {
            let timeout = parseHealthCheckTimeout (au_HealthCheckTimeout (spec_AutoUpdate (oci_Spec inst)));
            (case aus_LastUpdateTime (au_of inst) of
               None \<Rightarrow> do { n \<leftarrow> now r; modInst (updAU (\<lambda>a. a\<lparr>aus_LastUpdateTime := Some n\<rparr>)) }
             | Some _ \<Rightarrow> ret ());
            i \<leftarrow> getInst;
            n \<leftarrow> now r;
            let elapsed = since n (the (aus_LastUpdateTime (au_of i)));
            (if elapsed < timeout then ret (requeueIn (10 * Second), None)
             else do {
               modInst (updAU (\<lambda>a. a\<lparr>aus_UpdatePhase := updatePhaseRollingBack\<rparr>));
               modInst (setPhase PhaseUpdating);
               persistThen r (do {
                 j \<leftarrow> getInst;
                 event EventWarning ''AutoUpdateHealthCheckFailed''
                   (''Pod failed to become ready within '' @ durStr timeout @ '', rolling back from ''
                    @ aus_PendingVersion (au_of j) @ '' to '' @ aus_PreviousVersion (au_of j));
                 ret (requeueNow, None) }) }) }) }"

text \<open>Reverting the image tag and recording the failure, after any restore.\<close>

definition revertTag :: "'s Reconciler \<Rightarrow> string \<Rightarrow> 's handler" where
  "revertTag r previousVersion = do {
     original \<leftarrow> getInst;
     modInst (setTag previousVersion);
     perr \<leftarrow> patchInst r original;
     (case perr of
        Some e \<Rightarrow> ret (noResult, Some (wrapErr ''rollback patch failed'' e))
      | None \<Rightarrow> do {
          inst \<leftarrow> getInst;
          let failedVersion = aus_PendingVersion (au_of inst);
          modInst (updAU (\<lambda>a. a\<lparr>aus_FailedVersion := failedVersion, aus_PendingVersion := [],
            aus_UpdatePhase := [], aus_PreUpdateBackupPath := [], aus_PreviousVersion := [],
            aus_LastUpdateError := ''version '' @ failedVersion @ '' failed health check, rolled back to '' @ previousVersion,
            aus_RollbackCount := aus_RollbackCount a + 1,
            aus_CurrentVersion := previousVersion\<rparr>));
          modInst (setPhase PhaseProvisioning);
          removeCondition r ConditionTypeAutoUpdateAvailable;
          persistThen r (do {
            i \<leftarrow> getInst;
            event EventWarning ''AutoUpdateRolledBack''
              (''Rolled back from '' @ failedVersion @ '' to '' @ previousVersion @ '' (rollback count: ''
               @ intStr (sint (aus_RollbackCount (au_of i))) @ ''/'' @ intStr (sint maxRollbackCount) @ '')'');
            (if maxRollbackCount <=s aus_RollbackCount (au_of i)
             then event EventWarning ''AutoUpdatePaused''
               (''Auto-update paused after '' @ intStr (sint (aus_RollbackCount (au_of i))) @ '' consecutive rollbacks'')
             else ret ());
            ret (requeueNow, None) }) }) }"

definition driveRollback :: "'s Reconciler \<Rightarrow> 's handler" where
  "driveRollback r = do {
     inst \<leftarrow> getInst;
     let previousVersion = aus_PreviousVersion (au_of inst);
     (if previousVersion = [] then abortUpdate r ''rollback failed: no previous version recorded''
      else do {
        let backupPath = aus_PreUpdateBackupPath (au_of inst);
        (if backupPath \<noteq> [] \<and> IsPersistenceEnabled inst then do {
           out \<leftarrow> driveRollbackRestore r backupPath;
           (case out of (result, done, err) \<Rightarrow>
              (case err of
                 Some e \<Rightarrow> do {
                   event EventWarning ''RollbackRestoreFailed''
                     (''Failed to restore from '' @ backupPath @ '': '' @ emsg e @ '' '' @ emDash @ '' reverting image tag only'');
                   revertTag r previousVersion }
               | None \<Rightarrow> if \<not> done then ret (result, None) else revertTag r previousVersion)) }
         else revertTag r previousVersion) }) }"

text \<open>Steps 3 to 5: record the previous version, patch the tag, confirm or enter the health check.\<close>

definition confirmOrHealthCheck :: "'s Reconciler \<Rightarrow> string \<Rightarrow> 's handler" where
  "confirmOrHealthCheck r pendingVersion = do {
     inst \<leftarrow> getInst;
     (if defaultTrue (au_RollbackOnFailure (spec_AutoUpdate (oci_Spec inst))) then do {
        n \<leftarrow> now r;
        modInst (updAU (\<lambda>a. a\<lparr>aus_UpdatePhase := updatePhaseHealthCheck, aus_LastUpdateTime := Some n\<rparr>));
        modInst (setPhase PhaseProvisioning);
        persistThen r (do {
          event EventNormal ''AutoUpdateApplied''
            (''Updated image tag to '' @ pendingVersion @ '', health check started'');
          ret (requeueIn (10 * Second), None) }) }
      else do {
        n \<leftarrow> now r;
        modInst (updAU (\<lambda>a. a\<lparr>aus_CurrentVersion := pendingVersion, aus_PendingVersion := [],
          aus_UpdatePhase := [], aus_LastUpdateTime := Some n, aus_LastUpdateError := [],
          aus_PreviousVersion := [], aus_PreUpdateBackupPath := [], aus_RollbackCount := 0\<rparr>));
        modInst (setPhase PhaseProvisioning);
        removeCondition r ConditionTypeAutoUpdateAvailable;
        persistThen r (do {
          event EventNormal ''AutoUpdateApplied'' (''Updated image tag to '' @ pendingVersion);
          ret (requeueNow, None) }) }) }"

definition needsBackup :: "OpenClawInstance \<Rightarrow> bool" where
  "needsBackup inst = defaultTrue (au_BackupBeforeUpdate (spec_AutoUpdate (oci_Spec inst)))"

definition applyUpdate :: "'s Reconciler \<Rightarrow> string \<Rightarrow> bool \<Rightarrow> 's handler" where
  "applyUpdate r pendingVersion needs = do {
     modInst (\<lambda>i. updAU (\<lambda>a. a\<lparr>aus_PreviousVersion := tag_of i,
                            aus_UpdatePhase := updatePhaseApplyingUpdate\<rparr>) i);
     persistThen r (do {
       original \<leftarrow> getInst;
       modInst (setTag pendingVersion);
       perr \<leftarrow> patchInst r original;
       (case perr of
          Some e \<Rightarrow> abortUpdate r (''failed to patch image tag: '' @ emsg e)
        | None \<Rightarrow> do {
            inst \<leftarrow> getInst;
            serr \<leftarrow> (if needs \<and> IsPersistenceEnabled inst then scaleBackUp r else ret None);
            (case serr of
               Some e \<Rightarrow> abortUpdate r (''failed to scale StatefulSet back up: '' @ emsg e)
             | None \<Rightarrow> confirmOrHealthCheck r pendingVersion) }) }) }"

definition driveUpdateStateMachine :: "'s Reconciler \<Rightarrow> 's handler" where
  "driveUpdateStateMachine r = do {
     inst \<leftarrow> getInst;
     let pendingVersion = aus_PendingVersion (au_of inst);
     (if aus_UpdatePhase (au_of inst) = updatePhaseHealthCheck then driveHealthCheck r
      else if aus_UpdatePhase (au_of inst) = updatePhaseRollingBack then driveRollback r
      else if st_Phase (oci_Status inst) \<noteq> PhaseUpdating then do {
        modInst (setPhase PhaseUpdating);
        persistThen r (ret (requeueNow, None)) }
      else if needsBackup inst \<and> IsPersistenceEnabled inst
              \<and> (aus_UpdatePhase (au_of inst) = [] \<or> aus_UpdatePhase (au_of inst) = updatePhaseBackingUp)
      then do {
        out \<leftarrow> drivePreUpdateBackup r;
        (case out of (result, done, err) \<Rightarrow>
           (case err of
              Some e \<Rightarrow> abortUpdate r (''backup failed: '' @ emsg e)
            | None \<Rightarrow>
                if \<not> done then do {
                  modInst (updAU (\<lambda>a. a\<lparr>aus_UpdatePhase := updatePhaseBackingUp\<rparr>));
                  persistThen r (ret (result, None)) }
                else do {
                  path \<leftarrow> lastPreUpdateBackupPath r;
                  modInst (updAU (\<lambda>a. a\<lparr>aus_PreUpdateBackupPath := path\<rparr>));
                  applyUpdate r pendingVersion (needsBackup inst) })) }
      else applyUpdate r pendingVersion (needsBackup inst)) }"

section \<open>The version check\<close>

definition startUpdate :: "'s Reconciler \<Rightarrow> string \<Rightarrow> string \<Rightarrow> 's handler" where
  "startUpdate r version currentTag = do {
     event EventNormal ''AutoUpdateAvailable''
       (''New version '' @ version @ '' available (current: '' @ currentTag @ '')'');
     setCondition r (mkCondition ConditionTypeAutoUpdateAvailable ConditionTrue ''NewVersionAvailable''
       (''Version '' @ version @ '' is available (current: '' @ currentTag @ '')''));
     modInst (updAU (\<lambda>a. a\<lparr>aus_PendingVersion := version, aus_UpdatePhase := [], aus_LastUpdateError := []\<rparr>));
     ret (requeueNow, None) }"

definition checkVersion :: "'s Reconciler \<Rightarrow> 'v semver \<Rightarrow> string \<Rightarrow> 's handler" where
  "checkVersion r sv version = do {
     inst \<leftarrow> getInst;
     let currentTag = tag_of inst;
     (if currentTag = [] \<or> currentTag = ''latest'' then do {
        modInst (setTag version);
        perr \<leftarrow> patchInst r inst;
        (case perr of
           Some e \<Rightarrow> ret (noResult, Some (wrapErr ''patching image tag from latest'' e))
         | None \<Rightarrow> do {
             modInst (updAU (\<lambda>a. a\<lparr>aus_CurrentVersion := version\<rparr>));
             event EventNormal ''AutoUpdateTagResolved''
               (''Resolved '' @ [CHR 0x27] @ ''latest'' @ [CHR 0x27] @ '' to '' @ version);
             ret (requeueNow, None) }) }
      else
        (case sv_NewVersion sv currentTag of
           None \<Rightarrow> ret (noResult, None)
         | Some currentVer \<Rightarrow>
        (case sv_NewVersion sv version of
           None \<Rightarrow> ret (noResult, None)
         | Some latestVer \<Rightarrow> do {
             modInst (updAU (\<lambda>a. a\<lparr>aus_CurrentVersion := currentTag\<rparr>));
             (if \<not> sv_GreaterThan sv latestVer currentVer then do {
                removeCondition r ConditionTypeAutoUpdateAvailable;
                ret (noResult, None) }
              else do {
                modInst (updAU (\<lambda>a.
                  if aus_FailedVersion a \<noteq> [] then
                    (case sv_NewVersion sv (aus_FailedVersion a) of
                       None \<Rightarrow> a
                     | Some failedVer \<Rightarrow>
                         if sv_GreaterThan sv latestVer failedVer then a\<lparr>aus_FailedVersion := []\<rparr> else a)
                  else a));
                i \<leftarrow> getInst;
                (if aus_FailedVersion (au_of i) = version then ret (noResult, None)
                 else startUpdate r version currentTag) }) }))) }"

definition reconcileAutoUpdate :: "'s Reconciler \<Rightarrow> 'v semver \<Rightarrow> 's handler" where
  "reconcileAutoUpdate r sv = do {
     inst \<leftarrow> getInst;
     (if aus_PendingVersion (au_of inst) \<noteq> [] then driveUpdateStateMachine r
      else if \<not> isAutoUpdateEnabled inst then ret (noResult, None)
      else
        (case rc_VersionResolver r of
           None \<Rightarrow> ret (noResult, None)
         | Some latestSemver \<Rightarrow>
             if maxRollbackCount <=s aus_RollbackCount (au_of inst) then ret (noResult, None)
             else do {
               due \<leftarrow> shouldCheckForUpdate r;
               (if \<not> due then ret (noResult, None)
                else do {
                  res \<leftarrow> api (latestSemver (GetImageRepository inst)) (CLatestSemver (GetImageRepository inst));
                  (case res of
                     Inl err \<Rightarrow> do {
                       event EventWarning ''AutoUpdateCheckFailed'' (''Failed to check for updates: '' @ emsg err);
                       n \<leftarrow> now r;
                       modInst (updAU (\<lambda>a. a\<lparr>aus_LastCheckTime := Some n\<rparr>));
                       ret (noResult, None) }
                   | Inr version \<Rightarrow> do {
                       n \<leftarrow> now r;
                       modInst (updAU (\<lambda>a. a\<lparr>aus_LastCheckTime := Some n, aus_LatestVersion := version\<rparr>));
                       checkVersion r sv version }) }) })) }"

definition resolveInitialTag :: "'s Reconciler \<Rightarrow> ('s hctx, bool \<times> go_error option) state" where
  "resolveInitialTag r = do {
     inst \<leftarrow> getInst;
     (if \<not> isAutoUpdateEnabled inst then ret (False, None)
      else if tag_of inst \<noteq> ''latest'' then ret (False, None)
      else
        (case rc_VersionResolver r of
           None \<Rightarrow> ret (False, None)
         | Some latestSemver \<Rightarrow> do {
             res \<leftarrow> api (latestSemver (GetImageRepository inst)) (CLatestSemver (GetImageRepository inst));
             (case res of
                Inl err \<Rightarrow> do {
                  event EventWarning ''AutoUpdateResolveFailed''
                    (''Failed to resolve latest version: '' @ emsg err);
                  ret (False, None) }
              | Inr version \<Rightarrow> do {
                  modInst (setTag version);
                  perr \<leftarrow> patchInst r inst;
                  (case perr of
                     Some e \<Rightarrow> ret (False, Some (wrapErr ''patching image tag'' e))
                   | None \<Rightarrow> do {
                       modInst (updAU (\<lambda>a. a\<lparr>aus_CurrentVersion := version\<rparr>));
                       serr \<leftarrow> statusUpdate r;
                       (case serr of
                          Some e \<Rightarrow> ret (False, Some (wrapErr ''updating auto-update status'' e))
                        | None \<Rightarrow> do {
                            event EventNormal ''AutoUpdateTagResolved''
                              (''Resolved '' @ [CHR 0x27] @ ''latest'' @ [CHR 0x27] @ '' to '' @ version);
                            ret (True, None) }) }) }) })) }"

section \<open>Framing\<close>

lemma frames_drainSts [spec_frame]:
  "api_laws r stored \<Longrightarrow> frames stored cont \<Longrightarrow> frames stored (drainSts r cont)"
  unfolding drainSts_def by (intro spec_frame)

lemma frames_driveJob [spec_frame]:
  "api_laws r stored \<Longrightarrow> (\<And>c. frames stored (mk c)) \<Longrightarrow> frames stored (driveJob r ce jn mk st fl cm)"
  unfolding driveJob_def by (intro spec_frame)

lemma frames_drivePreUpdateBackup [spec_frame]:
  "api_laws r stored \<Longrightarrow> frames stored (drivePreUpdateBackup r)"
  unfolding drivePreUpdateBackup_def preUpdateJob_def by (intro spec_frame)

lemma frames_driveRollbackRestore [spec_frame]:
  "api_laws r stored \<Longrightarrow> frames stored (driveRollbackRestore r p)"
  unfolding driveRollbackRestore_def by (intro spec_frame)

lemma frames_backupPathOf [spec_frame]:
  "api_laws r stored \<Longrightarrow> frames stored (backupPathOf r cs)"
  by (induction cs) (auto intro!: spec_frame)

lemma frames_lastPreUpdateBackupPath [spec_frame]:
  "api_laws r stored \<Longrightarrow> frames stored (lastPreUpdateBackupPath r)"
  unfolding lastPreUpdateBackupPath_def by (intro spec_frame)

lemma frames_scaleBackUp [spec_frame]: "api_laws r stored \<Longrightarrow> frames stored (scaleBackUp r)"
  unfolding scaleBackUp_def by (intro spec_frame)

lemma frames_shouldCheckForUpdate [spec_frame]:
  "api_laws r stored \<Longrightarrow> frames stored (shouldCheckForUpdate r)"
  unfolding shouldCheckForUpdate_def by (intro spec_frame)

section \<open>The invariant of the update status\<close>

definition au_wf :: "AutoUpdateStatus \<Rightarrow> bool" where
  "au_wf a \<longleftrightarrow> 0 \<le> sint (aus_RollbackCount a) \<and> sint (aus_RollbackCount a) \<le> sint maxRollbackCount
     \<and> (aus_PendingVersion a \<noteq> [] \<longrightarrow> sint (aus_RollbackCount a) < sint maxRollbackCount)
     \<and> (aus_PendingVersion a = [] \<longrightarrow> aus_UpdatePhase a = [])"

text \<open>
  A predicate that holds of the in-memory and of the stored update status, and of every one the run
  has sent to the server.
\<close>

definition au_all :: "(AutoUpdateStatus \<Rightarrow> bool) \<Rightarrow> ('s \<Rightarrow> OpenClawInstance) \<Rightarrow> 's hctx \<Rightarrow> bool" where
  "au_all P stored h \<longleftrightarrow> P (au_of (cur h)) \<and> P (au_of (stored (srv h)))
     \<and> (\<forall>i e. CStatusUpdate i e \<in> set (calls h) \<longrightarrow> P (au_of i))"

abbreviation au_inv :: "('s \<Rightarrow> OpenClawInstance) \<Rightarrow> 's hctx \<Rightarrow> bool" where
  "au_inv \<equiv> au_all au_wf"

text \<open>The in-memory update status is what the server holds: a read that was not stale.\<close>

definition au_fresh :: "('s \<Rightarrow> OpenClawInstance) \<Rightarrow> 's hctx \<Rightarrow> bool" where
  "au_fresh stored h \<longleftrightarrow> au_of (cur h) = au_of (stored (srv h))"

text \<open>The one thing a stale copy must not say: that a rollback is to be run which is over for the server.\<close>

definition rollbackDue :: "AutoUpdateStatus \<Rightarrow> AutoUpdateStatus \<Rightarrow> bool" where
  "rollbackDue copy held \<longleftrightarrow> (aus_UpdatePhase copy = updatePhaseRollingBack \<longrightarrow> aus_PendingVersion held \<noteq> [])"

lemma no_status_write [simp]: "\<forall>c \<in> set cs. \<not> writesInstance c \<Longrightarrow> CStatusUpdate i e \<notin> set cs"
  by force

lemma sint_maxRollbackCount: "sint maxRollbackCount = 3"
  by (simp add: maxRollbackCount_def)

lemma sint_Suc:
  fixes c :: int32
  assumes "0 \<le> sint c" "sint c < 3" shows "sint (c + 1) = sint c + 1"
  using assms by (subst sint_word_ariths(1)) (simp add: signed_take_bit_int_eq_self)

lemma au_wf_rollback:
  assumes "au_wf a" "aus_PendingVersion a \<noteq> []"
  shows "au_wf (a\<lparr>aus_PendingVersion := [], aus_UpdatePhase := [],
           aus_RollbackCount := aus_RollbackCount a + 1\<rparr>)"
  using assms sint_Suc [of "aus_RollbackCount a"] by (auto simp: au_wf_def sint_maxRollbackCount)

lemma wp_persist_inv:
  assumes "api_laws r stored" "au_all P stored h"
    and "\<And>s. stored s = (stored (srv h))\<lparr>oci_Status := oci_Status (cur h)\<rparr> \<Longrightarrow>
      wp cont (\<lambda>_. au_all P stored) (h\<lparr>srv := s, cur := stored s, calls := calls h @ [CStatusUpdate (cur h) None]\<rparr>)"
  shows "wp (persistThen r cont) (\<lambda>_. au_all P stored) h"
  unfolding persistThen_def using assms
  by (intro wp_rules wp_statusUpdate_law [OF assms(1)]) (auto simp: au_all_def)

lemma frames_inv: "frames stored m \<Longrightarrow> au_all P stored h \<Longrightarrow> wp m (\<lambda>_. au_all P stored) h"
  by (erule frames_wp) (auto simp: au_all_def)

text \<open>After a status write the rest of a handler is framed.\<close>

lemma wp_persist_frames:
  assumes "api_laws r stored" "au_all P stored h" "frames stored cont"
  shows "wp (persistThen r cont) (\<lambda>_. au_all P stored) h"
  using assms(1,2)
  by (rule wp_persist_inv) (rule frames_inv [OF assms(3)], use assms(2) in \<open>simp add: au_all_def\<close>)

lemma abortUpdate_all:
  assumes "api_laws r stored" "au_all P stored h"
    and "P ((au_of (cur h))\<lparr>aus_PendingVersion := [], aus_UpdatePhase := [], aus_LastUpdateError := reason\<rparr>)"
  shows "wp (abortUpdate r reason) (\<lambda>_. au_all P stored) h"
  unfolding abortUpdate_def removeCondition_def
  by (intro wp_rules wp_persist_frames spec_frame assms(1)) (use assms(2,3) in \<open>auto simp: au_all_def\<close>)

lemma abortUpdate_inv:
  assumes "api_laws r stored" "au_inv stored h"
  shows "wp (abortUpdate r reason) (\<lambda>_. au_inv stored) h"
  using assms by (intro abortUpdate_all) (auto simp: au_all_def au_wf_def)

lemma driveHealthCheck_inv:
  assumes laws: "api_laws r stored" and "au_inv stored h" "aus_PendingVersion (au_of (cur h)) \<noteq> []"
  shows "wp (driveHealthCheck r) (\<lambda>_. au_inv stored) h"
  unfolding driveHealthCheck_def removeCondition_def
  by (intro wp_rules frames_wp [OF frames_ops(2) [OF laws]] frames_wp [OF frames_ops(1) [OF laws]]
      wp_persist_frames spec_frame laws)
    (use assms(2,3) in \<open>simp_all add: au_all_def au_wf_def sint_maxRollbackCount\<close>)

lemma revertTag_inv:
  assumes laws: "api_laws r stored"
    and "au_inv stored h" "aus_PendingVersion (au_of (stored (srv h))) \<noteq> []"
  shows "wp (revertTag r v) (\<lambda>_. au_inv stored) h"
  unfolding revertTag_def removeCondition_def
  by (intro wp_rules wp_patchInst_law [OF laws] wp_persist_frames spec_frame laws)
    (use assms(2,3) au_wf_rollback [of "au_of (stored (srv h))"] in \<open>simp_all add: au_all_def au_wf_def\<close>)

lemma driveRollback_inv:
  assumes laws: "api_laws r stored"
    and "au_inv stored h" "aus_PendingVersion (au_of (stored (srv h))) \<noteq> []"
  shows "wp (driveRollback r) (\<lambda>_. au_inv stored) h"
  unfolding driveRollback_def
  by (intro wp_rules frames_wp [OF frames_driveRollbackRestore [OF laws]] abortUpdate_inv
      revertTag_inv laws)
    (use assms(2,3) in \<open>simp_all add: au_all_def\<close>)

lemma confirmOrHealthCheck_inv:
  assumes laws: "api_laws r stored" and "au_inv stored h" "aus_PendingVersion (au_of (cur h)) \<noteq> []"
  shows "wp (confirmOrHealthCheck r v) (\<lambda>_. au_inv stored) h"
  unfolding confirmOrHealthCheck_def removeCondition_def
  by (intro wp_rules frames_wp [OF frames_ops(1) [OF laws]] wp_persist_frames spec_frame laws)
    (use assms(2,3) in \<open>simp_all add: au_all_def au_wf_def sint_maxRollbackCount\<close>)

lemma applyUpdate_inv:
  assumes laws: "api_laws r stored" and "au_inv stored h" "aus_PendingVersion (au_of (cur h)) \<noteq> []"
  shows "wp (applyUpdate r v needs) (\<lambda>_. au_inv stored) h"
  unfolding applyUpdate_def
  by (intro wp_rules wp_persist_inv wp_patchInst_law [OF laws]
      frames_wp [OF frames_scaleBackUp [OF laws]] abortUpdate_inv confirmOrHealthCheck_inv laws)
    (use assms(2,3) in \<open>simp_all add: au_all_def au_wf_def\<close>)

lemma driveUpdateStateMachine_inv:
  assumes laws: "api_laws r stored" and "au_inv stored h" "rollbackDue (au_of (cur h)) (au_of (stored (srv h)))"
    "aus_PendingVersion (au_of (cur h)) \<noteq> []"
  shows "wp (driveUpdateStateMachine r) (\<lambda>_. au_inv stored) h"
  unfolding driveUpdateStateMachine_def
  by (intro wp_rules driveHealthCheck_inv driveRollback_inv applyUpdate_inv abortUpdate_inv
      frames_wp [OF frames_drivePreUpdateBackup [OF laws]]
      frames_wp [OF frames_lastPreUpdateBackupPath [OF laws]] wp_persist_frames spec_frame laws)
    (use assms(2-4) in \<open>auto simp add: au_all_def au_wf_def rollbackDue_def\<close>)

lemma checkVersion_inv:
  assumes laws: "api_laws r stored" and "au_inv stored h"
    "aus_PendingVersion (au_of (cur h)) = []" "\<not> maxRollbackCount <=s aus_RollbackCount (au_of (cur h))"
  shows "wp (checkVersion r sv v) (\<lambda>_. au_inv stored) h"
  unfolding checkVersion_def startUpdate_def removeCondition_def setCondition_def
  by (intro wp_rules wp_patchInst_law [OF laws])
    (use assms(2-4) in \<open>auto simp add: au_all_def au_wf_def word_sle_eq sint_maxRollbackCount
       split: option.splits if_splits\<close>)

lemma reconcileAutoUpdate_inv:
  assumes laws: "api_laws r stored" and "au_inv stored h" "rollbackDue (au_of (cur h)) (au_of (stored (srv h)))"
  shows "wp (reconcileAutoUpdate r sv) (\<lambda>_. au_inv stored) h"
  unfolding reconcileAutoUpdate_def
  by (intro wp_rules driveUpdateStateMachine_inv checkVersion_inv
      frames_wp [OF frames_shouldCheckForUpdate [OF laws]] frames_wp [OF frames_ops(1) [OF laws]]
      frames_wp [OF frames_api [OF others_silentD(15) [OF laws]]] laws)
    (use assms(2,3) in \<open>auto simp: au_all_def au_wf_def rollbackDue_def\<close>)

section \<open>The contract of the Job drivers\<close>

definition newCalls :: "'s hctx \<Rightarrow> 's hctx \<Rightarrow> api_call list" where
  "newCalls h h' = drop (length (calls h)) (calls h')"

text \<open>The run saw the Job complete, or no StatefulSet at all.\<close>

definition drained :: "string \<Rightarrow> api_call list \<Rightarrow> bool" where
  "drained jobName cs \<longleftrightarrow>
     (\<exists>ns job. CGetJob jobName ns (Inr job) \<in> set cs \<and> isJobFinished job = (True, JobComplete)) \<or>
     (\<exists>n ns e. CGetSts n ns (Inl e) \<in> set cs \<and> isNotFound e)"

definition driverPost :: "string \<Rightarrow> 's hctx \<Rightarrow> Result \<times> bool \<times> go_error option \<Rightarrow> 's hctx \<Rightarrow> bool" where
  "driverPost jobName h out h' \<longleftrightarrow> (case out of (res, done, err) \<Rightarrow>
     prefix (calls h) (calls h') \<and> cur h' = cur h \<and> \<not> res_Requeue res \<and>
     (\<forall>c \<in> set (newCalls h h'). \<not> writesInstance c) \<and>
     (done \<longrightarrow> err = None \<and> drained jobName (newCalls h h')) \<and>
     (\<not> done \<and> err = None \<longrightarrow> 0 < res_RequeueAfter res))"

locale job_driver =
  fixes drive :: "'s Reconciler \<Rightarrow> 's driver" and jobName :: "OpenClawInstance \<Rightarrow> string"
  assumes drive_post: "wp (drive r) (driverPost (jobName (cur h)) h) h"
begin

lemma done_drained:
  "run_state (drive r) h = ((res, True, err), h') \<Longrightarrow> err = None \<and> drained (jobName (cur h)) (newCalls h h')"
  using wp_run [OF drive_post] by (fastforce simp: driverPost_def)

lemma in_progress_requeues:
  "run_state (drive r) h = ((res, False, None), h') \<Longrightarrow> 0 < res_RequeueAfter res"
  using wp_run [OF drive_post] by (fastforce simp: driverPost_def)

end

lemma isJobFinished'_type: "isJobFinished' cs = Some t \<Longrightarrow> t = JobComplete \<or> t = JobFailed"
  by (induction cs rule: isJobFinished'.induct) (auto split: if_splits)

lemma isJobFinished_type: "isJobFinished job = (True, t) \<Longrightarrow> t = JobComplete \<or> t = JobFailed"
  by (auto simp: isJobFinished_def dest: isJobFinished'_type split: option.splits)

text \<open>A driver's postcondition from one that starts later in the log.\<close>

lemma newCalls_trans:
  "prefix (calls h) (calls h') \<Longrightarrow> prefix (calls h') (calls h'') \<Longrightarrow>
   newCalls h h'' = newCalls h h' @ newCalls h' h''"
  by (force simp: newCalls_def prefix_def)

lemma drained_append: "drained jn cs \<Longrightarrow> drained jn (ds @ cs)"
  unfolding drained_def set_append by blast

lemma driverPost_later:
  assumes post: "driverPost jn h out h''" and pre: "prefix (calls h0) (calls h)" "cur h = cur h0"
    and quiet: "\<forall>c \<in> set (newCalls h0 h). \<not> writesInstance c"
  shows "driverPost jn h0 out h''"
proof -
  have p: "prefix (calls h) (calls h'')" using post by (simp add: driverPost_def split: prod.splits)
  have n: "newCalls h0 h'' = newCalls h0 h @ newCalls h h''" using pre(1) p by (rule newCalls_trans)
  have "prefix (calls h0) (calls h'')" using pre(1) p by auto
  with post pre quiet show ?thesis
    by (auto simp: driverPost_def n intro: drained_append split: prod.splits)
qed

lemma wp_api_log:
  "(\<And>a h'. cur h' = cur h \<Longrightarrow> calls h' = calls h @ [mk a] \<Longrightarrow> Q a h') \<Longrightarrow> wp (api m mk) Q h"
  by (rule wp_api) simp

lemma wp_getS3Credentials_log:
  assumes "\<And>a b h'. cur h' = cur h \<Longrightarrow> calls h' = calls h @ [CGetSecret BackupSecretName (rc_OperatorNamespace r) b] \<Longrightarrow> Q a h'"
  shows "wp (getS3Credentials r) Q h"
  unfolding getS3Credentials_def getSecret_def
  by (intro wp_rules wp_api_log assms) auto

lemma wp_mirror_log:
  assumes "\<And>a cs h'. cur h' = cur h \<Longrightarrow> calls h' = calls h @ cs \<Longrightarrow> \<forall>c \<in> set cs. \<not> writesInstance c \<Longrightarrow> Q a h'"
  shows "wp (reconcileS3MirrorSecret r creds) Q h"
  unfolding reconcileS3MirrorSecret_def createOrUpdateSecret_def
  by (intro wp_rules wp_api_log; rule assms [of _ "[]"] assms) auto

lemma driveJob_post:
  assumes mk: "\<And>creds h0. wp (mkJob creds) (\<lambda>_ h'. \<exists>cs. cur h' = cur h0 \<and> calls h' = calls h0 @ cs \<and>
      (\<forall>c \<in> set cs. \<not> writesInstance c)) h0"
  shows "wp (driveJob r ce jn mkJob st fl cm) (driverPost jn h) h"
  unfolding driveJob_def getJob_def createJob_def
  by (intro wp_rules wp_api_log wp_getS3Credentials_log wp_mirror_log wp_mono [OF mk])
    (auto simp: driverPost_def newCalls_def drained_def noResult_def requeueIn_def Second_def
      dest: isJobFinished_type)

lemma drainSts_post:
  assumes "\<And>h0. cur h0 = cur h \<Longrightarrow> wp cont (driverPost jn h0) h0"
  shows "wp (drainSts r cont) (driverPost jn h) h"
proof -
  have later: "wp cont (driverPost jn h) h'"
    if "cur h' = cur h" "calls h' = calls h @ [CGetSts n ns a, CListPods ns' l b]" for h' n ns a ns' l b
  proof (rule wp_mono [OF assms [OF that(1)]])
    show "driverPost jn h out h''" if "driverPost jn h' out h''" for out h''
      using that \<open>cur h' = cur h\<close> \<open>calls h' = _\<close>
      by (intro driverPost_later [of jn h' out h'' h]) (auto simp: newCalls_def)
  qed
  show ?thesis
    unfolding drainSts_def getSts_def patchSts_def listPods_def
    by (intro wp_rules wp_api_log later)
      (auto simp: driverPost_def newCalls_def drained_def noResult_def requeueIn_def Second_def)
qed

interpretation pre_update: job_driver drivePreUpdateBackup preUpdateBackupJobName
proof
  show "wp (drivePreUpdateBackup r) (driverPost (preUpdateBackupJobName (cur h)) h) h" for r h
    unfolding drivePreUpdateBackup_def preUpdateJob_def now_def
    by (intro wp_bind wp_getInst drainSts_post driveJob_post wp_return wp_api_log) auto
qed

interpretation rollback_restore: job_driver "\<lambda>r. driveRollbackRestore r path" rollbackRestoreJobName
proof
  show "wp (driveRollbackRestore r path) (driverPost (rollbackRestoreJobName (cur h)) h) h" for r h
    unfolding driveRollbackRestore_def
    by (intro wp_bind wp_getInst drainSts_post driveJob_post wp_return) auto
qed

section \<open>Reachable update states\<close>

text \<open>
  The cluster as the operator drives it: runs of \<open>reconcileAutoUpdate\<close>, the result persisted by the
  caller or not, and any other change that leaves the update status alone. A run reads the instance
  from a cache: the copy carries the update status the server holds or one it has held at some earlier
  moment, in the middle of a run as well (\<open>statusesSent\<close>), and whatever spec.
\<close>

definition autoUpdateRound :: "'s Reconciler \<Rightarrow> 'v semver \<Rightarrow> ('s hctx, go_error option) state" where
  "autoUpdateRound r sv = do { out \<leftarrow> reconcileAutoUpdate r sv; statusUpdate r }"

fun sentStatus :: "api_call \<Rightarrow> AutoUpdateStatus list" where
  "sentStatus (CStatusUpdate i e) = [au_of i]"
| "sentStatus c = []"

definition statusesSent :: "api_call list \<Rightarrow> AutoUpdateStatus set" where
  "statusesSent cs = set (concat (map sentStatus cs))"

lemma statusesSent_iff: "a \<in> statusesSent cs \<longleftrightarrow> (\<exists>i e. CStatusUpdate i e \<in> set cs \<and> a = au_of i)"
proof -
  have "a \<in> set (sentStatus c) \<longleftrightarrow> (\<exists>i e. c = CStatusUpdate i e \<and> a = au_of i)" for c
    by (cases c) auto
  then show ?thesis by (auto simp: statusesSent_def)
qed

lemma au_all_sent: "au_all P stored h \<Longrightarrow> a \<in> statusesSent (calls h) \<Longrightarrow> P a"
  by (auto simp: au_all_def statusesSent_iff)

inductive au_reach ::
    "'s Reconciler \<Rightarrow> 'v semver \<Rightarrow> ('s \<Rightarrow> OpenClawInstance) \<Rightarrow> AutoUpdateStatus set \<Rightarrow> 's \<Rightarrow> bool"
  for r sv stored where
  start: "au_of (stored s) = zero_AutoUpdateStatus \<Longrightarrow> au_reach r sv stored {au_of (stored s)} s"
| run: "au_reach r sv stored held s \<Longrightarrow> au_of i \<in> insert (au_of (stored s)) held \<Longrightarrow>
    rollbackDue (au_of i) (au_of (stored s)) \<Longrightarrow>
    run_state (reconcileAutoUpdate r sv) (cachedCtx i s) = (out, h') \<Longrightarrow>
    au_reach r sv stored (held \<union> statusesSent (calls h')) (srv h')"
| persist: "au_reach r sv stored held s \<Longrightarrow> au_of i \<in> insert (au_of (stored s)) held \<Longrightarrow>
    rollbackDue (au_of i) (au_of (stored s)) \<Longrightarrow>
    run_state (autoUpdateRound r sv) (cachedCtx i s) = (e, h') \<Longrightarrow>
    au_reach r sv stored (held \<union> statusesSent (calls h')) (srv h')"
| environment: "au_reach r sv stored held s \<Longrightarrow> au_of (stored s') = au_of (stored s) \<Longrightarrow> au_reach r sv stored held s'"

text \<open>
  The runs that make up one update of the instance called \<open>n\<close>, with the calls of all of them in
  order: they start before the image tag is patched, every copy that is read shows the update pending
  and asks for backups, and it may be older than what the server holds.
\<close>

definition awaitsBackup :: "AutoUpdateStatus \<Rightarrow> bool" where
  "awaitsBackup a \<longleftrightarrow> aus_UpdatePhase a \<in> {[], updatePhaseBackingUp}"

definition asksForBackup :: "string \<Rightarrow> OpenClawInstance \<Rightarrow> bool" where
  "asksForBackup n i \<longleftrightarrow>
     oname i = n \<and> aus_PendingVersion (au_of i) \<noteq> [] \<and> needsBackup i \<and> IsPersistenceEnabled i"

inductive update_rounds ::
    "'s Reconciler \<Rightarrow> 'v semver \<Rightarrow> ('s \<Rightarrow> OpenClawInstance) \<Rightarrow> string \<Rightarrow> AutoUpdateStatus set \<Rightarrow> api_call list \<Rightarrow> 's \<Rightarrow> bool"
  for r sv stored n where
  pending: "awaitsBackup (au_of (stored s)) \<Longrightarrow> update_rounds r sv stored n {au_of (stored s)} [] s"
| round: "update_rounds r sv stored n held log s \<Longrightarrow> au_of i \<in> insert (au_of (stored s)) held \<Longrightarrow> asksForBackup n i \<Longrightarrow>
    run_state (reconcileAutoUpdate r sv) (cachedCtx i s) = (out, h') \<Longrightarrow>
    update_rounds r sv stored n (held \<union> statusesSent (calls h')) (log @ calls h') (srv h')"
| persisted_round: "update_rounds r sv stored n held log s \<Longrightarrow> au_of i \<in> insert (au_of (stored s)) held \<Longrightarrow> asksForBackup n i \<Longrightarrow>
    run_state (autoUpdateRound r sv) (cachedCtx i s) = (e, h') \<Longrightarrow>
    update_rounds r sv stored n (held \<union> statusesSent (calls h')) (log @ calls h') (srv h')"
| elsewhere: "update_rounds r sv stored n held log s \<Longrightarrow> au_of (stored s') = au_of (stored s) \<Longrightarrow>
    update_rounds r sv stored n held log s'"

end
