(* ===== verification/AutoUpdateProps.thy ===== *)
theory AutoUpdateProps
  imports AutoUpdate
begin

text \<open>
  The properties of the auto-update state machine, with a run of each on the in-memory cluster:
  the invariant of reachable states, the effect of a rollback, when the health check decides,
  which versions an update is started for, the circuit breaker, the backup before an update, and
  three places where the code does not do what it sets out to do.
\<close>

section \<open>Auxiliary facts\<close>

definition healthy :: "api_call list \<Rightarrow> bool" where
  "healthy cs \<longleftrightarrow> (\<exists>n ns sts. CGetSts n ns (Inr sts) \<in> set cs \<and> 0 < sts_ReadyReplicas sts \<and> 0 < sts_UpdatedReplicas sts)"

fun patchesInstance :: "api_call \<Rightarrow> bool" where
  "patchesInstance (CPatch _ _ _) = True"
| "patchesInstance _ = False"

lemmas update_defs = abortUpdate_def persistThen_def scaleBackUp_def applyUpdate_def confirmOrHealthCheck_def
  lastPreUpdateBackupPath_def getS3Credentials_def getJob_def handler_defs

lemma logs_backupPathOf: "logs (\<lambda>_. True) (backupPathOf r cs)"
  by (induction cs) (auto simp: getS3Credentials_def getSecret_def intro!: log_rules)

lemma abortUpdate_logs: "logs (\<lambda>c. \<not> patchesInstance c) (abortUpdate r reason)"
  unfolding update_defs by (intro log_rules) simp_all

lemma drained_mono: "drained jn cs \<Longrightarrow> set cs \<subseteq> set ds \<Longrightarrow> drained jn ds"
  unfolding drained_def by blast

lemma not_writes_not_patches: "\<not> writesInstance c \<Longrightarrow> \<not> patchesInstance c"
  by (cases c) auto

text \<open>A run from a cached copy: what holds of every status held so far holds of the context, and again after it.\<close>

lemma au_all_cached:
  "P (au_of (stored s)) \<and> (\<forall>a \<in> held. P a) \<Longrightarrow> au_of i \<in> insert (au_of (stored s)) held \<Longrightarrow> au_all P stored (cachedCtx i s)"
  by (auto simp: au_all_def)

lemma au_all_reached:
  assumes "au_all P stored h'" "P (au_of (stored s)) \<and> (\<forall>a \<in> held. P a)"
  shows "P (au_of (stored (srv h'))) \<and> (\<forall>a \<in> held \<union> statusesSent (calls h'). P a)"
proof -
  have "\<forall>a \<in> statusesSent (calls h'). P a" using au_all_sent [OF assms(1)] by blast
  then show ?thesis using assms by (simp add: au_all_def ball_Un)
qed

lemma au_all_statusUpdate:
  "api_laws r stored \<Longrightarrow> au_all P stored h \<Longrightarrow> wp (statusUpdate r) (\<lambda>_. au_all P stored) h"
  by (rule wp_statusUpdate_law) (auto simp: au_all_def)

lemma au_all_round:
  assumes "api_laws r stored" "wp (reconcileAutoUpdate r sv) (\<lambda>_. au_all P stored) h"
  shows "wp (autoUpdateRound r sv) (\<lambda>_. au_all P stored) h"
  unfolding autoUpdateRound_def
  by (rule wp_bind, rule wp_mono [OF assms(2)], rule au_all_statusUpdate [OF assms(1)])

section \<open>The backup of an update\<close>

text \<open>Before every patch in the log, the backup is seen done.\<close>

definition backupFirst :: "string \<Rightarrow> api_call list \<Rightarrow> bool" where
  "backupFirst jn cs \<longleftrightarrow> (\<forall>before c after. cs = before @ c # after \<longrightarrow> patchesInstance c \<longrightarrow> drained jn before)"

lemma drained_prefix: "drained jn cs \<Longrightarrow> drained jn (cs @ ds)"
  by (erule drained_mono) simp

lemma backupFirst_quiet: "list_all (\<lambda>c. \<not> patchesInstance c) cs \<Longrightarrow> backupFirst jn cs"
  by (auto simp: backupFirst_def)

lemma backupFirst_append:
  assumes "backupFirst jn cs" "drained jn cs \<or> backupFirst jn ds"
  shows "backupFirst jn (cs @ ds)"
  unfolding backupFirst_def
proof (intro allI impI)
  fix before c after assume "cs @ ds = before @ c # after" and c: "patchesInstance c"
  then obtain us where us: "cs = before @ us \<and> us @ ds = c # after \<or> cs @ us = before \<and> ds = us @ c # after"
    by (auto simp: append_eq_append_conv2)
  have "(\<exists>us. cs = before @ c # us) \<or> (\<exists>us. before = cs @ us \<and> ds = us @ c # after)"
    using us by (cases us) auto
  then consider us where "cs = before @ c # us" | us where "before = cs @ us" "ds = us @ c # after" by blast
  then show "drained jn before"
  proof cases
    case 2
    then show ?thesis using assms(2) c by (auto simp: backupFirst_def intro: drained_prefix drained_append)
  qed (use assms(1) c in \<open>simp add: backupFirst_def\<close>)
qed

text \<open>A context in which the backup came first, if it is done; otherwise the update still awaits it.\<close>

definition backedUp :: "string \<Rightarrow> ('s \<Rightarrow> OpenClawInstance) \<Rightarrow> 's hctx \<Rightarrow> bool" where
  "backedUp jn stored h \<longleftrightarrow> backupFirst jn (calls h)
     \<and> (drained jn (calls h) \<or> list_all (\<lambda>c. \<not> patchesInstance c) (calls h) \<and> au_all awaitsBackup stored h)"

lemma backedUp_done:
  assumes "logs (\<lambda>_. True) m" "backupFirst jn (calls h)" "drained jn (calls h)"
  shows "wp m (\<lambda>_. backedUp jn stored) h"
  using logsD [OF assms(1), of h]
  by (rule wp_mono) (use assms(2,3) in \<open>auto simp: extends_def backedUp_def intro: backupFirst_append drained_prefix\<close>)

lemma backedUp_waiting:
  assumes "logs (\<lambda>c. \<not> patchesInstance c) m" "list_all (\<lambda>c. \<not> patchesInstance c) (calls h)"
    "wp m (\<lambda>_. au_all awaitsBackup stored) h"
  shows "wp m (\<lambda>_. backedUp jn stored) h"
  using wp_conj [OF logsD [OF assms(1), of h] assms(3)]
  by (rule wp_mono) (use assms(2) in \<open>auto simp: extends_def backedUp_def intro: backupFirst_quiet\<close>)

lemma awaitsBackup_phases [simp]:
  "awaitsBackup (a\<lparr>aus_PendingVersion := [], aus_UpdatePhase := [], aus_LastUpdateError := e\<rparr>)"
  "awaitsBackup (a\<lparr>aus_UpdatePhase := updatePhaseBackingUp\<rparr>)"
  by (simp_all add: awaitsBackup_def)

lemma run_backedUp:
  assumes laws: "api_laws r stored" and ask: "asksForBackup n (cur h)" and "calls h = []" "au_all awaitsBackup stored h"
  shows "wp (reconcileAutoUpdate r sv) (\<lambda>_. backedUp (n @ ''-pre-update-backup'') stored) h"
proof -
  let ?Q = "\<lambda>_. backedUp (n @ ''-pre-update-backup'') stored"
  have jn: "preUpdateBackupJobName (cur h) = n @ ''-pre-update-backup''"
    using ask by (simp add: asksForBackup_def preUpdateBackupJobName_def)
  have phase: "aus_UpdatePhase (au_of (cur h)) \<in> {[], updatePhaseBackingUp}"
    using assms(4) by (simp add: au_all_def awaitsBackup_def)
  have pers: "wp (persistThen r (ret x)) ?Q h0"
    if "list_all (\<lambda>c. \<not> patchesInstance c) (calls h0)" "au_all awaitsBackup stored h0" for x h0
    by (rule backedUp_waiting [OF _ that(1) wp_persist_frames [OF laws that(2) frames_return]])
      (unfold persistThen_def, intro log_rules; simp)
  have abort: "wp (abortUpdate r reason) ?Q h0"
    if "list_all (\<lambda>c. \<not> patchesInstance c) (calls h0)" "au_all awaitsBackup stored h0" for reason h0
    by (rule backedUp_waiting [OF abortUpdate_logs that(1) abortUpdate_all [OF laws that(2)]]) simp
  have applied: "logs (\<lambda>_. True) (do { path \<leftarrow> lastPreUpdateBackupPath r;
      modInst (updAU (\<lambda>a. a\<lparr>aus_PreUpdateBackupPath := path\<rparr>)); applyUpdate r v b })" for v b
    unfolding update_defs by (intro log_rules logs_backupPathOf) simp_all
  have drive: "wp (drivePreUpdateBackup r) (\<lambda>(res, done, err) h'. cur h' = cur h \<and> stored (srv h') = stored (srv h)
      \<and> list_all (\<lambda>c. \<not> patchesInstance c) (calls h') \<and> au_all awaitsBackup stored h'
      \<and> (done \<longrightarrow> err = None \<and> drained (n @ ''-pre-update-backup'') (calls h'))) h"
    by (rule wp_mono [OF wp_conj [OF pre_update.drive_post framesD [OF frames_drivePreUpdateBackup [OF laws]]]])
      (use assms(3,4) in \<open>auto simp: driverPost_def newCalls_def framed_def au_all_def jn list_all_iff dest: not_writes_not_patches\<close>)
  have "wp (driveUpdateStateMachine r) ?Q h"
    unfolding driveUpdateStateMachine_def
    by (intro wp_bind [of getInst] wp_getInst wp_let wp_if wp_modInst wp_bind [of "modInst _"] pers
        wp_bind [of "drivePreUpdateBackup r"] wp_mono [OF drive] wp_prod wp_option backedUp_done [OF applied] abort)
      (use assms(3,4) ask phase in \<open>auto simp: update_phases asksForBackup_def au_all_def awaitsBackup_phases(2) [unfolded update_phases]
        intro: backupFirst_quiet\<close>)
  then show ?thesis
    unfolding reconcileAutoUpdate_def using ask by (intro wp_bind wp_getInst) (simp add: asksForBackup_def)
qed

lemma statusUpdate_backedUp:
  assumes "api_laws r stored" "backedUp jn stored h"
  shows "wp (statusUpdate r) (\<lambda>_. backedUp jn stored) h"
proof (cases "drained jn (calls h)")
  case True
  then show ?thesis using assms(2) by (intro backedUp_done log_rules) (simp_all add: backedUp_def)
next
  case False
  then show ?thesis using assms by (intro backedUp_waiting log_rules au_all_statusUpdate) (simp_all add: backedUp_def)
qed

lemma round_backedUp:
  assumes "api_laws r stored" "asksForBackup n (cur h)" "calls h = []" "au_all awaitsBackup stored h"
  shows "wp (autoUpdateRound r sv) (\<lambda>_. backedUp (n @ ''-pre-update-backup'') stored) h"
  unfolding autoUpdateRound_def
  by (rule wp_bind, rule wp_mono [OF run_backedUp [OF assms]], rule statusUpdate_backedUp [OF assms(1)])

text \<open>The log of the runs so far: the backup came first, or no copy there is to read is past it.\<close>

definition orderly :: "string \<Rightarrow> ('s \<Rightarrow> OpenClawInstance) \<Rightarrow> AutoUpdateStatus set \<Rightarrow> api_call list \<Rightarrow> 's \<Rightarrow> bool" where
  "orderly jn stored held log s \<longleftrightarrow> backupFirst jn log \<and> (drained jn log \<or>
     list_all (\<lambda>c. \<not> patchesInstance c) log \<and> awaitsBackup (au_of (stored s)) \<and> (\<forall>a \<in> held. awaitsBackup a))"

lemma orderly_cached:
  assumes "orderly jn stored held log s" "\<not> drained jn log" "au_of i \<in> insert (au_of (stored s)) held"
  shows "au_all awaitsBackup stored (cachedCtx i s)"
  using assms by (intro au_all_cached [where P = awaitsBackup and held = held]) (simp_all add: orderly_def)

lemma orderly_round:
  assumes old: "orderly jn stored held log s" and run: "\<not> drained jn log \<Longrightarrow> backedUp jn stored h'"
  shows "orderly jn stored (held \<union> statusesSent (calls h')) (log @ calls h') (srv h')"
proof -
  consider "drained jn log" | "drained jn (calls h')" "backupFirst jn (calls h')"
    | "list_all (\<lambda>c. \<not> patchesInstance c) (log @ calls h')" "au_all awaitsBackup stored h'"
        "awaitsBackup (au_of (stored s)) \<and> (\<forall>a \<in> held. awaitsBackup a)"
    using old run by (auto simp: orderly_def backedUp_def)
  then show ?thesis
  proof cases
    case 3
    from au_all_reached [where P = awaitsBackup, OF 3(2,3)] 3(1) show ?thesis
      unfolding orderly_def by (blast intro: backupFirst_quiet)
  qed (use old in \<open>auto simp: orderly_def intro: backupFirst_append drained_prefix drained_append\<close>)
qed

section \<open>Interrupted updates\<close>

text \<open>Once in the health check, the recorded previous version is \<open>v\<close>.\<close>

definition previousIs :: "string \<Rightarrow> AutoUpdateStatus \<Rightarrow> bool" where
  "previousIs v a \<longleftrightarrow> (aus_UpdatePhase a = updatePhaseHealthCheck \<longrightarrow> aus_PreviousVersion a = v)"

lemma abortUpdate_previous:
  assumes "api_laws r stored" "au_all (previousIs v) stored h"
  shows "wp (abortUpdate r reason) (\<lambda>_. au_all (previousIs v) stored) h"
  using assms by (intro abortUpdate_all) (auto simp: au_all_def previousIs_def update_phases)

lemma confirmOrHealthCheck_previous:
  assumes laws: "api_laws r stored"
    and "au_all (previousIs v) stored h" "aus_PreviousVersion (au_of (cur h)) = v"
  shows "wp (confirmOrHealthCheck r p) (\<lambda>_. au_all (previousIs v) stored) h"
  unfolding confirmOrHealthCheck_def removeCondition_def
  by (intro wp_rules frames_wp [OF frames_ops(1) [OF laws]] wp_persist_frames spec_frame laws)
    (use assms(2,3) in \<open>simp_all add: au_all_def previousIs_def update_phases\<close>)

lemma applyUpdate_previous:
  assumes laws: "api_laws r stored"
    and "aus_UpdatePhase (au_of (stored (srv h))) \<noteq> updatePhaseHealthCheck" "calls h = []"
  shows "wp (applyUpdate r p needs) (\<lambda>_. au_all (previousIs (tag_of (cur h))) stored) h"
  unfolding applyUpdate_def
  by (intro wp_rules wp_persist_inv wp_patchInst_law [OF laws]
      frames_wp [OF frames_scaleBackUp [OF laws]] abortUpdate_previous confirmOrHealthCheck_previous laws)
    (use assms(2,3) in \<open>simp_all add: au_all_def previousIs_def update_phases\<close>)

section \<open>Sample runs\<close>

definition sampleSemver :: "string semver" where
  "sampleSemver = \<lparr>sv_NewVersion = Some, sv_GreaterThan = (\<lambda>x y. x = ''2.0.0'' \<and> y = ''1.0.0''), sv_Prerelease = (\<lambda>_. [])\<rparr>"

text \<open>The facts about the starting contexts are collected so that a run never unfolds them.\<close>

definition rollbackCtx :: "Mem hctx" where
  "rollbackCtx = freshCtx mem_Inst (memStart
     (sampleInst (sampleAU ''2.0.0'' ''1.0.0'' updatePhaseRollingBack) ''2.0.0'' PhaseUpdating))"

lemma rollbackCtx_sel:
  "au_fresh mem_Inst rollbackCtx" "tag_of (cur rollbackCtx) = ''2.0.0''"
  "aus_PreviousVersion (au_of (cur rollbackCtx)) = ''1.0.0''"
  "aus_PendingVersion (au_of (cur rollbackCtx)) = ''2.0.0''"
  "aus_PreUpdateBackupPath (au_of (cur rollbackCtx)) = []"
  by (simp_all add: rollbackCtx_def au_fresh_def)

lemma rollback_run:
  "wp (driveRollback memRec) (\<lambda>(res, err) h'. res_Requeue res) rollbackCtx"
  unfolding driveRollback_def revertTag_def persistThen_def removeCondition_def
  by (intro mem_run) (simp_all add: rollbackCtx_sel requeueNow_def)

definition downSts :: StatefulSet where
  "downSts = \<lparr>sts_Meta = zero_ObjectMeta, sts_Replicas = Some 1, sts_ReadyReplicas = 0,
     sts_UpdatedReplicas = 1, sts_Other = JNull\<rparr>"

lemma downSts_sel: "sts_ReadyReplicas downSts = 0" "sts_Replicas downSts = Some 1"
  by (simp_all add: downSts_def)

definition timeoutCtx :: "Mem hctx" where
  "timeoutCtx = freshCtx mem_Inst ((memStart
     (sampleInst (sampleAU ''2.0.0'' ''1.0.0'' updatePhaseHealthCheck) ''2.0.0'' PhaseProvisioning))
       \<lparr>mem_Time := 11 * Minute,
        mem_Sts := Some downSts\<rparr>)"

lemma timeoutCtx_sel:
  "au_fresh mem_Inst timeoutCtx" "calls timeoutCtx = []" "mem_Sts (srv timeoutCtx) = Some downSts"
  "mem_Time (srv timeoutCtx) = 11 * Minute"
  "aus_PendingVersion (au_of (cur timeoutCtx)) = ''2.0.0''"
  "aus_UpdatePhase (au_of (cur timeoutCtx)) = updatePhaseHealthCheck"
  "aus_LastUpdateTime (au_of (cur timeoutCtx)) = Some 0"
  "au_HealthCheckTimeout (spec_AutoUpdate (oci_Spec (cur timeoutCtx))) = []"
  by (simp_all add: timeoutCtx_def au_fresh_def zero_AutoUpdateSpec_def)

lemma timeout_run:
  "wp (driveHealthCheck memRec)
     (\<lambda>_ h'. aus_UpdatePhase (au_of (mem_Inst (srv h'))) = updatePhaseRollingBack) timeoutCtx"
  unfolding driveHealthCheck_def persistThen_def removeCondition_def
  by (intro mem_run)
    (auto simp: timeoutCtx_sel downSts_sel parseHealthCheckTimeout_def since_def time_units)

definition updateCtx :: "Mem hctx" where
  "updateCtx = freshCtx mem_Inst (memStart
     (sampleInst (sampleAU ''2.0.0'' [] []) ''1.0.0'' PhaseUpdating))"

definition interruptedCtx :: "Mem hctx" where
  "interruptedCtx = freshCtx mem_Inst (memStart
     (sampleInst (sampleAU ''2.0.0'' ''1.0.0'' updatePhaseApplyingUpdate) ''2.0.0'' PhaseUpdating))"

lemma mem_confirm:
  assumes "spec_AutoUpdate (oci_Spec (cur h)) = zero_AutoUpdateSpec"
  shows "wp (confirmOrHealthCheck memRec v)
     (\<lambda>_ h'. aus_UpdatePhase (au_of (mem_Inst (srv h'))) = updatePhaseHealthCheck) h"
  unfolding confirmOrHealthCheck_def persistThen_def removeCondition_def using assms
  by (intro mem_run) (simp_all add: zero_AutoUpdateSpec_def)

lemma mem_apply:
  assumes "spec_AutoUpdate (oci_Spec (mem_Inst (srv h))) = zero_AutoUpdateSpec" "mem_Sts (srv h) = None"
  shows "wp (applyUpdate memRec v n)
     (\<lambda>_ h'. aus_UpdatePhase (au_of (mem_Inst (srv h'))) = updatePhaseHealthCheck) h"
  unfolding applyUpdate_def persistThen_def scaleBackUp_def using assms
  by (intro mem_run mem_confirm) simp_all

lemma interruptedCtx_sel:
  "aus_UpdatePhase (au_of (cur interruptedCtx)) = updatePhaseApplyingUpdate"
  "st_Phase (oci_Status (cur interruptedCtx)) = PhaseUpdating" "mem_Sts (srv interruptedCtx) = None"
  "spec_AutoUpdate (oci_Spec (mem_Inst (srv interruptedCtx))) = zero_AutoUpdateSpec"
  "aus_PendingVersion (au_of (cur interruptedCtx)) = ''2.0.0''" "tag_of (cur interruptedCtx) = ''2.0.0''"
  "au_fresh mem_Inst interruptedCtx" "calls interruptedCtx = []"
  by (simp_all add: interruptedCtx_def au_fresh_def)

lemma interrupted_run:
  "wp (driveUpdateStateMachine memRec)
     (\<lambda>_ h'. aus_UpdatePhase (au_of (mem_Inst (srv h'))) = updatePhaseHealthCheck) interruptedCtx"
  unfolding driveUpdateStateMachine_def
  by (intro wp_bind [of getInst] wp_getInst wp_let)
    (simp add: interruptedCtx_sel(1,2) update_phases mem_apply [unfolded update_phases] interruptedCtx_sel)

lemma sample_flags:
  "spec_Storage (oci_Spec i) = zero_StorageSpec \<Longrightarrow> IsPersistenceEnabled i"
  "spec_AutoUpdate (oci_Spec i) = zero_AutoUpdateSpec \<Longrightarrow> needsBackup i"
  by (simp_all add: IsPersistenceEnabled_def needsBackup_def zero_StorageSpec_def
      zero_PersistenceSpec_def zero_AutoUpdateSpec_def)

definition checkCtx :: "Mem hctx" where
  "checkCtx = freshCtx mem_Inst ((memStart
     ((sampleInst (sampleAU [] [] []) ''1.0.0'' PhaseRunning)
        \<lparr>oci_Spec := zero_OpenClawInstanceSpec
          \<lparr>spec_Image := zero_ImageSpec\<lparr>img_Tag := ''1.0.0''\<rparr>,
           spec_AutoUpdate := zero_AutoUpdateSpec\<lparr>au_Enabled := Some True\<rparr>\<rparr>\<rparr>))\<lparr>mem_Latest := ''2.0.0''\<rparr>)"

lemma checkCtx_sel:
  "au_fresh mem_Inst checkCtx" "calls checkCtx = []" "aus_PendingVersion (au_of (cur checkCtx)) = []"
  "aus_FailedVersion (au_of (cur checkCtx)) = []" "aus_LastCheckTime (au_of (cur checkCtx)) = None"
  "sint (aus_RollbackCount (au_of (cur checkCtx))) = 0" "tag_of (cur checkCtx) = ''1.0.0''"
  "isAutoUpdateEnabled (cur checkCtx)" "mem_Latest (srv checkCtx) = ''2.0.0''"
  by (simp_all add: checkCtx_def au_fresh_def isAutoUpdateEnabled_def zero_ImageSpec_def)

lemma sampleSemver_sel:
  "sv_NewVersion sampleSemver = Some"
  "sv_GreaterThan sampleSemver x y \<longleftrightarrow> x = ''2.0.0'' \<and> y = ''1.0.0''"
  by (simp_all add: sampleSemver_def)

lemma wp_mem_resolver:
  "(\<And>h'. cur h' = cur h \<Longrightarrow> srv h' = srv h \<Longrightarrow> Q (Inr (mem_Latest (srv h))) h') \<Longrightarrow>
   wp (api (State (\<lambda>s. (Inr (mem_Latest s), s))) mk) Q h"
  by (simp add: wp_def api_def)

lemma check_run:
  "wp (reconcileAutoUpdate memRec sampleSemver)
     (\<lambda>_ h'. aus_PendingVersion (au_of (cur h')) = ''2.0.0'') checkCtx"
proof -
  have "rc_VersionResolver memRec = Some (\<lambda>repo. State (\<lambda>s. (Inr (mem_Latest s), s)))"
    by (simp add: memRec_def)
  then show ?thesis
    unfolding reconcileAutoUpdate_def checkVersion_def startUpdate_def shouldCheckForUpdate_def
      removeCondition_def setCondition_def
    by (simp only: option.case)
      (intro mem_run wp_mem_resolver, auto simp: checkCtx_sel sampleSemver_sel word_sle_eq
        sint_maxRollbackCount)
qed

definition breakerCtx :: "Mem hctx" where
  "breakerCtx = freshCtx mem_Inst (memStart
     (sampleInst ((sampleAU [] [] [])\<lparr>aus_RollbackCount := 3\<rparr>) ''1.0.0'' PhaseRunning))"

lemma wp_patch_logged:
  assumes "\<And>e. logs (\<lambda>_. True) (f e)"
  shows "wp (do { perr \<leftarrow> patchInst r o'; f perr }) (\<lambda>_ h'. \<exists>c \<in> set (calls h'). patchesInstance c) h"
  unfolding patchInst_def by (intro wp_bind wp_writeInst; rule wp_logged [OF assms]) auto

lemma apply_patches:
  "wp (applyUpdate memRec v n) (\<lambda>_ h'. \<exists>c \<in> set (calls h'). patchesInstance c) h"
proof -
  have "logs (\<lambda>_. True) (abortUpdate memRec e)" "logs (\<lambda>_. True) (confirmOrHealthCheck memRec v)"
    "logs (\<lambda>_. True) (scaleBackUp memRec)" for e
    unfolding update_defs by (intro log_rules; simp)+
  then show ?thesis
    unfolding applyUpdate_def persistThen_def
    by (intro wp_bind [of "modInst _"] wp_bind [of "statusUpdate _"] wp_bind [of getInst] wp_mem_statusUpdate
        wp_modInst wp_getInst)
      (simp, intro wp_bind [of "modInst _"]  wp_bind [of getInst] wp_modInst wp_getInst wp_patch_logged log_rules)
qed

lemma update_run:
  "wp (driveUpdateStateMachine memRec) (\<lambda>_ h'. \<exists>c \<in> set (calls h'). patchesInstance c) updateCtx"
proof -
  have ctx: "mem_Sts (srv updateCtx) = None" "aus_UpdatePhase (au_of (cur updateCtx)) = []"
    "st_Phase (oci_Status (cur updateCtx)) = PhaseUpdating"
    "needsBackup (cur updateCtx)" "IsPersistenceEnabled (cur updateCtx)"
    by (simp_all add: updateCtx_def sample_flags)
  have drive: "wp (drivePreUpdateBackup memRec) (\<lambda>out _. snd out = (True, None)) updateCtx"
    unfolding drivePreUpdateBackup_def drainSts_def
    by (intro wp_bind wp_getInst wp_mem_reads) (simp add: ctx isNotFound_def wp_return)
  have path: "wp (do { path \<leftarrow> lastPreUpdateBackupPath memRec;
      modInst (g path); applyUpdate memRec v n }) (\<lambda>_ h'. \<exists>c \<in> set (calls h'). patchesInstance c) h" for g v n h
    by (rule wp_bind, rule wpI, intro wp_bind wp_modInst apply_patches)
  show ?thesis
    unfolding driveUpdateStateMachine_def
    by (intro wp_bind [of getInst] wp_getInst wp_let, simp add: ctx update_phases,
        rule wp_bind, rule wp_mono [OF drive], auto intro: path)
qed

definition sampleCreds :: s3Credentials where
  "sampleCreds = \<lparr>s3_Bucket = ''b'', s3_KeyID = ''k'', s3_AppKey = ''a'', s3_Endpoint = ''e'',
     s3_Region = [], s3_Provider = ''Other'', s3_EnvAuth = False\<rparr>"

definition backedUpCtx :: "Mem hctx" where
  "backedUpCtx = freshCtx mem_Inst ((srv updateCtx)\<lparr>mem_Jobs :=
     [(''demo-pre-update-backup'', instanceJob (cur updateCtx) ''demo-pre-update-backup''
        ''pre-update-backup'' ''backups/default/demo/x'' sampleCreds True)]\<rparr>)"

definition staleCtx :: "Mem hctx" where
  "staleCtx = (freshCtx mem_Inst (memStart (sampleInst ((sampleAU [] [] [])
       \<lparr>aus_FailedVersion := ''2.0.0'', aus_RollbackCount := 1\<rparr>) ''1.0.0'' PhaseProvisioning)))
     \<lparr>cur := sampleInst (sampleAU ''2.0.0'' ''1.0.0'' updatePhaseRollingBack) ''2.0.0'' PhaseUpdating\<rparr>"

lemma staleCtx_sel:
  "aus_PreviousVersion (au_of (cur staleCtx)) = ''1.0.0''" "aus_PreUpdateBackupPath (au_of (cur staleCtx)) = []"
  "aus_PendingVersion (au_of (mem_Inst (srv staleCtx))) = []"
  "aus_RollbackCount (au_of (mem_Inst (srv staleCtx))) = 1"
  by (simp_all add: staleCtx_def)

lemma stale_run: "wp (driveRollback memRec) (\<lambda>(res, err) h'. res_Requeue res) staleCtx"
  unfolding driveRollback_def revertTag_def persistThen_def removeCondition_def
  by (intro mem_run) (simp_all add: staleCtx_sel requeueNow_def)

section \<open>Properties\<close>

text \<open>
  C3: in every state the auto-update machine reaches from an empty update status, the rollback counter
  is between 0 and the circuit-breaker threshold 3, strictly below it while an update is pending, and an
  idle machine has no update phase. A run may start from a stale copy of the instance, with any update
  status the server has held before; the one restriction is that a copy in the phase RollingBack is
  acted on only while the server still has the update pending (a rollback repeated from the cache when it
  is over counts again, see \<open>stale_rollback_counts_again\<close>).
\<close>

theorem au_reach_wf:
  assumes laws: "api_laws r stored" and "au_reach r sv stored held s"
  shows "au_wf (au_of (stored s)) \<and> (\<forall>a \<in> held. au_wf a)"
  using assms(2)
proof (induction rule: au_reach.induct)
  case (start s)
  show ?case by (simp add: start au_wf_def zero_AutoUpdateStatus_def sint_maxRollbackCount)
next
  case (run held s i out h')
  have "au_inv stored (cachedCtx i s)" using run.IH run(2) by (rule au_all_cached)
  then have "wp (reconcileAutoUpdate r sv) (\<lambda>_. au_inv stored) (cachedCtx i s)"
    by (rule reconcileAutoUpdate_inv [OF laws]) (simp add: run(3))
  from wp_run [OF this run(4)] run.IH show ?case by (rule au_all_reached)
next
  case (persist held s i e h')
  have "au_inv stored (cachedCtx i s)" using persist.IH persist(2) by (rule au_all_cached)
  then have "wp (reconcileAutoUpdate r sv) (\<lambda>_. au_inv stored) (cachedCtx i s)"
    by (rule reconcileAutoUpdate_inv [OF laws]) (simp add: persist(3))
  then have "wp (autoUpdateRound r sv) (\<lambda>_. au_inv stored) (cachedCtx i s)" by (rule au_all_round [OF laws])
  from wp_run [OF this persist(4)] persist.IH show ?case by (rule au_all_reached)
qed simp

theorem au_reach_wf_witness:
  "au_wf (au_of (mem_Inst (srv (snd (run_state (autoUpdateRound memRec sampleSemver)
     (freshCtx mem_Inst (memStart (sampleInst zero_AutoUpdateStatus ''1.0.0'' PhaseRunning))))))))"
proof -
  let ?s = "memStart (sampleInst zero_AutoUpdateStatus ''1.0.0'' PhaseRunning)"
  obtain e h' where run: "run_state (autoUpdateRound memRec sampleSemver) (cachedCtx (mem_Inst ?s) ?s) = (e, h')"
    by fastforce
  have "au_reach memRec sampleSemver mem_Inst {au_of (mem_Inst ?s)} ?s" by (rule au_reach.start) simp
  from au_reach_wf [OF memRec_laws au_reach.persist [OF this _ _ run]] run show ?thesis
    by (simp add: freshCtx_def cachedCtx_def rollbackDue_def zero_AutoUpdateStatus_def update_phases)
qed

text \<open>The update status after a finished rollback, and after an update that is given up.\<close>

definition rolledBack :: "string \<Rightarrow> AutoUpdateStatus \<Rightarrow> AutoUpdateStatus" where
  "rolledBack v a = a\<lparr>aus_FailedVersion := aus_PendingVersion a, aus_PendingVersion := [], aus_UpdatePhase := [],
     aus_PreUpdateBackupPath := [], aus_PreviousVersion := [], aus_CurrentVersion := v,
     aus_LastUpdateError := ''version '' @ aus_PendingVersion a @ '' failed health check, rolled back to '' @ v,
     aus_RollbackCount := aus_RollbackCount a + 1\<rparr>"

definition gaveUp :: "string \<Rightarrow> AutoUpdateStatus \<Rightarrow> AutoUpdateStatus" where
  "gaveUp reason a = a\<lparr>aus_PendingVersion := [], aus_UpdatePhase := [], aus_LastUpdateError := reason\<rparr>"

text \<open>
  C4: what a rollback does, from whatever copy of the instance it runs. One that finishes asks for an
  immediate requeue, and then the image tag of the stored instance is the previous version the copy
  recorded (untouched if the copy has that tag already), the version that was pending in the stored
  instance is recorded as failed, one rollback is counted on top of the stored count and the machine is
  idle. One that is still restoring the volume changes nothing. One that fails leaves the stored update
  status as it was, or exactly as a finished one. Without a recorded previous version the update is
  given up: no rollback is counted and the tag stays.
\<close>

theorem driveRollback_effect:
  assumes laws: "api_laws r stored"
  shows "wp (driveRollback r) (\<lambda>(res, err) h'.
     let v = aus_PreviousVersion (au_of (cur h)); before = stored (srv h); after = stored (srv h')
     in if v = []
        then tag_of after = tag_of before
          \<and> (au_of after = gaveUp ''rollback failed: no previous version recorded'' (au_of (cur h))
             \<or> err \<noteq> None \<and> au_of after = au_of before)
        else (res_Requeue res \<longrightarrow>
                err = None \<and> cur h' = after \<and> au_of after = rolledBack v (au_of before)
                \<and> tag_of after = (if tag_of (cur h) = v then tag_of before else v))
          \<and> (\<not> res_Requeue res \<and> err = None \<longrightarrow> cur h' = cur h \<and> after = before)
          \<and> (err \<noteq> None \<longrightarrow> au_of after \<in> {au_of before, rolledBack v (au_of before)})) h"
proof -
  have revert: "wp (revertTag r v) (\<lambda>(res, err) h'.
     (res_Requeue res \<longrightarrow>
        err = None \<and> cur h' = stored (srv h') \<and> au_of (stored (srv h')) = rolledBack v (au_of (stored (srv h)))
        \<and> tag_of (stored (srv h')) = (if tag_of (cur h) = v then tag_of (stored (srv h)) else v)) \<and>
     (\<not> res_Requeue res \<longrightarrow> err \<noteq> None) \<and>
     (err \<noteq> None \<longrightarrow> au_of (stored (srv h')) \<in> {au_of (stored (srv h)), rolledBack v (au_of (stored (srv h)))})) h" for h v
    unfolding revertTag_def removeCondition_def persistThen_def
    by (intro wp_rules wp_patchInst_law [OF laws] wp_statusUpdate_law [OF laws])
      (auto simp: patched_def noResult_def requeueNow_def rolledBack_def)
  have abort: "wp (abortUpdate r reason) (\<lambda>(res, err) h'. tag_of (stored (srv h')) = tag_of (stored (srv h))
     \<and> (au_of (stored (srv h')) = gaveUp reason (au_of (cur h))
        \<or> err \<noteq> None \<and> au_of (stored (srv h')) = au_of (stored (srv h)))) h" for h reason
    unfolding abortUpdate_def removeCondition_def persistThen_def
    by (intro wp_rules wp_statusUpdate_law [OF laws] frames_wp [OF frames_scaleBackUp [OF laws]])
      (auto simp: gaveUp_def)
  show ?thesis
    unfolding driveRollback_def Let_def
    by (intro wp_rules wp_mono [OF wp_conj [OF rollback_restore.drive_post
            framesD [OF frames_driveRollbackRestore [OF laws]]]] wp_mono [OF revert] wp_mono [OF abort])
      (auto simp: driverPost_def framed_def)
qed

theorem driveRollback_effect_witness:
  "tag_of (mem_Inst (srv (snd (run_state (driveRollback memRec) rollbackCtx)))) = ''1.0.0'' \<and>
   aus_FailedVersion (au_of (mem_Inst (srv (snd (run_state (driveRollback memRec) rollbackCtx))))) = ''2.0.0''"
  using driveRollback_effect [OF memRec_laws, of rollbackCtx] rollback_run rollbackCtx_sel(1,4)
  by (auto simp: wp_def rollbackCtx_sel(2,3) rolledBack_def au_fresh_def Let_def split: prod.splits)

text \<open>
  C5: the health check confirms an update only after it saw ready and updated replicas, and it starts a
  rollback only when it did not and at least the configured timeout (never less than two minutes)
  has passed since the update was applied.
\<close>

theorem driveHealthCheck_decision:
  assumes laws: "api_laws r stored" and "au_fresh stored h" and "calls h = []"
    and "aus_PendingVersion (au_of (cur h)) \<noteq> []"
    and "aus_UpdatePhase (au_of (cur h)) = updatePhaseHealthCheck"
    and "aus_LastUpdateTime (au_of (cur h)) = Some t0"
  shows "wp (driveHealthCheck r) (\<lambda>_ h'.
     (aus_PendingVersion (au_of (stored (srv h'))) = [] \<longrightarrow> healthy (calls h')) \<and>
     (aus_UpdatePhase (au_of (stored (srv h'))) = updatePhaseRollingBack \<longrightarrow>
        \<not> healthy (calls h') \<and>
        (\<exists>n. CNow n \<in> set (calls h') \<and> 2 * Minute \<le> since n t0 \<and>
             parseHealthCheckTimeout (au_HealthCheckTimeout (spec_AutoUpdate (oci_Spec (cur h)))) \<le> since n t0))) h"
proof -
  have range: "2 * Minute \<le> parseHealthCheckTimeout (au_HealthCheckTimeout (spec_AutoUpdate (oci_Spec (cur h))))"
    using health_timeout.parse_range by blast
  show ?thesis
  unfolding driveHealthCheck_def removeCondition_def getSts_def now_def persistThen_def
  by (intro wp_rules wp_statusUpdate_law [OF laws] wp_api_silent [OF others_silentD(2) [OF laws]]
      wp_api_silent [OF others_silentD(1) [OF laws]])
    (use assms(2-6) range in \<open>auto simp: au_fresh_def healthy_def update_phases split: if_splits\<close>)
qed

theorem driveHealthCheck_decision_witness:
  "\<exists>n. CNow n \<in> set (calls (snd (run_state (driveHealthCheck memRec) timeoutCtx))) \<and> 2 * Minute \<le> since n 0"
  using driveHealthCheck_decision [OF memRec_laws, of timeoutCtx 0] timeout_run
  by (auto simp: wp_def timeoutCtx_sel split: prod.splits)

text \<open>
  C6: an idle machine starts an update only if auto-update is enabled, fewer than three rollbacks are
  counted, the version is the one the registry reported, it is strictly greater than the current
  tag, and it is not the version that failed before.
\<close>

theorem version_check_sound:
  assumes laws: "api_laws r stored" and "au_fresh stored h" and "calls h = []"
    and idle: "aus_PendingVersion (au_of (cur h)) = []"
    and irrefl: "\<forall>v. \<not> sv_GreaterThan sv v v"
  shows "wp (reconcileAutoUpdate r sv) (\<lambda>_ h'.
     aus_PendingVersion (au_of (cur h')) \<noteq> [] \<longrightarrow>
       isAutoUpdateEnabled (cur h) \<and>
       sint (aus_RollbackCount (au_of (cur h))) < 3 \<and>
       aus_PendingVersion (au_of (cur h')) \<noteq> aus_FailedVersion (au_of (cur h)) \<and>
       CLatestSemver (GetImageRepository (cur h)) (Inr (aus_PendingVersion (au_of (cur h')))) \<in> set (calls h') \<and>
       (\<exists>new old. sv_NewVersion sv (aus_PendingVersion (au_of (cur h'))) = Some new \<and>
          sv_NewVersion sv (tag_of (cur h)) = Some old \<and> sv_GreaterThan sv new old)) h"
proof -
  have check: "wp (checkVersion r sv v) (\<lambda>_ h'.
      aus_PendingVersion (au_of (cur h')) \<noteq> [] \<longrightarrow>
        prefix (calls h) (calls h') \<and> aus_PendingVersion (au_of (cur h')) = v \<and>
        v \<noteq> aus_FailedVersion (au_of (cur h)) \<and>
        (\<exists>new old. sv_NewVersion sv v = Some new \<and>
          sv_NewVersion sv (tag_of (cur h)) = Some old \<and> sv_GreaterThan sv new old)) h"
    if "aus_PendingVersion (au_of (cur h)) = []" "aus_PendingVersion (au_of (stored (srv h))) = []" for h v
    unfolding checkVersion_def startUpdate_def removeCondition_def setCondition_def
    by (intro wp_rules wp_patchInst_law [OF laws])
      (use that irrefl in \<open>auto split: option.splits if_splits\<close>)
  show ?thesis
    unfolding reconcileAutoUpdate_def now_def
    by (intro wp_rules wp_mono [OF check] frames_wp [OF frames_shouldCheckForUpdate [OF laws]]
        wp_api_silent [OF others_silentD(1) [OF laws]] wp_api_silent [OF others_silentD(15) [OF laws]])
      (use assms(2-4) in \<open>auto simp: au_fresh_def word_sle_eq sint_maxRollbackCount prefix_def\<close>)
qed

theorem version_check_sound_witness:
  "aus_PendingVersion (au_of (cur (snd (run_state (reconcileAutoUpdate memRec sampleSemver) checkCtx)))) = ''2.0.0'' \<and>
   ''2.0.0'' \<noteq> aus_FailedVersion (au_of (cur checkCtx))"
  using version_check_sound [OF memRec_laws, of checkCtx sampleSemver] check_run
  by (auto simp: wp_def checkCtx_sel sampleSemver_sel split: prod.splits)

text \<open>
  With three or more rollbacks counted and no update pending, the reconciler does nothing at all: no
  registry query, no write, no event.
\<close>

theorem circuit_breaker:
  assumes "3 \<le> sint (aus_RollbackCount (au_of (cur h)))" "aus_PendingVersion (au_of (cur h)) = []"
  shows "run_state (reconcileAutoUpdate r sv) h = ((noResult, None), h)"
  using assms unfolding reconcileAutoUpdate_def
  by (simp add: getInst_def word_sle_eq sint_maxRollbackCount split: option.splits)

theorem circuit_breaker_witness:
  "run_state (reconcileAutoUpdate memRec sampleSemver) breakerCtx = ((noResult, None), breakerCtx)"
  using circuit_breaker [of breakerCtx memRec sampleSemver] by (simp add: breakerCtx_def)

text \<open>
  C7: when backups are required, no write of the image tag comes before its backup. Over all the runs of
  a pending update, however many and from copies of the instance as old as its start, all of them asking
  for a backup, every patch of the instance in the log of calls
  is preceded by a reply in which the pre-update backup Job of the instance had completed, or by one
  that said there is no StatefulSet whose data could be backed up.
\<close>

theorem backup_precedes_update:
  assumes laws: "api_laws r stored" and "update_rounds r sv stored n held log s"
    and "log = before @ c # after" "patchesInstance c"
  shows "drained (n @ ''-pre-update-backup'') before"
proof -
  let ?jn = "n @ ''-pre-update-backup''"
  have "orderly ?jn stored held log s"
    using assms(2)
  proof (induction rule: update_rounds.induct)
    case (pending s)
    then show ?case by (simp add: orderly_def backupFirst_def)
  next
    case (round held log s i out h')
    have "wp (reconcileAutoUpdate r sv) (\<lambda>_. backedUp ?jn stored) (cachedCtx i s)" if "\<not> drained ?jn log"
      by (rule run_backedUp [OF laws]) (simp_all add: round(3) orderly_cached [OF round.IH that round(2)])
    then show ?case using orderly_round [OF round.IH] wp_run [OF _ round(4)] by blast
  next
    case (persisted_round held log s i e h')
    have "wp (autoUpdateRound r sv) (\<lambda>_. backedUp ?jn stored) (cachedCtx i s)" if "\<not> drained ?jn log"
      by (rule round_backedUp [OF laws]) (simp_all add: persisted_round(3) orderly_cached [OF persisted_round.IH that persisted_round(2)])
    then show ?case using orderly_round [OF persisted_round.IH] wp_run [OF _ persisted_round(4)] by blast
  qed (simp add: orderly_def)
  with assms(3,4) show ?thesis by (simp add: orderly_def backupFirst_def)
qed

theorem backup_precedes_update_witness:
  "\<exists>before c after. calls (snd (run_state (reconcileAutoUpdate memRec sampleSemver) updateCtx)) = before @ c # after
     \<and> patchesInstance c \<and> drained ''demo-pre-update-backup'' before"
proof -
  let ?s = "srv updateCtx" and ?m = "reconcileAutoUpdate memRec sampleSemver"
  obtain out h' where run: "run_state ?m (cachedCtx (mem_Inst ?s) ?s) = (out, h')" by fastforce
  have ctx: "cachedCtx (mem_Inst ?s) ?s = updateCtx" by (simp add: updateCtx_def freshCtx_def cachedCtx_def)
  have "update_rounds memRec sampleSemver mem_Inst ''demo'' {au_of (mem_Inst ?s)} [] ?s"
    by (rule update_rounds.pending) (simp add: updateCtx_def awaitsBackup_def)
  from update_rounds.round [OF this _ _ run]
  have rounds: "update_rounds memRec sampleSemver mem_Inst ''demo'' ({au_of (mem_Inst ?s)} \<union> statusesSent (calls h')) (calls h') (srv h')"
    by (simp add: asksForBackup_def updateCtx_def sample_flags)
  have "wp ?m (\<lambda>_ h'. \<exists>c \<in> set (calls h'). patchesInstance c) updateCtx"
    unfolding reconcileAutoUpdate_def by (rule wp_bind, rule wp_getInst) (simp add: update_run, simp add: updateCtx_def)
  then obtain c where "c \<in> set (calls h')" "patchesInstance c" using run by (auto simp: ctx wp_def)
  then obtain before after where "calls h' = before @ c # after" by (auto dest: split_list)
  with backup_precedes_update [OF memRec_laws rounds this] \<open>patchesInstance c\<close> run show ?thesis by (auto simp: ctx)
qed

text \<open>
  The path of the pre-update backup is never recorded: whatever credentials are in place, reading it
  back from a backup Job the operator built yields the empty string, because the argument it looks
  at is the local directory.
\<close>

theorem backup_path_never_recorded:
  assumes "\<And>job s. run_state (rc_GetJob r (preUpdateBackupJobName (cur h)) (onamespace (cur h))) (srv h) = (Inr job, s) \<Longrightarrow>
     ps_Containers (js_Template (job_Spec job)) =
       ps_Containers (js_Template (job_Spec (instanceJob inst jobName jobType path creds True)))"
  shows "wp (lastPreUpdateBackupPath r) (\<lambda>recorded _. recorded = []) h"
proof -
  have bucket: "s3_Bucket c \<noteq> []" if "parseCredentials secret = Inr c" for secret c
    using that by (auto simp: parseCredentials_def requireKey_def Let_def split: sum.splits if_splits)
  have loop: "wp (backupPathOf r [c]) (\<lambda>recorded _. recorded = []) h0"
    if "con_Args c = rcloneArgs creds True path" for c h0
    using that unfolding backupPathOf.simps getS3Credentials_def getSecret_def
    by (intro wp_rules wp_api)
      (auto simp: rcloneArgs_def Let_def dest!: bucket)
  show ?thesis
    unfolding lastPreUpdateBackupPath_def getJob_def
    using assms by (intro wp_rules wp_api) (auto simp: instanceJob_def buildRcloneJob_def loop simp del: backupPathOf.simps)
qed

theorem backup_path_never_recorded_witness:
  "fst (run_state (lastPreUpdateBackupPath memRec) backedUpCtx) = []"
  using backup_path_never_recorded [of memRec backedUpCtx "cur updateCtx" "''demo-pre-update-backup''"
      "''pre-update-backup''" "''backups/default/demo/x''" sampleCreds]
  by (auto simp: wp_def backedUpCtx_def memRec_sel memGet_def preUpdateBackupJobName_def updateCtx_def
      split: prod.splits)

text \<open>
  A rollback run repeated from a stale copy of the instance counts a second rollback and erases the
  failed version, so the version that just failed is eligible again.
\<close>

theorem stale_rollback_counts_again:
  assumes laws: "api_laws r stored"
    and "aus_PreviousVersion (au_of (cur h)) \<noteq> []" "aus_PreUpdateBackupPath (au_of (cur h)) = []"
    and "aus_PendingVersion (au_of (stored (srv h))) = []"
  shows "wp (driveRollback r) (\<lambda>(res, err) h'. res_Requeue res \<longrightarrow>
     aus_FailedVersion (au_of (stored (srv h'))) = [] \<and>
     aus_RollbackCount (au_of (stored (srv h'))) = aus_RollbackCount (au_of (stored (srv h))) + 1) h"
  unfolding driveRollback_def revertTag_def removeCondition_def persistThen_def
  by (intro wp_rules wp_patchInst_law [OF laws] wp_statusUpdate_law [OF laws])
    (use assms(2-4) in \<open>simp_all add: noResult_def\<close>)

theorem stale_rollback_counts_again_witness:
  "aus_FailedVersion (au_of (mem_Inst (srv (snd (run_state (driveRollback memRec) staleCtx))))) = [] \<and>
   aus_RollbackCount (au_of (mem_Inst (srv (snd (run_state (driveRollback memRec) staleCtx))))) = 2"
  using stale_rollback_counts_again [OF memRec_laws, of staleCtx] stale_run
  by (auto simp: wp_def staleCtx_sel split: prod.splits)

text \<open>
  If the operator is interrupted between patching the tag and entering the health check, the next run
  records the pending version itself as the version to roll back to.
\<close>

theorem interrupted_apply_forgets_previous:
  assumes laws: "api_laws r stored" and "au_fresh stored h" "calls h = []"
    and "aus_UpdatePhase (au_of (cur h)) = updatePhaseApplyingUpdate"
    and "tag_of (cur h) = aus_PendingVersion (au_of (cur h))"
  shows "wp (driveUpdateStateMachine r) (\<lambda>_ h'.
     aus_UpdatePhase (au_of (stored (srv h'))) = updatePhaseHealthCheck \<longrightarrow>
     aus_PreviousVersion (au_of (stored (srv h'))) = aus_PendingVersion (au_of (cur h))) h"
proof -
  have "wp (driveUpdateStateMachine r) (\<lambda>_. au_all (previousIs (tag_of (cur h))) stored) h"
    unfolding driveUpdateStateMachine_def using assms(2-4)
    by (intro wp_bind [of getInst] wp_getInst wp_let wp_if wp_bind [of "modInst _"] wp_modInst
        wp_persist_frames spec_frame applyUpdate_previous laws)
      (auto simp: au_all_def au_fresh_def previousIs_def update_phases)
  then show ?thesis
    by (rule wp_mono) (use assms(5) in \<open>simp add: au_all_def previousIs_def\<close>)
qed

theorem interrupted_apply_witness:
  "aus_PreviousVersion (au_of (mem_Inst (srv (snd (run_state (driveUpdateStateMachine memRec) interruptedCtx))))) = ''2.0.0''"
  using interrupted_apply_forgets_previous [OF memRec_laws, of interruptedCtx] interrupted_run
  by (auto simp: wp_def interruptedCtx_sel split: prod.splits)

end
