(* ===== verification/Backup.thy ===== *)
theory Backup
  imports AutoUpdate
begin

text \<open>
  internal/controller/backup.go: the backup-before-delete state machine, the removal of the
  finalizer and the orphaning of the data volume.
\<close>

definition FinalizerName :: string where "FinalizerName = ''openclaw.rocks/finalizer''"

definition parseBackupTimeout :: "string \<Rightarrow> duration" where
  "parseBackupTimeout s =
     (if s = [] then 30 * Minute
      else case parseDuration s of
        None \<Rightarrow> 30 * Minute
      | Some d \<Rightarrow> if d < 5 * Minute then 5 * Minute
                  else if d > 24 * Hour then 24 * Hour else d)"

interpretation backup_timeout: clamped_duration parseBackupTimeout "30 * Minute" "5 * Minute" "24 * Hour"
  by unfold_locales
    (auto simp: parseBackupTimeout_def clampDuration_def time_units split: option.splits)

section \<open>The data volume\<close>

text \<open>The owner references that do not point to this instance, in order.\<close>

definition foreignRefs :: "OpenClawInstance \<Rightarrow> OwnerReference list \<Rightarrow> OwnerReference list" where
  "foreignRefs inst refs = filter (\<lambda>ref. or_UID ref \<noteq> om_UID (oci_Meta inst)) refs"

definition orphanPVC :: "'s Reconciler \<Rightarrow> ('s hctx, go_error option) state" where
  "orphanPVC r = do {
     inst \<leftarrow> getInst;
     res \<leftarrow> getPVC r (PVCName inst) (onamespace inst);
     (case res of
        Inl err \<Rightarrow>
          if isNotFound err then ret None
          else ret (Some (wrapErr (''failed to get PVC '' @ PVCName inst) err))
      | Inr pvc \<Rightarrow>
          let owners = om_OwnerReferences (pvc_Meta pvc); refs = foreignRefs inst owners
          in if length refs = length owners then ret None
             else do {
               err \<leftarrow> updatePVC r (pvc\<lparr>pvc_Meta := (pvc_Meta pvc)\<lparr>om_OwnerReferences := refs\<rparr>\<rparr>);
               ret (map_option (wrapErr (''failed to remove owner reference from PVC '' @ PVCName inst)) err) }) }"

definition removeFinalizer :: "'s Reconciler \<Rightarrow> 's handler" where
  "removeFinalizer r = do {
     inst \<leftarrow> getInst;
     let pers = stor_Persistence (spec_Storage (oci_Spec inst));
     _ \<leftarrow> (if defaultTrue (pers_Orphan pers) \<and> IsPersistenceEnabled inst \<and> pers_ExistingClaim pers = []
          then orphanPVC r else ret None);
     modInst (\<lambda>i. i\<lparr>oci_Meta := (oci_Meta i)\<lparr>om_Finalizers :=
       rc_RemoveFinalizer r FinalizerName (om_Finalizers (oci_Meta i))\<rparr>\<rparr>);
     err \<leftarrow> updateInst r;
     (case err of Some e \<Rightarrow> ret (noResult, Some e) | None \<Rightarrow> ret (noResult, None)) }"

section \<open>Deletion with a backup\<close>

text \<open>Recording the terminating phase and letting go of the instance.\<close>

definition terminate :: "'s Reconciler \<Rightarrow> 's handler" where
  "terminate r = do {
     modInst (setPhase PhaseTerminating);
     persistThen r (removeFinalizer r) }"

text \<open>Step 5 with a Job that exists.\<close>

definition pollBackupJob :: "'s Reconciler \<Rightarrow> string \<Rightarrow> Job \<Rightarrow> 's handler" where
  "pollBackupJob r jobName existingJob =
     (case isJobFinished existingJob of (finished, condType) \<Rightarrow>
        if \<not> finished then ret (requeueIn (10 * Second), None)
        else if condType = JobFailed then do {
          event EventWarning ''BackupFailed''
            (''Backup Job '' @ jobName
             @ '' failed. Will retry until backup timeout elapses. To skip immediately: annotate ''
             @ AnnotationSkipBackup @ ''=true.'');
          setCondition r (mkCondition ConditionTypeBackupComplete ConditionFalse ''BackupFailed'' ''Backup Job failed'');
          persistThen r (ret (requeueIn (30 * Second), None)) }
        else do {
          i \<leftarrow> getInst;
          event EventNormal ''BackupComplete'' (''Backup completed to '' @ st_LastBackupPath (oci_Status i));
          n \<leftarrow> now r;
          modInst (updStatus (\<lambda>s. s\<lparr>st_LastBackupTime := Some n, st_Phase := PhaseTerminating,
                                 st_BackingUpSince := None\<rparr>));
          setCondition r (mkCondition ConditionTypeBackupComplete ConditionTrue ''BackupSucceeded''
            (''Backup completed to '' @ st_LastBackupPath (oci_Status i)));
          persistThen r (removeFinalizer r) })"

text \<open>Step 5 without one: the path is recorded before the Job is created, and reused on a retry.\<close>

definition createBackupJob :: "'s Reconciler \<Rightarrow> string \<Rightarrow> s3Credentials \<Rightarrow> string \<Rightarrow> 's handler" where
  "createBackupJob r jobName creds freshPath = do {
     inst \<leftarrow> getInst;
     (let build = (\<lambda>b2Path. do {
            i \<leftarrow> getInst;
            let job = instanceJob i jobName ''backup'' b2Path creds True;
            (case rc_SetControllerReference r i (job_Meta job) of
               Inl e \<Rightarrow> ret (noResult, Some e)
             | Inr meta \<Rightarrow> do {
                 cerr \<leftarrow> createJob r (job\<lparr>job_Meta := meta\<rparr>);
                 (case cerr of
                    Some e \<Rightarrow>
                      if isAlreadyExists e then ret (requeueIn (10 * Second), None)
                      else ret (noResult, Some e)
                  | None \<Rightarrow> do {
                      event EventNormal ''BackupStarted''
                        (''Backup Job '' @ jobName @ '' created, target: '' @ b2Path);
                      ret (requeueIn (10 * Second), None) }) }) })
      in if st_LastBackupPath (oci_Status inst) \<noteq> [] then build (st_LastBackupPath (oci_Status inst))
         else do {
           modInst (updStatus (\<lambda>s. s\<lparr>st_LastBackupPath := freshPath, st_BackupJobName := jobName\<rparr>));
           persistThen r (build freshPath) }) }"

definition backupWithJob :: "'s Reconciler \<Rightarrow> 's handler" where
  "backupWithJob r = do {
     credsRes \<leftarrow> getS3Credentials r;
     (case credsRes of
        Inl err \<Rightarrow>
          if isNotFound err then do {
            event EventNormal ''BackupSkipped''
              ''S3 backup credentials Secret not found - skipping pre-delete backup'';
            terminate r }
          else do {
            event EventWarning ''BackupCredentialsFailed'' (emsg err);
            ret (requeueIn (30 * Second), None) }
      | Inr creds \<Rightarrow> do {
          mirrorErr \<leftarrow> reconcileS3MirrorSecret r creds;
          (case mirrorErr of
             Some e \<Rightarrow> ret (noResult, Some e)
           | None \<Rightarrow> do {
               inst \<leftarrow> getInst;
               t \<leftarrow> now r;
               let b2Path = ''backups/'' @ getTenantID inst @ ''/'' @ oname inst @ ''/'' @ utcStamp t;
               let jobName = backupJobName inst;
               jobRes \<leftarrow> getJob r jobName (onamespace inst);
               (case jobRes of
                  Inl err \<Rightarrow>
                    if \<not> isNotFound err then ret (noResult, Some err)
                    else createBackupJob r jobName creds b2Path
                | Inr existingJob \<Rightarrow> pollBackupJob r jobName existingJob) }) }) }"

text \<open>Steps 3 and 4: scale to zero and wait for the pods.\<close>

definition drainThenBackup :: "'s Reconciler \<Rightarrow> 's handler" where
  "drainThenBackup r = do {
     inst \<leftarrow> getInst;
     res \<leftarrow> getSts r (StatefulSetName inst) (onamespace inst);
     (case res of
        Inl err \<Rightarrow> if isNotFound err then backupWithJob r else ret (noResult, Some err)
      | Inr sts \<Rightarrow>
          if scaledUp sts then do {
            err \<leftarrow> updateSts r (sts\<lparr>sts_Replicas := Some 0\<rparr>);
            (case err of Some e \<Rightarrow> ret (noResult, Some e) | None \<Rightarrow> ret (requeueIn (5 * Second), None)) }
          else do {
            pods \<leftarrow> listPods r (onamespace inst) (SelectorLabels inst);
            (case pods of
               Inl err \<Rightarrow> ret (noResult, Some err)
             | Inr items \<Rightarrow>
                 if items \<noteq> [] then ret (requeueIn (5 * Second), None) else backupWithJob r) }) }"

text \<open>Step 2: the deadline.\<close>

definition checkBackupTimeout :: "'s Reconciler \<Rightarrow> 's handler" where
  "checkBackupTimeout r = do {
     inst \<leftarrow> getInst;
     (case st_BackingUpSince (oci_Status inst) of
        None \<Rightarrow> drainThenBackup r
      | Some t \<Rightarrow> do {
          let timeout = parseBackupTimeout (bk_Timeout (spec_Backup (oci_Spec inst)));
          n \<leftarrow> now r;
          (if since n t \<ge> timeout then do {
             event EventWarning ''BackupTimedOut''
               (''Backup did not complete within '' @ durStr timeout
                @ '' - skipping backup and proceeding with deletion'');
             setCondition r (mkCondition ConditionTypeBackupComplete ConditionFalse ''BackupTimedOut''
               (''Backup did not complete within '' @ durStr timeout));
             modInst (setPhase PhaseTerminating);
             modInst (updStatus (\<lambda>s. s\<lparr>st_BackingUpSince := None\<rparr>));
             persistThen r (removeFinalizer r) }
           else drainThenBackup r) }) }"

definition reconcileDeleteWithBackup :: "'s Reconciler \<Rightarrow> 's handler" where
  "reconcileDeleteWithBackup r = do {
     inst \<leftarrow> getInst;
     (if map_of (om_Annotations (oci_Meta inst)) AnnotationSkipBackup = Some ''true'' then terminate r
      else if \<not> IsPersistenceEnabled inst then terminate r
      else if st_Phase (oci_Status inst) \<noteq> PhaseBackingUp \<and> st_Phase (oci_Status inst) \<noteq> PhaseTerminating
      then do {
        n \<leftarrow> now r;
        modInst (setPhase PhaseBackingUp);
        modInst (updStatus (\<lambda>s. s\<lparr>st_BackingUpSince := Some n\<rparr>));
        persistThen r (checkBackupTimeout r) }
      else checkBackupTimeout r) }"

section \<open>When the finalizer is released\<close>

fun updatesInstance :: "api_call \<Rightarrow> bool" where
  "updatesInstance (CUpdate _ _) = True"
| "updatesInstance _ = False"

text \<open>What the log must show before the instance may go.\<close>

definition deadlinePassed :: "OpenClawInstance \<Rightarrow> api_call list \<Rightarrow> bool" where
  "deadlinePassed inst cs \<longleftrightarrow>
     (\<exists>n t. CNow n \<in> set cs \<and> (st_BackingUpSince (oci_Status inst) = Some t \<or> CNow t \<in> set cs) \<and>
        parseBackupTimeout (bk_Timeout (spec_Backup (oci_Spec inst))) \<le> since n t)"

definition noCredentials :: "api_call list \<Rightarrow> bool" where
  "noCredentials cs \<longleftrightarrow> (\<exists>ns e. CGetSecret BackupSecretName ns (Inl e) \<in> set cs \<and> isNotFound e)"

definition jobSeen :: "string \<Rightarrow> string \<Rightarrow> api_call list \<Rightarrow> bool" where
  "jobSeen jobName outcome cs \<longleftrightarrow>
     (\<exists>ns job. CGetJob jobName ns (Inr job) \<in> set cs \<and> isJobFinished job = (True, outcome))"

definition mayRelease :: "OpenClawInstance \<Rightarrow> api_call list \<Rightarrow> bool" where
  "mayRelease inst cs \<longleftrightarrow>
     deadlinePassed inst cs \<or> noCredentials cs \<or> jobSeen (backupJobName inst) JobComplete cs"

definition releaseGuarded :: "OpenClawInstance \<Rightarrow> 's hctx \<Rightarrow> bool" where
  "releaseGuarded inst h \<longleftrightarrow> (\<exists>c \<in> set (calls h). updatesInstance c) \<longrightarrow> mayRelease inst (calls h)"

lemma mayRelease_append: "mayRelease inst cs \<Longrightarrow> mayRelease inst (cs @ ds)"
  unfolding mayRelease_def deadlinePassed_def noCredentials_def jobSeen_def set_append by blast

lemma release_keep:
  assumes "logs (\<lambda>_. True) m" "mayRelease inst (calls h)"
  shows "wp m (\<lambda>_. releaseGuarded inst) h"
  using logsD [OF assms(1), of h]
  by (rule wp_mono) (use assms(2) in \<open>auto simp: extends_def releaseGuarded_def mayRelease_append\<close>)

lemma release_quiet:
  assumes "logs (\<lambda>c. \<not> updatesInstance c) m" "\<forall>c \<in> set (calls h). \<not> updatesInstance c"
  shows "wp m (\<lambda>_. releaseGuarded inst) h"
  using logsD [OF assms(1), of h]
  by (rule wp_mono) (use assms(2) in \<open>auto simp: extends_def releaseGuarded_def list_all_iff\<close>)

lemmas backup_defs = removeFinalizer_def orphanPVC_def persistThen_def handler_defs

lemma logs_removeFinalizer [log_rules]: "logs (\<lambda>_. True) (removeFinalizer r)"
  unfolding backup_defs by (intro log_rules) simp_all

lemma logs_terminate: "logs (\<lambda>_. True) (terminate r)"
  unfolding terminate_def persistThen_def by (intro log_rules) simp_all

lemma logs_createBackupJob: "logs (\<lambda>c. \<not> updatesInstance c) (createBackupJob r jn creds p)"
  unfolding createBackupJob_def backup_defs Let_def by (intro log_rules) simp_all

lemma pollBackupJob_guarded:
  assumes "\<forall>c \<in> set (calls h). \<not> updatesInstance c"
    and "CGetJob (backupJobName inst) ns (Inr job) \<in> set (calls h)"
  shows "wp (pollBackupJob r jn job) (\<lambda>_. releaseGuarded inst) h"
proof (cases "isJobFinished job = (True, JobComplete)")
  case True
  then have "mayRelease inst (calls h)" using assms(2) by (auto simp: mayRelease_def jobSeen_def)
  moreover have "logs (\<lambda>_. True) (pollBackupJob r jn job)"
    unfolding pollBackupJob_def persistThen_def handler_defs by (intro log_rules) simp_all
  ultimately show ?thesis by (simp add: release_keep)
next
  case False
  have "logs (\<lambda>c. \<not> updatesInstance c) (pollBackupJob r jn job)"
    using False unfolding pollBackupJob_def persistThen_def handler_defs
    by (auto intro!: log_rules dest: isJobFinished_type split: prod.splits)
  then show ?thesis using assms(1) by (rule release_quiet)
qed

lemma mayRelease_creds:
  "CGetSecret BackupSecretName ns (Inl e) \<in> set cs \<Longrightarrow> isNotFound e \<Longrightarrow> mayRelease inst cs"
  unfolding mayRelease_def noCredentials_def by blast

lemma updates_writes: "updatesInstance c \<Longrightarrow> writesInstance c"
  by (cases c) auto

lemma parseCredentials_kind: "parseCredentials secret = Inl e \<Longrightarrow> \<not> isNotFound e"
  by (auto simp: parseCredentials_def requireKey_def Let_def split: sum.splits if_splits)

lemma backupWithJob_guarded:
  assumes "\<forall>c \<in> set (calls h). \<not> updatesInstance c" "backupJobName (cur h) = backupJobName inst"
  shows "wp (backupWithJob r) (\<lambda>_. releaseGuarded inst) h"
  unfolding backupWithJob_def getS3Credentials_def getSecret_def now_def getJob_def
  by (intro wp_rules wp_api_log wp_mirror_log release_keep [OF logs_terminate]
      release_quiet [OF logs_createBackupJob] pollBackupJob_guarded)
    (use assms in \<open>auto simp: releaseGuarded_def intro: mayRelease_creds
       dest: parseCredentials_kind updates_writes\<close>)

lemma drainThenBackup_guarded:
  assumes "\<forall>c \<in> set (calls h). \<not> updatesInstance c" "backupJobName (cur h) = backupJobName inst"
  shows "wp (drainThenBackup r) (\<lambda>_. releaseGuarded inst) h"
  unfolding drainThenBackup_def getSts_def updateSts_def listPods_def
  by (intro wp_rules wp_api_log backupWithJob_guarded) (use assms in \<open>auto simp: releaseGuarded_def\<close>)

lemma checkBackupTimeout_guarded:
  assumes "\<forall>c \<in> set (calls h). \<not> updatesInstance c" "oci_Meta (cur h) = oci_Meta inst"
    "oci_Spec (cur h) = oci_Spec inst"
    "\<And>t. st_BackingUpSince (oci_Status (cur h)) = Some t \<Longrightarrow>
       st_BackingUpSince (oci_Status inst) = Some t \<or> CNow t \<in> set (calls h)"
  shows "wp (checkBackupTimeout r) (\<lambda>_. releaseGuarded inst) h"
proof -
  have release: "wp (do {
        event EventWarning ''BackupTimedOut'' m1;
        setCondition r c;
        modInst (setPhase PhaseTerminating);
        modInst (updStatus (\<lambda>s. s\<lparr>st_BackingUpSince := None\<rparr>));
        persistThen r (removeFinalizer r) }) (\<lambda>_. releaseGuarded inst) h0"
    if "mayRelease inst (calls h0)" for h0 m1 c
    using that by (rule release_keep [rotated])
      (unfold persistThen_def handler_defs, (intro log_rules; simp))
  show ?thesis
    unfolding checkBackupTimeout_def now_def
    by (intro wp_bind [of getInst] wp_getInst wp_option wp_let wp_bind [of "api _ _"] wp_api_log wp_if release
        drainThenBackup_guarded)
      (use assms in \<open>auto simp: backupJobName_def mayRelease_def deadlinePassed_def\<close>)
qed

end
