(* ===== verification/Restore.thy ===== *)
theory Restore
  imports AutoUpdate
begin

text \<open>
  internal/controller/restore.go: restoring the data volume from an S3 backup before the
  StatefulSet is created. The result is (result, done, error); with done = true the caller goes on.
\<close>

definition stop :: "go_error \<Rightarrow> 's driver" where
  "stop e = ret (noResult, False, Some e)"

definition wait :: "duration \<Rightarrow> 's driver" where
  "wait d = ret (requeueIn d, False, None)"

definition persistOrStop :: "'s Reconciler \<Rightarrow> 's driver \<Rightarrow> 's driver" where
  "persistOrStop r cont = do {
     err \<leftarrow> statusUpdate r;
     (case err of Some e \<Rightarrow> stop e | None \<Rightarrow> cont) }"

definition createRestoreJob :: "'s Reconciler \<Rightarrow> string \<Rightarrow> s3Credentials \<Rightarrow> 's driver" where
  "createRestoreJob r jobName creds = do {
     inst \<leftarrow> getInst;
     let job = instanceJob inst jobName ''restore'' (spec_RestoreFrom (oci_Spec inst)) creds False;
     (case rc_SetControllerReference r inst (job_Meta job) of
        Inl e \<Rightarrow> stop e
      | Inr meta \<Rightarrow> do {
          modInst (updStatus (\<lambda>s. s\<lparr>st_RestoreJobName := jobName\<rparr>));
          persistOrStop r (do {
            cerr \<leftarrow> createJob r (job\<lparr>job_Meta := meta\<rparr>);
            (case cerr of
               Some e \<Rightarrow> if isAlreadyExists e then wait (10 * Second) else stop e
             | None \<Rightarrow> do {
                 i \<leftarrow> getInst;
                 event EventNormal ''RestoreStarted''
                   (''Restore Job '' @ jobName @ '' created, source: '' @ spec_RestoreFrom (oci_Spec i));
                 wait (10 * Second) }) }) }) }"

definition finishRestore :: "'s Reconciler \<Rightarrow> 's driver" where
  "finishRestore r = do {
     inst \<leftarrow> getInst;
     event EventNormal ''RestoreComplete'' (''Restore completed from '' @ spec_RestoreFrom (oci_Spec inst));
     modInst (\<lambda>i. updStatus (\<lambda>s. s\<lparr>st_RestoredFrom := spec_RestoreFrom (oci_Spec i), st_Phase := PhaseProvisioning\<rparr>) i);
     setCondition r (mkCondition ConditionTypeRestoreComplete ConditionTrue ''RestoreSucceeded''
       (''Restored from '' @ spec_RestoreFrom (oci_Spec inst)));
     persistOrStop r (do {
       original \<leftarrow> getInst;
       modInst (\<lambda>i. i\<lparr>oci_Spec := (oci_Spec i)\<lparr>spec_RestoreFrom := []\<rparr>\<rparr>);
       perr \<leftarrow> patchInst r original;
       (case perr of
          Some e \<Rightarrow> stop (wrapErr ''failed to clear spec.restoreFrom'' e)
        | None \<Rightarrow> ret (noResult, True, None)) }) }"

definition pollRestoreJob :: "'s Reconciler \<Rightarrow> string \<Rightarrow> Job \<Rightarrow> 's driver" where
  "pollRestoreJob r jobName existingJob =
     (case isJobFinished existingJob of (finished, condType) \<Rightarrow>
        if \<not> finished then wait (10 * Second)
        else if condType = JobFailed then do {
          event EventWarning ''RestoreFailed''
            (''Restore Job '' @ jobName @ '' failed. Delete the Job to retry.'');
          setCondition r (mkCondition ConditionTypeRestoreComplete ConditionFalse ''RestoreFailed''
            (''Restore Job '' @ jobName @ '' failed''));
          persistOrStop r (wait (30 * Second)) }
        else finishRestore r)"

definition restoreWithJob :: "'s Reconciler \<Rightarrow> 's driver" where
  "restoreWithJob r = do {
     credsRes \<leftarrow> getS3Credentials r;
     (case credsRes of
        Inl err \<Rightarrow> do {
          event EventWarning ''RestoreCredentialsFailed'' (emsg err);
          wait (30 * Second) }
      | Inr creds \<Rightarrow> do {
          mirrorErr \<leftarrow> reconcileS3MirrorSecret r creds;
          (case mirrorErr of
             Some e \<Rightarrow> stop e
           | None \<Rightarrow> do {
               inst \<leftarrow> getInst;
               let jobName = restoreJobName inst;
               jobRes \<leftarrow> getJob r jobName (onamespace inst);
               (case jobRes of
                  Inl err \<Rightarrow> if \<not> isNotFound err then stop err else createRestoreJob r jobName creds
                | Inr existingJob \<Rightarrow> pollRestoreJob r jobName existingJob) }) }) }"

definition reconcileRestore :: "'s Reconciler \<Rightarrow> 's driver" where
  "reconcileRestore r = do {
     inst \<leftarrow> getInst;
     (if spec_RestoreFrom (oci_Spec inst) = [] then ret (noResult, True, None)
      else if st_RestoredFrom (oci_Status inst) \<noteq> [] then ret (noResult, True, None)
      else if st_Phase (oci_Status inst) \<noteq> PhaseRestoring then do {
        modInst (setPhase PhaseRestoring);
        persistOrStop r (restoreWithJob r) }
      else restoreWithJob r) }"

lemmas restore_defs = stop_def wait_def persistOrStop_def

section \<open>The contract of the steps\<close>

definition restorePost :: "('s \<Rightarrow> OpenClawInstance) \<Rightarrow> string \<Rightarrow> string \<Rightarrow> Result \<times> bool \<times> go_error option \<Rightarrow> 's hctx \<Rightarrow> bool" where
  "restorePost stored jn src out h' \<longleftrightarrow> (case out of (res, done, err) \<Rightarrow>
     (done \<longrightarrow>
        (\<exists>ns job. CGetJob jn ns (Inr job) \<in> set (calls h') \<and> isJobFinished job = (True, JobComplete))
        \<and> st_RestoredFrom (oci_Status (stored (srv h'))) = src
        \<and> spec_RestoreFrom (oci_Spec (stored (srv h'))) = [] \<and> err = None) \<and>
     (\<not> done \<longrightarrow> err \<noteq> None \<or> 0 < res_RequeueAfter res))"

lemma restorePost_pending [simp]:
  "restorePost stored jn src (res, False, Some e) h'"
  "0 < d \<Longrightarrow> restorePost stored jn src (requeueIn d, False, None) h'"
  by (simp_all add: restorePost_def requeueIn_def)

lemma finishRestore_post:
  assumes laws: "api_laws r stored" and "cur h = stored (srv h)" "spec_RestoreFrom (oci_Spec (cur h)) \<noteq> []"
    and "CGetJob jn ns (Inr job) \<in> set (calls h)" "isJobFinished job = (True, JobComplete)"
  shows "wp (finishRestore r) (restorePost stored jn (spec_RestoreFrom (oci_Spec (cur h)))) h"
  unfolding finishRestore_def restore_defs setCondition_def
  by (intro wp_rules wp_statusUpdate_law [OF laws] wp_patchInst_law [OF laws])
    (use assms(2-5) in \<open>auto simp: patched_def restorePost_def\<close>)

lemma pollRestoreJob_post:
  assumes laws: "api_laws r stored" and "cur h = stored (srv h)" "spec_RestoreFrom (oci_Spec (cur h)) \<noteq> []"
    and "CGetJob jn ns (Inr job) \<in> set (calls h)"
  shows "wp (pollRestoreJob r jn job) (restorePost stored jn (spec_RestoreFrom (oci_Spec (cur h)))) h"
  unfolding pollRestoreJob_def restore_defs setCondition_def
  by (intro wp_rules wp_statusUpdate_law [OF laws] finishRestore_post laws)
    (use assms(2-4) in \<open>auto simp: Second_def dest: isJobFinished_type\<close>)

lemma createRestoreJob_post: "wp (createRestoreJob r jn creds) (restorePost stored jn src) h"
  unfolding createRestoreJob_def restore_defs createJob_def statusUpdate_def
  by (intro wp_rules wp_writeInst wp_api) (simp_all add: Second_def)

lemma restoreWithJob_post:
  assumes laws: "api_laws r stored" and "cur h = stored (srv h)" "spec_RestoreFrom (oci_Spec (cur h)) \<noteq> []"
  shows "wp (restoreWithJob r) (restorePost stored (restoreJobName (cur h)) (spec_RestoreFrom (oci_Spec (cur h)))) h"
proof -
  have poll0: "wp (do { jobRes \<leftarrow> getJob r jn ns;
      (case jobRes of
         Inl err \<Rightarrow> if \<not> isNotFound err then stop err else createRestoreJob r jn creds
       | Inr existingJob \<Rightarrow> pollRestoreJob r jn existingJob) })
     (restorePost stored jn (spec_RestoreFrom (oci_Spec (cur h)))) h1"
    if "cur h1 = cur h" "stored (srv h1) = stored (srv h)" for h1 jn ns creds
  proof -
    have p: "wp (pollRestoreJob r jn job) (restorePost stored jn (spec_RestoreFrom (oci_Spec (cur h)))) h2"
      if "cur h2 = cur h" "stored (srv h2) = stored (srv h)" "CGetJob jn ns (Inr job) \<in> set (calls h2)" for h2 job
      using pollRestoreJob_post [OF laws, of h2 jn ns job] that assms(2,3) by simp
    show ?thesis
      unfolding getJob_def stop_def
      by (intro wp_bind wp_api_silent [OF others_silentD(8) [OF laws]] wp_sum wp_if wp_return
          createRestoreJob_post p) (use that in auto)
  qed
  have poll: "wp (do { jobRes \<leftarrow> getJob r jn ns;
      (case jobRes of
         Inl err \<Rightarrow> if \<not> isNotFound err then stop err else createRestoreJob r jn creds
       | Inr existingJob \<Rightarrow> pollRestoreJob r jn existingJob) })
     (restorePost stored jn' (spec_RestoreFrom (oci_Spec (cur h)))) h1"
    if "cur h1 = cur h" "stored (srv h1) = stored (srv h)" "jn = jn'" for h1 jn jn' ns creds
    using poll0 [OF that(1,2)] that(3) by blast
  show ?thesis
    unfolding restoreWithJob_def wait_def
    by (intro wp_bind [of "getS3Credentials r"] frames_wp [OF frames_getS3Credentials [OF laws]] wp_sum
        wp_bind [of "event _ _ _"] wp_event wp_return wp_bind [of "reconcileS3MirrorSecret r _"]
        frames_wp [OF frames_reconcileS3MirrorSecret [OF laws]] wp_option wp_bind [of getInst] wp_getInst wp_let poll)
      (use assms in \<open>simp_all add: Second_def stop_def wp_return\<close>)
qed

section \<open>A sample run\<close>

lemma mem_noCredentials:
  assumes "map_of (mem_Secrets (srv h)) BackupSecretName = None"
    and "\<And>e h'. isNotFound e \<Longrightarrow> cur h' = cur h \<Longrightarrow> srv h' = srv h \<Longrightarrow> Q (Inl e) h'"
  shows "wp (getS3Credentials memRec) Q h"
  unfolding getS3Credentials_def
  by (intro wp_bind mem_rules) (use assms in \<open>simp add: wp_return isNotFound_def wrapErr_def\<close>)

lemma mem_credentials:
  assumes "map_of (mem_Secrets (srv h)) BackupSecretName = Some secret" "parseCredentials secret = Inr creds"
    and "\<And>h'. cur h' = cur h \<Longrightarrow> srv h' = srv h \<Longrightarrow> Q (Inr creds) h'"
  shows "wp (getS3Credentials memRec) Q h"
  unfolding getS3Credentials_def
  by (intro wp_bind mem_rules) (use assms in \<open>simp add: wp_return\<close>)

definition doneJob :: Job where
  "doneJob = (instanceJob zero_OpenClawInstance ''demo-restore'' ''restore'' ''backups/x''
     \<lparr>s3_Bucket = ''b'', s3_KeyID = [], s3_AppKey = [], s3_Endpoint = ''e'', s3_Region = [],
      s3_Provider = ''Other'', s3_EnvAuth = True\<rparr> False)\<lparr>job_Conditions := [(''Complete'', ''True'')]\<rparr>"

definition restoreCtx :: "Mem hctx" where
  "restoreCtx = freshCtx mem_Inst ((memStart
     ((sampleInst zero_AutoUpdateStatus ''1.0.0'' PhaseRestoring)
        \<lparr>oci_Spec := zero_OpenClawInstanceSpec\<lparr>spec_RestoreFrom := ''backups/x''\<rparr>\<rparr>))
     \<lparr>mem_Jobs := [(''demo-restore'', doneJob)],
      mem_Secrets := [(BackupSecretName, \<lparr>secret_Meta = zero_ObjectMeta,
        secret_Data = [(''S3_BUCKET'', ''b''), (''S3_ENDPOINT'', ''e'')]\<rparr>)]\<rparr>)"

lemma doneJob_sel: "isJobFinished doneJob = (True, JobComplete)"
  by (simp add: doneJob_def isJobFinished_def JobFailed_def JobComplete_def ConditionTrue_def)

lemma restoreCtx_sel:
  "cur restoreCtx = mem_Inst (srv restoreCtx)" "spec_RestoreFrom (oci_Spec (mem_Inst (srv restoreCtx))) = ''backups/x''"
  "st_RestoredFrom (oci_Status (mem_Inst (srv restoreCtx))) = []"
  "st_Phase (oci_Status (mem_Inst (srv restoreCtx))) = PhaseRestoring"
  "restoreJobName (mem_Inst (srv restoreCtx)) = ''demo-restore''"
  "map_of (mem_Jobs (srv restoreCtx)) ''demo-restore'' = Some doneJob"
  "map_of (mem_Secrets (srv restoreCtx)) BackupSecretName = Some \<lparr>secret_Meta = zero_ObjectMeta,
        secret_Data = [(''S3_BUCKET'', ''b''), (''S3_ENDPOINT'', ''e'')]\<rparr>"
  by (simp_all add: restoreCtx_def restoreJobName_def)

lemma mem_finish: "wp (finishRestore memRec) (\<lambda>(res, done, err) h'. done) h"
  unfolding finishRestore_def restore_defs setCondition_def
  by (intro wp_bind mem_rules wp_getInst) (simp, intro wp_bind mem_rules wp_getInst, simp add: wp_return)

lemma restore_run: "wp (reconcileRestore memRec) (\<lambda>(res, done, err) h'. done) restoreCtx"
proof -
  have creds: "parseCredentials \<lparr>secret_Meta = zero_ObjectMeta,
        secret_Data = [(''S3_BUCKET'', ''b''), (''S3_ENDPOINT'', ''e'')]\<rparr> =
      Inr \<lparr>s3_Bucket = ''b'', s3_KeyID = [], s3_AppKey = [], s3_Endpoint = ''e'', s3_Region = [],
        s3_Provider = ''Other'', s3_EnvAuth = True\<rparr>"
    by (simp add: parseCredentials_def requireKey_def secretKey_def)
  have mirror: "wp (reconcileS3MirrorSecret memRec c) Q h" if "s3_EnvAuth c" "Q None h" for c Q h
    using that by (simp add: reconcileS3MirrorSecret_def wp_return)
  have "JobComplete \<noteq> JobFailed" by (simp add: JobComplete_def JobFailed_def)
  then have poll: "wp (pollRestoreJob memRec jn doneJob) (\<lambda>(res, done, err) h'. done) h" for jn h
    by (simp add: pollRestoreJob_def doneJob_sel mem_finish)
  have "wp (restoreWithJob memRec) (\<lambda>(res, done, err) h'. done) restoreCtx"
    unfolding restoreWithJob_def getJob_def
    by (intro wp_bind [of "getS3Credentials memRec"] mem_credentials [OF restoreCtx_sel(7) creds])
      (simp, intro wp_bind [of "reconcileS3MirrorSecret memRec _"] mirror, simp, simp,
        intro wp_bind wp_getInst wp_let mem_rules, simp add: restoreCtx_sel poll)
  then show ?thesis
    unfolding reconcileRestore_def
    by (intro wp_bind [of getInst] wp_getInst) (simp add: restoreCtx_sel)
qed

section \<open>Properties\<close>

text \<open>
  C24: when a requested restore reports done on an instance that was not restored before, the log
  shows the restore Job complete, the stored status records the source and the stored spec no
  longer asks for a restore; in every other case done is false and either an error is returned or
  the caller is told to come back.
\<close>

theorem reconcileRestore_done:
  assumes laws: "api_laws r stored" and "cur h = stored (srv h)"
    and "spec_RestoreFrom (oci_Spec (cur h)) \<noteq> []" and "st_RestoredFrom (oci_Status (cur h)) = []"
  shows "wp (reconcileRestore r) (\<lambda>(res, done, err) h'.
     (done \<longrightarrow>
        (\<exists>ns job. CGetJob (restoreJobName (cur h)) ns (Inr job) \<in> set (calls h') \<and> isJobFinished job = (True, JobComplete))
        \<and> st_RestoredFrom (oci_Status (stored (srv h'))) = spec_RestoreFrom (oci_Spec (cur h))
        \<and> spec_RestoreFrom (oci_Spec (stored (srv h'))) = [] \<and> err = None) \<and>
     (\<not> done \<longrightarrow> err \<noteq> None \<or> 0 < res_RequeueAfter res)) h"
proof -
  have again: "wp (restoreWithJob r) (restorePost stored (restoreJobName (cur h)) (spec_RestoreFrom (oci_Spec (cur h)))) h1"
    if "cur h1 = stored (srv h1)" "oci_Spec (cur h1) = oci_Spec (cur h)" "oci_Meta (cur h1) = oci_Meta (cur h)" for h1
    using restoreWithJob_post [OF laws, of h1] that assms(3) by (simp add: restoreJobName_def)
  have "wp (reconcileRestore r) (restorePost stored (restoreJobName (cur h)) (spec_RestoreFrom (oci_Spec (cur h)))) h"
    unfolding reconcileRestore_def restore_defs
    by (intro wp_bind [of getInst] wp_getInst wp_if wp_bind [of "modInst _"] wp_modInst
        wp_bind [of "statusUpdate r"] wp_statusUpdate_law [OF laws] wp_option wp_return again)
      (use assms(2-4) in \<open>auto simp: setPhase_def updStatus_def\<close>)
  then show ?thesis by (rule wp_mono) (auto simp: restorePost_def)
qed

theorem reconcileRestore_done_witness:
  "st_RestoredFrom (oci_Status (mem_Inst (srv (snd (run_state (reconcileRestore memRec) restoreCtx))))) = ''backups/x'' \<and>
   spec_RestoreFrom (oci_Spec (mem_Inst (srv (snd (run_state (reconcileRestore memRec) restoreCtx))))) = []"
  using reconcileRestore_done [OF memRec_laws, of restoreCtx] restore_run
  by (auto simp: wp_def restoreCtx_sel split: prod.splits)

text \<open>
  A restored instance, or one that asks for no restore, is left alone: no call is made.
\<close>

theorem reconcileRestore_idempotent:
  assumes "spec_RestoreFrom (oci_Spec (cur h)) = [] \<or> st_RestoredFrom (oci_Status (cur h)) \<noteq> []"
  shows "run_state (reconcileRestore r) h = ((noResult, True, None), h)"
  using assms by (auto simp: reconcileRestore_def getInst_def)

theorem reconcileRestore_idempotent_witness:
  "run_state (reconcileRestore memRec) (freshCtx mem_Inst (memStart zero_OpenClawInstance)) =
     ((noResult, True, None), freshCtx mem_Inst (memStart zero_OpenClawInstance))"
  by (rule reconcileRestore_idempotent)
    (simp add: zero_OpenClawInstance_def zero_OpenClawInstanceSpec_def)

end
