(* ===== verification/BackupProps.thy ===== *)
theory BackupProps
  imports Backup Restore
begin

text \<open>
  The properties of deletion with a backup: when the finalizer may go, what happens to the owner
  references of the data volume, and what becomes of a backup that failed.
\<close>

section \<open>Auxiliary facts\<close>

definition orphans :: "OpenClawInstance \<Rightarrow> bool" where
  "orphans inst \<longleftrightarrow>
     defaultTrue (pers_Orphan (stor_Persistence (spec_Storage (oci_Spec inst)))) \<and> IsPersistenceEnabled inst \<and>
     pers_ExistingClaim (stor_Persistence (spec_Storage (oci_Spec inst))) = []"

fun createsJob :: "api_call \<Rightarrow> bool" where
  "createsJob (CCreateJob _ _) = True"
| "createsJob _ = False"

fun reportsFailed :: "api_call \<Rightarrow> bool" where
  "reportsFailed (CGetJob _ _ (Inr job)) = (isJobFinished job = (True, JobFailed))"
| "reportsFailed _ = False"

definition notRetried :: "'s hctx \<Rightarrow> bool" where
  "notRetried h \<longleftrightarrow> (\<exists>c \<in> set (calls h). reportsFailed c) \<longrightarrow>
     (\<forall>c \<in> set (calls h). \<not> createsJob c \<and> \<not> updatesInstance c)"

lemma notRetried_unseen:
  assumes "logs (\<lambda>c. \<not> reportsFailed c) m" "\<forall>c \<in> set (calls h). \<not> reportsFailed c"
  shows "wp m (\<lambda>_. notRetried) h"
  using logsD [OF assms(1), of h]
  by (rule wp_mono) (use assms(2) in \<open>auto simp: extends_def notRetried_def list_all_iff\<close>)

lemma notRetried_idle:
  assumes "logs (\<lambda>c. \<not> createsJob c \<and> \<not> updatesInstance c) m"
    "\<forall>c \<in> set (calls h). \<not> createsJob c \<and> \<not> updatesInstance c"
  shows "wp m (\<lambda>_. notRetried) h"
  using logsD [OF assms(1), of h]
  by (rule wp_mono) (use assms(2) in \<open>auto simp: extends_def notRetried_def list_all_iff\<close>)

lemma pollBackupJob_notRetried:
  assumes "\<forall>c \<in> set (calls h). \<not> createsJob c \<and> \<not> updatesInstance c"
    "\<forall>c \<in> set (calls h). reportsFailed c \<longrightarrow> isJobFinished job = (True, JobFailed)"
  shows "wp (pollBackupJob r jn job) (\<lambda>_. notRetried) h"
proof (cases "isJobFinished job = (True, JobFailed)")
  case True
  then have "logs (\<lambda>c. \<not> createsJob c \<and> \<not> updatesInstance c) (pollBackupJob r jn job)"
    unfolding pollBackupJob_def persistThen_def handler_defs by (simp, intro log_rules) simp_all
  then show ?thesis using assms(1) by (rule notRetried_idle)
next
  case False
  have "logs (\<lambda>c. \<not> reportsFailed c) (pollBackupJob r jn job)"
    unfolding pollBackupJob_def persistThen_def backup_defs by (intro log_rules) simp_all
  then show ?thesis using assms(2) False by (intro notRetried_unseen) auto
qed

lemma removeFinalizer_updates:
  "wp (removeFinalizer r) (\<lambda>_ h'. \<exists>c \<in> set (calls h'). updatesInstance c) h"
  unfolding removeFinalizer_def orphanPVC_def getPVC_def updatePVC_def updateInst_def
  by (intro wp_rules wp_api_log wp_writeInst) auto

definition deleteCtx :: "Mem hctx" where
  "deleteCtx = freshCtx mem_Inst (memStart (sampleInst zero_AutoUpdateStatus ''1.0.0'' PhaseTerminating))"

lemma deleteCtx_sel:
  "cur deleteCtx = mem_Inst (srv deleteCtx)" "calls deleteCtx = []" "mem_Sts (srv deleteCtx) = None"
  "mem_Secrets (srv deleteCtx) = []" "om_Annotations (oci_Meta (mem_Inst (srv deleteCtx))) = []"
  "IsPersistenceEnabled (mem_Inst (srv deleteCtx))" "orphans (mem_Inst (srv deleteCtx))"
  "st_Phase (oci_Status (mem_Inst (srv deleteCtx))) = PhaseTerminating"
  "st_BackingUpSince (oci_Status (mem_Inst (srv deleteCtx))) = None"
  by (simp_all add: deleteCtx_def orphans_def IsPersistenceEnabled_def zero_StorageSpec_def
      zero_PersistenceSpec_def)

lemma mem_terminate:
  "wp (terminate memRec) (\<lambda>_ h'. \<exists>c \<in> set (calls h'). updatesInstance c) h"
  unfolding terminate_def persistThen_def
  by (intro wp_bind wp_modInst mem_rules) (simp add: removeFinalizer_updates)

lemma mem_backupWithJob:
  assumes "mem_Secrets (srv h) = []"
  shows "wp (backupWithJob memRec) (\<lambda>_ h'. \<exists>c \<in> set (calls h'). updatesInstance c) h"
  unfolding backupWithJob_def
  by (intro wp_bind mem_noCredentials) (use assms in \<open>auto intro!: wp_bind wp_event mem_terminate\<close>)

lemma delete_run:
  "wp (reconcileDeleteWithBackup memRec) (\<lambda>_ h'. \<exists>c \<in> set (calls h'). updatesInstance c) deleteCtx"
proof -
  have drain: "wp (drainThenBackup memRec) (\<lambda>_ h'. \<exists>c \<in> set (calls h'). updatesInstance c) deleteCtx"
    unfolding drainThenBackup_def
    by (intro wp_bind wp_getInst mem_rules) (simp add: deleteCtx_sel isNotFound_def mem_backupWithJob)
  show ?thesis
    unfolding reconcileDeleteWithBackup_def checkBackupTimeout_def
    by (intro wp_bind [of getInst] wp_getInst)
      (simp add: deleteCtx_sel phase_defs, intro wp_bind [of getInst] wp_getInst,
        simp add: deleteCtx_sel drain)
qed

definition orphanCtx :: "Mem hctx" where
  "orphanCtx = freshCtx mem_Inst ((srv deleteCtx)\<lparr>mem_PVC := Some
     \<lparr>pvc_Meta = zero_ObjectMeta\<lparr>om_OwnerReferences := [\<lparr>or_UID = [], or_Controller = True\<rparr>]\<rparr>, pvc_Other = JNull\<rparr>\<rparr>)"

lemma orphan_run: "wp (orphanPVC memRec) (\<lambda>_ h'. \<exists>p e. CUpdatePVC p e \<in> set (calls h')) orphanCtx"
  by (simp add: wp_def orphanPVC_def getPVC_def updatePVC_def api_def getInst_def memRec_sel memGet_def
      memPut_def orphanCtx_def deleteCtx_def foreignRefs_def)

definition failedJob :: Job where
  "failedJob = (instanceJob (cur deleteCtx) ''demo-backup'' ''backup'' ''p''
     \<lparr>s3_Bucket = ''b'', s3_KeyID = [], s3_AppKey = [], s3_Endpoint = ''e'', s3_Region = [],
      s3_Provider = ''Other'', s3_EnvAuth = True\<rparr> True)\<lparr>job_Conditions := [(''Failed'', ''True'')]\<rparr>"

definition failedCtx :: "Mem hctx" where
  "failedCtx = freshCtx mem_Inst ((srv deleteCtx)
     \<lparr>mem_Jobs := [(''demo-backup'', failedJob)],
      mem_Secrets := [(BackupSecretName, \<lparr>secret_Meta = zero_ObjectMeta,
        secret_Data = [(''S3_BUCKET'', ''b''), (''S3_ENDPOINT'', ''e'')]\<rparr>)]\<rparr>)"

lemma failedJob_sel: "isJobFinished failedJob = (True, JobFailed)"
  by (simp add: failedJob_def isJobFinished_def JobFailed_def JobComplete_def ConditionTrue_def)

lemma failed_run:
  "wp (backupWithJob memRec) (\<lambda>_ h'. \<exists>c \<in> set (calls h'). reportsFailed c) failedCtx"
proof -
  have creds: "parseCredentials \<lparr>secret_Meta = zero_ObjectMeta,
        secret_Data = [(''S3_BUCKET'', ''b''), (''S3_ENDPOINT'', ''e'')]\<rparr> =
      Inr \<lparr>s3_Bucket = ''b'', s3_KeyID = [], s3_AppKey = [], s3_Endpoint = ''e'', s3_Region = [],
        s3_Provider = ''Other'', s3_EnvAuth = True\<rparr>"
    by (simp add: parseCredentials_def requireKey_def secretKey_def)
  have ctx: "map_of (mem_Secrets (srv failedCtx)) BackupSecretName = Some \<lparr>secret_Meta = zero_ObjectMeta,
        secret_Data = [(''S3_BUCKET'', ''b''), (''S3_ENDPOINT'', ''e'')]\<rparr>"
    "map_of (mem_Jobs (srv failedCtx)) (backupJobName (cur failedCtx)) = Some failedJob"
    by (simp_all add: failedCtx_def deleteCtx_def backupJobName_def)
  have poll: "logs (\<lambda>_. True) (pollBackupJob memRec jn job)" for jn job
    unfolding pollBackupJob_def persistThen_def handler_defs by (intro log_rules) simp_all
  have get: "wp (do { jobRes \<leftarrow> getJob memRec jn ns;
      (case jobRes of Inl err \<Rightarrow> f err | Inr job \<Rightarrow> pollBackupJob memRec jn job) })
      (\<lambda>_ h'. \<exists>c \<in> set (calls h'). reportsFailed c) h"
    if "map_of (mem_Jobs (srv h)) jn = Some failedJob" for h jn ns f
    unfolding getJob_def
    by (rule wp_bind, rule wp_api) (use that in \<open>auto simp: memRec_sel memGet_def failedJob_sel
        intro!: wp_logged [OF poll]\<close>)
  have mirror: "wp (reconcileS3MirrorSecret memRec c) Q h" if "s3_EnvAuth c" "Q None h" for c Q h
    using that by (simp add: reconcileS3MirrorSecret_def wp_return)
  show ?thesis
    unfolding backupWithJob_def
    by (intro wp_bind [of "getS3Credentials memRec"] mem_credentials [OF ctx(1) creds])
      (simp, intro wp_bind [of "reconcileS3MirrorSecret memRec _"] mirror, simp, simp,
        intro wp_bind [of getInst] wp_getInst wp_bind [of "now memRec"] wp_mem_now wp_let get, simp add: ctx)
qed

section \<open>Properties\<close>

text \<open>
  C22: during deletion the instance is updated (its finalizer removed) only if the annotation that skips
  the backup is set to "true", or persistence is disabled, or the log shows that the backup deadline
  passed, that the credentials Secret does not exist, or that the backup Job completed.
\<close>

theorem finalizer_release_guarded:
  assumes laws: "api_laws r stored" and "cur h = stored (srv h)" "calls h = []"
  shows "wp (reconcileDeleteWithBackup r) (\<lambda>_ h'.
     (\<exists>c \<in> set (calls h'). updatesInstance c) \<longrightarrow>
       map_of (om_Annotations (oci_Meta (cur h))) AnnotationSkipBackup = Some ''true''
       \<or> \<not> IsPersistenceEnabled (cur h)
       \<or> mayRelease (cur h) (calls h')) h"
proof (cases "map_of (om_Annotations (oci_Meta (cur h))) AnnotationSkipBackup = Some ''true''
    \<or> \<not> IsPersistenceEnabled (cur h)")
  case False
  have "wp (reconcileDeleteWithBackup r) (\<lambda>_. releaseGuarded (cur h)) h"
    unfolding reconcileDeleteWithBackup_def persistThen_def now_def
    by (intro wp_bind [of getInst] wp_getInst wp_if wp_bind [of "api _ _"] wp_api_silent [OF others_silentD(1) [OF laws]]
        wp_bind [of "modInst _"] wp_modInst wp_bind [of "statusUpdate _"] wp_statusUpdate_law [OF laws]
        wp_option wp_return checkBackupTimeout_guarded)
      (use assms(2,3) False in \<open>auto simp: releaseGuarded_def\<close>)
  then show ?thesis by (rule wp_mono) (auto simp: releaseGuarded_def)
qed (auto simp: wpI)

theorem finalizer_release_guarded_witness:
  "mayRelease (cur deleteCtx) (calls (snd (run_state (reconcileDeleteWithBackup memRec) deleteCtx)))"
  using finalizer_release_guarded [OF memRec_laws, of deleteCtx] delete_run
  by (auto simp: wp_def deleteCtx_sel split: prod.splits)

text \<open>
  When the volume claim is written back, exactly the owner references to this instance are gone, every
  other one is kept, nothing else of the claim changes, and there was such a reference to remove.
\<close>

theorem orphanPVC_exact:
  assumes "calls h = []"
  shows "wp (orphanPVC r) (\<lambda>_ h'. \<forall>p e. CUpdatePVC p e \<in> set (calls h') \<longrightarrow>
     (\<exists>pvc. CGetPVC (PVCName (cur h)) (onamespace (cur h)) (Inr pvc) \<in> set (calls h')
        \<and> p = pvc\<lparr>pvc_Meta := pvc_Meta p\<rparr>
        \<and> (\<forall>ref. ref \<in> set (om_OwnerReferences (pvc_Meta p)) \<longleftrightarrow>
              ref \<in> set (om_OwnerReferences (pvc_Meta pvc)) \<and> or_UID ref \<noteq> om_UID (oci_Meta (cur h)))
        \<and> (\<exists>ref \<in> set (om_OwnerReferences (pvc_Meta pvc)). or_UID ref = om_UID (oci_Meta (cur h))))) h"
proof -
  have own: "\<exists>ref \<in> set refs. or_UID ref = om_UID (oci_Meta inst)"
    if "length (filter (\<lambda>ref. or_UID ref \<noteq> om_UID (oci_Meta inst)) refs) \<noteq> length refs" for inst refs
    using that by (metis (mono_tags, lifting) filter_True)
  show ?thesis
    unfolding orphanPVC_def getPVC_def updatePVC_def
    by (intro wp_rules wp_api_log) (use assms in \<open>auto simp: foreignRefs_def dest!: own\<close>)
qed

theorem orphanPVC_exact_witness:
  "\<exists>p e. CUpdatePVC p e \<in> set (calls (snd (run_state (orphanPVC memRec) orphanCtx))) \<and>
     om_UID (oci_Meta (cur orphanCtx)) \<notin> or_UID ` set (om_OwnerReferences (pvc_Meta p))"
proof -
  have "calls orphanCtx = []" by (simp add: orphanCtx_def)
  with orphanPVC_exact [of orphanCtx memRec] orphan_run show ?thesis
    by (fastforce simp: wp_def split: prod.splits)
qed

text \<open>The calls on the volume claim, given the replies to the read and to the write.\<close>

definition orphanCalls :: "OpenClawInstance \<Rightarrow> go_error + PVC \<Rightarrow> go_error option \<Rightarrow> api_call list" where
  "orphanCalls inst reply e =
     CGetPVC (PVCName inst) (onamespace inst) reply
     # (case reply of
          Inl _ \<Rightarrow> []
        | Inr pvc \<Rightarrow>
            if \<exists>ref \<in> set (om_OwnerReferences (pvc_Meta pvc)). or_UID ref = om_UID (oci_Meta inst)
            then [CUpdatePVC (pvc\<lparr>pvc_Meta := (pvc_Meta pvc)\<lparr>om_OwnerReferences :=
                    filter (\<lambda>ref. or_UID ref \<noteq> om_UID (oci_Meta inst)) (om_OwnerReferences (pvc_Meta pvc))\<rparr>\<rparr>) e]
            else [])"

lemma length_filter_all: "length (filter P xs) = length xs \<longleftrightarrow> (\<forall>x \<in> set xs. P x)"
  by (metis filter_True length_filter_less less_irrefl)

lemma orphanPVC_calls: "wp (orphanPVC r) (\<lambda>_ h'. cur h' = cur h \<and> (\<exists>reply e. calls h' = calls h @ orphanCalls (cur h) reply e)) h"
  unfolding orphanPVC_def getPVC_def updatePVC_def foreignRefs_def Let_def length_filter_all
  by (intro wp_rules wp_api_log) (auto simp: orphanCalls_def split: sum.split)

text \<open>
  C23: the exact calls of removing the finalizer. With an operator-managed volume to be orphaned, the
  volume claim is read; if it carries an owner reference to this instance it is written back without
  those references and with everything else as it was read; then, and otherwise as the only call, one
  update of the instance takes the finalizer off. A claim that cannot be read or written back does not
  hold the instance (the code logs the error and goes on), so the order is guaranteed, the success is not.
\<close>

theorem removeFinalizer_orphans_first:
  "wp (removeFinalizer r) (\<lambda>(res, err) h'. \<exists>reply e.
     calls h' = calls h @ (if orphans (cur h) then orphanCalls (cur h) reply e else [])
       @ [CUpdate ((cur h)\<lparr>oci_Meta := (oci_Meta (cur h))\<lparr>om_Finalizers :=
            rc_RemoveFinalizer r FinalizerName (om_Finalizers (oci_Meta (cur h)))\<rparr>\<rparr>) err]) h"
  unfolding removeFinalizer_def updateInst_def
  by (intro wp_rules wp_mono [OF orphanPVC_calls] wp_writeInst) (auto simp: orphans_def)

fun updatesPVC :: "api_call \<Rightarrow> bool" where
  "updatesPVC (CUpdatePVC p e) = True"
| "updatesPVC c = False"

lemma orphaned_run: "wp (removeFinalizer memRec) (\<lambda>_ h'. \<exists>c \<in> set (calls h'). updatesPVC c) orphanCtx"
proof -
  have orphaned: "orphans (cur orphanCtx)" by (simp add: orphanCtx_def deleteCtx_sel)
  have rest: "logs (\<lambda>_. True) (do { modInst f; err \<leftarrow> updateInst memRec;
      (case err of Some e \<Rightarrow> ret (noResult, Some e) | None \<Rightarrow> ret (noResult, None)) })" for f
    by (intro log_rules) simp
  have "wp (orphanPVC memRec) (\<lambda>_. wp (do { modInst f; err \<leftarrow> updateInst memRec;
      (case err of Some e \<Rightarrow> ret (noResult, Some e) | None \<Rightarrow> ret (noResult, None)) })
      (\<lambda>_ h'. \<exists>c \<in> set (calls h'). updatesPVC c)) orphanCtx" for f
    by (rule wp_mono [OF orphan_run]) (elim exE, rule wp_logged [OF rest], auto)
  then show ?thesis
    unfolding removeFinalizer_def
    by (intro wp_bind [of getInst] wp_getInst wp_let) (use orphaned in \<open>simp add: orphans_def wp_bind\<close>)
qed

text \<open>On a claim that the instance owns, the owner reference is gone from the claim just before the finalizer.\<close>

theorem removeFinalizer_orphans_first_witness:
  "\<exists>before p e i x. calls (snd (run_state (removeFinalizer memRec) orphanCtx)) = before @ [CUpdatePVC p e, CUpdate i x]
     \<and> om_UID (oci_Meta (cur orphanCtx)) \<notin> or_UID ` set (om_OwnerReferences (pvc_Meta p))"
proof -
  have ctx: "calls orphanCtx = []" "orphans (cur orphanCtx)"
    by (simp_all add: orphanCtx_def deleteCtx_sel)
  obtain out h' where run: "run_state (removeFinalizer memRec) orphanCtx = (out, h')" by fastforce
  then obtain reply e i x where log: "calls h' = orphanCalls (cur orphanCtx) reply e @ [CUpdate i x]"
    using removeFinalizer_orphans_first [of memRec orphanCtx] ctx by (auto simp: wp_def)
  moreover obtain c where "c \<in> set (calls h')" "updatesPVC c" using orphaned_run run by (auto simp: wp_def)
  ultimately obtain pvc p where "orphanCalls (cur orphanCtx) reply e
      = [CGetPVC (PVCName (cur orphanCtx)) (onamespace (cur orphanCtx)) (Inr pvc), CUpdatePVC p e]"
    "om_UID (oci_Meta (cur orphanCtx)) \<notin> or_UID ` set (om_OwnerReferences (pvc_Meta p))"
    by (fastforce simp: orphanCalls_def split: sum.splits if_splits)
  with log run show ?thesis by auto
qed

text \<open>
  Once a run of the backup step has seen the backup Job failed, it neither creates a Job nor lets the
  instance go: the failed Job is only polled again.
\<close>

theorem failed_backup_never_recreated:
  assumes "calls h = []"
  shows "wp (backupWithJob r) (\<lambda>_ h'. (\<exists>c \<in> set (calls h'). reportsFailed c) \<longrightarrow>
     (\<forall>c \<in> set (calls h'). \<not> createsJob c \<and> \<not> updatesInstance c)) h"
proof -
  have "logs (\<lambda>c. \<not> reportsFailed c) (terminate r)"
    "logs (\<lambda>c. \<not> reportsFailed c) (createBackupJob r jn creds p)" for jn creds p
    unfolding terminate_def createBackupJob_def persistThen_def backup_defs Let_def by (intro log_rules; simp)+
  then have "wp (backupWithJob r) (\<lambda>_. notRetried) h"
    unfolding backupWithJob_def getS3Credentials_def getSecret_def now_def getJob_def
      reconcileS3MirrorSecret_def createOrUpdateSecret_def
    by (intro wp_rules wp_api_log notRetried_unseen [where m = "terminate _"]
        notRetried_unseen [where m = "createBackupJob _ _ _ _"] pollBackupJob_notRetried)
      (use assms in \<open>auto simp: notRetried_def\<close>)
  then show ?thesis by (rule wp_mono) (simp add: notRetried_def)
qed

theorem failed_backup_never_recreated_witness:
  "\<not> (\<exists>c \<in> set (calls (snd (run_state (backupWithJob memRec) failedCtx))). createsJob c)"
proof -
  have "calls failedCtx = []" by (simp add: failedCtx_def)
  with failed_backup_never_recreated [of failedCtx memRec] failed_run show ?thesis
    by (auto simp: wp_def split: prod.splits)
qed

text \<open>
  C27: whatever the user writes, the backup timeout lies between five minutes and a day, the health
  check timeout between two and thirty minutes and the check interval between an hour and a week.
\<close>

theorem timeouts_bounded:
  "5 * Minute \<le> parseBackupTimeout s \<and> parseBackupTimeout s \<le> 24 * Hour \<and>
   2 * Minute \<le> parseHealthCheckTimeout s \<and> parseHealthCheckTimeout s \<le> 30 * Minute \<and>
   Hour \<le> parseCheckInterval s \<and> parseCheckInterval s \<le> 168 * Hour"
  using backup_timeout.parse_range health_timeout.parse_range check_interval.parse_range by blast

end
