(* ===== verification/SelfConfig.thy ===== *)
theory SelfConfig
  imports Common GoTime
begin

text \<open>
  The self-configuration requests: internal/controller/selfconfig_apply.go (what a request changes),
  selfconfig_managed_fields.go (who owns what on the instance) and the pure part of
  openclawselfconfig_controller.go. The controller itself is in theory SelfConfigController.
\<close>

section \<open>Actions\<close>

definition SelfConfigActionSkills :: string where "SelfConfigActionSkills = ''skills''"
definition SelfConfigActionConfig :: string where "SelfConfigActionConfig = ''config''"
definition SelfConfigActionWorkspaceFiles :: string where
  "SelfConfigActionWorkspaceFiles = ''workspaceFiles''"
definition SelfConfigActionEnvVars :: string where "SelfConfigActionEnvVars = ''envVars''"

lemmas action_defs = SelfConfigActionSkills_def SelfConfigActionConfig_def
  SelfConfigActionWorkspaceFiles_def SelfConfigActionEnvVars_def

definition SelfConfigPhasePending :: string where "SelfConfigPhasePending = ''Pending''"
definition SelfConfigPhaseApplied :: string where "SelfConfigPhaseApplied = ''Applied''"
definition SelfConfigPhaseFailed :: string where "SelfConfigPhaseFailed = ''Failed''"
definition SelfConfigPhaseDenied :: string where "SelfConfigPhaseDenied = ''Denied''"

definition SelfConfigFieldManager :: string where "SelfConfigFieldManager = ''openclaw-selfconfig''"

definition protectedConfigKeys :: "string list" where
  "protectedConfigKeys = [''gateway'']"

definition protectedEnvVars :: "string list" where
  "protectedEnvVars =
     [''HOME'', ''OPENCLAW_DISABLE_BONJOUR'', ''OPENCLAW_GATEWAY_TOKEN'', ''OPENCLAW_INSTANCE_NAME'',
      ''OPENCLAW_NAMESPACE'', ''PATH'', ''CHROMIUM_URL'', ''OLLAMA_HOST'', ''TS_AUTHKEY'', ''TS_HOSTNAME'',
      ''TS_SOCKET'', ''NODE_EXTRA_CA_CERTS'', ''NPM_CONFIG_CACHE'', ''NPM_CONFIG_IGNORE_SCRIPTS'']"

definition determineActions :: "OpenClawSelfConfigSpec \<Rightarrow> string list" where
  "determineActions sc =
     (if scs_AddSkills sc \<noteq> [] \<or> scs_RemoveSkills sc \<noteq> [] then [SelfConfigActionSkills] else [])
     @ (if scs_ConfigPatch sc \<noteq> None then [SelfConfigActionConfig] else [])
     @ (if scs_AddWorkspaceFiles sc \<noteq> [] \<or> scs_RemoveWorkspaceFiles sc \<noteq> []
        then [SelfConfigActionWorkspaceFiles] else [])
     @ (if scs_AddEnvVars sc \<noteq> [] \<or> scs_RemoveEnvVars sc \<noteq> [] then [SelfConfigActionEnvVars] else [])"

definition checkAllowedActions :: "string list \<Rightarrow> string list \<Rightarrow> string list" where
  "checkAllowedActions requested allowed = filter (\<lambda>a. a \<notin> set allowed) requested"

section \<open>What a request applies\<close>

text \<open>The loops keep the slice built so far and the set of names in it, as the code does.\<close>

definition skillStep :: "string set \<Rightarrow> string \<Rightarrow> string set \<times> string list \<Rightarrow> string set \<times> string list" where
  "skillStep removeSet s st = (case st of (seen, result) \<Rightarrow>
     if s \<in> removeSet then (seen, result)
     else if s \<notin> seen then (insert s seen, result @ [s]) else (seen, result))"

definition buildSkillsApply :: "string list \<Rightarrow> OpenClawSelfConfigSpec \<Rightarrow> string list" where
  "buildSkillsApply current sc =
     (let removeSet = set (scs_RemoveSkills sc);
          st = fold (skillStep removeSet) current ({}, []);
          st' = fold (\<lambda>s st. case st of (seen, result) \<Rightarrow>
                        if s \<notin> seen \<and> s \<notin> removeSet then (insert s seen, result @ [s]) else (seen, result))
                  (scs_AddSkills sc) st
      in snd st')"

text \<open>
  \<open>Inr None\<close> is \<^verbatim>\<open>(nil, nil)\<close>: nothing to apply. The text of an \<^verbatim>\<open>encoding/json\<close>
  error is the argument \<open>jerr\<close>.
\<close>

definition buildConfigApply ::
    "(bytes \<Rightarrow> string) \<Rightarrow> bytes option \<Rightarrow> OpenClawSelfConfigSpec \<Rightarrow> go_error + bytes option" where
  "buildConfigApply jerr current sc =
     (case scs_ConfigPatch sc of
        None \<Rightarrow> Inr None
      | Some raw \<Rightarrow>
          if bytesEmpty raw then Inr None
          else case unmarshalMap raw of
            None \<Rightarrow> Inl (wrapErr ''invalid config patch JSON'' (errorf (jerr raw)))
          | Some patch \<Rightarrow>
              (case List.find (\<lambda>k. k \<in> set protectedConfigKeys) (map fst (derefOr [] patch)) of
                 Some key \<Rightarrow>
                   Inl (errorf (''config key '' @ quoteStr key @ '' is protected and cannot be modified via self-config''))
               | None \<Rightarrow>
                   (let parsed =
                      (case current of
                         None \<Rightarrow> Some (Some [])
                       | Some cur \<Rightarrow> if bytesEmpty cur then Some (Some []) else unmarshalMap cur)
                    in case parsed of
                         None \<Rightarrow> Inl (wrapErr ''failed to parse existing config''
                                   (errorf (jerr (derefOr (Text []) current))))
                       | Some base \<Rightarrow>
                           Inr (Some (Doc (JObj (deepMerge (derefOr [] base) (derefOr [] patch))))))))"

definition buildWorkspaceFilesApply :: "gomap \<Rightarrow> OpenClawSelfConfigSpec \<Rightarrow> gomap" where
  "buildWorkspaceFilesApply current sc =
     overlay (filter (\<lambda>(name, content). name \<notin> set (scs_RemoveWorkspaceFiles sc)) current)
       (scs_AddWorkspaceFiles sc)"

definition envStep ::
    "string set \<Rightarrow> (string \<times> string) list \<Rightarrow> EnvVar \<Rightarrow> string set \<times> EnvVar list \<Rightarrow> string set \<times> EnvVar list" where
  "envStep removeSet addByName ev st = (case st of (seen, result) \<Rightarrow>
     if ev_Name ev \<in> removeSet then (seen, result)
     else case map_of addByName (ev_Name ev) of
       Some val \<Rightarrow> (insert (ev_Name ev) seen, result @ [envVal (ev_Name ev) val])
     | None \<Rightarrow> (insert (ev_Name ev) seen, result @ [ev]))"

definition addEnvStep :: "SelfConfigEnvVar \<Rightarrow> string set \<times> EnvVar list \<Rightarrow> string set \<times> EnvVar list" where
  "addEnvStep ev st = (case st of (seen, result) \<Rightarrow>
     if sce_Name ev \<notin> seen then (insert (sce_Name ev) seen, result @ [envVal (sce_Name ev) (sce_Value ev)])
     else (seen, result))"

text \<open>\<^verbatim>\<open>addByName\<close> is filled in list order: the last value of a name wins.\<close>

definition addByName :: "SelfConfigEnvVar list \<Rightarrow> (string \<times> string) list" where
  "addByName evs = map (\<lambda>ev. (sce_Name ev, sce_Value ev)) (rev evs)"

definition buildEnvApply :: "EnvVar list \<Rightarrow> OpenClawSelfConfigSpec \<Rightarrow> go_error + EnvVar list" where
  "buildEnvApply current sc =
     (case List.find (\<lambda>ev. sce_Name ev \<in> set protectedEnvVars) (scs_AddEnvVars sc) of
        Some ev \<Rightarrow> Inl (errorf (''environment variable '' @ quoteStr (sce_Name ev)
                      @ '' is protected and cannot be modified via self-config''))
      | None \<Rightarrow>
     (case List.find (\<lambda>name. name \<in> set protectedEnvVars) (scs_RemoveEnvVars sc) of
        Some name \<Rightarrow> Inl (errorf (''environment variable '' @ quoteStr name
                        @ '' is protected and cannot be removed via self-config''))
      | None \<Rightarrow>
          Inr (snd (fold addEnvStep (scs_AddEnvVars sc)
            (fold (envStep (set (scs_RemoveEnvVars sc)) (addByName (scs_AddEnvVars sc))) current ({}, []))))))"

definition applyAction ::
    "(bytes \<Rightarrow> string) \<Rightarrow> OpenClawInstance \<Rightarrow> OpenClawSelfConfigSpec \<Rightarrow> string \<Rightarrow> OpenClawInstanceSpec \<Rightarrow>
     go_error + OpenClawInstanceSpec" where
  "applyAction jerr inst sc action spec =
     (if action = SelfConfigActionSkills
      then Inr (spec\<lparr>spec_Skills := buildSkillsApply (spec_Skills (oci_Spec inst)) sc\<rparr>)
      else if action = SelfConfigActionConfig
      then (case buildConfigApply jerr (cfg_Raw (spec_Config (oci_Spec inst))) sc of
              Inl e \<Rightarrow> Inl e
            | Inr None \<Rightarrow> Inr spec
            | Inr (Some raw) \<Rightarrow> Inr (spec\<lparr>spec_Config := (spec_Config spec)\<lparr>cfg_Raw := Some raw\<rparr>\<rparr>))
      else if action = SelfConfigActionWorkspaceFiles
      then Inr (spec\<lparr>spec_Workspace := Some (zero_WorkspaceSpec\<lparr>ws_InitialFiles :=
             buildWorkspaceFilesApply
               (case spec_Workspace (oci_Spec inst) of None \<Rightarrow> [] | Some ws \<Rightarrow> ws_InitialFiles ws) sc\<rparr>)\<rparr>)
      else if action = SelfConfigActionEnvVars
      then (case buildEnvApply (spec_Env (oci_Spec inst)) sc of
              Inl e \<Rightarrow> Inl e
            | Inr env \<Rightarrow> Inr (spec\<lparr>spec_Env := env\<rparr>))
      else Inr spec)"

fun applyActions ::
    "(bytes \<Rightarrow> string) \<Rightarrow> OpenClawInstance \<Rightarrow> OpenClawSelfConfigSpec \<Rightarrow> string list \<Rightarrow> OpenClawInstanceSpec \<Rightarrow>
     go_error + OpenClawInstanceSpec" where
  "applyActions jerr inst sc [] spec = Inr spec"
| "applyActions jerr inst sc (action # rest) spec =
     (case applyAction jerr inst sc action spec of
        Inl e \<Rightarrow> Inl e
      | Inr spec1 \<Rightarrow> applyActions jerr inst sc rest spec1)"

definition buildApplySpec ::
    "(bytes \<Rightarrow> string) \<Rightarrow> OpenClawInstance \<Rightarrow> OpenClawSelfConfigSpec \<Rightarrow> string list \<Rightarrow> go_error + OpenClawInstanceSpec" where
  "buildApplySpec jerr inst sc actions = applyActions jerr inst sc actions zero_OpenClawInstanceSpec"

section \<open>Managed fields\<close>

definition OperationApply :: string where "OperationApply = ''Apply''"

text \<open>\<^const>\<open>None\<close> is the nil map.\<close>

fun findSelfConfigFields :: "ManagedFieldsEntry list \<Rightarrow> obj option" where
  "findSelfConfigFields [] = None"
| "findSelfConfigFields (entry # rest) =
     (if mfe_Manager entry = SelfConfigFieldManager \<and> mfe_Operation entry = OperationApply
      then (case mfe_FieldsV1 entry of
              None \<Rightarrow> None
            | Some raw \<Rightarrow> (case unmarshalMap raw of None \<Rightarrow> None | Some fieldSet \<Rightarrow> fieldSet))
      else findSelfConfigFields rest)"

fun navigateFields :: "obj option \<Rightarrow> string list \<Rightarrow> obj option" where
  "navigateFields current [] = current"
| "navigateFields current (segment # path) =
     (case current of
        None \<Rightarrow> None
      | Some m \<Rightarrow> (case asMap (map_of m segment) of None \<Rightarrow> None | Some nextMap \<Rightarrow> navigateFields (Some nextMap) path))"

fun findFieldManagerByKey :: "ManagedFieldsEntry list \<Rightarrow> string \<Rightarrow> string list \<Rightarrow> string" where
  "findFieldManagerByKey [] key path = []"
| "findFieldManagerByKey (entry # rest) key path =
     (if mfe_Operation entry \<noteq> OperationApply then findFieldManagerByKey rest key path
      else case mfe_FieldsV1 entry of
        None \<Rightarrow> findFieldManagerByKey rest key path
      | Some raw \<Rightarrow>
          (case unmarshalMap raw of
             None \<Rightarrow> findFieldManagerByKey rest key path
           | Some fieldSet \<Rightarrow>
               (case navigateFields fieldSet path of
                  None \<Rightarrow> findFieldManagerByKey rest key path
                | Some container \<Rightarrow>
                    if map_of container key \<noteq> None then mfe_Manager entry
                    else findFieldManagerByKey rest key path)))"

definition skillsPath :: "string list" where "skillsPath = [''f:spec'', ''f:skills'']"
definition envPath :: "string list" where "envPath = [''f:spec'', ''f:env'']"
definition filesPath :: "string list" where "filesPath = [''f:spec'', ''f:workspace'', ''f:initialFiles'']"

subsection \<open>A map key of the form \<open>k:{"name":"X"}\<close>\<close>

text \<open>
  \<^verbatim>\<open>json.Unmarshal\<close> of text into a \<^verbatim>\<open>map[string]string\<close>: an object whose values are strings or
  null. A value of another type is an error, as is any syntax error.
\<close>

definition hexVal :: "char \<Rightarrow> nat option" where
  "hexVal c =
     (let n = of_char c :: nat
      in if 48 \<le> n \<and> n \<le> 57 then Some (n - 48)
         else if 97 \<le> n \<and> n \<le> 102 then Some (n - 87)
         else if 65 \<le> n \<and> n \<le> 70 then Some (n - 55) else None)"

definition hex4 :: "string \<Rightarrow> (nat \<times> string) option" where
  "hex4 s = (case s of
     a # b # c # d # rest \<Rightarrow>
       (case (hexVal a, hexVal b, hexVal c, hexVal d) of
          (Some w, Some x, Some y, Some z) \<Rightarrow> Some (w * 4096 + x * 256 + y * 16 + z, rest)
        | _ \<Rightarrow> None)
   | _ \<Rightarrow> None)"

definition utf8 :: "nat \<Rightarrow> string" where
  "utf8 n =
     (if n < 128 then [char_of n]
      else if n < 2048 then [char_of (192 + n div 64), char_of (128 + n mod 64)]
      else if n < 65536 then [char_of (224 + n div 4096), char_of (128 + n div 64 mod 64), char_of (128 + n mod 64)]
      else [char_of (240 + n div 262144), char_of (128 + n div 4096 mod 64), char_of (128 + n div 64 mod 64),
            char_of (128 + n mod 64)])"

definition escapeChar :: "char \<Rightarrow> char option" where
  "escapeChar c = map_of
     [(dquote, dquote), (backslash, backslash), (CHR ''/'', CHR ''/''), (CHR ''b'', CHR 0x08),
      (CHR ''f'', CHR 0x0C), (CHR ''n'', CHR 0x0A), (CHR ''r'', CHR 0x0D), (CHR ''t'', CHR 0x09)] c"

text \<open>The rest of a string literal after its opening quote.\<close>

fun jsonStringBody :: "nat \<Rightarrow> string \<Rightarrow> (string \<times> string) option" where
  "jsonStringBody 0 s = None"
| "jsonStringBody (Suc fuel) [] = None"
| "jsonStringBody (Suc fuel) (c # s) =
     (if c = dquote then Some ([], s)
      else if (of_char c :: nat) < 32 then None
      else if c \<noteq> backslash then map_option (\<lambda>(t, rest). (c # t, rest)) (jsonStringBody fuel s)
      else case s of
        [] \<Rightarrow> None
      | e # s1 \<Rightarrow>
          if e = CHR ''u'' then
            (case hex4 s1 of
               None \<Rightarrow> None
             | Some (hi, s2) \<Rightarrow>
                 let single = (\<lambda>n rest. map_option (\<lambda>(t, r). (utf8 n @ t, r)) (jsonStringBody fuel rest))
                 in if 0xD800 \<le> hi \<and> hi < 0xDC00 then
                      (case s2 of
                         b # u # s3 \<Rightarrow>
                           if b = backslash \<and> u = CHR ''u'' then
                             (case hex4 s3 of
                                None \<Rightarrow> None
                              | Some (lo, s4) \<Rightarrow>
                                  if 0xDC00 \<le> lo \<and> lo < 0xE000
                                  then single (0x10000 + (hi - 0xD800) * 1024 + (lo - 0xDC00)) s4
                                  else single 0xFFFD s2)
                           else single 0xFFFD s2
                       | _ \<Rightarrow> single 0xFFFD s2)
                    else if 0xDC00 \<le> hi \<and> hi < 0xE000 then single 0xFFFD s2
                    else single hi s2)
          else case escapeChar e of
            None \<Rightarrow> None
          | Some d \<Rightarrow> map_option (\<lambda>(t, rest). (d # t, rest)) (jsonStringBody fuel s1))"

definition jsonString :: "string \<Rightarrow> (string \<times> string) option" where
  "jsonString s = (case s of c # t \<Rightarrow> if c = dquote then jsonStringBody (Suc (length t)) t else None | [] \<Rightarrow> None)"

definition jsonSpace :: "char \<Rightarrow> bool" where
  "jsonSpace c = (of_char c \<in> {9::nat, 10, 13, 32})"

definition skipWs :: "string \<Rightarrow> string" where
  "skipWs s = dropWhile jsonSpace s"

definition jsonStrOrNull :: "string \<Rightarrow> (string \<times> string) option" where
  "jsonStrOrNull s = (if prefix ''null'' s then Some ([], drop 4 s) else jsonString s)"

text \<open>The members of an object after a member separator; the counter is the length of the text.\<close>

fun jsonMembers :: "nat \<Rightarrow> string \<Rightarrow> ((string \<times> string) list \<times> string) option" where
  "jsonMembers 0 s = None"
| "jsonMembers (Suc fuel) s =
     (case jsonString (skipWs s) of
        None \<Rightarrow> None
      | Some (k, s1) \<Rightarrow>
          (case skipWs s1 of
             [] \<Rightarrow> None
           | c # s2 \<Rightarrow>
               if c \<noteq> CHR '':'' then None
               else case jsonStrOrNull (skipWs s2) of
                 None \<Rightarrow> None
               | Some (v, s3) \<Rightarrow>
                   (case skipWs s3 of
                      [] \<Rightarrow> None
                    | d # s4 \<Rightarrow>
                        if d = CHR ''}'' then Some ([(k, v)], s4)
                        else if d = CHR '','' then map_option (\<lambda>(m, rest). ((k, v) # m, rest)) (jsonMembers fuel s4)
                        else None)))"

definition unmarshalStringMap :: "string \<Rightarrow> (string \<times> string) list option" where
  "unmarshalStringMap s =
     (case skipWs s of
        [] \<Rightarrow> None
      | c # t \<Rightarrow>
          if prefix ''null'' (c # t) then (if skipWs (drop 4 (c # t)) = [] then Some [] else None)
          else if c \<noteq> CHR ''{'' then None
          else case skipWs t of
            [] \<Rightarrow> None
          | d # u \<Rightarrow>
              if d = CHR ''}'' then (if skipWs u = [] then Some [] else None)
              else case jsonMembers (length t) t of
                None \<Rightarrow> None
              | Some (m, rest) \<Rightarrow> if skipWs rest = [] then Some m else None)"

text \<open>The last member of a name wins.\<close>

definition extractNameFromMapKey :: "string \<Rightarrow> string" where
  "extractNameFromMapKey key =
     (case unmarshalStringMap (drop 2 key) of
        None \<Rightarrow> []
      | Some parsed \<Rightarrow> derefOr [] (map_of (rev parsed) ''name''))"

subsection \<open>Ownership\<close>

text \<open>A nil set is \<^const>\<open>None\<close>.\<close>

definition extractOwnedSkills :: "ManagedFieldsEntry list \<Rightarrow> string list option" where
  "extractOwnedSkills managedFields =
     (case navigateFields (findSelfConfigFields managedFields) skillsPath of
        None \<Rightarrow> None
      | Some c \<Rightarrow> Some (map (drop 2) (filter (\<lambda>k. hasPrefix k ''v:'') (map fst c))))"

definition extractOwnedEnvVars :: "ManagedFieldsEntry list \<Rightarrow> string list option" where
  "extractOwnedEnvVars managedFields =
     (case navigateFields (findSelfConfigFields managedFields) envPath of
        None \<Rightarrow> None
      | Some c \<Rightarrow> Some (filter (\<lambda>n. n \<noteq> []) (map extractNameFromMapKey (filter (\<lambda>k. hasPrefix k ''k:'') (map fst c)))))"

definition extractOwnedWorkspaceFiles :: "ManagedFieldsEntry list \<Rightarrow> string list option" where
  "extractOwnedWorkspaceFiles managedFields =
     (case navigateFields (findSelfConfigFields managedFields) filesPath of
        None \<Rightarrow> None
      | Some c \<Rightarrow> Some (map (drop 2) (filter (\<lambda>k. hasPrefix k ''f:'') (map fst c))))"

definition findSkillFieldManager :: "ManagedFieldsEntry list \<Rightarrow> string \<Rightarrow> string" where
  "findSkillFieldManager managedFields skill = findFieldManagerByKey managedFields (''v:'' @ skill) skillsPath"

definition findEnvVarFieldManager :: "ManagedFieldsEntry list \<Rightarrow> string \<Rightarrow> string" where
  "findEnvVarFieldManager managedFields name =
     findFieldManagerByKey managedFields
       (''k:{'' @ [dquote] @ ''name'' @ [dquote] @ '':'' @ [dquote] @ name @ [dquote] @ ''}'') envPath"

definition findWorkspaceFileFieldManager :: "ManagedFieldsEntry list \<Rightarrow> string \<Rightarrow> string" where
  "findWorkspaceFileFieldManager managedFields filename = findFieldManagerByKey managedFields (''f:'' @ filename) filesPath"

definition checkRemovalOwnership :: "string \<Rightarrow> string \<Rightarrow> string list option \<Rightarrow> (string \<Rightarrow> string) \<Rightarrow> string" where
  "checkRemovalOwnership name kind owned findManager =
     (if (case owned of None \<Rightarrow> False | Some ns \<Rightarrow> name \<in> set ns) then []
      else if findManager name \<noteq> []
      then ''cannot remove '' @ kind @ '' '' @ quoteStr name @ '': managed by field manager '' @ quoteStr (findManager name)
      else ''cannot remove '' @ kind @ '' '' @ quoteStr name @ '': not managed by '' @ SelfConfigFieldManager)"

section \<open>What the builders return\<close>

subsection \<open>Skills\<close>

text \<open>Each element once, at the place of its first occurrence.\<close>

definition keepFirst :: "'a list \<Rightarrow> 'a list" where
  "keepFirst xs = rev (remdups (rev xs))"

lemma keepFirst_snoc [simp]: "keepFirst (xs @ [x]) = (if x \<in> set xs then keepFirst xs else keepFirst xs @ [x])"
  by (simp add: keepFirst_def)

lemma keepFirst_Nil [simp]: "keepFirst [] = []"
  by (simp add: keepFirst_def)

lemma set_keepFirst [simp]: "set (keepFirst xs) = set xs"
  by (simp add: keepFirst_def)

lemma distinct_keepFirst [simp]: "distinct (keepFirst xs)"
  by (simp add: keepFirst_def)

lemma fold_skillStep:
  "fold (skillStep R) xs ({}, []) = (set xs - R, keepFirst (filter (\<lambda>s. s \<notin> R) xs))"
  by (induction xs rule: rev_induct) (auto simp: skillStep_def)

lemma buildSkillsApply_eq:
  "buildSkillsApply current sc =
     keepFirst (filter (\<lambda>s. s \<notin> set (scs_RemoveSkills sc)) (current @ scs_AddSkills sc))"
proof -
  let ?R = "set (scs_RemoveSkills sc)"
  have "(\<lambda>s st. case st of (seen, result) \<Rightarrow>
           if s \<notin> seen \<and> s \<notin> ?R then (insert s seen, result @ [s]) else (seen, result)) = skillStep ?R"
    by (auto simp: skillStep_def fun_eq_iff)
  then have "buildSkillsApply current sc = snd (fold (skillStep ?R) (current @ scs_AddSkills sc) ({}, []))"
    by (simp add: buildSkillsApply_def Let_def)
  then show ?thesis by (simp only: fold_skillStep snd_conv)
qed

subsection \<open>Environment\<close>

definition namedVars :: "string \<Rightarrow> EnvVar list \<Rightarrow> EnvVar list" where
  "namedVars n env = filter (\<lambda>ev. ev_Name ev = n) env"

lemma namedVars_simps [simp]:
  "namedVars n [] = []"
  "namedVars n (ev # env) = (if ev_Name ev = n then ev # namedVars n env else namedVars n env)"
  "namedVars n (xs @ ys) = namedVars n xs @ namedVars n ys"
  by (simp_all add: namedVars_def)

lemma namedVars_Nil_iff: "namedVars n env = [] \<longleftrightarrow> n \<notin> ev_Name ` set env"
  by (auto simp: namedVars_def filter_empty_conv)

definition firstValue :: "string \<Rightarrow> SelfConfigEnvVar list \<Rightarrow> string option" where
  "firstValue n evs = map_of (map (\<lambda>ev. (sce_Name ev, sce_Value ev)) evs) n"

definition lastValue :: "string \<Rightarrow> SelfConfigEnvVar list \<Rightarrow> string option" where
  "lastValue n evs = map_of (addByName evs) n"

lemma values_None:
  "firstValue n evs = None \<longleftrightarrow> n \<notin> sce_Name ` set evs" "lastValue n evs = None \<longleftrightarrow> n \<notin> sce_Name ` set evs"
  by (auto simp: firstValue_def lastValue_def addByName_def map_of_eq_None_iff image_image)

lemma envVal_name [simp]: "ev_Name (envVal n v) = n"
  by (simp add: envVal_def)

definition overrideVar :: "(string \<times> string) list \<Rightarrow> EnvVar \<Rightarrow> EnvVar" where
  "overrideVar adds ev = (case map_of adds (ev_Name ev) of Some val \<Rightarrow> envVal (ev_Name ev) val | None \<Rightarrow> ev)"

lemma overrideVar_name [simp]: "ev_Name (overrideVar adds ev) = ev_Name ev"
  by (simp add: overrideVar_def split: option.splits)

lemma fold_envStep:
  "fold (envStep R adds) current (S, acc) =
     (S \<union> (ev_Name ` set current - R), acc @ map (overrideVar adds) (filter (\<lambda>ev. ev_Name ev \<notin> R) current))"
proof (induction current arbitrary: S acc)
  case (Cons ev current)
  have step: "envStep R adds ev (S, acc) =
      (if ev_Name ev \<in> R then (S, acc) else (insert (ev_Name ev) S, acc @ [overrideVar adds ev]))"
    by (simp add: envStep_def overrideVar_def split: option.splits)
  show ?case by (auto simp: step Cons.IH)
qed simp

lemma fold_addEnvStep:
  "namedVars n (snd (fold addEnvStep adds (S, acc))) =
     (if n \<in> S then namedVars n acc
      else case firstValue n adds of None \<Rightarrow> namedVars n acc | Some v \<Rightarrow> namedVars n acc @ [envVal n v])"
  by (induction adds arbitrary: S acc) (auto simp: addEnvStep_def firstValue_def split: option.splits)

lemma namedVars_map_override:
  "namedVars n (map (overrideVar adds) (filter (\<lambda>ev. ev_Name ev \<notin> R) current)) =
     (if n \<in> R then []
      else case map_of adds n of None \<Rightarrow> namedVars n current
           | Some v \<Rightarrow> map (\<lambda>ev. envVal n v) (namedVars n current))"
  by (induction current) (auto simp: overrideVar_def split: option.splits)

lemma buildEnvApply_Inr:
  "(\<exists>env. buildEnvApply current sc = Inr env) \<longleftrightarrow>
     set (map sce_Name (scs_AddEnvVars sc)) \<inter> set protectedEnvVars = {} \<and>
     set (scs_RemoveEnvVars sc) \<inter> set protectedEnvVars = {}"
  by (auto simp: buildEnvApply_def find_None_iff find_Some_iff split: option.splits dest!: nth_mem)

lemma buildEnvApply_vars:
  assumes "buildEnvApply current sc = Inr env"
  shows "namedVars n env =
    (let kept = (if n \<in> set (scs_RemoveEnvVars sc) then [] else namedVars n current)
     in case firstValue n (scs_AddEnvVars sc) of
          None \<Rightarrow> kept
        | Some v \<Rightarrow> if kept = [] then [envVal n v]
                   else map (\<lambda>ev. envVal n (the (lastValue n (scs_AddEnvVars sc)))) kept)"
proof -
  let ?R = "set (scs_RemoveEnvVars sc)" and ?adds = "addByName (scs_AddEnvVars sc)"
  have env: "env = snd (fold addEnvStep (scs_AddEnvVars sc) (ev_Name ` set current - ?R,
      map (overrideVar ?adds) (filter (\<lambda>ev. ev_Name ev \<notin> ?R) current)))"
    using assms by (auto simp: buildEnvApply_def fold_envStep split: option.splits)
  have none: "map_of ?adds n = None \<longleftrightarrow> firstValue n (scs_AddEnvVars sc) = None"
    using values_None [of n "scs_AddEnvVars sc"] by (simp add: lastValue_def)
  show ?thesis
    using none by (auto simp: env fold_addEnvStep namedVars_map_override Let_def lastValue_def
        namedVars_Nil_iff split: option.splits)
qed

subsection \<open>Configuration\<close>

lemma buildConfigApply_Some:
  assumes "buildConfigApply jerr current sc = Inr (Some raw)"
  obtains p base where
    "scs_ConfigPatch sc = Some (Doc (JObj p)) \<or> scs_ConfigPatch sc = Some (Doc JNull) \<and> p = []"
    "''gateway'' \<notin> fst ` set p"
    "raw = Doc (JObj (deepMerge base p))"
    "current = Some (Doc (JObj base)) \<or>
       base = [] \<and> (current = None \<or> current = Some (Text []) \<or> current = Some (Doc JNull))"
proof -
  obtain pr where pr: "scs_ConfigPatch sc = Some pr" "\<not> bytesEmpty pr"
    using assms by (auto simp: buildConfigApply_def split: option.splits if_splits)
  then obtain m where m: "unmarshalMap pr = Some m"
    using assms by (auto simp: buildConfigApply_def split: option.splits)
  have gw: "''gateway'' \<notin> fst ` set (derefOr [] m)"
    using assms pr m
    by (auto simp: buildConfigApply_def protectedConfigKeys_def find_None_iff split: option.splits dest: sym)
  obtain b where b: "raw = Doc (JObj (deepMerge (derefOr [] b) (derefOr [] m)))"
    "(case current of None \<Rightarrow> Some (Some []) | Some c \<Rightarrow> if bytesEmpty c then Some (Some []) else unmarshalMap c)
       = Some b"
    using assms pr m by (auto simp: buildConfigApply_def Let_def split: option.splits)
  show ?thesis
  proof (rule that [of "derefOr [] m" "derefOr [] b"])
    show "scs_ConfigPatch sc = Some (Doc (JObj (derefOr [] m))) \<or>
        scs_ConfigPatch sc = Some (Doc JNull) \<and> derefOr [] m = []"
      using pr m by (cases pr rule: unmarshalMap.cases) auto
    show "current = Some (Doc (JObj (derefOr [] b))) \<or> derefOr [] b = [] \<and>
        (current = None \<or> current = Some (Text []) \<or> current = Some (Doc JNull))"
    proof (cases current)
      case (Some c)
      with b(2) show ?thesis by (cases c rule: unmarshalMap.cases) (auto simp: bytesEmpty_def split: if_splits)
    qed (use b(2) in auto)
  qed (use gw b in auto)
qed

subsection \<open>The partial spec\<close>

lemma applyActions_append:
  "applyActions jerr inst sc (xs @ ys) spec =
     (case applyActions jerr inst sc xs spec of Inl e \<Rightarrow> Inl e | Inr spec1 \<Rightarrow> applyActions jerr inst sc ys spec1)"
  by (induction xs arbitrary: spec) (auto split: sum.splits)

text \<open>The configuration of the partial spec: what \<^const>\<open>buildConfigApply\<close> returned, if anything.\<close>

definition appliedRaw :: "go_error + bytes option \<Rightarrow> bytes option" where
  "appliedRaw r = (case r of Inl e \<Rightarrow> None | Inr raw \<Rightarrow> raw)"

definition currentFiles :: "OpenClawInstance \<Rightarrow> gomap" where
  "currentFiles inst = (case spec_Workspace (oci_Spec inst) of None \<Rightarrow> [] | Some ws \<Rightarrow> ws_InitialFiles ws)"

lemma set_determineActions:
  "SelfConfigActionSkills \<in> set (determineActions sc) \<longleftrightarrow> scs_AddSkills sc \<noteq> [] \<or> scs_RemoveSkills sc \<noteq> []"
  "SelfConfigActionConfig \<in> set (determineActions sc) \<longleftrightarrow> scs_ConfigPatch sc \<noteq> None"
  "SelfConfigActionWorkspaceFiles \<in> set (determineActions sc) \<longleftrightarrow>
     scs_AddWorkspaceFiles sc \<noteq> [] \<or> scs_RemoveWorkspaceFiles sc \<noteq> []"
  "SelfConfigActionEnvVars \<in> set (determineActions sc) \<longleftrightarrow> scs_AddEnvVars sc \<noteq> [] \<or> scs_RemoveEnvVars sc \<noteq> []"
  by (auto simp: determineActions_def action_defs)

text \<open>Each requested action runs at most once, so the four fields can be read off one by one.\<close>

lemma applyAction_simps:
  "applyAction jerr inst sc SelfConfigActionSkills spec =
     Inr (spec\<lparr>spec_Skills := buildSkillsApply (spec_Skills (oci_Spec inst)) sc\<rparr>)"
  "applyAction jerr inst sc SelfConfigActionConfig spec =
     (case buildConfigApply jerr (cfg_Raw (spec_Config (oci_Spec inst))) sc of
        Inl e \<Rightarrow> Inl e
      | Inr None \<Rightarrow> Inr spec
      | Inr (Some raw) \<Rightarrow> Inr (spec\<lparr>spec_Config := (spec_Config spec)\<lparr>cfg_Raw := Some raw\<rparr>\<rparr>))"
  "applyAction jerr inst sc SelfConfigActionWorkspaceFiles spec =
     Inr (spec\<lparr>spec_Workspace :=
       Some (zero_WorkspaceSpec\<lparr>ws_InitialFiles := buildWorkspaceFilesApply (currentFiles inst) sc\<rparr>)\<rparr>)"
  "applyAction jerr inst sc SelfConfigActionEnvVars spec =
     (case buildEnvApply (spec_Env (oci_Spec inst)) sc of Inl e \<Rightarrow> Inl e | Inr env \<Rightarrow> Inr (spec\<lparr>spec_Env := env\<rparr>))"
  by (simp_all add: applyAction_def action_defs currentFiles_def)

lemma zero_spec_fields:
  "zero_OpenClawInstanceSpec\<lparr>spec_Skills := []\<rparr> = zero_OpenClawInstanceSpec"
  "zero_OpenClawInstanceSpec\<lparr>spec_Env := []\<rparr> = zero_OpenClawInstanceSpec"
  "zero_OpenClawInstanceSpec\<lparr>spec_Workspace := None\<rparr> = zero_OpenClawInstanceSpec"
  "zero_OpenClawInstanceSpec\<lparr>spec_Config := zero_ConfigSpec\<rparr> = zero_OpenClawInstanceSpec"
  "spec_Config zero_OpenClawInstanceSpec = zero_ConfigSpec" "zero_ConfigSpec\<lparr>cfg_Raw := None\<rparr> = zero_ConfigSpec"
  by (simp_all add: zero_OpenClawInstanceSpec_def zero_ConfigSpec_def)

lemma applyActions_single:
  "applyActions jerr inst sc (if b then [a] else []) spec = (if b then applyAction jerr inst sc a spec else Inr spec)"
  by (auto split: sum.splits)

lemma skills_stage:
  "(if b then applyAction jerr inst sc SelfConfigActionSkills zero_OpenClawInstanceSpec else Inr zero_OpenClawInstanceSpec) =
   Inr (zero_OpenClawInstanceSpec\<lparr>spec_Skills := if b then buildSkillsApply (spec_Skills (oci_Spec inst)) sc else []\<rparr>)"
  by (simp add: applyAction_simps zero_spec_fields)

lemma config_stage:
  assumes "(if b then applyAction jerr inst sc SelfConfigActionConfig spec else Inr spec) = Inr spec1"
    and "spec_Config spec = zero_ConfigSpec"
  shows "spec1 = spec\<lparr>spec_Config := zero_ConfigSpec\<lparr>cfg_Raw :=
      if b then appliedRaw (buildConfigApply jerr (cfg_Raw (spec_Config (oci_Spec inst))) sc) else None\<rparr>\<rparr>"
proof -
  have same: "spec\<lparr>spec_Config := zero_ConfigSpec\<rparr> = spec" using assms(2) by (cases spec) simp
  show ?thesis
    using assms by (auto simp: applyAction_simps appliedRaw_def same zero_spec_fields split: if_splits sum.splits option.splits)
qed

lemma files_stage:
  assumes "spec_Workspace spec = None"
  shows "(if b then applyAction jerr inst sc SelfConfigActionWorkspaceFiles spec else Inr spec) =
    Inr (spec\<lparr>spec_Workspace := if b
        then Some (zero_WorkspaceSpec\<lparr>ws_InitialFiles := buildWorkspaceFilesApply (currentFiles inst) sc\<rparr>) else None\<rparr>)"
proof -
  have "spec\<lparr>spec_Workspace := None\<rparr> = spec" using assms by (cases spec) simp
  then show ?thesis by (simp add: applyAction_simps)
qed

lemma env_stage:
  assumes "(if b then applyAction jerr inst sc SelfConfigActionEnvVars spec else Inr spec) = Inr spec1"
    and "spec_Env spec = []"
  shows "spec1 = spec\<lparr>spec_Env := if b then projr (buildEnvApply (spec_Env (oci_Spec inst)) sc) else []\<rparr>"
proof -
  have "spec\<lparr>spec_Env := []\<rparr> = spec" using assms(2) by (cases spec) simp
  then show ?thesis using assms(1) by (auto simp: applyAction_simps split: if_splits sum.splits)
qed

lemma buildApplySpec_eq:
  assumes "buildApplySpec jerr inst sc (determineActions sc) = Inr spec"
  shows "spec = zero_OpenClawInstanceSpec\<lparr>
      spec_Config := zero_ConfigSpec\<lparr>cfg_Raw := appliedRaw (buildConfigApply jerr (cfg_Raw (spec_Config (oci_Spec inst))) sc)\<rparr>,
      spec_Workspace := if SelfConfigActionWorkspaceFiles \<in> set (determineActions sc)
        then Some (zero_WorkspaceSpec\<lparr>ws_InitialFiles := buildWorkspaceFilesApply (currentFiles inst) sc\<rparr>) else None,
      spec_Skills := if SelfConfigActionSkills \<in> set (determineActions sc)
        then buildSkillsApply (spec_Skills (oci_Spec inst)) sc else [],
      spec_Env := if SelfConfigActionEnvVars \<in> set (determineActions sc)
        then projr (buildEnvApply (spec_Env (oci_Spec inst)) sc) else []\<rparr>"
proof -
  have raw: "(if scs_ConfigPatch sc \<noteq> None then appliedRaw (buildConfigApply jerr c sc) else None) =
      appliedRaw (buildConfigApply jerr c sc)" for c
    by (simp add: appliedRaw_def buildConfigApply_def)
  let ?s1 = "zero_OpenClawInstanceSpec\<lparr>spec_Skills := if scs_AddSkills sc \<noteq> [] \<or> scs_RemoveSkills sc \<noteq> []
      then buildSkillsApply (spec_Skills (oci_Spec inst)) sc else []\<rparr>"
  obtain s2 where s2: "(if scs_ConfigPatch sc \<noteq> None then applyAction jerr inst sc SelfConfigActionConfig ?s1 else Inr ?s1)
      = Inr s2"
    using assms unfolding buildApplySpec_def determineActions_def applyActions_append applyActions_single skills_stage
      sum.case
    by (cases "if scs_ConfigPatch sc \<noteq> None then applyAction jerr inst sc SelfConfigActionConfig ?s1 else Inr ?s1")
      (simp_all only: sum.case sum.simps)
  have "spec_Config ?s1 = zero_ConfigSpec" by (simp add: zero_spec_fields)
  note c2 = config_stage [OF s2 this, unfolded raw]
  have w2: "spec_Workspace s2 = None" "spec_Env s2 = []"
    unfolding c2 by (simp_all add: zero_OpenClawInstanceSpec_def)
  note last = assms [unfolded buildApplySpec_def determineActions_def applyActions_append applyActions_single
      skills_stage sum.case s2 files_stage [OF w2(1)]]
  have "spec_Env (s2\<lparr>spec_Workspace := w\<rparr>) = []" for w using w2 by simp
  note fin = env_stage [OF last this]
  show ?thesis unfolding fin c2 set_determineActions by simp
qed

lemma applyActions_ok:
  assumes "applyActions jerr inst sc actions spec = Inr spec'" "a \<in> set actions"
  shows "\<exists>spec1 spec2. applyAction jerr inst sc a spec1 = Inr spec2"
  using assms by (induction actions arbitrary: spec) (auto split: sum.splits)

lemma map_of_filter_keys: "map_of (filter (\<lambda>(k, v). k \<notin> R) m) = (\<lambda>k. if k \<in> R then None else map_of m k)"
  by (induction m) (auto simp: fun_eq_iff)

subsection \<open>Ownership keys\<close>

text \<open>A name that needs no JSON escape: printable bytes other than quote and backslash.\<close>

definition plainName :: "string \<Rightarrow> bool" where
  "plainName n = list_all (\<lambda>c. 32 \<le> (of_char c :: nat) \<and> c \<noteq> dquote \<and> c \<noteq> backslash) n"

lemma jsonStringBody_plain:
  "plainName n \<Longrightarrow> length n < fuel \<Longrightarrow> jsonStringBody fuel (n @ dquote # rest) = Some (n, rest)"
proof (induction n arbitrary: fuel)
  case Nil
  then show ?case by (cases fuel) simp_all
next
  case (Cons c n)
  then obtain k where k: "fuel = Suc k" by (cases fuel) auto
  with Cons.prems have c: "c \<noteq> dquote" "\<not> (of_char c :: nat) < 32" "c \<noteq> backslash"
    and n: "plainName n" "length n < k"
    by (simp_all add: plainName_def)
  have "jsonStringBody fuel ((c # n) @ dquote # rest) =
      map_option (\<lambda>(t, r). (c # t, r)) (jsonStringBody k (n @ dquote # rest))"
    by (simp only: k append_Cons jsonStringBody.simps(3) c if_False if_True not_True_eq_False not_False_eq_True)
  then show ?case by (simp add: Cons.IH [OF n])
qed

lemma jsonString_plain: "plainName n \<Longrightarrow> jsonString (dquote # n @ dquote # rest) = Some (n, rest)"
  by (simp add: jsonString_def jsonStringBody_plain)

definition nameKey :: "string \<Rightarrow> string" where
  "nameKey name = ''k:{'' @ [dquote] @ ''name'' @ [dquote] @ '':'' @ [dquote] @ name @ [dquote] @ ''}''"

lemma skipWs_stop [simp]:
  "skipWs [] = []" "skipWs (dquote # s) = dquote # s" "skipWs (CHR ''{'' # s) = CHR ''{'' # s"
  "skipWs (CHR ''}'' # s) = CHR ''}'' # s" "skipWs (CHR '':'' # s) = CHR '':'' # s"
  by (simp_all add: skipWs_def jsonSpace_def dquote_def)

lemma dquote_neq [simp]:
  "dquote \<noteq> CHR ''n''" "CHR ''n'' \<noteq> dquote" "dquote \<noteq> CHR ''}''" "dquote \<noteq> CHR ''{''"
  by (simp_all add: dquote_def)

lemma extractNameFromMapKey_plain:
  assumes "plainName name" shows "extractNameFromMapKey (nameKey name) = name"
proof -
  let ?val = "dquote # name @ dquote # ''}''"
  let ?mem = "dquote # ''name'' @ dquote # CHR '':'' # ?val"
  have nm: "jsonString ?mem = Some (''name'', CHR '':'' # ?val)"
    by (rule jsonString_plain) (simp add: plainName_def dquote_def backslash_def)
  have vl: "jsonStrOrNull ?val = Some (name, ''}'')"
    using jsonString_plain [OF assms, of "''}''"] by (simp add: jsonStrOrNull_def)
  have "jsonMembers (Suc fuel) ?mem = Some ([(''name'', name)], [])" for fuel
    unfolding jsonMembers.simps skipWs_stop nm by (simp add: vl [simplified])
  then have mem: "jsonMembers (length ?mem) ?mem = Some ([(''name'', name)], [])" by simp
  have key: "drop 2 (nameKey name) = CHR ''{'' # ?mem" by (simp add: nameKey_def)
  have "unmarshalStringMap (CHR ''{'' # ?mem) = Some [(''name'', name)]"
    unfolding unmarshalStringMap_def skipWs_stop list.case mem by simp
  then show ?thesis unfolding extractNameFromMapKey_def key by simp
qed

lemma findEnvVarFieldManager_eq:
  "findEnvVarFieldManager managedFields name = findFieldManagerByKey managedFields (nameKey name) envPath"
  by (simp add: findEnvVarFieldManager_def nameKey_def)

end
