(* ===== verification/SelfConfigController.thy ===== *)
theory SelfConfigController
  imports SelfConfig Client
begin

text \<open>
  internal/controller/openclawselfconfig_controller.go: the controller that carries out an
  OpenClawSelfConfig request against its instance. The client, the converter to unstructured
  objects and the owner-reference helper are the fields of \<open>SelfConfigReconciler\<close>; the
  context holds the cluster state, the request in memory and the log of the calls with their
  replies. The log has no counterpart in the code.
\<close>

section \<open>Surroundings\<close>

record 's SelfConfigReconciler =
  sr_Now :: "('s, int) state"
  sr_GetSelfConfig :: "string \<Rightarrow> string \<Rightarrow> ('s, go_error + OpenClawSelfConfig) state"
  sr_GetInstance :: "string \<Rightarrow> string \<Rightarrow> ('s, go_error + OpenClawInstance) state"
  sr_Delete :: "OpenClawSelfConfig \<Rightarrow> ('s, go_error option) state"
  sr_StatusUpdate :: "OpenClawSelfConfig \<Rightarrow> ('s, go_error + OpenClawSelfConfig) state"
  sr_Update :: "OpenClawSelfConfig \<Rightarrow> ('s, go_error + OpenClawSelfConfig) state"
  sr_Apply :: "obj \<Rightarrow> string \<Rightarrow> bool \<Rightarrow> ('s, go_error option) state"
  sr_ToUnstructured :: "string \<Rightarrow> string \<Rightarrow> OpenClawInstance \<Rightarrow> go_error + obj"
  sr_SetOwnerReference :: "OpenClawInstance \<Rightarrow> OpenClawSelfConfig \<Rightarrow> go_error + OpenClawSelfConfig"
  sr_JsonError :: "bytes \<Rightarrow> string"

datatype sc_call =
    SNow int
  | SGetSelfConfig string string "go_error + OpenClawSelfConfig"
  | SGetInstance string string "go_error + OpenClawInstance"
  | SDelete OpenClawSelfConfig "go_error option"
  | SStatusUpdate OpenClawSelfConfig "go_error option"
  | SUpdate OpenClawSelfConfig "go_error option"
  | SApply obj string bool "go_error option"
  | SEvent string string string string

record 's sctx =
  sx_srv :: 's
  sx_sc :: OpenClawSelfConfig
  sx_calls :: "sc_call list"

type_synonym 's sc_handler = "('s sctx, Result \<times> go_error option) state"

definition sapi :: "('s, 'a) state \<Rightarrow> ('a \<Rightarrow> sc_call) \<Rightarrow> ('s sctx, 'a) state" where
  "sapi m mk = State (\<lambda>h. case run_state m (sx_srv h) of
     (a, s) \<Rightarrow> (a, h\<lparr>sx_srv := s, sx_calls := sx_calls h @ [mk a]\<rparr>))"

definition getSC :: "('s sctx, OpenClawSelfConfig) state" where
  "getSC = State (\<lambda>h. (sx_sc h, h))"

definition modSC :: "(OpenClawSelfConfig \<Rightarrow> OpenClawSelfConfig) \<Rightarrow> ('s sctx, unit) state" where
  "modSC f = State (\<lambda>h. ((), h\<lparr>sx_sc := f (sx_sc h)\<rparr>))"

text \<open>An event on the request or on the instance (\<open>target\<close>).\<close>

definition sevent :: "string \<Rightarrow> string \<Rightarrow> string \<Rightarrow> string \<Rightarrow> ('s sctx, unit) state" where
  "sevent target typ reason msg =
     State (\<lambda>h. ((), h\<lparr>sx_calls := sx_calls h @ [SEvent target typ reason msg]\<rparr>))"

definition writeSC ::
    "(OpenClawSelfConfig \<Rightarrow> ('s, go_error + OpenClawSelfConfig) state) \<Rightarrow>
     (OpenClawSelfConfig \<Rightarrow> go_error option \<Rightarrow> sc_call) \<Rightarrow> ('s sctx, go_error option) state" where
  "writeSC act mk = State (\<lambda>h. case run_state (act (sx_sc h)) (sx_srv h) of
     (r, s) \<Rightarrow> (errOf r,
       h\<lparr>sx_srv := s, sx_sc := (case r of Inl _ \<Rightarrow> sx_sc h | Inr i \<Rightarrow> i),
         sx_calls := sx_calls h @ [mk (sx_sc h) (errOf r)]\<rparr>))"

section \<open>The controller\<close>

definition SelfConfigTTL :: duration where "SelfConfigTTL = 1 * Hour"

definition setTerminalStatus :: "'s SelfConfigReconciler \<Rightarrow> string \<Rightarrow> string \<Rightarrow> 's sc_handler" where
  "setTerminalStatus r phase message = do {
     n \<leftarrow> sapi (sr_Now r) SNow;
     modSC (\<lambda>sc. sc\<lparr>osc_Status := \<lparr>sct_Phase = phase, sct_Message = message, sct_CompletionTime = Some n\<rparr>\<rparr>);
     err \<leftarrow> writeSC (sr_StatusUpdate r) SStatusUpdate;
     (case err of
        Some e \<Rightarrow> ret (noResult, Some e)
      | None \<Rightarrow> ret (requeueIn SelfConfigTTL, None)) }"

definition isTerminal :: "string \<Rightarrow> bool" where
  "isTerminal phase \<longleftrightarrow>
     phase = SelfConfigPhaseApplied \<or> phase = SelfConfigPhaseFailed \<or> phase = SelfConfigPhaseDenied"

text \<open>A finished request: wait for the end of its time to live, then delete it.\<close>

definition expire :: "'s SelfConfigReconciler \<Rightarrow> 's sc_handler" where
  "expire r = do {
     sc \<leftarrow> getSC;
     (case sct_CompletionTime (osc_Status sc) of
        None \<Rightarrow> ret (noResult, None)
      | Some completed \<Rightarrow> do {
          n \<leftarrow> sapi (sr_Now r) SNow;
          let age = since n completed;
          (if SelfConfigTTL \<le> age then do {
             err \<leftarrow> sapi (sr_Delete r sc) (SDelete sc);
             (case err of
                Some e \<Rightarrow> if isNotFound e then ret (noResult, None) else ret (noResult, Some e)
              | None \<Rightarrow> ret (noResult, None)) }
           else ret (requeueIn (SelfConfigTTL - age), None)) }) }"

text \<open>The warnings about removals that server-side apply will not carry out, with their events.\<close>

fun removalWarnings :: "string \<Rightarrow> string list option \<Rightarrow> (string \<Rightarrow> string) \<Rightarrow> string list \<Rightarrow> ('s sctx, string list) state" where
  "removalWarnings kind owned findManager [] = ret []"
| "removalWarnings kind owned findManager (name # names) =
     (let msg = checkRemovalOwnership name kind owned findManager
      in if msg \<noteq> [] then do {
           sevent ''instance'' EventWarning ''SelfConfigSkippedRemoval'' msg;
           warnings \<leftarrow> removalWarnings kind owned findManager names;
           ret (msg # warnings) }
         else removalWarnings kind owned findManager names)"

definition GroupVersion :: string where "GroupVersion = ''openclaw.rocks/v1alpha1''"

text \<open>The object of the apply call: name and namespace of the instance and the partial spec.\<close>

definition typedObj :: "OpenClawInstance \<Rightarrow> OpenClawInstanceSpec \<Rightarrow> OpenClawInstance" where
  "typedObj inst applySpec =
     \<lparr>oci_Meta = zero_ObjectMeta\<lparr>om_Name := oname inst, om_Namespace := onamespace inst\<rparr>,
      oci_Spec = applySpec, oci_Status = zero_OpenClawInstanceStatus\<rparr>"

definition ownerReference :: "'s SelfConfigReconciler \<Rightarrow> OpenClawInstance \<Rightarrow> ('s sctx, unit) state" where
  "ownerReference r inst = do {
     sc \<leftarrow> getSC;
     (case sr_SetOwnerReference r inst sc of
        Inl e \<Rightarrow> ret ()
      | Inr sc1 \<Rightarrow> do {
          modSC (\<lambda>_. sc1);
          _ \<leftarrow> writeSC (sr_Update r) SUpdate;
          ret () }) }"

definition sendApply ::
    "'s SelfConfigReconciler \<Rightarrow> OpenClawInstance \<Rightarrow> OpenClawInstanceSpec \<Rightarrow> string list \<Rightarrow> 's sc_handler" where
  "sendApply r inst applySpec warnings =
     (case sr_ToUnstructured r GroupVersion ''OpenClawInstance'' (typedObj inst applySpec) of
        Inl e \<Rightarrow> setTerminalStatus r SelfConfigPhaseFailed (''failed to convert apply spec: '' @ emsg e)
      | Inr rawMap \<Rightarrow> do {
          applyErr \<leftarrow> sapi (sr_Apply r rawMap SelfConfigFieldManager True) (SApply rawMap SelfConfigFieldManager True);
          (case applyErr of
             Some e \<Rightarrow> setTerminalStatus r SelfConfigPhaseFailed (''failed to apply changes: '' @ emsg e)
           | None \<Rightarrow> do {
               ownerReference r inst;
               sc1 \<leftarrow> getSC;
               sevent ''selfconfig'' EventNormal ''Applied'' ''self-config request applied successfully'';
               sevent ''instance'' EventNormal ''SelfConfigApplied''
                 (''self-config request '' @ quoteStr (om_Name (osc_Meta sc1)) @ '' applied'');
               setTerminalStatus r SelfConfigPhaseApplied
                 (if warnings = [] then ''changes applied successfully''
                  else ''changes applied with warnings: '' @ joinStr ''; '' warnings) }) })"

definition applyRequest ::
    "'s SelfConfigReconciler \<Rightarrow> OpenClawInstance \<Rightarrow> OpenClawInstanceSpec \<Rightarrow> 's sc_handler" where
  "applyRequest r inst applySpec = do {
     sc \<leftarrow> getSC;
     let managedFields = om_ManagedFields (oci_Meta inst);
     w1 \<leftarrow> removalWarnings ''skill'' (extractOwnedSkills managedFields) (findSkillFieldManager managedFields)
       (scs_RemoveSkills (osc_Spec sc));
     w2 \<leftarrow> removalWarnings ''env var'' (extractOwnedEnvVars managedFields) (findEnvVarFieldManager managedFields)
       (scs_RemoveEnvVars (osc_Spec sc));
     w3 \<leftarrow> removalWarnings ''workspace file'' (extractOwnedWorkspaceFiles managedFields)
       (findWorkspaceFileFieldManager managedFields) (scs_RemoveWorkspaceFiles (osc_Spec sc));
     sendApply r inst applySpec (w1 @ w2 @ w3) }"

definition processRequest :: "'s SelfConfigReconciler \<Rightarrow> OpenClawInstance \<Rightarrow> 's sc_handler" where
  "processRequest r inst = do {
     sc \<leftarrow> getSC;
     (if \<not> scf_Enabled (spec_SelfConfigure (oci_Spec inst))
      then setTerminalStatus r SelfConfigPhaseDenied ''self-configure is not enabled on the target instance''
      else do {
        let requestedActions = determineActions (osc_Spec sc);
        (if requestedActions = []
         then setTerminalStatus r SelfConfigPhaseFailed ''request contains no actions''
         else do {
           let denied = checkAllowedActions requestedActions (scf_AllowedActions (spec_SelfConfigure (oci_Spec inst)));
           (if denied \<noteq> [] then do {
              let msg = ''denied actions: ['' @ joinStr '' '' denied @ '']'';
              sevent ''instance'' EventWarning ''SelfConfigDenied'' msg;
              setTerminalStatus r SelfConfigPhaseDenied msg }
            else (case buildApplySpec (sr_JsonError r) inst (osc_Spec sc) requestedActions of
                    Inl e \<Rightarrow> setTerminalStatus r SelfConfigPhaseFailed (''failed to build apply spec: '' @ emsg e)
                  | Inr applySpec \<Rightarrow> applyRequest r inst applySpec)) }) }) }"

definition Reconcile :: "'s SelfConfigReconciler \<Rightarrow> string \<Rightarrow> string \<Rightarrow> 's sc_handler" where
  "Reconcile r name namespace = do {
     res \<leftarrow> sapi (sr_GetSelfConfig r name namespace) (SGetSelfConfig name namespace);
     (case res of
        Inl err \<Rightarrow> if isNotFound err then ret (noResult, None) else ret (noResult, Some err)
      | Inr sc \<Rightarrow> do {
          modSC (\<lambda>_. sc);
          (if isTerminal (sct_Phase (osc_Status sc)) then expire r
           else do {
             ires \<leftarrow> sapi (sr_GetInstance r (scs_InstanceRef (osc_Spec sc)) (om_Namespace (osc_Meta sc)))
               (SGetInstance (scs_InstanceRef (osc_Spec sc)) (om_Namespace (osc_Meta sc)));
             (case ires of
                Inl err \<Rightarrow>
                  if isNotFound err
                  then setTerminalStatus r SelfConfigPhaseFailed
                    (''instance '' @ quoteStr (scs_InstanceRef (osc_Spec sc)) @ '' not found'')
                  else ret (noResult, Some err)
              | Inr inst \<Rightarrow> processRequest r inst) }) }) }"

section \<open>What a run may do\<close>

text \<open>
  The contract of one reconciliation as the calls it may make, in order, and what it returns.
  \<open>verdict\<close> is the decision about a request that is still open, given what the read of the
  instance returned: the calls made for it and the phase the request ends in.
\<close>

fun isEvent :: "sc_call \<Rightarrow> bool" where
  "isEvent (SEvent _ _ _ _) = True"
| "isEvent _ = False"

fun isOwnerUpdate :: "sc_call \<Rightarrow> bool" where
  "isOwnerUpdate (SUpdate _ _) = True"
| "isOwnerUpdate _ = False"

definition authorised :: "OpenClawInstance \<Rightarrow> OpenClawSelfConfigSpec \<Rightarrow> bool" where
  "authorised inst sc \<longleftrightarrow>
     scf_Enabled (spec_SelfConfigure (oci_Spec inst)) \<and> determineActions sc \<noteq> [] \<and>
     set (determineActions sc) \<subseteq> set (scf_AllowedActions (spec_SelfConfigure (oci_Spec inst)))"

lemma checkAllowedActions_Nil: "checkAllowedActions requested allowed = [] \<longleftrightarrow> set requested \<subseteq> set allowed"
  by (auto simp: checkAllowedActions_def filter_empty_conv)

inductive verdict ::
    "'s SelfConfigReconciler \<Rightarrow> OpenClawSelfConfig \<Rightarrow> go_error + OpenClawInstance \<Rightarrow> sc_call list \<Rightarrow> string \<Rightarrow> bool"
  for r :: "'s SelfConfigReconciler" and sc :: OpenClawSelfConfig where
  noInstance: "isNotFound e \<Longrightarrow> verdict r sc (Inl e) [] SelfConfigPhaseFailed"
| disabled: "\<not> scf_Enabled (spec_SelfConfigure (oci_Spec inst)) \<Longrightarrow> verdict r sc (Inr inst) [] SelfConfigPhaseDenied"
| noActions: "scf_Enabled (spec_SelfConfigure (oci_Spec inst)) \<Longrightarrow> determineActions (osc_Spec sc) = [] \<Longrightarrow>
    verdict r sc (Inr inst) [] SelfConfigPhaseFailed"
| notAllowed: "scf_Enabled (spec_SelfConfigure (oci_Spec inst)) \<Longrightarrow> \<not> authorised inst (osc_Spec sc) \<Longrightarrow>
    isEvent ev \<Longrightarrow> verdict r sc (Inr inst) [ev] SelfConfigPhaseDenied"
| invalid: "authorised inst (osc_Spec sc) \<Longrightarrow>
    buildApplySpec (sr_JsonError r) inst (osc_Spec sc) (determineActions (osc_Spec sc)) = Inl e \<Longrightarrow>
    verdict r sc (Inr inst) [] SelfConfigPhaseFailed"
| unconverted: "authorised inst (osc_Spec sc) \<Longrightarrow>
    buildApplySpec (sr_JsonError r) inst (osc_Spec sc) (determineActions (osc_Spec sc)) = Inr spec \<Longrightarrow>
    sr_ToUnstructured r GroupVersion ''OpenClawInstance'' (typedObj inst spec) = Inl e \<Longrightarrow>
    list_all isEvent evs \<Longrightarrow> verdict r sc (Inr inst) evs SelfConfigPhaseFailed"
| rejected: "authorised inst (osc_Spec sc) \<Longrightarrow>
    buildApplySpec (sr_JsonError r) inst (osc_Spec sc) (determineActions (osc_Spec sc)) = Inr spec \<Longrightarrow>
    sr_ToUnstructured r GroupVersion ''OpenClawInstance'' (typedObj inst spec) = Inr u \<Longrightarrow>
    list_all isEvent evs \<Longrightarrow>
    verdict r sc (Inr inst) (evs @ [SApply u SelfConfigFieldManager True (Some e)]) SelfConfigPhaseFailed"
| applied: "authorised inst (osc_Spec sc) \<Longrightarrow>
    buildApplySpec (sr_JsonError r) inst (osc_Spec sc) (determineActions (osc_Spec sc)) = Inr spec \<Longrightarrow>
    sr_ToUnstructured r GroupVersion ''OpenClawInstance'' (typedObj inst spec) = Inr u \<Longrightarrow>
    list_all isEvent evs \<Longrightarrow> list_all isOwnerUpdate upd \<Longrightarrow> list_all isEvent evs' \<Longrightarrow>
    verdict r sc (Inr inst) (evs @ [SApply u SelfConfigFieldManager True None] @ upd @ evs') SelfConfigPhaseApplied"

inductive sc_trace ::
    "'s SelfConfigReconciler \<Rightarrow> string \<Rightarrow> string \<Rightarrow> sc_call list \<Rightarrow> Result \<times> go_error option \<Rightarrow> bool"
  for r :: "'s SelfConfigReconciler" and name :: string and namespace :: string where
  lost: "sc_trace r name namespace [SGetSelfConfig name namespace (Inl e)]
    (noResult, if isNotFound e then None else Some e)"
| untimed: "isTerminal (sct_Phase (osc_Status sc)) \<Longrightarrow> sct_CompletionTime (osc_Status sc) = None \<Longrightarrow>
    sc_trace r name namespace [SGetSelfConfig name namespace (Inr sc)] (noResult, None)"
| waiting: "isTerminal (sct_Phase (osc_Status sc)) \<Longrightarrow> sct_CompletionTime (osc_Status sc) = Some completed \<Longrightarrow>
    since n completed < SelfConfigTTL \<Longrightarrow>
    sc_trace r name namespace [SGetSelfConfig name namespace (Inr sc), SNow n]
      (requeueIn (SelfConfigTTL - since n completed), None)"
| expired: "isTerminal (sct_Phase (osc_Status sc)) \<Longrightarrow> sct_CompletionTime (osc_Status sc) = Some completed \<Longrightarrow>
    SelfConfigTTL \<le> since n completed \<Longrightarrow> out = None \<or> out = err \<Longrightarrow>
    sc_trace r name namespace [SGetSelfConfig name namespace (Inr sc), SNow n, SDelete sc err] (noResult, out)"
| unread: "\<not> isTerminal (sct_Phase (osc_Status sc)) \<Longrightarrow> \<not> isNotFound e \<Longrightarrow>
    sc_trace r name namespace
      [SGetSelfConfig name namespace (Inr sc),
       SGetInstance (scs_InstanceRef (osc_Spec sc)) (om_Namespace (osc_Meta sc)) (Inl e)] (noResult, Some e)"
| finished: "\<not> isTerminal (sct_Phase (osc_Status sc)) \<Longrightarrow> verdict r sc ires mid phase \<Longrightarrow>
    sct_Phase (osc_Status sc') = phase \<Longrightarrow> sct_CompletionTime (osc_Status sc') = Some n \<Longrightarrow>
    sc_trace r name namespace
      ([SGetSelfConfig name namespace (Inr sc),
        SGetInstance (scs_InstanceRef (osc_Spec sc)) (om_Namespace (osc_Meta sc)) ires]
       @ mid @ [SNow n, SStatusUpdate sc' err])
      (if err = None then requeueIn SelfConfigTTL else noResult, err)"

inductive_cases verdict_elim: "verdict r sc ires mid phase"
inductive_cases sc_trace_elim: "sc_trace r name namespace cs out"

subsection \<open>One rule per step\<close>

lemma wp_sapi:
  "(\<And>a s. Q a (h\<lparr>sx_srv := s, sx_calls := sx_calls h @ [mk a]\<rparr>)) \<Longrightarrow> wp (sapi m mk) Q h"
  by (simp add: wp_def sapi_def split: prod.splits)

lemma wp_getSC: "Q (sx_sc h) h \<Longrightarrow> wp getSC Q h"
  by (simp add: wp_def getSC_def)

lemma wp_modSC: "Q () (h\<lparr>sx_sc := f (sx_sc h)\<rparr>) \<Longrightarrow> wp (modSC f) Q h"
  by (simp add: wp_def modSC_def)

lemma wp_sevent:
  "Q () (h\<lparr>sx_calls := sx_calls h @ [SEvent t ty rs m]\<rparr>) \<Longrightarrow> wp (sevent t ty rs m) Q h"
  by (simp add: wp_def sevent_def)

lemma wp_writeSC:
  "(\<And>e s sc. Q e (h\<lparr>sx_srv := s, sx_sc := sc, sx_calls := sx_calls h @ [mk (sx_sc h) e]\<rparr>)) \<Longrightarrow>
   wp (writeSC act mk) Q h"
  by (simp add: wp_def writeSC_def split: prod.splits)

lemmas sc_steps = wp_bind wp_return wp_option wp_sum wp_let wp_sapi wp_getSC wp_modSC wp_sevent wp_writeSC

text \<open>\<open>ends cs phase\<close>: the calls \<open>cs\<close> were made, followed by a write of a terminal status.\<close>

definition ends :: "sc_call list \<Rightarrow> string \<Rightarrow> Result \<times> go_error option \<Rightarrow> 's sctx \<Rightarrow> bool" where
  "ends cs phase out h \<longleftrightarrow> (\<exists>n sc' err.
     sx_calls h = cs @ [SNow n, SStatusUpdate sc' err] \<and> sct_Phase (osc_Status sc') = phase \<and>
     sct_CompletionTime (osc_Status sc') = Some n \<and>
     out = (if err = None then requeueIn SelfConfigTTL else noResult, err))"

lemma wp_setTerminalStatus: "wp (setTerminalStatus r phase msg) (ends (sx_calls h) phase) h"
  unfolding setTerminalStatus_def ends_def by (intro sc_steps) auto

lemma wp_removalWarnings:
  "wp (removalWarnings kind owned fm names)
     (\<lambda>ws h'. sx_sc h' = sx_sc h \<and> (\<exists>evs. sx_calls h' = sx_calls h @ evs \<and> list_all isEvent evs)) h"
proof (induction names arbitrary: h)
  case Nil
  then show ?case by (auto intro: wp_return)
next
  case (Cons name names)
  show ?case
    by (auto simp: Let_def intro!: wp_bind wp_sevent wp_return wp_mono [OF Cons.IH])
qed

lemma wp_ownerReference:
  "wp (ownerReference r inst) (\<lambda>_ h'. \<exists>upd. sx_calls h' = sx_calls h @ upd \<and> list_all isOwnerUpdate upd) h"
  unfolding ownerReference_def by (intro sc_steps) auto

definition decided ::
    "'s SelfConfigReconciler \<Rightarrow> OpenClawSelfConfig \<Rightarrow> go_error + OpenClawInstance \<Rightarrow> sc_call list \<Rightarrow>
     Result \<times> go_error option \<Rightarrow> 's sctx \<Rightarrow> bool" where
  "decided r sc ires cs out h \<longleftrightarrow> (\<exists>mid phase. verdict r sc ires mid phase \<and> ends (cs @ mid) phase out h)"

lemma wp_decide:
  assumes "verdict r sc ires mid phase" "sx_calls h = cs @ mid"
  shows "wp (setTerminalStatus r phase msg) (decided r sc ires cs) h"
  using wp_setTerminalStatus [of r phase msg h]
  by (rule wp_mono) (use assms in \<open>auto simp: decided_def\<close>)

lemma wp_sendApply:
  assumes auth: "authorised inst (osc_Spec sc)"
    and build: "buildApplySpec (sr_JsonError r) inst (osc_Spec sc) (determineActions (osc_Spec sc)) = Inr spec"
    and "\<exists>evs. sx_calls h = cs @ evs \<and> list_all isEvent evs"
  shows "wp (sendApply r inst spec warnings) (decided r sc (Inr inst) cs) h"
proof -
  obtain evs where evs: "sx_calls h = cs @ evs" "list_all isEvent evs" using assms(3) by blast
  show ?thesis
  proof (cases "sr_ToUnstructured r GroupVersion ''OpenClawInstance'' (typedObj inst spec)")
    case (Inl e)
    then show ?thesis
      using evs by (simp add: sendApply_def wp_decide [OF verdict.unconverted [OF auth build Inl]])
  next
    case (Inr u)
    note bad = verdict.rejected [OF auth build Inr evs(2)] and good = verdict.applied [OF auth build Inr evs(2)]
    show ?thesis
      unfolding sendApply_def Inr sum.case
    proof (intro wp_bind wp_sapi wp_option)
      let ?h = "\<lambda>s a. h\<lparr>sx_srv := s, sx_calls := sx_calls h @ [SApply u SelfConfigFieldManager True a]\<rparr>"
      show "wp (setTerminalStatus r SelfConfigPhaseFailed m) (decided r sc (Inr inst) cs) (?h s a)"
        if "a = Some e" for s a e m
        by (rule wp_decide [OF bad [of e]]) (simp add: that evs)
    qed (rule wp_mono [OF wp_ownerReference],
        auto intro!: wp_bind wp_getSC wp_sevent wp_decide [OF good] simp: evs)
  qed
qed

lemma wp_applyRequest:
  assumes "authorised inst (osc_Spec sc)"
    "buildApplySpec (sr_JsonError r) inst (osc_Spec sc) (determineActions (osc_Spec sc)) = Inr spec"
  shows "wp (applyRequest r inst spec) (decided r sc (Inr inst) (sx_calls h)) h"
  unfolding applyRequest_def Let_def
  apply (intro wp_bind wp_getSC)
  apply (rule wp_mono [OF wp_removalWarnings], elim conjE exE, rule wp_bind)
  apply (rule wp_mono [OF wp_removalWarnings], elim conjE exE, rule wp_bind)
  apply (rule wp_mono [OF wp_removalWarnings], elim conjE exE)
  apply (rule wp_sendApply [OF assms], simp)
  done

lemma wp_processRequest:
  assumes "sx_sc h = sc"
  shows "wp (processRequest r inst) (decided r sc (Inr inst) (sx_calls h)) h"
  unfolding processRequest_def Let_def
proof (intro wp_bind wp_getSC wp_if wp_sum wp_sevent, unfold assms)
  let ?on = "scf_Enabled (spec_SelfConfigure (oci_Spec inst))" and ?acts = "determineActions (osc_Spec sc)"
  let ?denied = "checkAllowedActions ?acts (scf_AllowedActions (spec_SelfConfigure (oci_Spec inst)))"
  show "wp (setTerminalStatus r SelfConfigPhaseDenied m) (decided r sc (Inr inst) (sx_calls h)) h" if "\<not> ?on" for m
    by (rule wp_decide [OF verdict.disabled]) (use that in auto)
  show "wp (setTerminalStatus r SelfConfigPhaseFailed m) (decided r sc (Inr inst) (sx_calls h)) h"
    if "\<not> \<not> ?on" "?acts = []" for m
    by (rule wp_decide [OF verdict.noActions]) (use that in auto)
  show "wp (setTerminalStatus r SelfConfigPhaseDenied m) (decided r sc (Inr inst) (sx_calls h))
      (h\<lparr>sx_calls := sx_calls h @ [SEvent t ty rs m']\<rparr>)"
    if "\<not> \<not> ?on" "?denied \<noteq> []" for m m' t ty rs
    by (rule wp_decide [OF verdict.notAllowed])
      (use that in \<open>auto simp: authorised_def checkAllowedActions_Nil\<close>)
  have auth: "authorised inst (osc_Spec sc)" if "\<not> \<not> ?on" "?acts \<noteq> []" "\<not> ?denied \<noteq> []"
    using that by (simp add: authorised_def checkAllowedActions_Nil)
  show "wp (setTerminalStatus r SelfConfigPhaseFailed m) (decided r sc (Inr inst) (sx_calls h)) h"
    if "\<not> \<not> ?on" "?acts \<noteq> []" "\<not> ?denied \<noteq> []"
      "buildApplySpec (sr_JsonError r) inst (osc_Spec sc) ?acts = Inl e" for m e
    by (rule wp_decide [OF verdict.invalid]) (use that auth in auto)
  show "wp (applyRequest r inst spec) (decided r sc (Inr inst) (sx_calls h)) h"
    if "\<not> \<not> ?on" "?acts \<noteq> []" "\<not> ?denied \<noteq> []"
      "buildApplySpec (sr_JsonError r) inst (osc_Spec sc) ?acts = Inr spec" for spec
    using auth that by (intro wp_applyRequest)
qed

lemma wp_expire:
  assumes "sx_sc h = sc" "isTerminal (sct_Phase (osc_Status sc))"
    "sx_calls h = [SGetSelfConfig name namespace (Inr sc)]"
  shows "wp (expire r) (\<lambda>out h'. sc_trace r name namespace (sx_calls h') out) h"
  unfolding expire_def
  by (intro sc_steps wp_if)
    (use assms in \<open>auto intro: sc_trace.untimed sc_trace.waiting sc_trace.expired\<close>)

lemma decided_trace:
  assumes "\<not> isTerminal (sct_Phase (osc_Status sc))"
    "decided r sc ires [SGetSelfConfig name namespace (Inr sc),
       SGetInstance (scs_InstanceRef (osc_Spec sc)) (om_Namespace (osc_Meta sc)) ires] out h'"
  shows "sc_trace r name namespace (sx_calls h') out"
proof -
  obtain mid n sc' err where v: "verdict r sc ires mid (sct_Phase (osc_Status sc'))"
      "sct_CompletionTime (osc_Status sc') = Some n"
    and h: "sx_calls h' = [SGetSelfConfig name namespace (Inr sc),
        SGetInstance (scs_InstanceRef (osc_Spec sc)) (om_Namespace (osc_Meta sc)) ires]
        @ mid @ [SNow n, SStatusUpdate sc' err]" "out = (if err = None then requeueIn SelfConfigTTL else noResult, err)"
    using assms(2) by (auto simp: decided_def ends_def)
  show ?thesis unfolding h by (rule sc_trace.finished [OF assms(1) v(1) refl v(2)])
qed

lemma wp_Reconcile:
  assumes "sx_calls h = []"
  shows "wp (Reconcile r name namespace) (\<lambda>out h'. sc_trace r name namespace (sx_calls h') out) h"
  unfolding Reconcile_def
proof (intro wp_bind wp_sapi wp_sum wp_if wp_return wp_modSC)
  let ?Q = "\<lambda>out h'. sc_trace r name namespace (sx_calls h') out"
  let ?get = "\<lambda>a s. h\<lparr>sx_srv := s, sx_calls := sx_calls h @ [SGetSelfConfig name namespace a]\<rparr>"
  show "?Q (noResult, None) (?get a s)" if "a = Inl e" "isNotFound e" for a s e
    using assms that sc_trace.lost [of r name namespace e] by simp
  show "?Q (noResult, Some e) (?get a s)" if "a = Inl e" "\<not> isNotFound e" for a s e
    using assms that sc_trace.lost [of r name namespace e] by simp
  fix a :: "go_error + OpenClawSelfConfig" and s sc assume a: "a = Inr sc"
  let ?h = "(?get a s)\<lparr>sx_sc := sc\<rparr>"
  show "wp (expire r) ?Q ?h" if "isTerminal (sct_Phase (osc_Status sc))"
    using assms that by (intro wp_expire) (simp_all add: a)
  assume open': "\<not> isTerminal (sct_Phase (osc_Status sc))"
  let ?inst = "\<lambda>b t. ?h\<lparr>sx_srv := t, sx_calls := sx_calls ?h @
    [SGetInstance (scs_InstanceRef (osc_Spec sc)) (om_Namespace (osc_Meta sc)) b]\<rparr>"
  show "wp (setTerminalStatus r SelfConfigPhaseFailed m) ?Q (?inst b t)" if "b = Inl e" "isNotFound e" for m b t e
    by (rule wp_mono [OF wp_decide [OF verdict.noInstance [OF that(2)]] decided_trace [OF open']])
      (simp_all add: assms that a)
  show "?Q (noResult, Some e) (?inst b t)" if "b = Inl e" "\<not> isNotFound e" for b t e
    using sc_trace.unread [OF open' that(2)] by (simp add: that assms a)
  show "wp (processRequest r inst) ?Q (?inst b t)" if "b = Inr inst" for b t inst
    by (rule wp_mono [OF wp_processRequest [OF refl] decided_trace [OF open']]) (simp add: assms that a)
qed

end
