(* ===== verification/SelfConfigProps.thy ===== *)
theory SelfConfigProps
  imports SelfConfigController
begin

text \<open>
  The properties of self-configuration requests: what one reconciliation may do, who may change
  what on an instance, and what the builders of selfconfig_apply.go put into the applied spec.
\<close>

section \<open>A concrete cluster\<close>

text \<open>One request and one instance; every call succeeds, and a status write replaces the request.\<close>

record ScMem =
  sm_SC :: OpenClawSelfConfig
  sm_Inst :: OpenClawInstance
  sm_Time :: int

definition scMemRec :: "ScMem SelfConfigReconciler" where
  "scMemRec =
     \<lparr>sr_Now = State (\<lambda>s. (sm_Time s, s)),
      sr_GetSelfConfig = (\<lambda>n ns. State (\<lambda>s. (Inr (sm_SC s), s))),
      sr_GetInstance = (\<lambda>n ns. State (\<lambda>s. (Inr (sm_Inst s), s))),
      sr_Delete = (\<lambda>sc. State (\<lambda>s. (None, s))),
      sr_StatusUpdate = (\<lambda>sc. State (\<lambda>s. (Inr sc, s\<lparr>sm_SC := sc\<rparr>))),
      sr_Update = (\<lambda>sc. State (\<lambda>s. (Inr sc, s\<lparr>sm_SC := sc\<rparr>))),
      sr_Apply = (\<lambda>u m f. State (\<lambda>s. (None, s))),
      sr_ToUnstructured = (\<lambda>v k i. Inr [(''kind'', JStr k)]),
      sr_SetOwnerReference = (\<lambda>i sc. Inr sc),
      sr_JsonError = (\<lambda>b. ''invalid'')\<rparr>"

definition skillRequest :: OpenClawSelfConfigSpec where
  "skillRequest = zero_OpenClawSelfConfigSpec\<lparr>scs_InstanceRef := ''demo'', scs_AddSkills := [''web'']\<rparr>"

definition openRequest :: OpenClawSelfConfig where
  "openRequest = \<lparr>osc_Meta = zero_ObjectMeta\<lparr>om_Name := ''req''\<rparr>, osc_Spec = skillRequest,
     osc_Status = zero_OpenClawSelfConfigStatus\<rparr>"

definition doneRequest :: OpenClawSelfConfig where
  "doneRequest = openRequest\<lparr>osc_Status :=
     \<lparr>sct_Phase = SelfConfigPhaseApplied, sct_Message = [], sct_CompletionTime = Some 0\<rparr>\<rparr>"

definition openInst :: OpenClawInstance where
  "openInst = zero_OpenClawInstance\<lparr>oci_Spec := zero_OpenClawInstanceSpec\<lparr>spec_SelfConfigure :=
     \<lparr>scf_Enabled = True, scf_AllowedActions = [SelfConfigActionSkills]\<rparr>\<rparr>\<rparr>"

definition scStart :: "OpenClawSelfConfig \<Rightarrow> int \<Rightarrow> ScMem sctx" where
  "scStart sc t = \<lparr>sx_srv = \<lparr>sm_SC = sc, sm_Inst = openInst, sm_Time = t\<rparr>, sx_sc = sc, sx_calls = []\<rparr>"

lemma sc_run_defs:
  "run_state (sapi m mk) h = (case run_state m (sx_srv h) of
     (a, s) \<Rightarrow> (a, h\<lparr>sx_srv := s, sx_calls := sx_calls h @ [mk a]\<rparr>))"
  "run_state getSC h = (sx_sc h, h)" "run_state (modSC f) h = ((), h\<lparr>sx_sc := f (sx_sc h)\<rparr>)"
  "run_state (sevent t ty rs msg) h = ((), h\<lparr>sx_calls := sx_calls h @ [SEvent t ty rs msg]\<rparr>)"
  "run_state (writeSC act wr) h = (case run_state (act (sx_sc h)) (sx_srv h) of
     (r, s) \<Rightarrow> (errOf r, h\<lparr>sx_srv := s, sx_sc := (case r of Inl _ \<Rightarrow> sx_sc h | Inr i \<Rightarrow> i),
         sx_calls := sx_calls h @ [wr (sx_sc h) (errOf r)]\<rparr>))"
  by (simp_all add: sapi_def getSC_def modSC_def sevent_def writeSC_def)

lemma openRequest_actions: "determineActions skillRequest = [SelfConfigActionSkills]"
  by (simp add: determineActions_def skillRequest_def zero_OpenClawSelfConfigSpec_def)

lemma openRequest_build:
  "\<exists>spec. buildApplySpec jerr openInst skillRequest [SelfConfigActionSkills] = Inr spec"
  by (simp add: buildApplySpec_def applyAction_simps)

definition doneStatus :: "int \<Rightarrow> OpenClawSelfConfigStatus" where
  "doneStatus t = \<lparr>sct_Phase = SelfConfigPhaseApplied, sct_Message = ''changes applied successfully'',
     sct_CompletionTime = Some t\<rparr>"

definition openCalls :: "sc_call list" where
  "openCalls =
     [SGetSelfConfig ''req'' [] (Inr openRequest), SGetInstance ''demo'' [] (Inr openInst),
      SApply [(''kind'', JStr ''OpenClawInstance'')] SelfConfigFieldManager True None,
      SUpdate openRequest None,
      SEvent ''selfconfig'' EventNormal ''Applied'' ''self-config request applied successfully'',
      SEvent ''instance'' EventNormal ''SelfConfigApplied''
        (''self-config request '' @ quoteStr ''req'' @ '' applied''),
      SNow 7, SStatusUpdate (openRequest\<lparr>osc_Status := doneStatus 7\<rparr>) None]"

lemmas request_sel = openRequest_def skillRequest_def zero_OpenClawSelfConfigSpec_def zero_ObjectMeta_def
  zero_OpenClawSelfConfigStatus_def

lemma openRequest_sel:
  "osc_Spec openRequest = skillRequest" "scs_InstanceRef skillRequest = ''demo''"
  "om_Namespace (osc_Meta openRequest) = []" "om_Name (osc_Meta openRequest) = ''req''"
  "sct_Phase (osc_Status openRequest) = []"
  "scs_RemoveSkills skillRequest = []" "scs_RemoveEnvVars skillRequest = []"
  "scs_RemoveWorkspaceFiles skillRequest = []"
  "spec_SelfConfigure (oci_Spec openInst) = \<lparr>scf_Enabled = True, scf_AllowedActions = [SelfConfigActionSkills]\<rparr>"
  "\<not> isTerminal []"
  by (simp_all add: request_sel openInst_def isTerminal_def SelfConfigPhaseApplied_def SelfConfigPhaseFailed_def
      SelfConfigPhaseDenied_def)

lemma openRequest_apply:
  assumes "sx_sc h = openRequest" "sx_srv h = \<lparr>sm_SC = openRequest, sm_Inst = openInst, sm_Time = 7\<rparr>"
    "sx_calls h = take 2 openCalls"
  shows "wp (applyRequest scMemRec openInst spec)
    (\<lambda>out h'. out = (requeueIn SelfConfigTTL, None) \<and> sx_calls h' = openCalls) h"
  by (simp add: wp_def applyRequest_def sendApply_def ownerReference_def setTerminalStatus_def sc_run_defs
      scMemRec_def openRequest_sel assms openCalls_def errOf_def doneStatus_def)

lemma openRequest_run:
  "wp (Reconcile scMemRec ''req'' [])
    (\<lambda>out h'. out = (requeueIn SelfConfigTTL, None) \<and> sx_calls h' = openCalls) (scStart openRequest 7)"
proof -
  obtain spec where spec: "buildApplySpec (sr_JsonError scMemRec) openInst skillRequest [SelfConfigActionSkills] = Inr spec"
    using openRequest_build by blast
  have "wp (processRequest scMemRec openInst)
      (\<lambda>out h'. out = (requeueIn SelfConfigTTL, None) \<and> sx_calls h' = openCalls) h"
    if "sx_sc h = openRequest" "sx_srv h = \<lparr>sm_SC = openRequest, sm_Inst = openInst, sm_Time = 7\<rparr>"
      "sx_calls h = take 2 openCalls" for h
    unfolding processRequest_def
    by (intro wp_bind wp_getSC)
      (use spec that in \<open>simp add: openRequest_sel openRequest_actions checkAllowedActions_def openRequest_apply\<close>)
  then show ?thesis
    unfolding Reconcile_def
    by (simp add: wp_def sc_run_defs scMemRec_def scStart_def openRequest_sel openCalls_def split: prod.splits)
qed

section \<open>The controller\<close>

lemmas terminal_phases = isTerminal_def SelfConfigPhaseApplied_def SelfConfigPhaseFailed_def SelfConfigPhaseDenied_def

lemma event_not_call:
  "list_all isEvent evs \<Longrightarrow> SApply u m f e \<notin> set evs" "list_all isEvent evs \<Longrightarrow> SDelete sc e \<notin> set evs"
  "list_all isOwnerUpdate evs \<Longrightarrow> SApply u m f e \<notin> set evs"
  "list_all isOwnerUpdate evs \<Longrightarrow> SDelete sc e \<notin> set evs"
  by (auto simp: list_all_iff)

lemma verdict_apply:
  assumes "verdict r sc ires mid phase"
  shows "(SApply u m f e \<in> set mid \<longrightarrow> (\<exists>inst spec. ires = Inr inst \<and> authorised inst (osc_Spec sc) \<and>
      buildApplySpec (sr_JsonError r) inst (osc_Spec sc) (determineActions (osc_Spec sc)) = Inr spec \<and>
      sr_ToUnstructured r GroupVersion ''OpenClawInstance'' (typedObj inst spec) = Inr u \<and>
      m = SelfConfigFieldManager \<and> f)) \<and>
    isTerminal phase \<and> (phase = SelfConfigPhaseApplied \<longleftrightarrow> (\<exists>u m f. SApply u m f None \<in> set mid)) \<and>
    SDelete sc' e' \<notin> set mid"
  using assms by (cases rule: verdict.cases) (auto simp: event_not_call terminal_phases split: sc_call.splits)

text \<open>
  C17: One reconciliation of a self-configuration request makes only calls the contract
  \<^const>\<open>sc_trace\<close> allows, in that order, and returns what the contract says: a request that
  cannot be read ends the run, a finished one only waits or is deleted, an open one is decided by
  \<^const>\<open>verdict\<close> and ends with a write of its terminal status.
\<close>

theorem Reconcile_refines_contract:
  assumes "sx_calls h = []" "run_state (Reconcile r name namespace) h = (out, h')"
  shows "sc_trace r name namespace (sx_calls h') out"
  using wp_run [OF wp_Reconcile [OF assms(1)] assms(2)] .

theorem Reconcile_refines_contract_witness:
  "sc_trace scMemRec ''req'' []
     (sx_calls (snd (run_state (Reconcile scMemRec ''req'' []) (scStart openRequest 7))))
     (fst (run_state (Reconcile scMemRec ''req'' []) (scStart openRequest 7)))"
  by (rule Reconcile_refines_contract [of "scStart openRequest 7"]) (simp_all add: scStart_def)

text \<open>
  C18: An instance is changed by a request only if the request was still open, self-configuration
  is enabled on the instance, every action the request uses is on the instance's list of allowed
  actions, and the object applied is the partial spec built from them; it is applied under the
  operator's own field manager.
\<close>

theorem self_config_authorised:
  assumes "sx_calls h = []" "run_state (Reconcile r name namespace) h = (out, h')"
    "SApply u manager force e \<in> set (sx_calls h')"
  shows "\<exists>sc inst spec. SGetSelfConfig name namespace (Inr sc) \<in> set (sx_calls h') \<and>
      SGetInstance (scs_InstanceRef (osc_Spec sc)) (om_Namespace (osc_Meta sc)) (Inr inst) \<in> set (sx_calls h') \<and>
      \<not> isTerminal (sct_Phase (osc_Status sc)) \<and>
      scf_Enabled (spec_SelfConfigure (oci_Spec inst)) \<and>
      set (determineActions (osc_Spec sc)) \<subseteq> set (scf_AllowedActions (spec_SelfConfigure (oci_Spec inst))) \<and>
      buildApplySpec (sr_JsonError r) inst (osc_Spec sc) (determineActions (osc_Spec sc)) = Inr spec \<and>
      sr_ToUnstructured r GroupVersion ''OpenClawInstance'' (typedObj inst spec) = Inr u \<and>
      manager = SelfConfigFieldManager"
  using wp_run [OF wp_Reconcile [OF assms(1)] assms(2)]
proof (cases rule: sc_trace.cases)
  case (finished sc ires mid phase sc' n err)
  with assms(3) have "SApply u manager force e \<in> set mid" by auto
  then obtain inst spec where "ires = Inr inst" "authorised inst (osc_Spec sc)"
      "buildApplySpec (sr_JsonError r) inst (osc_Spec sc) (determineActions (osc_Spec sc)) = Inr spec"
      "sr_ToUnstructured r GroupVersion ''OpenClawInstance'' (typedObj inst spec) = Inr u"
      "manager = SelfConfigFieldManager"
    using verdict_apply [OF finished(4)] by blast
  with finished show ?thesis by (intro exI [of _ sc] exI [of _ inst] exI [of _ spec]) (auto simp: authorised_def)
qed (use assms(3) in auto)

theorem self_config_authorised_witness:
  "\<exists>sc inst. SGetSelfConfig ''req'' [] (Inr sc) \<in> set openCalls \<and>
     SGetInstance (scs_InstanceRef (osc_Spec sc)) (om_Namespace (osc_Meta sc)) (Inr inst) \<in> set openCalls \<and>
     scf_Enabled (spec_SelfConfigure (oci_Spec inst)) \<and>
     set (determineActions (osc_Spec sc)) \<subseteq> set (scf_AllowedActions (spec_SelfConfigure (oci_Spec inst)))"
proof -
  obtain out h' where run: "run_state (Reconcile scMemRec ''req'' []) (scStart openRequest 7) = (out, h')"
    by (cases "run_state (Reconcile scMemRec ''req'' []) (scStart openRequest 7)") auto
  have calls: "sx_calls h' = openCalls" using wp_run [OF openRequest_run run] by blast
  have start: "sx_calls (scStart openRequest 7) = []" by (simp add: scStart_def)
  have "SApply [(''kind'', JStr ''OpenClawInstance'')] SelfConfigFieldManager True None \<in> set (sx_calls h')"
    unfolding calls openCalls_def by simp
  from self_config_authorised [OF start run this] show ?thesis
    unfolding calls by blast
qed

text \<open>
  C20: A request in a terminal phase is never carried out or rewritten again: reading it leads to
  no apply call, no status write and no update of the request, and it is deleted only when its
  completion time lies at least the time to live in the past; before that the run asks to be
  repeated no later than at the end of that time.
\<close>

theorem terminal_request_frozen:
  assumes "sx_calls h = []" "run_state (Reconcile r name namespace) h = (out, h')"
    "SGetSelfConfig name namespace (Inr sc) \<in> set (sx_calls h')" "isTerminal (sct_Phase (osc_Status sc))"
  shows "\<exists>extra. sx_calls h' = SGetSelfConfig name namespace (Inr sc) # extra \<and>
    (extra = [] \<and> sct_CompletionTime (osc_Status sc) = None \<or>
     (\<exists>completed n. sct_CompletionTime (osc_Status sc) = Some completed \<and>
        (extra = [SNow n] \<and> since n completed < SelfConfigTTL \<and>
           out = (requeueIn (SelfConfigTTL - since n completed), None) \<or>
         (\<exists>err. extra = [SNow n, SDelete sc err] \<and> SelfConfigTTL \<le> since n completed))))"
  using wp_run [OF wp_Reconcile [OF assms(1)] assms(2)]
proof (cases rule: sc_trace.cases)
  case (finished sc2 ires mid phase sc' n err)
  have "SGetSelfConfig name namespace (Inr sc) \<notin> set mid"
    using finished(4) by (cases rule: verdict.cases) (auto simp: list_all_iff)
  with finished assms(3,4) show ?thesis by auto
qed (use assms(3,4) in auto)

lemma doneRequest_run:
  "wp (Reconcile scMemRec ''req'' []) (\<lambda>out h'. sx_calls h' =
     [SGetSelfConfig ''req'' [] (Inr doneRequest), SNow (2 * Hour), SDelete doneRequest None])
     (scStart doneRequest (2 * Hour))"
  unfolding Reconcile_def
  by (simp add: wp_def expire_def sc_run_defs scMemRec_def scStart_def doneRequest_def isTerminal_def since_def
      SelfConfigTTL_def time_units)

theorem terminal_request_frozen_witness:
  "\<exists>n. SelfConfigTTL \<le> since n 0 \<and>
     SDelete doneRequest None \<in>
       set (sx_calls (snd (run_state (Reconcile scMemRec ''req'' []) (scStart doneRequest (2 * Hour)))))"
proof -
  obtain out h' where run: "run_state (Reconcile scMemRec ''req'' []) (scStart doneRequest (2 * Hour)) = (out, h')"
    by (cases "run_state (Reconcile scMemRec ''req'' []) (scStart doneRequest (2 * Hour))") auto
  have calls: "sx_calls h' = [SGetSelfConfig ''req'' [] (Inr doneRequest), SNow (2 * Hour), SDelete doneRequest None]"
    by (rule wp_run [OF doneRequest_run run])
  have start: "sx_calls (scStart doneRequest (2 * Hour)) = []" by (simp add: scStart_def)
  have "SGetSelfConfig ''req'' [] (Inr doneRequest) \<in> set (sx_calls h')" "isTerminal (sct_Phase (osc_Status doneRequest))"
    by (simp_all add: calls doneRequest_def isTerminal_def)
  from terminal_request_frozen [OF start run this] show ?thesis
    unfolding calls run by (auto simp: calls doneRequest_def)
qed

text \<open>
  C19: A run that reads an open request and its instance (or learns that the instance does not
  exist) and returns no error has ended the request: its last call is a successful write of a
  terminal status with a completion time, and the phase written is Applied exactly when the apply
  call succeeded.
\<close>

theorem open_request_decided:
  assumes "sx_calls h = []" "run_state (Reconcile r name namespace) h = ((res, None), h')"
    "SGetInstance iname ns reply \<in> set (sx_calls h')"
  shows "\<exists>sc'. last (sx_calls h') = SStatusUpdate sc' None \<and> isTerminal (sct_Phase (osc_Status sc')) \<and>
    sct_CompletionTime (osc_Status sc') \<noteq> None \<and> res = requeueIn SelfConfigTTL \<and>
    (sct_Phase (osc_Status sc') = SelfConfigPhaseApplied \<longleftrightarrow>
       (\<exists>u m f. SApply u m f None \<in> set (sx_calls h')))"
  using wp_run [OF wp_Reconcile [OF assms(1)] assms(2)]
proof (cases rule: sc_trace.cases)
  case (finished sc ires mid phase sc' n)
  with verdict_apply [OF finished(4)] show ?thesis by (auto simp: HOL.induct_true_def)
qed (use assms(3) in \<open>auto split: if_splits\<close>)

theorem open_request_decided_witness:
  "\<exists>sc'. last openCalls = SStatusUpdate sc' None \<and> sct_Phase (osc_Status sc') = SelfConfigPhaseApplied"
proof -
  obtain out h' where run: "run_state (Reconcile scMemRec ''req'' []) (scStart openRequest 7) = (out, h')"
    by (cases "run_state (Reconcile scMemRec ''req'' []) (scStart openRequest 7)") auto
  have calls: "sx_calls h' = openCalls" and out: "out = (requeueIn SelfConfigTTL, None)"
    using wp_run [OF openRequest_run run] by blast+
  have start: "sx_calls (scStart openRequest 7) = []" by (simp add: scStart_def)
  have "SGetInstance ''demo'' [] (Inr openInst) \<in> set (sx_calls h')"
    "SApply [(''kind'', JStr ''OpenClawInstance'')] SelfConfigFieldManager True None \<in> set (sx_calls h')"
    unfolding calls openCalls_def by simp_all
  with open_request_decided [OF start run [unfolded out]] show ?thesis unfolding calls by metis
qed

section \<open>What a request may change\<close>

text \<open>
  The skills of the applied spec are the current skills followed by the added ones without
  the removed ones, each once, at the place of its first occurrence.
\<close>

theorem self_config_skills:
  "buildSkillsApply current sc =
     keepFirst (filter (\<lambda>s. s \<notin> set (scs_RemoveSkills sc)) (current @ scs_AddSkills sc)) \<and>
   distinct (buildSkillsApply current sc) \<and>
   set (buildSkillsApply current sc) = (set current \<union> set (scs_AddSkills sc)) - set (scs_RemoveSkills sc)"
  by (auto simp: buildSkillsApply_eq)

text \<open>
  The environment of the applied spec, name by name. A protected variable is as it was; a
  variable that is only removed is gone; an added variable is there with an added value (the last
  one if the variable existed and was kept, the first one if it is new); every other variable is
  as it was.
\<close>

theorem self_config_env:
  assumes "buildEnvApply current sc = Inr env"
  shows "(n \<in> set protectedEnvVars \<longrightarrow> namedVars n env = namedVars n current) \<and>
    namedVars n env =
      (let kept = (if n \<in> set (scs_RemoveEnvVars sc) then [] else namedVars n current)
       in case firstValue n (scs_AddEnvVars sc) of
            None \<Rightarrow> kept
          | Some v \<Rightarrow> if kept = [] then [envVal n v]
                     else map (\<lambda>ev. envVal n (the (lastValue n (scs_AddEnvVars sc)))) kept)"
proof
  show "n \<in> set protectedEnvVars \<longrightarrow> namedVars n env = namedVars n current"
  proof
    assume n: "n \<in> set protectedEnvVars"
    have "set (map sce_Name (scs_AddEnvVars sc)) \<inter> set protectedEnvVars = {}"
      "set (scs_RemoveEnvVars sc) \<inter> set protectedEnvVars = {}"
      using assms buildEnvApply_Inr [of current sc] by blast+
    with n have "n \<notin> sce_Name ` set (scs_AddEnvVars sc)" "n \<notin> set (scs_RemoveEnvVars sc)" by auto
    then show "namedVars n env = namedVars n current"
      using values_None(1) [of n "scs_AddEnvVars sc"] by (simp add: buildEnvApply_vars [OF assms])
  qed
qed (rule buildEnvApply_vars [OF assms])

definition envRequest :: OpenClawSelfConfigSpec where
  "envRequest = zero_OpenClawSelfConfigSpec\<lparr>scs_AddEnvVars := [\<lparr>sce_Name = ''A'', sce_Value = ''1''\<rparr>],
     scs_RemoveEnvVars := [''B'']\<rparr>"

theorem self_config_env_witness:
  "\<exists>env. buildEnvApply [envVal ''B'' ''2'', envVal ''HOME'' ''/h''] envRequest = Inr env \<and>
     namedVars ''HOME'' env = [envVal ''HOME'' ''/h''] \<and> namedVars ''A'' env = [envVal ''A'' ''1''] \<and>
     namedVars ''B'' env = []"
proof -
  have "set (map sce_Name (scs_AddEnvVars envRequest)) \<inter> set protectedEnvVars = {} \<and>
      set (scs_RemoveEnvVars envRequest) \<inter> set protectedEnvVars = {}"
    by (simp add: envRequest_def protectedEnvVars_def zero_OpenClawSelfConfigSpec_def)
  then obtain env where env: "buildEnvApply [envVal ''B'' ''2'', envVal ''HOME'' ''/h''] envRequest = Inr env"
    using buildEnvApply_Inr by blast
  show ?thesis
    using self_config_env [OF env, of "''HOME''"] self_config_env [OF env, of "''A''"] self_config_env [OF env, of "''B''"] env
    by (simp add: envRequest_def zero_OpenClawSelfConfigSpec_def firstValue_def)
qed

text \<open>
  C21: The configuration a request applies is its patch merged into the current configuration: the
  gateway subtree is the current one, every value the patch holds at the end of a path is set, and
  every path on which the patch names no key keeps its value. The patch is a decoded JSON object,
  in which no object has a key twice.
\<close>

theorem self_config_patch:
  assumes "buildConfigApply jerr (Some (Doc (JObj base))) sc = Inr (Some raw)"
    "scs_ConfigPatch sc = Some (Doc (JObj p))" "wf_json (JObj p)"
  shows "\<exists>m. raw = Doc (JObj m) \<and> map_of m ''gateway'' = map_of base ''gateway'' \<and>
    (\<forall>ks v. jlookup (JObj p) ks = Some v \<longrightarrow> \<not> isObj v \<longrightarrow> jlookup (JObj m) ks = Some v) \<and>
    (\<forall>ks v. leaves (JObj p) ks \<longrightarrow> jlookup (JObj base) ks = Some v \<longrightarrow> jlookup (JObj m) ks = Some v)"
proof -
  have raw: "raw = Doc (JObj (deepMerge base p))" "''gateway'' \<notin> fst ` set p"
    using assms(1,2) by (auto elim!: buildConfigApply_Some)
  have "map_of (deepMerge base p) ''gateway'' = map_of base ''gateway''"
    using raw(2) assms(3) by (simp add: map_of_deepMerge wf_json_distinct split: option.split)
      (metis fst_conv image_eqI map_of_SomeD)
  with raw(1) assms(3) show ?thesis
    by (auto intro: jlookup_deepMerge_set jlookup_deepMerge_keep)
qed

definition patchRequest :: OpenClawSelfConfigSpec where
  "patchRequest = zero_OpenClawSelfConfigSpec\<lparr>scs_ConfigPatch :=
     Some (Doc (JObj [(''ui'', JObj [(''theme'', JStr ''dark'')])]))\<rparr>"

theorem self_config_patch_witness:
  "\<exists>m. buildConfigApply (\<lambda>_. []) (Some (Doc (JObj [(''gateway'', JStr ''g''), (''ui'', JObj [(''lang'', JStr ''en'')])]))) patchRequest
       = Inr (Some (Doc (JObj m))) \<and>
     map_of m ''gateway'' = Some (JStr ''g'') \<and> jlookup (JObj m) [''ui'', ''theme''] = Some (JStr ''dark'') \<and>
     jlookup (JObj m) [''ui'', ''lang''] = Some (JStr ''en'')"
proof -
  let ?base = "[(''gateway'', JStr ''g''), (''ui'', JObj [(''lang'', JStr ''en'')])]"
  have patch: "scs_ConfigPatch patchRequest = Some (Doc (JObj [(''ui'', JObj [(''theme'', JStr ''dark'')])]))"
    by (simp add: patchRequest_def)
  then obtain raw where raw: "buildConfigApply (\<lambda>_. []) (Some (Doc (JObj ?base))) patchRequest = Inr (Some raw)"
    by (simp add: buildConfigApply_def bytesEmpty_def protectedConfigKeys_def)
  have "wf_json (JObj [(''ui'', JObj [(''theme'', JStr ''dark'')])])" by (simp add: wf_json.simps)
  from self_config_patch [OF raw patch this] obtain m where m: "raw = Doc (JObj m)" "map_of m ''gateway'' = Some (JStr ''g'')"
    and set: "\<And>ks v. jlookup (JObj [(''ui'', JObj [(''theme'', JStr ''dark'')])]) ks = Some v \<Longrightarrow> \<not> isObj v \<Longrightarrow>
      jlookup (JObj m) ks = Some v"
    and keep: "\<And>ks v. leaves (JObj [(''ui'', JObj [(''theme'', JStr ''dark'')])]) ks \<Longrightarrow>
      jlookup (JObj ?base) ks = Some v \<Longrightarrow> jlookup (JObj m) ks = Some v"
    by auto
  have "jlookup (JObj m) [''ui'', ''theme''] = Some (JStr ''dark'')" by (rule set) simp_all
  moreover have "jlookup (JObj m) [''ui'', ''lang''] = Some (JStr ''en'')" by (rule keep) simp_all
  ultimately show ?thesis using m raw by blast
qed

text \<open>
  The partial spec a request applies holds the four fields self-configuration owns and
  nothing else: skills, configuration, workspace files and environment are set as their builders
  say when the request uses them, and every other field of the spec is the zero value, so that
  server-side apply leaves it alone. The workspace files are the current ones without the removed
  ones, overlaid with the added ones.
\<close>

theorem self_config_frame:
  assumes "buildApplySpec jerr inst sc (determineActions sc) = Inr spec"
    "distinct (map fst (scs_AddWorkspaceFiles sc))"
  shows "spec\<lparr>spec_Config := zero_ConfigSpec, spec_Workspace := None, spec_Skills := [], spec_Env := []\<rparr> =
      zero_OpenClawInstanceSpec \<and>
    spec_Skills spec = (if SelfConfigActionSkills \<in> set (determineActions sc)
      then buildSkillsApply (spec_Skills (oci_Spec inst)) sc else []) \<and>
    (if SelfConfigActionEnvVars \<in> set (determineActions sc)
     then buildEnvApply (spec_Env (oci_Spec inst)) sc = Inr (spec_Env spec) else spec_Env spec = []) \<and>
    (\<forall>raw. cfg_Raw (spec_Config spec) = Some raw \<longrightarrow>
      buildConfigApply jerr (cfg_Raw (spec_Config (oci_Spec inst))) sc = Inr (Some raw)) \<and>
    (\<forall>ws. spec_Workspace spec = Some ws \<longrightarrow>
      map_of (ws_InitialFiles ws) =
        (\<lambda>k. if k \<in> set (scs_RemoveWorkspaceFiles sc) then None else map_of (currentFiles inst) k)
          ++ map_of (scs_AddWorkspaceFiles sc))"
proof -
  note eq = buildApplySpec_eq [OF assms(1)]
  have env: "\<exists>env. buildEnvApply (spec_Env (oci_Spec inst)) sc = Inr env"
    if "SelfConfigActionEnvVars \<in> set (determineActions sc)"
    using applyActions_ok [OF assms(1) [unfolded buildApplySpec_def] that]
    by (cases "buildEnvApply (spec_Env (oci_Spec inst)) sc") (auto simp: applyAction_simps)
  have files: "map_of (buildWorkspaceFilesApply (currentFiles inst) sc) =
      (\<lambda>k. if k \<in> set (scs_RemoveWorkspaceFiles sc) then None else map_of (currentFiles inst) k)
        ++ map_of (scs_AddWorkspaceFiles sc)"
    by (simp add: buildWorkspaceFilesApply_def map_of_overlay [OF assms(2)] map_of_filter_keys)
  have sel: "spec_Skills spec = (if SelfConfigActionSkills \<in> set (determineActions sc)
        then buildSkillsApply (spec_Skills (oci_Spec inst)) sc else [])"
    "spec_Env spec = (if SelfConfigActionEnvVars \<in> set (determineActions sc)
        then projr (buildEnvApply (spec_Env (oci_Spec inst)) sc) else [])"
    "cfg_Raw (spec_Config spec) = appliedRaw (buildConfigApply jerr (cfg_Raw (spec_Config (oci_Spec inst))) sc)"
    "spec_Workspace spec = (if SelfConfigActionWorkspaceFiles \<in> set (determineActions sc)
        then Some (zero_WorkspaceSpec\<lparr>ws_InitialFiles := buildWorkspaceFilesApply (currentFiles inst) sc\<rparr>) else None)"
    by (subst eq, simp)+
  have zero: "spec\<lparr>spec_Config := zero_ConfigSpec, spec_Workspace := None, spec_Skills := [], spec_Env := []\<rparr> =
      zero_OpenClawInstanceSpec"
    by (subst eq) (simp add: zero_OpenClawInstanceSpec_def zero_ConfigSpec_def)
  show ?thesis
    using zero env files by (auto simp: sel appliedRaw_def split: sum.splits if_splits)
qed

theorem self_config_frame_witness:
  "\<exists>spec. buildApplySpec (\<lambda>_. []) openInst skillRequest (determineActions skillRequest) = Inr spec \<and>
     spec\<lparr>spec_Config := zero_ConfigSpec, spec_Workspace := None, spec_Skills := [], spec_Env := []\<rparr> =
       zero_OpenClawInstanceSpec"
proof -
  obtain spec where spec: "buildApplySpec (\<lambda>_. []) openInst skillRequest (determineActions skillRequest) = Inr spec"
    using openRequest_build openRequest_actions by auto
  have "distinct (map fst (scs_AddWorkspaceFiles skillRequest))"
    by (simp add: skillRequest_def zero_OpenClawSelfConfigSpec_def)
  from self_config_frame [OF spec this] spec show ?thesis by blast
qed

section \<open>Who owns what\<close>

text \<open>
  C26: the managed-fields key the operator builds for an environment variable reads back as the
  name of that variable, for every name without control characters, quotes and backslashes (names
  the API server admits have none).
\<close>

theorem env_key_roundtrip:
  assumes "plainName name"
  shows "extractNameFromMapKey (nameKey name) = name \<and>
    findEnvVarFieldManager managedFields name = findFieldManagerByKey managedFields (nameKey name) envPath"
  using extractNameFromMapKey_plain [OF assms] findEnvVarFieldManager_eq by blast

theorem env_key_roundtrip_witness: "extractNameFromMapKey (nameKey ''API_KEY'') = ''API_KEY''"
  using env_key_roundtrip [of "''API_KEY''" "[]"] by (simp add: plainName_def dquote_def backslash_def)

definition quotedKeys :: "ManagedFieldsEntry list \<Rightarrow> bool" where
  "quotedKeys managedFields \<longleftrightarrow>
     (\<forall>c. navigateFields (findSelfConfigFields managedFields) skillsPath = Some c \<longrightarrow>
        list_all (\<lambda>k. \<exists>s. k = ''v:'' @ quoteStr s) (map fst c))"

text \<open>
  With skill keys in the quoted form the source documents (v: followed by the JSON string), the
  operator never recognises its own skills: every removal of a skill is reported as not possible,
  also when the operator's field manager owns it.
\<close>

theorem quoted_skills_never_owned:
  assumes "quotedKeys managedFields" "hd (skill @ ''x'') \<noteq> dquote"
  shows "checkRemovalOwnership skill ''skill'' (extractOwnedSkills managedFields)
      (findSkillFieldManager managedFields) \<noteq> []"
proof (cases "navigateFields (findSelfConfigFields managedFields) skillsPath")
  case (Some c)
  then have "list_all (\<lambda>k. \<exists>s. k = ''v:'' @ quoteStr s) (map fst c)"
    using assms(1) by (simp add: quotedKeys_def)
  then have "\<forall>n \<in> set (map (drop 2) (filter (\<lambda>k. hasPrefix k ''v:'') (map fst c))). \<exists>t. n = dquote # t"
    by (fastforce simp: list_all_iff quoteStr_def)
  then have "skill \<notin> set (map (drop 2) (filter (\<lambda>k. hasPrefix k ''v:'') (map fst c)))"
    using assms(2) by fastforce
  with Some show ?thesis by (simp add: checkRemovalOwnership_def extractOwnedSkills_def)
qed (simp add: checkRemovalOwnership_def extractOwnedSkills_def)

definition ownedFields :: "ManagedFieldsEntry list" where
  "ownedFields = [\<lparr>mfe_Manager = SelfConfigFieldManager, mfe_Operation = OperationApply, mfe_FieldsV1 =
     Some (Doc (JObj [(''f:spec'', JObj [(''f:skills'', JObj [(''v:'' @ quoteStr ''web'', JObj [])])])]))\<rparr>]"

theorem quoted_skills_never_owned_witness:
  "checkRemovalOwnership ''web'' ''skill'' (extractOwnedSkills ownedFields) (findSkillFieldManager ownedFields) \<noteq> []"
  by (rule quoted_skills_never_owned)
    (auto simp: quotedKeys_def ownedFields_def skillsPath_def dquote_def)

end
