(* ===== verification/Http.thy ===== *)
theory Http
  imports Json
begin

text \<open>
  What the two resolvers share: the HTTP client, decoding of JSON into structs, computations that
  return an error or a value, and the contract of a cache with a time to live.

  The HTTP client, the clock, URL parsing and JSON syntax are the fields of the record \<open>http\<close>, over
  an abstract type \<open>'w\<close> of states of the outside world. The resolver's own state is its cache; the
  log of requests has no counterpart in the code, it is what statements about requests speak of.
  The mutex around the cache is left out: one call runs at a time.
\<close>

section \<open>Requests and responses\<close>

record Request =
  rq_URL :: string
  rq_Headers :: gomap

record Response =
  rp_Status :: int
  rp_Headers :: gomap
  rp_Body :: bytes

text \<open>
  \<open>hx_Do\<close> performs a request, \<open>hx_URLError\<close> is the error of \<^verbatim>\<open>http.NewRequestWithContext\<close> for
  a URL, \<open>hx_ResolveURL base ref\<close> is \<^verbatim>\<open>url.Parse\<close> of both and \<^verbatim>\<open>ResolveReference\<close>
  (\<open>Inl\<close> the text of the error already wrapped by the caller's two messages),
  \<open>hx_ParseJSON\<close> is the syntax of \<^verbatim>\<open>json.Unmarshal\<close> and \<open>hx_DecodeError\<close> the text of a decoding
  error. Errors of these libraries are texts.
\<close>

record 'w http =
  hx_Do :: "Request \<Rightarrow> ('w, string + Response) state"
  hx_Now :: "('w, int) state"
  hx_URLError :: "string \<Rightarrow> string option"
  hx_ParseURL :: "string \<Rightarrow> string option"
  hx_ResolveURL :: "string \<Rightarrow> string \<Rightarrow> string"
  hx_ParseJSON :: "string \<Rightarrow> json option"
  hx_DecodeError :: string

record ('w, 'v) rctx =
  rx_World :: 'w
  rx_Cache :: "(string \<times> 'v \<times> int) list" \<comment> \<open>value and time it was fetched\<close>
  rx_Log :: "Request list"

type_synonym ('w, 'v, 'a) fetcher = "(('w, 'v) rctx, go_error + 'a) state"

definition StatusOK :: int where "StatusOK = 200"
definition StatusUnauthorized :: int where "StatusUnauthorized = 401"
definition StatusNotFound :: int where "StatusNotFound = 404"

definition header :: "Response \<Rightarrow> string \<Rightarrow> string" where
  "header r k = derefOr [] (map_of (rp_Headers r) k)"

section \<open>Computations with errors\<close>

definition returnE :: "'a \<Rightarrow> ('s, go_error + 'a) state" where
  "returnE x = State_Monad.return (Inr x)"

definition failE :: "go_error \<Rightarrow> ('s, go_error + 'a) state" where
  "failE e = State_Monad.return (Inl e)"

definition bindE :: "('s, go_error + 'a) state \<Rightarrow> ('a \<Rightarrow> ('s, go_error + 'b) state) \<Rightarrow> ('s, go_error + 'b) state" where
  "bindE m f = State_Monad.bind m (\<lambda>r. case r of Inl e \<Rightarrow> failE e | Inr x \<Rightarrow> f x)"

text \<open>\<^verbatim>\<open>if err != nil { return nil, fmt.Errorf("...: %w", err) }\<close>.\<close>

definition mapErr :: "(go_error \<Rightarrow> go_error) \<Rightarrow> ('s, go_error + 'a) state \<Rightarrow> ('s, go_error + 'a) state" where
  "mapErr g m = State_Monad.bind m (\<lambda>r. case r of Inl e \<Rightarrow> failE (g e) | Inr x \<Rightarrow> returnE x)"

definition guardE :: "bool \<Rightarrow> go_error \<Rightarrow> ('s, go_error + unit) state" where
  "guardE ok e = (if ok then returnE () else failE e)"

lemma run_return [run_simps]: "run_state (State_Monad.return x) s = (x, s)"
  by (simp add: State_Monad.return_def)

lemma run_bind [run_simps]:
  "run_state (State_Monad.bind m f) s = (case run_state m s of (a, s') \<Rightarrow> run_state (f a) s')"
  by (simp add: State_Monad.bind_def split_def)

lemma run_E [run_simps]:
  "run_state (returnE x) s = (Inr x, s)" "run_state (failE e) s = (Inl e, s)"
  "run_state (bindE m f) s = (case run_state m s of (Inl e, s') \<Rightarrow> (Inl e, s') | (Inr x, s') \<Rightarrow> run_state (f x) s')"
  "run_state (mapErr g m) s = (case run_state m s of (Inl e, s') \<Rightarrow> (Inl (g e), s') | (Inr x, s') \<Rightarrow> (Inr x, s'))"
  "run_state (guardE ok e) s = ((if ok then Inr () else Inl e), s)"
  by (simp_all add: returnE_def failE_def bindE_def mapErr_def guardE_def run_simps split: sum.splits prod.splits)

text \<open>One request: the URL is checked first; the log records what was sent.\<close>

definition doGet :: "'w http \<Rightarrow> Request \<Rightarrow> (string \<Rightarrow> string) \<Rightarrow> ('w, 'v, Response) fetcher" where
  "doGet h rq wrapMsg =
     (case hx_URLError h (rq_URL rq) of
        Some msg \<Rightarrow> failE (errorf msg)
      | None \<Rightarrow> State (\<lambda>s. case run_state (hx_Do h rq) (rx_World s) of
          (r, w) \<Rightarrow> ((case r of Inl msg \<Rightarrow> Inl (errorf (wrapMsg msg)) | Inr resp \<Rightarrow> Inr resp),
                     s\<lparr>rx_World := w, rx_Log := rx_Log s @ [rq]\<rparr>)))"

definition clock :: "'w http \<Rightarrow> (('w, 'v) rctx, int) state" where
  "clock h = State (\<lambda>s. case run_state (hx_Now h) (rx_World s) of (n, w) \<Rightarrow> (n, s\<lparr>rx_World := w\<rparr>))"

section \<open>Decoding JSON into structs\<close>

text \<open>
  A member sets a field when its name equals the field's up to the case of ASCII letters; null
  leaves the field alone; a value of another type is an error. A field that occurs more than once
  keeps the last occurrence.
\<close>

definition lowerASCII :: "string \<Rightarrow> string" where
  "lowerASCII s = map (\<lambda>c. if 65 \<le> (of_char c :: nat) \<and> (of_char c :: nat) \<le> 90 then char_of ((of_char c :: nat) + 32) else c) s"

definition fieldVals :: "string \<Rightarrow> obj \<Rightarrow> json list" where
  "fieldVals name m = map snd (filter (\<lambda>(k, v). lowerASCII k = name \<and> v \<noteq> JNull) m)"

definition decodeField :: "(json \<Rightarrow> 'a option) \<Rightarrow> 'a \<Rightarrow> string \<Rightarrow> obj \<Rightarrow> 'a option" where
  "decodeField dec zero name m =
     (let vals = map dec (fieldVals name m)
      in if None \<in> set vals then None else if vals = [] then Some zero else last vals)"

text \<open>A decoder that ignores null, for the elements of arrays and maps.\<close>

definition orZero :: "(json \<Rightarrow> 'a option) \<Rightarrow> 'a \<Rightarrow> json \<Rightarrow> 'a option" where
  "orZero dec zero j = (if j = JNull then Some zero else dec j)"

fun decString :: "json \<Rightarrow> string option" where
  "decString (JStr s) = Some s"
| "decString _ = None"

fun decBool :: "json \<Rightarrow> bool option" where
  "decBool (JBool b) = Some b"
| "decBool _ = None"

definition allSome :: "'a option list \<Rightarrow> 'a list option" where
  "allSome xs = (if None \<in> set xs then None else Some (map the xs))"

fun decList :: "(json \<Rightarrow> 'a option) \<Rightarrow> 'a \<Rightarrow> json \<Rightarrow> 'a list option" where
  "decList dec zero (JArr xs) = allSome (map (orZero dec zero) xs)"
| "decList dec zero _ = None"

fun decMap :: "(json \<Rightarrow> 'a option) \<Rightarrow> 'a \<Rightarrow> json \<Rightarrow> (string \<times> 'a) list option" where
  "decMap dec zero (JObj m) = allSome (map (\<lambda>(k, v). map_option (Pair k) (orZero dec zero v)) m)"
| "decMap dec zero _ = None"

text \<open>The members a document offers to a struct: null is the zero value, other non-objects an error.\<close>

fun structMembers :: "json \<Rightarrow> obj option" where
  "structMembers (JObj m) = Some m"
| "structMembers JNull = Some []"
| "structMembers _ = None"

fun decodeBody :: "bytes \<Rightarrow> json option" where
  "decodeBody (Doc j) = Some j"
| "decodeBody (Text _) = None"

section \<open>A cache with a time to live\<close>

text \<open>
  The contract of a read through the cache. A fresh entry is returned as it is, without a request;
  a read that returns a value leaves that value in the cache; no read touches the entry of another
  key. What the resolvers' callers rely on follows.
\<close>

text \<open>Reading keys one after the other, whatever each read returns.\<close>

fun reads :: "(string \<Rightarrow> ('s, 'a) state) \<Rightarrow> string list \<Rightarrow> 's \<Rightarrow> 's" where
  "reads read [] s = s"
| "reads read (k # ks) s = reads read ks (snd (run_state (read k) s))"

locale ttl_cache =
  fixes h :: "'w http" and ttl :: int and read :: "string \<Rightarrow> ('w, 'v, 'v) fetcher"
  assumes hit: "map_of (rx_Cache s) k = Some (v, t) \<Longrightarrow> run_state (hx_Now h) (rx_World s) = (n, w) \<Longrightarrow> n - t < ttl
      \<Longrightarrow> run_state (read k) s = (Inr v, s\<lparr>rx_World := w\<rparr>)"
    and keeps: "run_state (read k) s = (Inr v, s') \<Longrightarrow> \<exists>t. map_of (rx_Cache s') k = Some (v, t)"
    and others: "k' \<noteq> k \<Longrightarrow> map_of (rx_Cache (snd (run_state (read k) s))) k' = map_of (rx_Cache s) k'"
begin

lemma others_reads: "k \<notin> set ks \<Longrightarrow> map_of (rx_Cache (reads read ks s)) k = map_of (rx_Cache s) k"
  by (induction ks arbitrary: s) (simp_all add: others)

text \<open>
  A value read once is read again, after any number of reads of other keys, without a request, as
  long as its entry has not expired by the clock.
\<close>

lemma read_again:
  assumes "run_state (read k) s = (Inr v, s')" "k \<notin> set ks"
  shows "\<exists>t. map_of (rx_Cache s') k = Some (v, t) \<and>
    (fst (run_state (hx_Now h) (rx_World (reads read ks s'))) - t < ttl \<longrightarrow>
      fst (run_state (read k) (reads read ks s')) = Inr v
      \<and> rx_Log (snd (run_state (read k) (reads read ks s'))) = rx_Log (reads read ks s'))"
proof -
  obtain t where t: "map_of (rx_Cache s') k = Some (v, t)" using keeps [OF assms(1)] by auto
  then have "map_of (rx_Cache (reads read ks s')) k = Some (v, t)" using others_reads [OF assms(2)] by simp
  from hit [OF this prod.collapse [symmetric]] t show ?thesis by simp
qed

end

section \<open>What a fetch leaves alone\<close>

text \<open>\<open>cacheSame m\<close>: the computation does not change the cache. \<open>sends n m\<close>: it sends at most \<open>n\<close> requests.\<close>

definition cacheSame :: "(('w, 'v) rctx, 'a) state \<Rightarrow> bool" where
  "cacheSame m \<longleftrightarrow> (\<forall>s. rx_Cache (snd (run_state m s)) = rx_Cache s)"

definition sends :: "nat \<Rightarrow> (('w, 'v) rctx, 'a) state \<Rightarrow> bool" where
  "sends n m \<longleftrightarrow> (\<forall>s. \<exists>rqs. rx_Log (snd (run_state m s)) = rx_Log s @ rqs \<and> length rqs \<le> n)"

named_theorems cache_same "computations that do not change the cache"
named_theorems sends_intro "how many requests a computation sends"

lemma cacheSame_E [cache_same]:
  "cacheSame (returnE x)" "cacheSame (failE e)" "cacheSame (guardE ok e)"
  "cacheSame m \<Longrightarrow> (\<And>x. cacheSame (f x)) \<Longrightarrow> cacheSame (bindE m f)"
  "cacheSame m \<Longrightarrow> cacheSame (mapErr g m)"
  "cacheSame (clock h)" "cacheSame (doGet h rq wrapMsg)"
  by (auto simp: cacheSame_def run_simps doGet_def clock_def split: sum.splits prod.splits option.splits)
    (metis snd_conv)+

lemma sends_mono: "sends n m \<Longrightarrow> n \<le> n' \<Longrightarrow> sends n' m"
  unfolding sends_def by (meson le_trans)

lemma sends_none [sends_intro]: "sends n (returnE x)" "sends n (failE e)" "sends n (guardE ok e)" "sends n (clock h)"
  by (auto simp: sends_def run_simps clock_def split: prod.splits)

lemma sends_doGet [sends_intro]: "0 < n \<Longrightarrow> sends n (doGet h rq wrapMsg)"
  by (auto simp: sends_def run_simps doGet_def split: sum.splits prod.splits option.splits)

lemma sends_mapErr [sends_intro]: "sends n m \<Longrightarrow> sends n (mapErr g m)"
  by (auto simp: sends_def run_simps split: sum.splits prod.splits) (metis snd_conv)+

lemma sends_bindE:
  assumes "sends a m" "\<And>x. sends b (f x)" "a + b \<le> n"
  shows "sends n (bindE m f)"
  unfolding sends_def
proof
  fix s
  obtain r s' where m: "run_state m s = (r, s')" by (cases "run_state m s")
  from assms(1) obtain rqs where rqs: "rx_Log s' = rx_Log s @ rqs" "length rqs \<le> a" unfolding sends_def using m by (metis snd_conv)
  show "\<exists>rqs. rx_Log (snd (run_state (bindE m f) s)) = rx_Log s @ rqs \<and> length rqs \<le> n"
  proof (cases r)
    case (Inl e)
    with m rqs assms(3) show ?thesis by (auto simp: run_simps)
  next
    case (Inr x)
    from assms(2) obtain rqs' where "rx_Log (snd (run_state (f x) s')) = rx_Log s' @ rqs'" "length rqs' \<le> b"
      unfolding sends_def by blast
    with Inr m rqs assms(3) show ?thesis by (auto simp: run_simps)
  qed
qed

end
