(* ===== verification/Registry.thy ===== *)
theory Registry
  imports Http
begin

text \<open>
  internal/registry/resolver.go: listing the tags of an OCI repository, with the anonymous token
  flow, pagination and a cache, and choosing the highest stable version. The semver library is the
  record \<open>semver\<close> and a predicate for the constraint.
\<close>

section \<open>Parsing\<close>

definition parseRepository :: "string \<Rightarrow> go_error + string \<times> string" where
  "parseRepository repository =
     (case splitNByte 2 (CHR ''/'') repository of
        [host, name] \<Rightarrow>
          if strContains host ''.'' then Inr (host, name)
          else Inl (errorf (''invalid repository format '' @ quoteStr repository @ '': expected host/name''))
      | _ \<Rightarrow> Inl (errorf (''invalid repository format '' @ quoteStr repository @ '': expected host/name'')))"

definition challengePart :: "string \<Rightarrow> string \<times> string \<Rightarrow> string \<times> string" where
  "challengePart part rs =
     (let p = trimSpace part
      in if hasPrefix p ''realm='' then (trimByte dquote (trimPrefix p ''realm=''), snd rs)
         else if hasPrefix p ''service='' then (fst rs, trimByte dquote (trimPrefix p ''service=''))
         else rs)"

definition parseAuthChallenge :: "string \<Rightarrow> string \<times> string" where
  "parseAuthChallenge hdr = fold challengePart (splitByte (CHR '','') (trimPrefix hdr ''Bearer '')) ([], [])"

definition relNext :: string where
  "relNext = ''rel='' @ [dquote] @ ''next'' @ [dquote]"

text \<open>The target of the first part of a Link header with \<^verbatim>\<open>rel="next"\<close> and a bracketed target.\<close>

definition linkTarget :: "string \<Rightarrow> string option" where
  "linkTarget part =
     (let p = trimSpace part
      in if \<not> strContains p relNext then None
         else case (strIndex p ''<'', strIndex p ''>'') of
                (Some start, Some stop) \<Rightarrow>
                  if stop \<le> start then None else Some (take (stop - Suc start) (drop (Suc start) p))
              | _ \<Rightarrow> None)"

definition parseNextLink :: "'w http \<Rightarrow> string \<Rightarrow> string \<Rightarrow> go_error + string" where
  "parseNextLink h hdr baseURL =
     (if hdr = [] then Inr []
      else case List.map_filter linkTarget (splitByte (CHR '','') hdr) of
             [] \<Rightarrow> Inr []
           | linkPath # _ \<Rightarrow>
               (case hx_ParseURL h baseURL of
                  Some msg \<Rightarrow> Inl (errorf (''parsing base URL '' @ quoteStr baseURL @ '': '' @ msg))
                | None \<Rightarrow>
                    (case hx_ParseURL h linkPath of
                       Some msg \<Rightarrow> Inl (errorf (''parsing link '' @ quoteStr linkPath @ '': '' @ msg))
                     | None \<Rightarrow> Inr (hx_ResolveURL h baseURL linkPath))))"

definition decodeTags :: "json \<Rightarrow> string list option" where
  "decodeTags j = Option.bind (structMembers j) (decodeField (decList decString []) [] ''tags'')"

definition decodeToken :: "json \<Rightarrow> string option" where
  "decodeToken j = Option.bind (structMembers j) (decodeField decString [] ''token'')"

definition decodeE :: "'w http \<Rightarrow> string \<Rightarrow> (json \<Rightarrow> 'a option) \<Rightarrow> Response \<Rightarrow> (('w, 'v) rctx, go_error + 'a) state" where
  "decodeE h msg dec resp =
     (case Option.bind (decodeBody (rp_Body resp)) dec of
        None \<Rightarrow> failE (errorf (msg @ '': '' @ hx_DecodeError h))
      | Some x \<Rightarrow> returnE x)"

section \<open>Requests\<close>

definition badStatus :: "int \<Rightarrow> string \<Rightarrow> string \<Rightarrow> go_error" where
  "badStatus code whence url = errorf (''unexpected status '' @ intStr code @ '' from '' @ whence @ url)"

definition exchangeToken :: "'w http \<Rightarrow> string \<Rightarrow> string \<Rightarrow> string \<Rightarrow> ('w, 'v, string) fetcher" where
  "exchangeToken h realm service name =
     (let tokenURL = realm @ ''?scope=repository:'' @ name @ '':pull&service='' @ service
      in bindE (doGet h \<lparr>rq_URL = tokenURL, rq_Headers = []\<rparr> (\<lambda>m. ''fetching token from '' @ tokenURL @ '': '' @ m)) (\<lambda>resp.
         if rp_Status resp \<noteq> StatusOK then failE (badStatus (rp_Status resp) ''token endpoint '' tokenURL)
         else decodeE h ''decoding token response'' decodeToken resp))"

definition getToken :: "'w http \<Rightarrow> string \<Rightarrow> string \<Rightarrow> ('w, 'v, string) fetcher" where
  "getToken h host name =
     (let probeURL = ''https://'' @ host @ ''/v2/''
      in bindE (doGet h \<lparr>rq_URL = probeURL, rq_Headers = []\<rparr> (\<lambda>m. ''probing '' @ probeURL @ '': '' @ m)) (\<lambda>resp.
         if rp_Status resp = StatusOK then returnE []
         else if rp_Status resp \<noteq> StatusUnauthorized then failE (badStatus (rp_Status resp) [] probeURL)
         else let (realm, service) = parseAuthChallenge (header resp ''WWW-Authenticate'')
              in if realm = [] then failE (errorf (''no realm in WWW-Authenticate header from '' @ probeURL))
                 else exchangeToken h realm service name))"

definition fetchPage :: "'w http \<Rightarrow> string \<Rightarrow> string \<Rightarrow> string \<Rightarrow> ('w, 'v, string list \<times> string) fetcher" where
  "fetchPage h token baseURL nextURL =
     bindE (doGet h \<lparr>rq_URL = nextURL, rq_Headers = (if token = [] then [] else [(''Authorization'', ''Bearer '' @ token)])\<rparr>
              (\<lambda>m. ''fetching tags from '' @ nextURL @ '': '' @ m)) (\<lambda>resp.
       if rp_Status resp \<noteq> StatusOK then failE (badStatus (rp_Status resp) [] nextURL)
       else bindE (decodeE h ''decoding tags response'' decodeTags resp) (\<lambda>tags.
         case parseNextLink h (header resp ''Link'') baseURL of
           Inl e \<Rightarrow> failE (wrapErr ''parsing Link header'' e)
         | Inr url \<Rightarrow> returnE (tags, url)))"

definition maxPages :: nat where "maxPages = 100"

text \<open>The paging loop; the first argument counts the pages that may still be fetched.\<close>

fun fetchPages :: "nat \<Rightarrow> 'w http \<Rightarrow> string \<Rightarrow> string \<Rightarrow> string \<Rightarrow> string list \<Rightarrow> ('w, 'v, string list) fetcher" where
  "fetchPages 0 h token baseURL nextURL allTags = returnE allTags"
| "fetchPages (Suc n) h token baseURL nextURL allTags =
     bindE (fetchPage h token baseURL nextURL) (\<lambda>(tags, url).
       if url = [] then returnE (allTags @ tags) else fetchPages n h token baseURL url (allTags @ tags))"

definition fetchTags :: "'w http \<Rightarrow> string \<Rightarrow> ('w, 'v, string list) fetcher" where
  "fetchTags h repository =
     (case parseRepository repository of
        Inl e \<Rightarrow> failE e
      | Inr (host, name) \<Rightarrow>
          bindE (mapErr (wrapErr (''authenticating with '' @ host)) (getToken h host name)) (\<lambda>token.
            let baseURL = ''https://'' @ host @ ''/v2/'' @ name @ ''/tags/list''
            in fetchPages maxPages h token baseURL (baseURL @ ''?n=10000'') []))"

section \<open>The cache\<close>

definition cached :: "'w http \<Rightarrow> int \<Rightarrow> string \<Rightarrow> (('w, 'v) rctx, 'v option) state" where
  "cached h ttl k = State (\<lambda>s.
     case map_of (rx_Cache s) k of
       None \<Rightarrow> (None, s)
     | Some (v, t) \<Rightarrow> (case run_state (clock h) s of (n, s') \<Rightarrow> ((if n - t < ttl then Some v else None), s')))"

definition storeCache :: "string \<Rightarrow> 'v \<Rightarrow> int \<Rightarrow> (('w, 'v) rctx, unit) state" where
  "storeCache k v t = State (\<lambda>s. ((), s\<lparr>rx_Cache := AList.update k (v, t) (rx_Cache s)\<rparr>))"

definition getTags :: "'w http \<Rightarrow> int \<Rightarrow> string \<Rightarrow> ('w, string list, string list) fetcher" where
  "getTags h cacheTTL repository =
     State_Monad.bind (cached h cacheTTL repository) (\<lambda>hit.
       case hit of
         Some tags \<Rightarrow> returnE tags
       | None \<Rightarrow> bindE (fetchTags h repository) (\<lambda>tags.
           State_Monad.bind (clock h) (\<lambda>t. State_Monad.bind (storeCache repository tags t) (\<lambda>_. returnE tags))))"

section \<open>Choosing a version\<close>

text \<open>The tags the loop considers: those that parse, are no pre-release and meet the constraint.\<close>

definition eligible :: "'v semver \<Rightarrow> ('v \<Rightarrow> bool) option \<Rightarrow> string \<Rightarrow> 'v option" where
  "eligible sv constraint tag =
     (case sv_NewVersion sv tag of
        None \<Rightarrow> None
      | Some v \<Rightarrow>
          if sv_Prerelease sv v \<noteq> [] then None
          else if (case constraint of Some check \<Rightarrow> \<not> check v | None \<Rightarrow> False) then None
          else Some v)"

definition betterTag :: "'v semver \<Rightarrow> ('v \<Rightarrow> bool) option \<Rightarrow> string \<Rightarrow> ('v \<times> string) option \<Rightarrow> ('v \<times> string) option" where
  "betterTag sv constraint tag best =
     (case eligible sv constraint tag of
        None \<Rightarrow> best
      | Some v \<Rightarrow> (case best of
                     None \<Rightarrow> Some (v, tag)
                   | Some (b, _) \<Rightarrow> if sv_GreaterThan sv v b then Some (v, tag) else best))"

definition LatestSemver ::
    "'w http \<Rightarrow> int \<Rightarrow> 'v semver \<Rightarrow> string \<Rightarrow> ('v \<Rightarrow> bool) option \<Rightarrow> ('w, string list, string) fetcher" where
  "LatestSemver h cacheTTL sv repository constraint =
     bindE (mapErr (wrapErr (''fetching tags for '' @ repository)) (getTags h cacheTTL repository)) (\<lambda>tags.
       case fold (betterTag sv constraint) tags None of
         None \<Rightarrow> failE (errorf (''no stable semver tags found in '' @ repository))
       | Some (_, bestRaw) \<Rightarrow> returnE bestRaw)"

section \<open>How many requests\<close>

lemma decodeE_frame [cache_same]: "cacheSame (decodeE h msg dec resp)"
  by (simp add: decodeE_def cache_same split: option.splits)

lemma sends_decodeE [sends_intro]: "sends n (decodeE h msg dec resp)"
  by (simp add: decodeE_def sends_intro split: option.splits)

lemma exchangeToken_frame [cache_same]: "cacheSame (exchangeToken h realm service name)"
  by (auto simp: exchangeToken_def Let_def intro!: cache_same)

lemma getToken_frame [cache_same]: "cacheSame (getToken h host name)"
  by (auto simp: getToken_def Let_def intro!: cache_same split: prod.splits)

lemma fetchPage_frame [cache_same]: "cacheSame (fetchPage h token baseURL nextURL)"
  by (auto simp: fetchPage_def intro!: cache_same split: sum.splits)

lemma fetchPages_frame [cache_same]: "cacheSame (fetchPages n h token baseURL nextURL allTags)"
  by (induction n arbitrary: nextURL allTags) (auto intro!: cache_same)

lemma fetchTags_frame [cache_same]: "cacheSame (fetchTags h repository)"
  by (auto simp: fetchTags_def Let_def intro!: cache_same split: sum.splits)

lemma sends_exchangeToken [sends_intro]: "0 < n \<Longrightarrow> sends n (exchangeToken h realm service name)"
  unfolding exchangeToken_def Let_def
  by (rule sends_bindE [where a = 1 and b = 0]) (auto intro: sends_intro)

lemma sends_getToken: "sends 2 (getToken h host name)"
  unfolding getToken_def Let_def
  by (rule sends_bindE [where a = 1 and b = 1]) (auto intro: sends_intro split: prod.splits)

lemma sends_fetchPage: "sends 1 (fetchPage h token baseURL nextURL)"
  unfolding fetchPage_def
  by (rule sends_bindE [where a = 1 and b = 0])
    (auto intro: sends_intro intro!: sends_bindE [where a = 0 and b = 0] split: sum.splits)

lemma sends_fetchPages: "sends n (fetchPages n h token baseURL nextURL allTags)"
proof (induction n arbitrary: nextURL allTags)
  case (Suc n)
  show ?case
    unfolding fetchPages.simps
    by (rule sends_bindE [OF sends_fetchPage, where b = n]) (auto simp: Suc.IH intro: sends_intro split: prod.splits)
qed (simp add: sends_intro)

lemma sends_fetchTags: "sends (maxPages + 2) (fetchTags h repository)"
  unfolding fetchTags_def Let_def
  by (auto split: sum.splits intro: sends_intro intro!: sends_bindE [where a = 2 and b = maxPages] sends_mapErr sends_getToken sends_fetchPages)

section \<open>The cache contract\<close>

lemma cached_hit:
  assumes "map_of (rx_Cache s) k = Some (v, t)" "run_state (hx_Now h) (rx_World s) = (n, w)" "n - t < ttl"
  shows "run_state (cached h ttl k) s = (Some v, s\<lparr>rx_World := w\<rparr>)"
  using assms by (simp add: cached_def clock_def)

lemma cached_cache: "rx_Cache (snd (run_state (cached h ttl k) s)) = rx_Cache s"
  by (auto simp: cached_def clock_def split: option.splits prod.splits)

lemma cached_value:
  "fst (run_state (cached h ttl k) s) = Some v \<Longrightarrow> \<exists>t. map_of (rx_Cache s) k = Some (v, t)"
  by (auto simp: cached_def split: option.splits prod.splits if_splits)

lemma cacheSame_run: "cacheSame m \<Longrightarrow> run_state m s = (r, s') \<Longrightarrow> rx_Cache s' = rx_Cache s"
  unfolding cacheSame_def by (metis snd_conv)

text \<open>Storing what was fetched, at the time the clock shows then.\<close>

lemma fetch_store_run:
  assumes "cacheSame fetch"
    "run_state (bindE fetch (\<lambda>v. State_Monad.bind (clock h) (\<lambda>t. State_Monad.bind (storeCache k v t) (\<lambda>_. returnE v)))) s = (r, s')"
  shows "(\<exists>v t. r = Inr v \<and> rx_Cache s' = AList.update k (v, t) (rx_Cache s)) \<or> (\<exists>e. r = Inl e \<and> rx_Cache s' = rx_Cache s)"
  using assms(2)
  by (auto simp: run_simps storeCache_def split: sum.splits prod.splits
      dest!: cacheSame_run [OF assms(1)] cacheSame_run [OF cacheSame_E(6)])

lemma getTags_cases:
  assumes "run_state (getTags h ttl k) s = (r, s')"
  shows "(\<exists>v t. r = Inr v \<and> map_of (rx_Cache s) k = Some (v, t) \<and> rx_Cache s' = rx_Cache s)
    \<or> (\<exists>v t. r = Inr v \<and> rx_Cache s' = AList.update k (v, t) (rx_Cache s))
    \<or> (\<exists>e. r = Inl e \<and> rx_Cache s' = rx_Cache s)"
proof -
  obtain c s1 where c: "run_state (cached h ttl k) s = (c, s1)" by (cases "run_state (cached h ttl k) s")
  then have s1: "rx_Cache s1 = rx_Cache s" using cached_cache [of h ttl k s] by simp
  show ?thesis
  proof (cases c)
    case None
    with c assms have "run_state (bindE (fetchTags h k) (\<lambda>v. State_Monad.bind (clock h) (\<lambda>t. State_Monad.bind (storeCache k v t) (\<lambda>_. returnE v)))) s1 = (r, s')"
      by (simp add: getTags_def run_bind)
    from fetch_store_run [OF fetchTags_frame this] s1 show ?thesis by auto
  next
    case (Some v)
    with c assms s1 cached_value [of h ttl k s v] show ?thesis by (auto simp: getTags_def run_simps)
  qed
qed

interpretation tags: ttl_cache h ttl "getTags h ttl" for h :: "'w http" and ttl
proof
  show "run_state (getTags h ttl k) s = (Inr v, s\<lparr>rx_World := w\<rparr>)"
    if "map_of (rx_Cache s) k = Some (v, t)" "run_state (hx_Now h) (rx_World s) = (n, w)" "n - t < ttl" for s k v t n w
    using cached_hit [OF that] by (simp add: getTags_def run_simps)
  show "\<exists>t. map_of (rx_Cache s') k = Some (v, t)" if "run_state (getTags h ttl k) s = (Inr v, s')" for s k v s'
    using getTags_cases [OF that] by (auto simp: update_conv')
  show "map_of (rx_Cache (snd (run_state (getTags h ttl k) s))) k' = map_of (rx_Cache s) k'" if "k' \<noteq> k" for k' k s
    using getTags_cases [OF prod.collapse [symmetric], of h ttl k s] that by (auto simp: update_conv')
qed

text \<open>
  Tags that were listed once are listed again from the cache, unchanged and without a request,
  after any number of listings of other repositories, as long as the entry is younger than the TTL.
\<close>

theorem tags_from_cache:
  assumes "run_state (getTags h ttl repo) s = (Inr tags, s')" "repo \<notin> set others"
  shows "\<exists>t. map_of (rx_Cache s') repo = Some (tags, t) \<and>
    (let s'' = reads (getTags h ttl) others s'
     in fst (run_state (hx_Now h) (rx_World s'')) - t < ttl \<longrightarrow>
          fst (run_state (getTags h ttl repo) s'') = Inr tags
          \<and> rx_Log (snd (run_state (getTags h ttl repo) s'')) = rx_Log s'')"
  using tags.read_again [OF assms] by (simp add: Let_def)

text \<open>
  C35: listing tags ends and sends at most 102 requests (two for the token, one per page up to
  \<^verbatim>\<open>maxPages\<close>), whatever the registry answers, even if every page announces a next one.
\<close>

theorem tags_requests_bounded:
  "\<exists>rqs. rx_Log (snd (run_state (fetchTags h repo) s)) = rx_Log s @ rqs \<and> length rqs \<le> 102"
  using sends_fetchTags [of h repo] by (auto simp: sends_def maxPages_def)

section \<open>The latest version\<close>

text \<open>The order the semver library documents: \<^verbatim>\<open>GreaterThan\<close> is a strict weak order.\<close>

definition semver_order :: "'v semver \<Rightarrow> bool" where
  "semver_order sv \<longleftrightarrow>
     (\<forall>a b. sv_GreaterThan sv a b \<longrightarrow> \<not> sv_GreaterThan sv b a)
     \<and> (\<forall>a b c. \<not> sv_GreaterThan sv a b \<longrightarrow> \<not> sv_GreaterThan sv b c \<longrightarrow> \<not> sv_GreaterThan sv a c)"

text \<open>What the loop holds after a list of tags: a maximal eligible one, or nothing when none is.\<close>

definition bestOf :: "'v semver \<Rightarrow> ('v \<Rightarrow> bool) option \<Rightarrow> string list \<Rightarrow> ('v \<times> string) option \<Rightarrow> bool" where
  "bestOf sv c tags best =
     (case best of
        None \<Rightarrow> \<forall>tag \<in> set tags. eligible sv c tag = None
      | Some (v, tag) \<Rightarrow> tag \<in> set tags \<and> eligible sv c tag = Some v
          \<and> (\<forall>t \<in> set tags. \<forall>w. eligible sv c t = Some w \<longrightarrow> \<not> sv_GreaterThan sv w v))"

lemma bestOf_step:
  assumes "semver_order sv" "bestOf sv c tags best"
  shows "bestOf sv c (tags @ [tag]) (betterTag sv c tag best)"
proof -
  have asym: "\<not> sv_GreaterThan sv b a" if "sv_GreaterThan sv a b" for a b
    using assms(1) that unfolding semver_order_def by blast
  have irr: "\<not> sv_GreaterThan sv a a" for a using asym [of a a] by auto
  have trans: "\<not> sv_GreaterThan sv a c" if "\<not> sv_GreaterThan sv a b" "\<not> sv_GreaterThan sv b c" for a b c
    using assms(1) that unfolding semver_order_def by blast
  show ?thesis
  proof (cases "eligible sv c tag")
    case None
    with assms(2) show ?thesis by (auto simp: bestOf_def betterTag_def split: option.splits)
  next
    case (Some v)
    show ?thesis
    proof (cases best)
      case None
      with Some assms(2) irr show ?thesis by (auto simp: bestOf_def betterTag_def)
    next
      case (Some vt)
      obtain b t where best: "best = Some (b, t)" using Some by (cases vt) auto
      with assms(2) have b: "t \<in> set tags" "eligible sv c t = Some b"
        "\<And>t w. t \<in> set tags \<Longrightarrow> eligible sv c t = Some w \<Longrightarrow> \<not> sv_GreaterThan sv w b"
        by (auto simp: bestOf_def)
      have up: "\<not> sv_GreaterThan sv w v" if "\<not> sv_GreaterThan sv w b" "sv_GreaterThan sv v b" for w
        using trans [OF that(1) asym [OF that(2)]] .
      from best b \<open>eligible sv c tag = Some v\<close> irr up show ?thesis
        by (auto simp: bestOf_def betterTag_def)
    qed
  qed
qed

lemma bestOf_fold: "semver_order sv \<Longrightarrow> bestOf sv c tags (fold (betterTag sv c) tags None)"
proof (induction tags rule: rev_induct)
  case Nil
  then show ?case by (simp add: bestOf_def)
next
  case (snoc tag tags)
  then show ?case by (simp add: bestOf_step)
qed

text \<open>
  C33: the version chosen is the highest: with \<open>tags\<close> what \<^verbatim>\<open>getTags\<close> returned, the result
  is one of them that parses, is no pre-release and meets the constraint, and no other such tag is
  greater; an error means that the tags could not be fetched or that no tag qualifies.
\<close>

theorem latest_semver_highest:
  assumes "semver_order sv"
  shows "case fst (run_state (LatestSemver h ttl sv repo c) s) of
      Inr tag \<Rightarrow> \<exists>tags v. fst (run_state (getTags h ttl repo) s) = Inr tags \<and> tag \<in> set tags \<and> eligible sv c tag = Some v
        \<and> (\<forall>t \<in> set tags. \<forall>w. eligible sv c t = Some w \<longrightarrow> \<not> sv_GreaterThan sv w v)
    | Inl e \<Rightarrow> (\<exists>e'. fst (run_state (getTags h ttl repo) s) = Inl e')
        \<or> (\<exists>tags. fst (run_state (getTags h ttl repo) s) = Inr tags \<and> (\<forall>t \<in> set tags. eligible sv c t = None))"
proof -
  obtain r s' where r: "run_state (getTags h ttl repo) s = (r, s')" by (cases "run_state (getTags h ttl repo) s")
  show ?thesis
  proof (cases r)
    case (Inr tags)
    with r bestOf_fold [OF assms, of c tags] show ?thesis
      by (auto simp: LatestSemver_def run_simps bestOf_def split: option.splits)
  qed (simp add: LatestSemver_def run_simps r)
qed

section \<open>An example registry\<close>

definition exampleHttp :: "int http" where
  "exampleHttp = \<lparr>hx_Do = (\<lambda>rq. State (\<lambda>w. (Inr \<lparr>rp_Status = 200, rp_Headers = [],
       rp_Body = Doc (JObj [(''Tags'', JArr [JStr ''1.2.0'', JStr ''1.3.0-rc'', JStr ''1.0.0'', JStr ''main''])])\<rparr>, w + 1))),
     hx_Now = State (\<lambda>w. (w, w)), hx_URLError = Map.empty, hx_ParseURL = Map.empty, hx_ResolveURL = (\<lambda>b r. r),
     hx_ParseJSON = Map.empty, hx_DecodeError = []\<rparr>"

definition exampleSemver :: "nat semver" where
  "exampleSemver = \<lparr>sv_NewVersion = map_of [(''1.0.0'', 100), (''1.2.0'', 120), (''1.3.0-rc'', 130)],
     sv_GreaterThan = (\<lambda>a b. b < a), sv_Prerelease = (\<lambda>v. if v = 130 then ''rc'' else [])\<rparr>"

definition emptyCtx :: "(int, string list) rctx" where
  "emptyCtx = \<lparr>rx_World = 0, rx_Cache = [], rx_Log = []\<rparr>"

theorem latest_semver_highest_witness:
  "semver_order exampleSemver
   \<and> fst (run_state (LatestSemver exampleHttp 60 exampleSemver ''r.io/a/b'' None) emptyCtx) = Inr ''1.2.0''
   \<and> (\<exists>tags. fst (run_state (getTags exampleHttp 60 ''r.io/a/b'') emptyCtx) = Inr tags \<and> ''1.2.0'' \<in> set tags)"
proof -
  have o: "semver_order exampleSemver" by (auto simp: semver_order_def exampleSemver_def)
  have r: "fst (run_state (LatestSemver exampleHttp 60 exampleSemver ''r.io/a/b'' None) emptyCtx) = Inr ''1.2.0''"
    by code_simp
  from latest_semver_highest [OF o, where h = exampleHttp and ttl = 60 and repo = "''r.io/a/b''" and c = None and s = emptyCtx] o r show ?thesis by auto
qed

theorem tags_from_cache_witness:
  "\<exists>tags s'. run_state (getTags exampleHttp 60 ''r.io/a/b'') emptyCtx = (Inr tags, s')
   \<and> fst (run_state (getTags exampleHttp 60 ''r.io/a/b'') (reads (getTags exampleHttp 60) [''r.io/c''] s')) = Inr tags"
proof -
  let ?r = "run_state (getTags exampleHttp 60 ''r.io/a/b'') emptyCtx"
  let ?tags = "[''1.2.0'', ''1.3.0-rc'', ''1.0.0'', ''main'']"
  have r: "?r = (Inr ?tags, snd ?r)" by code_simp
  have t: "map_of (rx_Cache (snd ?r)) ''r.io/a/b'' = Some (?tags, 2)" by code_simp
  have n: "fst (run_state (hx_Now exampleHttp) (rx_World (reads (getTags exampleHttp 60) [''r.io/c''] (snd ?r)))) = 4"
    by code_simp
  from tags_from_cache [OF r, of "[''r.io/c'']"] t n r show ?thesis by (auto simp: Let_def)
qed

end
