(* ===== verification/GoLib.thy ===== *)
theory GoLib
  imports Prelude
begin

text \<open>
  Functions of Go's standard library that the webhook, the workspace builders and the resolvers
  call: base64 (package encoding/base64, standard alphabet with padding, default and strict mode)
  and lexical path processing (path.Base, path.Clean).
\<close>

section \<open>base64\<close>

definition b64alphabet :: string where
  "b64alphabet = ''ABCDEFGHIJKLMNOPQRSTUVWXYZabcdefghijklmnopqrstuvwxyz0123456789+/''"

definition b64char :: "nat \<Rightarrow> char" where "b64char v = b64alphabet ! v"

definition b64val :: "char \<Rightarrow> nat option" where
  "b64val c = map_of (zip b64alphabet [0..<64]) c"

definition padChar :: char where "padChar = CHR ''=''"

text \<open>\<^verbatim>\<open>base64.StdEncoding.EncodeToString\<close>.\<close>

fun b64encode :: "string \<Rightarrow> string" where
  "b64encode [] = []"
| "b64encode [a] =
     (let x = of_char a in [b64char (x div 4), b64char (x mod 4 * 16), padChar, padChar])"
| "b64encode [a, b] =
     (let x = of_char a; y = of_char b
      in [b64char (x div 4), b64char (x mod 4 * 16 + y div 16), b64char (y mod 16 * 4), padChar])"
| "b64encode (a # b # c # rest) =
     (let x = of_char a; y = of_char b; z = of_char c
      in b64char (x div 4) # b64char (x mod 4 * 16 + y div 16) # b64char (y mod 16 * 4 + z div 64) # b64char (z mod 64)
         # b64encode rest)"

text \<open>
  \<^verbatim>\<open>DecodeString\<close>: line breaks are skipped, padding is required and ends the text. In strict
  mode the unused bits before the padding must be zero.
\<close>

fun b64quanta :: "bool \<Rightarrow> string \<Rightarrow> string option" where
  "b64quanta strict [] = Some []"
| "b64quanta strict (a # b # c # d # rest) =
     (case (b64val a, b64val b) of
        (Some v, Some w) \<Rightarrow>
          if c = padChar then
            (if d = padChar \<and> rest = [] \<and> (\<not> strict \<or> w mod 16 = 0)
             then Some [char_of (v * 4 + w div 16)] else None)
          else (case b64val c of
            None \<Rightarrow> None
          | Some x \<Rightarrow>
              if d = padChar then
                (if rest = [] \<and> (\<not> strict \<or> x mod 4 = 0)
                 then Some [char_of (v * 4 + w div 16), char_of (w mod 16 * 16 + x div 4)] else None)
              else (case b64val d of
                None \<Rightarrow> None
              | Some y \<Rightarrow>
                  map_option (\<lambda>t. char_of (v * 4 + w div 16) # char_of (w mod 16 * 16 + x div 4)
                                  # char_of (x mod 4 * 64 + y) # t) (b64quanta strict rest)))
      | _ \<Rightarrow> None)"
| "b64quanta strict _ = None"

definition b64decode :: "bool \<Rightarrow> string \<Rightarrow> string option" where
  "b64decode strict s = b64quanta strict (filter (\<lambda>c. c \<noteq> CHR 0x0A \<and> c \<noteq> CHR 0x0D) s)"

lemma b64alphabet_length [simp]: "length b64alphabet = 64"
  by (simp add: b64alphabet_def)

lemma b64alphabet_distinct: "distinct b64alphabet"
  by (simp add: b64alphabet_def)

lemma b64val_char [simp]: "v < 64 \<Longrightarrow> b64val (b64char v) = Some v"
  unfolding b64val_def b64char_def
  by (rule map_of_is_SomeI) (auto simp: b64alphabet_distinct set_zip)

lemma b64alphabet_mem: "c \<in> set b64alphabet \<Longrightarrow> c \<noteq> padChar \<and> c \<noteq> CHR 0x0A \<and> c \<noteq> CHR 0x0D"
  by (auto simp: b64alphabet_def padChar_def)

lemma b64char_mem: "v < 64 \<Longrightarrow> b64char v \<in> set b64alphabet"
  unfolding b64char_def by (rule nth_mem) simp

lemma b64char_neq [simp]:
  "v < 64 \<Longrightarrow> b64char v \<noteq> padChar" "v < 64 \<Longrightarrow> b64char v \<noteq> CHR 0x0A" "v < 64 \<Longrightarrow> b64char v \<noteq> CHR 0x0D"
  using b64char_mem b64alphabet_mem by blast+

lemma of_char_less [simp]: "(of_char c :: nat) < 256"
  by (metis of_char_mod_256 mod_less_divisor zero_less_numeral)

lemma sextets [simp]:
  "(of_char c :: nat) div 4 < 64" "(of_char c :: nat) mod 4 * 16 < 64"
  "(of_char c :: nat) mod 4 * 16 + (of_char d :: nat) div 16 < 64"
  "(of_char c :: nat) mod 16 * 4 < 64" "(of_char c :: nat) mod 16 * 4 + (of_char d :: nat) div 64 < 64"
  "(of_char c :: nat) mod 64 < 64"
proof -
  have "(of_char c :: nat) < 256" "(of_char d :: nat) < 256" by simp_all
  moreover have "(of_char c :: nat) mod 4 < 4" "(of_char c :: nat) mod 16 < 16" by simp_all
  ultimately show "(of_char c :: nat) div 4 < 64" "(of_char c :: nat) mod 4 * 16 < 64"
    "(of_char c :: nat) mod 4 * 16 + (of_char d :: nat) div 16 < 64"
    "(of_char c :: nat) mod 16 * 4 < 64" "(of_char c :: nat) mod 16 * 4 + (of_char d :: nat) div 64 < 64"
    "(of_char c :: nat) mod 64 < 64"
    by linarith+
qed

lemma sextet_bytes:
  "(of_char c :: nat) div 16 div 16 = 0" "(of_char c :: nat) div 64 div 4 = 0"
  "(of_char c :: nat) div 16 mod 16 * 16 + of_char c mod 16 = of_char c"
  "(of_char c :: nat) div 64 mod 4 * 64 + of_char c mod 64 = of_char c"
proof -
  have "(of_char c :: nat) < 256" by simp
  then have d: "(of_char c :: nat) div 16 < 16" "(of_char c :: nat) div 64 < 4" by linarith+
  then show "(of_char c :: nat) div 16 div 16 = 0" "(of_char c :: nat) div 64 div 4 = 0" by simp_all
  from d have "(of_char c :: nat) div 16 mod 16 = of_char c div 16" "(of_char c :: nat) div 64 mod 4 = of_char c div 64"
    by (simp_all only: mod_less)
  then show "(of_char c :: nat) div 16 mod 16 * 16 + of_char c mod 16 = of_char c"
    "(of_char c :: nat) div 64 mod 4 * 64 + of_char c mod 64 = of_char c"
    by (simp_all only: div_mult_mod_eq)
qed

lemma b64quanta_encode: "b64quanta strict (b64encode s) = Some s"
  by (induction s rule: b64encode.induct) (simp_all add: Let_def sextet_bytes)

lemma b64encode_no_breaks: "filter (\<lambda>c. c \<noteq> CHR 0x0A \<and> c \<noteq> CHR 0x0D) (b64encode s) = b64encode s"
  by (induction s rule: b64encode.induct) (simp_all add: Let_def padChar_def)

lemma b64decode_encode: "b64decode strict (b64encode s) = Some s"
  by (simp add: b64decode_def b64encode_no_breaks b64quanta_encode)

section \<open>Paths\<close>

text \<open>\<^verbatim>\<open>path.Base\<close>.\<close>

definition pathBase :: "string \<Rightarrow> string" where
  "pathBase p =
     (if p = [] then ''.''
      else let q = trimRightByte (CHR ''/'') p;
               b = (case lastIndexByte q (CHR ''/'') of None \<Rightarrow> q | Some i \<Rightarrow> drop (Suc i) q)
           in if b = [] then ''/'' else b)"

text \<open>\<^verbatim>\<open>path.Clean\<close> on a path that is not rooted: the segments kept so far are a stack.\<close>

fun cleanSegs :: "string list \<Rightarrow> string list \<Rightarrow> string list" where
  "cleanSegs stack [] = rev stack"
| "cleanSegs stack (seg # segs) =
     (if seg = [] \<or> seg = ''.'' then cleanSegs stack segs
      else if seg = ''..'' then
        (case stack of
           [] \<Rightarrow> cleanSegs [''..''] segs
         | tp # rest \<Rightarrow> if tp = ''..'' then cleanSegs (''..'' # stack) segs else cleanSegs rest segs)
      else cleanSegs (seg # stack) segs)"

definition pathCleanRel :: "string \<Rightarrow> string" where
  "pathCleanRel p = (case cleanSegs [] (splitByte (CHR ''/'') p) of [] \<Rightarrow> ''.'' | segs \<Rightarrow> joinStr ''/'' segs)"

text \<open>
  Where a relative path leads, started in a directory given by its segments from the innermost
  outwards: an empty segment and a dot stay, two dots leave the directory, a name enters one.
\<close>

fun walk :: "string list \<Rightarrow> string list \<Rightarrow> string list" where
  "walk dir [] = dir"
| "walk dir (seg # segs) =
     (if seg = [] \<or> seg = ''.'' then walk dir segs
      else if seg = ''..'' then walk (tl dir) segs
      else walk (seg # dir) segs)"

text \<open>A stack without \<open>..\<close> on it stands for the directories entered below the start.\<close>

definition clearStack :: "string list \<Rightarrow> bool" where
  "clearStack stack \<longleftrightarrow> ''..'' \<notin> set stack"

lemma cleanSegs_inside:
  assumes "''..'' \<notin> set (cleanSegs stack segs)" "clearStack stack"
  shows "walk (stack @ root) segs = rev (cleanSegs stack segs) @ root"
  using assms
proof (induction stack segs rule: cleanSegs.induct)
  case (2 stack seg segs)
  show ?case
  proof (cases "seg = ''..''")
    case True
    show ?thesis
    proof (cases stack)
      case Nil
      have keep: "''..'' \<in> set st \<Longrightarrow> last st = ''..'' \<Longrightarrow> ''..'' \<in> set (cleanSegs st xs)" for st xs
      proof (induction st xs rule: cleanSegs.induct)
        case (2 st x xs)
        show ?case
        proof (cases "x = ''..'' \<and> st \<noteq> [] \<and> hd st \<noteq> ''..''")
          case True
          then obtain tp rest where st: "st = tp # rest" "tp \<noteq> ''..''" by (cases st) auto
          with "2.prems" have "rest \<noteq> []" "last rest = ''..''" "''..'' \<in> set rest" by (auto split: if_splits)
          with True st "2.IH" show ?thesis by simp
        next
          case False
          with "2.prems" "2.IH" show ?thesis by (auto split: list.splits)
        qed
      qed simp
      from keep [of "[''..'']" segs] Nil True "2.prems" show ?thesis by simp
    next
      case (Cons tp rest)
      with "2.prems" have "tp \<noteq> ''..''" "clearStack rest" by (auto simp: clearStack_def)
      with Cons True 2 show ?thesis by simp
    qed
  next
    case False
    with 2 show ?thesis by (auto simp: clearStack_def)
  qed
qed simp

end
