(* ===== verification/Workspace.thy ===== *)
theory Workspace
  imports Common GoLib
begin

text \<open>
  Workspace files: the path checks of internal/resources/validation.go, the skill-pack helpers of
  skillpacks.go, the update policies and managed-file reports of workspace_files.go and the seed
  ConfigMap of workspace_configmap.go.

  SHA-256 is an argument (\<open>sha256hex\<close>); the fixed texts the operator injects
  (ENVIRONMENT.md and the others) are the fields of \<open>InjectedTexts\<close>. The shell helper
  \<^verbatim>\<open>_ocw_apply\<close> runs in the pod and is not modelled; the line that calls it is.
\<close>

section \<open>Path checks\<close>

definition firstError :: "(bool \<times> string) list \<Rightarrow> go_error option" where
  "firstError checks = map_option (\<lambda>(_, msg). errorf msg) (find fst checks)"

lemma firstError_None: "firstError checks = None \<longleftrightarrow> (\<forall>(b, m) \<in> set checks. \<not> b)"
  by (auto simp: firstError_def find_None_iff)

definition ValidateWorkspaceFilename :: "string \<Rightarrow> go_error option" where
  "ValidateWorkspaceFilename name = firstError
     [(name = [], ''filename must not be empty''),
      (length name > 253, ''filename must be at most 253 characters''),
      (strContains name ''/'', ''filename must not contain '' @ [CHR 0x27] @ ''/'' @ [CHR 0x27]),
      (strContains name [backslash], ''filename must not contain '' @ [CHR 0x27, backslash, CHR 0x27]),
      (strContains name ''..'', ''filename must not contain '' @ [CHR 0x27] @ ''..'' @ [CHR 0x27]),
      (hasPrefix name ''.'', ''filename must not start with '' @ [CHR 0x27] @ ''.'' @ [CHR 0x27]),
      (name = ''openclaw.json'', ''filename '' @ [CHR 0x27] @ ''openclaw.json'' @ [CHR 0x27] @ '' is reserved for config'')]"

definition segmentChecks :: "string \<Rightarrow> (bool \<times> string) list" where
  "segmentChecks seg =
     [(seg = [], ''path must not contain empty segments''),
      (strContains seg ''..'', ''path segment '' @ quoteStr seg @ '' must not contain '' @ [CHR 0x27] @ ''..'' @ [CHR 0x27]),
      (hasPrefix seg ''.'', ''path segment '' @ quoteStr seg @ '' must not start with '' @ [CHR 0x27] @ ''.'' @ [CHR 0x27])]"

definition ValidateWorkspaceFilePath :: "string \<Rightarrow> go_error option" where
  "ValidateWorkspaceFilePath path = firstError
     ([(path = [], ''path must not be empty''),
       (length path > 253, ''path must be at most 253 characters''),
       (strContains path [backslash], ''path must not contain '' @ [CHR 0x27, backslash, CHR 0x27]),
       (hasPrefix path ''/'', ''path must not be absolute''),
       (hasSuffix path ''/'', ''path must not end with '' @ [CHR 0x27] @ ''/'' @ [CHR 0x27]),
       (path = ''openclaw.json'', ''path '' @ [CHR 0x27] @ ''openclaw.json'' @ [CHR 0x27] @ '' is reserved for config'')]
      @ concat (map segmentChecks (splitByte (CHR ''/'') path)))"

definition ValidateWorkspaceDirectory :: "string \<Rightarrow> go_error option" where
  "ValidateWorkspaceDirectory dir = firstError
     [(dir = [], ''directory must not be empty''),
      (length dir > 253, ''directory must be at most 253 characters''),
      (strContains dir [backslash], ''directory must not contain '' @ [CHR 0x27, backslash, CHR 0x27]),
      (strContains dir ''..'', ''directory must not contain '' @ [CHR 0x27] @ ''..'' @ [CHR 0x27]),
      (hasPrefix dir ''/'', ''directory must not be an absolute path'')]"

definition ValidateManagedWorkspacePath :: "string \<Rightarrow> go_error option" where
  "ValidateManagedWorkspacePath filePath =
     (if filePath = [] then Some (errorf ''path must not be empty'')
      else if hasPrefix filePath ''/'' then
        Some (errorf (''path '' @ quoteStr filePath @ '' must be relative to the workspace root''))
      else let cleaned = pathCleanRel filePath
           in if cleaned = ''..'' \<or> hasPrefix cleaned ''../'' then
                Some (errorf (''path '' @ quoteStr filePath @ '' must not traverse outside the workspace root''))
              else None)"

section \<open>Skill packs\<close>

text \<open>
  \<^verbatim>\<open>ResolvedSkillPacks\<close>: the record \<open>SkillPackSet\<close> is what a workspace of its own has;
  only the top-level value has the field \<^verbatim>\<open>Workspaces\<close>.
\<close>

record SkillPackSet =
  sp_Files :: gomap
  sp_PathMapping :: gomap
  sp_Directories :: "string list"
  sp_SkillEntries :: obj

record ResolvedSkillPacks = SkillPackSet +
  sp_Workspaces :: "(string \<times> SkillPackSet option) list"

definition SkillPackPrefix :: string where "SkillPackPrefix = ''pack:''"

definition WorkspacePacks :: "ResolvedSkillPacks option \<Rightarrow> string \<Rightarrow> SkillPackSet option" where
  "WorkspacePacks sp name =
     (case sp of None \<Rightarrow> None | Some p \<Rightarrow> (case map_of (sp_Workspaces p) name of None \<Rightarrow> None | Some w \<Rightarrow> w))"

definition HasSkillPackFiles :: "('a SkillPackSet_scheme) option \<Rightarrow> bool" where
  "HasSkillPackFiles sp = (case sp of None \<Rightarrow> False | Some p \<Rightarrow> sp_Files p \<noteq> [])"

definition HasWorkspacePackFiles :: "ResolvedSkillPacks option \<Rightarrow> bool" where
  "HasWorkspacePackFiles sp =
     (case sp of None \<Rightarrow> False | Some p \<Rightarrow> list_ex (\<lambda>(_, wsp). HasSkillPackFiles wsp) (sp_Workspaces p))"

definition ExtractPackSkills :: "string list \<Rightarrow> string list" where
  "ExtractPackSkills skills = List.map_filter (\<lambda>s. cutPrefix s SkillPackPrefix) skills"

definition FilterNonPackSkills :: "string list \<Rightarrow> string list" where
  "FilterNonPackSkills skills = filter (\<lambda>s. \<not> hasPrefix s SkillPackPrefix) skills"

definition SkillPackCMKey :: "string \<Rightarrow> string" where
  "SkillPackCMKey wsPath = replaceByte (CHR ''/'') ''--'' wsPath"

definition combinedSkillEntries :: "ResolvedSkillPacks option \<Rightarrow> obj option" where
  "combinedSkillEntries sp =
     (case sp of
        None \<Rightarrow> None
      | Some p \<Rightarrow>
          Some (fold (\<lambda>name merged.
                        case map_of (sp_Workspaces p) name of
                          Some (Some wsp) \<Rightarrow> overlay merged (sp_SkillEntries wsp)
                        | _ \<Rightarrow> merged)
                  (sort (map fst (sp_Workspaces p)))
                  (overlay [] (sp_SkillEntries p))))"

section \<open>Update policies\<close>

definition WorkspaceFileUpdatePolicyReplace :: string where "WorkspaceFileUpdatePolicyReplace = ''Replace''"
definition WorkspaceFileUpdatePolicyCreateOnly :: string where "WorkspaceFileUpdatePolicyCreateOnly = ''CreateOnly''"

lemmas policy_defs = WorkspaceFileUpdatePolicyReplace_def WorkspaceFileUpdatePolicyCreateOnly_def

definition managedFilePolicy :: "ManagedWorkspaceFile list \<Rightarrow> string \<Rightarrow> string option" where
  "managedFilePolicy managed filePath =
     map_option (\<lambda>m. if mf_UpdatePolicy m = [] then WorkspaceFileUpdatePolicyReplace else mf_UpdatePolicy m)
       (find (\<lambda>m. mf_Path m = filePath) managed)"

definition defaultedPolicy :: "string \<Rightarrow> string" where
  "defaultedPolicy p =
     (if p = WorkspaceFileUpdatePolicyReplace then WorkspaceFileUpdatePolicyReplace
      else WorkspaceFileUpdatePolicyCreateOnly)"

definition WorkspaceFilePolicy :: "WorkspaceSpec option \<Rightarrow> string \<Rightarrow> string" where
  "WorkspaceFilePolicy ws filePath =
     (case ws of
        None \<Rightarrow> WorkspaceFileUpdatePolicyCreateOnly
      | Some w \<Rightarrow>
          (case managedFilePolicy (ws_ManagedFiles w) filePath of
             Some p \<Rightarrow> p
           | None \<Rightarrow> defaultedPolicy (ws_FileUpdatePolicy w)))"

definition AdditionalWorkspaceFilePolicy ::
    "WorkspaceSpec option \<Rightarrow> AdditionalWorkspace option \<Rightarrow> string \<Rightarrow> string" where
  "AdditionalWorkspaceFilePolicy ws aw filePath =
     (case aw of
        None \<Rightarrow> WorkspaceFileUpdatePolicyCreateOnly
      | Some a \<Rightarrow>
          (case managedFilePolicy (aw_ManagedFiles a) filePath of
             Some p \<Rightarrow> p
           | None \<Rightarrow>
               (case aw_FileUpdatePolicy a of
                  Some p \<Rightarrow> defaultedPolicy p
                | None \<Rightarrow>
                    (case ws of
                       Some w \<Rightarrow> defaultedPolicy (ws_FileUpdatePolicy w)
                     | None \<Rightarrow> WorkspaceFileUpdatePolicyCreateOnly))))"

definition hasReplaceEntry :: "ManagedWorkspaceFile list \<Rightarrow> bool" where
  "hasReplaceEntry managed =
     list_ex (\<lambda>m. managedFilePolicy managed (mf_Path m) = Some WorkspaceFileUpdatePolicyReplace) managed"

definition WorkspaceHasReplaceFiles :: "WorkspaceSpec option \<Rightarrow> bool" where
  "WorkspaceHasReplaceFiles ws =
     (case ws of
        None \<Rightarrow> False
      | Some w \<Rightarrow>
          defaultedPolicy (ws_FileUpdatePolicy w) = WorkspaceFileUpdatePolicyReplace
          \<or> hasReplaceEntry (ws_ManagedFiles w)
          \<or> list_ex (\<lambda>aw. (case aw_FileUpdatePolicy aw of
                              Some p \<Rightarrow> defaultedPolicy p = WorkspaceFileUpdatePolicyReplace
                            | None \<Rightarrow> False)
                          \<or> hasReplaceEntry (aw_ManagedFiles aw))
              (ws_AdditionalWorkspaces w))"

section \<open>Sources and managed files\<close>

definition defaultWorkspaceSources :: "WorkspaceSpec \<Rightarrow> gomap \<Rightarrow> gomap" where
  "defaultWorkspaceSources ws externalFiles = overlay (overlay [] externalFiles) (ws_InitialFiles ws)"

definition additionalWorkspaceSources :: "AdditionalWorkspace \<Rightarrow> gomap \<Rightarrow> gomap" where
  "additionalWorkspaceSources aw externalFiles = overlay (overlay [] externalFiles) (aw_InitialFiles aw)"

definition sortedKeys :: "gomap \<Rightarrow> string list" where
  "sortedKeys m = sort (map fst m)"

definition workspaceReplaceSources :: "(string \<Rightarrow> string) \<Rightarrow> OpenClawInstance \<Rightarrow> gomap \<Rightarrow> gomap option" where
  "workspaceReplaceSources sha256hex inst externalFiles =
     map_option (\<lambda>ws.
        fold (\<lambda>(filePath, content) out.
                if WorkspaceFilePolicy (Some ws) filePath = WorkspaceFileUpdatePolicyReplace
                then AList.update filePath (sha256hex content) out else out)
          (defaultWorkspaceSources ws externalFiles) [])
       (spec_Workspace (oci_Spec inst))"

definition additionalWorkspaceReplaceSources ::
    "(string \<Rightarrow> string) \<Rightarrow> OpenClawInstance \<Rightarrow> AdditionalWorkspace option \<Rightarrow> gomap \<Rightarrow> gomap option" where
  "additionalWorkspaceReplaceSources sha256hex inst aw externalFiles =
     map_option (\<lambda>a.
        fold (\<lambda>(filePath, content) out.
                if AdditionalWorkspaceFilePolicy (spec_Workspace (oci_Spec inst)) (Some a) filePath
                     = WorkspaceFileUpdatePolicyReplace
                then AList.update filePath (sha256hex content) out else out)
          (additionalWorkspaceSources a externalFiles) [])
       aw"

text \<open>
  The status entries of one workspace: its Replace sources in path order, then the declared paths
  that have no source.
\<close>

definition workspaceStatuses ::
    "(string \<Rightarrow> string) \<Rightarrow> string \<Rightarrow> (string \<Rightarrow> string) \<Rightarrow> gomap \<Rightarrow> ManagedWorkspaceFile list \<Rightarrow> ManagedWorkspaceFileStatus list" where
  "workspaceStatuses sha256hex workspace policy sources managed =
     map (\<lambda>p. \<lparr>mfs_Workspace = workspace, mfs_Path = p, mfs_UpdatePolicy = policy p,
               mfs_SourceHash = sha256hex (the (map_of sources p))\<rparr>)
       (filter (\<lambda>p. policy p = WorkspaceFileUpdatePolicyReplace) (sortedKeys sources))
     @ map (\<lambda>p. \<lparr>mfs_Workspace = workspace, mfs_Path = p, mfs_UpdatePolicy = policy p, mfs_SourceHash = []\<rparr>)
         (filter (\<lambda>p. map_of sources p = None) (map mf_Path managed))"

text \<open>
  \<^verbatim>\<open>sort.Slice\<close> orders the additional workspaces by name; the webhook rejects two
  workspaces of the same name, so the order is determined.
\<close>

definition ManagedWorkspaceFileStatuses ::
    "(string \<Rightarrow> string) \<Rightarrow> OpenClawInstance \<Rightarrow> gomap \<Rightarrow> (string \<times> gomap) list \<Rightarrow> ManagedWorkspaceFileStatus list" where
  "ManagedWorkspaceFileStatuses sha256hex inst externalFiles additionalExternalFiles =
     (case spec_Workspace (oci_Spec inst) of
        None \<Rightarrow> []
      | Some ws \<Rightarrow>
          workspaceStatuses sha256hex [] (WorkspaceFilePolicy (Some ws)) (defaultWorkspaceSources ws externalFiles)
            (ws_ManagedFiles ws)
          @ concat (map (\<lambda>aw.
              workspaceStatuses sha256hex (aw_Name aw) (AdditionalWorkspaceFilePolicy (Some ws) (Some aw))
                (additionalWorkspaceSources aw (derefOr [] (map_of additionalExternalFiles (aw_Name aw))))
                (aw_ManagedFiles aw))
              (sort_key aw_Name (ws_AdditionalWorkspaces ws))))"

definition managedMarkerDir :: string where "managedMarkerDir = ''/data/.workspace-managed''"

definition managedMarkerPath :: "string \<Rightarrow> string \<Rightarrow> string" where
  "managedMarkerPath workspace filePath =
     (let key = SkillPackCMKey filePath
      in managedMarkerDir @ ''/'' @ (if workspace \<noteq> [] then ''ws-'' @ workspace @ ''--'' @ key else key))"

definition shellQuote :: "string \<Rightarrow> string" where
  "shellQuote s = [CHR 0x27] @ replaceByte (CHR 0x27) [CHR 0x27, backslash, CHR 0x27, CHR 0x27] s @ [CHR 0x27]"

definition managedFileApplyLine :: "string \<Rightarrow> string \<Rightarrow> string \<Rightarrow> string \<Rightarrow> string \<Rightarrow> string" where
  "managedFileApplyLine srcKey wsRoot workspace filePath hash =
     ''_ocw_apply /workspace-init/'' @ shellQuote srcKey @ '' '' @ wsRoot @ ''/'' @ shellQuote filePath @ '' ''
     @ shellQuote hash @ '' '' @ shellQuote (managedMarkerPath workspace filePath)"

section \<open>The seed ConfigMap\<close>

record InjectedTexts =
  EnvironmentSkillContent :: string
  BootstrapContent :: string
  SelfConfigureSkillContent :: string
  SelfConfigureHelperScript :: string

record ConfigMap =
  cm_Name :: string
  cm_Namespace :: string
  cm_Labels :: gomap
  cm_Data :: gomap

definition bootstrapEnabled :: "OpenClawInstance \<Rightarrow> bool" where
  "bootstrapEnabled inst =
     (case spec_Workspace (oci_Spec inst) of None \<Rightarrow> True | Some ws \<Rightarrow> defaultTrue (boot_Enabled (ws_Bootstrap ws)))"

definition additionalWorkspaceKeySep :: string where "additionalWorkspaceKeySep = ''--ws--''"

definition AdditionalWorkspaceCMKey :: "string \<Rightarrow> string \<Rightarrow> string" where
  "AdditionalWorkspaceCMKey workspaceName filename = additionalWorkspaceKeySep @ workspaceName @ ''--'' @ filename"

definition ParseAdditionalWorkspaceCMKey :: "string \<Rightarrow> (string \<times> string) option" where
  "ParseAdditionalWorkspaceCMKey cmKey =
     (if \<not> hasPrefix cmKey additionalWorkspaceKeySep then None
      else let rest = drop (length additionalWorkspaceKeySep) cmKey
           in case strIndex rest ''--'' of
                None \<Rightarrow> None
              | Some idx \<Rightarrow> Some (take idx rest, drop (idx + 2) rest))"

text \<open>Writing a map with its keys encoded.\<close>

definition overlayKeys :: "(string \<Rightarrow> string) \<Rightarrow> gomap \<Rightarrow> gomap \<Rightarrow> gomap" where
  "overlayKeys enc src files = overlay files (map (\<lambda>(k, v). (enc k, v)) src)"

definition seedAdditional ::
    "InjectedTexts \<Rightarrow> (string \<times> gomap) list \<Rightarrow> ResolvedSkillPacks option \<Rightarrow> AdditionalWorkspace \<Rightarrow> gomap \<Rightarrow> gomap" where
  "seedAdditional txt additionalExternalFiles skillPacks ws files =
     (let key = AdditionalWorkspaceCMKey (aw_Name ws);
          f1 = (case WorkspacePacks skillPacks (aw_Name ws) of None \<Rightarrow> files | Some p \<Rightarrow> overlayKeys key (sp_Files p) files);
          f2 = (case map_of additionalExternalFiles (aw_Name ws) of None \<Rightarrow> f1 | Some ext \<Rightarrow> overlayKeys key ext f1);
          f3 = overlayKeys (key \<circ> SkillPackCMKey) (aw_InitialFiles ws) f2
      in AList.update (key ''ENVIRONMENT.md'') (EnvironmentSkillContent txt) f3)"

definition defaultWorkspaceFiles ::
    "InjectedTexts \<Rightarrow> OpenClawInstance \<Rightarrow> gomap \<Rightarrow> ResolvedSkillPacks option \<Rightarrow> gomap" where
  "defaultWorkspaceFiles txt inst externalFiles skillPacks =
     (let f4 = (case skillPacks of None \<Rightarrow> [] | Some p \<Rightarrow> overlay [] (sp_Files p));
          f3 = overlay f4 externalFiles;
          f2 = (case spec_Workspace (oci_Spec inst) of None \<Rightarrow> f3 | Some ws \<Rightarrow> overlayKeys SkillPackCMKey (ws_InitialFiles ws) f3);
          f1 = AList.update ''ENVIRONMENT.md'' (EnvironmentSkillContent txt) f2;
          f1 = (if bootstrapEnabled inst then AList.update ''BOOTSTRAP.md'' (BootstrapContent txt) f1 else f1)
      in if scf_Enabled (spec_SelfConfigure (oci_Spec inst))
         then AList.update ''selfconfig.sh'' (SelfConfigureHelperScript txt)
                (AList.update ''SELFCONFIG.md'' (SelfConfigureSkillContent txt) f1)
         else f1)"

definition BuildWorkspaceConfigMap ::
    "InjectedTexts \<Rightarrow> OpenClawInstance \<Rightarrow> gomap \<Rightarrow> (string \<times> gomap) list \<Rightarrow> ResolvedSkillPacks option \<Rightarrow> ConfigMap" where
  "BuildWorkspaceConfigMap txt inst externalFiles additionalExternalFiles skillPacks =
     (let files = defaultWorkspaceFiles txt inst externalFiles skillPacks;
          files' = (case spec_Workspace (oci_Spec inst) of
                      None \<Rightarrow> files
                    | Some ws \<Rightarrow> fold (seedAdditional txt additionalExternalFiles skillPacks) (ws_AdditionalWorkspaces ws) files)
      in \<lparr>cm_Name = WorkspaceConfigMapName inst, cm_Namespace = onamespace inst, cm_Labels = Labels inst,
          cm_Data = files'\<rparr>)"


section \<open>Checked paths stay inside the workspace\<close>

lemma cleanSegs_dotdot_first:
  assumes "''..'' \<in> set stack \<longrightarrow> last stack = ''..''" "''..'' \<in> set (cleanSegs stack segs)"
  shows "hd (cleanSegs stack segs) = ''..''"
  using assms
proof (induction stack segs rule: cleanSegs.induct)
  case (1 stack)
  then show ?case by (auto simp: hd_rev)
next
  case (2 stack seg segs)
  then show ?case by (cases stack) (auto split: if_splits)
qed

lemma walk_names:
  assumes "''..'' \<notin> set segs"
  shows "\<exists>below. walk dir segs = below @ dir"
  using assms
proof (induction segs arbitrary: dir)
  case (Cons seg segs)
  then have "\<exists>below. walk (seg # dir) segs = below @ seg # dir" "\<exists>below. walk dir segs = below @ dir" by auto
  then show ?case using Cons.prems by (auto intro: exI [of _ "_ @ [seg]"])
qed simp

lemma splitByte_sublist: "seg \<in> set (splitByte c s) \<Longrightarrow> sublist seg s"
proof (induction s arbitrary: seg)
  case (Cons x xs)
  have hd: "prefix (hd (splitByte c xs)) xs"
  proof (induction xs)
    case (Cons y ys)
    then show ?case by (auto split: list.splits)
  qed simp
  show ?case
  proof (cases "x = c")
    case True
    with Cons show ?thesis by (auto intro: sublist_Cons_right [THEN iffD2])
  next
    case False
    obtain h t where split: "splitByte c xs = h # t" by (cases "splitByte c xs") auto
    with False Cons.prems consider "seg = x # h" | "seg \<in> set t" by auto
    then show ?thesis
    proof cases
      case 1
      with hd split show ?thesis by (auto intro: prefix_imp_sublist)
    next
      case 2
      with Cons.IH [of seg] split show ?thesis by (auto simp: sublist_Cons_right)
    qed
  qed
qed simp

lemma no_dotdot_segment: "\<not> strContains s ''..'' \<Longrightarrow> ''..'' \<notin> set (splitByte c s)"
  using splitByte_sublist by (auto simp: strContains_iff)

lemma joinStr_dotdot: "joinStr ''/'' (''..'' # segs) = ''..'' \<or> hasPrefix (joinStr ''/'' (''..'' # segs)) ''../''"
  by (cases segs) (auto simp: hasPrefix_def)

lemma pathCleanRel_inside:
  assumes "pathCleanRel p \<noteq> ''..''" "\<not> hasPrefix (pathCleanRel p) ''../''"
  shows "\<exists>below. walk root (splitByte (CHR ''/'') p) = below @ root"
proof -
  let ?segs = "splitByte (CHR ''/'') p"
  have "''..'' \<notin> set (cleanSegs [] ?segs)"
  proof
    assume "''..'' \<in> set (cleanSegs [] ?segs)"
    moreover from this have "hd (cleanSegs [] ?segs) = ''..''" by (rule cleanSegs_dotdot_first [rotated]) simp
    ultimately obtain t where "cleanSegs [] ?segs = ''..'' # t" by (cases "cleanSegs [] ?segs") auto
    with joinStr_dotdot [of t] assms show False by (auto simp: pathCleanRel_def)
  qed
  then have "walk ([] @ root) ?segs = rev (cleanSegs [] ?segs) @ root"
    by (rule cleanSegs_inside) (simp add: clearStack_def)
  then show ?thesis by auto
qed

lemma ValidateWorkspaceFilename_ok:
  assumes "ValidateWorkspaceFilename p = None"
  shows "p \<noteq> []" "CHR ''/'' \<notin> set p" "\<not> strContains p ''..''"
  using assms by (simp_all add: ValidateWorkspaceFilename_def firstError_None strContains_byte)

lemma ValidateWorkspaceDirectory_ok:
  assumes "ValidateWorkspaceDirectory p = None"
  shows "p \<noteq> []" "\<not> hasPrefix p ''/''" "\<not> strContains p ''..''"
  using assms by (simp_all add: ValidateWorkspaceDirectory_def firstError_None)

lemma ValidateWorkspaceFilePath_ok:
  assumes "ValidateWorkspaceFilePath p = None"
  shows "p \<noteq> []" "\<not> hasPrefix p ''/''" "''..'' \<notin> set (splitByte (CHR ''/'') p)"
proof -
  from assms show "p \<noteq> []" "\<not> hasPrefix p ''/''" by (simp_all add: ValidateWorkspaceFilePath_def firstError_None)
  have "\<not> strContains seg ''..''" if "seg \<in> set (splitByte (CHR ''/'') p)" for seg
    using assms that by (simp add: ValidateWorkspaceFilePath_def firstError_None segmentChecks_def)
  then show "''..'' \<notin> set (splitByte (CHR ''/'') p)" by (auto simp: strContains_iff)
qed

lemma ValidateManagedWorkspacePath_ok:
  assumes "ValidateManagedWorkspacePath p = None"
  shows "p \<noteq> []" "\<not> hasPrefix p ''/''" "pathCleanRel p \<noteq> ''..''" "\<not> hasPrefix (pathCleanRel p) ''../''"
  using assms by (simp_all add: ValidateManagedWorkspacePath_def Let_def split: if_splits)

lemma checked_inside:
  assumes "ValidateManagedWorkspacePath p = None \<or> ValidateWorkspaceFilePath p = None
           \<or> ValidateWorkspaceFilename p = None \<or> ValidateWorkspaceDirectory p = None"
  shows "(\<exists>below. walk root (splitByte (CHR ''/'') p) = below @ root) \<and> \<not> hasPrefix p ''/'' \<and> p \<noteq> []"
  using assms
proof (elim disjE)
  assume "ValidateManagedWorkspacePath p = None"
  from ValidateManagedWorkspacePath_ok [OF this] pathCleanRel_inside [of p root] show ?thesis by simp
next
  assume "ValidateWorkspaceFilePath p = None"
  from ValidateWorkspaceFilePath_ok [OF this] walk_names show ?thesis by blast
next
  assume "ValidateWorkspaceFilename p = None"
  from ValidateWorkspaceFilename_ok [OF this] walk_names [OF no_dotdot_segment] show ?thesis
    by (auto simp: hasPrefix_def prefix_def)
next
  assume "ValidateWorkspaceDirectory p = None"
  from ValidateWorkspaceDirectory_ok [OF this] walk_names [OF no_dotdot_segment] show ?thesis by blast
qed

text \<open>
  C31: a path any of the four checks accepts stays inside the workspace: followed from the
  workspace root, segment by segment, it ends in the root or below it, and it is not absolute.
\<close>

theorem checked_path_stays_inside:
  assumes "ValidateManagedWorkspacePath p = None \<or> ValidateWorkspaceFilePath p = None
           \<or> ValidateWorkspaceFilename p = None \<or> ValidateWorkspaceDirectory p = None"
  shows "(\<exists>below. walk root (splitByte (CHR ''/'') p) = below @ root) \<and> \<not> hasPrefix p ''/'' \<and> p \<noteq> []"
  using assms by (rule checked_inside)

theorem checked_path_stays_inside_witness:
  "ValidateManagedWorkspacePath ''a/../b.md'' = None
   \<and> (\<exists>below. walk [''workspace'', ''data''] (splitByte (CHR ''/'') ''a/../b.md'') = below @ [''workspace'', ''data''])
   \<and> ValidateManagedWorkspacePath ''a/../../b.md'' \<noteq> None"
  using checked_path_stays_inside [of "''a/../b.md''" "[''workspace'', ''data'']"]
  by (simp add: ValidateManagedWorkspacePath_def pathCleanRel_def hasPrefix_def)

section \<open>Keys of additional workspaces\<close>

text \<open>The names the webhook's \<^verbatim>\<open>workspaceNameRegex\<close> accepts: hyphen-separated words.\<close>

definition lowerAlnum :: "char \<Rightarrow> bool" where
  "lowerAlnum c = (c \<in> set ''abcdefghijklmnopqrstuvwxyz0123456789'')"

definition workspaceNameRegex :: "string \<Rightarrow> bool" where
  "workspaceNameRegex name = list_all (\<lambda>seg. seg \<noteq> [] \<and> list_all lowerAlnum seg) (splitByte (CHR ''-'') name)"

lemma splitByte_append: "splitByte c (a @ c # b) = splitByte c a @ splitByte c b"
  by (induction a) (auto split: list.splits)

lemma strIndex_first:
  assumes "\<not> sublist ''--'' (n @ ''-'')"
  shows "strIndex (n @ ''--'' @ f) ''--'' = Some (length n)"
  using assms
proof (induction n)
  case Nil
  then show ?case by (subst strIndex.simps) simp
next
  case (Cons x xs)
  then have "\<not> prefix ''--'' (x # xs @ ''-'')" and IH: "strIndex (xs @ ''--'' @ f) ''--'' = Some (length xs)"
    by (auto simp: sublist_Cons_right)
  then have "\<not> prefix ''--'' ((x # xs) @ ''--'' @ f)" by (cases xs) auto
  with IH show ?case by (subst strIndex.simps) simp
qed

lemma workspaceName_no_hyphens:
  assumes "workspaceNameRegex n"
  shows "\<not> sublist ''--'' (n @ ''-'')"
proof
  assume "sublist ''--'' (n @ ''-'')"
  then obtain a b where n: "n @ ''-'' = a @ ''--'' @ b" by (auto simp: sublist_def)
  have "[] \<in> set (splitByte (CHR ''-'') n)"
  proof (cases b rule: rev_cases)
    case Nil
    with n have "n = a @ CHR ''-'' # []" by simp
    then show ?thesis by (simp only: splitByte_append) simp
  next
    case (snoc b' z)
    with n have "n = a @ CHR ''-'' # CHR ''-'' # b'" by simp
    then show ?thesis by (simp only: splitByte_append) simp
  qed
  with assms show False by (auto simp: workspaceNameRegex_def list_all_iff)
qed

lemma parse_additional_key:
  assumes "workspaceNameRegex ws"
  shows "ParseAdditionalWorkspaceCMKey (AdditionalWorkspaceCMKey ws f) = Some (ws, f)"
  using strIndex_first [OF workspaceName_no_hyphens [OF assms], of f]
  by (simp add: ParseAdditionalWorkspaceCMKey_def AdditionalWorkspaceCMKey_def Let_def)

lemma additional_key_inj [simp]: "AdditionalWorkspaceCMKey ws f = AdditionalWorkspaceCMKey ws g \<longleftrightarrow> f = g"
  by (simp add: AdditionalWorkspaceCMKey_def)

lemma additional_key_name:
  assumes "workspaceNameRegex ws" "workspaceNameRegex ws'" "AdditionalWorkspaceCMKey ws f = AdditionalWorkspaceCMKey ws' g"
  shows "ws = ws'"
proof -
  have "Some (ws, f) = Some (ws', g)"
    unfolding parse_additional_key [OF assms(1), symmetric] parse_additional_key [OF assms(2), symmetric] assms(3) ..
  then show ?thesis by simp
qed

text \<open>
  The ConfigMap key of a file in an additional workspace parses back to that workspace and that
  file, for every workspace name the webhook accepts and every file key.
\<close>

theorem additional_key_roundtrip:
  assumes "workspaceNameRegex ws"
  shows "ParseAdditionalWorkspaceCMKey (AdditionalWorkspaceCMKey ws f) = Some (ws, f)"
  using assms by (rule parse_additional_key)

theorem additional_key_roundtrip_witness:
  "ParseAdditionalWorkspaceCMKey (AdditionalWorkspaceCMKey ''qa-1'' ''a--b.md'') = Some (''qa-1'', ''a--b.md'')"
  by (rule additional_key_roundtrip) code_simp

section \<open>What the seed ConfigMap holds\<close>

lemma map_of_overlay_other: "k \<notin> fst ` set src \<Longrightarrow> map_of (overlay dst src) k = map_of dst k"
  by (induction src arbitrary: dst) (auto simp: overlay_def update_conv')

text \<open>The map with encoded keys, and what writing it does to a file of the same encoding.\<close>

definition encoded :: "(string \<Rightarrow> string) \<Rightarrow> gomap \<Rightarrow> (string \<rightharpoonup> string)" where
  "encoded enc src = map_of (map (\<lambda>(k, v). (enc k, v)) src)"

lemma map_of_overlayKeys:
  assumes "distinct (map (enc \<circ> fst) src)"
  shows "map_of (overlayKeys enc src files) = map_of files ++ encoded enc src"
  unfolding overlayKeys_def encoded_def
  by (rule map_of_overlay) (use assms in \<open>simp add: comp_def case_prod_beta\<close>)

lemma encoded_inj: "(\<And>f g. key f = key g \<longleftrightarrow> f = g) \<Longrightarrow> encoded (key \<circ> enc) src (key f) = encoded enc src f"
  by (induction src) (auto simp: encoded_def)

lemma encoded_id [simp]: "encoded (\<lambda>k. k) src = map_of src"
  by (simp add: encoded_def)

lemma map_of_overlayKeys_other: "(\<And>f. k \<noteq> enc f) \<Longrightarrow> map_of (overlayKeys enc src files) k = map_of files k"
  unfolding overlayKeys_def by (rule map_of_overlay_other) force

lemma seedAdditional_other:
  assumes "\<And>f. k \<noteq> AdditionalWorkspaceCMKey (aw_Name aw) f"
  shows "map_of (seedAdditional txt ext packs aw files) k = map_of files k"
  using assms
  by (simp add: seedAdditional_def Let_def update_conv' map_of_overlayKeys_other split: option.splits)

text \<open>The layers of a workspace, lowest first.\<close>

definition seedLayers :: "gomap \<Rightarrow> gomap \<Rightarrow> gomap \<Rightarrow> (string \<rightharpoonup> string) \<Rightarrow> (string \<rightharpoonup> string)" where
  "seedLayers packs ext inline injected = map_of packs ++ map_of ext ++ encoded SkillPackCMKey inline ++ injected"

definition packFiles :: "('a SkillPackSet_scheme) option \<Rightarrow> gomap" where
  "packFiles sp = (case sp of None \<Rightarrow> [] | Some p \<Rightarrow> sp_Files p)"

text \<open>The keys of the Go maps involved are distinct; the inline files also after the encoding.\<close>

definition distinctKeys :: "gomap \<Rightarrow> gomap \<Rightarrow> gomap \<Rightarrow> bool" where
  "distinctKeys packs ext inline \<longleftrightarrow>
     distinct (map fst packs) \<and> distinct (map fst ext) \<and> distinct (map (SkillPackCMKey \<circ> fst) inline)"

definition injectedFiles :: "InjectedTexts \<Rightarrow> OpenClawInstance \<Rightarrow> (string \<rightharpoonup> string)" where
  "injectedFiles txt inst =
     [''ENVIRONMENT.md'' \<mapsto> EnvironmentSkillContent txt]
     ++ (if bootstrapEnabled inst then [''BOOTSTRAP.md'' \<mapsto> BootstrapContent txt] else Map.empty)
     ++ (if scf_Enabled (spec_SelfConfigure (oci_Spec inst))
         then [''SELFCONFIG.md'' \<mapsto> SelfConfigureSkillContent txt, ''selfconfig.sh'' \<mapsto> SelfConfigureHelperScript txt]
         else Map.empty)"

definition additionalLayers ::
    "InjectedTexts \<Rightarrow> (string \<times> gomap) list \<Rightarrow> ResolvedSkillPacks option \<Rightarrow> AdditionalWorkspace \<Rightarrow> (string \<rightharpoonup> string)" where
  "additionalLayers txt ext packs aw =
     seedLayers (packFiles (WorkspacePacks packs (aw_Name aw))) (derefOr [] (map_of ext (aw_Name aw)))
       (aw_InitialFiles aw) [''ENVIRONMENT.md'' \<mapsto> EnvironmentSkillContent txt]"

definition additionalDistinct :: "(string \<times> gomap) list \<Rightarrow> ResolvedSkillPacks option \<Rightarrow> AdditionalWorkspace \<Rightarrow> bool" where
  "additionalDistinct ext packs aw \<longleftrightarrow>
     distinctKeys (packFiles (WorkspacePacks packs (aw_Name aw))) (derefOr [] (map_of ext (aw_Name aw))) (aw_InitialFiles aw)"

lemma defaultWorkspaceFiles_layers:
  assumes "spec_Workspace (oci_Spec inst) = Some ws" "distinctKeys (packFiles packs) ext (ws_InitialFiles ws)"
  shows "map_of (defaultWorkspaceFiles txt inst ext packs)
    = seedLayers (packFiles packs) ext (ws_InitialFiles ws) (injectedFiles txt inst)"
  using assms
  by (auto simp: defaultWorkspaceFiles_def Let_def update_conv' map_of_overlayKeys map_of_overlay distinctKeys_def
      packFiles_def seedLayers_def injectedFiles_def fun_eq_iff map_add_def split: option.splits)

lemma seedAdditional_layers:
  assumes "additionalDistinct ext packs aw"
  shows "map_of (seedAdditional txt ext packs aw files) (AdditionalWorkspaceCMKey (aw_Name aw) f)
    = ((\<lambda>f. map_of files (AdditionalWorkspaceCMKey (aw_Name aw) f))
       ++ additionalLayers txt ext packs aw) f"
proof -
  let ?key = "AdditionalWorkspaceCMKey (aw_Name aw)"
  have enc: "encoded ?key src (?key g) = map_of src g" "encoded (?key \<circ> SkillPackCMKey) src (?key g) = encoded SkillPackCMKey src g"
    for src g
    using encoded_inj [of ?key "\<lambda>k. k"] encoded_inj [of ?key SkillPackCMKey] by (simp_all add: comp_def)
  have d: "distinct (map (?key \<circ> fst) src) = distinct (map fst src)" for src :: gomap
    by (simp add: distinct_map inj_on_def comp_def)
  have d': "distinct (map (?key \<circ> SkillPackCMKey \<circ> fst) src) = distinct (map (SkillPackCMKey \<circ> fst) src)" for src :: gomap
    by (simp add: distinct_map inj_on_def comp_def)
  show ?thesis
    using assms
    by (auto simp: seedAdditional_def Let_def update_conv' map_of_overlayKeys additionalDistinct_def distinctKeys_def d d' enc additionalLayers_def seedLayers_def
        packFiles_def map_add_def split: option.splits)
qed

lemma seed_fold_other:
  assumes "\<And>aw f. aw \<in> set aws \<Longrightarrow> k \<noteq> AdditionalWorkspaceCMKey (aw_Name aw) f"
  shows "map_of (fold (seedAdditional txt ext packs) aws files) k = map_of files k"
  using assms by (induction aws arbitrary: files) (simp_all add: seedAdditional_other)

lemma seed_fold_key:
  assumes "aw \<in> set aws" "distinct (map aw_Name aws)" "\<And>aw. aw \<in> set aws \<Longrightarrow> workspaceNameRegex (aw_Name aw)"
    "additionalDistinct ext packs aw"
  shows "map_of (fold (seedAdditional txt ext packs) aws files) (AdditionalWorkspaceCMKey (aw_Name aw) f)
    = ((\<lambda>f. map_of files (AdditionalWorkspaceCMKey (aw_Name aw) f))
       ++ additionalLayers txt ext packs aw) f"
  using assms
proof (induction aws arbitrary: files)
  case (Cons a aws)
  have names: "AdditionalWorkspaceCMKey (aw_Name aw) g \<noteq> AdditionalWorkspaceCMKey (aw_Name b) h"
    if "b \<in> set (a # aws)" "aw_Name b \<noteq> aw_Name aw" for b g h
    using additional_key_name Cons.prems(1,3) that by metis
  show ?case
  proof (cases "a = aw")
    case True
    with Cons.prems(2) have "aw_Name b \<noteq> aw_Name aw" if "b \<in> set aws" for b
      using that by (auto simp: image_iff)
    with names have "map_of (fold (seedAdditional txt ext packs) aws files') (AdditionalWorkspaceCMKey (aw_Name aw) f)
        = map_of files' (AdditionalWorkspaceCMKey (aw_Name aw) f)" for files'
      by (intro seed_fold_other) simp
    with True Cons.prems(4) show ?thesis by (simp add: seedAdditional_layers)
  next
    case False
    with Cons.prems have aw: "aw \<in> set aws" "aw_Name a \<noteq> aw_Name aw" by force+
    with names have "map_of (seedAdditional txt ext packs a files) (AdditionalWorkspaceCMKey (aw_Name aw) g)
        = map_of files (AdditionalWorkspaceCMKey (aw_Name aw) g)" for g
      by (intro seedAdditional_other) simp
    with Cons.IH [of "seedAdditional txt ext packs a files"] Cons.prems aw show ?thesis by simp
  qed
qed simp

text \<open>
  C32: what the seed ConfigMap holds under which key. Every key that is not namespaced holds the content
  of the highest-priority source of the default workspace that has a file under that key -
  operator-injected over inline over the referenced ConfigMap over skill packs - and no file of an
  additional workspace. The namespaced key of a file of an additional workspace holds the
  highest-priority source of that workspace that has it, and nothing of any other additional
  workspace; where that workspace has no such file, the key is a file of the default workspace that
  was given just this name, if there is one (see \<open>default_file_replaced\<close>). Keys are file
  paths with each slash written as two dashes; the statement supposes that no two inline files of one
  workspace get the same key by that (see \<open>marker_and_key_collide\<close>).
\<close>

theorem seeded_files:
  assumes "spec_Workspace (oci_Spec inst) = Some ws"
    "distinctKeys (packFiles packs) ext (ws_InitialFiles ws)"
    "distinct (map aw_Name (ws_AdditionalWorkspaces ws))"
    "list_all (\<lambda>aw. workspaceNameRegex (aw_Name aw) \<and> additionalDistinct addExt packs aw) (ws_AdditionalWorkspaces ws)"
  shows "let data = map_of (cm_Data (BuildWorkspaceConfigMap txt inst ext addExt packs));
             base = seedLayers (packFiles packs) ext (ws_InitialFiles ws) (injectedFiles txt inst)
         in (\<forall>k. \<not> hasPrefix k additionalWorkspaceKeySep \<longrightarrow> data k = base k)
            \<and> (\<forall>aw \<in> set (ws_AdditionalWorkspaces ws). \<forall>f.
                 data (AdditionalWorkspaceCMKey (aw_Name aw) f)
                 = ((\<lambda>f. base (AdditionalWorkspaceCMKey (aw_Name aw) f)) ++ additionalLayers txt addExt packs aw) f)"
proof -
  have data: "cm_Data (BuildWorkspaceConfigMap txt inst ext addExt packs)
      = fold (seedAdditional txt addExt packs) (ws_AdditionalWorkspaces ws) (defaultWorkspaceFiles txt inst ext packs)"
    using assms(1) by (simp add: BuildWorkspaceConfigMap_def Let_def)
  note base = defaultWorkspaceFiles_layers [OF assms(1,2), symmetric]
  show ?thesis
    unfolding Let_def data base
  proof (intro conjI allI impI ballI)
    fix k assume "\<not> hasPrefix k additionalWorkspaceKeySep"
    then show "map_of (fold (seedAdditional txt addExt packs) (ws_AdditionalWorkspaces ws) (defaultWorkspaceFiles txt inst ext packs)) k
        = map_of (defaultWorkspaceFiles txt inst ext packs) k"
      by (intro seed_fold_other) (auto simp: AdditionalWorkspaceCMKey_def)
  next
    fix aw f assume "aw \<in> set (ws_AdditionalWorkspaces ws)"
    with assms(3,4) show "map_of (fold (seedAdditional txt addExt packs) (ws_AdditionalWorkspaces ws) (defaultWorkspaceFiles txt inst ext packs))
          (AdditionalWorkspaceCMKey (aw_Name aw) f)
        = ((\<lambda>f. map_of (defaultWorkspaceFiles txt inst ext packs) (AdditionalWorkspaceCMKey (aw_Name aw) f))
           ++ additionalLayers txt addExt packs aw) f"
      by (intro seed_fold_key) (auto simp: list_all_iff)
  qed
qed

definition exampleWs :: WorkspaceSpec where
  "exampleWs = zero_WorkspaceSpec\<lparr>ws_InitialFiles := [(''a/b.md'', ''inline''), (''ENVIRONMENT.md'', ''mine'')],
     ws_AdditionalWorkspaces := [zero_AdditionalWorkspace\<lparr>aw_Name := ''qa'', aw_InitialFiles := [(''a/b.md'', ''qa'')]\<rparr>]\<rparr>"

definition seedExample :: OpenClawInstance where
  "seedExample = zero_OpenClawInstance\<lparr>oci_Spec := zero_OpenClawInstanceSpec\<lparr>spec_Workspace := Some exampleWs\<rparr>\<rparr>"

definition exampleTexts :: InjectedTexts where
  "exampleTexts = \<lparr>EnvironmentSkillContent = ''env'', BootstrapContent = ''boot'', SelfConfigureSkillContent = ''self'',
     SelfConfigureHelperScript = ''sh''\<rparr>"

theorem seeded_files_witness:
  "map_of (cm_Data (BuildWorkspaceConfigMap exampleTexts seedExample [(''a--b.md'', ''ext'')] [] None)) ''a--b.md'' = Some ''inline''
   \<and> map_of (cm_Data (BuildWorkspaceConfigMap exampleTexts seedExample [(''a--b.md'', ''ext'')] [] None))
       (AdditionalWorkspaceCMKey ''qa'' ''a--b.md'') = Some ''qa''"
proof -
  have ws: "spec_Workspace (oci_Spec seedExample) = Some exampleWs" by (simp add: seedExample_def)
  have d: "distinctKeys (packFiles (None :: ResolvedSkillPacks option)) [(''a--b.md'', ''ext'')] (ws_InitialFiles exampleWs)"
    "distinct (map aw_Name (ws_AdditionalWorkspaces exampleWs))"
    "list_all (\<lambda>aw. workspaceNameRegex (aw_Name aw) \<and> additionalDistinct [] None aw) (ws_AdditionalWorkspaces exampleWs)"
    by code_simp+
  have np: "\<not> hasPrefix ''a--b.md'' additionalWorkspaceKeySep" by code_simp
  have v: "seedLayers (packFiles (None :: ResolvedSkillPacks option)) [(''a--b.md'', ''ext'')] (ws_InitialFiles exampleWs)
      (injectedFiles exampleTexts seedExample) ''a--b.md'' = Some ''inline''"
    "additionalLayers exampleTexts [] None (hd (ws_AdditionalWorkspaces exampleWs)) ''a--b.md'' = Some ''qa''"
    by code_simp+
  have aw: "aw_Name (hd (ws_AdditionalWorkspaces exampleWs)) = ''qa''"
    "hd (ws_AdditionalWorkspaces exampleWs) \<in> set (ws_AdditionalWorkspaces exampleWs)"
    by (simp_all add: exampleWs_def)
  note seeded = seeded_files [OF ws d, of exampleTexts, unfolded Let_def]
  from seeded [THEN conjunct1, rule_format, OF np] seeded [THEN conjunct2, rule_format, OF aw(2), of "''a--b.md''"]
  show ?thesis unfolding aw(1) v by (simp add: map_add_def v(2))
qed

text \<open>
  The name of an inline file of the default workspace may look like a namespaced key. The file is
  accepted; if the additional workspace has the file the key stands for, the content of that file is the
  one under the key from which both are seeded.
\<close>

definition replacedWs :: WorkspaceSpec where
  "replacedWs = zero_WorkspaceSpec\<lparr>ws_InitialFiles := [(''--ws--qa--x.md'', ''default'')],
     ws_AdditionalWorkspaces := [zero_AdditionalWorkspace\<lparr>aw_Name := ''qa'', aw_InitialFiles := [(''x.md'', ''other'')]\<rparr>]\<rparr>"

theorem default_file_replaced:
  "ValidateWorkspaceFilePath ''--ws--qa--x.md'' = None \<and> workspaceNameRegex ''qa''
   \<and> map_of (cm_Data (BuildWorkspaceConfigMap exampleTexts
         (zero_OpenClawInstance\<lparr>oci_Spec := zero_OpenClawInstanceSpec\<lparr>spec_Workspace := Some replacedWs\<rparr>\<rparr>) [] [] None))
       (SkillPackCMKey ''--ws--qa--x.md'') = Some ''other''"
  by (intro conjI; code_simp)

section \<open>Reports and markers\<close>

lemma overlay_distinct: "distinct (map fst dst) \<Longrightarrow> distinct (map fst (overlay dst src))"
  by (induction src arbitrary: dst) (auto simp: overlay_def distinct_update)

lemma sources_distinct: "distinct (map fst (defaultWorkspaceSources ws ext))"
  by (simp add: defaultWorkspaceSources_def overlay_distinct)

lemma replace_fold:
  "distinct (map fst src) \<Longrightarrow>
   map_of (fold (\<lambda>(p, c) out. if P p then AList.update p (h c) out else out) src acc) q
   = (case map_of src q of Some c \<Rightarrow> if P q then Some (h c) else map_of acc q | None \<Rightarrow> map_of acc q)"
  by (induction src arbitrary: acc) (auto simp: update_conv' split: option.splits dest: map_of_SomeD intro: rev_image_eqI)

lemma workspaceStatuses_mem:
  "\<lparr>mfs_Workspace = w, mfs_Path = p, mfs_UpdatePolicy = pol, mfs_SourceHash = h\<rparr>
     \<in> set (workspaceStatuses sha w policy sources managed) \<longleftrightarrow>
   pol = policy p
   \<and> ((\<exists>c. map_of sources p = Some c \<and> policy p = WorkspaceFileUpdatePolicyReplace \<and> h = sha c)
      \<or> map_of sources p = None \<and> h = [] \<and> p \<in> mf_Path ` set managed)"
proof -
  have "p \<in> set (sortedKeys sources) \<longleftrightarrow> (\<exists>c. map_of sources p = Some c)" for p
    by (simp add: sortedKeys_def domIff [symmetric] flip: dom_map_of_conv_image_fst) (simp add: dom_def)
  then show ?thesis by (auto simp: workspaceStatuses_def image_iff)
qed

lemma workspaceStatuses_workspace: "st \<in> set (workspaceStatuses sha w policy sources managed) \<Longrightarrow> mfs_Workspace st = w"
  by (auto simp: workspaceStatuses_def)

text \<open>
  The status reports for the default workspace, with its source hash, exactly the files the init
  script converges: a path is a Replace source with hash \<open>h\<close> if and only if an entry of the report
  has that path, the policy Replace and that hash, or an entry that announces a declared path
  without a source.
\<close>

theorem managed_report_exact:
  assumes "spec_Workspace (oci_Spec inst) = Some ws"
    "list_all (\<lambda>aw. aw_Name aw \<noteq> []) (ws_AdditionalWorkspaces ws)"
  shows "(\<lparr>mfs_Workspace = [], mfs_Path = p, mfs_UpdatePolicy = pol, mfs_SourceHash = h\<rparr>
            \<in> set (ManagedWorkspaceFileStatuses sha inst ext addExt)) \<longleftrightarrow>
         pol = WorkspaceFilePolicy (Some ws) p
         \<and> (map_of (the (workspaceReplaceSources sha inst ext)) p = Some h
            \<or> map_of (defaultWorkspaceSources ws ext) p = None \<and> h = [] \<and> p \<in> mf_Path ` set (ws_ManagedFiles ws))"
proof -
  let ?st = "\<lparr>mfs_Workspace = [], mfs_Path = p, mfs_UpdatePolicy = pol, mfs_SourceHash = h\<rparr>"
  have "?st \<in> set (ManagedWorkspaceFileStatuses sha inst ext addExt) \<longleftrightarrow>
      ?st \<in> set (workspaceStatuses sha [] (WorkspaceFilePolicy (Some ws)) (defaultWorkspaceSources ws ext) (ws_ManagedFiles ws))"
    using assms workspaceStatuses_workspace [of ?st]
    by (fastforce simp: ManagedWorkspaceFileStatuses_def list_all_iff)
  moreover have "map_of (the (workspaceReplaceSources sha inst ext)) p
      = (case map_of (defaultWorkspaceSources ws ext) p of
           Some c \<Rightarrow> if WorkspaceFilePolicy (Some ws) p = WorkspaceFileUpdatePolicyReplace then Some (sha c) else None
         | None \<Rightarrow> None)"
    using assms(1) by (simp add: workspaceReplaceSources_def replace_fold [OF sources_distinct] split: option.splits)
  ultimately show ?thesis by (auto simp: workspaceStatuses_mem split: option.splits)
qed

theorem managed_report_exact_witness:
  "\<lparr>mfs_Workspace = [], mfs_Path = ''a'', mfs_UpdatePolicy = ''Replace'', mfs_SourceHash = ''hx''\<rparr>
     \<in> set (ManagedWorkspaceFileStatuses (\<lambda>c. CHR ''h'' # c)
         (zero_OpenClawInstance\<lparr>oci_Spec := zero_OpenClawInstanceSpec\<lparr>spec_Workspace := Some
            (zero_WorkspaceSpec\<lparr>ws_InitialFiles := [(''a'', ''x'')], ws_ManagedFiles := [zero_ManagedWorkspaceFile\<lparr>mf_Path := ''a''\<rparr>]\<rparr>)\<rparr>\<rparr>)
         [] [])"
  by (subst managed_report_exact, simp, simp add: zero_WorkspaceSpec_def) code_simp

text \<open>
  Two files the path checks accept can share a marker, although the comment on
  \<^verbatim>\<open>managedMarkerPath\<close> says they cannot, and two inline files of one workspace can share a
  ConfigMap key.
\<close>

theorem marker_and_key_collide:
  "managedMarkerPath ''qa'' ''a.md'' = managedMarkerPath [] ''ws-qa/a.md''
   \<and> workspaceNameRegex ''qa''
   \<and> SkillPackCMKey ''a/b.md'' = SkillPackCMKey ''a--b.md''
   \<and> ValidateWorkspaceFilePath ''a.md'' = None \<and> ValidateWorkspaceFilePath ''ws-qa/a.md'' = None
   \<and> ValidateWorkspaceFilePath ''a/b.md'' = None \<and> ValidateWorkspaceFilePath ''a--b.md'' = None"
  by (intro conjI; code_simp)

end
