(* ===== verification/SkillPacks.thy ===== *)
theory SkillPacks
  imports Registry Workspace
begin

text \<open>
  internal/skillpacks/resolver.go: resolving \<^verbatim>\<open>pack:owner/repo/path[@ref]\<close> references to
  workspace files through the GitHub API, from a \<^verbatim>\<open>skillpack.json\<close> manifest or, without one,
  from the repository tree; with a cache that falls back to an expired entry when GitHub fails.
\<close>

section \<open>References\<close>

record packRef =
  pr_Owner :: string
  pr_Repo :: string
  pr_Path :: string
  pr_Ref :: string

definition parsePackRef :: "string \<Rightarrow> go_error + packRef" where
  "parsePackRef name =
     (let (base, ref) = (case lastIndexByte name (CHR ''@'') of
                           Some atIdx \<Rightarrow> if 0 < atIdx then (take atIdx name, drop (Suc atIdx) name) else (name, [])
                         | None \<Rightarrow> (name, []))
      in case splitNByte 3 (CHR ''/'') base of
           [owner, repo, path] \<Rightarrow> Inr \<lparr>pr_Owner = owner, pr_Repo = repo, pr_Path = path, pr_Ref = ref\<rparr>
         | _ \<Rightarrow> Inl (errorf (''invalid pack reference '' @ quoteStr name @ '': expected owner/repo/path[@ref]'')))"

section \<open>Replies\<close>

record manifest =
  mn_Files :: gomap
  mn_Directories :: "string list"
  mn_Config :: obj

record treeEntry =
  te_Path :: string
  te_Type :: string

definition decodeManifest :: "json \<Rightarrow> manifest option" where
  "decodeManifest j =
     Option.bind (structMembers j) (\<lambda>m.
     Option.bind (decodeField (decMap decString []) [] ''files'' m) (\<lambda>files.
     Option.bind (decodeField (decList decString []) [] ''directories'' m) (\<lambda>dirs.
     Option.bind (decodeField (decMap Some JNull) [] ''config'' m) (\<lambda>config.
       Some \<lparr>mn_Files = files, mn_Directories = dirs, mn_Config = config\<rparr>))))"

text \<open>\<^verbatim>\<open>contentsResponse\<close>: content and encoding.\<close>

definition decodeContents :: "json \<Rightarrow> (string \<times> string) option" where
  "decodeContents j =
     Option.bind (structMembers j) (\<lambda>m.
     Option.bind (decodeField decString [] ''content'' m) (\<lambda>content.
     Option.bind (decodeField decString [] ''encoding'' m) (\<lambda>encoding. Some (content, encoding))))"

definition decodeTreeEntry :: "json \<Rightarrow> treeEntry option" where
  "decodeTreeEntry j =
     Option.bind (structMembers j) (\<lambda>m.
     Option.bind (decodeField decString [] ''path'' m) (\<lambda>p.
     Option.bind (decodeField decString [] ''type'' m) (\<lambda>t. Some \<lparr>te_Path = p, te_Type = t\<rparr>)))"

text \<open>\<^verbatim>\<open>treeResponse\<close>: the entries and whether GitHub truncated them.\<close>

definition decodeTree :: "json \<Rightarrow> (treeEntry list \<times> bool) option" where
  "decodeTree j =
     Option.bind (structMembers j) (\<lambda>m.
     Option.bind (decodeField (decList decodeTreeEntry \<lparr>te_Path = [], te_Type = []\<rparr>) [] ''tree'' m) (\<lambda>tree.
     Option.bind (decodeField decBool False ''truncated'' m) (\<lambda>trunc. Some (tree, trunc))))"

section \<open>Requests\<close>

record 'w resolver =
  rs_Http :: "'w http"
  rs_TTL :: int
  rs_Token :: string
  rs_BaseURL :: string

definition notFound :: "string \<Rightarrow> go_error" where
  "notFound what = GoErr KNotFound (''not found: '' @ what)"

definition ghRequest :: "'w resolver \<Rightarrow> string \<Rightarrow> Request" where
  "ghRequest r url = \<lparr>rq_URL = url,
     rq_Headers = (''Accept'', ''application/vnd.github.v3+json'')
       # (if rs_Token r = [] then [] else [(''Authorization'', ''Bearer '' @ rs_Token r)])\<rparr>"

definition fetchFile :: "'w resolver \<Rightarrow> string \<Rightarrow> string \<Rightarrow> string \<Rightarrow> string \<Rightarrow> ('w, 'v, string) fetcher" where
  "fetchFile r owner repo filePath ref =
     (let url = rs_BaseURL r @ ''/repos/'' @ owner @ ''/'' @ repo @ ''/contents/'' @ filePath
                @ (if ref = [] then [] else ''?ref='' @ ref);
          what = owner @ ''/'' @ repo @ ''/'' @ filePath
      in bindE (doGet (rs_Http r) (ghRequest r url) (\<lambda>m. ''HTTP request failed: '' @ m)) (\<lambda>resp.
         if rp_Status resp = StatusNotFound then failE (notFound what)
         else if rp_Status resp \<noteq> StatusOK then
           failE (errorf (''unexpected status '' @ intStr (rp_Status resp) @ '' for '' @ what))
         else bindE (decodeE (rs_Http r) ''decoding response'' decodeContents resp) (\<lambda>(content, encoding).
           if encoding \<noteq> ''base64'' then
             failE (errorf (''unexpected encoding '' @ quoteStr encoding @ '' (expected base64)''))
           else case b64decode False (filter (\<lambda>c. c \<noteq> CHR 0x0A) content) of
                  None \<Rightarrow> failE (errorf (''decoding base64 content: '' @ hx_DecodeError (rs_Http r)))
                | Some d \<Rightarrow> returnE d)))"

definition fetchTree :: "'w resolver \<Rightarrow> string \<Rightarrow> string \<Rightarrow> string \<Rightarrow> ('w, 'v, treeEntry list \<times> bool) fetcher" where
  "fetchTree r owner repo ref =
     (let treeRef = strOr ref ''HEAD'';
          url = rs_BaseURL r @ ''/repos/'' @ owner @ ''/'' @ repo @ ''/git/trees/'' @ treeRef @ ''?recursive=1'';
          what = owner @ ''/'' @ repo @ ''@'' @ treeRef
      in bindE (doGet (rs_Http r) (ghRequest r url) (\<lambda>m. ''HTTP request failed: '' @ m)) (\<lambda>resp.
         if rp_Status resp = StatusNotFound then failE (notFound (''tree '' @ what))
         else if rp_Status resp \<noteq> StatusOK then
           failE (errorf (''unexpected status '' @ intStr (rp_Status resp) @ '' for tree '' @ what))
         else decodeE (rs_Http r) ''decoding tree response'' decodeTree resp))"

section \<open>Packs\<close>

text \<open>Fetching the files of a pack one by one: repository path and workspace path of each.\<close>

fun fetchFiles ::
    "'w resolver \<Rightarrow> packRef \<Rightarrow> (string \<Rightarrow> string) \<Rightarrow> (string \<times> string) list \<Rightarrow> gomap \<times> gomap \<Rightarrow> ('w, 'v, gomap \<times> gomap) fetcher" where
  "fetchFiles r ref errName [] acc = returnE acc"
| "fetchFiles r ref errName ((filePath, wsPath) # todo) (files, mapping) =
     bindE (mapErr (wrapErr (''fetching file '' @ quoteStr (errName filePath)))
              (fetchFile r (pr_Owner ref) (pr_Repo ref) filePath (pr_Ref ref))) (\<lambda>content.
       fetchFiles r ref errName todo
         (AList.update (SkillPackCMKey wsPath) content files, AList.update (SkillPackCMKey wsPath) wsPath mapping))"

definition packPrefix :: "packRef \<Rightarrow> string" where
  "packPrefix ref = trimSuffix (pr_Path ref) ''/'' @ ''/''"

definition packRoot :: "packRef \<Rightarrow> string" where
  "packRoot ref = ''skills/'' @ pathBase (pr_Path ref)"

text \<open>The entries of the tree strictly below the pack path, of one type, relative to it.\<close>

definition below :: "packRef \<Rightarrow> string \<Rightarrow> treeEntry list \<Rightarrow> string list" where
  "below ref ty tree =
     map (\<lambda>te. trimPrefix (te_Path te) (packPrefix ref))
       (filter (\<lambda>te. hasPrefix (te_Path te) (packPrefix ref) \<and> trimPrefix (te_Path te) (packPrefix ref) \<noteq> [] \<and> te_Type te = ty) tree)"

definition fetchRawPack :: "'w resolver \<Rightarrow> packRef \<Rightarrow> ('w, 'v, SkillPackSet) fetcher" where
  "fetchRawPack r ref =
     bindE (mapErr (wrapErr ''listing repository tree'') (fetchTree r (pr_Owner ref) (pr_Repo ref) (pr_Ref ref))) (\<lambda>(tree, trunc).
       if trunc then
         failE (errorf (''repository tree for '' @ pr_Owner ref @ ''/'' @ pr_Repo ref
           @ '' is too large to enumerate (GitHub truncated the response) -- add a skillpack.json manifest at ''
           @ pr_Path ref @ '' to install this pack''))
       else if pathBase (pr_Path ref) \<in> {''.'', ''/'', []} then
         failE (errorf (''pack path '' @ quoteStr (pr_Path ref) @ '' has no basename to derive a skill directory from''))
       else if ''SKILL.md'' \<notin> set (below ref ''blob'' tree) then
         failE (errorf (''no skillpack.json and no SKILL.md found at '' @ pr_Owner ref @ ''/'' @ pr_Repo ref @ ''/'' @ pr_Path ref
           @ '' -- raw-repo install requires a SKILL.md at the pack path''))
       else
         bindE (fetchFiles r ref (\<lambda>p. p)
                  (map (\<lambda>blob. (blob, packRoot ref @ ''/'' @ trimPrefix blob (packPrefix ref)))
                     (sort (map (\<lambda>rel. packPrefix ref @ rel) (below ref ''blob'' tree)))) ([], [])) (\<lambda>(files, mapping).
           returnE \<lparr>sp_Files = files, sp_PathMapping = mapping,
             sp_Directories = sort (packRoot ref # map (\<lambda>rel. packRoot ref @ ''/'' @ rel) (below ref ''tree'' tree)),
             sp_SkillEntries = []\<rparr>))"

definition installManifest :: "'w resolver \<Rightarrow> packRef \<Rightarrow> manifest \<Rightarrow> ('w, 'v, SkillPackSet) fetcher" where
  "installManifest r ref m =
     bindE (fetchFiles r ref (\<lambda>p. trimPrefix p (pr_Path ref @ ''/''))
              (map (\<lambda>(wsPath, repoRelPath). (pr_Path ref @ ''/'' @ repoRelPath, wsPath)) (mn_Files m)) ([], [])) (\<lambda>(files, mapping).
       returnE \<lparr>sp_Files = files, sp_PathMapping = mapping, sp_Directories = mn_Directories m,
         sp_SkillEntries = overlay [] (mn_Config m)\<rparr>)"

definition fetchPack :: "'w resolver \<Rightarrow> string \<Rightarrow> ('w, 'v, SkillPackSet) fetcher" where
  "fetchPack r name =
     (case parsePackRef name of
        Inl e \<Rightarrow> failE e
      | Inr ref \<Rightarrow>
          State_Monad.bind (fetchFile r (pr_Owner ref) (pr_Repo ref) (pr_Path ref @ ''/skillpack.json'') (pr_Ref ref)) (\<lambda>res.
            case res of
              Inl e \<Rightarrow> if isNotFound e then fetchRawPack r ref else failE (wrapErr ''fetching skillpack.json'' e)
            | Inr text \<Rightarrow>
                (case Option.bind (hx_ParseJSON (rs_Http r) text) decodeManifest of
                   None \<Rightarrow> failE (errorf (''parsing skillpack.json: '' @ hx_DecodeError (rs_Http r)))
                 | Some m \<Rightarrow> installManifest r ref m)))"

section \<open>The cache and the merge\<close>

definition peek :: "string \<Rightarrow> (('w, 'v) rctx, 'v option) state" where
  "peek k = State (\<lambda>s. (map_option fst (map_of (rx_Cache s) k), s))"

definition resolvePack :: "'w resolver \<Rightarrow> string \<Rightarrow> ('w, SkillPackSet, SkillPackSet) fetcher" where
  "resolvePack r name =
     State_Monad.bind (cached (rs_Http r) (rs_TTL r) name) (\<lambda>hit.
       case hit of
         Some resolved \<Rightarrow> returnE resolved
       | None \<Rightarrow> State_Monad.bind (fetchPack r name) (\<lambda>res.
           case res of
             Inl e \<Rightarrow> State_Monad.bind (peek name) (\<lambda>stale. case stale of Some v \<Rightarrow> returnE v | None \<Rightarrow> failE e)
           | Inr resolved \<Rightarrow>
               State_Monad.bind (clock (rs_Http r)) (\<lambda>t.
                 State_Monad.bind (storeCache name resolved t) (\<lambda>_. returnE resolved))))"

definition mergePack :: "SkillPackSet \<Rightarrow> SkillPackSet \<Rightarrow> SkillPackSet" where
  "mergePack merged resolved =
     \<lparr>sp_Files = overlay (sp_Files merged) (sp_Files resolved),
      sp_PathMapping = overlay (sp_PathMapping merged) (sp_PathMapping resolved),
      sp_Directories = sp_Directories merged @ sp_Directories resolved,
      sp_SkillEntries = overlay (sp_SkillEntries merged) (sp_SkillEntries resolved)\<rparr>"

fun resolveAll :: "'w resolver \<Rightarrow> string list \<Rightarrow> SkillPackSet \<Rightarrow> ('w, SkillPackSet, SkillPackSet) fetcher" where
  "resolveAll r [] merged = returnE merged"
| "resolveAll r (name # names) merged =
     bindE (mapErr (wrapErr (''skill pack '' @ quoteStr name)) (resolvePack r name)) (\<lambda>resolved.
       resolveAll r names (mergePack merged resolved))"

definition Resolve :: "'w resolver \<Rightarrow> string list \<Rightarrow> ('w, SkillPackSet, SkillPackSet option) fetcher" where
  "Resolve r packNames =
     (if packNames = [] then returnE None
      else bindE (resolveAll r (sort packNames) \<lparr>sp_Files = [], sp_PathMapping = [], sp_Directories = [], sp_SkillEntries = []\<rparr>) (\<lambda>merged.
        returnE (Some (merged\<lparr>sp_Directories := sort (remdups (sp_Directories merged))\<rparr>))))"

section \<open>What fetching leaves alone\<close>

lemma cacheSame_bind [cache_same]: "cacheSame m \<Longrightarrow> (\<And>x. cacheSame (f x)) \<Longrightarrow> cacheSame (State_Monad.bind m f)"
  by (auto simp: cacheSame_def run_simps split: prod.splits) (metis snd_conv)

lemma fetchFile_frame [cache_same]: "cacheSame (fetchFile r owner repo filePath ref)"
  by (auto simp: fetchFile_def Let_def intro!: cache_same split: option.splits)

lemma fetchTree_frame [cache_same]: "cacheSame (fetchTree r owner repo ref)"
  by (auto simp: fetchTree_def Let_def intro!: cache_same)

lemma fetchFiles_frame [cache_same]: "cacheSame (fetchFiles r ref errName todo acc)"
  by (induction r ref errName todo acc rule: fetchFiles.induct) (auto intro!: cache_same)

lemma fetchRawPack_frame [cache_same]: "cacheSame (fetchRawPack r ref)"
  by (auto simp: fetchRawPack_def intro!: cache_same)

lemma installManifest_frame [cache_same]: "cacheSame (installManifest r ref m)"
  by (auto simp: installManifest_def intro!: cache_same)

lemma fetchPack_frame [cache_same]: "cacheSame (fetchPack r name)"
  by (auto simp: fetchPack_def intro!: cache_same split: sum.splits option.splits)

section \<open>The cache contract\<close>

text \<open>A read answers from a fresh entry, stores what it fetched, falls back to the entry it has, or fails without one.\<close>

lemma resolvePack_cases:
  assumes "run_state (resolvePack r k) s = (res, s')"
  shows "(\<exists>v t. res = Inr v \<and> map_of (rx_Cache s) k = Some (v, t) \<and> rx_Cache s' = rx_Cache s)
    \<or> (\<exists>v t. res = Inr v \<and> rx_Cache s' = AList.update k (v, t) (rx_Cache s))
    \<or> (\<exists>e. res = Inl e \<and> map_of (rx_Cache s) k = None \<and> rx_Cache s' = rx_Cache s)"
proof -
  obtain c s1 where c: "run_state (cached (rs_Http r) (rs_TTL r) k) s = (c, s1)"
    by (cases "run_state (cached (rs_Http r) (rs_TTL r) k) s")
  then have s1: "rx_Cache s1 = rx_Cache s" using cached_cache [of "rs_Http r" "rs_TTL r" k s] by simp
  show ?thesis
  proof (cases c)
    case None
    obtain fr s2 where f: "run_state (fetchPack r k) s1 = (fr, s2)" by (cases "run_state (fetchPack r k) s1")
    then have s2: "rx_Cache s2 = rx_Cache s" using s1 cacheSame_run [OF fetchPack_frame] by metis
    show ?thesis
    proof (cases fr)
      case (Inl e)
      with assms c None f s2 show ?thesis
        by (auto simp: resolvePack_def run_simps peek_def split: option.splits)
    next
      case (Inr v)
      obtain n s3 where n: "run_state (clock (rs_Http r)) s2 = (n, s3)" by (cases "run_state (clock (rs_Http r)) s2")
      with s2 have "rx_Cache s3 = rx_Cache s" using cacheSame_run [OF cacheSame_E(6)] by metis
      with assms c None f n Inr show ?thesis by (auto simp: resolvePack_def run_simps storeCache_def)
    qed
  next
    case (Some v)
    with c assms s1 cached_value [of "rs_Http r" "rs_TTL r" k s v] show ?thesis by (auto simp: resolvePack_def run_simps)
  qed
qed

interpretation packs: ttl_cache "rs_Http r" "rs_TTL r" "resolvePack r" for r :: "'w resolver"
proof
  show "run_state (resolvePack r k) s = (Inr v, s\<lparr>rx_World := w\<rparr>)"
    if "map_of (rx_Cache s) k = Some (v, t)" "run_state (hx_Now (rs_Http r)) (rx_World s) = (n, w)" "n - t < rs_TTL r" for s k v t n w
    using cached_hit [OF that] by (simp add: resolvePack_def run_simps)
  show "\<exists>t. map_of (rx_Cache s') k = Some (v, t)" if "run_state (resolvePack r k) s = (Inr v, s')" for s k v s'
    using resolvePack_cases [OF that] by (auto simp: update_conv')
  show "map_of (rx_Cache (snd (run_state (resolvePack r k) s))) k' = map_of (rx_Cache s) k'" if "k' \<noteq> k" for k' k s
    using resolvePack_cases [OF prod.collapse [symmetric], of r k s] that by (auto simp: update_conv')
qed

text \<open>
  C34: a pack that was resolved once never fails again: after any reads of other packs, whatever
  GitHub answers and however old the entry is, resolving it returns a value, and no request is made
  while the entry is younger than the TTL.
\<close>

theorem resolved_pack_survives:
  assumes "run_state (resolvePack r name) s = (Inr v, s')" "name \<notin> set others"
  shows "let s'' = reads (resolvePack r) others s' in
    (\<exists>v'. fst (run_state (resolvePack r name) s'') = Inr v')
    \<and> (\<exists>t. map_of (rx_Cache s'') name = Some (v, t) \<and>
         (fst (run_state (hx_Now (rs_Http r)) (rx_World s'')) - t < rs_TTL r \<longrightarrow>
            fst (run_state (resolvePack r name) s'') = Inr v
            \<and> rx_Log (snd (run_state (resolvePack r name) s'')) = rx_Log s''))"
proof -
  let ?s = "reads (resolvePack r) others s'"
  obtain t where t: "map_of (rx_Cache s') name = Some (v, t)"
    "fst (run_state (hx_Now (rs_Http r)) (rx_World ?s)) - t < rs_TTL r \<longrightarrow>
       fst (run_state (resolvePack r name) ?s) = Inr v \<and> rx_Log (snd (run_state (resolvePack r name) ?s)) = rx_Log ?s"
    using packs.read_again [OF assms] by auto
  have "map_of (rx_Cache ?s) name = Some (v, t)" using packs.others_reads [OF assms(2), of r s'] t(1) by simp
  moreover from this have "\<exists>v'. fst (run_state (resolvePack r name) ?s) = Inr v'"
    using resolvePack_cases [OF prod.collapse [symmetric], of r name ?s] by auto
  ultimately show ?thesis using t(2) by (auto simp: Let_def)
qed

section \<open>What a pack contains\<close>

text \<open>Files and mapping have the same keys, and every key is the encoding of its path.\<close>

definition packWf :: "gomap \<Rightarrow> gomap \<Rightarrow> bool" where
  "packWf files mapping \<longleftrightarrow>
     dom (map_of files) = dom (map_of mapping) \<and> (\<forall>k p. map_of mapping k = Some p \<longrightarrow> k = SkillPackCMKey p)"

lemma packWf_Nil [simp]: "packWf [] []"
  by (simp add: packWf_def)

lemma packWf_update: "packWf files mapping \<Longrightarrow> packWf (AList.update (SkillPackCMKey p) c files) (AList.update (SkillPackCMKey p) p mapping)"
  by (auto simp: packWf_def update_conv' split: if_splits)

lemma packWf_overlay:
  assumes "packWf files mapping" "packWf files' mapping'" "distinct (map fst files')" "distinct (map fst mapping')"
  shows "packWf (overlay files files') (overlay mapping mapping')"
  using assms by (auto simp: packWf_def map_of_overlay)

lemma fetchFiles_result:
  assumes "run_state (fetchFiles r ref errName todo (files, mapping)) s = (Inr (files', mapping'), s')"
    "packWf files mapping" "distinct (map fst files)" "distinct (map fst mapping)"
  shows "packWf files' mapping' \<and> distinct (map fst files') \<and> distinct (map fst mapping')
    \<and> ran (map_of mapping') \<subseteq> ran (map_of mapping) \<union> snd ` set todo"
  using assms
proof (induction todo arbitrary: files mapping s)
  case Nil
  then show ?case by (simp add: run_simps)
next
  case (Cons fw todo)
  obtain f w where fw: "fw = (f, w)" by (cases fw)
  let ?k = "SkillPackCMKey w"
  from Cons.prems(1) fw obtain content s1 where
    "run_state (fetchFiles r ref errName todo (AList.update ?k content files, AList.update ?k w mapping)) s1 = (Inr (files', mapping'), s')"
    by (auto simp: run_simps split: sum.splits prod.splits)
  from Cons.IH [OF this packWf_update [OF Cons.prems(2)]] Cons.prems(3,4)
  have "packWf files' mapping' \<and> distinct (map fst files') \<and> distinct (map fst mapping')
    \<and> ran (map_of mapping') \<subseteq> ran (map_of (AList.update ?k w mapping)) \<union> snd ` set todo"
    by (simp add: distinct_update)
  moreover have "ran (map_of (AList.update ?k w mapping)) \<subseteq> insert w (ran (map_of mapping))"
    by (auto simp: update_conv' ran_def split: if_splits)
  ultimately show ?case using fw by auto
qed

definition packOK :: "SkillPackSet \<Rightarrow> bool" where
  "packOK p \<longleftrightarrow> packWf (sp_Files p) (sp_PathMapping p) \<and> distinct (map fst (sp_Files p)) \<and> distinct (map fst (sp_PathMapping p))"

lemma fetchRawPack_result:
  assumes "run_state (fetchRawPack r ref) s = (Inr p, s')"
  shows "packOK p \<and> (\<forall>w \<in> ran (map_of (sp_PathMapping p)). hasPrefix w (packRoot ref @ ''/'')) \<and> packRoot ref \<in> set (sp_Directories p)"
  using assms unfolding fetchRawPack_def
  by (auto simp: run_simps packOK_def set_insort_key hasPrefix_def split: sum.splits prod.splits if_splits
      dest!: fetchFiles_result) (drule (1) subsetD, auto)

lemma installManifest_result:
  assumes "run_state (installManifest r ref m) s = (Inr p, s')"
  shows "packOK p \<and> ran (map_of (sp_PathMapping p)) \<subseteq> fst ` set (mn_Files m)"
proof -
  have img: "snd ` (\<lambda>x. case x of (w, f) \<Rightarrow> (g f, w)) ` S = fst ` S" for g :: "string \<Rightarrow> string" and S :: "(string \<times> string) set"
    by (simp add: image_image case_prod_beta)
  show ?thesis
    using assms unfolding installManifest_def
    by (auto simp: run_simps packOK_def img split: sum.splits prod.splits dest!: fetchFiles_result)
qed

lemma fetchPack_OK: "run_state (fetchPack r name) s = (Inr p, s') \<Longrightarrow> packOK p"
  by (auto simp: fetchPack_def run_simps split: sum.splits prod.splits option.splits if_splits
      dest!: fetchRawPack_result installManifest_result)

text \<open>
  The packs a resolver has in its cache are well formed, and stay so.
\<close>

definition cacheOK :: "('w, SkillPackSet) rctx \<Rightarrow> bool" where
  "cacheOK s \<longleftrightarrow> (\<forall>k v t. map_of (rx_Cache s) k = Some (v, t) \<longrightarrow> packOK v)"

lemma resolvePack_OK:
  assumes "run_state (resolvePack r k) s = (res, s')" "cacheOK s"
  shows "cacheOK s' \<and> (\<forall>p. res = Inr p \<longrightarrow> packOK p)"
proof -
  obtain c s1 where c: "run_state (cached (rs_Http r) (rs_TTL r) k) s = (c, s1)"
    by (cases "run_state (cached (rs_Http r) (rs_TTL r) k) s")
  then have s1: "rx_Cache s1 = rx_Cache s" using cached_cache [of "rs_Http r" "rs_TTL r" k s] by simp
  have new: "packOK v" if "run_state (fetchPack r k) s1 = (Inr v, s2)" for v s2
    using fetchPack_OK [OF that] .
  obtain fr s2 where f: "run_state (fetchPack r k) s1 = (fr, s2)" by (cases "run_state (fetchPack r k) s1")
  have "packOK p" if "res = Inr p" for p
  proof (cases "c = None \<and> (\<exists>v. fr = Inr v)")
    case True
    with assms(1) c f new that show ?thesis by (auto simp: resolvePack_def run_simps split: prod.splits)
  next
    case False
    with assms(1) c f that s1 cacheSame_run [OF fetchPack_frame f] cached_value [of "rs_Http r" "rs_TTL r" k s]
    have "\<exists>t. map_of (rx_Cache s) k = Some (p, t)"
      by (cases c; cases fr) (auto simp: resolvePack_def run_simps peek_def split: option.splits)
    with assms(2) show ?thesis by (auto simp: cacheOK_def)
  qed
  moreover from this resolvePack_cases [OF assms(1)] assms(2) have "cacheOK s'"
    unfolding cacheOK_def by (elim disjE exE conjE) (auto simp: update_conv' split: if_splits; blast)+
  ultimately show ?thesis by blast
qed

lemma mergePack_OK: "packOK a \<Longrightarrow> packOK b \<Longrightarrow> packOK (mergePack a b)"
  by (auto simp: packOK_def mergePack_def packWf_overlay intro: overlay_distinct)

lemma resolveAll_OK:
  "run_state (resolveAll r names merged) s = (Inr p, s') \<Longrightarrow> cacheOK s \<Longrightarrow> packOK merged \<Longrightarrow> packOK p \<and> cacheOK s'"
proof (induction names arbitrary: merged s)
  case (Cons name names)
  obtain res s1 where r: "run_state (resolvePack r name) s = (res, s1)" by (cases "run_state (resolvePack r name) s")
  with Cons.prems(1) obtain q where "res = Inr q" "run_state (resolveAll r names (mergePack merged q)) s1 = (Inr p, s')"
    by (cases res) (auto simp: run_simps)
  with Cons.IH [of "mergePack merged q" s1] resolvePack_OK [OF r Cons.prems(2)] Cons.prems(3) mergePack_OK show ?case by auto
qed (simp add: run_simps)

text \<open>
  C36: what the resolver returns is well formed: every seeded file has a destination and every
  destination a file, under the key that encodes it; the directories are sorted and without
  duplicates. The invariant of the cache that this rests on is kept.
\<close>

theorem resolved_packs_wellformed:
  assumes "run_state (Resolve r names) s = (Inr (Some p), s')" "cacheOK s"
  shows "packWf (sp_Files p) (sp_PathMapping p) \<and> sorted (sp_Directories p) \<and> distinct (sp_Directories p) \<and> cacheOK s'"
proof -
  let ?z = "\<lparr>sp_Files = [], sp_PathMapping = [], sp_Directories = [], sp_SkillEntries = []\<rparr> :: SkillPackSet"
  obtain res s1 where r: "run_state (resolveAll r (sort names) ?z) s = (res, s1)"
    by (cases "run_state (resolveAll r (sort names) ?z) s")
  with assms(1) obtain q where q: "res = Inr q" "p = q\<lparr>sp_Directories := sort (remdups (sp_Directories q))\<rparr>" "s' = s1"
    by (cases res) (auto simp: Resolve_def run_simps split: if_splits)
  from resolveAll_OK [OF r [unfolded q(1)] assms(2)] q show ?thesis by (simp add: packOK_def)
qed

section \<open>An example repository\<close>

text \<open>Every file of the example repository has the same text; its manifest lists one file.\<close>

definition exampleRepo :: "string \<Rightarrow> int resolver" where
  "exampleRepo wsPath = \<lparr>
     rs_Http = \<lparr>
       hx_Do = (\<lambda>rq. State (\<lambda>w. (if w < 10
          then Inr \<lparr>rp_Status = 200, rp_Headers = [],
                    rp_Body = Doc (JObj [(''content'', JStr (b64encode ''hi'')), (''encoding'', JStr ''base64'')])\<rparr>
          else Inl ''timeout'', w + 5))),
       hx_Now = State (\<lambda>w. (w, w)), hx_URLError = Map.empty, hx_ParseURL = Map.empty, hx_ResolveURL = (\<lambda>b r. r),
       hx_ParseJSON = (\<lambda>_. Some (JObj [(''files'', JObj [(wsPath, JStr ''f'')])])), hx_DecodeError = []\<rparr>,
     rs_TTL = 7, rs_Token = [], rs_BaseURL = ''https://api.github.com''\<rparr>"

definition emptyPacks :: "(int, SkillPackSet) rctx" where
  "emptyPacks = \<lparr>rx_World = 0, rx_Cache = [], rx_Log = []\<rparr>"

theorem resolved_pack_survives_witness:
  "\<exists>v s'. run_state (resolvePack (exampleRepo ''a.md'') ''o/r/p'') emptyPacks = (Inr v, s')
     \<and> (\<exists>v'. fst (run_state (resolvePack (exampleRepo ''a.md'') ''o/r/p'')
               (reads (resolvePack (exampleRepo ''a.md'')) [''o/r/q''] s')) = Inr v')
     \<and> (\<exists>e. fst (run_state (resolvePack (exampleRepo ''a.md'') ''o/r/q'') s') = Inl e)"
proof -
  let ?r = "run_state (resolvePack (exampleRepo ''a.md'') ''o/r/p'') emptyPacks"
  let ?v = "\<lparr>sp_Files = [(''a.md'', ''hi'')], sp_PathMapping = [(''a.md'', ''a.md'')], sp_Directories = [], sp_SkillEntries = []\<rparr> :: SkillPackSet"
  have r: "?r = (Inr ?v, snd ?r)" by code_simp
  have "isl (fst (run_state (resolvePack (exampleRepo ''a.md'') ''o/r/q'') (snd ?r)))" by code_simp
  then have "\<exists>e. fst (run_state (resolvePack (exampleRepo ''a.md'') ''o/r/q'') (snd ?r)) = Inl e" by (auto simp: isl_def)
  with resolved_pack_survives [OF r, of "[''o/r/q'']"] r show ?thesis by (auto simp: Let_def)
qed

theorem resolved_packs_wellformed_witness:
  "\<exists>p s'. run_state (Resolve (exampleRepo ''a/b.md'') [''o/r/p'']) emptyPacks = (Inr (Some p), s')
     \<and> packWf (sp_Files p) (sp_PathMapping p) \<and> map_of (sp_PathMapping p) ''a--b.md'' = Some ''a/b.md''"
proof -
  let ?r = "run_state (Resolve (exampleRepo ''a/b.md'') [''o/r/p'']) emptyPacks"
  let ?v = "\<lparr>sp_Files = [(''a--b.md'', ''hi'')], sp_PathMapping = [(''a--b.md'', ''a/b.md'')], sp_Directories = [], sp_SkillEntries = []\<rparr> :: SkillPackSet"
  have r: "?r = (Inr (Some ?v), snd ?r)" by code_simp
  have "cacheOK emptyPacks" by (simp add: cacheOK_def emptyPacks_def)
  from resolved_packs_wellformed [OF r this] r show ?thesis by auto
qed

text \<open>
  The destinations a manifest names are not checked: a pack can seed a path that the checks on
  every other source of workspace paths reject as leaving the workspace.
\<close>

theorem manifest_path_escapes:
  "(case fst (run_state (Resolve (exampleRepo ''../../.bashrc'') [''o/r/p'']) emptyPacks) of
      Inr (Some p) \<Rightarrow> map_of (sp_PathMapping p) ''..--..--.bashrc'' = Some ''../../.bashrc''
    | _ \<Rightarrow> False)
   \<and> ValidateManagedWorkspacePath ''../../.bashrc'' \<noteq> None \<and> ValidateWorkspaceFilePath ''../../.bashrc'' \<noteq> None"
  by (intro conjI; code_simp)

end
