(* ===== verification/Network.thy ===== *)
theory Network
  imports Common
begin

text \<open>
  Who may talk to an instance and whom it may talk to: internal/resources/mesh.go, the
  network-related half of mesh_tailscale.go and mesh_netbird.go, networkpolicy.go and service.go.
  The containers and volumes of the mesh sidecars belong to the pod template and are not part of
  this theory.
\<close>

section \<open>Ports and constants\<close>

definition GatewayPort :: int where "GatewayPort = 18789"
definition CanvasPort :: int where "CanvasPort = 18793"
definition GatewayProxyPort :: int where "GatewayProxyPort = 18790"
definition CanvasProxyPort :: int where "CanvasProxyPort = 18794"
definition ChromiumPort :: int where "ChromiumPort = 9222"
definition WebTerminalPort :: int where "WebTerminalPort = 7681"
definition OTelHTTPReceiverPort :: int where "OTelHTTPReceiverPort = 4318"
definition NetBirdManagementPort :: int where "NetBirdManagementPort = 33073"
definition NetBirdSignalPort :: int where "NetBirdSignalPort = 10000"
definition NetBirdWireGuardPort :: int where "NetBirdWireGuardPort = 51820"
definition MetricsPortName :: string where "MetricsPortName = ''metrics''"

lemmas port_defs = GatewayPort_def CanvasPort_def GatewayProxyPort_def CanvasProxyPort_def ChromiumPort_def
  WebTerminalPort_def OTelHTTPReceiverPort_def NetBirdManagementPort_def NetBirdSignalPort_def
  NetBirdWireGuardPort_def

definition ProtocolTCP :: string where "ProtocolTCP = ''TCP''"
definition ProtocolUDP :: string where "ProtocolUDP = ''UDP''"

lemmas protocol_defs = ProtocolTCP_def ProtocolUDP_def

section \<open>Network policy objects\<close>

text \<open>A selector the operator builds, or one the user supplied and the operator copies.\<close>

datatype LabelSelector = MatchLabels gomap | UserSelector json

record NetworkPolicyPeer =
  peer_PodSelector :: "LabelSelector option"
  peer_NamespaceSelector :: "LabelSelector option"
  peer_IPBlock :: "string option"

record NetworkPolicyPort =
  npp_Protocol :: string
  npp_Port :: int

record NetworkPolicyIngressRule =
  nir_From :: "NetworkPolicyPeer list"
  nir_Ports :: "NetworkPolicyPort list"

text \<open>Egress rules of the operator and those of \<^verbatim>\<open>spec.security.networkPolicy.additionalEgress\<close>.\<close>

datatype NetworkPolicyEgressRule =
    EgressRule (ner_To: "NetworkPolicyPeer list") (ner_Ports: "NetworkPolicyPort list")
  | UserEgress json

record NetworkPolicy =
  netpol_Meta :: ObjectMeta
  netpol_PodSelector :: LabelSelector
  netpol_PolicyTypes :: "string list"
  netpol_Ingress :: "NetworkPolicyIngressRule list"
  netpol_Egress :: "NetworkPolicyEgressRule list"

definition tcp :: "int \<Rightarrow> NetworkPolicyPort" where "tcp p = \<lparr>npp_Protocol = ProtocolTCP, npp_Port = p\<rparr>"
definition udp :: "int \<Rightarrow> NetworkPolicyPort" where "udp p = \<lparr>npp_Protocol = ProtocolUDP, npp_Port = p\<rparr>"

definition cidrPeer :: "string \<Rightarrow> NetworkPolicyPeer" where
  "cidrPeer cidr = \<lparr>peer_PodSelector = None, peer_NamespaceSelector = None, peer_IPBlock = Some cidr\<rparr>"

section \<open>Mesh providers\<close>

datatype MeshProvider = tailscaleProvider | netbirdProvider

definition MeshProviderTailscale :: string where "MeshProviderTailscale = ''tailscale''"
definition MeshProviderNetBird :: string where "MeshProviderNetBird = ''netbird''"

fun meshName :: "MeshProvider \<Rightarrow> string" where
  "meshName tailscaleProvider = MeshProviderTailscale"
| "meshName netbirdProvider = MeshProviderNetBird"

definition meshProviders :: "MeshProvider list" where
  "meshProviders = [tailscaleProvider, netbirdProvider]"

definition meshProviderEnabled :: "MeshProvider \<Rightarrow> OpenClawInstance \<Rightarrow> bool" where
  "meshProviderEnabled p inst =
     (if meshName p = MeshProviderTailscale then ts_Enabled (spec_Tailscale (oci_Spec inst))
      else if meshName p = MeshProviderNetBird
      then (case spec_NetBird (oci_Spec inst) of None \<Rightarrow> False | Some nb \<Rightarrow> nb_Enabled nb)
      else False)"

definition ActiveMeshProvider :: "OpenClawInstance \<Rightarrow> MeshProvider option" where
  "ActiveMeshProvider inst = List.find (\<lambda>p. meshProviderEnabled p inst) meshProviders"

definition EnabledMeshProviders :: "OpenClawInstance \<Rightarrow> MeshProvider list" where
  "EnabledMeshProviders inst = filter (\<lambda>p. meshProviderEnabled p inst) meshProviders"

definition IsMeshEnabled :: "OpenClawInstance \<Rightarrow> bool" where
  "IsMeshEnabled inst = (ActiveMeshProvider inst \<noteq> None)"

definition MeshProviderNames :: "string list" where
  "MeshProviderNames = map meshName meshProviders"

fun EgressRules :: "MeshProvider \<Rightarrow> NetworkPolicyEgressRule list" where
  "EgressRules tailscaleProvider = [EgressRule [] [udp 3478, udp 41641]]"
| "EgressRules netbirdProvider =
     [EgressRule [] [tcp NetBirdManagementPort, tcp NetBirdSignalPort, udp NetBirdWireGuardPort, udp 3478]]"

fun CredentialSecretName :: "MeshProvider \<Rightarrow> OpenClawInstance \<Rightarrow> string" where
  "CredentialSecretName tailscaleProvider inst = derefOr [] (ts_AuthKeySecretRef (spec_Tailscale (oci_Spec inst)))"
| "CredentialSecretName netbirdProvider inst =
     (case spec_NetBird (oci_Spec inst) of None \<Rightarrow> [] | Some nb \<Rightarrow> derefOr [] (nb_SetupKeySecretRef nb))"

fun StateSecretName :: "MeshProvider \<Rightarrow> OpenClawInstance \<Rightarrow> string" where
  "StateSecretName tailscaleProvider inst = TailscaleStateSecretName inst"
| "StateSecretName netbirdProvider inst = []"

fun NeedsServiceAccountToken :: "MeshProvider \<Rightarrow> bool" where
  "NeedsServiceAccountToken tailscaleProvider = True"
| "NeedsServiceAccountToken netbirdProvider = False"

definition MeshNeedsServiceAccountToken :: "OpenClawInstance \<Rightarrow> bool" where
  "MeshNeedsServiceAccountToken inst =
     (case ActiveMeshProvider inst of None \<Rightarrow> False | Some mesh \<Rightarrow> NeedsServiceAccountToken mesh)"

definition MeshStateSecretName :: "OpenClawInstance \<Rightarrow> string" where
  "MeshStateSecretName inst =
     (case ActiveMeshProvider inst of None \<Rightarrow> [] | Some mesh \<Rightarrow> StateSecretName mesh inst)"

definition MeshCredentialSecretName :: "OpenClawInstance \<Rightarrow> string" where
  "MeshCredentialSecretName inst =
     (case ActiveMeshProvider inst of None \<Rightarrow> [] | Some mesh \<Rightarrow> CredentialSecretName mesh inst)"

definition MeshEgressRules :: "OpenClawInstance \<Rightarrow> NetworkPolicyEgressRule list" where
  "MeshEgressRules inst = (case ActiveMeshProvider inst of None \<Rightarrow> [] | Some mesh \<Rightarrow> EgressRules mesh)"

definition DefaultNetBirdImage :: string where "DefaultNetBirdImage = ''docker.io/netbirdio/netbird''"

definition GetNetBirdImage :: "OpenClawInstance \<Rightarrow> string" where
  "GetNetBirdImage inst =
     (let image = (case spec_NetBird (oci_Spec inst) of None \<Rightarrow> zero_SidecarImageSpec | Some nb \<Rightarrow> nb_Image nb);
          repo = strOr (si_Repository image) DefaultNetBirdImage;
          tag = strOr (si_Tag image) DefaultImageTag
      in if si_Digest image \<noteq> [] then repo @ ''@'' @ si_Digest image else repo @ '':'' @ tag)"

definition NetBirdHostname :: "OpenClawInstance \<Rightarrow> string" where
  "NetBirdHostname inst =
     (case spec_NetBird (oci_Spec inst) of
        None \<Rightarrow> oname inst
      | Some nb \<Rightarrow> strOr (nb_Hostname nb) (oname inst))"

section \<open>The network policy\<close>

definition MetricsIngressFromSameNamespace :: string where "MetricsIngressFromSameNamespace = ''SameNamespace''"
definition MetricsIngressFromAllowedPeers :: string where "MetricsIngressFromAllowedPeers = ''AllowedPeers''"
definition MetricsIngressFromNone :: string where "MetricsIngressFromNone = ''None''"

lemmas metrics_modes = MetricsIngressFromSameNamespace_def MetricsIngressFromAllowedPeers_def MetricsIngressFromNone_def

definition networkPolicyIngressPorts :: "OpenClawInstance \<Rightarrow> NetworkPolicyPort list" where
  "networkPolicyIngressPorts inst =
     (let custom = svc_Ports (net_Service (spec_Networking (oci_Spec inst)))
      in if custom \<noteq> [] then
           map (\<lambda>p. \<lparr>npp_Protocol = strOr (sp_Protocol p) ProtocolTCP,
                      npp_Port = derefOr (sp_Port p) (sp_TargetPort p)\<rparr>) custom
         else
           [tcp (if IsGatewayProxyEnabled inst then GatewayProxyPort else GatewayPort),
            tcp (if IsGatewayProxyEnabled inst then CanvasProxyPort else CanvasPort)]
           @ (if wt_Enabled (spec_WebTerminal (oci_Spec inst)) then [tcp WebTerminalPort] else [])
           @ (if ch_Enabled (spec_Chromium (oci_Spec inst)) then [tcp ChromiumPort] else []))"

definition namespacePeer :: "string \<Rightarrow> LabelSelector option \<Rightarrow> NetworkPolicyPeer" where
  "namespacePeer ns podSelector =
     \<lparr>peer_PodSelector = podSelector,
      peer_NamespaceSelector = Some (MatchLabels [(''kubernetes.io/metadata.name'', ns)]),
      peer_IPBlock = None\<rparr>"

definition metricsMode :: "OpenClawInstance \<Rightarrow> string" where
  "metricsMode inst =
     (case net_MetricsIngress (spec_Networking (oci_Spec inst)) of
        None \<Rightarrow> MetricsIngressFromSameNamespace
      | Some cfg \<Rightarrow> strOr (mi_From cfg) MetricsIngressFromSameNamespace)"

definition metricsPeers :: "OpenClawInstance \<Rightarrow> NetworkPolicyPeer list" where
  "metricsPeers inst =
     (case net_MetricsIngress (spec_Networking (oci_Spec inst)) of
        None \<Rightarrow> []
      | Some cfg \<Rightarrow>
          map (\<lambda>ns. namespacePeer ns (map_option UserSelector (mi_PodSelector cfg))) (mi_AllowedNamespaces cfg)
          @ map cidrPeer (mi_AllowedCIDRs cfg))"

definition buildMetricsIngressRules :: "OpenClawInstance \<Rightarrow> NetworkPolicyIngressRule list" where
  "buildMetricsIngressRules inst =
     (if \<not> IsMetricsEnabled inst then []
      else
        let metricsPorts = [tcp (MetricsPort inst)]; mode = metricsMode inst
        in if mode = MetricsIngressFromNone then []
           else if mode = MetricsIngressFromAllowedPeers
           then map (\<lambda>peer. \<lparr>nir_From = [peer], nir_Ports = metricsPorts\<rparr>) (metricsPeers inst)
           else [\<lparr>nir_From = [namespacePeer (onamespace inst) None], nir_Ports = metricsPorts\<rparr>])"

definition buildIngressRules :: "OpenClawInstance \<Rightarrow> NetworkPolicyIngressRule list" where
  "buildIngressRules inst =
     (let np = sec_NetworkPolicy (spec_Security (oci_Spec inst));
          npPorts = networkPolicyIngressPorts inst
      in (if defaultTrue (np_AllowSameNamespaceIngress np)
          then [\<lparr>nir_From = [namespacePeer (onamespace inst) None], nir_Ports = npPorts\<rparr>] else [])
         @ map (\<lambda>ns. \<lparr>nir_From = [namespacePeer ns None], nir_Ports = npPorts\<rparr>) (np_AllowedIngressNamespaces np)
         @ map (\<lambda>cidr. \<lparr>nir_From = [cidrPeer cidr], nir_Ports = npPorts\<rparr>) (np_AllowedIngressCIDRs np)
         @ buildMetricsIngressRules inst)"

definition buildEgressRules :: "OpenClawInstance \<Rightarrow> NetworkPolicyEgressRule list" where
  "buildEgressRules inst =
     (let np = sec_NetworkPolicy (spec_Security (oci_Spec inst))
      in (if defaultTrue (np_AllowDNS np) then [EgressRule [] [udp 53, tcp 53]] else [])
         @ (if defaultTrue (np_AllowHTTPS np) then [EgressRule [] [tcp 443]] else [])
         @ (if scf_Enabled (spec_SelfConfigure (oci_Spec inst)) \<or> MeshNeedsServiceAccountToken inst
            then [EgressRule [] [tcp 6443]] else [])
         @ MeshEgressRules inst
         @ (if ch_Enabled (spec_Chromium (oci_Spec inst))
            then [EgressRule [\<lparr>peer_PodSelector = Some (MatchLabels (SelectorLabels inst)),
                              peer_NamespaceSelector = None, peer_IPBlock = None\<rparr>] [tcp ChromiumPort]] else [])
         @ map (\<lambda>cidr. EgressRule [cidrPeer cidr] []) (np_AllowedEgressCIDRs np)
         @ map UserEgress (np_AdditionalEgress np))"

definition BuildNetworkPolicy :: "OpenClawInstance \<Rightarrow> NetworkPolicy" where
  "BuildNetworkPolicy inst =
     \<lparr>netpol_Meta = zero_ObjectMeta\<lparr>om_Name := NetworkPolicyName inst, om_Namespace := onamespace inst,
        om_Labels := Labels inst\<rparr>,
      netpol_PodSelector = MatchLabels (SelectorLabels inst),
      netpol_PolicyTypes = [''Ingress'', ''Egress''],
      netpol_Ingress = buildIngressRules inst,
      netpol_Egress = buildEgressRules inst\<rparr>"

section \<open>The services\<close>

record ServicePort =
  svp_Name :: string
  svp_Port :: int
  svp_TargetPort :: int
  svp_Protocol :: string
  svp_NodePort :: int \<comment> \<open>0: left to the API server\<close>

record Service =
  svo_Meta :: ObjectMeta
  svo_Type :: string
  svo_ClusterIP :: string
  svo_Selector :: gomap
  svo_SessionAffinity :: string
  svo_PublishNotReadyAddresses :: bool
  svo_Ports :: "ServicePort list"
  svo_IPFamilies :: "string list" \<comment> \<open>this and the next two are left to the API server\<close>
  svo_IPFamilyPolicy :: "string option"
  svo_InternalTrafficPolicy :: "string option"

definition appendMetricsPort :: "OpenClawInstance \<Rightarrow> ServicePort list \<Rightarrow> ServicePort list" where
  "appendMetricsPort inst ports =
     (if \<not> IsMetricsEnabled inst then ports
      else if \<exists>p \<in> set ports. svp_Name p = MetricsPortName \<or> svp_Port p = MetricsPort inst then ports
      else ports @ [\<lparr>svp_Name = MetricsPortName, svp_Port = MetricsPort inst, svp_TargetPort = MetricsPort inst,
                     svp_Protocol = ProtocolTCP, svp_NodePort = 0\<rparr>])"

definition managedPort :: "string \<Rightarrow> int \<Rightarrow> int \<Rightarrow> ServicePort" where
  "managedPort name port target =
     \<lparr>svp_Name = name, svp_Port = port, svp_TargetPort = target, svp_Protocol = ProtocolTCP, svp_NodePort = 0\<rparr>"

definition buildServicePorts :: "OpenClawInstance \<Rightarrow> ServicePort list" where
  "buildServicePorts inst =
     (let custom = svc_Ports (net_Service (spec_Networking (oci_Spec inst)))
      in appendMetricsPort inst
        (if custom \<noteq> [] then
           map (\<lambda>p. \<lparr>svp_Name = sp_Name p, svp_Port = sp_Port p,
                      svp_TargetPort = derefOr (sp_Port p) (sp_TargetPort p),
                      svp_Protocol = strOr (sp_Protocol p) ProtocolTCP, svp_NodePort = 0\<rparr>) custom
         else
           [managedPort ''gateway'' GatewayPort (if IsGatewayProxyEnabled inst then GatewayProxyPort else GatewayPort),
            managedPort ''canvas'' CanvasPort (if IsGatewayProxyEnabled inst then CanvasProxyPort else CanvasPort)]
           @ (if ch_Enabled (spec_Chromium (oci_Spec inst)) then [managedPort ''chromium'' ChromiumPort ChromiumPort] else [])
           @ (if wt_Enabled (spec_WebTerminal (oci_Spec inst))
              then [managedPort ''web-terminal'' WebTerminalPort WebTerminalPort] else [])))"

definition BuildService :: "OpenClawInstance \<Rightarrow> Service" where
  "BuildService inst =
     (let svc = net_Service (spec_Networking (oci_Spec inst))
      in \<lparr>svo_Meta = zero_ObjectMeta\<lparr>om_Name := ServiceName inst, om_Namespace := onamespace inst,
            om_Labels := Labels inst, om_Annotations := svc_Annotations svc\<rparr>,
          svo_Type = strOr (svc_Type svc) ''ClusterIP'', svo_ClusterIP = [], svo_Selector = SelectorLabels inst,
          svo_SessionAffinity = ''None'', svo_PublishNotReadyAddresses = False,
          svo_Ports = buildServicePorts inst, svo_IPFamilies = [], svo_IPFamilyPolicy = None,
          svo_InternalTrafficPolicy = None\<rparr>)"

definition BuildChromiumCDPService :: "OpenClawInstance \<Rightarrow> Service" where
  "BuildChromiumCDPService inst =
     \<lparr>svo_Meta = zero_ObjectMeta\<lparr>om_Name := ChromiumCDPServiceName inst, om_Namespace := onamespace inst,
        om_Labels := Labels inst\<rparr>,
      svo_Type = ''ClusterIP'', svo_ClusterIP = ''None'', svo_Selector = SelectorLabels inst,
      svo_SessionAffinity = [], svo_PublishNotReadyAddresses = True,
      svo_Ports = [managedPort ''cdp'' ChromiumPort ChromiumPort], svo_IPFamilies = [], svo_IPFamilyPolicy = None,
      svo_InternalTrafficPolicy = None\<rparr>"

section \<open>What the policy admits\<close>

text \<open>
  An incoming connection: the namespace of the pod it comes from (none for a peer outside the
  cluster), the address, protocol and port. What CIDR blocks, user-supplied pod selectors and
  namespace labels mean is given by the cluster (\<open>netenv\<close>).
\<close>

record 'ip conn =
  cn_Namespace :: "string option"
  cn_IP :: 'ip
  cn_Protocol :: string
  cn_Port :: int

record 'ip netenv =
  ne_InCIDR :: "string \<Rightarrow> 'ip \<Rightarrow> bool"
  ne_PodMatches :: "LabelSelector \<Rightarrow> 'ip \<Rightarrow> bool"
  ne_NamespaceLabels :: "string \<Rightarrow> gomap"

text \<open>Every namespace carries its name as a label (documented by Kubernetes).\<close>

definition namespaces_labelled :: "'ip netenv \<Rightarrow> bool" where
  "namespaces_labelled env \<longleftrightarrow>
     (\<forall>n. map_of (ne_NamespaceLabels env n) ''kubernetes.io/metadata.name'' = Some n)"

fun namespaceMatches :: "'ip netenv \<Rightarrow> LabelSelector \<Rightarrow> 'ip conn \<Rightarrow> bool" where
  "namespaceMatches env (MatchLabels ls) c =
     (case cn_Namespace c of
        None \<Rightarrow> False
      | Some n \<Rightarrow> list_all (\<lambda>(k, v). map_of (ne_NamespaceLabels env n) k = Some v) ls)"
| "namespaceMatches env (UserSelector j) c = False"

definition peerMatches :: "'ip netenv \<Rightarrow> NetworkPolicyPeer \<Rightarrow> 'ip conn \<Rightarrow> bool" where
  "peerMatches env p c =
     (case peer_IPBlock p of
        Some cidr \<Rightarrow> ne_InCIDR env cidr (cn_IP c)
      | None \<Rightarrow>
          (case peer_NamespaceSelector p of None \<Rightarrow> True | Some sel \<Rightarrow> namespaceMatches env sel c)
          \<and> (case peer_PodSelector p of None \<Rightarrow> True | Some sel \<Rightarrow> ne_PodMatches env sel (cn_IP c)))"

definition portMatches :: "NetworkPolicyPort list \<Rightarrow> 'ip conn \<Rightarrow> bool" where
  "portMatches ports c \<longleftrightarrow>
     ports = [] \<or> (\<exists>p \<in> set ports. npp_Protocol p = cn_Protocol c \<and> npp_Port p = cn_Port c)"

definition admits :: "'ip netenv \<Rightarrow> NetworkPolicyIngressRule list \<Rightarrow> 'ip conn \<Rightarrow> bool" where
  "admits env rules c \<longleftrightarrow>
     (\<exists>r \<in> set rules. (nir_From r = [] \<or> (\<exists>p \<in> set (nir_From r). peerMatches env p c)) \<and> portMatches (nir_Ports r) c)"

lemma admits_append [simp]: "admits env (xs @ ys) c \<longleftrightarrow> admits env xs c \<or> admits env ys c"
  by (auto simp: admits_def)

lemma admits_Nil [simp]: "\<not> admits env [] c"
  by (simp add: admits_def)

lemma admits_Cons:
  "admits env (r # rs) c \<longleftrightarrow>
     (nir_From r = [] \<or> (\<exists>p \<in> set (nir_From r). peerMatches env p c)) \<and> portMatches (nir_Ports r) c \<or> admits env rs c"
  by (simp add: admits_def)

lemma admits_map:
  "admits env (map (\<lambda>x. \<lparr>nir_From = [peer x], nir_Ports = ports\<rparr>) xs) c \<longleftrightarrow>
     portMatches ports c \<and> (\<exists>x \<in> set xs. peerMatches env (peer x) c)"
  by (auto simp: admits_def)

lemma peerMatches_cidr [simp]: "peerMatches env (cidrPeer cidr) c = ne_InCIDR env cidr (cn_IP c)"
  by (simp add: peerMatches_def cidrPeer_def)

lemma peerMatches_namespace:
  "namespaces_labelled env \<Longrightarrow> peerMatches env (namespacePeer ns sel) c \<longleftrightarrow>
     cn_Namespace c = Some ns \<and> (case sel of None \<Rightarrow> True | Some s \<Rightarrow> ne_PodMatches env s (cn_IP c))"
  by (auto simp: peerMatches_def namespacePeer_def namespaces_labelled_def split: option.splits)

lemma ports_not_Nil: "networkPolicyIngressPorts inst \<noteq> []"
  by (simp add: networkPolicyIngressPorts_def Let_def)

text \<open>Who may use the application ports, and who the metrics port.\<close>

definition appPeer :: "'ip netenv \<Rightarrow> OpenClawInstance \<Rightarrow> 'ip conn \<Rightarrow> bool" where
  "appPeer env inst c \<longleftrightarrow>
     (let np = sec_NetworkPolicy (spec_Security (oci_Spec inst))
      in defaultTrue (np_AllowSameNamespaceIngress np) \<and> cn_Namespace c = Some (onamespace inst)
         \<or> (\<exists>ns \<in> set (np_AllowedIngressNamespaces np). cn_Namespace c = Some ns)
         \<or> (\<exists>cidr \<in> set (np_AllowedIngressCIDRs np). ne_InCIDR env cidr (cn_IP c)))"

definition metricsPeer :: "'ip netenv \<Rightarrow> OpenClawInstance \<Rightarrow> 'ip conn \<Rightarrow> bool" where
  "metricsPeer env inst c \<longleftrightarrow> IsMetricsEnabled inst \<and>
     (if metricsMode inst = MetricsIngressFromNone then False
      else if metricsMode inst = MetricsIngressFromAllowedPeers
      then (case net_MetricsIngress (spec_Networking (oci_Spec inst)) of
              None \<Rightarrow> False
            | Some cfg \<Rightarrow>
                (\<exists>ns \<in> set (mi_AllowedNamespaces cfg). cn_Namespace c = Some ns \<and>
                   (case mi_PodSelector cfg of None \<Rightarrow> True | Some j \<Rightarrow> ne_PodMatches env (UserSelector j) (cn_IP c)))
                \<or> (\<exists>cidr \<in> set (mi_AllowedCIDRs cfg). ne_InCIDR env cidr (cn_IP c)))
      else cn_Namespace c = Some (onamespace inst))"

lemma admits_metrics:
  assumes "namespaces_labelled env"
  shows "admits env (buildMetricsIngressRules inst) c \<longleftrightarrow>
    cn_Protocol c = ProtocolTCP \<and> cn_Port c = MetricsPort inst \<and> metricsPeer env inst c"
  using assms
  by (auto simp: buildMetricsIngressRules_def metricsPeer_def metricsPeers_def Let_def admits_Cons admits_map
      peerMatches_namespace portMatches_def tcp_def image_iff split: option.splits)

text \<open>
  C30: What the network policy lets in, exactly. A connection is admitted if and only if it goes to an
  application port from a permitted peer, or over TCP to the metrics port from a peer permitted to
  scrape: permission for the application ports gives none for the metrics port, and no rule admits
  everybody.
\<close>

theorem ingress_exact:
  assumes "namespaces_labelled env"
  shows "admits env (netpol_Ingress (BuildNetworkPolicy inst)) c \<longleftrightarrow>
    (\<exists>p \<in> set (networkPolicyIngressPorts inst). npp_Protocol p = cn_Protocol c \<and> npp_Port p = cn_Port c)
      \<and> appPeer env inst c
    \<or> cn_Protocol c = ProtocolTCP \<and> cn_Port c = MetricsPort inst \<and> metricsPeer env inst c"
  using assms
  by (auto simp: BuildNetworkPolicy_def buildIngressRules_def Let_def admits_Cons admits_map peerMatches_namespace
      admits_metrics portMatches_def ports_not_Nil appPeer_def)

definition sampleEnv :: "int netenv" where
  "sampleEnv = \<lparr>ne_InCIDR = (\<lambda>cidr ip. False), ne_PodMatches = (\<lambda>sel ip. True),
     ne_NamespaceLabels = (\<lambda>n. [(''kubernetes.io/metadata.name'', n)])\<rparr>"

theorem ingress_exact_witness:
  "admits sampleEnv (netpol_Ingress (BuildNetworkPolicy zero_OpenClawInstance))
     \<lparr>cn_Namespace = Some [], cn_IP = 0, cn_Protocol = ProtocolTCP, cn_Port = GatewayProxyPort\<rparr> \<and>
   \<not> admits sampleEnv (netpol_Ingress (BuildNetworkPolicy zero_OpenClawInstance))
     \<lparr>cn_Namespace = Some ''other'', cn_IP = 0, cn_Protocol = ProtocolTCP, cn_Port = GatewayProxyPort\<rparr>"
proof -
  have env: "namespaces_labelled sampleEnv" by (simp add: namespaces_labelled_def sampleEnv_def)
  show ?thesis
    unfolding ingress_exact [OF env]
    by (simp add: networkPolicyIngressPorts_def Let_def tcp_def appPeer_def metricsPeer_def metricsMode_def
        zero_OpenClawInstance_def zero_OpenClawInstanceSpec_def zero_NetworkingSpec_def zero_ServiceSpec_def
        zero_SecuritySpec_def zero_NetworkPolicySpec_def zero_ObjectMeta_def IsGatewayProxyEnabled_def
        zero_GatewaySpec_def metrics_modes)
qed

text \<open>
  The Service and the network policy agree: for every Service port, the pod port it forwards to
  is admitted by the policy for the same protocol, as an application port or as the metrics port.
  With metrics enabled some Service port carries the name or the number of the metrics port, and it
  is added only if it clashes with no port in name or number.
\<close>

theorem service_ports_admitted:
  "list_all (\<lambda>p. \<lparr>npp_Protocol = svp_Protocol p, npp_Port = svp_TargetPort p\<rparr>
       \<in> set (networkPolicyIngressPorts inst @ (if IsMetricsEnabled inst then [tcp (MetricsPort inst)] else [])))
     (buildServicePorts inst) \<and>
   (if IsMetricsEnabled inst
    then list_ex (\<lambda>p. svp_Name p = MetricsPortName \<or> svp_Port p = MetricsPort inst) (buildServicePorts inst) else True) \<and>
   (\<exists>own. buildServicePorts inst = appendMetricsPort inst own \<and>
      (distinct (map svp_Name (buildServicePorts inst)) \<longleftrightarrow> distinct (map svp_Name own)) \<and>
      (distinct (map svp_Port (buildServicePorts inst)) \<longleftrightarrow> distinct (map svp_Port own)))"
proof -
  let ?custom = "svc_Ports (net_Service (spec_Networking (oci_Spec inst)))"
  define own where "own = (if ?custom \<noteq> [] then
           map (\<lambda>p. \<lparr>svp_Name = sp_Name p, svp_Port = sp_Port p,
                      svp_TargetPort = derefOr (sp_Port p) (sp_TargetPort p),
                      svp_Protocol = strOr (sp_Protocol p) ProtocolTCP, svp_NodePort = 0\<rparr>) ?custom
         else
           [managedPort ''gateway'' GatewayPort (if IsGatewayProxyEnabled inst then GatewayProxyPort else GatewayPort),
            managedPort ''canvas'' CanvasPort (if IsGatewayProxyEnabled inst then CanvasProxyPort else CanvasPort)]
           @ (if ch_Enabled (spec_Chromium (oci_Spec inst)) then [managedPort ''chromium'' ChromiumPort ChromiumPort] else [])
           @ (if wt_Enabled (spec_WebTerminal (oci_Spec inst))
              then [managedPort ''web-terminal'' WebTerminalPort WebTerminalPort] else []))"
  have eq: "buildServicePorts inst = appendMetricsPort inst own"
    unfolding own_def buildServicePorts_def Let_def by (rule refl)
  have own: "list_all (\<lambda>p. \<lparr>npp_Protocol = svp_Protocol p, npp_Port = svp_TargetPort p\<rparr>
      \<in> set (networkPolicyIngressPorts inst)) own"
    by (auto simp: own_def networkPolicyIngressPorts_def Let_def list_all_iff managedPort_def tcp_def)
  show ?thesis
    using own unfolding eq
    by (auto simp: appendMetricsPort_def list_all_iff list_ex_iff tcp_def intro: exI [of _ own])
qed

text \<open>
  The registry override does not reach the NetBird image, while it reaches the Tailscale one.
\<close>

theorem netbird_image_ignores_registry:
  "GetNetBirdImage (inst\<lparr>oci_Spec := (oci_Spec inst)\<lparr>spec_Registry := r\<rparr>\<rparr>) = GetNetBirdImage inst
   \<and> GetTailscaleImage (zero_OpenClawInstance\<lparr>oci_Spec := zero_OpenClawInstanceSpec\<lparr>spec_Registry := ''reg.example''\<rparr>\<rparr>)
       \<noteq> GetTailscaleImage zero_OpenClawInstance"
proof
  show "GetNetBirdImage (inst\<lparr>oci_Spec := (oci_Spec inst)\<lparr>spec_Registry := r\<rparr>\<rparr>) = GetNetBirdImage inst"
    by (simp add: GetNetBirdImage_def)
  show "GetTailscaleImage (zero_OpenClawInstance\<lparr>oci_Spec := zero_OpenClawInstanceSpec\<lparr>spec_Registry := ''reg.example''\<rparr>\<rparr>)
       \<noteq> GetTailscaleImage zero_OpenClawInstance"
    by code_simp
qed

end
