(* ===== verification/Resources.thy ===== *)
theory Resources
  imports Network GoLib Client
begin

text \<open>
  The smaller builders of internal/resources: rbac.go, hpa.go, pdb.go, pvc.go, secret.go and the
  security contexts of statefulset.go. SHA-1 and the parser of Kubernetes quantities are arguments.
\<close>

section \<open>Service account and role\<close>

record ServiceAccount =
  sa_Name :: string
  sa_Namespace :: string
  sa_Labels :: gomap
  sa_Annotations :: gomap
  sa_AutomountToken :: "bool option"

record PolicyRule =
  pol_APIGroups :: "string list"
  pol_Resources :: "string list"
  pol_ResourceNames :: "string list"
  pol_Verbs :: "string list"

record Role =
  role_Name :: string
  role_Namespace :: string
  role_Labels :: gomap
  role_Rules :: "PolicyRule list"

record RoleBinding =
  rb_Name :: string
  rb_Namespace :: string
  rb_Labels :: gomap
  rb_RoleKind :: string
  rb_RoleName :: string
  rb_Subjects :: "(string \<times> string \<times> string) list" \<comment> \<open>kind, name, namespace\<close>

definition BuildServiceAccount :: "OpenClawInstance \<Rightarrow> ServiceAccount" where
  "BuildServiceAccount inst =
     \<lparr>sa_Name = ServiceAccountName inst, sa_Namespace = onamespace inst, sa_Labels = Labels inst,
      sa_Annotations = rbac_ServiceAccountAnnotations (sec_RBAC (spec_Security (oci_Spec inst))),
      sa_AutomountToken = Some (scf_Enabled (spec_SelfConfigure (oci_Spec inst)) \<or> MeshNeedsServiceAccountToken inst)\<rparr>"

text \<open>The name of the Secret an \<^verbatim>\<open>envFrom\<close> entry refers to.\<close>

definition envFromSecret :: "json \<Rightarrow> string option" where
  "envFromSecret j = (case jlookup j [''secretRef'', ''name''] of Some (JStr s) \<Rightarrow> if s = [] then None else Some s | _ \<Rightarrow> None)"

definition selfConfigSecretNames :: "OpenClawInstance \<Rightarrow> string list" where
  "selfConfigSecretNames inst =
     (let gateway = strOr (gw_ExistingSecret (spec_Gateway (oci_Spec inst))) (GatewayTokenSecretName inst);
          credential = MeshCredentialSecretName inst
      in sort (remdups (gateway # List.map_filter envFromSecret (spec_EnvFrom (oci_Spec inst))
                        @ (if credential = [] then [] else [credential]))))"

definition polRule :: "string \<Rightarrow> string \<Rightarrow> string list \<Rightarrow> string list \<Rightarrow> PolicyRule" where
  "polRule grp res names verbs =
     \<lparr>pol_APIGroups = [grp], pol_Resources = [res], pol_ResourceNames = names, pol_Verbs = verbs\<rparr>"

definition BuildRole :: "OpenClawInstance \<Rightarrow> Role" where
  "BuildRole inst =
     (let base = [polRule [] ''configmaps'' [ConfigMapName inst] [''get'', ''watch'']];
          self = (if scf_Enabled (spec_SelfConfigure (oci_Spec inst)) then
                    [polRule ''openclaw.rocks'' ''openclawinstances'' [oname inst] [''get''],
                     polRule ''openclaw.rocks'' ''openclawselfconfigs'' [] [''create'', ''get'', ''list'']]
                    @ (if selfConfigSecretNames inst \<noteq> []
                       then [polRule [] ''secrets'' (selfConfigSecretNames inst) [''get'']] else [])
                  else []);
          mesh = (if MeshStateSecretName inst \<noteq> []
                  then [polRule [] ''secrets'' [MeshStateSecretName inst] [''get'', ''update'', ''patch'']] else []);
          extra = map (\<lambda>r. \<lparr>pol_APIGroups = rule_APIGroups r, pol_Resources = rule_Resources r, pol_ResourceNames = [],
                            pol_Verbs = rule_Verbs r\<rparr>)
                    (rbac_AdditionalRules (sec_RBAC (spec_Security (oci_Spec inst))))
      in \<lparr>role_Name = RoleName inst, role_Namespace = onamespace inst, role_Labels = Labels inst,
          role_Rules = base @ self @ mesh @ extra\<rparr>)"

definition BuildRoleBinding :: "OpenClawInstance \<Rightarrow> RoleBinding" where
  "BuildRoleBinding inst =
     \<lparr>rb_Name = RoleBindingName inst, rb_Namespace = onamespace inst, rb_Labels = Labels inst,
      rb_RoleKind = ''Role'', rb_RoleName = RoleName inst,
      rb_Subjects = [(''ServiceAccount'', ServiceAccountName inst, onamespace inst)]\<rparr>"

section \<open>Availability\<close>

definition HPAName :: "OpenClawInstance \<Rightarrow> string" where "HPAName inst = oname inst"

definition IsHPAEnabled :: "OpenClawInstance \<Rightarrow> bool" where
  "IsHPAEnabled inst =
     (case av_AutoScaling (spec_Availability (oci_Spec inst)) of
        None \<Rightarrow> False
      | Some as \<Rightarrow> asc_Enabled as = Some True)"

record HPA =
  hpa_Name :: string
  hpa_Namespace :: string
  hpa_Labels :: gomap
  hpa_Target :: "string \<times> string \<times> string" \<comment> \<open>API version, kind, name\<close>
  hpa_MinReplicas :: "int option"
  hpa_MaxReplicas :: int
  hpa_Metrics :: "(string \<times> int option) list" \<comment> \<open>resource and target average utilization\<close>

text \<open>Without an auto-scaling block the code dereferences a nil pointer.\<close>

definition BuildHPA :: "OpenClawInstance \<Rightarrow> HPA outcome" where
  "BuildHPA inst =
     (case av_AutoScaling (spec_Availability (oci_Spec inst)) of
        None \<Rightarrow> Panic
      | Some as \<Rightarrow> Ret
          \<lparr>hpa_Name = HPAName inst, hpa_Namespace = onamespace inst, hpa_Labels = Labels inst,
           hpa_Target = (''apps/v1'', ''StatefulSet'', StatefulSetName inst),
           hpa_MinReplicas = Some (derefOr 1 (asc_MinReplicas as)), hpa_MaxReplicas = derefOr 5 (asc_MaxReplicas as),
           hpa_Metrics = (''cpu'', Some (derefOr 80 (asc_TargetCPUUtilization as)))
             # (case asc_TargetMemoryUtilization as of None \<Rightarrow> [] | Some m \<Rightarrow> [(''memory'', Some m)])\<rparr>)"

record PDB =
  pdbo_Name :: string
  pdbo_Namespace :: string
  pdbo_Labels :: gomap
  pdbo_MaxUnavailable :: int
  pdbo_Selector :: gomap

definition BuildPDB :: "OpenClawInstance \<Rightarrow> PDB" where
  "BuildPDB inst =
     \<lparr>pdbo_Name = PDBName inst, pdbo_Namespace = onamespace inst, pdbo_Labels = Labels inst,
      pdbo_MaxUnavailable = (case av_PodDisruptionBudget (spec_Availability (oci_Spec inst)) of
                               None \<Rightarrow> 1 | Some b \<Rightarrow> derefOr 1 (pdb_MaxUnavailable b)),
      pdbo_Selector = SelectorLabels inst\<rparr>"

section \<open>Volume claims\<close>

text \<open>\<open>valid\<close> says which texts \<^verbatim>\<open>resource.ParseQuantity\<close> accepts; a quantity is its text.\<close>

definition ParseQuantity :: "(string \<Rightarrow> bool) \<Rightarrow> string \<Rightarrow> string \<Rightarrow> string" where
  "ParseQuantity valid s defaultValue =
     (if s = [] then defaultValue else if \<not> valid s then defaultValue else s)"

record Claim =
  cl_Name :: string
  cl_Namespace :: string
  cl_Labels :: gomap
  cl_Annotations :: gomap
  cl_AccessModes :: "string list"
  cl_Storage :: string
  cl_StorageClassName :: "string option"

definition ReadWriteOnce :: string where "ReadWriteOnce = ''ReadWriteOnce''"

definition BuildPVC :: "(string \<Rightarrow> bool) \<Rightarrow> OpenClawInstance \<Rightarrow> Claim" where
  "BuildPVC valid inst =
     (let p = stor_Persistence (spec_Storage (oci_Spec inst))
      in \<lparr>cl_Name = PVCName inst, cl_Namespace = onamespace inst, cl_Labels = Labels inst,
          cl_Annotations = [(''openclaw.rocks/backup-enabled'', ''true'')],
          cl_AccessModes = (if pers_AccessModes p = [] then [ReadWriteOnce] else pers_AccessModes p),
          cl_Storage = ParseQuantity valid (pers_Size p) ''10Gi'', cl_StorageClassName = pers_StorageClass p\<rparr>)"

definition BuildChromiumPVC :: "(string \<Rightarrow> bool) \<Rightarrow> OpenClawInstance \<Rightarrow> Claim" where
  "BuildChromiumPVC valid inst =
     (let p = ch_Persistence (spec_Chromium (oci_Spec inst))
      in \<lparr>cl_Name = ChromiumPVCName inst, cl_Namespace = onamespace inst, cl_Labels = Labels inst,
          cl_Annotations = [], cl_AccessModes = [ReadWriteOnce],
          cl_Storage = ParseQuantity valid (chp_Size p) ''1Gi'', cl_StorageClassName = chp_StorageClass p\<rparr>)"

section \<open>Secrets\<close>

definition HtpasswdEntry :: "(string \<Rightarrow> string) \<Rightarrow> string \<Rightarrow> string \<Rightarrow> string" where
  "HtpasswdEntry sha1 username password = username @ '':{SHA}'' @ b64encode (sha1 password)"

definition namedSecret :: "OpenClawInstance \<Rightarrow> string \<Rightarrow> gomap \<Rightarrow> Secret" where
  "namedSecret inst name dat =
     \<lparr>secret_Meta = zero_ObjectMeta\<lparr>om_Name := name, om_Namespace := onamespace inst, om_Labels := Labels inst\<rparr>,
      secret_Data = dat\<rparr>"

definition BuildBasicAuthSecret :: "(string \<Rightarrow> string) \<Rightarrow> OpenClawInstance \<Rightarrow> string \<Rightarrow> Secret" where
  "BuildBasicAuthSecret sha1 inst password =
     (let username = (case isec_BasicAuth (ing_Security (net_Ingress (spec_Networking (oci_Spec inst)))) of
                        None \<Rightarrow> AppName | Some ba \<Rightarrow> strOr (iba_Username ba) AppName)
      in namedSecret inst (BasicAuthSecretName inst)
           [(''auth'', HtpasswdEntry sha1 username password), (''username'', username), (''password'', password)])"

definition GatewayTokenSecretKey :: string where "GatewayTokenSecretKey = ''token''"

definition BuildGatewayTokenSecret :: "OpenClawInstance \<Rightarrow> string \<Rightarrow> Secret" where
  "BuildGatewayTokenSecret inst tokenHex = namedSecret inst (GatewayTokenSecretName inst) [(GatewayTokenSecretKey, tokenHex)]"

definition BuildMeshStateSecret :: "OpenClawInstance \<Rightarrow> string \<Rightarrow> Secret" where
  "BuildMeshStateSecret inst name = namedSecret inst name []"

definition BuildTailscaleStateSecret :: "OpenClawInstance \<Rightarrow> Secret" where
  "BuildTailscaleStateSecret inst = BuildMeshStateSecret inst (TailscaleStateSecretName inst)"

section \<open>Security contexts\<close>

record PodSecurityContext =
  pctx_RunAsUser :: "int option"
  pctx_RunAsGroup :: "int option"
  pctx_FSGroup :: "int option"
  pctx_FSGroupChangePolicy :: "string option"
  pctx_RunAsNonRoot :: "bool option"
  pctx_Seccomp :: string

definition RuntimeDefault :: string where "RuntimeDefault = ''RuntimeDefault''"

definition orElse :: "'a option \<Rightarrow> 'a \<Rightarrow> 'a option" where
  "orElse p d = Some (derefOr d p)"

definition buildPodSecurityContext :: "OpenClawInstance \<Rightarrow> PodSecurityContext" where
  "buildPodSecurityContext inst =
     (case sec_PodSecurityContext (spec_Security (oci_Spec inst)) of
        Some s \<Rightarrow>
          \<lparr>pctx_RunAsUser = orElse (psc_RunAsUser s) 1000, pctx_RunAsGroup = orElse (psc_RunAsGroup s) 1000,
           pctx_FSGroup = orElse (psc_FSGroup s) 1000, pctx_FSGroupChangePolicy = psc_FSGroupChangePolicy s,
           pctx_RunAsNonRoot = orElse (psc_RunAsNonRoot s) True, pctx_Seccomp = RuntimeDefault\<rparr>
      | None \<Rightarrow>
          \<lparr>pctx_RunAsUser = Some 1000, pctx_RunAsGroup = Some 1000, pctx_FSGroup = Some 1000,
           pctx_FSGroupChangePolicy = None, pctx_RunAsNonRoot = Some True, pctx_Seccomp = RuntimeDefault\<rparr>)"

definition podRunAsNonRoot :: "OpenClawInstance \<Rightarrow> bool" where
  "podRunAsNonRoot inst =
     (case sec_PodSecurityContext (spec_Security (oci_Spec inst)) of
        Some s \<Rightarrow> defaultTrue (psc_RunAsNonRoot s) | None \<Rightarrow> True)"

record SecurityContext =
  sctx_AllowPrivilegeEscalation :: "bool option"
  sctx_ReadOnlyRootFilesystem :: "bool option"
  sctx_RunAsNonRoot :: "bool option"
  sctx_RunAsUser :: "int option"
  sctx_Capabilities :: json
  sctx_Seccomp :: string

definition dropAll :: json where "dropAll = JObj [(''drop'', JArr [JStr ''ALL''])]"

definition buildContainerSecurityContext :: "OpenClawInstance \<Rightarrow> SecurityContext" where
  "buildContainerSecurityContext inst =
     (case sec_ContainerSecurityContext (spec_Security (oci_Spec inst)) of
        None \<Rightarrow>
          \<lparr>sctx_AllowPrivilegeEscalation = Some False, sctx_ReadOnlyRootFilesystem = Some True,
           sctx_RunAsNonRoot = Some (podRunAsNonRoot inst), sctx_RunAsUser = None, sctx_Capabilities = dropAll,
           sctx_Seccomp = RuntimeDefault\<rparr>
      | Some s \<Rightarrow>
          \<lparr>sctx_AllowPrivilegeEscalation = orElse (csc_AllowPrivilegeEscalation s) False,
           sctx_ReadOnlyRootFilesystem = orElse (csc_ReadOnlyRootFilesystem s) True,
           sctx_RunAsNonRoot = orElse (csc_RunAsNonRoot s) (podRunAsNonRoot inst), sctx_RunAsUser = csc_RunAsUser s,
           sctx_Capabilities = derefOr dropAll (csc_Capabilities s), sctx_Seccomp = RuntimeDefault\<rparr>)"

definition shareProcessNamespace :: "OpenClawInstance \<Rightarrow> bool option" where
  "shareProcessNamespace inst = orElse (spec_ShareProcessNamespace (oci_Spec inst)) True"

section \<open>What the role grants\<close>

text \<open>
  The meaning of a rule: group, resource and verb are listed (or the wildcard is), and the object's
  name is listed or no names are. A request on a collection has no name.
\<close>

definition listed :: "string \<Rightarrow> string list \<Rightarrow> bool" where
  "listed x xs \<longleftrightarrow> x \<in> set xs \<or> ''*'' \<in> set xs"

definition ruleGrants :: "PolicyRule \<Rightarrow> string \<Rightarrow> string \<Rightarrow> string option \<Rightarrow> string \<Rightarrow> bool" where
  "ruleGrants r grp res name verb \<longleftrightarrow>
     listed grp (pol_APIGroups r) \<and> listed res (pol_Resources r) \<and> listed verb (pol_Verbs r)
     \<and> (pol_ResourceNames r = [] \<or> (\<exists>n. name = Some n \<and> n \<in> set (pol_ResourceNames r)))"

definition grants :: "Role \<Rightarrow> string \<Rightarrow> string \<Rightarrow> string option \<Rightarrow> string \<Rightarrow> bool" where
  "grants role grp res name verb \<longleftrightarrow> list_ex (\<lambda>r. ruleGrants r grp res name verb) (role_Rules role)"

lemma ruleGrants_polRule:
  assumes "g \<noteq> ''*''" "r \<noteq> ''*''" "''*'' \<notin> set vs"
  shows "ruleGrants (polRule g r ns vs) grp res name verb \<longleftrightarrow>
    grp = g \<and> res = r \<and> (ns = [] \<or> (\<exists>n \<in> set ns. name = Some n)) \<and> verb \<in> set vs"
  using assms by (auto simp: ruleGrants_def polRule_def listed_def)

text \<open>The Secrets the agent may read with self-configuration on.\<close>

definition referencedSecrets :: "OpenClawInstance \<Rightarrow> string set" where
  "referencedSecrets inst =
     {strOr (gw_ExistingSecret (spec_Gateway (oci_Spec inst))) (GatewayTokenSecretName inst)}
     \<union> {s. \<exists>j \<in> set (spec_EnvFrom (oci_Spec inst)). envFromSecret j = Some s}
     \<union> (if MeshCredentialSecretName inst = [] then {} else {MeshCredentialSecretName inst})"

lemma set_map_filter: "set (List.map_filter f xs) = {y. \<exists>x \<in> set xs. f x = Some y}"
  by (induction xs) (auto simp: List.map_filter_simps split: option.splits)

lemma set_selfConfigSecretNames: "set (selfConfigSecretNames inst) = referencedSecrets inst"
  unfolding selfConfigSecretNames_def Let_def set_sort set_remdups set_append list.set(2) set_map_filter referencedSecrets_def
  by auto

lemma selfConfigSecretNames_not_Nil: "selfConfigSecretNames inst \<noteq> []"
proof -
  have "set (selfConfigSecretNames inst) \<noteq> {}" unfolding set_selfConfigSecretNames by (simp add: referencedSecrets_def)
  then show ?thesis by auto
qed

text \<open>
  C40: what the instance's role allows, exactly, when the spec adds no rules: reading its own
  ConfigMap; with self-configuration, reading its own instance, creating and reading requests, and
  reading the Secrets the spec refers to; reading and writing its own mesh state Secret. Nothing
  else - no Secret can be listed, and the instance cannot be written.
\<close>

theorem role_grants_exactly:
  assumes "rbac_AdditionalRules (sec_RBAC (spec_Security (oci_Spec inst))) = []"
  shows "grants (BuildRole inst) grp res name verb \<longleftrightarrow>
     (grp = [] \<and> res = ''configmaps'' \<and> name = Some (ConfigMapName inst) \<and> verb \<in> {''get'', ''watch''})
   \<or> (scf_Enabled (spec_SelfConfigure (oci_Spec inst))
      \<and> (grp = ''openclaw.rocks'' \<and> res = ''openclawinstances'' \<and> name = Some (oname inst) \<and> verb = ''get''
         \<or> grp = ''openclaw.rocks'' \<and> res = ''openclawselfconfigs'' \<and> verb \<in> {''create'', ''get'', ''list''}
         \<or> grp = [] \<and> res = ''secrets'' \<and> (\<exists>s \<in> referencedSecrets inst. name = Some s) \<and> verb = ''get''))
   \<or> (MeshStateSecretName inst \<noteq> [] \<and> grp = [] \<and> res = ''secrets'' \<and> name = Some (MeshStateSecretName inst)
      \<and> verb \<in> {''get'', ''update'', ''patch''})"
proof -
  note rules = ruleGrants_polRule set_selfConfigSecretNames selfConfigSecretNames_not_Nil
  show ?thesis
    by (cases "scf_Enabled (spec_SelfConfigure (oci_Spec inst))"; cases "MeshStateSecretName inst = []")
      (simp_all add: assms grants_def BuildRole_def Let_def rules)
qed

theorem role_grants_exactly_witness:
  "grants (BuildRole zero_OpenClawInstance) [] ''configmaps'' (Some ''-config'') ''get''
   \<and> \<not> grants (BuildRole zero_OpenClawInstance) [] ''secrets'' None ''list''"
proof -
  have e: "rbac_AdditionalRules (sec_RBAC (spec_Security (oci_Spec zero_OpenClawInstance))) = []" by code_simp
  show ?thesis unfolding role_grants_exactly [OF e]
    by (simp add: ConfigMapName_def zero_OpenClawInstance_def zero_ObjectMeta_def)
qed

text \<open>
  The data volume of one instance and the browser volume of another can have the same name in the
  same namespace.
\<close>

theorem claim_names_collide:
  "\<exists>a b :: OpenClawInstance. oname a \<noteq> oname b \<and> onamespace a = onamespace b
     \<and> cl_Name (BuildChromiumPVC valid a) = cl_Name (BuildPVC valid b)"
proof -
  let ?i = "\<lambda>n. zero_OpenClawInstance\<lparr>oci_Meta := zero_ObjectMeta\<lparr>om_Name := n\<rparr>\<rparr>"
  have "oname (?i ''a'') \<noteq> oname (?i ''a-chromium'') \<and> onamespace (?i ''a'') = onamespace (?i ''a-chromium'')
     \<and> cl_Name (BuildChromiumPVC valid (?i ''a'')) = cl_Name (BuildPVC valid (?i ''a-chromium''))"
    by (simp add: BuildChromiumPVC_def BuildPVC_def Let_def ChromiumPVCName_def PVCName_def)
  then show ?thesis by blast
qed

end
