(* ===== verification/Webhook.thy ===== *)
theory Webhook
  imports Resources Workspace GoTime
begin

text \<open>
  The admission webhook: internal/webhook/openclawinstance_webhook.go and verified_plugins.go. The
  validator is the sequence of its numbered checks, each of which adds warnings or ends with an
  error; the defaulter fills in what the user left out.

  The parser of Kubernetes quantities, the strict semver parser and the text of a duration error are
  the fields of \<open>webhookEnv\<close>.
\<close>

record webhookEnv =
  wx_QuantityError :: "string \<Rightarrow> string option"
  wx_StrictVersion :: "string \<Rightarrow> bool"
  wx_DurationError :: "string \<Rightarrow> string"

type_synonym check = "go_error + string list"

definition reject :: "string \<Rightarrow> check" where "reject msg = Inl (errorf msg)"
definition warn :: "string \<Rightarrow> check" where "warn msg = Inr [msg]"
definition pass :: check where "pass = Inr []"

definition warnIf :: "bool \<Rightarrow> string \<Rightarrow> check" where
  "warnIf b msg = (if b then warn msg else pass)"

definition rejectIf :: "bool \<Rightarrow> string \<Rightarrow> check" where
  "rejectIf b msg = (if b then reject msg else pass)"

text \<open>Checks one after the other: the first error ends the validation, warnings accumulate.\<close>

fun runChecks :: "check list \<Rightarrow> check" where
  "runChecks [] = Inr []"
| "runChecks (c # cs) =
     (case c of
        Inl e \<Rightarrow> Inl e
      | Inr ws \<Rightarrow> (case runChecks cs of Inl e \<Rightarrow> Inl e | Inr ws' \<Rightarrow> Inr (ws @ ws')))"

text \<open>A check that only returns an error, with the context its caller adds.\<close>

definition errorCheck :: "string \<Rightarrow> go_error option \<Rightarrow> check" where
  "errorCheck pre e = (case e of None \<Rightarrow> pass | Some err \<Rightarrow> Inl (if pre = [] then err else wrapErr pre err))"

section \<open>Names\<close>

definition nameChar :: "char \<Rightarrow> bool" where
  "nameChar c = (c \<in> set ''abcdefghijklmnopqrstuvwxyzABCDEFGHIJKLMNOPQRSTUVWXYZ0123456789-_/.@'')"

definition forcePathChar :: "char \<Rightarrow> bool" where
  "forcePathChar c = (c \<in> set ''abcdefghijklmnopqrstuvwxyzABCDEFGHIJKLMNOPQRSTUVWXYZ0123456789-_.'')"

text \<open>The first character outside a set, with its UTF-8 continuation bytes.\<close>

definition isContinuation :: "char \<Rightarrow> bool" where
  "isContinuation c = ((of_char c :: nat) div 64 = 2)"

definition firstBad :: "(char \<Rightarrow> bool) \<Rightarrow> string \<Rightarrow> string option" where
  "firstBad ok s = (case dropWhile ok s of [] \<Rightarrow> None | c # rest \<Rightarrow> Some (c # takeWhile isContinuation rest))"

definition checkNameChars :: "string \<Rightarrow> string \<Rightarrow> go_error option" where
  "checkNameChars what s =
     map_option (\<lambda>c. errorf (what @ '' name contains invalid character '' @ quoteStr c)) (firstBad nameChar s)"

definition validateSkillName :: "string \<Rightarrow> go_error option" where
  "validateSkillName name =
     (if name = [] then Some (errorf ''skill name must not be empty'')
      else if length name > 128 then Some (errorf ''skill name must be at most 128 characters'')
      else case cutPrefix name ''npm:'' of
             Some after \<Rightarrow> if after = [] then Some (errorf ''npm: prefix requires a package name'') else checkNameChars ''skill'' after
           | None \<Rightarrow>
               (case cutPrefix name SkillPackPrefix of
                  Some after \<Rightarrow> if after = [] then Some (errorf ''pack: prefix requires an owner/repo/path[@ref] reference'')
                                else checkNameChars ''skill'' after
                | None \<Rightarrow> checkNameChars ''skill'' name))"

definition validatePluginName :: "string \<Rightarrow> go_error option" where
  "validatePluginName name =
     (if name = [] then Some (errorf ''plugin name must not be empty'')
      else if length name > 128 then Some (errorf ''plugin name must be at most 128 characters'')
      else case cutPrefix name ''npm:'' of
             Some after \<Rightarrow> if after = [] then Some (errorf ''npm: prefix requires a package name'') else checkNameChars ''plugin'' after
           | None \<Rightarrow> checkNameChars ''plugin'' name)"

text \<open>The checks of the entries of a list, with their index.\<close>

definition indexed :: "(nat \<Rightarrow> 'a \<Rightarrow> check) \<Rightarrow> 'a list \<Rightarrow> check" where
  "indexed f xs = runChecks (map (\<lambda>(i, x). f i x) (enumerate 0 xs))"

definition idx :: "string \<Rightarrow> nat \<Rightarrow> string" where
  "idx what i = what @ ''['' @ natStr i @ '']''"

section \<open>Workspace\<close>

text \<open>Whether the entry at an index repeats the key of an earlier one (the map \<^verbatim>\<open>seen\<close>).\<close>

definition repeats :: "('a \<Rightarrow> string) \<Rightarrow> 'a list \<Rightarrow> nat \<Rightarrow> bool" where
  "repeats key xs i \<longleftrightarrow> key (xs ! i) \<in> set (map key (take i xs))"

definition validateManagedFiles :: "ManagedWorkspaceFile list \<Rightarrow> string \<Rightarrow> check" where
  "validateManagedFiles managed pre =
     indexed (\<lambda>i mf. runChecks
       [errorCheck (pre @ '' '' @ idx ''managedFiles'' i) (ValidateManagedWorkspacePath (mf_Path mf)),
        rejectIf (repeats mf_Path managed i) (pre @ '' '' @ idx ''managedFiles'' i @ ''.path '' @ quoteStr (mf_Path mf) @ '' is duplicated'')])
       managed"

definition validateFiles :: "string \<Rightarrow> gomap \<Rightarrow> check" where
  "validateFiles pre files =
     runChecks (map (\<lambda>(name, _). errorCheck (pre @ '' initialFiles key '' @ quoteStr name) (ValidateWorkspaceFilePath name)) files)"

definition validateDirs :: "string \<Rightarrow> string list \<Rightarrow> check" where
  "validateDirs pre dirs =
     runChecks (map (\<lambda>dir. errorCheck (pre @ '' initialDirectories entry '' @ quoteStr dir) (ValidateWorkspaceDirectory dir)) dirs)"

definition validateAdditional :: "AdditionalWorkspace list \<Rightarrow> nat \<Rightarrow> AdditionalWorkspace \<Rightarrow> check" where
  "validateAdditional aws i aw =
     (let here = idx ''additionalWorkspaces'' i; named = here @ '' '' @ quoteStr (aw_Name aw)
      in runChecks
        [rejectIf (aw_Name aw = []) (here @ ''.name must not be empty''),
         rejectIf (\<not> workspaceNameRegex (aw_Name aw))
           (here @ ''.name '' @ quoteStr (aw_Name aw) @ '' must match ^[a-z0-9]+(-[a-z0-9]+)*$ (lowercase alphanumeric, no consecutive hyphens)''),
         rejectIf (repeats aw_Name aws i) (here @ ''.name '' @ quoteStr (aw_Name aw) @ '' is duplicated''),
         rejectIf (map_option cmn_Name (aw_ConfigMapRef aw) = Some []) (named @ '' configMapRef.name must not be empty''),
         validateFiles named (aw_InitialFiles aw),
         validateDirs named (aw_InitialDirectories aw),
         indexed (\<lambda>j skill. runChecks
           [errorCheck (named @ '' '' @ idx ''skills'' j @ '' '' @ quoteStr skill) (validateSkillName skill),
            rejectIf (repeats (\<lambda>s. s) (aw_Skills aw) j)
              (named @ '' '' @ idx ''skills'' j @ '' '' @ quoteStr skill @ '' is duplicated within the workspace'')]) (aw_Skills aw),
         validateManagedFiles (aw_ManagedFiles aw) named])"

definition validateWorkspaceSpec :: "WorkspaceSpec \<Rightarrow> check" where
  "validateWorkspaceSpec ws = runChecks
     [rejectIf (map_option cmn_Name (ws_ConfigMapRef ws) = Some []) ''workspace configMapRef.name must not be empty'',
      validateFiles ''workspace'' (ws_InitialFiles ws),
      validateDirs ''workspace'' (ws_InitialDirectories ws),
      validateManagedFiles (ws_ManagedFiles ws) ''workspace'',
      indexed (validateAdditional (ws_AdditionalWorkspaces ws)) (ws_AdditionalWorkspaces ws)]"

section \<open>Quantities\<close>

definition checkQuantity :: "webhookEnv \<Rightarrow> string \<times> string \<Rightarrow> check" where
  "checkQuantity x pv =
     (case pv of (path, val) \<Rightarrow>
        if val = [] then pass
        else case wx_QuantityError x val of
               None \<Rightarrow> pass
             | Some e \<Rightarrow> reject (path @ '' '' @ quoteStr val @ '' is not a valid Kubernetes quantity: '' @ e))"

definition resourceQuantities :: "string \<Rightarrow> ResourcesSpec \<Rightarrow> (string \<times> string) list" where
  "resourceQuantities p r =
     [(p @ ''.requests.cpu'', rl_CPU (rs_Requests r)), (p @ ''.requests.memory'', rl_Memory (rs_Requests r)),
      (p @ ''.limits.cpu'', rl_CPU (rs_Limits r)), (p @ ''.limits.memory'', rl_Memory (rs_Limits r))]"

definition instanceQuantities :: "OpenClawInstance \<Rightarrow> (string \<times> string) list" where
  "instanceQuantities inst =
     (let s = oci_Spec inst
      in [(''spec.storage.persistence.size'', pers_Size (stor_Persistence (spec_Storage s)))]
         @ resourceQuantities ''spec.resources'' (spec_Resources s)
         @ resourceQuantities ''spec.chromium.resources'' (ch_Resources (spec_Chromium s))
         @ [(''spec.chromium.persistence.size'', chp_Size (ch_Persistence (spec_Chromium s)))]
         @ resourceQuantities ''spec.tailscale.resources'' (ts_Resources (spec_Tailscale s))
         @ (case spec_NetBird s of None \<Rightarrow> [] | Some nb \<Rightarrow> resourceQuantities ''spec.netbird.resources'' (nb_Resources nb))
         @ resourceQuantities ''spec.ollama.resources'' (ol_Resources (spec_Ollama s))
         @ [(''spec.ollama.storage.sizeLimit'', ols_SizeLimit (ol_Storage (spec_Ollama s)))]
         @ resourceQuantities ''spec.webTerminal.resources'' (wt_Resources (spec_WebTerminal s)))"

definition validateResourceQuantities :: "webhookEnv \<Rightarrow> OpenClawInstance \<Rightarrow> check" where
  "validateResourceQuantities x inst = runChecks (map (checkQuantity x) (instanceQuantities inst))"

section \<open>Verified plugins\<close>

definition pkgStart :: "char \<Rightarrow> bool" where
  "pkgStart c = (c \<in> set ''abcdefghijklmnopqrstuvwxyz0123456789'')"

definition pkgChar :: "char \<Rightarrow> bool" where
  "pkgChar c = (c \<in> set ''abcdefghijklmnopqrstuvwxyz0123456789._-'')"

definition pkgWord :: "string \<Rightarrow> bool" where
  "pkgWord s = (case s of [] \<Rightarrow> False | c # rest \<Rightarrow> pkgStart c \<and> list_all pkgChar rest)"

text \<open>The pattern \<^verbatim>\<open>^(@[a-z0-9][a-z0-9._-]*/)?[a-z0-9][a-z0-9._-]*$\<close>.\<close>

definition verifiedPluginPackagePattern :: "string \<Rightarrow> bool" where
  "verifiedPluginPackagePattern s =
     (case s of
        c # rest \<Rightarrow>
          if c = CHR ''@'' then (case splitByte (CHR ''/'') rest of [scope, name] \<Rightarrow> pkgWord scope \<and> pkgWord name | _ \<Rightarrow> False)
          else pkgWord s
      | [] \<Rightarrow> False)"

definition canonicalIntegrity :: "string \<Rightarrow> bool" where
  "canonicalIntegrity integrity =
     (case b64decode True (trimPrefix integrity ''sha512-'') of
        None \<Rightarrow> False
      | Some digest \<Rightarrow> length digest = 64 \<and> ''sha512-'' @ b64encode digest = integrity)"

definition validatePin :: "webhookEnv \<Rightarrow> VerifiedPluginSpec list \<Rightarrow> nat \<Rightarrow> VerifiedPluginSpec \<Rightarrow> check" where
  "validatePin x pins i pin =
     (let pre = idx ''verifiedPlugins'' i
      in runChecks
        [rejectIf (length (vp_Package pin) > 214 \<or> \<not> verifiedPluginPackagePattern (vp_Package pin))
           (pre @ ''.package must be an npm package name without a source prefix or version''),
         rejectIf (\<not> wx_StrictVersion x (vp_Version pin) \<or> length (vp_Version pin) > 128)
           (pre @ ''.version must be an exact SemVer version''),
         rejectIf (\<not> canonicalIntegrity (vp_Integrity pin)) (pre @ ''.integrity must be a canonical SHA-512 SRI digest''),
         rejectIf (repeats (\<lambda>p. pathBase (vp_Package p)) pins i)
           (pre @ ''.package duplicates plugin install directory '' @ quoteStr (pathBase (vp_Package pin)))])"

definition validateVerifiedPlugins :: "webhookEnv \<Rightarrow> OpenClawInstanceSpec \<Rightarrow> check" where
  "validateVerifiedPlugins x spec = runChecks
     [rejectIf (spec_VerifiedPlugins spec \<noteq> [] \<and> spec_Plugins spec \<noteq> []) ''plugins and verifiedPlugins are mutually exclusive'',
      rejectIf (length (spec_VerifiedPlugins spec) > 20) ''verifiedPlugins must contain at most 20 entries'',
      indexed (validatePin x (spec_VerifiedPlugins spec)) (spec_VerifiedPlugins spec)]"

section \<open>Configuration\<close>

definition knownProviderEnvVars :: "string list" where
  "knownProviderEnvVars = [''ANTHROPIC_API_KEY'', ''OPENAI_API_KEY'', ''GOOGLE_AI_API_KEY'', ''GOOGLE_AI_STUDIO_API_KEY'',
     ''AZURE_OPENAI_API_KEY'', ''AZURE_OPENAI_ENDPOINT'', ''AWS_ACCESS_KEY_ID'', ''MISTRAL_API_KEY'', ''COHERE_API_KEY'',
     ''TOGETHER_API_KEY'', ''GROQ_API_KEY'', ''FIREWORKS_API_KEY'', ''DEEPSEEK_API_KEY'', ''OPENROUTER_API_KEY'', ''XAI_API_KEY'']"

definition knownConfigKeys :: "string list" where
  "knownConfigKeys = [''mcpServers'', ''skills'', ''apiKeys'', ''settings'', ''tools'', ''customInstructions'']"

definition providesKey :: "EnvVar \<Rightarrow> bool" where
  "providesKey env \<longleftrightarrow> ev_Name env \<in> set knownProviderEnvVars
     \<or> (case ev_ValueFrom env of None \<Rightarrow> False | Some vf \<Rightarrow> evs_SecretKeyRef vf \<noteq> None)"

definition validateProviderKeys :: "OpenClawInstance \<Rightarrow> string list" where
  "validateProviderKeys inst =
     (if spec_EnvFrom (oci_Spec inst) \<noteq> [] then []
      else if list_ex providesKey (spec_Env (oci_Spec inst)) then []
      else [''No AI provider API keys detected. Configure keys via envFrom (recommended) or env. Known providers: ANTHROPIC_API_KEY, OPENAI_API_KEY, GOOGLE_AI_API_KEY, AZURE_OPENAI_API_KEY, AWS_ACCESS_KEY_ID, ...''])"

definition validateConfigSchema :: "OpenClawInstance \<Rightarrow> string list" where
  "validateConfigSchema inst =
     (case cfg_Raw (spec_Config (oci_Spec inst)) of
        None \<Rightarrow> []
      | Some raw \<Rightarrow>
          if bytesEmpty raw then []
          else case unmarshalMap raw of
                 Some (Some topLevel) \<Rightarrow>
                   map (\<lambda>key. ''Unknown config key '' @ quoteStr key @ '' in spec.config.raw '' @ emDash
                          @ '' known keys are: mcpServers, skills, apiKeys, settings, tools, customInstructions'')
                     (filter (\<lambda>key. key \<notin> set knownConfigKeys) (map fst topLevel))
               | _ \<Rightarrow> [])"

definition configMergeModeMerge :: string where "configMergeModeMerge = ''merge''"
definition configFormatJSON5 :: string where "configFormatJSON5 = ''json5''"
definition imageTagLatest :: string where "imageTagLatest = ''latest''"

definition validateForcePath :: "nat \<Rightarrow> string \<Rightarrow> check" where
  "validateForcePath i p =
     (let here = idx ''config.forcePaths'' i; named = here @ '' '' @ quoteStr p @ '': ''
      in runChecks
        [rejectIf (p = []) (here @ '': path must not be empty''),
         rejectIf (hasPrefix p ''.'' \<or> hasSuffix p ''.'') (named @ ''path must not start or end with '' @ [CHR 0x27] @ ''.'' @ [CHR 0x27]),
         rejectIf (strContains p ''..'') (named @ ''path must not contain empty segments''),
         (case firstBad forcePathChar p of
            None \<Rightarrow> pass
          | Some c \<Rightarrow> reject (named @ ''contains invalid character '' @ quoteStr c @ '' (allowed: alphanumeric, ''
                        @ [CHR 0x27] @ ''-'' @ [CHR 0x27] @ '', '' @ [CHR 0x27] @ ''_'' @ [CHR 0x27] @ '', ''
                        @ [CHR 0x27] @ ''.'' @ [CHR 0x27] @ '')''))])"

definition validateForcePaths :: "OpenClawInstance \<Rightarrow> check" where
  "validateForcePaths inst =
     (let cfg = spec_Config (oci_Spec inst)
      in if cfg_ForcePaths cfg = [] then pass
         else runChecks
           [rejectIf (cfg_MergeMode cfg \<noteq> configMergeModeMerge)
              (''config.forcePaths is only valid when config.mergeMode is '' @ quoteStr ''merge'' @ '' (got '' @ quoteStr (cfg_MergeMode cfg) @ '')''),
            indexed validateForcePath (cfg_ForcePaths cfg)])"

definition reservedInitContainerNames :: "string list" where
  "reservedInitContainerNames = [''init-data-owner'', ''init-config'', ''init-pnpm'', ''init-python'', ''init-skills'',
     ''init-plugins'', ''init-plugin-scratch'', ''init-ollama'', ''init-plugin-runtime-deps'']"

definition validateInitContainers :: "Container list \<Rightarrow> check" where
  "validateInitContainers containers =
     indexed (\<lambda>i c. runChecks
       [rejectIf (con_Name c = []) (idx ''initContainers'' i @ '': container name must not be empty''),
        rejectIf (con_Name c \<in> set reservedInitContainerNames)
          (idx ''initContainers'' i @ '': name '' @ quoteStr (con_Name c) @ '' is reserved for operator-managed init containers'')])
       containers"

section \<open>The numbered checks\<close>

abbreviation secOf :: "OpenClawInstance \<Rightarrow> SecuritySpec" where
  "secOf inst \<equiv> spec_Security (oci_Spec inst)"

definition checkRoot :: "OpenClawInstance \<Rightarrow> check" where
  "checkRoot inst =
     rejectIf (case sec_PodSecurityContext (secOf inst) of None \<Rightarrow> False | Some p \<Rightarrow> psc_RunAsUser p = Some 0)
       ''running as root (UID 0) is not allowed for security reasons''"

definition warnPodSecurity :: "OpenClawInstance \<Rightarrow> check" where
  "warnPodSecurity inst = runChecks
     [warnIf (case sec_PodSecurityContext (secOf inst) of None \<Rightarrow> False | Some p \<Rightarrow> psc_RunAsNonRoot p = Some False)
        ''runAsNonRoot is set to false - this allows running as root which is a security risk'',
      warnIf (np_Enabled (sec_NetworkPolicy (secOf inst)) = Some False)
        ''NetworkPolicy is disabled - pods will have unrestricted network access'']"

definition checkMetricsIngress :: "OpenClawInstance \<Rightarrow> check" where
  "checkMetricsIngress inst =
     (case net_MetricsIngress (spec_Networking (oci_Spec inst)) of
        None \<Rightarrow> pass
      | Some mi \<Rightarrow>
          let hasPeers = (mi_AllowedNamespaces mi \<noteq> [] \<or> mi_AllowedCIDRs mi \<noteq> [])
          in runChecks
            [(if mi_From mi = MetricsIngressFromAllowedPeers then
                warnIf (\<not> hasPeers)
                  ''metricsIngress.from is AllowedPeers but no allowedNamespaces or allowedCIDRs are set - no peer will be able to scrape metrics''
              else if mi_From mi = MetricsIngressFromNone then
                rejectIf hasPeers
                  ''metricsIngress.allowedNamespaces/allowedCIDRs are set but from is None - use from: AllowedPeers to apply them''
              else runChecks
                [rejectIf hasPeers
                   (''metricsIngress.allowedNamespaces/allowedCIDRs require from: AllowedPeers (got '' @ quoteStr (mi_From mi) @ '')''),
                 rejectIf (mi_PodSelector mi \<noteq> None)
                   (''metricsIngress.podSelector requires from: AllowedPeers (got '' @ quoteStr (mi_From mi) @ '')'')]),
             warnIf (\<not> IsMetricsEnabled inst \<and> mi_From mi \<noteq> MetricsIngressFromNone)
               ''metricsIngress is configured but spec.observability.metrics.enabled is false - no metrics ingress rule is generated''])"

definition checkMesh :: "OpenClawInstance \<Rightarrow> check" where
  "checkMesh inst = runChecks
     [rejectIf (length (EnabledMeshProviders inst) > 1)
        (''only one mesh provider may be enabled, got '' @ joinStr '', '' (map meshName (EnabledMeshProviders inst))),
      (case ActiveMeshProvider inst of
         None \<Rightarrow> pass
       | Some mesh \<Rightarrow> warnIf (CredentialSecretName mesh inst = [])
           (meshName mesh @ '' is enabled without a join credential Secret - the peer cannot enroll until one is configured''))]"

definition warnExposure :: "OpenClawInstance \<Rightarrow> check" where
  "warnExposure inst =
     (let s = oci_Spec inst; ing = net_Ingress (spec_Networking s)
      in runChecks
        [(if ing_Enabled ing then runChecks
            [warnIf (ing_TLS ing = []) ''Ingress is enabled without TLS - traffic will not be encrypted'',
             warnIf (isec_ForceHTTPS (ing_Security ing) = Some False) ''Ingress forceHTTPS is disabled - consider enabling for security'']
          else pass),
         warnIf (ch_Enabled (spec_Chromium s) \<and> si_Digest (ch_Image (spec_Chromium s)) = [])
           ''Chromium sidecar is enabled without image digest pinning - consider pinning to a specific digest for supply chain security'',
         (if ol_Enabled (spec_Ollama s) then runChecks
            [warnIf (si_Digest (ol_Image (spec_Ollama s)) = [])
               ''Ollama sidecar is enabled without image digest pinning - consider pinning to a specific digest for supply chain security'',
             warn ''Ollama sidecar runs as root (UID 0) - required by the official Ollama image'']
          else pass),
         warnIf (wt_Enabled (spec_WebTerminal s) \<and> si_Digest (wt_Image (spec_WebTerminal s)) = [])
           ''Web terminal sidecar is enabled without image digest pinning - consider pinning to a specific digest for supply chain security''])"

definition warnContainerSecurity :: "OpenClawInstance \<Rightarrow> check" where
  "warnContainerSecurity inst =
     (case sec_ContainerSecurityContext (secOf inst) of
        None \<Rightarrow> pass
      | Some c \<Rightarrow> runChecks
          [warnIf (csc_AllowPrivilegeEscalation c = Some True) ''allowPrivilegeEscalation is enabled - this is a security risk'',
           warnIf (csc_ReadOnlyRootFilesystem c = Some False)
             ''readOnlyRootFilesystem is disabled - consider enabling for security hardening (the PVC at ~/.openclaw/ and /tmp emptyDir provide writable paths)''])"

definition checkLimits :: "OpenClawInstance \<Rightarrow> check" where
  "checkLimits inst =
     (let l = rs_Limits (spec_Resources (oci_Spec inst))
      in rejectIf (rl_CPU l = [] \<or> rl_Memory l = []) ''resource limits are required - both CPU and memory limits must be set'')"

definition warnLatest :: "OpenClawInstance \<Rightarrow> check" where
  "warnLatest inst =
     (let img = spec_Image (oci_Spec inst)
      in warnIf (img_Tag img = imageTagLatest \<and> img_Digest img = [])
           (''Image tag '' @ quoteStr ''latest'' @ '' is mutable and not recommended for production - consider pinning to a specific version or digest''))"

text \<open>A duration setting: field, bounds with their texts, and value.\<close>

definition checkDuration :: "webhookEnv \<Rightarrow> string \<Rightarrow> duration \<Rightarrow> string \<Rightarrow> duration \<Rightarrow> string \<Rightarrow> string \<Rightarrow> check" where
  "checkDuration x field lo loText hi hiText val =
     (if val = [] then pass
      else case parseDuration val of
             None \<Rightarrow> reject (field @ '' is not a valid Go duration: '' @ wx_DurationError x val)
           | Some d \<Rightarrow>
               if d < lo then reject (field @ '' must be at least '' @ loText @ '', got '' @ val)
               else if d > hi then reject (field @ '' must be at most '' @ hiText @ '', got '' @ val)
               else pass)"

definition checkInterval :: "webhookEnv \<Rightarrow> OpenClawInstance \<Rightarrow> check" where
  "checkInterval x inst =
     checkDuration x ''autoUpdate.checkInterval'' Hour ''1h'' (168 * Hour) ''168h (7 days)'' (au_CheckInterval (spec_AutoUpdate (oci_Spec inst)))"

definition checkHealthTimeout :: "webhookEnv \<Rightarrow> OpenClawInstance \<Rightarrow> check" where
  "checkHealthTimeout x inst =
     checkDuration x ''autoUpdate.healthCheckTimeout'' (2 * Minute) ''2m'' (30 * Minute) ''30m''
       (au_HealthCheckTimeout (spec_AutoUpdate (oci_Spec inst)))"

definition checkCABundle :: "OpenClawInstance \<Rightarrow> check" where
  "checkCABundle inst =
     (case sec_CABundle (secOf inst) of
        None \<Rightarrow> pass
      | Some cab \<Rightarrow> runChecks
          [rejectIf (cab_ConfigMapName cab \<noteq> [] \<and> cab_SecretName cab \<noteq> [])
             ''caBundle: only one of configMapName or secretName may be set, not both'',
           rejectIf (cab_ConfigMapName cab = [] \<and> cab_SecretName cab = [])
             ''caBundle: one of configMapName or secretName must be set''])"

definition checkJSON5 :: "OpenClawInstance \<Rightarrow> check" where
  "checkJSON5 inst =
     (let cfg = spec_Config (oci_Spec inst)
      in if cfg_Format cfg = configFormatJSON5 then runChecks
           [rejectIf (cfg_Raw cfg \<noteq> None)
              (''config.format '' @ quoteStr ''json5'' @ '' requires configMapRef '' @ emDash @ '' inline raw config must be valid JSON''),
            rejectIf (cfg_MergeMode cfg = configMergeModeMerge)
              (''config.format '' @ quoteStr ''json5'' @ '' is not compatible with mergeMode '' @ quoteStr ''merge'')]
         else pass)"

definition validate :: "webhookEnv \<Rightarrow> OpenClawInstance \<Rightarrow> check" where
  "validate x inst =
     (let s = oci_Spec inst
      in runChecks
        [checkRoot inst, warnPodSecurity inst, checkMetricsIngress inst, checkMesh inst, warnExposure inst,
         Inr (validateProviderKeys inst), warnContainerSecurity inst, checkLimits inst, warnLatest inst,
         (case spec_Workspace s of None \<Rightarrow> pass | Some ws \<Rightarrow> validateWorkspaceSpec ws),
         validateResourceQuantities x inst, checkInterval x inst,
         warnIf (au_Enabled (spec_AutoUpdate s) = Some True \<and> img_Digest (spec_Image s) \<noteq> [])
           (''autoUpdate is enabled but image.digest is set '' @ emDash @ '' digest pins override auto-update, updates will be skipped''),
         indexed (\<lambda>i skill. errorCheck (idx ''skills'' i @ '' '' @ quoteStr skill) (validateSkillName skill)) (spec_Skills s),
         indexed (\<lambda>i plugin. errorCheck (idx ''plugins'' i @ '' '' @ quoteStr plugin) (validatePluginName plugin)) (spec_Plugins s),
         validateVerifiedPlugins x s, checkCABundle inst,
         (if cfg_Format (spec_Config s) \<noteq> configFormatJSON5 then Inr (validateConfigSchema inst) else pass),
         validateInitContainers (spec_InitContainers s), checkJSON5 inst, validateForcePaths inst, checkHealthTimeout x inst,
         rejectIf (spec_Suspended s \<and> IsHPAEnabled inst)
           ''spec.suspended and spec.availability.autoScaling.enabled are mutually exclusive: disable auto-scaling before suspending''])"

definition ValidateCreate :: "webhookEnv \<Rightarrow> OpenClawInstance \<Rightarrow> check" where
  "ValidateCreate x inst = validate x inst"

definition ValidateUpdate :: "webhookEnv \<Rightarrow> OpenClawInstance \<Rightarrow> OpenClawInstance \<Rightarrow> check" where
  "ValidateUpdate x old inst =
     (case (pers_StorageClass (stor_Persistence (spec_Storage (oci_Spec old))),
            pers_StorageClass (stor_Persistence (spec_Storage (oci_Spec inst)))) of
        (Some a, Some b) \<Rightarrow> if a \<noteq> b then reject ''storage class is immutable after creation'' else validate x inst
      | _ \<Rightarrow> validate x inst)"

definition ValidateDelete :: "OpenClawInstance \<Rightarrow> check" where
  "ValidateDelete inst = Inr []"

section \<open>Defaults\<close>

definition defaultImage :: "ImageSpec \<Rightarrow> ImageSpec" where
  "defaultImage img = img\<lparr>img_Repository := strOr (img_Repository img) ''ghcr.io/openclaw/openclaw'',
     img_Tag := (if img_Tag img = [] \<and> img_Digest img = [] then imageTagLatest else img_Tag img),
     img_PullPolicy := strOr (img_PullPolicy img) ''IfNotPresent''\<rparr>"

definition defaultConfig :: "ConfigSpec \<Rightarrow> ConfigSpec" where
  "defaultConfig c = c\<lparr>cfg_MergeMode := strOr (cfg_MergeMode c) ''overwrite'', cfg_Format := strOr (cfg_Format c) ''json''\<rparr>"

definition defaultSecurity :: "SecuritySpec \<Rightarrow> SecuritySpec" where
  "defaultSecurity s = s\<lparr>
     sec_PodSecurityContext := orElse (sec_PodSecurityContext s)
       (zero_PodSecurityContextSpec\<lparr>psc_RunAsUser := Some 1000, psc_RunAsGroup := Some 1000, psc_FSGroup := Some 1000,
          psc_RunAsNonRoot := Some True\<rparr>),
     sec_ContainerSecurityContext := orElse (sec_ContainerSecurityContext s)
       (zero_ContainerSecurityContextSpec\<lparr>csc_AllowPrivilegeEscalation := Some False, csc_ReadOnlyRootFilesystem := Some True\<rparr>)\<rparr>"

definition defaultResources :: "ResourcesSpec \<Rightarrow> ResourcesSpec" where
  "defaultResources r =
     \<lparr>rs_Requests = \<lparr>rl_CPU = strOr (rl_CPU (rs_Requests r)) ''500m'', rl_Memory = strOr (rl_Memory (rs_Requests r)) ''1Gi''\<rparr>,
      rs_Limits = \<lparr>rl_CPU = strOr (rl_CPU (rs_Limits r)) ''2000m'', rl_Memory = strOr (rl_Memory (rs_Limits r)) ''4Gi''\<rparr>\<rparr>"

definition defaultPersistence :: "PersistenceSpec \<Rightarrow> PersistenceSpec" where
  "defaultPersistence p = p\<lparr>pers_Enabled := orElse (pers_Enabled p) True, pers_Size := strOr (pers_Size p) ''10Gi''\<rparr>"

definition defaultAutoUpdate :: "AutoUpdateSpec \<Rightarrow> AutoUpdateSpec" where
  "defaultAutoUpdate a =
     \<lparr>au_Enabled = orElse (au_Enabled a) False, au_CheckInterval = strOr (au_CheckInterval a) ''24h'',
      au_BackupBeforeUpdate = orElse (au_BackupBeforeUpdate a) True, au_RollbackOnFailure = orElse (au_RollbackOnFailure a) True,
      au_HealthCheckTimeout = strOr (au_HealthCheckTimeout a) ''10m''\<rparr>"

definition Default :: "OpenClawInstance \<Rightarrow> OpenClawInstance" where
  "Default inst =
     (let s = oci_Spec inst; net = spec_Networking s; stor = spec_Storage s
      in inst\<lparr>oci_Spec := s\<lparr>
           spec_Image := defaultImage (spec_Image s), spec_Config := defaultConfig (spec_Config s),
           spec_Security := defaultSecurity (spec_Security s), spec_Resources := defaultResources (spec_Resources s),
           spec_Storage := stor\<lparr>stor_Persistence := defaultPersistence (stor_Persistence stor)\<rparr>,
           spec_Networking := net\<lparr>net_Service := (net_Service net)\<lparr>svc_Type := strOr (svc_Type (net_Service net)) ''ClusterIP''\<rparr>\<rparr>,
           spec_AutoUpdate := defaultAutoUpdate (spec_AutoUpdate s)\<rparr>\<rparr>)"

section \<open>What acceptance means\<close>

definition accepts :: "check \<Rightarrow> bool" where
  "accepts c \<longleftrightarrow> (\<exists>ws. c = Inr ws)"

lemma accepts_simps [simp]:
  "accepts (Inr ws)" "\<not> accepts (Inl err)" "accepts pass" "accepts (warn m)" "\<not> accepts (reject m)"
  "accepts (warnIf b m)" "accepts (rejectIf b m) \<longleftrightarrow> \<not> b" "accepts (errorCheck p e) \<longleftrightarrow> e = None"
  by (auto simp: accepts_def pass_def warn_def reject_def warnIf_def rejectIf_def errorCheck_def split: option.splits)

lemma accepts_runChecks [simp]: "accepts (runChecks cs) \<longleftrightarrow> list_all accepts cs"
  by (induction cs) (auto simp: accepts_def split: sum.splits)

declare runChecks.simps [simp del]

lemma accepts_indexed: "accepts (indexed f xs) \<longleftrightarrow> (\<forall>i < length xs. accepts (f i (xs ! i)))"
  by (auto simp: indexed_def list_all_length nth_enumerate_eq)

lemma no_repeats_distinct:
  assumes "\<And>i. i < length xs \<Longrightarrow> \<not> repeats key xs i"
  shows "distinct (map key xs)"
  using assms
proof (induction xs rule: rev_induct)
  case (snoc x xs)
  have "\<not> repeats key xs i" if "i < length xs" for i
    using snoc.prems [of i] that by (simp add: repeats_def nth_append)
  with snoc.IH have "distinct (map key xs)" by blast
  moreover have "key x \<notin> key ` set xs" using snoc.prems [of "length xs"] by (simp add: repeats_def)
  ultimately show ?case by simp
qed simp

lemma accepts_managed:
  assumes "accepts (validateManagedFiles managed p)"
  shows "\<forall>mf \<in> set managed. ValidateManagedWorkspacePath (mf_Path mf) = None" "distinct (map mf_Path managed)"
  using assms by (auto simp: validateManagedFiles_def accepts_indexed in_set_conv_nth intro: no_repeats_distinct)

lemma accepts_files: "accepts (validateFiles p files) \<longleftrightarrow> (\<forall>(name, c) \<in> set files. ValidateWorkspaceFilePath name = None)"
  by (auto simp: validateFiles_def list_all_iff)

lemma accepts_dirs: "accepts (validateDirs p dirs) \<longleftrightarrow> (\<forall>dir \<in> set dirs. ValidateWorkspaceDirectory dir = None)"
  by (auto simp: validateDirs_def list_all_iff)

text \<open>The paths a workspace declares: files, directories and managed files.\<close>

definition awPaths :: "AdditionalWorkspace \<Rightarrow> string set" where
  "awPaths aw = fst ` set (aw_InitialFiles aw) \<union> set (aw_InitialDirectories aw) \<union> mf_Path ` set (aw_ManagedFiles aw)"

definition wsPaths :: "WorkspaceSpec \<Rightarrow> string set" where
  "wsPaths ws = fst ` set (ws_InitialFiles ws) \<union> set (ws_InitialDirectories ws) \<union> mf_Path ` set (ws_ManagedFiles ws)"

definition pathOK :: "string \<Rightarrow> bool" where
  "pathOK p \<longleftrightarrow> ValidateManagedWorkspacePath p = None \<or> ValidateWorkspaceFilePath p = None \<or> ValidateWorkspaceDirectory p = None"

lemma accepts_additional:
  assumes "accepts (indexed (validateAdditional aws) aws)"
  shows "distinct (map aw_Name aws)"
    and "aw \<in> set aws \<Longrightarrow> workspaceNameRegex (aw_Name aw) \<and> (\<forall>p \<in> awPaths aw. pathOK p)"
proof -
  have each: "accepts (validateAdditional aws i (aws ! i))" if "i < length aws" for i
    using assms that by (simp add: accepts_indexed)
  show "distinct (map aw_Name aws)"
    using each by (intro no_repeats_distinct) (simp add: validateAdditional_def Let_def)
  show "workspaceNameRegex (aw_Name aw) \<and> (\<forall>p \<in> awPaths aw. pathOK p)" if "aw \<in> set aws"
  proof -
    from that obtain i where "i < length aws" "aws ! i = aw" by (auto simp: in_set_conv_nth)
    with each [of i] obtain q r where "workspaceNameRegex (aw_Name aw)" "accepts (validateFiles q (aw_InitialFiles aw))"
      "accepts (validateDirs q (aw_InitialDirectories aw))" "accepts (validateManagedFiles (aw_ManagedFiles aw) q)"
      by (auto simp: validateAdditional_def Let_def)
    then show ?thesis
      using accepts_managed by (fastforce simp: awPaths_def pathOK_def accepts_files accepts_dirs)
  qed
qed

lemma accepts_workspace:
  assumes "accepts (validateWorkspaceSpec ws)"
  shows "\<forall>p \<in> wsPaths ws. pathOK p" "accepts (indexed (validateAdditional (ws_AdditionalWorkspaces ws)) (ws_AdditionalWorkspaces ws))"
proof -
  from assms have *: "accepts (validateFiles ''workspace'' (ws_InitialFiles ws))" "accepts (validateDirs ''workspace'' (ws_InitialDirectories ws))"
    "accepts (validateManagedFiles (ws_ManagedFiles ws) ''workspace'')"
    "accepts (indexed (validateAdditional (ws_AdditionalWorkspaces ws)) (ws_AdditionalWorkspaces ws))"
    by (simp_all add: validateWorkspaceSpec_def)
  from *(4) show "accepts (indexed (validateAdditional (ws_AdditionalWorkspaces ws)) (ws_AdditionalWorkspaces ws))" .
  from *(1-3) accepts_managed(1) [OF *(3)] show "\<forall>p \<in> wsPaths ws. pathOK p"
    by (fastforce simp: wsPaths_def pathOK_def accepts_files accepts_dirs)
qed

lemma pathOK_inside:
  assumes "pathOK p"
  shows "(\<exists>below. walk root (splitByte (CHR ''/'') p) = below @ root) \<and> \<not> hasPrefix p ''/''"
  using assms checked_inside [of p root] by (auto simp: pathOK_def)

lemma validate_accepts:
  assumes "accepts (validate x inst)"
  shows "accepts (checkRoot inst)" "accepts (checkMesh inst)" "accepts (checkLimits inst)"
    "accepts (validateResourceQuantities x inst)" "accepts (checkInterval x inst)" "accepts (checkHealthTimeout x inst)"
    "spec_Workspace (oci_Spec inst) = Some ws \<Longrightarrow> accepts (validateWorkspaceSpec ws)"
    "accepts (validateVerifiedPlugins x (oci_Spec inst))"
    "\<not> (spec_Suspended (oci_Spec inst) \<and> IsHPAEnabled inst)"
  using assms by (simp_all add: validate_def Let_def)

lemma accepts_duration:
  assumes "accepts (checkDuration x f lo lt hi ht val)" "val \<noteq> []"
  shows "\<exists>d. parseDuration val = Some d \<and> lo \<le> d \<and> d \<le> hi"
  using assms by (auto simp: checkDuration_def split: option.splits if_splits)

lemma accepts_quantity: "accepts (checkQuantity x (p, v)) \<longleftrightarrow> v = [] \<or> wx_QuantityError x v = None"
  by (auto simp: checkQuantity_def split: option.splits)

section \<open>Integrity of verified plugins\<close>

text \<open>
  The integrity of a verified plugin is accepted exactly when it is the canonical text of a
  SHA-512 digest: the prefix and the padded base64 encoding of 64 bytes. So two accepted texts for
  the same digest are equal.
\<close>

theorem integrity_canonical:
  "canonicalIntegrity s \<longleftrightarrow> (\<exists>digest. length digest = 64 \<and> s = ''sha512-'' @ b64encode digest)"
proof
  assume "canonicalIntegrity s"
  then show "\<exists>digest. length digest = 64 \<and> s = ''sha512-'' @ b64encode digest"
    by (auto simp: canonicalIntegrity_def split: option.splits)
next
  assume "\<exists>digest. length digest = 64 \<and> s = ''sha512-'' @ b64encode digest"
  then obtain digest where d: "length digest = 64" "s = ''sha512-'' @ b64encode digest" by auto
  then have "trimPrefix s ''sha512-'' = b64encode digest" by (simp only: trimPrefix_append)
  with d show "canonicalIntegrity s" by (simp add: canonicalIntegrity_def b64decode_encode)
qed

section \<open>Defaults\<close>

lemma strOr_idem [simp]: "strOr (strOr s d) d = strOr s d" "strOr s d = [] \<longleftrightarrow> s = [] \<and> d = []"
  by (auto simp: strOr_def)

lemma orElse_idem [simp]: "orElse (orElse p d) d = orElse p d"
  by (simp add: orElse_def)

text \<open>
  Defaulting is idempotent, and what it fills in passes validation: the pod does not run as
  root unless the user asked for it, the limits are set, and the durations it supplies are in
  range.
\<close>

theorem default_idempotent:
  "Default (Default inst) = Default inst
   \<and> accepts (checkLimits (Default inst))
   \<and> (accepts (checkRoot (Default inst)) \<longleftrightarrow> accepts (checkRoot inst))
   \<and> (accepts (checkInterval x (Default inst)) \<longleftrightarrow> accepts (checkInterval x inst))
   \<and> (accepts (checkHealthTimeout x (Default inst)) \<longleftrightarrow> accepts (checkHealthTimeout x inst))"
proof (intro conjI)
  show "Default (Default inst) = Default inst"
    by (simp add: Default_def Let_def defaultImage_def imageTagLatest_def defaultConfig_def defaultSecurity_def defaultResources_def
        defaultPersistence_def defaultAutoUpdate_def)
  show "accepts (checkLimits (Default inst))"
    by (simp add: checkLimits_def Default_def Let_def defaultResources_def)
  show "accepts (checkRoot (Default inst)) \<longleftrightarrow> accepts (checkRoot inst)"
    by (auto simp: checkRoot_def Default_def Let_def defaultSecurity_def orElse_def split: option.splits)
  have d: "parseDuration ''24h'' = Some (24 * Hour)" "parseDuration ''10m'' = Some (10 * Minute)"
    by (simp_all add: parseDuration_def parseComponent_def isDigit_def digitVal_def unitMap_def less_eq_char_def time_units)
  show "accepts (checkInterval x (Default inst)) \<longleftrightarrow> accepts (checkInterval x inst)"
    by (cases "au_CheckInterval (spec_AutoUpdate (oci_Spec inst))")
      (simp_all add: checkInterval_def checkDuration_def Default_def Let_def defaultAutoUpdate_def d time_units)
  show "accepts (checkHealthTimeout x (Default inst)) \<longleftrightarrow> accepts (checkHealthTimeout x inst)"
    by (cases "au_HealthCheckTimeout (spec_AutoUpdate (oci_Spec inst))")
      (simp_all add: checkHealthTimeout_def checkDuration_def Default_def Let_def defaultAutoUpdate_def d time_units)
qed

section \<open>Root in the container\<close>

definition rootContainer :: OpenClawInstance where
  "rootContainer = zero_OpenClawInstance\<lparr>oci_Spec := zero_OpenClawInstanceSpec\<lparr>
     spec_EnvFrom := [JNull],
     spec_Image := zero_ImageSpec\<lparr>img_Tag := ''1.0.0''\<rparr>,
     spec_Resources := zero_ResourcesSpec\<lparr>rs_Limits := \<lparr>rl_CPU = ''2'', rl_Memory = ''4Gi''\<rparr>\<rparr>,
     spec_Security := zero_SecuritySpec\<lparr>sec_ContainerSecurityContext := Some
       (zero_ContainerSecurityContextSpec\<lparr>csc_RunAsUser := Some 0, csc_RunAsNonRoot := Some False\<rparr>)\<rparr>\<rparr>\<rparr>"

text \<open>
  Root is blocked for the pod only: an instance whose container security context asks for UID 0 is
  accepted without a warning, and the main container runs as root.
\<close>

theorem container_root_admitted:
  "validate \<lparr>wx_QuantityError = Map.empty, wx_StrictVersion = (\<lambda>_. True), wx_DurationError = (\<lambda>_. [])\<rparr> rootContainer = Inr []
   \<and> sctx_RunAsUser (buildContainerSecurityContext rootContainer) = Some 0
   \<and> sctx_RunAsNonRoot (buildContainerSecurityContext rootContainer) = Some False"
  by (intro conjI; code_simp)

end
