(* ===== verification/Exposure.thy ===== *)
theory Exposure
  imports Resources
begin

text \<open>
  How an instance is reached and watched from outside: ingress.go, httproute.go,
  servicemonitor.go and prometheusrule.go of internal/resources. The objects the code builds as
  nested maps are records with the fields those maps have.
\<close>

section \<open>Ingress\<close>

datatype IngressProvider = IngressProviderNginx | IngressProviderTraefik | IngressProviderUnknown

text \<open>\<^verbatim>\<open>strings.ToLower\<close> on ASCII text; class names are DNS names.\<close>

definition toLowerByte :: "char \<Rightarrow> char" where
  "toLowerByte c = (if CHR ''A'' \<le> c \<and> c \<le> CHR ''Z'' then char_of (of_char c + (32::nat)) else c)"

definition DetectIngressProvider :: "string option \<Rightarrow> IngressProvider" where
  "DetectIngressProvider className =
     (case className of
        None \<Rightarrow> IngressProviderUnknown
      | Some c \<Rightarrow>
          let lower = map toLowerByte c
          in if strContains lower ''nginx'' then IngressProviderNginx
             else if strContains lower ''traefik'' then IngressProviderTraefik
             else IngressProviderUnknown)"

definition ingressOf :: "OpenClawInstance \<Rightarrow> IngressSpec" where
  "ingressOf inst = net_Ingress (spec_Networking (oci_Spec inst))"

definition nginxKey :: "string \<Rightarrow> string" where "nginxKey k = ''nginx.ingress.kubernetes.io/'' @ k"
definition traefikKey :: "string \<Rightarrow> string" where "traefikKey k = ''traefik.ingress.kubernetes.io/'' @ k"

definition hstsSnippet :: string where
  "hstsSnippet = ''more_set_headers '' @ [dquote] @ ''Strict-Transport-Security: max-age=31536000; includeSubDomains'' @ [dquote] @ '';''"

definition redirectAnnotations :: "IngressProvider \<Rightarrow> IngressSecuritySpec \<Rightarrow> gomap" where
  "redirectAnnotations provider sec =
     (if \<not> defaultTrue (isec_ForceHTTPS sec) then []
      else case provider of
             IngressProviderNginx \<Rightarrow> [(nginxKey ''ssl-redirect'', ''true''), (nginxKey ''force-ssl-redirect'', ''true'')]
           | IngressProviderTraefik \<Rightarrow> [(traefikKey ''router.entrypoints'', ''websecure'')]
           | IngressProviderUnknown \<Rightarrow> [])"

definition hstsAnnotations :: "IngressProvider \<Rightarrow> IngressSecuritySpec \<Rightarrow> gomap" where
  "hstsAnnotations provider sec =
     (if defaultTrue (isec_EnableHSTS sec) \<and> provider = IngressProviderNginx
      then [(nginxKey ''configuration-snippet'', hstsSnippet)] else [])"

definition rateAnnotations :: "IngressProvider \<Rightarrow> IngressSecuritySpec \<Rightarrow> gomap" where
  "rateAnnotations provider sec =
     (case isec_RateLimiting sec of
        None \<Rightarrow> []
      | Some rl \<Rightarrow>
          if defaultTrue (rate_Enabled rl) \<and> provider = IngressProviderNginx
          then [(nginxKey ''limit-rps'', intStr (derefOr 10 (rate_RequestsPerSecond rl)))] else [])"

definition websocketAnnotations :: "IngressProvider \<Rightarrow> gomap" where
  "websocketAnnotations provider =
     (if provider = IngressProviderNginx
      then [(nginxKey ''proxy-read-timeout'', ''3600''), (nginxKey ''proxy-send-timeout'', ''3600''),
            (nginxKey ''proxy-http-version'', ''1.1''), (nginxKey ''upstream-hash-by'', ''$binary_remote_addr'')]
      else [])"

text \<open>The basic-auth settings that are in force.\<close>

definition activeBasicAuth :: "OpenClawInstance \<Rightarrow> IngressBasicAuthSpec option" where
  "activeBasicAuth inst =
     (case isec_BasicAuth (ing_Security (ingressOf inst)) of
        None \<Rightarrow> None
      | Some ba \<Rightarrow> if defaultTrue (iba_Enabled ba) then Some ba else None)"

definition basicAuthSecret :: "OpenClawInstance \<Rightarrow> IngressBasicAuthSpec \<Rightarrow> string" where
  "basicAuthSecret inst ba = strOr (iba_ExistingSecret ba) (BasicAuthSecretName inst)"

definition basicAuthAnnotations :: "IngressProvider \<Rightarrow> OpenClawInstance \<Rightarrow> gomap" where
  "basicAuthAnnotations provider inst =
     (case activeBasicAuth inst of
        None \<Rightarrow> []
      | Some ba \<Rightarrow>
          (case provider of
             IngressProviderNginx \<Rightarrow>
               [(nginxKey ''auth-type'', ''basic''), (nginxKey ''auth-secret'', basicAuthSecret inst ba),
                (nginxKey ''auth-realm'', strOr (iba_Realm ba) ''OpenClaw'')]
           | IngressProviderTraefik \<Rightarrow>
               [(traefikKey ''router.middlewares'', onamespace inst @ ''-'' @ oname inst @ ''-basic-auth'' @ ''@kubernetescrd'')]
           | IngressProviderUnknown \<Rightarrow> []))"

definition buildIngressAnnotations :: "OpenClawInstance \<Rightarrow> gomap" where
  "buildIngressAnnotations inst =
     (let provider = DetectIngressProvider (ing_ClassName (ingressOf inst));
          sec = ing_Security (ingressOf inst)
      in overlay (overlay (overlay (overlay (overlay (overlay [] (ing_Annotations (ingressOf inst)))
           (redirectAnnotations provider sec)) (hstsAnnotations provider sec)) (rateAnnotations provider sec))
           (websocketAnnotations provider)) (basicAuthAnnotations provider inst))"

record HTTPIngressPath =
  hip_Path :: string
  hip_PathType :: string
  hip_ServiceName :: string
  hip_PortNumber :: int

record Ingress =
  ingo_Name :: string
  ingo_Namespace :: string
  ingo_Labels :: gomap
  ingo_Annotations :: gomap
  ingo_ClassName :: "string option"
  ingo_Rules :: "(string \<times> HTTPIngressPath list) list" \<comment> \<open>host and paths\<close>
  ingo_TLS :: "(string list \<times> string) list" \<comment> \<open>hosts and secret\<close>

definition defaultPath :: IngressPath where
  "defaultPath = \<lparr>ip_Path = ''/'', ip_PathType = ''Prefix'', ip_Port = None\<rparr>"

definition ingressPath :: "OpenClawInstance \<Rightarrow> IngressPath \<Rightarrow> HTTPIngressPath" where
  "ingressPath inst p =
     \<lparr>hip_Path = strOr (ip_Path p) ''/'',
      hip_PathType = (if ip_PathType p = ''Exact'' then ''Exact''
                      else if ip_PathType p = ''ImplementationSpecific'' then ''ImplementationSpecific'' else ''Prefix''),
      hip_ServiceName = ServiceName inst, hip_PortNumber = derefOr GatewayPort (ip_Port p)\<rparr>"

definition buildIngressRulesFromSpec :: "OpenClawInstance \<Rightarrow> (string \<times> HTTPIngressPath list) list" where
  "buildIngressRulesFromSpec inst =
     map (\<lambda>host. (ih_Host host, map (ingressPath inst) (if ih_Paths host = [] then [defaultPath] else ih_Paths host)))
       (ing_Hosts (ingressOf inst))"

definition buildIngressTLS :: "OpenClawInstance \<Rightarrow> (string list \<times> string) list" where
  "buildIngressTLS inst = map (\<lambda>t. (itls_Hosts t, itls_SecretName t)) (ing_TLS (ingressOf inst))"

definition BuildIngress :: "OpenClawInstance \<Rightarrow> Ingress" where
  "BuildIngress inst =
     \<lparr>ingo_Name = IngressName inst, ingo_Namespace = onamespace inst, ingo_Labels = Labels inst,
      ingo_Annotations = buildIngressAnnotations inst, ingo_ClassName = ing_ClassName (ingressOf inst),
      ingo_Rules = buildIngressRulesFromSpec inst, ingo_TLS = buildIngressTLS inst\<rparr>"

section \<open>HTTPRoute\<close>

record HTTPRoute =
  hro_Name :: string
  hro_Namespace :: string
  hro_Labels :: gomap
  hro_Annotations :: gomap
  hro_ParentRefs :: "HTTPRouteParentRef list"
  hro_Hostnames :: "string list"
  hro_Matches :: "(string \<times> string) list" \<comment> \<open>type and value of the path\<close>
  hro_BackendRefs :: "(string \<times> int) list" \<comment> \<open>service and port\<close>

definition HTTPRouteName :: "OpenClawInstance \<Rightarrow> string" where "HTTPRouteName inst = oname inst"

definition BuildHTTPRoute :: "OpenClawInstance \<Rightarrow> HTTPRoute option" where
  "BuildHTTPRoute inst =
     (case net_HTTPRoute (spec_Networking (oci_Spec inst)) of
        None \<Rightarrow> None
      | Some spec \<Rightarrow> Some
          \<lparr>hro_Name = HTTPRouteName inst, hro_Namespace = onamespace inst, hro_Labels = Labels inst,
           hro_Annotations = hr_Annotations spec, hro_ParentRefs = hr_ParentRefs spec, hro_Hostnames = hr_Hostnames spec,
           hro_Matches = [(''PathPrefix'', ''/'')],
           hro_BackendRefs = [(ServiceName inst, derefOr GatewayPort (hr_Port spec))]\<rparr>)"

section \<open>ServiceMonitor and PrometheusRule\<close>

definition metricsOf :: "OpenClawInstance \<Rightarrow> MetricsSpec" where
  "metricsOf inst = obs_Metrics (spec_Observability (oci_Spec inst))"

record ServiceMonitor =
  smo_Name :: string
  smo_Namespace :: string
  smo_Labels :: gomap
  smo_Selector :: gomap
  smo_Endpoints :: "(string \<times> string \<times> string) list" \<comment> \<open>port, interval, path\<close>

definition ServiceMonitorName :: "OpenClawInstance \<Rightarrow> string" where "ServiceMonitorName inst = oname inst"

definition BuildServiceMonitor :: "OpenClawInstance \<Rightarrow> ServiceMonitor" where
  "BuildServiceMonitor inst =
     (let sm = met_ServiceMonitor (metricsOf inst)
      in \<lparr>smo_Name = ServiceMonitorName inst, smo_Namespace = onamespace inst,
          smo_Labels = overlay (overlay [] (Labels inst)) (case sm of None \<Rightarrow> [] | Some s \<Rightarrow> sm_Labels s),
          smo_Selector = SelectorLabels inst,
          smo_Endpoints = [(MetricsPortName, (case sm of None \<Rightarrow> ''30s'' | Some s \<Rightarrow> strOr (sm_Interval s) ''30s''), ''/metrics'')]\<rparr>)"

definition defaultRunbookBaseURL :: string where
  "defaultRunbookBaseURL = ''https://paperclip.inc/docs/operators/openclaw/runbooks''"

definition PrometheusRuleName :: "OpenClawInstance \<Rightarrow> string" where "PrometheusRuleName inst = oname inst @ ''-alerts''"

record Alert =
  al_Alert :: string
  al_Expr :: string
  al_For :: string
  al_Severity :: string
  al_Summary :: string
  al_RunbookURL :: string

definition buildAlert :: "string \<Rightarrow> string \<Rightarrow> string \<Rightarrow> string \<Rightarrow> string \<Rightarrow> string \<Rightarrow> Alert" where
  "buildAlert alertName expr forDuration severity summary runbookBase =
     \<lparr>al_Alert = alertName, al_Expr = expr, al_For = forDuration, al_Severity = severity, al_Summary = summary,
      al_RunbookURL = runbookBase @ ''/'' @ alertName\<rparr>"

definition quoteMeta :: "string \<Rightarrow> string" where
  "quoteMeta s = concat (map (\<lambda>c. if c \<in> set (backslash # ''.+*?()|[]{}^$'') then [backslash, c] else [c]) s)"

definition labelQuote :: "string \<Rightarrow> string" where "labelQuote s = [dquote] @ s @ [dquote]"

definition pvcClaimMatcher :: "OpenClawInstance \<Rightarrow> string" where
  "pvcClaimMatcher inst =
     (if IsHPAEnabled inst
      then ''persistentvolumeclaim=~'' @ labelQuote (quoteMeta (''data-'' @ StatefulSetName inst @ ''-'') @ ''[0-9]+'')
      else ''persistentvolumeclaim='' @
             labelQuote (strOr (pers_ExistingClaim (stor_Persistence (spec_Storage (oci_Spec inst)))) (PVCName inst)))"

definition buildAlerts :: "OpenClawInstance \<Rightarrow> string \<Rightarrow> Alert list" where
  "buildAlerts inst runbookBase =
     (let q = labelQuote; name = oname inst; ns = onamespace inst;
          claim = pvcClaimMatcher inst
      in [buildAlert ''OpenClawReconcileErrors''
            (''sum(rate(openclaw_reconcile_total{result='' @ q ''error'' @ '',instance='' @ q name @ '',namespace='' @ q ns @ ''}[5m])) > 0'')
            ''5m'' ''warning''
            ''OpenClaw instance {{ $labels.instance }} in {{ $labels.namespace }} has reconciliation errors.'' runbookBase,
          buildAlert ''OpenClawInstanceDegraded''
            (''openclaw_instance_phase{phase=~'' @ q ''Failed|Degraded'' @ '',instance='' @ q name @ '',namespace='' @ q ns @ ''} == 1'')
            ''5m'' ''critical''
            ''OpenClaw instance {{ $labels.instance }} in {{ $labels.namespace }} is in {{ $labels.phase }} phase.'' runbookBase,
          buildAlert ''OpenClawSlowReconciliation''
            (''histogram_quantile(0.99, sum(rate(openclaw_reconcile_duration_seconds_bucket{instance='' @ q name @ '',namespace='' @ q ns @
             ''}[5m])) by (le)) > 30'')
            ''5m'' ''warning''
            ''OpenClaw instance {{ $labels.instance }} p99 reconciliation duration exceeds 30s.'' runbookBase,
          buildAlert ''OpenClawPodCrashLooping''
            (''increase(kube_pod_container_status_restarts_total{namespace='' @ q ns @ '',pod=~'' @ q (name @ ''-.*'') @
             '',container='' @ q ''openclaw'' @ ''}[10m]) > 2'')
            ''0m'' ''critical''
            ''OpenClaw pod {{ $labels.pod }} is crash-looping (>2 restarts in 10m).'' runbookBase,
          buildAlert ''OpenClawPodOOMKilled''
            (''kube_pod_container_status_last_terminated_reason{reason='' @ q ''OOMKilled'' @ '',namespace='' @ q ns @ '',pod=~'' @
             q (name @ ''-.*'') @ '',container='' @ q ''openclaw'' @ ''} == 1'')
            ''0m'' ''warning''
            ''OpenClaw pod {{ $labels.pod }} was OOM killed. Consider increasing memory limits.'' runbookBase] @
         (if IsPersistenceEnabled inst
          then [buildAlert ''OpenClawPVCNearlyFull''
                  (''(kubelet_volume_stats_used_bytes{namespace='' @ q ns @ '','' @ claim @
                   ''} / kubelet_volume_stats_capacity_bytes{namespace='' @ q ns @ '','' @ claim @ ''}) > 0.80'')
                  ''5m'' ''warning''
                  ''PVC for OpenClaw instance {{ $labels.persistentvolumeclaim }} is over 80% full.'' runbookBase]
          else []) @
         [buildAlert ''OpenClawAutoUpdateRollback''
            (''increase(openclaw_autoupdate_rollbacks_total{instance='' @ q name @ '',namespace='' @ q ns @ ''}[1h]) > 0'')
            ''0m'' ''warning''
            ''OpenClaw instance {{ $labels.instance }} auto-update rolled back in the last hour.'' runbookBase])"

record PrometheusRule =
  pro_Name :: string
  pro_Namespace :: string
  pro_Labels :: gomap
  pro_Groups :: "(string \<times> Alert list) list"

definition BuildPrometheusRule :: "OpenClawInstance \<Rightarrow> PrometheusRule" where
  "BuildPrometheusRule inst =
     (let pr = met_PrometheusRule (metricsOf inst);
          base = (case pr of None \<Rightarrow> defaultRunbookBaseURL | Some s \<Rightarrow> strOr (pr_RunbookBaseURL s) defaultRunbookBaseURL)
      in \<lparr>pro_Name = PrometheusRuleName inst, pro_Namespace = onamespace inst,
          pro_Labels = overlay (overlay [] (Labels inst)) (case pr of None \<Rightarrow> [] | Some s \<Rightarrow> pr_Labels s),
          pro_Groups = [(''openclaw-operator'', buildAlerts inst base)]\<rparr>)"

end
