(* ===== verification/Dashboards.thy ===== *)
theory Dashboards
  imports Exposure
begin

text \<open>
  The Grafana dashboards (internal/resources/grafana_dashboard.go) and the metrics of the operator
  (internal/controller/metrics.go). A struct with JSON tags is a record with a function that makes its
  document: fields in source order, and those tagged \<^verbatim>\<open>omitempty\<close> left out when they
  are empty. In the queries a backquote stands for the double quote: they are raw strings in Go.
\<close>

section \<open>The metrics of the operator\<close>

datatype metricKind = CounterVec | GaugeVec | HistogramVec | Gauge

record metric =
  mtr_Kind :: metricKind
  mtr_Name :: string
  mtr_Labels :: "string list"

definition metricOf :: "metricKind \<Rightarrow> string \<Rightarrow> string list \<Rightarrow> metric" where
  "metricOf k n ls = \<lparr>mtr_Kind = k, mtr_Name = n, mtr_Labels = ls\<rparr>"

definition registeredMetrics :: "metric list" where
  "registeredMetrics =
     [metricOf CounterVec ''openclaw_reconcile_total'' [''instance'', ''namespace'', ''result''],
      metricOf HistogramVec ''openclaw_reconcile_duration_seconds'' [''instance'', ''namespace''],
      metricOf GaugeVec ''openclaw_instance_phase'' [''instance'', ''namespace'', ''phase''],
      metricOf CounterVec ''openclaw_resource_creation_failures_total'' [''instance'', ''namespace'', ''resource''],
      metricOf Gauge ''openclaw_managed_instances'' [],
      metricOf CounterVec ''openclaw_autoupdate_checks_total'' [''instance'', ''namespace'', ''result''],
      metricOf CounterVec ''openclaw_autoupdate_applied_total'' [''instance'', ''namespace''],
      metricOf CounterVec ''openclaw_autoupdate_rollbacks_total'' [''instance'', ''namespace''],
      metricOf GaugeVec ''openclaw_instance_info'' [''instance'', ''namespace'', ''version'', ''image''],
      metricOf GaugeVec ''openclaw_instance_ready'' [''instance'', ''namespace'']]"

section \<open>Documents\<close>

definition pq :: "string \<Rightarrow> string" where
  "pq s = map (\<lambda>c. if c = CHR 0x60 then dquote else c) s"

text \<open>The float64 of an integer that has one (below 2 to the 53rd power).\<close>

definition exponent :: "int \<Rightarrow> nat" where
  "exponent n = length (takeWhile (\<lambda>k. 2 ^ Suc k \<le> n) [0..<53])"

definition jsonInt :: "int \<Rightarrow> json" where
  "jsonInt n =
     (if n = 0 then JNum 0
      else let e = exponent n in JNum (of_int ((1023 + int e) * 2 ^ 52 + (n - 2 ^ e) * 2 ^ (52 - e))))"

definition omitempty :: "string \<Rightarrow> bool \<Rightarrow> json \<Rightarrow> obj" where
  "omitempty k present v = (if present then [(k, v)] else [])"

record grafanaGridPos =
  gp_H :: int
  gp_W :: int
  gp_X :: int
  gp_Y :: int

record grafanaTarget =
  tg_Expr :: string
  tg_LegendFormat :: string
  tg_RefID :: string
  tg_Instant :: bool
  tg_Format :: string

record grafanaFieldConfig =
  fc_Defaults :: obj
  fc_Overrides :: "obj list"

record grafanaDatasource =
  ds_Type :: string
  ds_UID :: string

datatype grafanaPanel =
  Panel (pn_ID: int) (pn_Title: string) (pn_Type: string) (pn_GridPos: grafanaGridPos) (pn_Targets: "grafanaTarget list")
    (pn_Options: obj) (pn_FieldConfig: "grafanaFieldConfig option") (pn_Datasource: "grafanaDatasource option")
    (pn_Panels: "grafanaPanel list") (pn_Collapsed: bool)

record grafanaVariable =
  gv_Current :: obj
  gv_Hide :: int
  gv_IncludeAll :: bool
  gv_Label :: string
  gv_Multi :: bool
  gv_Name :: string
  gv_Options :: "json list"
  gv_Query :: json
  gv_Refresh :: int
  gv_Regex :: string
  gv_Type :: string
  gv_Datasource :: "json option"
  gv_Definition :: string
  gv_Sort :: int
  gv_AllValue :: string

record grafanaDashboard =
  db_Annotations :: "json list"
  db_Editable :: bool
  db_GraphTooltip :: int
  db_Panels :: "grafanaPanel list"
  db_SchemaVersion :: int
  db_Tags :: "string list"
  db_Templating :: "grafanaVariable list"
  db_Time :: "string \<times> string"
  db_Refresh :: string
  db_Title :: string
  db_UID :: string

definition gridPosJSON :: "grafanaGridPos \<Rightarrow> json" where
  "gridPosJSON g = JObj [(''h'', jsonInt (gp_H g)), (''w'', jsonInt (gp_W g)), (''x'', jsonInt (gp_X g)), (''y'', jsonInt (gp_Y g))]"

definition targetJSON :: "grafanaTarget \<Rightarrow> json" where
  "targetJSON t = JObj ([(''expr'', JStr (tg_Expr t)), (''legendFormat'', JStr (tg_LegendFormat t)), (''refId'', JStr (tg_RefID t))]
     @ omitempty ''instant'' (tg_Instant t) (JBool True) @ omitempty ''format'' (tg_Format t \<noteq> []) (JStr (tg_Format t)))"

definition fieldConfigJSON :: "grafanaFieldConfig \<Rightarrow> json" where
  "fieldConfigJSON f = JObj ([(''defaults'', JObj (fc_Defaults f))]
     @ omitempty ''overrides'' (fc_Overrides f \<noteq> []) (JArr (map JObj (fc_Overrides f))))"

definition datasourceJSON :: "grafanaDatasource \<Rightarrow> json" where
  "datasourceJSON d = JObj [(''type'', JStr (ds_Type d)), (''uid'', JStr (ds_UID d))]"

fun panelJSON :: "grafanaPanel \<Rightarrow> json" where
  "panelJSON (Panel i title ty pos targets options fieldConfig datasource panels collapsed) = JObj
     ([(''id'', jsonInt i), (''title'', JStr title), (''type'', JStr ty), (''gridPos'', gridPosJSON pos)]
      @ omitempty ''targets'' (targets \<noteq> []) (JArr (map targetJSON targets))
      @ omitempty ''options'' (options \<noteq> []) (JObj options)
      @ (case fieldConfig of None \<Rightarrow> [] | Some f \<Rightarrow> [(''fieldConfig'', fieldConfigJSON f)])
      @ (case datasource of None \<Rightarrow> [] | Some d \<Rightarrow> [(''datasource'', datasourceJSON d)])
      @ omitempty ''panels'' (panels \<noteq> []) (JArr (map panelJSON panels))
      @ omitempty ''collapsed'' collapsed (JBool True))"

definition variableJSON :: "grafanaVariable \<Rightarrow> json" where
  "variableJSON v = JObj
     ([(''current'', JObj (gv_Current v)), (''hide'', jsonInt (gv_Hide v)), (''includeAll'', JBool (gv_IncludeAll v)),
       (''label'', JStr (gv_Label v)), (''multi'', JBool (gv_Multi v)), (''name'', JStr (gv_Name v)),
       (''options'', JArr (gv_Options v)), (''query'', gv_Query v), (''refresh'', jsonInt (gv_Refresh v)),
       (''regex'', JStr (gv_Regex v)), (''type'', JStr (gv_Type v))]
      @ (case gv_Datasource v of None \<Rightarrow> [] | Some d \<Rightarrow> [(''datasource'', d)])
      @ omitempty ''definition'' (gv_Definition v \<noteq> []) (JStr (gv_Definition v))
      @ omitempty ''sort'' (gv_Sort v \<noteq> 0) (jsonInt (gv_Sort v))
      @ omitempty ''allValue'' (gv_AllValue v \<noteq> []) (JStr (gv_AllValue v)))"

definition mustMarshalJSON :: "grafanaDashboard \<Rightarrow> bytes" where
  "mustMarshalJSON d = Doc (JObj
     [(''annotations'', JObj [(''list'', JArr (db_Annotations d))]), (''editable'', JBool (db_Editable d)),
      (''graphTooltip'', jsonInt (db_GraphTooltip d)), (''panels'', JArr (map panelJSON (db_Panels d))),
      (''schemaVersion'', jsonInt (db_SchemaVersion d)), (''tags'', JArr (map JStr (db_Tags d))),
      (''templating'', JObj [(''list'', JArr (map variableJSON (db_Templating d)))]),
      (''time'', JObj [(''from'', JStr (fst (db_Time d))), (''to'', JStr (snd (db_Time d)))]),
      (''refresh'', JStr (db_Refresh d)), (''title'', JStr (db_Title d)), (''uid'', JStr (db_UID d))])"

section \<open>Variables\<close>

definition dsVar :: grafanaDatasource where
  "dsVar = \<lparr>ds_Type = ''prometheus'', ds_UID = ''${datasource}''\<rparr>"

definition datasourceVar :: grafanaVariable where
  "datasourceVar =
     \<lparr>gv_Current = [], gv_Hide = 0, gv_IncludeAll = False, gv_Label = ''Datasource'', gv_Multi = False,
      gv_Name = ''datasource'', gv_Options = [], gv_Query = JStr ''prometheus'', gv_Refresh = 1, gv_Regex = [],
      gv_Type = ''datasource'', gv_Datasource = None, gv_Definition = [], gv_Sort = 0, gv_AllValue = []\<rparr>"

text \<open>What the variables that are read from the labels of a metric have in common.\<close>

definition labelVar :: "string \<Rightarrow> string \<Rightarrow> bool \<Rightarrow> string \<Rightarrow> grafanaVariable" where
  "labelVar label name multi query =
     \<lparr>gv_Current = [], gv_Hide = 0, gv_IncludeAll = multi, gv_Label = label, gv_Multi = multi, gv_Name = name,
      gv_Options = [], gv_Query = JStr query, gv_Refresh = 2, gv_Regex = [], gv_Type = ''query'',
      gv_Datasource = Some (datasourceJSON dsVar), gv_Definition = query, gv_Sort = 1, gv_AllValue = []\<rparr>"

definition namespaceVar :: "bool \<Rightarrow> grafanaVariable" where
  "namespaceVar multi = labelVar ''Namespace'' ''namespace'' multi ''label_values(openclaw_instance_info, namespace)''"

definition instanceVar :: "bool \<Rightarrow> grafanaVariable" where
  "instanceVar multi =
     (let v = labelVar ''Instance'' ''instance'' multi
                (pq ''label_values(openclaw_instance_info{namespace=~`$namespace`}, instance)'')
      in if multi then v\<lparr>gv_AllValue := ''.*''\<rparr> else v)"

section \<open>Panels\<close>

definition gp :: "int \<Rightarrow> int \<Rightarrow> int \<Rightarrow> int \<Rightarrow> grafanaGridPos" where
  "gp h w x y = \<lparr>gp_H = h, gp_W = w, gp_X = x, gp_Y = y\<rparr>"

definition target :: "string \<Rightarrow> string \<Rightarrow> string \<Rightarrow> grafanaTarget" where
  "target expr legend ref = \<lparr>tg_Expr = expr, tg_LegendFormat = legend, tg_RefID = ref, tg_Instant = False, tg_Format = []\<rparr>"

definition tableTarget :: "string \<Rightarrow> string \<Rightarrow> string \<Rightarrow> grafanaTarget" where
  "tableTarget expr legend ref = (target expr legend ref)\<lparr>tg_Instant := True, tg_Format := ''table''\<rparr>"

definition instantTarget :: "string \<Rightarrow> grafanaTarget" where
  "instantTarget expr = (target expr [] ''A'')\<lparr>tg_Instant := True\<rparr>"

definition noDefaults :: grafanaFieldConfig where "noDefaults = \<lparr>fc_Defaults = [], fc_Overrides = []\<rparr>"

definition statPanel :: "int \<Rightarrow> string \<Rightarrow> string \<Rightarrow> grafanaGridPos \<Rightarrow> grafanaPanel" where
  "statPanel i title expr pos =
     Panel i title ''stat'' pos [instantTarget expr] [] (Some noDefaults) (Some dsVar) [] False"

definition timeseriesPanel :: "int \<Rightarrow> string \<Rightarrow> grafanaTarget list \<Rightarrow> grafanaGridPos \<Rightarrow> grafanaPanel" where
  "timeseriesPanel i title targets pos =
     Panel i title ''timeseries'' pos targets []
       (Some (noDefaults\<lparr>fc_Defaults := [(''custom'', JObj [(''lineWidth'', jsonInt 1), (''fillOpacity'', jsonInt 10),
          (''pointSize'', jsonInt 5), (''showPoints'', JStr ''auto'')])]\<rparr>))
       (Some dsVar) [] False"

text \<open>The thresholds 0.8 and 0.9 by the bit patterns of their float64.\<close>

definition gaugePanel :: "int \<Rightarrow> string \<Rightarrow> string \<Rightarrow> grafanaGridPos \<Rightarrow> grafanaPanel" where
  "gaugePanel i title expr pos =
     Panel i title ''gauge'' pos [instantTarget expr] []
       (Some (noDefaults\<lparr>fc_Defaults := [(''max'', jsonInt 1), (''min'', jsonInt 0),
          (''thresholds'', JObj [(''steps'', JArr
             [JObj [(''color'', JStr ''green''), (''value'', JNull)],
              JObj [(''color'', JStr ''yellow''), (''value'', JNum 0x3FE999999999999A)],
              JObj [(''color'', JStr ''red''), (''value'', JNum 0x3FECCCCCCCCCCCCD)]])]),
          (''unit'', JStr ''percentunit'')]\<rparr>))
       (Some dsVar) [] False"

definition tablePanel :: "int \<Rightarrow> string \<Rightarrow> grafanaTarget list \<Rightarrow> grafanaGridPos \<Rightarrow> grafanaPanel" where
  "tablePanel i title targets pos =
     Panel i title ''table'' pos targets
       [(''showHeader'', JBool True), (''sortBy'', JArr [JObj [(''displayName'', JStr ''instance''), (''desc'', JBool False)]])]
       (Some noDefaults) (Some dsVar) [] False"

definition rowPanel :: "int \<Rightarrow> string \<Rightarrow> int \<Rightarrow> bool \<Rightarrow> grafanaPanel list \<Rightarrow> grafanaPanel" where
  "rowPanel i title y collapsed panels = Panel i title ''row'' (gp 1 24 0 y) [] [] None None panels collapsed"

section \<open>The two dashboards\<close>

definition buildOperatorPanels :: "grafanaPanel list" where
  "buildOperatorPanels =
    [rowPanel 100 ''Overview'' 0 False [],
     statPanel 1 ''Managed Instances'' ''openclaw_managed_instances'' (gp 4 6 0 1),
     statPanel 2 ''Instances Ready'' (pq ''count(openclaw_instance_ready{namespace=~`$namespace`} == 1)'') (gp 4 6 6 1),
     statPanel 3 ''Reconcile Error Rate'' (pq ''sum(rate(openclaw_reconcile_total{result=`error`,namespace=~`$namespace`}[5m])) / clamp_min(sum(rate(openclaw_reconcile_total{namespace=~`$namespace`}[5m])), 1)'') (gp 4 6 12 1),
     statPanel 4 ''Resource Creation Failures'' (pq ''sum(increase(openclaw_resource_creation_failures_total{namespace=~`$namespace`}[5m]))'') (gp 4 6 18 1),
     rowPanel 101 ''Reconciliation'' 5 False [],
     timeseriesPanel 5 ''Reconciliation Rate''
       [target (pq ''sum(rate(openclaw_reconcile_total{result=`success`,namespace=~`$namespace`,instance=~`$instance`}[5m])) by (instance)'') ''{{ instance }} - success'' ''A'',
        target (pq ''sum(rate(openclaw_reconcile_total{result=`error`,namespace=~`$namespace`,instance=~`$instance`}[5m])) by (instance)'') ''{{ instance }} - error'' ''B''] (gp 8 12 0 6),
     timeseriesPanel 6 ''Reconciliation Duration''
       [target (pq ''histogram_quantile(0.50, sum(rate(openclaw_reconcile_duration_seconds_bucket{namespace=~`$namespace`,instance=~`$instance`}[5m])) by (le))'') ''p50'' ''A'',
        target (pq ''histogram_quantile(0.95, sum(rate(openclaw_reconcile_duration_seconds_bucket{namespace=~`$namespace`,instance=~`$instance`}[5m])) by (le))'') ''p95'' ''B'',
        target (pq ''histogram_quantile(0.99, sum(rate(openclaw_reconcile_duration_seconds_bucket{namespace=~`$namespace`,instance=~`$instance`}[5m])) by (le))'') ''p99'' ''C''] (gp 8 12 12 6),
     rowPanel 102 ''Instance Fleet'' 14 False [],
     tablePanel 7 ''Instance Table''
       [tableTarget (pq ''openclaw_instance_info{namespace=~`$namespace`,instance=~`$instance`}'') [] ''A'',
        tableTarget (pq ''openclaw_instance_phase{namespace=~`$namespace`,instance=~`$instance`} == 1'') [] ''B'',
        tableTarget (pq ''openclaw_instance_ready{namespace=~`$namespace`,instance=~`$instance`}'') [] ''C''] (gp 8 24 0 15),
     rowPanel 103 ''Workqueue'' 23 True
       [timeseriesPanel 8 ''Queue Depth''
          [target (pq ''workqueue_depth{name=`openclawinstance`}'') ''depth'' ''A''] (gp 8 12 0 24),
        timeseriesPanel 9 ''Queue Wait Duration p99''
          [target (pq ''histogram_quantile(0.99, sum(rate(workqueue_queue_duration_seconds_bucket{name=`openclawinstance`}[5m])) by (le))'') ''p99'' ''A''] (gp 8 12 12 24)],
     rowPanel 104 ''Kubernetes API'' 32 True
       [timeseriesPanel 10 ''API Requests''
          [target ''sum(rate(rest_client_requests_total[5m])) by (code)'' ''{{ code }}'' ''A''] (gp 8 24 0 33)],
     rowPanel 105 ''Auto-Updates'' 41 True
       [timeseriesPanel 11 ''Update Checks''
          [target (pq ''sum(rate(openclaw_autoupdate_checks_total{namespace=~`$namespace`}[5m])) by (result)'') ''{{ result }}'' ''A''] (gp 8 8 0 42),
        timeseriesPanel 12 ''Updates Applied''
          [target (pq ''sum(increase(openclaw_autoupdate_applied_total{namespace=~`$namespace`}[1h])) by (instance)'') ''{{ instance }}'' ''A''] (gp 8 8 8 42),
        timeseriesPanel 13 ''Rollbacks''
          [target (pq ''sum(increase(openclaw_autoupdate_rollbacks_total{namespace=~`$namespace`}[1h])) by (instance)'') ''{{ instance }}'' ''A''] (gp 8 8 16 42)]]"

definition buildInstancePanels :: "grafanaPanel list" where
  "buildInstancePanels =
    [rowPanel 200 ''Health'' 0 False [],
     statPanel 21 ''Phase'' (pq ''openclaw_instance_phase{namespace=`$namespace`,instance=`$instance`} == 1'') (gp 4 5 0 1),
     statPanel 22 ''Ready'' (pq ''openclaw_instance_ready{namespace=`$namespace`,instance=`$instance`}'') (gp 4 5 5 1),
     gaugePanel 23 ''CPU %'' (pq ''sum(rate(container_cpu_usage_seconds_total{namespace=`$namespace`,pod=~`$instance-.*`,container=`openclaw`}[5m])) / sum(kube_pod_container_resource_limits{namespace=`$namespace`,pod=~`$instance-.*`,container=`openclaw`,resource=`cpu`})'') (gp 4 5 10 1),
     gaugePanel 24 ''Memory %'' (pq ''sum(container_memory_working_set_bytes{namespace=`$namespace`,pod=~`$instance-.*`,container=`openclaw`}) / sum(kube_pod_container_resource_limits{namespace=`$namespace`,pod=~`$instance-.*`,container=`openclaw`,resource=`memory`})'') (gp 4 5 15 1),
     gaugePanel 25 ''PVC %'' (pq ''kubelet_volume_stats_used_bytes{namespace=`$namespace`,persistentvolumeclaim=~`data-$instance.*`} / kubelet_volume_stats_capacity_bytes{namespace=`$namespace`,persistentvolumeclaim=~`data-$instance.*`}'') (gp 4 4 20 1),
     rowPanel 201 ''CPU'' 5 False [],
     timeseriesPanel 26 ''CPU Usage vs Request/Limit''
       [target (pq ''sum(rate(container_cpu_usage_seconds_total{namespace=`$namespace`,pod=~`$instance-.*`,container=`openclaw`}[5m]))'') ''usage'' ''A'',
        target (pq ''sum(kube_pod_container_resource_requests{namespace=`$namespace`,pod=~`$instance-.*`,container=`openclaw`,resource=`cpu`})'') ''request'' ''B'',
        target (pq ''sum(kube_pod_container_resource_limits{namespace=`$namespace`,pod=~`$instance-.*`,container=`openclaw`,resource=`cpu`})'') ''limit'' ''C''] (gp 8 12 0 6),
     timeseriesPanel 27 ''CPU Throttling''
       [target (pq ''sum(rate(container_cpu_cfs_throttled_seconds_total{namespace=`$namespace`,pod=~`$instance-.*`,container=`openclaw`}[5m]))'') ''throttled'' ''A''] (gp 8 12 12 6),
     rowPanel 202 ''Memory'' 14 False [],
     timeseriesPanel 28 ''Working Set vs Limit''
       [target (pq ''sum(container_memory_working_set_bytes{namespace=`$namespace`,pod=~`$instance-.*`,container=`openclaw`})'') ''working set'' ''A'',
        target (pq ''sum(kube_pod_container_resource_limits{namespace=`$namespace`,pod=~`$instance-.*`,container=`openclaw`,resource=`memory`})'') ''limit'' ''B''] (gp 8 12 0 15),
     timeseriesPanel 29 ''OOM Kills and Restarts''
       [target (pq ''sum(kube_pod_container_status_restarts_total{namespace=`$namespace`,pod=~`$instance-.*`,container=`openclaw`})'') ''restarts'' ''A'',
        target (pq ''sum(kube_pod_container_status_last_terminated_reason{namespace=`$namespace`,pod=~`$instance-.*`,container=`openclaw`,reason=`OOMKilled`})'') ''OOM killed'' ''B''] (gp 8 12 12 15),
     rowPanel 203 ''Network'' 23 True
       [timeseriesPanel 30 ''Network I/O''
          [target (pq ''sum(rate(container_network_receive_bytes_total{namespace=`$namespace`,pod=~`$instance-.*`}[5m]))'') ''receive'' ''A'',
           target (pq ''sum(rate(container_network_transmit_bytes_total{namespace=`$namespace`,pod=~`$instance-.*`}[5m]))'') ''transmit'' ''B''] (gp 8 24 0 24)],
     rowPanel 204 ''Storage'' 32 True
       [timeseriesPanel 31 ''PVC Usage''
          [target (pq ''kubelet_volume_stats_used_bytes{namespace=`$namespace`,persistentvolumeclaim=~`data-$instance.*`}'') ''used'' ''A'',
           target (pq ''kubelet_volume_stats_capacity_bytes{namespace=`$namespace`,persistentvolumeclaim=~`data-$instance.*`}'') ''capacity'' ''B''] (gp 8 12 0 33),
        gaugePanel 32 ''PVC Usage %'' (pq ''kubelet_volume_stats_used_bytes{namespace=`$namespace`,persistentvolumeclaim=~`data-$instance.*`} / kubelet_volume_stats_capacity_bytes{namespace=`$namespace`,persistentvolumeclaim=~`data-$instance.*`}'') (gp 8 12 12 33)],
     rowPanel 205 ''Pod Health'' 41 True
       [timeseriesPanel 33 ''Container Restarts''
          [target (pq ''sum(kube_pod_container_status_restarts_total{namespace=`$namespace`,pod=~`$instance-.*`}) by (container)'') ''{{ container }}'' ''A''] (gp 8 12 0 42),
        timeseriesPanel 34 ''Instance Reconciliation''
          [target (pq ''sum(rate(openclaw_reconcile_total{namespace=`$namespace`,instance=`$instance`}[5m])) by (result)'') ''{{ result }}'' ''A''] (gp 8 12 12 42)]]"

text \<open>What the two dashboards have in common.\<close>

definition dashboardOf :: "string \<Rightarrow> string \<Rightarrow> string \<Rightarrow> bool \<Rightarrow> grafanaPanel list \<Rightarrow> grafanaDashboard" where
  "dashboardOf tag title uid multi panels =
     \<lparr>db_Annotations = [], db_Editable = True, db_GraphTooltip = 1, db_Panels = panels, db_SchemaVersion = 39,
      db_Tags = [''openclaw'', tag], db_Templating = [datasourceVar, namespaceVar multi, instanceVar multi],
      db_Time = (''now-1h'', ''now''), db_Refresh = ''30s'', db_Title = title, db_UID = uid\<rparr>"

definition operatorDashboard :: grafanaDashboard where
  "operatorDashboard = dashboardOf ''operator'' ''OpenClaw Operator'' ''openclaw-operator-overview'' True buildOperatorPanels"

definition instanceDashboard :: grafanaDashboard where
  "instanceDashboard = dashboardOf ''instance'' ''OpenClaw Instance'' ''openclaw-instance-detail'' False buildInstancePanels"

definition buildOperatorDashboard :: bytes where
  "buildOperatorDashboard = mustMarshalJSON operatorDashboard"

definition buildInstanceDashboard :: bytes where
  "buildInstanceDashboard = mustMarshalJSON instanceDashboard"

section \<open>The ConfigMaps\<close>

definition GrafanaDashboardOperatorName :: "OpenClawInstance \<Rightarrow> string" where
  "GrafanaDashboardOperatorName inst = oname inst @ ''-dashboard-operator''"

definition GrafanaDashboardInstanceName :: "OpenClawInstance \<Rightarrow> string" where
  "GrafanaDashboardInstanceName inst = oname inst @ ''-dashboard-instance''"

definition defaultGrafanaFolder :: string where "defaultGrafanaFolder = ''OpenClaw''"

record DashboardConfigMap =
  dcm_Name :: string
  dcm_Namespace :: string
  dcm_Labels :: gomap
  dcm_Annotations :: gomap
  dcm_Data :: "(string \<times> bytes) list"

definition buildDashboardConfigMap :: "OpenClawInstance \<Rightarrow> string \<Rightarrow> string \<Rightarrow> bytes \<Rightarrow> DashboardConfigMap" where
  "buildDashboardConfigMap inst name dataKey dashboardJSON =
     (let labels = AList.update ''grafana_dashboard'' ''1'' (Labels inst);
          (folder, labels) =
            (case met_GrafanaDashboard (metricsOf inst) of
               None \<Rightarrow> (defaultGrafanaFolder, labels)
             | Some g \<Rightarrow> (strOr (gd_Folder g) defaultGrafanaFolder, overlay labels (gd_Labels g)))
      in \<lparr>dcm_Name = name, dcm_Namespace = onamespace inst, dcm_Labels = labels,
          dcm_Annotations = [(''grafana_folder'', folder)], dcm_Data = [(dataKey, dashboardJSON)]\<rparr>)"

definition BuildGrafanaDashboardOperator :: "OpenClawInstance \<Rightarrow> DashboardConfigMap" where
  "BuildGrafanaDashboardOperator inst =
     buildDashboardConfigMap inst (GrafanaDashboardOperatorName inst) ''openclaw-operator.json'' buildOperatorDashboard"

definition BuildGrafanaDashboardInstance :: "OpenClawInstance \<Rightarrow> DashboardConfigMap" where
  "BuildGrafanaDashboardInstance inst =
     buildDashboardConfigMap inst (GrafanaDashboardInstanceName inst) ''openclaw-instance.json'' buildInstanceDashboard"

section \<open>What the dashboards show\<close>

text \<open>Every panel, those inside the rows included, and the queries.\<close>

fun allPanels :: "grafanaPanel list \<Rightarrow> grafanaPanel list" where
  "allPanels [] = []"
| "allPanels (p # ps) = p # pn_Panels p @ allPanels ps"

definition queries :: "grafanaDashboard \<Rightarrow> string list" where
  "queries d = concat (map (\<lambda>p. map tg_Expr (pn_Targets p)) (allPanels (db_Panels d)))"

text \<open>The identifiers of a query: the maximal runs of letters, digits, underscores and colons.\<close>

definition identChar :: "char \<Rightarrow> bool" where
  "identChar c \<longleftrightarrow> (let n = of_char c :: int
     in 97 \<le> n \<and> n \<le> 122 \<or> n = 95 \<or> n = 58 \<or> 65 \<le> n \<and> n \<le> 90 \<or> 48 \<le> n \<and> n \<le> 57)"

text \<open>The same by the bits of the character, for evaluation.\<close>

lemma identChar_bits [code]:
  "identChar (Char b0 b1 b2 b3 b4 b5 b6 b7) \<longleftrightarrow> \<not> b7 \<and>
     (b6 \<and> (b0 \<or> b1 \<or> b2 \<or> b3 \<or> b4) \<and> \<not> (b4 \<and> b3 \<and> (b2 \<or> b1 \<and> b0))
      \<or> \<not> b6 \<and> b5 \<and> b4 \<and> (\<not> b3 \<or> \<not> b2 \<and> (\<not> b1 \<or> \<not> b0))
      \<or> b6 \<and> \<not> b5 \<and> b4 \<and> b3 \<and> b2 \<and> b1 \<and> b0)"
  by (cases b0; cases b1; cases b2; cases b3; cases b4; cases b5; cases b6; cases b7; simp add: identChar_def)

fun identifiers :: "string \<Rightarrow> string \<Rightarrow> string list" where
  "identifiers acc [] = (if acc = [] then [] else [rev acc])"
| "identifiers acc (c # cs) =
     (if identChar c then identifiers (c # acc) cs
      else (if acc = [] then [] else [rev acc]) @ identifiers [] cs)"

definition operatorMetrics :: "grafanaDashboard \<Rightarrow> string list" where
  "operatorMetrics d = filter (\<lambda>i. take 9 i = ''openclaw_'') (concat (map (identifiers []) (queries d)))"

text \<open>The names under which a metric is scraped.\<close>

definition series :: "metric \<Rightarrow> string list" where
  "series m = (if mtr_Kind m = HistogramVec then map (\<lambda>s. mtr_Name m @ s) [''_bucket'', ''_sum'', ''_count''] else [mtr_Name m])"

definition overlaps :: "grafanaGridPos \<Rightarrow> grafanaGridPos \<Rightarrow> bool" where
  "overlaps a b \<longleftrightarrow> gp_X a < gp_X b + gp_W b \<and> gp_X b < gp_X a + gp_W a \<and> gp_Y a < gp_Y b + gp_H b \<and> gp_Y b < gp_Y a + gp_H a"

fun apart :: "grafanaGridPos list \<Rightarrow> bool" where
  "apart [] = True"
| "apart (g # gs) = (list_all (\<lambda>h. \<not> overlaps g h) gs \<and> apart gs)"

definition wellformedDashboard :: "grafanaDashboard \<Rightarrow> bool" where
  "wellformedDashboard d \<longleftrightarrow>
     (let ps = allPanels (db_Panels d); gs = map pn_GridPos ps
      in distinct (map pn_ID ps) \<and> list_all (\<lambda>g. 0 \<le> gp_X g \<and> gp_X g + gp_W g \<le> 24) gs \<and> apart gs
         \<and> list_all (\<lambda>i. i \<in> set (concat (map series registeredMetrics))) (operatorMetrics d))"

text \<open>
  In both dashboards the panels have distinct identifiers, fit into the grid of 24 columns and do not
  overlap, and every metric of the operator that a query names is one the operator registers.
\<close>

theorem dashboards_wellformed: "wellformedDashboard operatorDashboard" "wellformedDashboard instanceDashboard"
  by (code_simp, code_simp)

text \<open>
  The panels on the volume select claims by the pattern \<^verbatim>\<open>data-$instance.*\<close>, which names
  the claims of an instance under auto-scaling. The claim of any other instance is called
  \<^verbatim>\<open>$instance-data\<close> and does not match; the alert on the volume selects it by name.
\<close>

theorem claim_not_on_dashboard:
  "strContains (pvcClaimMatcher zero_OpenClawInstance) (PVCName zero_OpenClawInstance)"
  "oname inst = ''claw'' \<Longrightarrow> \<not> hasPrefix (PVCName inst) (''data-'' @ oname inst)"
  "strContains (tg_Expr (hd (pn_Targets (buildInstancePanels ! 5)))) (pq ''persistentvolumeclaim=~`data-$instance.*`'')"
  by (code_simp, simp add: PVCName_def hasPrefix_def, code_simp)

end
