(* ===== verification/ConfigMap.thy ===== *)
theory ConfigMap
  imports Network Workspace
begin

text \<open>
  The published configuration (internal/resources/configmap.go, and the ConfigMap parts of
  mesh_tailscale.go and mesh_netbird.go).

  Each \<^verbatim>\<open>enrichConfigWith...\<close> function decodes the bytes, adds operator settings and encodes the
  result; its error is nil on every path, so the model returns the bytes alone, or \<open>Panic\<close> for
  the assignment into a nil map that the decoded document \<^verbatim>\<open>null\<close> gives. The locale
  \<open>config_stage\<close> states what the pipeline relies on: on an object the function acts as a pure
  map update that keeps the user's leaves, on text that is not an object it does nothing.
\<close>

definition NginxConfigKey :: string where "NginxConfigKey = ''nginx.conf''"
definition TailscaleServeConfigKey :: string where "TailscaleServeConfigKey = ''tailscale-serve.json''"
definition TailscaleModeServe :: string where "TailscaleModeServe = ''serve''"
definition TailscaleModeFunnel :: string where "TailscaleModeFunnel = ''funnel''"
definition GatewayBindLoopback :: string where "GatewayBindLoopback = ''loopback''"
definition GatewayBindAllInterfaces :: string where "GatewayBindAllInterfaces = ''0.0.0.0''"
definition GatewayModeLocal :: string where "GatewayModeLocal = ''local''"
definition OTelCollectorConfigKey :: string where "OTelCollectorConfigKey = ''otel-collector.yaml''"

section \<open>The enrichment functions\<close>

text \<open>Writing one key of the decoded document and encoding it again.\<close>

definition setMarshal :: "string \<Rightarrow> obj \<Rightarrow> obj option \<Rightarrow> bytes outcome" where
  "setMarshal k v config = (case mapSet k (JObj v) config of Panic \<Rightarrow> Panic | Ret m \<Rightarrow> Ret (Doc (JObj m)))"

lemma setMarshal_simps [simp]:
  "setMarshal k v None = Panic" "setMarshal k v (Some m) = Ret (Doc (JObj (AList.update k (JObj v) m)))"
  by (simp_all add: setMarshal_def mapSet_def)

definition hasKey :: "obj \<Rightarrow> string \<Rightarrow> bool" where
  "hasKey m k = (map_of m k \<noteq> None)"

text \<open>\<^verbatim>\<open>if _, ok := m[k]; !ok { m[k] = v }\<close>\<close>

definition setDefault :: "string \<Rightarrow> json \<Rightarrow> obj \<Rightarrow> obj" where
  "setDefault k v m = (if hasKey m k then m else AList.update k v m)"

definition enrichConfigWithGatewayMode :: "bytes \<Rightarrow> bytes outcome" where
  "enrichConfigWithGatewayMode configJSON =
     (case unmarshalMap configJSON of
        None \<Rightarrow> Ret configJSON
      | Some config \<Rightarrow>
          let gw = subMap config ''gateway''
          in if hasKey gw ''mode'' then Ret configJSON
             else setMarshal ''gateway'' (AList.update ''mode'' (JStr GatewayModeLocal) gw) config)"

definition enrichConfigWithOTelMetrics :: "bytes \<Rightarrow> bytes outcome" where
  "enrichConfigWithOTelMetrics configJSON =
     (case unmarshalMap configJSON of
        None \<Rightarrow> Ret configJSON
      | Some config \<Rightarrow>
          let diag = subMap config ''diagnostics''
          in case (asMap (map_of diag ''otel''), map_of diag ''otel'') of
               (None, Some _) \<Rightarrow> Ret configJSON
             | (otelMap, _) \<Rightarrow>
                 let otel = derefOr [] otelMap
                 in if map_of otel ''enabled'' = Some (JBool False) then Ret configJSON
                    else let otel = setDefault ''enabled'' (JBool True) otel;
                             otel = setDefault ''metrics'' (JBool True) otel;
                             otel = setDefault ''endpoint'' (JStr (''http://localhost:'' @ intStr OTelHTTPReceiverPort)) otel
                         in setMarshal ''diagnostics'' (AList.update ''otel'' (JObj otel) diag) config)"

definition enrichConfigWithGatewayAuth :: "string \<Rightarrow> bytes \<Rightarrow> bytes outcome" where
  "enrichConfigWithGatewayAuth token configJSON =
     (case unmarshalMap configJSON of
        None \<Rightarrow> Ret configJSON
      | Some config \<Rightarrow>
          let gw = subMap config ''gateway'';
              auth = subMap (Some gw) ''auth''
          in if (case asStr (map_of auth ''token'') of Some existingToken \<Rightarrow> existingToken \<noteq> '''' | None \<Rightarrow> False)
             then Ret configJSON
             else if asStr (map_of auth ''mode'') = Some ''trusted-proxy'' then Ret configJSON
             else let auth = setDefault ''mode'' (JStr ''token'') auth;
                      auth = AList.update ''token'' (JStr token) auth
                  in setMarshal ''gateway'' (AList.update ''auth'' (JObj auth) gw) config)"

definition IsGatewayAuthTrustedProxy :: "bytes \<Rightarrow> bool" where
  "IsGatewayAuthTrustedProxy configJSON =
     (case unmarshalMap configJSON of
        None \<Rightarrow> False
      | Some config \<Rightarrow>
          (case asMap (mget config ''gateway'') of
             None \<Rightarrow> False
           | Some gw \<Rightarrow>
               (case asMap (map_of gw ''auth'') of
                  None \<Rightarrow> False
                | Some auth \<Rightarrow> asStr (map_of auth ''mode'') = Some ''trusted-proxy'')))"

definition enrichConfigWithTailscale :: "OpenClawInstance \<Rightarrow> bytes \<Rightarrow> bytes outcome" where
  "enrichConfigWithTailscale inst configJSON =
     (if \<not> ts_AuthSSO (spec_Tailscale (oci_Spec inst)) then Ret configJSON
      else case unmarshalMap configJSON of
             None \<Rightarrow> Ret configJSON
           | Some config \<Rightarrow>
               let gw = subMap config ''gateway'';
                   auth = setDefault ''allowTailscale'' (JBool True) (subMap (Some gw) ''auth'')
               in setMarshal ''gateway'' (AList.update ''auth'' (JObj auth) gw) config)"

definition cdpURL :: json where "cdpURL = JStr ''${OPENCLAW_CHROMIUM_CDP}''"

definition addProfile :: "string \<Rightarrow> obj \<Rightarrow> obj" where
  "addProfile profileName profiles =
     (let profile = subMap (Some profiles) profileName;
          profile = (if hasKey profile ''cdpPort'' then profile else setDefault ''cdpUrl'' cdpURL profile)
      in AList.update profileName (JObj profile) profiles)"

definition enrichConfigWithBrowser :: "bytes \<Rightarrow> bytes outcome" where
  "enrichConfigWithBrowser configJSON =
     (case unmarshalMap configJSON of
        None \<Rightarrow> Ret configJSON
      | Some config \<Rightarrow>
          let browser = subMap config ''browser'';
              browser = setDefault ''defaultProfile'' (JStr ''default'') browser;
              browser = setDefault ''attachOnly'' (JBool True) browser;
              profiles = fold addProfile [''default'', ''chrome''] (subMap (Some browser) ''profiles'')
          in setMarshal ''browser'' (AList.update ''profiles'' (JObj profiles) browser) config)"

definition defaultBind :: "OpenClawInstance \<Rightarrow> string" where
  "defaultBind inst = (if IsGatewayProxyEnabled inst then GatewayBindLoopback else GatewayBindAllInterfaces)"

definition enrichConfigWithGatewayBind :: "OpenClawInstance \<Rightarrow> bytes \<Rightarrow> bytes outcome" where
  "enrichConfigWithGatewayBind inst configJSON =
     (case unmarshalMap configJSON of
        None \<Rightarrow> Ret configJSON
      | Some config \<Rightarrow>
          let gw = subMap config ''gateway''
          in if hasKey gw ''bind'' then Ret configJSON
             else setMarshal ''gateway'' (AList.update ''bind'' (JStr (defaultBind inst)) gw) config)"

definition rawOrEmpty :: "OpenClawInstance \<Rightarrow> bytes" where
  "rawOrEmpty inst =
     (case cfg_Raw (spec_Config (oci_Spec inst)) of
        None \<Rightarrow> Doc (JObj [])
      | Some raw \<Rightarrow> if bytesEmpty raw then Doc (JObj []) else raw)"

definition HasGatewayBindConflict :: "OpenClawInstance \<Rightarrow> bool" where
  "HasGatewayBindConflict inst =
     (if IsGatewayProxyEnabled inst then False
      else case unmarshalMap (rawOrEmpty inst) of
             None \<Rightarrow> False
           | Some config \<Rightarrow>
               (case asMap (mget config ''gateway'') of
                  None \<Rightarrow> False
                | Some gw \<Rightarrow>
                    (case asStr (map_of gw ''bind'') of
                       None \<Rightarrow> False
                     | Some bindStr \<Rightarrow> bindStr = GatewayBindLoopback \<or> bindStr = ''127.0.0.1'')))"

definition loopbackCIDR :: string where "loopbackCIDR = ''127.0.0.0/8''"

definition enrichConfigWithTrustedProxies :: "bytes \<Rightarrow> bytes outcome" where
  "enrichConfigWithTrustedProxies configJSON =
     (case unmarshalMap configJSON of
        None \<Rightarrow> Ret configJSON
      | Some config \<Rightarrow>
          let gw = subMap config ''gateway'';
              proxies = derefOr [] (asArr (map_of gw ''trustedProxies''))
          in if list_ex (\<lambda>p. p = JStr loopbackCIDR) proxies then Ret configJSON
             else setMarshal ''gateway''
                    (AList.update ''trustedProxies'' (JArr (proxies @ [JStr loopbackCIDR])) gw) config)"

text \<open>
  \<^verbatim>\<open>add\<close> of deriveControlUIOrigins appends an origin that has not been seen; the set \<^verbatim>\<open>seen\<close>
  holds exactly the origins of the list.
\<close>

definition addOrigin :: "string \<Rightarrow> string list \<Rightarrow> string list" where
  "addOrigin origin origins = (if origin \<in> set origins then origins else origins @ [origin])"

definition ingressOrigin :: "string set \<Rightarrow> string \<Rightarrow> string" where
  "ingressOrigin tlsHosts host = (if host \<in> tlsHosts then ''https'' else ''http'') @ ''://'' @ host"

definition tlsHosts :: "OpenClawInstance \<Rightarrow> string list" where
  "tlsHosts inst = concat (map itls_Hosts (ing_TLS (net_Ingress (spec_Networking (oci_Spec inst)))))"

definition deriveControlUIOrigins :: "OpenClawInstance \<Rightarrow> string list" where
  "deriveControlUIOrigins inst =
     (let origins = addOrigin (''http://127.0.0.1:'' @ intStr GatewayPort)
                      (addOrigin (''http://localhost:'' @ intStr GatewayPort) []);
          origins = fold (\<lambda>ih origins. if ih_Host ih = '''' then origins
                                       else addOrigin (ingressOrigin (set (tlsHosts inst)) (ih_Host ih)) origins)
                      (ing_Hosts (net_Ingress (spec_Networking (oci_Spec inst)))) origins;
          origins = fold (\<lambda>origin origins. if origin = '''' then origins else addOrigin origin origins)
                      (gw_ControlUIOrigins (spec_Gateway (oci_Spec inst))) origins
      in sort origins)"

definition enrichConfigWithControlUIOrigins :: "OpenClawInstance \<Rightarrow> bytes \<Rightarrow> bytes outcome" where
  "enrichConfigWithControlUIOrigins inst configJSON =
     (case unmarshalMap configJSON of
        None \<Rightarrow> Ret configJSON
      | Some config \<Rightarrow>
          let gw = subMap config ''gateway'';
              controlUI = subMap (Some gw) ''controlUi''
          in if hasKey controlUI ''allowedOrigins'' then Ret configJSON
             else let origins = deriveControlUIOrigins inst
                  in if origins = [] then Ret configJSON
                     else let controlUI = AList.update ''allowedOrigins'' (JArr (map JStr origins)) controlUI
                          in setMarshal ''gateway'' (AList.update ''controlUi'' (JObj controlUI) gw) config)"

text \<open>The entries are a Go map, so each name occurs once and the order of the loop is immaterial.\<close>

definition enrichConfigWithSkillPacks :: "obj \<Rightarrow> bytes \<Rightarrow> bytes outcome" where
  "enrichConfigWithSkillPacks skillEntries configJSON =
     (case unmarshalMap configJSON of
        None \<Rightarrow> Ret configJSON
      | Some config \<Rightarrow>
          let skills = subMap config ''skills'';
              entries = fold (\<lambda>(name, value). setDefault name value) skillEntries (subMap (Some skills) ''entries'')
          in setMarshal ''skills'' (AList.update ''entries'' (JObj entries) skills) config)"

fun EnrichConfig :: "MeshProvider \<Rightarrow> OpenClawInstance \<Rightarrow> bytes \<Rightarrow> bytes outcome" where
  "EnrichConfig tailscaleProvider inst configJSON = enrichConfigWithTailscale inst configJSON"
| "EnrichConfig netbirdProvider inst configJSON = Ret configJSON"

section \<open>The other keys of the ConfigMap\<close>

definition textLines :: "string list \<Rightarrow> string" where
  "textLines ls = concat (map (\<lambda>l. l @ [CHR 0x0A]) ls)"

definition otelCollectorConfig :: "OpenClawInstance \<Rightarrow> string" where
  "otelCollectorConfig inst = textLines
     [''receivers:'', ''  otlp:'', ''    protocols:'', ''      http:'',
      ''        endpoint: 0.0.0.0:'' @ intStr OTelHTTPReceiverPort, '''',
      ''exporters:'', ''  prometheus:'', ''    endpoint: 0.0.0.0:'' @ intStr (MetricsPort inst),
      ''    metric_expiration: 8760h'', '''',
      ''service:'', ''  pipelines:'', ''    metrics:'', ''      receivers: [otlp]'', ''      exporters: [prometheus]'']"

definition nginxServer :: "int \<Rightarrow> int \<Rightarrow> string list" where
  "nginxServer listen target =
     [''    server {'', ''        listen 0.0.0.0:'' @ intStr listen @ '';'',
      ''        proxy_pass 127.0.0.1:'' @ intStr target @ '';'', ''    }'']"

definition nginxStreamConfig :: string where
  "nginxStreamConfig = textLines
     ([''worker_processes 1;'', ''pid /tmp/nginx.pid;'', ''error_log /dev/stderr warn;'', '''',
       ''events {'', ''    worker_connections 128;'', ''}'', '''', ''stream {''] @
      nginxServer GatewayProxyPort GatewayPort @ nginxServer CanvasProxyPort CanvasPort @ [''}''])"

definition BuildTailscaleServeConfig :: "OpenClawInstance \<Rightarrow> bytes" where
  "BuildTailscaleServeConfig inst =
     (let proxy = ''http://127.0.0.1:'' @ intStr GatewayPort;
          mode = strOr (ts_Mode (spec_Tailscale (oci_Spec inst))) TailscaleModeServe
      in Doc (JObj
           ([(''TCP'', JObj [(''443'', JObj [(''HTTPS'', JBool True)])]),
             (''Web'', JObj [(''${TS_CERT_DOMAIN}:443'',
                JObj [(''Handlers'', JObj [(''/'', JObj [(''Proxy'', JStr proxy)])])])])] @
            (if mode = TailscaleModeFunnel
             then [(''AllowFunnel'', JObj [(''${TS_CERT_DOMAIN}:443'', JBool True)])] else []))))"

fun ConfigMapData :: "MeshProvider \<Rightarrow> OpenClawInstance \<Rightarrow> (string \<times> bytes) list" where
  "ConfigMapData tailscaleProvider inst = [(TailscaleServeConfigKey, BuildTailscaleServeConfig inst)]"
| "ConfigMapData netbirdProvider inst = []"

section \<open>The pipeline\<close>

text \<open>The ConfigMap of the configuration; its values are the byte strings of the keys.\<close>

record PublishedConfigMap =
  pcm_Name :: string
  pcm_Namespace :: string
  pcm_Labels :: gomap
  pcm_Data :: "(string \<times> bytes) list"

definition andThen :: "(bytes \<Rightarrow> bytes outcome) \<Rightarrow> bytes outcome \<Rightarrow> bytes outcome" where
  "andThen f r = (case r of Panic \<Rightarrow> Panic | Ret b \<Rightarrow> f b)"

text \<open>The enrichment functions that apply to the instance, in the order in which they run.\<close>

definition enrichments ::
    "OpenClawInstance \<Rightarrow> string \<Rightarrow> ResolvedSkillPacks option \<Rightarrow> (bytes \<Rightarrow> bytes outcome) list" where
  "enrichments inst gatewayToken skillPacks =
     [enrichConfigWithGatewayMode] @
     (if IsMetricsEnabled inst then [enrichConfigWithOTelMetrics] else []) @
     (if gatewayToken \<noteq> '''' then [enrichConfigWithGatewayAuth gatewayToken] else []) @
     (case ActiveMeshProvider inst of Some mesh \<Rightarrow> [EnrichConfig mesh inst] | None \<Rightarrow> []) @
     (if ch_Enabled (spec_Chromium (oci_Spec inst)) then [enrichConfigWithBrowser] else []) @
     [enrichConfigWithGatewayBind inst, enrichConfigWithTrustedProxies, enrichConfigWithControlUIOrigins inst] @
     (let entries = derefOr [] (combinedSkillEntries skillPacks)
      in if entries \<noteq> [] then [enrichConfigWithSkillPacks entries] else [])"

definition enrichConfig ::
    "OpenClawInstance \<Rightarrow> string \<Rightarrow> ResolvedSkillPacks option \<Rightarrow> bytes \<Rightarrow> bytes outcome" where
  "enrichConfig inst gatewayToken skillPacks baseConfig =
     fold andThen (enrichments inst gatewayToken skillPacks)
       (Ret (if bytesEmpty baseConfig then Doc (JObj []) else baseConfig))"

text \<open>
  The last step prints a decodable document with indentation and leaves other text alone; both
  forms of a document are the same \<open>Doc\<close>.
\<close>

definition configMapData :: "OpenClawInstance \<Rightarrow> bytes \<Rightarrow> (string \<times> bytes) list" where
  "configMapData inst configContent =
     (let data = [(''openclaw.json'', configContent)];
          data = (if IsGatewayProxyEnabled inst then AList.update NginxConfigKey (Text nginxStreamConfig) data else data);
          data = (case ActiveMeshProvider inst of Some mesh \<Rightarrow> overlay data (ConfigMapData mesh inst) | None \<Rightarrow> data)
      in if IsMetricsEnabled inst then AList.update OTelCollectorConfigKey (Text (otelCollectorConfig inst)) data
         else data)"

definition BuildConfigMapFromBytes ::
    "OpenClawInstance \<Rightarrow> bytes \<Rightarrow> string \<Rightarrow> ResolvedSkillPacks option \<Rightarrow> PublishedConfigMap outcome" where
  "BuildConfigMapFromBytes inst baseConfig gatewayToken skillPacks =
     (case enrichConfig inst gatewayToken skillPacks baseConfig of
        Panic \<Rightarrow> Panic
      | Ret configContent \<Rightarrow>
          Ret \<lparr>pcm_Name = ConfigMapName inst, pcm_Namespace = onamespace inst, pcm_Labels = Labels inst,
               pcm_Data = configMapData inst configContent\<rparr>)"

definition BuildConfigMap ::
    "OpenClawInstance \<Rightarrow> string \<Rightarrow> ResolvedSkillPacks option \<Rightarrow> PublishedConfigMap outcome" where
  "BuildConfigMap inst gatewayToken skillPacks =
     BuildConfigMapFromBytes inst (rawOrEmpty inst) gatewayToken skillPacks"

section \<open>What an enrichment keeps\<close>

text \<open>
  \<open>carries P m m'\<close>: every leaf of \<open>m\<close> for which \<open>P\<close> asks so is found again in \<open>m'\<close>, with the
  same value. A leaf is a value that is not an object; arrays are leaves.
\<close>

definition carries :: "(string list \<Rightarrow> json \<Rightarrow> bool) \<Rightarrow> obj \<Rightarrow> obj \<Rightarrow> bool" where
  "carries P m m' \<longleftrightarrow>
     (\<forall>p v. P p v \<longrightarrow> \<not> isObj v \<longrightarrow> jlookup (JObj m) p = Some v \<longrightarrow> jlookup (JObj m') p = Some v)"

lemma carries_refl [simp]: "carries P m m"
  by (simp add: carries_def)

lemma carries_trans: "carries P m m' \<Longrightarrow> carries P m' m'' \<Longrightarrow> carries P m m''"
  by (simp add: carries_def)

lemma carries_set:
  assumes "\<And>p v. P (k # p) v \<Longrightarrow> \<not> isObj v \<Longrightarrow> jlookup (JObj m) (k # p) \<noteq> Some v"
  shows "carries P m (AList.update k w m)"
  unfolding carries_def
proof (intro allI impI)
  fix p v
  assume *: "P p v" "\<not> isObj v" "jlookup (JObj m) p = Some v"
  then show "jlookup (JObj (AList.update k w m)) p = Some v"
    using assms by (cases p) (auto simp: update_conv')
qed

lemma carries_new: "\<not> hasKey m k \<Longrightarrow> carries P m (AList.update k w m)"
  by (rule carries_set) (simp add: hasKey_def)

lemma carries_setDefault [simp]: "carries P m (setDefault k w m)"
  by (simp add: setDefault_def carries_new)

lemma map_of_setDefault [simp]:
  "map_of (setDefault k v m) k' = (if k' = k then Some (derefOr v (map_of m k)) else map_of m k')"
  by (cases "map_of m k") (auto simp: setDefault_def hasKey_def update_conv')

lemma jlookup_subMap: "jlookup (JObj m) (k # ks) = Some v \<Longrightarrow> ks \<noteq> [] \<Longrightarrow> jlookup (JObj (subMap (Some m) k)) ks = Some v"
  by (cases "map_of m k"; cases "the (map_of m k)") (auto simp: subMap_def jlookup_not_obj split: option.splits)

text \<open>Rewriting the map at a key, where a value that is no map is not to be kept.\<close>

definition within :: "string \<Rightarrow> (obj \<Rightarrow> obj) \<Rightarrow> obj \<Rightarrow> obj" where
  "within k f m = AList.update k (JObj (f (subMap (Some m) k))) m"

lemma carries_within:
  assumes "carries (\<lambda>p. P (k # p)) (subMap (Some m) k) (f (subMap (Some m) k))"
    and "\<And>v. P [k] v \<Longrightarrow> map_of m k = Some v \<Longrightarrow> isObj v"
  shows "carries P m (within k f m)"
  unfolding carries_def within_def
proof (intro allI impI)
  fix p v
  assume *: "P p v" "\<not> isObj v" "jlookup (JObj m) p = Some v"
  then obtain k' ks where p: "p = k' # ks" by (cases p) auto
  show "jlookup (JObj (AList.update k (JObj (f (subMap (Some m) k))) m)) p = Some v"
  proof (cases "k' = k")
    case True
    with * assms(2) p have "ks \<noteq> []" by (auto split: option.splits)
    with * True p have "jlookup (JObj (subMap (Some m) k)) ks = Some v" using jlookup_subMap by blast
    with * True p assms(1) show ?thesis by (simp add: carries_def update_conv')
  next
    case False
    with * p show ?thesis by (simp add: update_conv')
  qed
qed

lemma subMap_update [simp]:
  "subMap (Some (AList.update k (JObj g) m)) k' = (if k' = k then g else subMap (Some m) k')"
  by (simp add: subMap_def update_conv')

lemma subMap_within [simp]:
  "subMap (Some (within k f m)) k' = (if k' = k then f (subMap (Some m) k) else subMap (Some m) k')"
  by (simp add: within_def)

text \<open>
  The settings of the user that have to survive: everything but a value in the place of a map
  the operator needs, the list of trusted proxies (which is extended), and a gateway token
  that is not a non-empty string.
\<close>

definition operatorMaps :: "string list list" where
  "operatorMaps =
     [[''gateway''], [''gateway'', ''auth''], [''gateway'', ''controlUi''], [''diagnostics''], [''browser''],
      [''browser'', ''profiles''], [''browser'', ''profiles'', ''default''], [''browser'', ''profiles'', ''chrome''],
      [''skills''], [''skills'', ''entries'']]"

definition userSetting :: "string list \<Rightarrow> json \<Rightarrow> bool" where
  "userSetting p v \<longleftrightarrow>
     p \<notin> set operatorMaps \<and> take 2 p \<noteq> [''gateway'', ''trustedProxies''] \<and>
     (take 3 p = [''gateway'', ''auth'', ''token''] \<longrightarrow> length p = 3 \<and> asStr (Some v) \<notin> {None, Some ''''})"

section \<open>The contract of a stage\<close>

locale config_stage =
  fixes enrich :: "bytes \<Rightarrow> bytes outcome" and stage :: "obj \<Rightarrow> obj"
  assumes on_object: "enrich (Doc (JObj m)) = Ret (Doc (JObj (stage m)))"
    and on_text: "unmarshalMap b = None \<Longrightarrow> enrich b = Ret b"
    and keeps: "carries userSetting m (stage m)"
begin

lemma setting_survives:
  assumes "userSetting p v" "\<not> isObj v" "jlookup (JObj m) p = Some v"
  shows "\<exists>m'. enrich (Doc (JObj m)) = Ret (Doc (JObj m')) \<and> jlookup (JObj m') p = Some v"
  using assms keeps [of m] on_object [of m] by (auto simp: carries_def)

lemma andThen_object [simp]: "andThen enrich (Ret (Doc (JObj m))) = Ret (Doc (JObj (stage m)))"
  by (simp add: andThen_def on_object)

lemma andThen_text: "unmarshalMap b = None \<Longrightarrow> andThen enrich (Ret b) = Ret b"
  by (simp add: andThen_def on_text)

end

section \<open>The stages\<close>

text \<open>What each enrichment does to a decoded object.\<close>

abbreviation (input) gatewayOf :: "obj \<Rightarrow> obj" where "gatewayOf m \<equiv> subMap (Some m) ''gateway''"

definition modeStage :: "obj \<Rightarrow> obj" where
  "modeStage m = (if hasKey (gatewayOf m) ''mode'' then m
                  else within ''gateway'' (AList.update ''mode'' (JStr GatewayModeLocal)) m)"

definition otelDefaults :: "obj \<Rightarrow> obj" where
  "otelDefaults otel =
     setDefault ''endpoint'' (JStr (''http://localhost:'' @ intStr OTelHTTPReceiverPort))
       (setDefault ''metrics'' (JBool True) (setDefault ''enabled'' (JBool True) otel))"

definition otelStage :: "obj \<Rightarrow> obj" where
  "otelStage m =
     (let diag = subMap (Some m) ''diagnostics''
      in if hasKey diag ''otel'' \<and> asMap (map_of diag ''otel'') = None \<or>
            map_of (subMap (Some diag) ''otel'') ''enabled'' = Some (JBool False) then m
         else within ''diagnostics'' (within ''otel'' otelDefaults) m)"

definition userToken :: "obj \<Rightarrow> bool" where
  "userToken auth = (asStr (map_of auth ''token'') \<notin> {None, Some ''''})"

definition authStage :: "string \<Rightarrow> obj \<Rightarrow> obj" where
  "authStage token m =
     (let auth = subMap (Some (gatewayOf m)) ''auth''
      in if userToken auth \<or> asStr (map_of auth ''mode'') = Some ''trusted-proxy'' then m
         else within ''gateway'' (within ''auth'' (\<lambda>auth. AList.update ''token'' (JStr token) (setDefault ''mode'' (JStr ''token'') auth))) m)"

definition ssoStage :: "OpenClawInstance \<Rightarrow> obj \<Rightarrow> obj" where
  "ssoStage inst m =
     (if ts_AuthSSO (spec_Tailscale (oci_Spec inst))
      then within ''gateway'' (within ''auth'' (setDefault ''allowTailscale'' (JBool True))) m else m)"

fun meshStage :: "MeshProvider \<Rightarrow> OpenClawInstance \<Rightarrow> obj \<Rightarrow> obj" where
  "meshStage tailscaleProvider inst m = ssoStage inst m"
| "meshStage netbirdProvider inst m = m"

definition browserStage :: "obj \<Rightarrow> obj" where
  "browserStage m =
     within ''browser'' (\<lambda>b. within ''profiles'' (\<lambda>ps. addProfile ''chrome'' (addProfile ''default'' ps))
        (setDefault ''attachOnly'' (JBool True) (setDefault ''defaultProfile'' (JStr ''default'') b))) m"

definition bindStage :: "OpenClawInstance \<Rightarrow> obj \<Rightarrow> obj" where
  "bindStage inst m = (if hasKey (gatewayOf m) ''bind'' then m
                       else within ''gateway'' (AList.update ''bind'' (JStr (defaultBind inst))) m)"

definition withLoopback :: "json list \<Rightarrow> json list" where
  "withLoopback proxies = (if JStr loopbackCIDR \<in> set proxies then proxies else proxies @ [JStr loopbackCIDR])"

definition proxiesStage :: "obj \<Rightarrow> obj" where
  "proxiesStage m =
     (let proxies = derefOr [] (asArr (map_of (gatewayOf m) ''trustedProxies''))
      in if JStr loopbackCIDR \<in> set proxies then m
         else within ''gateway'' (AList.update ''trustedProxies'' (JArr (withLoopback proxies))) m)"

definition originsStage :: "OpenClawInstance \<Rightarrow> obj \<Rightarrow> obj" where
  "originsStage inst m =
     (if hasKey (subMap (Some (gatewayOf m)) ''controlUi'') ''allowedOrigins'' then m
      else within ''gateway'' (within ''controlUi''
             (AList.update ''allowedOrigins'' (JArr (map JStr (deriveControlUIOrigins inst))))) m)"

definition skillsStage :: "obj \<Rightarrow> obj \<Rightarrow> obj" where
  "skillsStage entries = within ''skills'' (within ''entries'' (fold (\<lambda>(name, value). setDefault name value) entries))"

lemmas stage_defs = modeStage_def otelStage_def otelDefaults_def authStage_def ssoStage_def browserStage_def bindStage_def
  proxiesStage_def originsStage_def skillsStage_def

lemma addOrigin_set [simp]: "set (addOrigin a xs) = insert a (set xs)"
  by (auto simp: addOrigin_def)

lemma addOrigin_distinct: "distinct xs \<Longrightarrow> distinct (addOrigin a xs)"
  by (simp add: addOrigin_def)

lemma fold_addOrigin:
  assumes "distinct xs"
  shows "distinct (fold (\<lambda>y xs. if q y then xs else addOrigin (f y) xs) ys xs) \<and>
    set (fold (\<lambda>y xs. if q y then xs else addOrigin (f y) xs) ys xs) = set xs \<union> f ` {y \<in> set ys. \<not> q y}"
  using assms by (induction ys arbitrary: xs) (auto simp: addOrigin_distinct)

text \<open>The derived origins: sorted, without duplicates, and exactly the three sources of the comment.\<close>

lemma deriveControlUIOrigins_spec:
  fixes inst
  defines "net \<equiv> net_Ingress (spec_Networking (oci_Spec inst))"
  shows "sorted (deriveControlUIOrigins inst) \<and> distinct (deriveControlUIOrigins inst) \<and>
    set (deriveControlUIOrigins inst) =
      {''http://localhost:'' @ intStr GatewayPort, ''http://127.0.0.1:'' @ intStr GatewayPort} \<union>
      ingressOrigin (\<Union>tls \<in> set (ing_TLS net). set (itls_Hosts tls)) ` (ih_Host ` set (ing_Hosts net) - {''''}) \<union>
      (set (gw_ControlUIOrigins (spec_Gateway (oci_Spec inst))) - {''''})"
proof -
  define two where "two = addOrigin (''http://127.0.0.1:'' @ intStr GatewayPort) (addOrigin (''http://localhost:'' @ intStr GatewayPort) [])"
  define ing where "ing = fold (\<lambda>ih xs. if ih_Host ih = '''' then xs else addOrigin (ingressOrigin (set (tlsHosts inst)) (ih_Host ih)) xs) (ing_Hosts net) two"
  define all where "all = fold (\<lambda>o' xs. if o' = '''' then xs else addOrigin o' xs) (gw_ControlUIOrigins (spec_Gateway (oci_Spec inst))) ing"
  have d: "deriveControlUIOrigins inst = sort all"
    unfolding deriveControlUIOrigins_def all_def ing_def two_def net_def Let_def by (rule refl)
  have two: "distinct two" "set two = {''http://localhost:'' @ intStr GatewayPort, ''http://127.0.0.1:'' @ intStr GatewayPort}"
    unfolding two_def by (rule addOrigin_distinct, rule addOrigin_distinct, rule distinct.simps(1) [THEN iffD2], rule TrueI)
      (simp only: addOrigin_set list.set insert_commute)
  note ing = fold_addOrigin [OF two(1), of "\<lambda>ih. ih_Host ih = ''''" "\<lambda>ih. ingressOrigin (set (tlsHosts inst)) (ih_Host ih)" "ing_Hosts net", folded ing_def]
  note all = fold_addOrigin [OF conjunct1 [OF ing], of "\<lambda>o'. o' = ''''" "\<lambda>o'. o'" "gw_ControlUIOrigins (spec_Gateway (oci_Spec inst))", folded all_def]
  have hosts: "set (tlsHosts inst) = (\<Union>tls \<in> set (ing_TLS net). set (itls_Hosts tls))"
    by (simp add: tlsHosts_def net_def)
  have "(\<lambda>ih. ingressOrigin (set (tlsHosts inst)) (ih_Host ih)) ` {y \<in> set (ing_Hosts net). ih_Host y \<noteq> ''''} =
      ingressOrigin (set (tlsHosts inst)) ` (ih_Host ` set (ing_Hosts net) - {''''})"
    by auto
  moreover have "(\<lambda>o'. o') ` {y \<in> set ys. y \<noteq> ''''} = set ys - {''''}" for ys :: "string list" by auto
  ultimately have "set all = set two \<union> ingressOrigin (set (tlsHosts inst)) ` (ih_Host ` set (ing_Hosts net) - {''''}) \<union>
      (set (gw_ControlUIOrigins (spec_Gateway (oci_Spec inst))) - {''''})"
    using ing all by simp
  then show ?thesis using all unfolding d hosts two(2) by simp
qed

lemma deriveControlUIOrigins_not_Nil [simp]: "deriveControlUIOrigins inst \<noteq> []"
proof
  assume "deriveControlUIOrigins inst = []"
  with deriveControlUIOrigins_spec [of inst] show False by (simp del: append_Cons)
qed

section \<open>Every enrichment is a stage\<close>

lemma carries_fold_setDefault: "carries P m (fold (\<lambda>(name, value). setDefault name value) entries m)"
  by (induction entries arbitrary: m) (auto intro: carries_trans [OF carries_setDefault])

lemma carries_addProfile:
  "(\<And>v. P [name] v \<Longrightarrow> isObj v) \<Longrightarrow> carries P ps (addProfile name ps)"
  using carries_within [of P name ps "\<lambda>p. if hasKey p ''cdpPort'' then p else setDefault ''cdpUrl'' cdpURL p"]
  by (simp add: addProfile_def within_def Let_def)

lemma carries_defaults:
  "carries P m m' \<Longrightarrow> carries P m (setDefault k v m')"
  by (rule carries_trans [OF _ carries_setDefault])

lemma userSetting_maps [simp]:
  "\<not> userSetting [''gateway''] v" "\<not> userSetting [''gateway'', ''auth''] v" "\<not> userSetting [''gateway'', ''controlUi''] v"
  "\<not> userSetting [''diagnostics''] v" "\<not> userSetting [''browser''] v" "\<not> userSetting [''browser'', ''profiles''] v"
  "\<not> userSetting [''browser'', ''profiles'', ''default''] v" "\<not> userSetting [''browser'', ''profiles'', ''chrome''] v"
  "\<not> userSetting [''skills''] v" "\<not> userSetting [''skills'', ''entries''] v"
  by (simp_all add: userSetting_def operatorMaps_def)

lemma userSetting_proxies [simp]: "\<not> userSetting (''gateway'' # ''trustedProxies'' # p) v"
  by (simp add: userSetting_def)

lemma userSetting_token:
  "userSetting (''gateway'' # ''auth'' # ''token'' # p) v \<longleftrightarrow> p = [] \<and> asStr (Some v) \<notin> {None, Some ''''}"
  by (auto simp: userSetting_def operatorMaps_def)

lemma modeStage_keeps: "carries userSetting m (modeStage m)"
  by (auto simp: modeStage_def intro!: carries_within carries_new)

lemma bindStage_keeps: "carries userSetting m (bindStage inst m)"
  by (auto simp: bindStage_def intro!: carries_within carries_new)

lemma originsStage_keeps: "carries userSetting m (originsStage inst m)"
  by (auto simp: originsStage_def intro!: carries_within carries_new)

lemma proxiesStage_keeps: "carries userSetting m (proxiesStage m)"
  by (auto simp: proxiesStage_def Let_def intro!: carries_within carries_set)

lemma ssoStage_keeps: "carries userSetting m (ssoStage inst m)"
  by (auto simp: ssoStage_def intro!: carries_within)

lemma skillsStage_keeps: "carries userSetting m (skillsStage entries m)"
  by (auto simp: skillsStage_def intro!: carries_within carries_fold_setDefault)

lemma browserStage_keeps: "carries userSetting m (browserStage m)"
  unfolding browserStage_def
  by (intro carries_within carries_trans [OF _ carries_within] carries_trans [OF carries_addProfile carries_addProfile]
      carries_defaults carries_refl) simp_all

lemma carries_otel:
  assumes "\<not> (hasKey diag ''otel'' \<and> asMap (map_of diag ''otel'') = None)"
  shows "carries P diag (within ''otel'' otelDefaults diag)"
proof (rule carries_within)
  show "isObj v" if "map_of diag ''otel'' = Some v" for v
    using that assms by (cases v) (simp_all add: hasKey_def)
qed (simp add: otelDefaults_def carries_defaults)

lemma otelStage_keeps: "carries userSetting m (otelStage m)"
  by (auto simp: otelStage_def Let_def intro!: carries_within carries_otel)

lemma carries_token:
  assumes "\<not> userToken auth"
  shows "carries (\<lambda>p. userSetting (''gateway'' # ''auth'' # p)) auth
           (AList.update ''token'' (JStr token) (setDefault ''mode'' (JStr ''token'') auth))"
proof (rule carries_trans [OF carries_setDefault], rule carries_set)
  fix p v
  assume "userSetting (''gateway'' # ''auth'' # ''token'' # p) v"
  then have p: "p = []" and v: "asStr (Some v) \<notin> {None, Some ''''}" by (simp_all add: userSetting_token)
  have "map_of auth ''token'' \<noteq> Some v" using assms v by (auto simp: userToken_def)
  then show "jlookup (JObj (setDefault ''mode'' (JStr ''token'') auth)) (''token'' # p) \<noteq> Some v"
    by (auto simp: p split: option.splits)
qed

lemma authStage_keeps: "carries userSetting m (authStage token m)"
  by (auto simp: authStage_def Let_def intro!: carries_within carries_token)

text \<open>The interpretations: the enrichment functions meet the contract, each with its stage.\<close>

lemmas enrich_defs = Let_def hasKey_def within_def

interpretation mode: config_stage enrichConfigWithGatewayMode modeStage
  by (unfold_locales; (rule modeStage_keeps)?) (auto simp: enrichConfigWithGatewayMode_def modeStage_def enrich_defs)

interpretation bind: config_stage "enrichConfigWithGatewayBind inst" "bindStage inst" for inst
  by (unfold_locales; (rule bindStage_keeps)?) (auto simp: enrichConfigWithGatewayBind_def bindStage_def enrich_defs)

interpretation sso: config_stage "enrichConfigWithTailscale inst" "ssoStage inst" for inst
  by (unfold_locales; (rule ssoStage_keeps)?) (auto simp: enrichConfigWithTailscale_def ssoStage_def enrich_defs)

interpretation browser: config_stage enrichConfigWithBrowser browserStage
  by (unfold_locales; (rule browserStage_keeps)?) (auto simp: enrichConfigWithBrowser_def browserStage_def enrich_defs)

interpretation skills: config_stage "enrichConfigWithSkillPacks entries" "skillsStage entries" for entries
  by (unfold_locales; (rule skillsStage_keeps)?) (auto simp: enrichConfigWithSkillPacks_def skillsStage_def enrich_defs)

interpretation proxies: config_stage enrichConfigWithTrustedProxies proxiesStage
  by (unfold_locales; (rule proxiesStage_keeps)?)
    (auto simp: enrichConfigWithTrustedProxies_def proxiesStage_def withLoopback_def list_ex_iff enrich_defs)

interpretation origins: config_stage "enrichConfigWithControlUIOrigins inst" "originsStage inst" for inst
  by (unfold_locales; (rule originsStage_keeps)?) (auto simp: enrichConfigWithControlUIOrigins_def originsStage_def enrich_defs)

interpretation auth: config_stage "enrichConfigWithGatewayAuth token" "authStage token" for token
  by (unfold_locales; (rule authStage_keeps)?)
    (auto simp: enrichConfigWithGatewayAuth_def authStage_def userToken_def enrich_defs split: option.splits)

interpretation otel: config_stage enrichConfigWithOTelMetrics otelStage
  by (unfold_locales; (rule otelStage_keeps)?)
    (auto simp: enrichConfigWithOTelMetrics_def otelStage_def otelDefaults_def enrich_defs subMap_def
      split: option.splits)

interpretation mesh: config_stage "EnrichConfig p inst" "meshStage p inst" for p inst
  by (cases p; unfold_locales) (simp_all add: sso.on_object sso.on_text ssoStage_keeps)

section \<open>The pipeline as a whole\<close>

definition onlyIf :: "bool \<Rightarrow> (obj \<Rightarrow> obj) \<Rightarrow> obj \<Rightarrow> obj" where
  "onlyIf c f m = (if c then f m else m)"

definition pipelineStage :: "OpenClawInstance \<Rightarrow> string \<Rightarrow> ResolvedSkillPacks option \<Rightarrow> obj \<Rightarrow> obj" where
  "pipelineStage inst token packs m =
     (let m = onlyIf (IsMetricsEnabled inst) otelStage (modeStage m);
          m = onlyIf (token \<noteq> '''') (authStage token) m;
          m = (case ActiveMeshProvider inst of Some p \<Rightarrow> meshStage p inst m | None \<Rightarrow> m);
          m = onlyIf (ch_Enabled (spec_Chromium (oci_Spec inst))) browserStage m;
          m = originsStage inst (proxiesStage (bindStage inst m));
          entries = derefOr [] (combinedSkillEntries packs)
      in onlyIf (entries \<noteq> []) (skillsStage entries) m)"

lemma carries_onlyIf: "carries P m m' \<Longrightarrow> (\<And>m. carries P m (f m)) \<Longrightarrow> carries P m (onlyIf c f m')"
  by (auto simp: onlyIf_def intro: carries_trans)

lemma carries_step: "(\<And>m. carries P m (f m)) \<Longrightarrow> carries P m m' \<Longrightarrow> carries P m (f m')"
  by (blast intro: carries_trans)

lemma pipelineStage_keeps: "carries userSetting m (pipelineStage inst token packs m)"
  unfolding pipelineStage_def Let_def
  by (intro carries_onlyIf carries_step [OF origins.keeps] carries_step [OF proxies.keeps] carries_step [OF bind.keeps]
      otel.keeps auth.keeps browser.keeps skills.keeps)
    (auto split: option.split intro!: carries_step [OF mesh.keeps] carries_onlyIf mode.keeps otel.keeps auth.keeps)

lemmas andThen_stage =
  mode.andThen_object otel.andThen_object auth.andThen_object mesh.andThen_object browser.andThen_object
  bind.andThen_object proxies.andThen_object origins.andThen_object skills.andThen_object

lemmas andThen_other =
  mode.andThen_text otel.andThen_text auth.andThen_text mesh.andThen_text browser.andThen_text
  bind.andThen_text proxies.andThen_text origins.andThen_text skills.andThen_text

interpretation pipeline: config_stage
    "\<lambda>b. fold andThen (enrichments inst token packs) (Ret b)" "pipelineStage inst token packs" for inst token packs
proof (unfold_locales; (rule pipelineStage_keeps)?)
  show "fold andThen (enrichments inst token packs) (Ret (Doc (JObj m))) = Ret (Doc (JObj (pipelineStage inst token packs m)))" for m
    by (simp add: enrichments_def pipelineStage_def onlyIf_def Let_def andThen_stage split: option.split)
  show "unmarshalMap b = None \<Longrightarrow> fold andThen (enrichments inst token packs) (Ret b) = Ret b" for b
    by (simp add: enrichments_def Let_def andThen_other split: option.split)
qed

lemma enrichConfig_object:
  "enrichConfig inst token packs (Doc (JObj m)) = Ret (Doc (JObj (pipelineStage inst token packs m)))"
  using pipeline.on_object by (simp add: enrichConfig_def bytesEmpty_def)

lemma enrichConfig_text:
  "unmarshalMap b = None \<Longrightarrow> \<not> bytesEmpty b \<Longrightarrow> enrichConfig inst token packs b = Ret b"
  using pipeline.on_text by (simp add: enrichConfig_def)

lemma andThen_Panic [simp]: "andThen f Panic = Panic" "fold andThen fs Panic = Panic"
  by (induction fs) (simp_all add: andThen_def)

text \<open>
  The document \<^verbatim>\<open>null\<close>, which an external ConfigMap can hold, decodes into a nil map without an
  error; the first enrichment then assigns into it.
\<close>

lemma null_config_panics: "BuildConfigMapFromBytes inst (Doc JNull) token packs = Panic"
proof -
  have "andThen enrichConfigWithGatewayMode (Ret (Doc JNull)) = Panic"
    by (simp add: andThen_def enrichConfigWithGatewayMode_def subMap_def hasKey_def)
  then show ?thesis
    by (simp add: BuildConfigMapFromBytes_def enrichConfig_def bytesEmpty_def enrichments_def)
qed

section \<open>The gateway section\<close>

lemma gateway_mode: "map_of (gatewayOf (modeStage m)) k =
    (if k = ''mode'' then Some (derefOr (JStr GatewayModeLocal) (map_of (gatewayOf m) ''mode'')) else map_of (gatewayOf m) k)"
  by (cases "map_of (gatewayOf m) ''mode''") (auto simp: modeStage_def hasKey_def update_conv')

lemma gateway_bind: "map_of (gatewayOf (bindStage inst m)) k =
    (if k = ''bind'' then Some (derefOr (JStr (defaultBind inst)) (map_of (gatewayOf m) ''bind'')) else map_of (gatewayOf m) k)"
  by (cases "map_of (gatewayOf m) ''bind''") (auto simp: bindStage_def hasKey_def update_conv')

lemma asArr_Some: "asArr j = Some xs \<longleftrightarrow> j = Some (JArr xs)"
  by (cases j rule: asArr.cases) auto

lemma gateway_proxies: "map_of (gatewayOf (proxiesStage m)) k =
    (if k = ''trustedProxies'' then Some (JArr (withLoopback (derefOr [] (asArr (map_of (gatewayOf m) ''trustedProxies'')))))
     else map_of (gatewayOf m) k)"
  by (cases "asArr (map_of (gatewayOf m) ''trustedProxies'')")
    (auto simp: proxiesStage_def withLoopback_def Let_def update_conv' asArr_Some)

lemma gateway_origins: "k \<noteq> ''controlUi'' \<Longrightarrow> map_of (gatewayOf (originsStage inst m)) k = map_of (gatewayOf m) k"
  by (simp add: originsStage_def within_def update_conv')

lemma gateway_auth: "k \<noteq> ''auth'' \<Longrightarrow> map_of (gatewayOf (authStage token m)) k = map_of (gatewayOf m) k"
  by (simp add: authStage_def within_def update_conv' Let_def)

lemma gateway_mesh: "k \<noteq> ''auth'' \<Longrightarrow> map_of (gatewayOf (meshStage p inst m)) k = map_of (gatewayOf m) k"
  by (cases p) (simp_all add: ssoStage_def within_def update_conv')

lemma gateway_others [simp]:
  "gatewayOf (otelStage m) = gatewayOf m" "gatewayOf (browserStage m) = gatewayOf m"
  "gatewayOf (skillsStage entries m) = gatewayOf m"
  by (simp_all add: otelStage_def browserStage_def skillsStage_def Let_def)

lemma controlUi_origins:
  "map_of (subMap (Some (gatewayOf (originsStage inst m))) ''controlUi'') ''allowedOrigins'' =
     Some (derefOr (JArr (map JStr (deriveControlUIOrigins inst)))
             (map_of (subMap (Some (gatewayOf m)) ''controlUi'') ''allowedOrigins''))"
  by (cases "map_of (subMap (Some (gatewayOf m)) ''controlUi'') ''allowedOrigins''")
    (auto simp: originsStage_def hasKey_def update_conv')

lemma subMap_cong: "map_of m k = map_of m' k \<Longrightarrow> subMap (Some m) k = subMap (Some m') k"
  by (simp add: subMap_def)

lemma jlookup_gateway: "jlookup (JObj m) (k # k' # ks) = jlookup (JObj (subMap (Some m) k)) (k' # ks)"
  by (cases "map_of m k"; cases "the (map_of m k)") (auto simp: subMap_def)

lemmas gateway_stage = gateway_mode gateway_bind gateway_proxies gateway_origins gateway_auth gateway_mesh

abbreviation (input) authOf :: "obj \<Rightarrow> obj" where "authOf m \<equiv> subMap (Some (gatewayOf m)) ''auth''"

lemma userToken_Str: "userToken auth \<Longrightarrow> \<exists>s. s \<noteq> '''' \<and> map_of auth ''token'' = Some (JStr s)"
  by (cases "map_of auth ''token''" rule: asStr.cases) (auto simp: userToken_def)

lemma auth_mesh: "map_of (authOf (meshStage p inst m)) ''token'' = map_of (authOf m) ''token''"
  by (cases p) (simp_all add: ssoStage_def)

lemma auth_token:
  "token \<noteq> '''' \<Longrightarrow> asStr (map_of (authOf m) ''mode'') \<noteq> Some ''trusted-proxy'' \<Longrightarrow> userToken (authOf (authStage token m))"
  by (auto simp: authStage_def Let_def userToken_def update_conv')

lemma auth_unchanged:
  "authOf (modeStage m) = authOf m" "authOf (bindStage inst m) = authOf m" "authOf (proxiesStage m) = authOf m"
  "authOf (originsStage inst m) = authOf m"
  by (intro subMap_cong, simp add: gateway_stage)+

lemma gateway_onlyIf [simp]:
  "gatewayOf (onlyIf c browserStage m) = gatewayOf m" "gatewayOf (onlyIf c (skillsStage entries) m) = gatewayOf m"
  "gatewayOf (onlyIf c otelStage m) = gatewayOf m"
  by (simp_all add: onlyIf_def)

lemma pipeline_token:
  assumes "token \<noteq> ''''" "asStr (map_of (authOf m) ''mode'') \<noteq> Some ''trusted-proxy''"
  shows "userToken (authOf (pipelineStage inst token packs m))"
proof -
  define n where "n = onlyIf (IsMetricsEnabled inst) otelStage (modeStage m)"
  have "userToken (authOf (authStage token n))"
    using assms by (intro auth_token) (simp_all add: n_def auth_unchanged)
  moreover have "map_of (authOf (pipelineStage inst token packs m)) ''token'' = map_of (authOf (authStage token n)) ''token''"
    using assms(1) unfolding pipelineStage_def Let_def n_def [symmetric]
    by (simp add: onlyIf_def [of True] auth_unchanged auth_mesh split: option.split)
  ultimately show ?thesis by (simp add: userToken_def)
qed

text \<open>A token the user gives in another form, such as a secret reference, is replaced by the operator's.\<close>

lemma token_reference_replaced:
  assumes "map_of (authOf m) ''token'' = Some (JObj r)" "asStr (map_of (authOf m) ''mode'') \<noteq> Some ''trusted-proxy''"
  shows "jlookup (JObj (authStage token m)) [''gateway'', ''auth'', ''token''] = Some (JStr token)"
  using assms by (simp add: authStage_def Let_def userToken_def within_def update_conv')

lemma pipeline_gateway:
  "k \<noteq> ''auth'' \<Longrightarrow> k \<noteq> ''controlUi'' \<Longrightarrow>
   map_of (gatewayOf (pipelineStage inst token packs m)) k =
     (if k = ''mode'' then Some (derefOr (JStr GatewayModeLocal) (map_of (gatewayOf m) ''mode''))
      else if k = ''bind'' then Some (derefOr (JStr (defaultBind inst)) (map_of (gatewayOf m) ''bind''))
      else if k = ''trustedProxies''
      then Some (JArr (withLoopback (derefOr [] (asArr (map_of (gatewayOf m) ''trustedProxies'')))))
      else map_of (gatewayOf m) k)"
  by (simp add: pipelineStage_def onlyIf_def Let_def gateway_stage split: option.split)

lemma controlUi_unchanged:
  "subMap (Some (gatewayOf (modeStage m))) ''controlUi'' = subMap (Some (gatewayOf m)) ''controlUi''"
  "subMap (Some (gatewayOf (bindStage inst m))) ''controlUi'' = subMap (Some (gatewayOf m)) ''controlUi''"
  "subMap (Some (gatewayOf (proxiesStage m))) ''controlUi'' = subMap (Some (gatewayOf m)) ''controlUi''"
  "subMap (Some (gatewayOf (authStage token m))) ''controlUi'' = subMap (Some (gatewayOf m)) ''controlUi''"
  "subMap (Some (gatewayOf (meshStage p inst m))) ''controlUi'' = subMap (Some (gatewayOf m)) ''controlUi''"
  by (intro subMap_cong, simp add: gateway_stage)+

lemma pipeline_origins:
  "map_of (subMap (Some (gatewayOf (pipelineStage inst token packs m))) ''controlUi'') ''allowedOrigins'' =
     Some (derefOr (JArr (map JStr (deriveControlUIOrigins inst)))
             (map_of (subMap (Some (gatewayOf m)) ''controlUi'') ''allowedOrigins''))"
  by (simp add: pipelineStage_def onlyIf_def Let_def controlUi_origins controlUi_unchanged split: option.split)

lemma withLoopback_spec: "JStr loopbackCIDR \<in> set (withLoopback ps)" "prefix ps (withLoopback ps)"
  by (simp_all add: withLoopback_def)

lemma configMapData_config: "map_of (configMapData inst b) ''openclaw.json'' = Some b"
  by (cases "ActiveMeshProvider inst"; cases "the (ActiveMeshProvider inst)")
    (simp_all add: configMapData_def Let_def update_conv' overlay_def NginxConfigKey_def TailscaleServeConfigKey_def
      OTelCollectorConfigKey_def)

lemma build_object:
  "\<exists>cm. BuildConfigMapFromBytes inst (Doc (JObj m)) token packs = Ret cm \<and>
     map_of (pcm_Data cm) ''openclaw.json'' = Some (Doc (JObj (pipelineStage inst token packs m)))"
  by (simp add: BuildConfigMapFromBytes_def enrichConfig_object configMapData_config)

lemma jlookup_one: "jlookup (JObj m) [k] = map_of m k"
  by (simp split: option.split)

text \<open>
  The conflict check agrees with what is published for an inline configuration: without the
  proxy, it holds exactly when the published gateway binds to the loopback interface.
\<close>

lemma bind_conflict_exact:
  assumes "rawOrEmpty inst = Doc (JObj m)" "\<not> IsGatewayProxyEnabled inst"
  shows "HasGatewayBindConflict inst \<longleftrightarrow>
    asStr (jlookup (JObj (pipelineStage inst token packs m)) [''gateway'', ''bind'']) \<in> {Some GatewayBindLoopback, Some ''127.0.0.1''}"
proof -
  have "HasGatewayBindConflict inst \<longleftrightarrow> asStr (map_of (gatewayOf m) ''bind'') \<in> {Some GatewayBindLoopback, Some ''127.0.0.1''}"
    using assms by (auto simp: HasGatewayBindConflict_def subMap_def split: option.splits)
  moreover have "defaultBind inst = ''0.0.0.0''" using assms by (simp add: defaultBind_def GatewayBindAllInterfaces_def)
  ultimately show ?thesis
    by (cases "map_of (gatewayOf m) ''bind''")
      (simp_all add: jlookup_gateway jlookup_one pipeline_gateway GatewayBindLoopback_def del: jlookup.simps)
qed

section \<open>Properties\<close>

text \<open>
  C28: What the user configured is what the gateway reads. Every value of the base configuration
  that is not itself a map is published unchanged under the same path, whatever the operator
  adds for metrics, tokens, the mesh, the browser, binding, origins and skill packs; the only
  exceptions are a value in the place of a map the operator writes into, the list of trusted
  proxies, and a gateway token that is not a non-empty string.
\<close>

theorem user_settings_survive:
  assumes "userSetting p v" "\<not> isObj v" "jlookup (JObj m) p = Some v"
  shows "\<exists>cm m'. BuildConfigMapFromBytes inst (Doc (JObj m)) token packs = Ret cm \<and>
    map_of (pcm_Data cm) ''openclaw.json'' = Some (Doc (JObj m')) \<and> jlookup (JObj m') p = Some v"
  using build_object [of inst m token packs] pipelineStage_keeps [of m inst token packs] assms by (auto simp: carries_def)

definition exampleConfig :: obj where
  "exampleConfig =
     [(''gateway'', JObj [(''bind'', JStr ''lan''), (''auth'', JObj [(''token'', JStr ''s3cret'')])]),
      (''browser'', JObj [(''profiles'', JObj [(''chrome'', JObj [(''cdpUrl'', JStr ''http://b:9222'')])])])]"

theorem user_settings_survive_witness:
  "userSetting [''browser'', ''profiles'', ''chrome'', ''cdpUrl''] (JStr ''http://b:9222'') \<and>
   (\<exists>cm m'. BuildConfigMapFromBytes zero_OpenClawInstance (Doc (JObj exampleConfig)) ''tok'' None = Ret cm \<and>
      map_of (pcm_Data cm) ''openclaw.json'' = Some (Doc (JObj m')) \<and>
      jlookup (JObj m') [''browser'', ''profiles'', ''chrome'', ''cdpUrl''] = Some (JStr ''http://b:9222''))"
proof -
  have u: "userSetting [''browser'', ''profiles'', ''chrome'', ''cdpUrl''] (JStr ''http://b:9222'')"
    by (simp add: userSetting_def operatorMaps_def)
  have "jlookup (JObj exampleConfig) [''browser'', ''profiles'', ''chrome'', ''cdpUrl''] = Some (JStr ''http://b:9222'')"
    by (simp add: exampleConfig_def)
  then show ?thesis using u user_settings_survive [OF u, of exampleConfig zero_OpenClawInstance "''tok''" None] by simp
qed

text \<open>
  C29: The configuration the operator publishes is one the gateway can start from. For every
  base object the build ends without a panic, and the document has a gateway mode (the user's,
  or local), a bind address (the user's, or loopback behind the proxy sidecar and all interfaces
  without it), the loopback network after the user's trusted proxies, the allowed origins
  of the Control UI (the user's, or the derived ones), and, when there is a gateway token, a
  non-empty token unless the user chose trusted-proxy authentication.
\<close>

theorem published_config_starts:
  "\<exists>cm m'. BuildConfigMapFromBytes inst (Doc (JObj m)) token packs = Ret cm \<and>
     map_of (pcm_Data cm) ''openclaw.json'' = Some (Doc (JObj m')) \<and>
     jlookup (JObj m') [''gateway'', ''mode''] =
       Some (derefOr (JStr GatewayModeLocal) (jlookup (JObj m) [''gateway'', ''mode''])) \<and>
     jlookup (JObj m') [''gateway'', ''bind''] =
       Some (derefOr (JStr (if IsGatewayProxyEnabled inst then GatewayBindLoopback else GatewayBindAllInterfaces))
               (jlookup (JObj m) [''gateway'', ''bind''])) \<and>
     (\<exists>ps. jlookup (JObj m') [''gateway'', ''trustedProxies''] = Some (JArr ps) \<and> JStr loopbackCIDR \<in> set ps \<and>
        prefix (derefOr [] (asArr (jlookup (JObj m) [''gateway'', ''trustedProxies'']))) ps) \<and>
     jlookup (JObj m') [''gateway'', ''controlUi'', ''allowedOrigins''] =
       Some (derefOr (JArr (map JStr (deriveControlUIOrigins inst)))
               (jlookup (JObj m) [''gateway'', ''controlUi'', ''allowedOrigins''])) \<and>
     (token = '''' \<or> asStr (jlookup (JObj m) [''gateway'', ''auth'', ''mode'']) = Some ''trusted-proxy'' \<or>
      (\<exists>s. s \<noteq> '''' \<and> jlookup (JObj m') [''gateway'', ''auth'', ''token''] = Some (JStr s)))"
proof -
  let ?m = "pipelineStage inst token packs m"
  have tok: "\<exists>s. s \<noteq> '''' \<and> map_of (authOf ?m) ''token'' = Some (JStr s)"
    if "token \<noteq> ''''" "asStr (map_of (authOf m) ''mode'') \<noteq> Some ''trusted-proxy''"
    by (rule userToken_Str [OF pipeline_token [OF that]])
  obtain cm where cm: "BuildConfigMapFromBytes inst (Doc (JObj m)) token packs = Ret cm"
    "map_of (pcm_Data cm) ''openclaw.json'' = Some (Doc (JObj ?m))" using build_object by blast
  show ?thesis
    by (rule exI [of _ cm], rule exI [of _ ?m])
      (use cm tok in \<open>simp add: jlookup_gateway jlookup_one pipeline_gateway pipeline_origins defaultBind_def withLoopback_spec
         del: jlookup.simps; blast\<close>)
qed

end
