(* ===== verification/Scripts.thy ===== *)
theory Scripts
  imports ConfigMap
begin

text \<open>
  The shell scripts of the pod (internal/resources/statefulset.go): the init script that copies the
  configuration and seeds the workspaces, the scripts that install skills and plugins, the
  postStart command and the readiness script. A script is its text; scripts of several lines are
  lists of lines. In the literals a backquote stands for the double quote and a tilde for the
  backslash: the Go literals are raw strings, which cannot hold a backquote, and none of them holds a
  tilde.
\<close>

section \<open>Text\<close>

definition sh :: "string \<Rightarrow> string" where
  "sh s = map (\<lambda>c. if c = CHR 0x60 then dquote else if c = CHR 0x7E then backslash else c) s"

definition joinLines :: "string list \<Rightarrow> string" where
  "joinLines ls = joinStr [CHR 0x0A] ls"

definition squote :: string where "squote = [CHR 0x27]"

text \<open>\<^verbatim>\<open>path.Dir\<close>: the text up to the last slash, cleaned; two dots cannot leave the root.\<close>

definition pathClean :: "string \<Rightarrow> string" where
  "pathClean p =
     (if hasPrefix p ''/''
      then ''/'' @ joinStr ''/'' (dropWhile (\<lambda>seg. seg = ''..'') (cleanSegs [] (splitByte (CHR ''/'') p)))
      else pathCleanRel p)"

definition pathDir :: "string \<Rightarrow> string" where
  "pathDir p = pathClean (case lastIndexByte p (CHR ''/'') of None \<Rightarrow> [] | Some i \<Rightarrow> take (Suc i) p)"

section \<open>The merge of the configuration\<close>

definition ConfigMergeModeMerge :: string where "ConfigMergeModeMerge = ''merge''"
definition ConfigFormatJSON5 :: string where "ConfigFormatJSON5 = ''json5''"

definition isMerge :: "OpenClawInstance \<Rightarrow> bool" where
  "isMerge inst = (cfg_MergeMode (spec_Config (oci_Spec inst)) = ConfigMergeModeMerge)"

definition isJSON5 :: "OpenClawInstance \<Rightarrow> bool" where
  "isJSON5 inst = (cfg_Format (spec_Config (oci_Spec inst)) = ConfigFormatJSON5)"

definition configMapKey :: "OpenClawInstance \<Rightarrow> string" where
  "configMapKey inst = ''openclaw.json''"

section \<open>JSON text\<close>

text \<open>
  \<^verbatim>\<open>json.Marshal\<close> of a string that is valid UTF-8 (what the API server stores): the two
  separators U+2028 and U+2029 and the characters of HTML are escaped beside quotes, backslashes and
  control characters.
\<close>

definition hexDigit :: "nat \<Rightarrow> char" where
  "hexDigit n = ''0123456789abcdef'' ! n"

definition hexEncode :: "string \<Rightarrow> string" where
  "hexEncode s = concat (map (\<lambda>c. let n = of_char c :: nat in [hexDigit (n div 16), hexDigit (n mod 16)]) s)"

definition jsonEscape :: "char \<Rightarrow> string" where
  "jsonEscape c =
     (let n = of_char c :: nat
      in if c = dquote \<or> c = backslash then [backslash, c]
         else if n = 8 then backslash # ''b'' else if n = 12 then backslash # ''f''
         else if n = 10 then backslash # ''n'' else if n = 13 then backslash # ''r''
         else if n = 9 then backslash # ''t''
         else if n < 32 \<or> c \<in> set ''<>&'' then backslash # ''u00'' @ [hexDigit (n div 16), hexDigit (n mod 16)]
         else [c])"

fun jsonEscapeAll :: "string \<Rightarrow> string" where
  "jsonEscapeAll [] = []"
| "jsonEscapeAll (c # s) =
     (if take 2 s = [CHR 0x80, CHR 0xA8] \<and> c = CHR 0xE2 then backslash # ''u2028'' @ jsonEscapeAll (drop 2 s)
      else if take 2 s = [CHR 0x80, CHR 0xA9] \<and> c = CHR 0xE2 then backslash # ''u2029'' @ jsonEscapeAll (drop 2 s)
      else jsonEscape c @ jsonEscapeAll s)"

definition jsonQuote :: "string \<Rightarrow> string" where
  "jsonQuote s = dquote # jsonEscapeAll s @ [dquote]"

definition jsonArray :: "string list \<Rightarrow> string" where
  "jsonArray xs = ''['' @ joinStr '','' xs @ '']''"

definition forcePathsJSON :: "OpenClawInstance \<Rightarrow> string" where
  "forcePathsJSON inst =
     (let paths = cfg_ForcePaths (spec_Config (oci_Spec inst))
      in if paths = [] then ''[]'' else jsonArray (map jsonQuote paths))"

section \<open>The configuration\<close>

text \<open>The program for node; \<open>e\<close> and \<open>c\<close> are the expressions of its two paths.\<close>

definition mergeProgram :: "string \<Rightarrow> string \<Rightarrow> string" where
  "mergeProgram e c =
     sh (''const fs=require(`fs`);''
       @ ''function dm(a,b){const r={...a};for(const k in b){r[k]=b[k]&&typeof b[k]===`object`&&!Array.isArray(b[k])&&r[k]&&typeof r[k]===`object`&&!Array.isArray(r[k])?dm(r[k],b[k]):b[k]}return r}''
       @ ''function dp(o,p){const k=p.split(`.`);let c=o;for(let i=0;i<k.length-1;i++){if(!c[k[i]]||typeof c[k[i]]!==`object`)return;c=c[k[i]]}delete c[k[k.length-1]]}''
       @ ''const e='') @ e @ '',c='' @ c @ '',t=''
     @ sh (''`/tmp/merged.json`;''
       @ ''const base=fs.existsSync(e)?JSON.parse(fs.readFileSync(e,`utf8`)):{};''
       @ ''const fp=JSON.parse(process.env.__forcepaths);''
       @ ''for(const p of fp)dp(base,p);''
       @ ''const inc=JSON.parse(fs.readFileSync(c,`utf8`));''
       @ ''fs.writeFileSync(t,JSON.stringify(dm(base,inc),null,2));''
       @ ''fs.copyFileSync(t,e);'')"

definition configLine :: "OpenClawInstance \<Rightarrow> string" where
  "configLine inst =
     (let q = shellQuote (configMapKey inst)
      in if isMerge inst then
           ''__cfgpath=/config/'' @ q @ '' __forcepaths='' @ shellQuote (forcePathsJSON inst) @ '' node -e '' @ squote
           @ mergeProgram (sh ''`/data/openclaw.json`'') ''process.env.__cfgpath'' @ squote
         else if isJSON5 inst then
           ''npx -y json5 /config/'' @ q @ '' > /tmp/converted.json && mv /tmp/converted.json /data/openclaw.json''
         else ''cp /config/'' @ q @ '' /data/openclaw.json'')"

definition buildConfigRestoreCommand :: "OpenClawInstance \<Rightarrow> string" where
  "buildConfigRestoreCommand inst =
     (let key = configMapKey inst;
          src = ''/operator-config/'' @ key;
          dst = ''/home/openclaw/.openclaw/openclaw.json''
      in if key = [] then []
         else if isMerge inst then
           ''__forcepaths='' @ shellQuote (forcePathsJSON inst) @ '' node -e '' @ squote
           @ mergeProgram (dquote # dst @ [dquote]) (dquote # src @ [dquote]) @ squote
         else if isJSON5 inst then []
         else ''cp '' @ src @ '' '' @ dst)"

section \<open>Seeding the workspaces\<close>

definition managedFileApplyFunc :: string where
  "managedFileApplyFunc = sh (joinLines
     [''_ocw_apply() {'', ''# $1=source $2=destination $3=source hash $4=marker file'',
      ''if [ -L `$2` ]; then'', ''echo `openclaw: refusing to replace symlink $2` >&2'', ''return 0'', ''fi'',
      ''if [ -e `$2` ] && [ ! -f `$2` ]; then'', ''echo `openclaw: refusing to replace non-regular file $2` >&2'',
      ''return 0'', ''fi'', ''if [ -f `$2` ] && [ -f `$4` ] && [ `$(cat `$4`)` = `$3` ]; then'', ''return 0'', ''fi'',
      ''mkdir -p `$(dirname -- `$2`)` `$(dirname -- `$4`)`'',
      ''cp `$1` `$2.ocwtmp` && chmod 0644 `$2.ocwtmp` && mv -f `$2.ocwtmp` `$2`'',
      ''printf '%s~n' `$3` > `$4`'', ''}''])"

definition mkdirLine :: "string \<Rightarrow> string \<Rightarrow> string" where
  "mkdirLine root dir = ''mkdir -p '' @ root @ ''/'' @ shellQuote dir"

text \<open>Copying a key of the seed ConfigMap to a path below \<open>root\<close> (already quoted) if nothing is there.\<close>

definition seedLine :: "string \<Rightarrow> string \<Rightarrow> string \<Rightarrow> string" where
  "seedLine root cmKey wsPath =
     ''[ -f '' @ root @ ''/'' @ shellQuote wsPath @ '' ] || cp /workspace-init/'' @ shellQuote cmKey @ '' ''
     @ root @ ''/'' @ shellQuote wsPath"

definition SkillPackUpdatePolicyCreateOnly :: string where "SkillPackUpdatePolicyCreateOnly = ''CreateOnly''"

definition sortedPackKeys :: "('a SkillPackSet_scheme) \<Rightarrow> string list" where
  "sortedPackKeys sp = sortedKeys (sp_PathMapping sp)"

definition packPath :: "('a SkillPackSet_scheme) \<Rightarrow> string \<Rightarrow> string" where
  "packPath sp cmKey = derefOr [] (map_of (sp_PathMapping sp) cmKey)"

definition skillPackCleanupLoop :: "string \<Rightarrow> string \<Rightarrow> string" where
  "skillPackCleanupLoop wsRoot manifest = joinLines
     [''while IFS= read -r f; do'', sh ''[ -n `$f` ] || continue'', sh ''case `$f` in /*|*..*) continue ;; esac'',
      sh ''if ! grep -Fxq -- `$f` '' @ manifest @ ''.new; then'', sh ''rm -f `'' @ wsRoot @ sh ''/$f`'',
      sh ''d=$(dirname -- `$f`)'', sh ''while [ `$d` != `.` ] && [ `$d` != `/` ]; do'',
      sh ''rmdir `'' @ wsRoot @ sh ''/$d` 2>/dev/null || break'', sh ''d=$(dirname -- `$d`)'',
      ''done'', ''fi'', ''done < '' @ manifest]"

text \<open>The lines that copy one pack file.\<close>

definition packCopyLines :: "string \<Rightarrow> (string \<Rightarrow> string) \<Rightarrow> string \<Rightarrow> string \<Rightarrow> string list" where
  "packCopyLines wsRoot srcKey cmKey wsPath =
     (let dir = pathDir wsPath
      in (if dir \<noteq> ''.'' \<and> dir \<noteq> ''/'' then [mkdirLine wsRoot dir] else [])
         @ [''cp /workspace-init/'' @ shellQuote (srcKey cmKey) @ '' '' @ wsRoot @ ''/'' @ shellQuote wsPath])"

definition buildSkillPackSyncLinesAt ::
    "('a SkillPackSet_scheme) option \<Rightarrow> string \<Rightarrow> string \<Rightarrow> (string \<Rightarrow> string) \<Rightarrow> string list" where
  "buildSkillPackSyncLinesAt skillPacks wsRoot manifest srcKey =
     (if \<not> HasSkillPackFiles skillPacks then
        [''if [ -f '' @ manifest @ '' ]; then'', '': > '' @ manifest @ ''.new'', skillPackCleanupLoop wsRoot manifest,
         ''rm -f '' @ manifest @ ''.new '' @ manifest, ''fi'']
      else (case skillPacks of
              None \<Rightarrow> []
            | Some sp \<Rightarrow>
                let mappedKeys = sortedPackKeys sp
                in [sh ''printf '%s~n' '' @ joinStr '' '' (map (shellQuote \<circ> packPath sp) mappedKeys) @ '' > '' @ manifest @ ''.new'',
                    ''if [ -f '' @ manifest @ '' ]; then'', skillPackCleanupLoop wsRoot manifest, ''fi'']
                   @ concat (map (\<lambda>k. packCopyLines wsRoot srcKey k (packPath sp k)) mappedKeys)
                   @ [''mv '' @ manifest @ ''.new '' @ manifest]))"

definition buildSkillPackSyncLines :: "('a SkillPackSet_scheme) option \<Rightarrow> string list" where
  "buildSkillPackSyncLines sp =
     buildSkillPackSyncLinesAt sp ''/data/workspace'' ''/data/.skillpack-manifest'' (\<lambda>cmKey. cmKey)"

definition buildWorkspaceSkillPackSyncLines :: "('a SkillPackSet_scheme) option \<Rightarrow> string \<Rightarrow> string list" where
  "buildWorkspaceSkillPackSyncLines wsPacks wsName =
     buildSkillPackSyncLinesAt wsPacks (''/data/workspace-'' @ wsName) (''/data/.skillpack-manifest-ws-'' @ wsName)
       (AdditionalWorkspaceCMKey wsName)"

text \<open>The pack files of a workspace under the policy of the instance.\<close>

definition packLines ::
    "OpenClawInstance \<Rightarrow> ('a SkillPackSet_scheme) option \<Rightarrow> string \<Rightarrow> (string \<Rightarrow> string) \<Rightarrow> string list \<Rightarrow> string list" where
  "packLines inst skillPacks root srcKey syncLines =
     (if spec_SkillPackUpdatePolicy (oci_Spec inst) = SkillPackUpdatePolicyCreateOnly
      then (case skillPacks of
              Some sp \<Rightarrow> if HasSkillPackFiles skillPacks
                         then map (\<lambda>k. seedLine root (srcKey k) (packPath sp k)) (sortedPackKeys sp) else []
            | None \<Rightarrow> [])
      else syncLines)"

text \<open>Files named by one segment, and those in directories.\<close>

definition isNested :: "string \<Rightarrow> bool" where
  "isNested name = strContains name ''/''"

definition hasWorkspaceFiles :: "OpenClawInstance \<Rightarrow> bool" where
  "hasWorkspaceFiles inst = True"

definition operatorFlatFiles :: "OpenClawInstance \<Rightarrow> string list" where
  "operatorFlatFiles inst =
     ''ENVIRONMENT.md'' # (if bootstrapEnabled inst then [''BOOTSTRAP.md''] else [])
     @ (if scf_Enabled (spec_SelfConfigure (oci_Spec inst)) then [''SELFCONFIG.md'', ''selfconfig.sh''] else [])"

definition sortedSet :: "string list \<Rightarrow> string list" where
  "sortedSet xs = sort (remdups xs)"

definition sourceHash :: "gomap option \<Rightarrow> string \<Rightarrow> string option" where
  "sourceHash srcs name = (case srcs of None \<Rightarrow> None | Some m \<Rightarrow> map_of m name)"

definition defaultSeedLines ::
    "(string \<Rightarrow> string) \<Rightarrow> OpenClawInstance \<Rightarrow> gomap \<Rightarrow> ResolvedSkillPacks option \<Rightarrow> string list" where
  "defaultSeedLines sha256hex inst externalWorkspaceFiles skillPacks =
     (let initial = (case spec_Workspace (oci_Spec inst) of None \<Rightarrow> [] | Some ws \<Rightarrow> map fst (ws_InitialFiles ws));
          flat = map fst externalWorkspaceFiles @ filter (\<lambda>n. \<not> isNested n) initial @ operatorFlatFiles inst;
          wsSources = workspaceReplaceSources sha256hex inst externalWorkspaceFiles;
          line = (\<lambda>cmKey name.
                    case sourceHash wsSources name of
                      Some hash \<Rightarrow> managedFileApplyLine cmKey ''/data/workspace'' [] name hash
                    | None \<Rightarrow> seedLine ''/data/workspace'' cmKey name)
      in ''mkdir -p /data/workspace''
         # map (\<lambda>name. line name name) (sortedSet flat)
         @ concat (map (\<lambda>p. [mkdirLine ''/data/workspace'' (pathDir p), line (SkillPackCMKey p) p])
                     (sort (filter isNested initial)))
         @ packLines inst skillPacks ''/data/workspace'' (\<lambda>k. k) (buildSkillPackSyncLines skillPacks))"

definition additionalSeedLines ::
    "(string \<Rightarrow> string) \<Rightarrow> OpenClawInstance \<Rightarrow> (string \<times> gomap) list \<Rightarrow> ResolvedSkillPacks option \<Rightarrow>
     AdditionalWorkspace \<Rightarrow> string list" where
  "additionalSeedLines sha256hex inst additionalExternalFiles skillPacks aw =
     (let wsDir = ''workspace-'' @ aw_Name aw;
          root = ''/data/'' @ shellQuote wsDir;
          key = AdditionalWorkspaceCMKey (aw_Name aw);
          extFiles = derefOr [] (map_of additionalExternalFiles (aw_Name aw));
          initial = map fst (aw_InitialFiles aw);
          flat = map fst extFiles @ filter (\<lambda>n. \<not> isNested n) initial @ [''ENVIRONMENT.md''];
          awSources = additionalWorkspaceReplaceSources sha256hex inst (Some aw) extFiles;
          wsPacks = WorkspacePacks skillPacks (aw_Name aw);
          line = (\<lambda>cmKey name.
                    case sourceHash awSources name of
                      Some hash \<Rightarrow> managedFileApplyLine cmKey (''/data/'' @ wsDir) (aw_Name aw) name hash
                    | None \<Rightarrow> seedLine root cmKey name)
      in (''mkdir -p '' @ root)
         # map (mkdirLine root) (sort (aw_InitialDirectories aw))
         @ map (\<lambda>name. line (key name) name) (sortedSet flat)
         @ concat (map (\<lambda>p. [mkdirLine root (pathDir p), line (key (SkillPackCMKey p)) p]) (sort (filter isNested initial)))
         @ (case wsPacks of None \<Rightarrow> [] | Some p \<Rightarrow> map (mkdirLine root) (sp_Directories p))
         @ packLines inst wsPacks root key (buildWorkspaceSkillPackSyncLines wsPacks (aw_Name aw)))"

definition BuildInitScript ::
    "(string \<Rightarrow> string) \<Rightarrow> OpenClawInstance \<Rightarrow> gomap \<Rightarrow> (string \<times> gomap) list \<Rightarrow> ResolvedSkillPacks option \<Rightarrow> string" where
  "BuildInitScript sha256hex inst externalWorkspaceFiles additionalExternalFiles skillPacks =
     (let ws = spec_Workspace (oci_Spec inst);
          lines = (if configMapKey inst \<noteq> [] then [configLine inst] else [])
            @ (if WorkspaceHasReplaceFiles ws then [managedFileApplyFunc] else [])
            @ (case ws of None \<Rightarrow> [] | Some w \<Rightarrow> map (mkdirLine ''/data/workspace'') (sort (ws_InitialDirectories w)))
            @ (case skillPacks of None \<Rightarrow> [] | Some p \<Rightarrow> map (mkdirLine ''/data/workspace'') (sp_Directories p))
            @ (if hasWorkspaceFiles inst then defaultSeedLines sha256hex inst externalWorkspaceFiles skillPacks else [])
            @ (case ws of
                 None \<Rightarrow> []
               | Some w \<Rightarrow> concat (map (additionalSeedLines sha256hex inst additionalExternalFiles skillPacks)
                                    (sort_key aw_Name (ws_AdditionalWorkspaces w))))
      in if lines = [] then [] else joinLines lines)"

section \<open>Skills and plugins\<close>

definition clawHubSkillsSetup :: string where
  "clawHubSkillsSetup = joinLines
     [''mkdir -p /home/openclaw/.openclaw/skills'',
      ''cp -rn /app/skills/. /home/openclaw/.openclaw/skills/ 2>/dev/null || true'',
      ''rm -rf /app/skills && ln -s /home/openclaw/.openclaw/skills /app/skills'']"

definition skillInstallWrapper :: string where
  "skillInstallWrapper = sh (joinLines
     [''_install_skill() {'', ''  local output'',
      ''  if output=$(npx -y clawhub ${2:+--workdir `$2`} install `$1` 2>&1); then'', ''    echo `$output`'',
      ''  elif echo `$output` | grep -q 'Already installed'; then'',
      ''    echo `Skill $1 already installed, skipping`'', ''  else'', ''    echo `$output` >&2'', ''    return 1'',
      ''  fi'', ''}''])"

definition normalizeClawHubSlug :: "string \<Rightarrow> string" where
  "normalizeClawHubSlug entry =
     (if hasPrefix entry ''npm:'' \<or> hasPrefix entry ''pack:'' then entry
      else if strContains entry ''/'' then ''@'' @ trimPrefix entry ''@''
      else trimPrefix entry ''@'')"

definition parseSkillEntry :: "string \<Rightarrow> string" where
  "parseSkillEntry entry =
     (case cutPrefix entry ''npm:'' of
        Some pkg \<Rightarrow> ''npm install -g '' @ shellQuote pkg
      | None \<Rightarrow> ''_install_skill '' @ shellQuote (normalizeClawHubSlug entry))"

definition hasClawHubSkills :: "string list \<Rightarrow> bool" where
  "hasClawHubSkills skills = list_ex (\<lambda>s. \<not> hasPrefix s ''npm:'') skills"

definition hasNpmSkills :: "string list \<Rightarrow> bool" where
  "hasNpmSkills skills = list_ex (\<lambda>s. hasPrefix s ''npm:'') skills"

definition additionalWorkspaces :: "OpenClawInstance \<Rightarrow> AdditionalWorkspace list" where
  "additionalWorkspaces inst =
     (case spec_Workspace (oci_Spec inst) of None \<Rightarrow> [] | Some ws \<Rightarrow> ws_AdditionalWorkspaces ws)"

definition hasWorkspaceNpmSkills :: "OpenClawInstance \<Rightarrow> bool" where
  "hasWorkspaceNpmSkills inst = list_ex (\<lambda>aw. hasNpmSkills (aw_Skills aw)) (additionalWorkspaces inst)"

definition hasWorkspaceSkills :: "OpenClawInstance \<Rightarrow> bool" where
  "hasWorkspaceSkills inst = list_ex (\<lambda>aw. aw_Skills aw \<noteq> []) (additionalWorkspaces inst)"

text \<open>The lines of one workspace; the directory is made before its first ClawHub skill.\<close>

fun workspaceInstallLines :: "string \<Rightarrow> bool \<Rightarrow> string list \<Rightarrow> string list" where
  "workspaceInstallLines wsDir mkdirEmitted [] = []"
| "workspaceInstallLines wsDir mkdirEmitted (skill # skills) =
     (case cutPrefix skill ''npm:'' of
        Some pkg \<Rightarrow> (''npm install -g '' @ shellQuote pkg) # workspaceInstallLines wsDir mkdirEmitted skills
      | None \<Rightarrow>
          (if mkdirEmitted then [] else [''mkdir -p '' @ shellQuote wsDir])
          @ (''_install_skill '' @ shellQuote (normalizeClawHubSlug skill) @ '' '' @ shellQuote wsDir)
          # workspaceInstallLines wsDir True skills)"

definition workspaceInstalls :: "OpenClawInstance \<Rightarrow> (string \<times> string list) list" where
  "workspaceInstalls inst =
     sort_key fst
       (filter (\<lambda>(_, entries). entries \<noteq> [])
         (map (\<lambda>aw. (aw_Name aw, sort (FilterNonPackSkills (aw_Skills aw)))) (additionalWorkspaces inst)))"

definition BuildSkillsScript :: "OpenClawInstance \<Rightarrow> string" where
  "BuildSkillsScript inst =
     (let skills = sort (FilterNonPackSkills (spec_Skills (oci_Spec inst)));
          wsInstalls = workspaceInstalls inst;
          needWrapper = (hasClawHubSkills skills \<or> list_ex (\<lambda>(_, entries). hasClawHubSkills entries) wsInstalls)
      in if skills = [] \<and> wsInstalls = [] then []
         else joinLines
           (''set -e'' # (if hasClawHubSkills skills then [clawHubSkillsSetup] else [])
            @ (if needWrapper then [skillInstallWrapper] else [])
            @ map parseSkillEntry skills
            @ concat (map (\<lambda>(name, entries).
                  workspaceInstallLines (''/home/openclaw/.openclaw/workspace-'' @ name) False entries) wsInstalls)))"

definition parsePluginEntry :: "string \<Rightarrow> string" where
  "parsePluginEntry entry =
     (case cutPrefix entry ''npm:'' of
        Some pkg \<Rightarrow> ''openclaw plugins install --force '' @ shellQuote (''npm:'' @ pkg)
      | None \<Rightarrow> ''openclaw plugins install --force '' @ shellQuote (''clawhub:'' @ entry))"

definition BuildPluginsScript :: "OpenClawInstance \<Rightarrow> string" where
  "BuildPluginsScript inst =
     (let plugins = spec_Plugins (oci_Spec inst)
      in if plugins = [] then []
         else joinLines ([''set -e'', ''mkdir -p /home/openclaw/.openclaw/extensions'']
                         @ map parsePluginEntry (sort plugins)))"

section \<open>How a shell reads the scripts\<close>

text \<open>
  The tokens of a POSIX shell: single quotes and the backslash quote, blanks separate words, an
  operator character is a token of its own. The reader has no result on text that would be expanded,
  opened by a double quote, or left inside a quotation.
\<close>

datatype token = Word string | Op char

definition flush :: "string option \<Rightarrow> token list" where
  "flush w = (case w of None \<Rightarrow> [] | Some s \<Rightarrow> [Word s])"

definition addTo :: "string option \<Rightarrow> char \<Rightarrow> string option" where
  "addTo w c = Some (derefOr [] w @ [c])"

definition opChars :: string where "opChars = CHR 0x0A # '';&|<>()''"

definition expandChars :: string where "expandChars = [dquote, CHR 0x60] @ ''$*?~#''"

fun tokens :: "bool \<Rightarrow> string option \<Rightarrow> string \<Rightarrow> token list option" where
  "tokens quoted w [] = (if quoted then None else Some (flush w))"
| "tokens True w (c # s) = (if c = CHR 0x27 then tokens False w s else tokens True (addTo w c) s)"
| "tokens False w (c # s) =
     (if c = CHR 0x27 then tokens True (Some (derefOr [] w)) s
      else if c = backslash then
        (case s of [] \<Rightarrow> None | d # t \<Rightarrow> if d = CHR 0x0A then tokens False w t else tokens False (addTo w d) t)
      else if c = CHR '' '' \<or> c = CHR 0x09 then map_option (\<lambda>ts. flush w @ ts) (tokens False None s)
      else if c \<in> set opChars then map_option (\<lambda>ts. flush w @ Op c # ts) (tokens False None s)
      else if c \<in> set expandChars then None
      else tokens False (addTo w c) s)"

fun commands :: "token list \<Rightarrow> token list list" where
  "commands [] = [[]]"
| "commands (t # ts) =
     (if t = Op (CHR 0x0A) then [] # commands ts
      else case commands ts of [] \<Rightarrow> [[t]] | x # xs \<Rightarrow> (t # x) # xs)"

text \<open>The command lines of a script.\<close>

definition shellCommands :: "string \<Rightarrow> token list list option" where
  "shellCommands s = map_option commands (tokens False None s)"

text \<open>A quoted text is read back as it is, whatever its bytes are.\<close>

lemma tokens_in_quotes:
  "tokens True (Some w) (replaceByte (CHR 0x27) [CHR 0x27, backslash, CHR 0x27, CHR 0x27] s @ CHR 0x27 # r)
   = tokens False (Some (w @ s)) r"
proof (induction s arbitrary: w)
  case (Cons c s)
  show ?case
  proof (cases "c = CHR 0x27")
    case True
    then show ?thesis using Cons.IH [of "w @ [c]"]
      by (simp add: replaceByte_def addTo_def derefOr_def backslash_def)
  next
    case False
    then show ?thesis using Cons.IH [of "w @ [c]"] by (simp add: replaceByte_def addTo_def derefOr_def)
  qed
qed (simp add: replaceByte_def)

lemma tokens_shellQuote: "tokens False w (shellQuote s @ r) = tokens False (Some (derefOr [] w @ s)) r"
  using tokens_in_quotes [of "derefOr [] w" s r] by (simp add: shellQuote_def)

lemma tokens_shellQuote_end: "tokens False w (shellQuote s) = Some [Word (derefOr [] w @ s)]"
  using tokens_shellQuote [of w s "[]"] by (simp add: flush_def)

lemma tokens_newline:
  "tokens q w a = Some ts \<Longrightarrow>
   tokens q w (a @ CHR 0x0A # b) = map_option (\<lambda>us. ts @ Op (CHR 0x0A) # us) (tokens False None b)"
proof (induction q w a arbitrary: ts rule: tokens.induct)
  case (1 q w)
  then show ?case by (simp add: opChars_def backslash_def split: if_splits)
next
  case (2 w c s)
  then show ?case by (simp split: if_splits)
next
  case (3 w c s)
  show ?case
  proof (cases "c = CHR 0x27 \<or> c = backslash")
    case True
    then show ?thesis
    proof
      assume q: "c = CHR 0x27"
      then have "tokens True (Some (derefOr [] w)) s = Some ts" using "3.prems" by simp
      then show ?thesis using q "3.IH"(1) by simp
    next
      assume b: "c = backslash"
      then obtain d t where s: "s = d # t" using "3.prems" by (cases s) (auto simp: backslash_def)
      then show ?thesis using b "3.prems" "3.IH"(2,3) by (cases "d = CHR 0x0A") (simp_all add: backslash_def)
    qed
  next
    case False
    then have n: "c \<noteq> CHR 0x27" "c \<noteq> backslash" by simp_all
    show ?thesis
    proof (cases "c = CHR '' '' \<or> c = CHR 0x09 \<or> c \<in> set opChars")
      case True
      obtain us where us: "tokens False None s = Some us"
        using "3.prems" n True by (cases "tokens False None s") (auto split: if_splits)
      have "tokens False None (s @ CHR 0x0A # b) = map_option (\<lambda>vs. us @ Op (CHR 0x0A) # vs) (tokens False None b)"
        using "3.IH"(4,5) n True us by blast
      then show ?thesis using "3.prems" n True us by (cases "tokens False None b") (auto split: if_splits)
    next
      case f: False
      then show ?thesis using "3.prems" "3.IH"(6) n by (simp split: if_splits)
    qed
  qed
qed

lemma commands_line: "Op (CHR 0x0A) \<notin> set ts \<Longrightarrow> commands ts = [ts]"
  by (induction ts) auto

lemma commands_append: "Op (CHR 0x0A) \<notin> set ts \<Longrightarrow> commands (ts @ Op (CHR 0x0A) # us) = ts # commands us"
  by (induction ts) auto

text \<open>A line whose words are known; the commands of a script are those of its lines.\<close>

definition readsAs :: "string \<Rightarrow> token list \<Rightarrow> bool" where
  "readsAs l ts \<longleftrightarrow> tokens False None l = Some ts \<and> Op (CHR 0x0A) \<notin> set ts"

lemma shellCommands_joinLines:
  "list_all2 readsAs ls tss \<Longrightarrow> ls \<noteq> [] \<Longrightarrow> shellCommands (joinLines ls) = Some tss"
proof (induction ls tss rule: list_all2_induct)
  case (Cons l ls ts tss)
  then have l: "tokens False None l = Some ts" "Op (CHR 0x0A) \<notin> set ts" by (simp_all add: readsAs_def)
  show ?case
  proof (cases ls)
    case Nil
    then show ?thesis using Cons.hyps l by (simp add: shellCommands_def joinLines_def commands_line)
  next
    case (Cons m ms)
    then have "map_option commands (tokens False None (joinStr [CHR 0x0A] ls)) = Some tss"
      using Cons.IH by (simp add: shellCommands_def joinLines_def)
    then obtain us where "tokens False None (joinStr [CHR 0x0A] ls) = Some us" "commands us = tss" by auto
    then show ?thesis
      using l Cons by (simp add: shellCommands_def joinLines_def joinStr_Cons tokens_newline commands_append)
  qed
qed simp

lemma shellCommands_map:
  assumes "list_all2 readsAs ls tss" "\<And>x. readsAs (f x) (g x)" "ls \<noteq> []"
  shows "shellCommands (joinLines (ls @ map f xs)) = Some (tss @ map g xs)"
proof (rule shellCommands_joinLines)
  have "list_all2 readsAs (map f xs) (map g xs)" by (simp add: list_all2_conv_all_nth assms(2))
  then show "list_all2 readsAs (ls @ map f xs) (tss @ map g xs)" using assms(1) by (intro list_all2_appendI)
qed (use assms(3) in simp)

text \<open>Plain text, and plain text before a quoted argument.\<close>

lemma readsAs_quoted:
  assumes "tokens False None p = Some ts" "\<And>r. tokens False None (p @ r) = map_option (\<lambda>us. ts @ us) (tokens False w r)"
  "Op (CHR 0x0A) \<notin> set ts"
  shows "readsAs (p @ shellQuote s) (ts @ [Word (derefOr [] w @ s)])"
  using assms(2) [of "shellQuote s"] assms(3) by (simp add: readsAs_def tokens_shellQuote_end)

lemmas token_simps = addTo_def derefOr_def flush_def opChars_def expandChars_def backslash_def dquote_def

lemma plugin_line:
  "readsAs (''openclaw plugins install --force '' @ shellQuote s)
     [Word ''openclaw'', Word ''plugins'', Word ''install'', Word ''--force'', Word s]"
  using tokens_shellQuote_end [of None s] by (simp add: readsAs_def token_simps)

end
