(* ===== verification/Pod.thy ===== *)
theory Pod
  imports Scripts Resources
begin

text \<open>
  The containers of the pod (internal/resources/statefulset.go, plugin_install.go,
  verified_plugins.go and the sidecars of mesh_tailscale.go and mesh_netbird.go). A container the
  operator builds is a \<open>PodContainer\<close>: the record of theory Types with the fields the builders set.
  \<open>PodParams\<close> holds what is not decided here: the grammar and the value of a quantity (below \<open>2 ^ 63 - 1023\<close>), SHA-256,
  \<^verbatim>\<open>json.Marshal\<close> on the API types, and the text of the installer script embedded in the binary.
\<close>

section \<open>Containers\<close>

text \<open>The values whose JSON goes into the hash of the configuration.\<close>

datatype hashPart =
    ConfigPart ConfigSpec
  | RenderedPart "(string \<times> bytes) list"
  | ExternalPart gomap
  | AdditionalPart "(string \<times> gomap) list"
  | SkillsPart "string list"
  | WorkspaceSkillsPart string "string list"
  | VerifiedPart string
  | PluginsPart "string list"
  | InitContainersPart "Container list"
  | RuntimeDepsPart RuntimeDepsSpec
  | TailscalePart TailscaleSpec
  | NetBirdPart NetBirdSpec

record PodParams =
  pp_ValidQuantity :: "string \<Rightarrow> bool"
  pp_QuantityValue :: "string \<Rightarrow> int"
  pp_Sha256 :: "string \<Rightarrow> string"
  pp_Marshal :: "hashPart \<Rightarrow> string"
  pp_Installer :: string

record ContainerPort =
  cp_Name :: string
  cp_Port :: int
  cp_Protocol :: string

record ContainerSecurity = SecurityContext +
  sctx_RunAsGroup :: "int option"

datatype ResourceRequirements =
    NoResources
  | Quantities "gomap" "gomap" \<comment> \<open>requests and limits\<close>
  | UserResources json

datatype ProbeHandler =
    HTTPGet string int string \<comment> \<open>path, port and scheme\<close>
  | Exec "string list"

record Probe =
  prb_Handler :: ProbeHandler
  prb_InitialDelaySeconds :: int
  prb_PeriodSeconds :: int
  prb_TimeoutSeconds :: int
  prb_SuccessThreshold :: int
  prb_FailureThreshold :: int

record PodContainer = Container +
  pc_Ports :: "ContainerPort list"
  pc_EnvFrom :: "json list"
  pc_Resources :: ResourceRequirements
  pc_Security :: "ContainerSecurity option"
  pc_Liveness :: "Probe option"
  pc_Readiness :: "Probe option"
  pc_Startup :: "Probe option"
  pc_PostStart :: "string list option"
  pc_RestartPolicy :: string
  pc_TerminationMessagePath :: string
  pc_TerminationMessagePolicy :: string

definition TerminationMessagePathDefault :: string where "TerminationMessagePathDefault = ''/dev/termination-log''"
definition TerminationMessageReadFile :: string where "TerminationMessageReadFile = ''File''"
definition PullIfNotPresent :: string where "PullIfNotPresent = ''IfNotPresent''"
definition PullAlways :: string where "PullAlways = ''Always''"
definition URISchemeHTTP :: string where "URISchemeHTTP = ''HTTP''"

text \<open>A container with the two termination fields every builder sets; the rest is zero.\<close>

definition blankContainer :: "string \<Rightarrow> string \<Rightarrow> string \<Rightarrow> PodContainer" where
  "blankContainer name img policy =
     \<lparr>con_Name = name, con_Image = img, con_ImagePullPolicy = policy, con_Command = [], con_Args = [], con_Env = [],
      con_VolumeMounts = [], con_Other = JNull,
      pc_Ports = [], pc_EnvFrom = [], pc_Resources = NoResources, pc_Security = None, pc_Liveness = None,
      pc_Readiness = None, pc_Startup = None, pc_PostStart = None, pc_RestartPolicy = [],
      pc_TerminationMessagePath = TerminationMessagePathDefault,
      pc_TerminationMessagePolicy = TerminationMessageReadFile\<rparr>"

text \<open>The security context of the helpers: no escalation, no capability, the default profile.\<close>

definition restricted :: "bool \<Rightarrow> bool \<Rightarrow> int option \<Rightarrow> ContainerSecurity" where
  "restricted readOnlyRoot nonRoot user =
     \<lparr>sctx_AllowPrivilegeEscalation = Some False, sctx_ReadOnlyRootFilesystem = Some readOnlyRoot,
      sctx_RunAsNonRoot = Some nonRoot, sctx_RunAsUser = user, sctx_Capabilities = dropAll,
      sctx_Seccomp = RuntimeDefault, sctx_RunAsGroup = None\<rparr>"

definition withGroup :: "SecurityContext \<Rightarrow> int option \<Rightarrow> ContainerSecurity" where
  "withGroup s g = SecurityContext.extend s \<lparr>sctx_RunAsGroup = g\<rparr>"

definition mnt :: "string \<Rightarrow> string \<Rightarrow> VolumeMount" where
  "mnt name mountPath = \<lparr>vm_Name = name, vm_MountPath = mountPath, vm_SubPath = [], vm_ReadOnly = False\<rparr>"

definition mntSub :: "string \<Rightarrow> string \<Rightarrow> string \<Rightarrow> VolumeMount" where
  "mntSub name mountPath sub = (mnt name mountPath)\<lparr>vm_SubPath := sub\<rparr>"

definition readOnly :: "VolumeMount \<Rightarrow> VolumeMount" where
  "readOnly m = m\<lparr>vm_ReadOnly := True\<rparr>"

definition portTCP :: "string \<Rightarrow> int \<Rightarrow> ContainerPort" where
  "portTCP name p = \<lparr>cp_Name = name, cp_Port = p, cp_Protocol = ProtocolTCP\<rparr>"

text \<open>Requests and limits of a sidecar, with their defaults: CPU and memory asked for, CPU and memory at most.\<close>

definition resourcesOr ::
    "PodParams \<Rightarrow> ResourcesSpec \<Rightarrow> string \<Rightarrow> string \<Rightarrow> string \<Rightarrow> string \<Rightarrow> ResourceRequirements" where
  "resourcesOr pp rs rcpu rmem lcpu lmem =
     (let q = ParseQuantity (pp_ValidQuantity pp)
      in Quantities
           [(''cpu'', q (rl_CPU (rs_Requests rs)) rcpu), (''memory'', q (rl_Memory (rs_Requests rs)) rmem)]
           [(''cpu'', q (rl_CPU (rs_Limits rs)) lcpu), (''memory'', q (rl_Memory (rs_Limits rs)) lmem)])"

definition getPullPolicy :: "OpenClawInstance \<Rightarrow> string" where
  "getPullPolicy inst = strOr (img_PullPolicy (spec_Image (oci_Spec inst))) PullIfNotPresent"

definition busyboxImage :: "OpenClawInstance \<Rightarrow> string" where
  "busyboxImage inst = ApplyRegistryOverride ''docker.io/library/busybox:1.37'' (spec_Registry (oci_Spec inst))"

text \<open>The mount and the variable of the CA bundle, where there is one.\<close>

definition DefaultCABundleKey :: string where "DefaultCABundleKey = ''ca-bundle.crt''"
definition caBundlePath :: string where "caBundlePath = ''/etc/ssl/certs/custom-ca-bundle.crt''"

definition caMounts :: "OpenClawInstance \<Rightarrow> VolumeMount list" where
  "caMounts inst =
     (case sec_CABundle (spec_Security (oci_Spec inst)) of
        None \<Rightarrow> []
      | Some cab \<Rightarrow> [readOnly (mntSub ''ca-bundle'' caBundlePath (strOr (cab_Key cab) DefaultCABundleKey))])"

definition caEnv :: "OpenClawInstance \<Rightarrow> string \<Rightarrow> EnvVar list" where
  "caEnv inst name =
     (case sec_CABundle (spec_Security (oci_Spec inst)) of None \<Rightarrow> [] | Some _ \<Rightarrow> [envVal name caBundlePath])"

section \<open>Init containers\<close>

definition shellCommand :: "string \<Rightarrow> string list" where
  "shellCommand script = [''sh'', ''-c'', script]"

definition DataOwnerInitContainerName :: string where "DataOwnerInitContainerName = ''init-data-owner''"

definition chownOnly :: json where
  "chownOnly = JObj [(''add'', JArr [JStr ''CHOWN'']), (''drop'', JArr [JStr ''ALL''])]"

text \<open>The user and the group the data volume is handed to.\<close>

definition dataOwner :: "OpenClawInstance \<Rightarrow> int \<times> int" where
  "dataOwner inst =
     (let psc = buildPodSecurityContext inst
      in (case sctx_RunAsUser (buildContainerSecurityContext inst) of
            Some u \<Rightarrow> u | None \<Rightarrow> derefOr 1000 (pctx_RunAsUser psc),
          derefOr 1000 (pctx_RunAsGroup psc)))"

definition buildDataOwnerInitContainer :: "OpenClawInstance \<Rightarrow> PodContainer" where
  "buildDataOwnerInitContainer inst =
     (let (uid, gid) = dataOwner inst;
          script = joinLines
            [''set -e'', sh ''want=`'' @ intStr uid @ '':'' @ intStr gid @ sh ''`'',
             sh ''have=`$(stat -c '%u:%g' /data)`'', sh ''if [ `$have` = `$want` ]; then'',
             sh ''  echo `data volume root already owned by $want`'', ''  exit 0'', ''fi'',
             sh ''chown `$want` /data'', sh ''echo `data volume root ownership changed: $have -> $want`'']
      in (blankContainer DataOwnerInitContainerName (busyboxImage inst) PullIfNotPresent)
           \<lparr>con_Command := shellCommand script,
            pc_Security := Some ((restricted True False (Some 0))
              \<lparr>sctx_Capabilities := chownOnly, sctx_RunAsGroup := Some 0\<rparr>),
            con_VolumeMounts := [mnt ''data'' ''/data'']\<rparr>)"

text \<open>The container of the init script; merge and JSON5 need node, a home and a scratch directory.\<close>

definition usesNode :: "OpenClawInstance \<Rightarrow> bool" where
  "usesNode inst = (isMerge inst \<or> isJSON5 inst)"

definition buildConfigInitContainer :: "OpenClawInstance \<Rightarrow> string \<Rightarrow> PodContainer" where
  "buildConfigInitContainer inst script =
     (blankContainer ''init-config'' (if usesNode inst then GetImage inst else busyboxImage inst)
        (if usesNode inst then getPullPolicy inst else PullIfNotPresent))
       \<lparr>con_Command := shellCommand script,
        con_Env := (if usesNode inst then [envVal ''HOME'' ''/tmp'', envVal ''NPM_CONFIG_CACHE'' ''/tmp/.npm''] else []),
        pc_Security := Some (restricted (\<not> usesNode inst) (podRunAsNonRoot inst) None),
        con_VolumeMounts := mnt ''data'' ''/data''
          # (if configMapKey inst \<noteq> [] then [mnt ''config'' ''/config''] else [])
          @ (if usesNode inst then [mnt ''init-tmp'' ''/tmp''] else [])
          @ (if hasWorkspaceFiles inst then [readOnly (mnt ''workspace-init'' ''/workspace-init'')] else [])\<rparr>"

definition buildUvInitContainer :: "OpenClawInstance \<Rightarrow> PodContainer" where
  "buildUvInitContainer inst =
     (blankContainer ''init-uv'' (GetUVImage inst) PullIfNotPresent)
       \<lparr>con_Command := shellCommand (joinLines
          [''set -e'', ''mkdir -p /data/.local/bin /data/.cache /data/.config /data/skills'',
           sh ''if [ -x /data/.local/bin/uv ]; then echo `uv already installed`; exit 0; fi'',
           ''cp /usr/local/bin/uv /data/.local/bin/uv'', sh ''echo `uv $(/data/.local/bin/uv --version) installed`'']),
        pc_Security := Some (restricted True True None), con_VolumeMounts := [mnt ''data'' ''/data'']\<rparr>"

definition buildPipInitContainer :: "OpenClawInstance \<Rightarrow> PodContainer" where
  "buildPipInitContainer inst =
     (blankContainer ''init-pip'' (GetImage inst) (getPullPolicy inst))
       \<lparr>con_Command := shellCommand
          (sh ''python3 -m ensurepip --upgrade --user 2>/dev/null || echo `ensurepip unavailable, skipping`''),
        con_Env := [envVal ''HOME'' ''/data''], pc_Security := Some (restricted True True None),
        con_VolumeMounts := [mnt ''data'' ''/data'', mnt ''tmp'' ''/tmp'']\<rparr>"

definition buildPluginRuntimeDepsInitContainer :: "OpenClawInstance \<Rightarrow> PodContainer" where
  "buildPluginRuntimeDepsInitContainer inst =
     (blankContainer ''init-plugin-runtime-deps'' (GetImage inst) (getPullPolicy inst))
       \<lparr>con_Command := shellCommand (joinLines
          [''set -e'', ''mkdir -p /data/plugin-runtime-deps/node_modules'',
           ''ln -sfn /app /data/plugin-runtime-deps/node_modules/openclaw'']),
        pc_Security := Some (restricted True (podRunAsNonRoot inst) None), con_VolumeMounts := [mnt ''data'' ''/data'']\<rparr>"

definition buildPnpmInitContainer :: "OpenClawInstance \<Rightarrow> PodContainer" where
  "buildPnpmInitContainer inst =
     (blankContainer ''init-pnpm'' (GetImage inst) (getPullPolicy inst))
       \<lparr>con_Command := shellCommand (sh (joinLines
          [''set -e'', ''INSTALL_DIR=/home/openclaw/.openclaw/.local'', ''mkdir -p `$INSTALL_DIR/bin`'',
           ''if [ -x `$INSTALL_DIR/bin/pnpm` ]; then echo `pnpm already installed`; exit 0; fi'',
           ''export COREPACK_HOME=`$INSTALL_DIR/corepack`'',
           ''corepack enable pnpm --install-directory `$INSTALL_DIR/bin`'', ''pnpm --version''])),
        con_Env := [envVal ''HOME'' ''/tmp'', envVal ''NPM_CONFIG_CACHE'' ''/tmp/.npm''] @ caEnv inst ''NODE_EXTRA_CA_CERTS'',
        pc_Security := Some (restricted False (podRunAsNonRoot inst) None),
        con_VolumeMounts := [mnt ''data'' ''/home/openclaw/.openclaw'', mnt ''pnpm-tmp'' ''/tmp''] @ caMounts inst\<rparr>"

definition buildPythonInitContainer :: "OpenClawInstance \<Rightarrow> PodContainer" where
  "buildPythonInitContainer inst =
     (blankContainer ''init-python'' (GetUVImage inst) PullIfNotPresent)
       \<lparr>con_Command := shellCommand (sh (joinLines
          [''set -e'', ''INSTALL_DIR=/home/openclaw/.openclaw/.local'', ''mkdir -p `$INSTALL_DIR/bin`'',
           ''if [ -x `$INSTALL_DIR/bin/python3` ]; then echo `Python already installed`; exit 0; fi'',
           ''export UV_PYTHON_INSTALL_DIR=`$INSTALL_DIR/python`'', ''uv python install 3.12'',
           ''ln -sf `$INSTALL_DIR/python/`cpython-3.12*/bin/python3 `$INSTALL_DIR/bin/python3`'',
           ''ln -sf `$INSTALL_DIR/python/`cpython-3.12*/bin/python3 `$INSTALL_DIR/bin/python`'',
           ''cp /usr/local/bin/uv `$INSTALL_DIR/bin/uv`'', ''python3 --version'', ''uv --version''])),
        con_Env := [envVal ''HOME'' ''/tmp'', envVal ''XDG_CACHE_HOME'' ''/tmp/.cache''] @ caEnv inst ''SSL_CERT_FILE'',
        pc_Security := Some (restricted False (podRunAsNonRoot inst) None),
        con_VolumeMounts := [mnt ''data'' ''/home/openclaw/.openclaw'', mnt ''python-tmp'' ''/tmp''] @ caMounts inst\<rparr>"

definition buildSkillsInitContainer :: "OpenClawInstance \<Rightarrow> PodContainer option" where
  "buildSkillsInitContainer inst =
     (let script = BuildSkillsScript inst
      in if script = [] then None
         else Some
           ((blankContainer ''init-skills'' (GetImage inst) (getPullPolicy inst))
             \<lparr>con_Command := shellCommand script,
              con_Env := [envVal ''HOME'' ''/tmp'', envVal ''NPM_CONFIG_CACHE'' ''/tmp/.npm'',
                          envVal ''NPM_CONFIG_PREFIX'' ''/home/openclaw/.openclaw/.local'',
                          envVal ''NPM_CONFIG_IGNORE_SCRIPTS'' ''true'']
                         @ caEnv inst ''NODE_EXTRA_CA_CERTS'' @ spec_Env (oci_Spec inst),
              pc_EnvFrom := spec_EnvFrom (oci_Spec inst),
              pc_Security := Some (restricted False (podRunAsNonRoot inst) None),
              con_VolumeMounts := [mnt ''data'' ''/home/openclaw/.openclaw'', mnt ''skills-tmp'' ''/tmp''] @ caMounts inst\<rparr>))"

section \<open>Plugins\<close>

definition pluginScratchVolume :: string where "pluginScratchVolume = ''plugin-scratch''"

definition pluginInstallReadOnly :: "OpenClawInstance \<Rightarrow> bool" where
  "pluginInstallReadOnly inst =
     (case spec_PluginInstall (oci_Spec inst) of None \<Rightarrow> False | Some p \<Rightarrow> pi_ReadOnlyRootFilesystem p)"

definition hasPlugins :: "OpenClawInstance \<Rightarrow> bool" where
  "hasPlugins inst = (spec_Plugins (oci_Spec inst) \<noteq> [] \<or> spec_VerifiedPlugins (oci_Spec inst) \<noteq> [])"

text \<open>\<^verbatim>\<open>sort.Slice\<close> by package; pins of the same package keep no particular order in Go.\<close>

definition pinJSON :: "VerifiedPluginSpec \<Rightarrow> string" where
  "pinJSON p =
     ''{'' @ joinStr '',''
       ([jsonQuote ''package'' @ '':'' @ jsonQuote (vp_Package p), jsonQuote ''version'' @ '':'' @ jsonQuote (vp_Version p),
         jsonQuote ''integrity'' @ '':'' @ jsonQuote (vp_Integrity p)]
        @ (if vp_AcceptCapabilities p then [jsonQuote ''acceptCapabilities'' @ '':true''] else [])) @ ''}''"

definition verifiedPluginArgs :: "OpenClawInstance \<Rightarrow> string list" where
  "verifiedPluginArgs inst =
     (let pins = spec_VerifiedPlugins (oci_Spec inst)
      in [if pins = [] then ''null'' else jsonArray (map pinJSON (sort_key vp_Package pins))])"

definition inheritsEnv :: "OpenClawInstance \<Rightarrow> bool" where
  "inheritsEnv inst =
     (case spec_PluginInstall (oci_Spec inst) of None \<Rightarrow> True | Some p \<Rightarrow> defaultTrue (pi_InheritEnv p))"

definition buildPluginsInitContainer :: "PodParams \<Rightarrow> OpenClawInstance \<Rightarrow> PodContainer option" where
  "buildPluginsInitContainer pp inst =
     (if \<not> hasPlugins inst then None
      else let verified = (spec_VerifiedPlugins (oci_Spec inst) \<noteq> [])
      in Some
        ((blankContainer ''init-plugins'' (GetImage inst) (getPullPolicy inst))
          \<lparr>con_Command := (if verified then [''node'', ''--input-type=module'', ''--eval'', pp_Installer pp]
                          else shellCommand (BuildPluginsScript inst)),
           con_Args := (if verified then verifiedPluginArgs inst else []),
           con_Env := [envVal ''HOME'' ''/home/openclaw'', envVal ''NPM_CONFIG_PREFIX'' ''/home/openclaw/.local'',
                       envVal ''NPM_CONFIG_CACHE'' ''/home/openclaw/.cache/npm'', envVal ''NPM_CONFIG_IGNORE_SCRIPTS'' ''true'']
                      @ caEnv inst ''NODE_EXTRA_CA_CERTS'' @ (if inheritsEnv inst then spec_Env (oci_Spec inst) else []),
           pc_EnvFrom := (if inheritsEnv inst then spec_EnvFrom (oci_Spec inst) else []),
           pc_Resources := (case spec_PluginInstall (oci_Spec inst) of
                              None \<Rightarrow> NoResources | Some p \<Rightarrow> UserResources (pi_Resources p)),
           pc_Security := Some ((restricted (pluginInstallReadOnly inst) (podRunAsNonRoot inst)
                                   (sctx_RunAsUser (buildContainerSecurityContext inst)))\<lparr>sctx_Seccomp := []\<rparr>),
           con_VolumeMounts := [mnt ''data'' ''/home/openclaw/.openclaw'',
                                mntSub ''data'' ''/home/openclaw/.local'' ''.local'',
                                mntSub ''data'' ''/home/openclaw/.cache'' ''.cache''] @ caMounts inst
             @ (if pluginInstallReadOnly inst then [mntSub pluginScratchVolume ''/tmp'' ''private''] else [])\<rparr>))"

definition buildPluginScratchInitContainer :: "PodContainer \<Rightarrow> PodContainer" where
  "buildPluginScratchInitContainer installer =
     (blankContainer ''init-plugin-scratch'' (con_Image installer) (con_ImagePullPolicy installer))
       \<lparr>con_Command := [''node'', ''-e'',
          ''const fs = require('node:fs'); fs.mkdirSync('/scratch/private', {recursive: true, mode: 0o700}); ''
          @ ''fs.chmodSync('/scratch/private', 0o700);''],
        pc_Security := pc_Security installer, pc_Resources := pc_Resources installer,
        con_VolumeMounts := [mnt pluginScratchVolume ''/scratch'']\<rparr>"

section \<open>Sidecars\<close>

definition TailscaleStatePath :: string where "TailscaleStatePath = ''/tmp/tailscale''"
definition TailscaleSocketDir :: string where "TailscaleSocketDir = ''/var/run/tailscale''"
definition TailscaleSocketPath :: string where "TailscaleSocketPath = ''/var/run/tailscale/tailscaled.sock''"
definition TailscaleBinPath :: string where "TailscaleBinPath = ''/tailscale-bin''"
definition DefaultTailscaleAuthKeySecretKey :: string where "DefaultTailscaleAuthKeySecretKey = ''authkey''"

definition buildTailscaleResourceRequirements :: "PodParams \<Rightarrow> OpenClawInstance \<Rightarrow> ResourceRequirements" where
  "buildTailscaleResourceRequirements pp inst =
     resourcesOr pp (ts_Resources (spec_Tailscale (oci_Spec inst))) ''50m'' ''64Mi'' ''200m'' ''256Mi''"

definition buildTailscaleContainer :: "PodParams \<Rightarrow> OpenClawInstance \<Rightarrow> PodContainer" where
  "buildTailscaleContainer pp inst =
     (let ts = spec_Tailscale (oci_Spec inst)
      in (blankContainer ''tailscale'' (GetTailscaleImage inst) PullIfNotPresent)
       \<lparr>con_Env := [envVal ''TS_USERSPACE'' ''true'', envVal ''TS_STATE_DIR'' TailscaleStatePath,
                    envVal ''TS_SOCKET'' TailscaleSocketPath,
                    envVal ''TS_SERVE_CONFIG'' (''/etc/tailscale/serve/'' @ TailscaleServeConfigKey),
                    envVal ''TS_HOSTNAME'' (strOr (ts_Hostname ts) (oname inst)),
                    envVal ''TS_KUBE_SECRET'' (TailscaleStateSecretName inst)]
          @ (case ts_AuthKeySecretRef ts of
               None \<Rightarrow> []
             | Some secret \<Rightarrow> [envSecret ''TS_AUTHKEY'' secret (strOr (ts_AuthKeySecretKey ts) DefaultTailscaleAuthKeySecretKey)]),
        con_VolumeMounts := [mnt ''tailscale-socket'' TailscaleSocketDir,
          readOnly (mntSub ''config'' (''/etc/tailscale/serve/'' @ TailscaleServeConfigKey) TailscaleServeConfigKey),
          mnt ''tailscale-tmp'' ''/tmp''],
        pc_Resources := buildTailscaleResourceRequirements pp inst,
        pc_Security := Some (restricted True (podRunAsNonRoot inst) None)\<rparr>)"

definition buildTailscaleBinInitContainer :: "OpenClawInstance \<Rightarrow> PodContainer" where
  "buildTailscaleBinInitContainer inst =
     (blankContainer ''init-tailscale-bin'' (GetTailscaleImage inst) PullIfNotPresent)
       \<lparr>con_Command := shellCommand (''cp /usr/local/bin/tailscale '' @ TailscaleBinPath @ ''/tailscale''),
        con_VolumeMounts := [mnt ''tailscale-bin'' TailscaleBinPath],
        pc_Security := Some (restricted True (podRunAsNonRoot inst) None)\<rparr>"

definition NetBirdStateDir :: string where "NetBirdStateDir = ''/tmp/netbird''"
definition DefaultNetBirdSetupKeySecretKey :: string where "DefaultNetBirdSetupKeySecretKey = ''setupkey''"

definition buildNetBirdResourceRequirements :: "PodParams \<Rightarrow> OpenClawInstance \<Rightarrow> ResourceRequirements" where
  "buildNetBirdResourceRequirements pp inst =
     resourcesOr pp (nb_Resources (derefOr zero_NetBirdSpec (spec_NetBird (oci_Spec inst)))) ''50m'' ''64Mi'' ''200m'' ''256Mi''"

definition buildNetBirdContainer :: "PodParams \<Rightarrow> OpenClawInstance \<Rightarrow> PodContainer" where
  "buildNetBirdContainer pp inst =
     (let spec = spec_NetBird (oci_Spec inst);
          nb = derefOr zero_NetBirdSpec spec
      in (blankContainer ''netbird'' (GetNetBirdImage inst) PullIfNotPresent)
       \<lparr>con_Env := [envVal ''NB_USE_NETSTACK_MODE'' ''true'', envVal ''NB_STATE_DIR'' NetBirdStateDir,
                    envVal ''NB_CONFIG'' (NetBirdStateDir @ ''/config.json''), envVal ''NB_HOSTNAME'' (NetBirdHostname inst),
                    envVal ''NB_FOREGROUND_MODE'' ''true'']
          @ (if nb_ManagementURL nb \<noteq> [] then [envVal ''NB_MANAGEMENT_URL'' (nb_ManagementURL nb)] else [])
          @ (case nb_SetupKeySecretRef nb of
               None \<Rightarrow> []
             | Some secret \<Rightarrow> [envSecret ''NB_SETUP_KEY'' secret (strOr (nb_SetupKeySecretKey nb) DefaultNetBirdSetupKeySecretKey)]),
        con_VolumeMounts := [mnt ''netbird-state'' NetBirdStateDir],
        pc_Resources := buildNetBirdResourceRequirements pp inst,
        pc_Security := Some (restricted True (podRunAsNonRoot inst) None)\<rparr>)"

text \<open>The methods of the two mesh providers that shape the pod.\<close>

fun SidecarContainers :: "MeshProvider \<Rightarrow> PodParams \<Rightarrow> OpenClawInstance \<Rightarrow> PodContainer list" where
  "SidecarContainers tailscaleProvider pp inst = [buildTailscaleContainer pp inst]"
| "SidecarContainers netbirdProvider pp inst = [buildNetBirdContainer pp inst]"

fun InitContainers :: "MeshProvider \<Rightarrow> OpenClawInstance \<Rightarrow> PodContainer list" where
  "InitContainers tailscaleProvider inst = [buildTailscaleBinInitContainer inst]"
| "InitContainers netbirdProvider inst = []"

definition emptyDir :: json where "emptyDir = JObj [(''emptyDir'', JObj [])]"

definition emptyDirVolume :: "string \<Rightarrow> Volume" where
  "emptyDirVolume name = \<lparr>vol_Name = name, vol_Source = OtherSource emptyDir\<rparr>"

fun PodVolumes :: "MeshProvider \<Rightarrow> Volume list" where
  "PodVolumes tailscaleProvider = map emptyDirVolume [''tailscale-socket'', ''tailscale-bin'', ''tailscale-tmp'']"
| "PodVolumes netbirdProvider = [emptyDirVolume ''netbird-state'']"

fun MainContainerMounts :: "MeshProvider \<Rightarrow> VolumeMount list" where
  "MainContainerMounts tailscaleProvider =
     [readOnly (mnt ''tailscale-socket'' TailscaleSocketDir), readOnly (mnt ''tailscale-bin'' TailscaleBinPath)]"
| "MainContainerMounts netbirdProvider = []"

fun MainContainerEnv :: "MeshProvider \<Rightarrow> EnvVar list" where
  "MainContainerEnv tailscaleProvider = [envVal ''TS_SOCKET'' TailscaleSocketPath]"
| "MainContainerEnv netbirdProvider = []"

fun BinPathPrefixes :: "MeshProvider \<Rightarrow> string list" where
  "BinPathPrefixes tailscaleProvider = [TailscaleBinPath]"
| "BinPathPrefixes netbirdProvider = []"

definition ofMesh :: "OpenClawInstance \<Rightarrow> (MeshProvider \<Rightarrow> 'a list) \<Rightarrow> 'a list" where
  "ofMesh inst f = (case ActiveMeshProvider inst of None \<Rightarrow> [] | Some mesh \<Rightarrow> f mesh)"

definition buildGatewayProxyResourceRequirements :: "PodParams \<Rightarrow> OpenClawInstance \<Rightarrow> ResourceRequirements" where
  "buildGatewayProxyResourceRequirements pp inst =
     resourcesOr pp (gw_Resources (spec_Gateway (oci_Spec inst))) ''10m'' ''16Mi'' ''100m'' ''64Mi''"

definition buildGatewayProxyContainer :: "PodParams \<Rightarrow> OpenClawInstance \<Rightarrow> PodContainer" where
  "buildGatewayProxyContainer pp inst =
     (blankContainer ''gateway-proxy'' (GetGatewayProxyImage inst) PullIfNotPresent)
       \<lparr>pc_Ports := [portTCP ''gw-proxy'' GatewayProxyPort, portTCP ''canvas-proxy'' CanvasProxyPort],
        con_VolumeMounts := [readOnly (mntSub ''config'' ''/etc/nginx/nginx.conf'' NginxConfigKey), mnt ''gateway-proxy-tmp'' ''/tmp''],
        pc_Resources := buildGatewayProxyResourceRequirements pp inst,
        pc_Security := Some (restricted True True (Some 101))\<rparr>"

text \<open>\<open>repo:tag\<close>, or \<open>repo@digest\<close> when there is a digest, under the registry override.\<close>

definition sidecarImage :: "OpenClawInstance \<Rightarrow> string \<Rightarrow> string \<Rightarrow> string \<Rightarrow> string" where
  "sidecarImage inst repo tag digest =
     ApplyRegistryOverride (if digest \<noteq> [] then repo @ ''@'' @ digest else repo @ '':'' @ tag) (spec_Registry (oci_Spec inst))"

definition DefaultChromiumImage :: string where "DefaultChromiumImage = ''docker.io/chromedp/headless-shell''"
definition DeprecatedChromiumImage :: string where "DeprecatedChromiumImage = ''ghcr.io/browserless/chromium''"
definition LegacyChromiumImage :: string where "LegacyChromiumImage = ''chromedp/headless-shell''"
definition DefaultChromiumTag :: string where "DefaultChromiumTag = ''stable''"
definition OllamaPort :: int where "OllamaPort = 11434"
definition DefaultOllamaImage :: string where "DefaultOllamaImage = ''docker.io/ollama/ollama''"
definition LegacyOllamaImage :: string where "LegacyOllamaImage = ''ollama/ollama''"
definition DefaultWebTerminalImage :: string where "DefaultWebTerminalImage = ''docker.io/tsl0922/ttyd''"
definition LegacyWebTerminalImage :: string where "LegacyWebTerminalImage = ''tsl0922/ttyd''"
definition DefaultOTelCollectorImage :: string where
  "DefaultOTelCollectorImage = ''docker.io/otel/opentelemetry-collector''"
definition DefaultOTelCollectorTag :: string where "DefaultOTelCollectorTag = ''0.120.0''"

definition ChromiumEntrypointCommand :: "string list" where
  "ChromiumEntrypointCommand =
     [''/bin/bash'', ''-c'',
      joinLines [''exec socat TCP4-LISTEN:9222,fork TCP4:127.0.0.1:9223 &'',
        sh (''exec /headless-shell/headless-shell --no-sandbox --use-gl=angle --use-angle=swiftshader ''
            @ ''--remote-debugging-address=0.0.0.0 --remote-debugging-port=9223 `$@`'')],
      ''--'']"

text \<open>Stored defaults of earlier versions stand for the present image.\<close>

definition chromiumRepo :: "OpenClawInstance \<Rightarrow> string" where
  "chromiumRepo inst =
     (let repo = strOr (si_Repository (ch_Image (spec_Chromium (oci_Spec inst)))) DefaultChromiumImage
      in if repo = DeprecatedChromiumImage \<or> repo = LegacyChromiumImage then DefaultChromiumImage else repo)"

definition chromiumTag :: "OpenClawInstance \<Rightarrow> string" where
  "chromiumTag inst =
     (let isDefault = (chromiumRepo inst = DefaultChromiumImage);
          tag = strOr (si_Tag (ch_Image (spec_Chromium (oci_Spec inst))))
                  (if isDefault then DefaultChromiumTag else DefaultImageTag)
      in if isDefault \<and> tag = DefaultImageTag then DefaultChromiumTag else tag)"

definition buildChromiumResourceRequirements :: "PodParams \<Rightarrow> OpenClawInstance \<Rightarrow> ResourceRequirements" where
  "buildChromiumResourceRequirements pp inst =
     resourcesOr pp (ch_Resources (spec_Chromium (oci_Spec inst))) ''250m'' ''512Mi'' ''1000m'' ''2Gi''"

definition buildChromiumContainer :: "PodParams \<Rightarrow> OpenClawInstance \<Rightarrow> PodContainer" where
  "buildChromiumContainer pp inst =
     (let ch = spec_Chromium (oci_Spec inst)
      in (blankContainer ''chromium''
            (sidecarImage inst (chromiumRepo inst) (chromiumTag inst) (si_Digest (ch_Image ch))) PullIfNotPresent)
       \<lparr>con_Command := (if chromiumRepo inst = DefaultChromiumImage then ChromiumEntrypointCommand else []),
        con_Args := ChromiumArgs inst,
        pc_Security := Some (restricted False True (Some 65534)),
        pc_Ports := [portTCP ''cdp'' ChromiumPort],
        pc_Resources := buildChromiumResourceRequirements pp inst,
        con_Env := envVal ''HOME'' ''/tmp'' # ch_ExtraEnv ch,
        con_VolumeMounts := [mnt ''chromium-tmp'' ''/tmp'', mnt ''chromium-shm'' ''/dev/shm'',
                             mnt ''chromium-data'' ''/chromium-data''] @ caMounts inst,
        pc_Startup := Some \<lparr>prb_Handler = HTTPGet ''/json/version'' ChromiumPort [], prb_InitialDelaySeconds = 1,
          prb_PeriodSeconds = 2, prb_TimeoutSeconds = 5, prb_SuccessThreshold = 1, prb_FailureThreshold = 15\<rparr>\<rparr>)"

definition ollamaImage :: "OpenClawInstance \<Rightarrow> string" where
  "ollamaImage inst =
     (let im = ol_Image (spec_Ollama (oci_Spec inst));
          repo = strOr (si_Repository im) DefaultOllamaImage;
          repo = (if repo = LegacyOllamaImage then DefaultOllamaImage else repo)
      in sidecarImage inst repo (strOr (si_Tag im) DefaultImageTag) (si_Digest im))"

definition buildOllamaResourceRequirements :: "PodParams \<Rightarrow> OpenClawInstance \<Rightarrow> ResourceRequirements" where
  "buildOllamaResourceRequirements pp inst =
     (let ol = spec_Ollama (oci_Spec inst);
          gpu = (case ol_GPU ol of
                   Some n \<Rightarrow> if 0 < n then [(''nvidia.com/gpu'', ParseQuantity (pp_ValidQuantity pp) (intStr n) ''0'')] else []
                 | None \<Rightarrow> [])
      in case resourcesOr pp (ol_Resources ol) ''500m'' ''1Gi'' ''2000m'' ''4Gi'' of
           Quantities requests limits \<Rightarrow> Quantities (requests @ gpu) (limits @ gpu)
         | r \<Rightarrow> r)"

definition ollamaBase :: "PodParams \<Rightarrow> OpenClawInstance \<Rightarrow> string \<Rightarrow> PodContainer" where
  "ollamaBase pp inst name =
     (blankContainer name (ollamaImage inst) PullIfNotPresent)
       \<lparr>pc_Security := Some (restricted False False (Some 0)),
        pc_Resources := buildOllamaResourceRequirements pp inst,
        con_VolumeMounts := [mnt ''ollama-models'' ''/root/.ollama'']\<rparr>"

definition buildOllamaContainer :: "PodParams \<Rightarrow> OpenClawInstance \<Rightarrow> PodContainer" where
  "buildOllamaContainer pp inst = (ollamaBase pp inst ''ollama'')\<lparr>pc_Ports := [portTCP ''ollama'' OllamaPort]\<rparr>"

definition ollamaPullScript :: "string list \<Rightarrow> string" where
  "ollamaPullScript models =
     ''ollama serve & sleep 2 && '' @ joinStr '' && '' (map (\<lambda>m. ''ollama pull '' @ shellQuote m) models)
     @ ''; kill %1 2>/dev/null; exit 0''"

definition buildOllamaModelPullInitContainer :: "PodParams \<Rightarrow> OpenClawInstance \<Rightarrow> PodContainer" where
  "buildOllamaModelPullInitContainer pp inst =
     (ollamaBase pp inst ''init-ollama'')
       \<lparr>con_Command := shellCommand (ollamaPullScript (ol_Models (spec_Ollama (oci_Spec inst))))\<rparr>"

definition webTerminalImage :: "OpenClawInstance \<Rightarrow> string" where
  "webTerminalImage inst =
     (let im = wt_Image (spec_WebTerminal (oci_Spec inst));
          repo = strOr (si_Repository im) DefaultWebTerminalImage;
          repo = (if repo = LegacyWebTerminalImage then DefaultWebTerminalImage else repo)
      in sidecarImage inst repo (strOr (si_Tag im) DefaultImageTag) (si_Digest im))"

definition buildWebTerminalResourceRequirements :: "PodParams \<Rightarrow> OpenClawInstance \<Rightarrow> ResourceRequirements" where
  "buildWebTerminalResourceRequirements pp inst =
     resourcesOr pp (wt_Resources (spec_WebTerminal (oci_Spec inst))) ''50m'' ''64Mi'' ''200m'' ''128Mi''"

definition buildWebTerminalContainer :: "PodParams \<Rightarrow> OpenClawInstance \<Rightarrow> PodContainer" where
  "buildWebTerminalContainer pp inst =
     (let wt = spec_WebTerminal (oci_Spec inst);
          flags = (if wt_ReadOnly wt then ''-R'' else ''-W'')
                  # (if wt_Credential wt \<noteq> None then [sh ''-c `${TTYD_USERNAME}:${TTYD_PASSWORD}`''] else [])
      in (blankContainer ''web-terminal'' (webTerminalImage inst) PullIfNotPresent)
       \<lparr>con_Command := shellCommand (''exec ttyd '' @ joinStr '' '' flags @ '' sh''),
        pc_Security := Some (restricted False (podRunAsNonRoot inst) (Some 1000)),
        pc_Ports := [portTCP ''web-terminal'' WebTerminalPort],
        pc_Resources := buildWebTerminalResourceRequirements pp inst,
        con_Env := (case wt_Credential wt of
                      None \<Rightarrow> []
                    | Some cr \<Rightarrow> [envSecret ''TTYD_USERNAME'' (wtc_SecretRef cr) ''username'',
                                envSecret ''TTYD_PASSWORD'' (wtc_SecretRef cr) ''password'']),
        con_VolumeMounts := [(mnt ''data'' ''/home/openclaw/.openclaw'')\<lparr>vm_ReadOnly := wt_ReadOnly wt\<rparr>,
                             mnt ''web-terminal-tmp'' ''/tmp'']\<rparr>)"

definition getOTelCollectorImage :: "OpenClawInstance \<Rightarrow> string" where
  "getOTelCollectorImage inst =
     (let im = otel_Image (met_Collector (obs_Metrics (spec_Observability (oci_Spec inst))))
      in sidecarImage inst (strOr (si_Repository im) DefaultOTelCollectorImage) (strOr (si_Tag im) DefaultOTelCollectorTag)
           (si_Digest im))"

definition buildOTelCollectorResourceRequirements :: "PodParams \<Rightarrow> OpenClawInstance \<Rightarrow> ResourceRequirements" where
  "buildOTelCollectorResourceRequirements pp inst =
     resourcesOr pp (otel_Resources (met_Collector (obs_Metrics (spec_Observability (oci_Spec inst))))) ''25m'' ''32Mi'' ''100m'' ''128Mi''"

definition buildOTelCollectorContainer :: "PodParams \<Rightarrow> OpenClawInstance \<Rightarrow> PodContainer" where
  "buildOTelCollectorContainer pp inst =
     (blankContainer ''otel-collector'' (getOTelCollectorImage inst) PullIfNotPresent)
       \<lparr>con_Args := [''--config=/etc/otel-collector/'' @ OTelCollectorConfigKey],
        pc_Security := Some (restricted True True None),
        pc_Ports := [portTCP MetricsPortName (MetricsPort inst)],
        pc_Resources := buildOTelCollectorResourceRequirements pp inst,
        con_VolumeMounts := [readOnly (mnt ''otel-collector-config'' ''/etc/otel-collector'')]\<rparr>"

section \<open>Probes\<close>

definition probeTargetPort :: "OpenClawInstance \<Rightarrow> int" where
  "probeTargetPort inst = (if IsGatewayProxyEnabled inst then GatewayProxyPort else GatewayPort)"

definition buildHTTPProbeHandler :: "string \<Rightarrow> OpenClawInstance \<Rightarrow> ProbeHandler" where
  "buildHTTPProbeHandler probePath inst = HTTPGet probePath (probeTargetPort inst) URISchemeHTTP"

definition WorkspaceDataMountPath :: string where "WorkspaceDataMountPath = ''/home/openclaw/.openclaw''"
definition DefaultDiskReadinessMinFree :: string where "DefaultDiskReadinessMinFree = ''64Mi''"

definition diskPathLine :: "string \<Rightarrow> string" where
  "diskPathLine mountPath = ''p='' @ squote @ mountPath @ squote"

definition diskScript :: "string \<Rightarrow> int \<Rightarrow> int \<Rightarrow> string" where
  "diskScript mountPath minFreeKiB port =
     joinLines
       [''set -e'', diskPathLine mountPath, sh ''[ -w `$p` ] || exit 1'',
        sh ''avail_kib=$(df -Pk `$p` 2>/dev/null | awk 'NR==2 {print $4}')'', sh ''[ -n `$avail_kib` ] || exit 1'',
        sh ''[ `$avail_kib` -ge '' @ intStr minFreeKiB @ '' ] || exit 1'',
        ''if command -v curl >/dev/null 2>&1; then'',
        sh ''  curl -fsS -o /dev/null --max-time 3 `http://127.0.0.1:'' @ intStr port @ sh ''/readyz`'',
        ''elif command -v wget >/dev/null 2>&1; then'',
        sh ''  wget -q -O /dev/null -T 3 `http://127.0.0.1:'' @ intStr port @ sh ''/readyz`'', ''fi'', []]"

text \<open>Go's division truncates; the threshold is rounded up to a whole KiB.\<close>

definition minFreeKiB :: "PodParams \<Rightarrow> DiskReadinessSpec \<Rightarrow> int" where
  "minFreeKiB pp dr =
     (let v = pp_QuantityValue pp (ParseQuantity (pp_ValidQuantity pp) (dr_MinFree dr) DefaultDiskReadinessMinFree) + 1023
      in sgn v * (\<bar>v\<bar> div 1024))"

definition buildDiskReadinessHandler :: "PodParams \<Rightarrow> DiskReadinessSpec \<Rightarrow> OpenClawInstance \<Rightarrow> ProbeHandler" where
  "buildDiskReadinessHandler pp dr inst =
     Exec (shellCommand (diskScript (strOr (dr_Path dr) WorkspaceDataMountPath) (minFreeKiB pp dr) (probeTargetPort inst)))"

text \<open>A probe with its settings: initial delay, period, time-out and failure threshold.\<close>

definition probeSpec :: "OpenClawInstance \<Rightarrow> (ProbesSpec \<Rightarrow> ProbeSpec option) \<Rightarrow> ProbeSpec option" where
  "probeSpec inst sel = (case spec_Probes (oci_Spec inst) of None \<Rightarrow> None | Some ps \<Rightarrow> sel ps)"

definition builtProbe :: "ProbeSpec option \<Rightarrow> ProbeHandler \<Rightarrow> int \<Rightarrow> int \<Rightarrow> int \<Rightarrow> int \<Rightarrow> Probe option" where
  "builtProbe spec handler delay period timeout failures =
     (let ps = derefOr zero_ProbeSpec spec
      in if probe_Enabled ps = Some False then None
         else Some \<lparr>prb_Handler = handler,
                prb_InitialDelaySeconds = derefOr delay (probe_InitialDelaySeconds ps),
                prb_PeriodSeconds = derefOr period (probe_PeriodSeconds ps),
                prb_TimeoutSeconds = derefOr timeout (probe_TimeoutSeconds ps), prb_SuccessThreshold = 1,
                prb_FailureThreshold = derefOr failures (probe_FailureThreshold ps)\<rparr>)"

definition buildLivenessProbe :: "OpenClawInstance \<Rightarrow> Probe option" where
  "buildLivenessProbe inst =
     builtProbe (probeSpec inst probes_Liveness) (buildHTTPProbeHandler ''/healthz'' inst) 30 10 5 3"

definition buildReadinessProbe :: "PodParams \<Rightarrow> OpenClawInstance \<Rightarrow> Probe option" where
  "buildReadinessProbe pp inst =
     builtProbe (probeSpec inst probes_Readiness)
       (case (case spec_Probes (oci_Spec inst) of None \<Rightarrow> None | Some ps \<Rightarrow> probes_DiskReadiness ps) of
          Some dr \<Rightarrow> if dr_Enabled dr = Some True then buildDiskReadinessHandler pp dr inst
                     else buildHTTPProbeHandler ''/readyz'' inst
        | None \<Rightarrow> buildHTTPProbeHandler ''/readyz'' inst) 5 5 3 3"

definition buildStartupProbe :: "OpenClawInstance \<Rightarrow> Probe option" where
  "buildStartupProbe inst =
     builtProbe (probeSpec inst probes_Startup) (buildHTTPProbeHandler ''/healthz'' inst) 5 5 3 60"

section \<open>The main container\<close>

definition buildMainContainerPorts :: "ContainerPort list" where
  "buildMainContainerPorts = [portTCP ''gateway'' GatewayPort, portTCP ''canvas'' CanvasPort]"

definition hasUserEnv :: "OpenClawInstance \<Rightarrow> string \<Rightarrow> bool" where
  "hasUserEnv inst name = list_ex (\<lambda>e. ev_Name e = name) (spec_Env (oci_Spec inst))"

definition DefaultHandshakeTimeoutMs :: int where "DefaultHandshakeTimeoutMs = 10000"
definition RuntimeDepsLocalBin :: string where "RuntimeDepsLocalBin = ''/home/openclaw/.openclaw/.local/bin''"

definition hasRuntimeDeps :: "OpenClawInstance \<Rightarrow> bool" where
  "hasRuntimeDeps inst = (rd_Pnpm (spec_RuntimeDeps (oci_Spec inst)) \<or> rd_Python (spec_RuntimeDeps (oci_Spec inst)))"

definition pathEnv :: "OpenClawInstance \<Rightarrow> EnvVar list" where
  "pathEnv inst =
     (let meshBinPaths = ofMesh inst BinPathPrefixes;
          hasNpmBins = (hasNpmSkills (spec_Skills (oci_Spec inst)) \<or> hasWorkspaceNpmSkills inst);
          prefixes = meshBinPaths @ (if hasRuntimeDeps inst \<or> hasNpmBins then [RuntimeDepsLocalBin] else [])
      in if hasRuntimeDeps inst \<or> meshBinPaths \<noteq> [] \<or> hasNpmBins
         then [envVal ''PATH'' (joinStr '':'' (prefixes @ [''/usr/local/sbin:/usr/local/bin:/usr/sbin:/usr/bin:/sbin:/bin'']))]
         else [])"

definition buildMainEnv :: "OpenClawInstance \<Rightarrow> string \<Rightarrow> EnvVar list" where
  "buildMainEnv inst gatewayTokenSecretName =
     [envVal ''HOME'' ''/home/openclaw'', envVal ''OPENCLAW_DISABLE_BONJOUR'' ''1'',
      envVal ''OPENCLAW_GATEWAY_HANDSHAKE_TIMEOUT_MS'' (intStr DefaultHandshakeTimeoutMs),
      envVal ''NPM_CONFIG_PREFIX'' ''/home/openclaw/.local'', envVal ''NPM_CONFIG_CACHE'' ''/home/openclaw/.cache/npm'',
      envVal ''PIP_USER'' ''1'']
     @ (if ch_Enabled (spec_Chromium (oci_Spec inst))
        then [envVal ''OPENCLAW_CHROMIUM_CDP'' (''http://127.0.0.1:'' @ intStr ChromiumPort)] else [])
     @ (if ol_Enabled (spec_Ollama (oci_Spec inst))
        then [envVal ''OLLAMA_HOST'' (''http://localhost:'' @ intStr OllamaPort)] else [])
     @ (if gatewayTokenSecretName \<noteq> [] \<and> \<not> hasUserEnv inst ''OPENCLAW_GATEWAY_TOKEN''
        then [envSecret ''OPENCLAW_GATEWAY_TOKEN'' gatewayTokenSecretName GatewayTokenSecretKey] else [])
     @ ofMesh inst MainContainerEnv
     @ (if scf_Enabled (spec_SelfConfigure (oci_Spec inst))
        then [envVal ''OPENCLAW_INSTANCE_NAME'' (oname inst), envVal ''OPENCLAW_NAMESPACE'' (onamespace inst)] else [])
     @ (if hasPlugins inst then [envVal ''NODE_PATH'' ''/home/openclaw/.openclaw/node_modules''] else [])
     @ pathEnv inst @ spec_Env (oci_Spec inst)"

definition mainMounts :: "OpenClawInstance \<Rightarrow> VolumeMount list" where
  "mainMounts inst =
     [mnt ''data'' ''/home/openclaw/.openclaw'', mntSub ''data'' ''/home/openclaw/.local'' ''.local'',
      mntSub ''data'' ''/home/openclaw/.cache'' ''.cache'', mntSub ''data'' ''/home/openclaw/.config'' ''.config'',
      mnt ''tmp'' ''/tmp'']
     @ caMounts inst @ ofMesh inst MainContainerMounts @ spec_ExtraVolumeMounts (oci_Spec inst)
     @ (if hasClawHubSkills (FilterNonPackSkills (spec_Skills (oci_Spec inst)))
        then [mntSub ''data'' ''/app/skills'' ''skills''] else [])
     @ [readOnly (mnt ''config'' ''/operator-config'')]"

definition buildResourceRequirements :: "PodParams \<Rightarrow> OpenClawInstance \<Rightarrow> ResourceRequirements" where
  "buildResourceRequirements pp inst =
     resourcesOr pp (spec_Resources (oci_Spec inst)) ''500m'' ''1Gi'' ''2000m'' ''4Gi''"

definition buildMainContainer :: "PodParams \<Rightarrow> OpenClawInstance \<Rightarrow> string \<Rightarrow> PodContainer" where
  "buildMainContainer pp inst gatewayTokenSecretName =
     (blankContainer ''openclaw'' (GetImage inst) (getPullPolicy inst))
       \<lparr>pc_Security := Some (withGroup (buildContainerSecurityContext inst) None),
        pc_Ports := buildMainContainerPorts,
        con_Env := buildMainEnv inst gatewayTokenSecretName @ caEnv inst ''NODE_EXTRA_CA_CERTS'',
        pc_EnvFrom := spec_EnvFrom (oci_Spec inst),
        pc_Resources := buildResourceRequirements pp inst,
        con_VolumeMounts := mainMounts inst,
        pc_PostStart := (let cmd = buildConfigRestoreCommand inst in if cmd \<noteq> [] then Some (shellCommand cmd) else None),
        pc_Liveness := buildLivenessProbe inst, pc_Readiness := buildReadinessProbe pp inst,
        pc_Startup := buildStartupProbe inst\<rparr>"

end
