(* ===== verification/StatefulSet.thy ===== *)
theory StatefulSet
  imports Pod
begin

text \<open>
  The StatefulSet (internal/resources/statefulset.go): its volumes, the lists of containers and init
  containers, the hash of the configuration, and \<^verbatim>\<open>NormalizeStatefulSet\<close>. A container of the
  pod is one the operator builds (\<open>Own\<close>) or one of the spec (\<open>Given\<close>).
\<close>

section \<open>Volumes\<close>

definition claimVolume :: "string \<Rightarrow> string \<Rightarrow> Volume" where
  "claimVolume name claim = \<lparr>vol_Name = name, vol_Source = PVCSource claim\<rparr>"

text \<open>File mode 0644 (420) as a JSON number.\<close>

definition mode0644 :: json where "mode0644 = JNum 0x407A400000000000"

definition configMapVolume :: "string \<Rightarrow> string \<Rightarrow> (string \<times> json) list \<Rightarrow> Volume" where
  "configMapVolume name cm items =
     \<lparr>vol_Name = name, vol_Source = OtherSource (JObj [(''configMap'',
        JObj ([(''name'', JStr cm), (''defaultMode'', mode0644)] @ items))])\<rparr>"

definition secretVolume :: "string \<Rightarrow> string \<Rightarrow> Volume" where
  "secretVolume name secret =
     \<lparr>vol_Name = name, vol_Source = OtherSource (JObj [(''secret'',
        JObj [(''secretName'', JStr secret), (''defaultMode'', mode0644)])])\<rparr>"

definition limitedDir :: "string \<Rightarrow> (string \<times> json) list \<Rightarrow> Volume" where
  "limitedDir name fs = \<lparr>vol_Name = name, vol_Source = OtherSource (JObj [(''emptyDir'', JObj fs)])\<rparr>"

definition dataVolumes :: "OpenClawInstance \<Rightarrow> Volume list" where
  "dataVolumes inst =
     (if IsPersistenceEnabled inst \<and> IsHPAEnabled inst then []
      else if IsPersistenceEnabled inst
        then [claimVolume ''data'' (strOr (pers_ExistingClaim (stor_Persistence (spec_Storage (oci_Spec inst)))) (PVCName inst))]
      else [emptyDirVolume ''data''])"

definition configVolumes :: "OpenClawInstance \<Rightarrow> Volume list" where
  "configVolumes inst =
     [configMapVolume ''config'' (ConfigMapName inst) []]
     @ (if IsMetricsEnabled inst
        then [configMapVolume ''otel-collector-config'' (ConfigMapName inst)
                [(''items'', JArr [JObj [(''key'', JStr OTelCollectorConfigKey), (''path'', JStr OTelCollectorConfigKey)]])]]
        else [])
     @ (if hasWorkspaceFiles inst then [configMapVolume ''workspace-init'' (WorkspaceConfigMapName inst) []] else [])"

definition scratchLimit :: "OpenClawInstance \<Rightarrow> json" where
  "scratchLimit inst =
     (case spec_PluginInstall (oci_Spec inst) of
        None \<Rightarrow> JStr ''128Mi''
      | Some p \<Rightarrow> derefOr (JStr ''128Mi'') (jlookup (pi_Resources p) [''limits'', ''ephemeral-storage'']))"

definition scratchVolumes :: "OpenClawInstance \<Rightarrow> Volume list" where
  "scratchVolumes inst =
     (if spec_Skills (oci_Spec inst) \<noteq> [] \<or> hasWorkspaceSkills inst then [emptyDirVolume ''skills-tmp''] else [])
     @ (if hasPlugins inst \<and> pluginInstallReadOnly inst
        then [limitedDir pluginScratchVolume [(''sizeLimit'', scratchLimit inst)]] else [])
     @ (if rd_Pnpm (spec_RuntimeDeps (oci_Spec inst)) then [emptyDirVolume ''pnpm-tmp''] else [])
     @ (if rd_Python (spec_RuntimeDeps (oci_Spec inst)) then [emptyDirVolume ''python-tmp''] else [])
     @ (if usesNode inst then [emptyDirVolume ''init-tmp''] else [])
     @ [emptyDirVolume ''tmp'']
     @ (if IsGatewayProxyEnabled inst then [emptyDirVolume ''gateway-proxy-tmp''] else [])"

definition chromiumVolumes :: "OpenClawInstance \<Rightarrow> Volume list" where
  "chromiumVolumes inst =
     (let p = ch_Persistence (spec_Chromium (oci_Spec inst))
      in if ch_Enabled (spec_Chromium (oci_Spec inst))
         then [emptyDirVolume ''chromium-tmp'',
               limitedDir ''chromium-shm'' [(''medium'', JStr ''Memory''), (''sizeLimit'', JStr ''1Gi'')],
               (if chp_Enabled p then claimVolume ''chromium-data'' (strOr (chp_ExistingClaim p) (ChromiumPVCName inst))
                else emptyDirVolume ''chromium-data'')]
         else [])"

definition ollamaVolumes :: "PodParams \<Rightarrow> OpenClawInstance \<Rightarrow> Volume list" where
  "ollamaVolumes pp inst =
     (let ol = spec_Ollama (oci_Spec inst)
      in if \<not> ol_Enabled ol then []
         else if ols_ExistingClaim (ol_Storage ol) \<noteq> [] then [claimVolume ''ollama-models'' (ols_ExistingClaim (ol_Storage ol))]
         else [limitedDir ''ollama-models''
                 [(''sizeLimit'', JStr (ParseQuantity (pp_ValidQuantity pp) (ols_SizeLimit (ol_Storage ol)) ''20Gi''))]])"

definition caVolumes :: "OpenClawInstance \<Rightarrow> Volume list" where
  "caVolumes inst =
     (case sec_CABundle (spec_Security (oci_Spec inst)) of
        None \<Rightarrow> []
      | Some cab \<Rightarrow>
          if cab_ConfigMapName cab \<noteq> [] then [configMapVolume ''ca-bundle'' (cab_ConfigMapName cab) []]
          else if cab_SecretName cab \<noteq> [] then [secretVolume ''ca-bundle'' (cab_SecretName cab)]
          else [])"

definition operatorVolumes :: "PodParams \<Rightarrow> OpenClawInstance \<Rightarrow> Volume list" where
  "operatorVolumes pp inst =
     dataVolumes inst @ configVolumes inst @ scratchVolumes inst @ ofMesh inst PodVolumes @ chromiumVolumes inst
     @ ollamaVolumes pp inst
     @ (if wt_Enabled (spec_WebTerminal (oci_Spec inst)) then [emptyDirVolume ''web-terminal-tmp''] else [])
     @ caVolumes inst"

definition buildVolumes :: "PodParams \<Rightarrow> OpenClawInstance \<Rightarrow> Volume list" where
  "buildVolumes pp inst =
     operatorVolumes pp inst @ spec_SidecarVolumes (oci_Spec inst) @ spec_ExtraVolumes (oci_Spec inst)"

section \<open>The containers of the pod\<close>

datatype podContainer = Own PodContainer | Given Container

definition ownContainers :: "PodParams \<Rightarrow> OpenClawInstance \<Rightarrow> string \<Rightarrow> PodContainer list" where
  "ownContainers pp inst gatewayTokenSecretName =
     buildMainContainer pp inst gatewayTokenSecretName
     # (if IsGatewayProxyEnabled inst then [buildGatewayProxyContainer pp inst] else [])
     @ ofMesh inst (\<lambda>mesh. SidecarContainers mesh pp inst)
     @ (if ol_Enabled (spec_Ollama (oci_Spec inst)) then [buildOllamaContainer pp inst] else [])
     @ (if wt_Enabled (spec_WebTerminal (oci_Spec inst)) then [buildWebTerminalContainer pp inst] else [])
     @ (if IsMetricsEnabled inst then [buildOTelCollectorContainer pp inst] else [])"

definition buildContainers :: "PodParams \<Rightarrow> OpenClawInstance \<Rightarrow> string \<Rightarrow> podContainer list" where
  "buildContainers pp inst gatewayTokenSecretName =
     map Own (ownContainers pp inst gatewayTokenSecretName) @ map Given (spec_Sidecars (oci_Spec inst))"

section \<open>Init containers\<close>

text \<open>Init containers up to the plugins; the loop over identities comes after them.\<close>

definition setupContainers ::
    "PodParams \<Rightarrow> OpenClawInstance \<Rightarrow> gomap \<Rightarrow> (string \<times> gomap) list \<Rightarrow> ResolvedSkillPacks option \<Rightarrow> PodContainer list" where
  "setupContainers pp inst externalWorkspaceFiles additionalExternalFiles skillPacks =
     (let script = BuildInitScript (hexEncode \<circ> pp_Sha256 pp) inst externalWorkspaceFiles additionalExternalFiles skillPacks
      in (if IsDataOwnershipFixEnabled inst then [buildDataOwnerInitContainer inst] else [])
         @ (if script \<noteq> [] then [buildConfigInitContainer inst script] else [])
         @ ofMesh inst (\<lambda>mesh. InitContainers mesh inst)
         @ [buildUvInitContainer inst, buildPipInitContainer inst, buildPluginRuntimeDepsInitContainer inst]
         @ (if rd_Pnpm (spec_RuntimeDeps (oci_Spec inst)) then [buildPnpmInitContainer inst] else [])
         @ (if rd_Python (spec_RuntimeDeps (oci_Spec inst)) then [buildPythonInitContainer inst] else [])
         @ (case buildSkillsInitContainer inst of None \<Rightarrow> [] | Some c \<Rightarrow> [c])
         @ (case buildPluginsInitContainer pp inst of
              None \<Rightarrow> []
            | Some c \<Rightarrow> (if pluginInstallReadOnly inst then [buildPluginScratchInitContainer c] else []) @ [c]))"

text \<open>A writer of the data volume without a user of its own takes the identity of the main container.\<close>

definition writesData :: "PodContainer \<Rightarrow> bool" where
  "writesData c = list_ex (\<lambda>m. vm_Name m = ''data'' \<and> \<not> vm_ReadOnly m) (con_VolumeMounts c)"

definition ownUser :: "PodContainer \<Rightarrow> int option" where
  "ownUser c = (case pc_Security c of None \<Rightarrow> None | Some s \<Rightarrow> sctx_RunAsUser s)"

definition zero_ContainerSecurity :: ContainerSecurity where
  "zero_ContainerSecurity =
     \<lparr>sctx_AllowPrivilegeEscalation = None, sctx_ReadOnlyRootFilesystem = None, sctx_RunAsNonRoot = None,
      sctx_RunAsUser = None, sctx_Capabilities = JNull, sctx_Seccomp = [], sctx_RunAsGroup = None\<rparr>"

definition withIdentity :: "SecurityContext \<Rightarrow> PodContainer \<Rightarrow> PodContainer" where
  "withIdentity mainSC c =
     (if ownUser c = None \<and> writesData c
      then c\<lparr>pc_Security := Some ((derefOr zero_ContainerSecurity (pc_Security c))
             \<lparr>sctx_RunAsUser := sctx_RunAsUser mainSC, sctx_RunAsNonRoot := sctx_RunAsNonRoot mainSC\<rparr>)\<rparr>
      else c)"

definition shareIdentity :: "OpenClawInstance \<Rightarrow> PodContainer list \<Rightarrow> PodContainer list" where
  "shareIdentity inst cs =
     (let mainSC = buildContainerSecurityContext inst
      in if sctx_RunAsUser mainSC \<noteq> None then map (withIdentity mainSC) cs else cs)"

definition ownInitContainers ::
    "PodParams \<Rightarrow> OpenClawInstance \<Rightarrow> gomap \<Rightarrow> (string \<times> gomap) list \<Rightarrow> ResolvedSkillPacks option \<Rightarrow> PodContainer list" where
  "ownInitContainers pp inst externalWorkspaceFiles additionalExternalFiles skillPacks =
     shareIdentity inst (setupContainers pp inst externalWorkspaceFiles additionalExternalFiles skillPacks)
     @ (if ol_Enabled (spec_Ollama (oci_Spec inst)) \<and> ol_Models (spec_Ollama (oci_Spec inst)) \<noteq> []
        then [buildOllamaModelPullInitContainer pp inst] else [])
     @ (if ch_Enabled (spec_Chromium (oci_Spec inst))
        then [(buildChromiumContainer pp inst)\<lparr>pc_RestartPolicy := ''Always''\<rparr>] else [])"

definition buildInitContainers ::
    "PodParams \<Rightarrow> OpenClawInstance \<Rightarrow> gomap \<Rightarrow> (string \<times> gomap) list \<Rightarrow> ResolvedSkillPacks option \<Rightarrow> podContainer list" where
  "buildInitContainers pp inst externalWorkspaceFiles additionalExternalFiles skillPacks =
     map Own (ownInitContainers pp inst externalWorkspaceFiles additionalExternalFiles skillPacks)
     @ map Given (spec_InitContainers (oci_Spec inst))"

section \<open>The hash of the configuration\<close>

text \<open>
  What is hashed, in order; the value of the ConfigMap is rendered without the gateway token. An error
  of \<^verbatim>\<open>json.Marshal\<close> is ignored; rendering a configuration of \<^verbatim>\<open>null\<close> panics.
\<close>

definition hashParts ::
    "OpenClawInstance \<Rightarrow> (string \<times> bytes) list \<Rightarrow> gomap \<Rightarrow> (string \<times> gomap) list \<Rightarrow> hashPart list" where
  "hashParts inst rendered externalWorkspaceFiles additionalExternalFiles =
     (let sp = oci_Spec inst
      in [ConfigPart (spec_Config sp), RenderedPart rendered]
         @ (if externalWorkspaceFiles \<noteq> [] then [ExternalPart externalWorkspaceFiles] else [])
         @ (if additionalExternalFiles \<noteq> [] then [AdditionalPart additionalExternalFiles] else [])
         @ (if spec_Skills sp \<noteq> [] then [SkillsPart (spec_Skills sp)] else [])
         @ map (\<lambda>aw. WorkspaceSkillsPart (aw_Name aw) (aw_Skills aw))
             (filter (\<lambda>aw. aw_Skills aw \<noteq> []) (additionalWorkspaces inst))
         @ (if spec_VerifiedPlugins sp \<noteq> [] then [VerifiedPart (hd (verifiedPluginArgs inst))] else [])
         @ (if spec_Plugins sp \<noteq> [] then [PluginsPart (spec_Plugins sp)] else [])
         @ (if spec_InitContainers sp \<noteq> [] then [InitContainersPart (spec_InitContainers sp)] else [])
         @ (if hasRuntimeDeps inst then [RuntimeDepsPart (spec_RuntimeDeps sp)] else [])
         @ (if ts_Enabled (spec_Tailscale sp) then [TailscalePart (spec_Tailscale sp)] else [])
         @ (case spec_NetBird sp of None \<Rightarrow> [] | Some nb \<Rightarrow> if nb_Enabled nb then [NetBirdPart nb] else []))"

fun partText :: "PodParams \<Rightarrow> hashPart \<Rightarrow> string" where
  "partText pp (VerifiedPart s) = s"
| "partText pp p = pp_Marshal pp p"

definition calculateConfigHash ::
    "PodParams \<Rightarrow> OpenClawInstance \<Rightarrow> ResolvedSkillPacks option \<Rightarrow> gomap \<Rightarrow> (string \<times> gomap) list \<Rightarrow> string outcome" where
  "calculateConfigHash pp inst skillPacks externalWorkspaceFiles additionalExternalFiles =
     (case BuildConfigMap inst '''' skillPacks of
        Panic \<Rightarrow> Panic
      | Ret cm \<Rightarrow> Ret (hexEncode (take 8 (pp_Sha256 pp (concat (map (partText pp)
                   (hashParts inst (pcm_Data cm) externalWorkspaceFiles additionalExternalFiles)))))))"

definition buildPodAnnotations ::
    "PodParams \<Rightarrow> OpenClawInstance \<Rightarrow> ResolvedSkillPacks option \<Rightarrow> gomap \<Rightarrow> (string \<times> gomap) list \<Rightarrow> gomap outcome" where
  "buildPodAnnotations pp inst skillPacks externalWorkspaceFiles additionalExternalFiles =
     (case calculateConfigHash pp inst skillPacks externalWorkspaceFiles additionalExternalFiles of
        Panic \<Rightarrow> Panic
      | Ret hash \<Rightarrow> Ret (AList.update ''openclaw.rocks/config-hash'' hash (overlay [] (spec_PodAnnotations (oci_Spec inst)))))"

section \<open>The StatefulSet\<close>

record PodSpec =
  pod_ServiceAccountName :: string
  pod_DeprecatedServiceAccount :: string
  pod_AutomountServiceAccountToken :: "bool option"
  pod_ShareProcessNamespace :: "bool option"
  pod_SecurityContext :: PodSecurityContext
  pod_InitContainers :: "podContainer list"
  pod_Containers :: "podContainer list"
  pod_Volumes :: "Volume list"
  pod_NodeSelector :: gomap
  pod_Tolerations :: "json list"
  pod_Affinity :: "json option"
  pod_TopologySpreadConstraints :: "json list"
  pod_RuntimeClassName :: "string option"
  pod_RestartPolicy :: string
  pod_DNSPolicy :: string
  pod_SchedulerName :: string
  pod_TerminationGracePeriodSeconds :: "int option"
  pod_ImagePullSecrets :: "string list"

record ClaimTemplate =
  vct_Name :: string
  vct_Labels :: gomap
  vct_AccessModes :: "string list"
  vct_Storage :: string
  vct_StorageClassName :: "string option"
  vct_VolumeMode :: "string option"

record StatefulSet =
  sts_Name :: string
  sts_Namespace :: string
  sts_Labels :: gomap
  sts_Replicas :: "int option"
  sts_RevisionHistoryLimit :: "int option"
  sts_ServiceName :: string
  sts_PodManagementPolicy :: string
  sts_ClaimRetention :: "string \<times> string" \<comment> \<open>when deleted, when scaled\<close>
  sts_UpdateStrategy :: "string \<times> json option" \<comment> \<open>type and rolling update\<close>
  sts_Selector :: gomap
  sts_TemplateLabels :: gomap
  sts_TemplateAnnotations :: gomap
  sts_PodSpec :: PodSpec
  sts_VolumeClaimTemplates :: "ClaimTemplate list"

definition statefulSetReplicas :: "OpenClawInstance \<Rightarrow> int option" where
  "statefulSetReplicas inst =
     (if spec_Suspended (oci_Spec inst) then Some 0 else if IsHPAEnabled inst then None else Some 1)"

definition claimTemplates :: "PodParams \<Rightarrow> OpenClawInstance \<Rightarrow> ClaimTemplate list" where
  "claimTemplates pp inst =
     (let p = stor_Persistence (spec_Storage (oci_Spec inst))
      in if IsPersistenceEnabled inst \<and> IsHPAEnabled inst
         then [\<lparr>vct_Name = ''data'', vct_Labels = Labels inst,
                vct_AccessModes = (if pers_AccessModes p = [] then [ReadWriteOnce] else pers_AccessModes p),
                vct_Storage = ParseQuantity (pp_ValidQuantity pp) (pers_Size p) ''10Gi'',
                vct_StorageClassName = pers_StorageClass p, vct_VolumeMode = None\<rparr>]
         else [])"

definition buildPodSpec ::
    "PodParams \<Rightarrow> OpenClawInstance \<Rightarrow> string \<Rightarrow> ResolvedSkillPacks option \<Rightarrow> gomap \<Rightarrow> (string \<times> gomap) list \<Rightarrow> PodSpec" where
  "buildPodSpec pp inst gatewayTokenSecretName skillPacks externalWorkspaceFiles additionalExternalFiles =
     (let av = spec_Availability (oci_Spec inst)
      in \<lparr>pod_ServiceAccountName = ServiceAccountName inst, pod_DeprecatedServiceAccount = ServiceAccountName inst,
       pod_AutomountServiceAccountToken =
         Some (scf_Enabled (spec_SelfConfigure (oci_Spec inst)) \<or> MeshNeedsServiceAccountToken inst),
       pod_ShareProcessNamespace = shareProcessNamespace inst, pod_SecurityContext = buildPodSecurityContext inst,
       pod_InitContainers = buildInitContainers pp inst externalWorkspaceFiles additionalExternalFiles skillPacks,
       pod_Containers = buildContainers pp inst gatewayTokenSecretName, pod_Volumes = buildVolumes pp inst,
       pod_NodeSelector = av_NodeSelector av, pod_Tolerations = av_Tolerations av, pod_Affinity = av_Affinity av,
       pod_TopologySpreadConstraints = av_TopologySpreadConstraints av, pod_RuntimeClassName = av_RuntimeClassName av,
       pod_RestartPolicy = ''Always'', pod_DNSPolicy = ''ClusterFirst'', pod_SchedulerName = ''default-scheduler'',
       pod_TerminationGracePeriodSeconds = Some 30, pod_ImagePullSecrets = img_PullSecrets (spec_Image (oci_Spec inst))\<rparr>)"

definition BuildStatefulSet ::
    "PodParams \<Rightarrow> OpenClawInstance \<Rightarrow> string \<Rightarrow> ResolvedSkillPacks option \<Rightarrow> gomap \<Rightarrow> (string \<times> gomap) list \<Rightarrow>
     StatefulSet outcome" where
  "BuildStatefulSet pp inst gatewayTokenSecretName skillPacks externalWorkspaceFiles additionalExternalFiles =
     (case buildPodAnnotations pp inst skillPacks externalWorkspaceFiles additionalExternalFiles of
        Panic \<Rightarrow> Panic
      | Ret annotations \<Rightarrow> Ret
          \<lparr>sts_Name = StatefulSetName inst, sts_Namespace = onamespace inst, sts_Labels = Labels inst,
           sts_Replicas = statefulSetReplicas inst, sts_RevisionHistoryLimit = Some 10, sts_ServiceName = ServiceName inst,
           sts_PodManagementPolicy = ''Parallel'', sts_ClaimRetention = (''Retain'', ''Retain''),
           sts_UpdateStrategy = (''RollingUpdate'', None), sts_Selector = SelectorLabels inst,
           sts_TemplateLabels = Labels inst, sts_TemplateAnnotations = annotations,
           sts_PodSpec = buildPodSpec pp inst gatewayTokenSecretName skillPacks externalWorkspaceFiles additionalExternalFiles,
           sts_VolumeClaimTemplates = claimTemplates pp inst\<rparr>)"

section \<open>The defaults of the API server\<close>

definition normEnvVar :: "EnvVar \<Rightarrow> EnvVar" where
  "normEnvVar e =
     (case ev_ValueFrom e of
        None \<Rightarrow> e
      | Some src \<Rightarrow>
          (case evs_Other src of
             Some (JObj m) \<Rightarrow>
               (case asMap (map_of m ''fieldRef'') of
                  None \<Rightarrow> e
                | Some f \<Rightarrow>
                    if derefOr [] (asStr (map_of f ''apiVersion'')) = []
                    then e\<lparr>ev_ValueFrom := Some (src\<lparr>evs_Other :=
                           Some (JObj (AList.update ''fieldRef'' (JObj (AList.update ''apiVersion'' (JStr ''v1'') f)) m))\<rparr>)\<rparr>
                    else e)
           | _ \<Rightarrow> e))"

definition normPullPolicy :: "string \<Rightarrow> string \<Rightarrow> string" where
  "normPullPolicy img policy =
     (if policy \<noteq> [] then policy
      else if hasSuffix img '':latest'' \<or> \<not> strContains img '':'' then PullAlways else PullIfNotPresent)"

definition orInt :: "int \<Rightarrow> int \<Rightarrow> int" where
  "orInt n d = (if n = 0 then d else n)"

fun normHandler :: "ProbeHandler \<Rightarrow> ProbeHandler" where
  "normHandler (HTTPGet p n scheme) = HTTPGet p n (strOr scheme URISchemeHTTP)"
| "normHandler h = h"

definition normalizeProbe :: "Probe \<Rightarrow> Probe" where
  "normalizeProbe p =
     p\<lparr>prb_Handler := normHandler (prb_Handler p), prb_TimeoutSeconds := orInt (prb_TimeoutSeconds p) 1,
       prb_PeriodSeconds := orInt (prb_PeriodSeconds p) 10, prb_SuccessThreshold := orInt (prb_SuccessThreshold p) 1,
       prb_FailureThreshold := orInt (prb_FailureThreshold p) 3\<rparr>"

definition normOwn :: "PodContainer \<Rightarrow> PodContainer" where
  "normOwn c =
     c\<lparr>con_Env := map normEnvVar (con_Env c), con_ImagePullPolicy := normPullPolicy (con_Image c) (con_ImagePullPolicy c),
       pc_TerminationMessagePath := strOr (pc_TerminationMessagePath c) TerminationMessagePathDefault,
       pc_TerminationMessagePolicy := strOr (pc_TerminationMessagePolicy c) TerminationMessageReadFile,
       pc_Liveness := map_option normalizeProbe (pc_Liveness c), pc_Readiness := map_option normalizeProbe (pc_Readiness c),
       pc_Startup := map_option normalizeProbe (pc_Startup c)\<rparr>"

text \<open>
  The same on a container of the spec, whose further fields are JSON: an absent, empty or zero field
  gets its default.
\<close>

definition isZero :: "json option \<Rightarrow> bool" where
  "isZero j = (j \<in> {None, Some JNull, Some (JStr []), Some (JNum 0)})"

definition fillIn :: "string \<Rightarrow> json \<Rightarrow> obj \<Rightarrow> obj" where
  "fillIn k d m = (if isZero (map_of m k) then AList.update k d m else m)"

definition jsonOne :: json where "jsonOne = JNum 0x3FF0000000000000"
definition jsonThree :: json where "jsonThree = JNum 0x4008000000000000"
definition jsonTen :: json where "jsonTen = JNum 0x4024000000000000"

definition onMap :: "string \<Rightarrow> (obj \<Rightarrow> obj) \<Rightarrow> obj \<Rightarrow> obj" where
  "onMap k f m = (case asMap (map_of m k) of None \<Rightarrow> m | Some v \<Rightarrow> AList.update k (JObj (f v)) m)"

definition normProbeJSON :: "obj \<Rightarrow> obj" where
  "normProbeJSON p =
     onMap ''httpGet'' (fillIn ''scheme'' (JStr URISchemeHTTP))
       (fillIn ''failureThreshold'' jsonThree (fillIn ''successThreshold'' jsonOne
         (fillIn ''periodSeconds'' jsonTen (fillIn ''timeoutSeconds'' jsonOne p))))"

definition normFields :: "obj \<Rightarrow> obj" where
  "normFields m =
     onMap ''startupProbe'' normProbeJSON (onMap ''readinessProbe'' normProbeJSON (onMap ''livenessProbe'' normProbeJSON
       (fillIn ''terminationMessagePolicy'' (JStr TerminationMessageReadFile)
         (fillIn ''terminationMessagePath'' (JStr TerminationMessagePathDefault) m))))"

definition normGiven :: "Container \<Rightarrow> Container" where
  "normGiven c =
     c\<lparr>con_Env := map normEnvVar (con_Env c), con_ImagePullPolicy := normPullPolicy (con_Image c) (con_ImagePullPolicy c),
       con_Other := JObj (normFields (derefOr [] (asMap (Some (con_Other c)))))\<rparr>"

fun normalizeContainer :: "podContainer \<Rightarrow> podContainer" where
  "normalizeContainer (Own c) = Own (normOwn c)"
| "normalizeContainer (Given c) = Given (normGiven c)"

definition normPodSpec :: "PodSpec \<Rightarrow> PodSpec" where
  "normPodSpec s =
     s\<lparr>pod_DeprecatedServiceAccount :=
         (if pod_ServiceAccountName s \<noteq> [] \<and> pod_DeprecatedServiceAccount s = [] then pod_ServiceAccountName s
          else pod_DeprecatedServiceAccount s),
       pod_InitContainers := map normalizeContainer (pod_InitContainers s),
       pod_Containers := map normalizeContainer (pod_Containers s)\<rparr>"

definition normTemplate :: "ClaimTemplate \<Rightarrow> ClaimTemplate" where
  "normTemplate v = v\<lparr>vct_VolumeMode := orElse (vct_VolumeMode v) ''Filesystem''\<rparr>"

definition NormalizeStatefulSet :: "StatefulSet \<Rightarrow> StatefulSet" where
  "NormalizeStatefulSet s =
     s\<lparr>sts_PodSpec := normPodSpec (sts_PodSpec s),
       sts_UpdateStrategy := (if sts_UpdateStrategy s = (''RollingUpdate'', None) then (''RollingUpdate'', Some (JObj []))
                              else sts_UpdateStrategy s),
       sts_VolumeClaimTemplates := map normTemplate (sts_VolumeClaimTemplates s)\<rparr>"

end
