(* ===== verification/Objects.thy ===== *)
theory Objects
  imports Dashboards ConfigMap S3 StatefulSet Texts
begin

text \<open>
  The objects the main controller owns and the steps by which it writes them.

  \<open>kobj\<close> is an object in the cluster: its metadata and the part of its content the operator
  sets. The record \<open>Cluster\<close> holds what the controller uses beside the \<open>Reconciler\<close> of
  theory Client: the generic client calls, the random source, the skill pack resolver, the hash
  functions, and what the builder of the pod takes as parameters (quantities,
  \<^verbatim>\<open>json.Marshal\<close> of API types, the embedded installer). A step returns nothing or the reason to stop: an error, the
  request to come back later, or a panic.
\<close>

record StsSpec =
  ss_Replicas :: "int option"
  ss_TemplateAnnotations :: gomap
  ss_VolumeClaimTemplates :: "ClaimTemplate list"
  ss_Template :: "StatefulSet option" \<comment> \<open>what the builder made\<close>
  ss_StatusReplicas :: int
  ss_StatusReadyReplicas :: int

datatype body =
    NoBody
  | ServiceAccountBody "bool option"
  | RoleBody "PolicyRule list"
  | RoleBindingBody string string "(string \<times> string \<times> string) list"
  | NetworkPolicyBody NetworkPolicy
  | ConfigMapBody "(string \<times> bytes) list"
  | ClaimBody Claim
  | PDBBody PDB
  | HPABody HPA
  | StatefulSetBody StsSpec
  | ServiceBody Service "string list"
  | IngressBody Ingress
  | HTTPRouteBody HTTPRoute
  | MiddlewareBody string
  | ServiceMonitorBody ServiceMonitor
  | PrometheusRuleBody PrometheusRule

record kobj =
  ko_Meta :: ObjectMeta
  ko_Body :: body

record 's Cluster =
  ob_Rec :: "'s Reconciler"
  ob_GetInstance :: "string \<Rightarrow> string \<Rightarrow> ('s, go_error + OpenClawInstance) state"
  ob_GetDefaults :: "('s, go_error + OpenClawClusterDefaultsSpec) state"
  ob_GetConfigMapData :: "string \<Rightarrow> string \<Rightarrow> ('s, go_error + gomap) state"
  ob_Get :: "objkind \<Rightarrow> string \<Rightarrow> string \<Rightarrow> ('s, go_error + kobj) state"
  ob_Create :: "objkind \<Rightarrow> kobj \<Rightarrow> ('s, go_error option) state"
  ob_Delete :: "objkind \<Rightarrow> string \<Rightarrow> string \<Rightarrow> ('s, go_error option) state"
  ob_CreateOrUpdate :: "objkind \<Rightarrow> string \<Rightarrow> string \<Rightarrow> (kobj \<Rightarrow> go_error + kobj) \<Rightarrow> ('s, go_error + kobj) state"
  ob_IsNoMatch :: "go_error \<Rightarrow> bool"
  ob_RandRead :: "nat \<Rightarrow> ('s, go_error + string) state"
  ob_Resolve :: "(string list \<Rightarrow> ('s, go_error + ResolvedSkillPacks) state) option"
  ob_Bytes :: "string \<Rightarrow> bytes"
  ob_Sha256 :: "string \<Rightarrow> string"
  ob_Sha1 :: "string \<Rightarrow> string"
  ob_ValidQuantity :: "string \<Rightarrow> bool"
  ob_SameQuantity :: "string \<Rightarrow> string \<Rightarrow> bool"
  ob_QuantityValue :: "string \<Rightarrow> int"
  ob_Marshal :: "hashPart \<Rightarrow> string"
  ob_Installer :: string

section \<open>Steps\<close>

datatype halt = HErr go_error | HRequeue Result | HPanic

type_synonym 's step = "('s hctx, halt option) state"

definition andStep :: "'s step \<Rightarrow> 's step \<Rightarrow> 's step" where
  "andStep m k = do { e \<leftarrow> m; (case e of Some x \<Rightarrow> ret (Some x) | None \<Rightarrow> k) }"

fun seqSteps :: "'s step list \<Rightarrow> 's step" where
  "seqSteps [] = ret None"
| "seqSteps (m # ms) = andStep m (seqSteps ms)"

text \<open>\<^verbatim>\<open>fmt.Errorf("...: %w", err)\<close> around a step.\<close>

fun wrapHalt :: "string \<Rightarrow> halt option \<Rightarrow> halt option" where
  "wrapHalt msg (Some (HErr e)) = Some (HErr (wrapErr msg e))"
| "wrapHalt msg x = x"

definition wrapStep :: "string \<Rightarrow> 's step \<Rightarrow> 's step" where
  "wrapStep msg m = do { e \<leftarrow> m; ret (wrapHalt msg e) }"

definition doneStep :: "'s step" where "doneStep = ret None"

definition failStep :: "go_error \<Rightarrow> 's step" where "failStep e = ret (Some (HErr e))"

definition errStep :: "go_error option \<Rightarrow> 's step" where "errStep e = ret (map_option HErr e)"

section \<open>Calls\<close>

definition getObj :: "'s Cluster \<Rightarrow> objkind \<Rightarrow> string \<Rightarrow> string \<Rightarrow> ('s hctx, go_error + kobj) state" where
  "getObj c kind n ns = api (ob_Get c kind n ns) (\<lambda>a. CGetObj kind n ns (errOf a))"

definition createObj :: "'s Cluster \<Rightarrow> objkind \<Rightarrow> kobj \<Rightarrow> ('s hctx, go_error option) state" where
  "createObj c kind k = api (ob_Create c kind k) (CCreateObj kind (om_Name (ko_Meta k)) (om_Namespace (ko_Meta k)))"

definition deleteObj :: "'s Cluster \<Rightarrow> objkind \<Rightarrow> string \<Rightarrow> string \<Rightarrow> ('s hctx, go_error option) state" where
  "deleteObj c kind n ns = api (ob_Delete c kind n ns) (CDeleteObj kind n ns)"

fun stsStatus :: "body \<Rightarrow> int \<times> int" where
  "stsStatus (StatefulSetBody s) = (ss_StatusReplicas s, ss_StatusReadyReplicas s)"
| "stsStatus _ = (0, 0)"

text \<open>\<^verbatim>\<open>controllerutil.CreateOrUpdate\<close>; the log entry of a StatefulSet keeps the status in the reply.\<close>

definition applyEntry :: "objkind \<Rightarrow> string \<Rightarrow> string \<Rightarrow> go_error + kobj \<Rightarrow> api_call" where
  "applyEntry kind n ns a =
     (case a of
        Inl e \<Rightarrow> CApplyObj kind n ns (Some e) (0, 0)
      | Inr k \<Rightarrow> CApplyObj kind n ns None (stsStatus (ko_Body k)))"

definition applyObj ::
    "'s Cluster \<Rightarrow> objkind \<Rightarrow> string \<Rightarrow> string \<Rightarrow> (kobj \<Rightarrow> go_error + kobj) \<Rightarrow> ('s hctx, go_error + kobj) state" where
  "applyObj c kind n ns f = api (ob_CreateOrUpdate c kind n ns f) (applyEntry kind n ns)"

definition getConfigMapData :: "'s Cluster \<Rightarrow> string \<Rightarrow> string \<Rightarrow> ('s hctx, go_error + gomap) state" where
  "getConfigMapData c n ns = api (ob_GetConfigMapData c n ns) (\<lambda>a. CGetObj ConfigMapK n ns (errOf a))"

definition updMR :: "(ManagedResourcesStatus \<Rightarrow> ManagedResourcesStatus) \<Rightarrow> ('s hctx, unit) state" where
  "updMR f = modInst (updStatus (\<lambda>s. s\<lparr>st_ManagedResources := f (st_ManagedResources s)\<rparr>))"

definition readyCondition :: "'s Cluster \<Rightarrow> string \<Rightarrow> string \<Rightarrow> string \<Rightarrow> string \<Rightarrow> ('s hctx, unit) state" where
  "readyCondition c t st reason msg = setCondition (ob_Rec c) (mkCondition t st reason msg)"

text \<open>A condition with \<^verbatim>\<open>ObservedGeneration: instance.Generation\<close>.\<close>

definition observedCondition :: "'s Cluster \<Rightarrow> string \<Rightarrow> string \<Rightarrow> string \<Rightarrow> string \<Rightarrow> ('s hctx, unit) state" where
  "observedCondition c t st reason msg = do {
     inst \<leftarrow> getInst;
     setCondition (ob_Rec c)
       ((mkCondition t st reason msg)\<lparr>cond_ObservedGeneration := om_Generation (oci_Meta inst)\<rparr>) }"

section \<open>What the mutate functions do\<close>

definition mergeStringMap :: "gomap \<Rightarrow> gomap \<Rightarrow> gomap" where
  "mergeStringMap current desired = overlay current desired"

definition withLabels :: "gomap \<Rightarrow> kobj \<Rightarrow> kobj" where
  "withLabels desired k = k\<lparr>ko_Meta := (ko_Meta k)\<lparr>om_Labels := mergeStringMap (om_Labels (ko_Meta k)) desired\<rparr>\<rparr>"

definition withAnnotations :: "gomap \<Rightarrow> kobj \<Rightarrow> kobj" where
  "withAnnotations desired k =
     k\<lparr>ko_Meta := (ko_Meta k)\<lparr>om_Annotations := mergeStringMap (om_Annotations (ko_Meta k)) desired\<rparr>\<rparr>"

definition withBody :: "body \<Rightarrow> kobj \<Rightarrow> kobj" where
  "withBody b k = k\<lparr>ko_Body := b\<rparr>"

text \<open>\<^verbatim>\<open>controllerutil.SetControllerReference(instance, obj, r.Scheme)\<close> as the last statement.\<close>

definition adopted :: "'s Cluster \<Rightarrow> OpenClawInstance \<Rightarrow> kobj \<Rightarrow> go_error + kobj" where
  "adopted c inst k =
     (case rc_SetControllerReference (ob_Rec c) inst (ko_Meta k) of
        Inl e \<Rightarrow> Inl e
      | Inr m \<Rightarrow> Inr (k\<lparr>ko_Meta := m\<rparr>))"

text \<open>The explicit owner reference of the unstructured objects: it replaces all others.\<close>

definition ownedOnly :: "OpenClawInstance \<Rightarrow> kobj \<Rightarrow> kobj" where
  "ownedOnly inst k =
     k\<lparr>ko_Meta := (ko_Meta k)\<lparr>om_OwnerReferences := [\<lparr>or_UID = om_UID (oci_Meta inst), or_Controller = True\<rparr>]\<rparr>\<rparr>"

text \<open>
  Write an object, stop at an error, otherwise go on with the reply: the shape of most of the
  controller's functions.
\<close>

definition applyThen ::
    "'s Cluster \<Rightarrow> objkind \<Rightarrow> string \<Rightarrow> (OpenClawInstance \<Rightarrow> kobj \<Rightarrow> go_error + kobj) \<Rightarrow> (kobj \<Rightarrow> 's step) \<Rightarrow> 's step" where
  "applyThen c kind n f cont = do {
     inst \<leftarrow> getInst;
     res \<leftarrow> applyObj c kind n (onamespace inst) (f inst);
     (case res of Inl e \<Rightarrow> failStep e | Inr k \<Rightarrow> cont k) }"

text \<open>\<^verbatim>\<open>r.Delete\<close> of an object that may be gone already (or whose kind may not be installed).\<close>

definition deleteThen :: "'s Cluster \<Rightarrow> (go_error \<Rightarrow> bool) \<Rightarrow> objkind \<Rightarrow> string \<Rightarrow> 's step \<Rightarrow> 's step" where
  "deleteThen c ignored kind n cont = do {
     inst \<leftarrow> getInst;
     err \<leftarrow> deleteObj c kind n (onamespace inst);
     (case err of Some e \<Rightarrow> if ignored e then cont else failStep e | None \<Rightarrow> cont) }"

lemmas step_defs = andStep_def wrapStep_def doneStep_def failStep_def errStep_def applyThen_def deleteThen_def

lemma mergeStringMap_keeps: "map_of current k = Some v \<Longrightarrow> k \<notin> set (map fst desired) \<Longrightarrow> map_of (mergeStringMap current desired) k = Some v"
  by (simp add: mergeStringMap_def map_of_overlay_other)

end
