(* ===== verification/Provision.thy ===== *)
theory Provision
  imports Objects
begin

text \<open>
  The steps of reconcileResources in internal/controller/openclawinstance_controller.go, one
  definition per function: each brings one kind of object to the state the builders of
  internal/resources describe and records the outcome in the status of the instance.
\<close>

definition ConditionTypeDeploymentReady :: string where "ConditionTypeDeploymentReady = ''DeploymentReady''"
definition ConditionTypeServiceReady :: string where "ConditionTypeServiceReady = ''ServiceReady''"
definition ConditionTypeNetworkPolicyReady :: string where "ConditionTypeNetworkPolicyReady = ''NetworkPolicyReady''"
definition ConditionTypeRBACReady :: string where "ConditionTypeRBACReady = ''RBACReady''"
definition ConditionTypeStorageReady :: string where "ConditionTypeStorageReady = ''StorageReady''"
definition ConditionTypeSecretsReady :: string where "ConditionTypeSecretsReady = ''SecretsReady''"
definition ConditionTypeWorkspaceReady :: string where "ConditionTypeWorkspaceReady = ''WorkspaceReady''"
definition ConditionTypeHTTPRouteReady :: string where "ConditionTypeHTTPRouteReady = ''HTTPRouteReady''"
definition ConditionTypeServiceMonitorReady :: string where "ConditionTypeServiceMonitorReady = ''ServiceMonitorReady''"

section \<open>RBAC and network policy\<close>

definition reconcileServiceAccount :: "'s Cluster \<Rightarrow> 's step" where
  "reconcileServiceAccount c = do {
     inst \<leftarrow> getInst;
     applyThen c ServiceAccountK (ServiceAccountName inst)
       (\<lambda>i k. let d = BuildServiceAccount i
              in adopted c i (withBody (ServiceAccountBody (sa_AutomountToken d))
                   (withAnnotations (sa_Annotations d) (withLabels (sa_Labels d) k))))
       (\<lambda>k. do { updMR (\<lambda>m. m\<lparr>mr_ServiceAccount := om_Name (ko_Meta k)\<rparr>); doneStep }) }"

definition reconcileRole :: "'s Cluster \<Rightarrow> 's step" where
  "reconcileRole c = do {
     inst \<leftarrow> getInst;
     applyThen c RoleK (RoleName inst)
       (\<lambda>i k. let d = BuildRole i in adopted c i (withBody (RoleBody (role_Rules d)) (withLabels (role_Labels d) k)))
       (\<lambda>k. do { updMR (\<lambda>m. m\<lparr>mr_Role := om_Name (ko_Meta k)\<rparr>); doneStep }) }"

definition reconcileRoleBinding :: "'s Cluster \<Rightarrow> 's step" where
  "reconcileRoleBinding c = do {
     inst \<leftarrow> getInst;
     applyThen c RoleBindingK (RoleBindingName inst)
       (\<lambda>i k. let d = BuildRoleBinding i
              in adopted c i (withBody (RoleBindingBody (rb_RoleKind d) (rb_RoleName d) (rb_Subjects d)) (withLabels (rb_Labels d) k)))
       (\<lambda>k. do { updMR (\<lambda>m. m\<lparr>mr_RoleBinding := om_Name (ko_Meta k)\<rparr>); doneStep }) }"

definition reconcileRBAC :: "'s Cluster \<Rightarrow> 's step" where
  "reconcileRBAC c = do {
     inst \<leftarrow> getInst;
     andStep
       (if defaultTrue (rbac_CreateServiceAccount (sec_RBAC (spec_Security (oci_Spec inst))))
        then seqSteps [reconcileServiceAccount c, reconcileRole c, reconcileRoleBinding c] else doneStep)
       (do { readyCondition c ConditionTypeRBACReady ConditionTrue ''RBACCreated'' ''RBAC resources created successfully'';
             doneStep }) }"

definition networkPolicyEnabled :: "OpenClawInstance \<Rightarrow> bool" where
  "networkPolicyEnabled inst = defaultTrue (np_Enabled (sec_NetworkPolicy (spec_Security (oci_Spec inst))))"

definition reconcileNetworkPolicy :: "'s Cluster \<Rightarrow> 's step" where
  "reconcileNetworkPolicy c = do {
     inst \<leftarrow> getInst;
     (if \<not> networkPolicyEnabled inst then
        deleteThen c isNotFound NetworkPolicyK (NetworkPolicyName inst)
          (do { updMR (\<lambda>m. m\<lparr>mr_NetworkPolicy := []\<rparr>); doneStep })
      else
        applyThen c NetworkPolicyK (NetworkPolicyName inst)
          (\<lambda>i k. let d = BuildNetworkPolicy i
                 in adopted c i (withBody (NetworkPolicyBody d) (withLabels (om_Labels (netpol_Meta d)) k)))
          (\<lambda>k. do {
             updMR (\<lambda>m. m\<lparr>mr_NetworkPolicy := om_Name (ko_Meta k)\<rparr>);
             readyCondition c ConditionTypeNetworkPolicyReady ConditionTrue ''NetworkPolicyCreated''
               ''NetworkPolicy created successfully'';
             doneStep })) }"

section \<open>Secrets\<close>

definition randRead :: "'s Cluster \<Rightarrow> nat \<Rightarrow> ('s hctx, go_error + string) state" where
  "randRead c n = api (ob_RandRead c n) (\<lambda>a. CRandRead n (errOf a))"

text \<open>The mutate function of a generated Secret: data that is already there stays.\<close>

definition generatedSecret :: "'s Cluster \<Rightarrow> OpenClawInstance \<Rightarrow> Secret \<Rightarrow> Secret \<Rightarrow> go_error + Secret" where
  "generatedSecret c inst desired secret =
     (let meta = (secret_Meta secret)\<lparr>om_Labels := mergeStringMap (om_Labels (secret_Meta secret)) (om_Labels (secret_Meta desired))\<rparr>;
          dat = (if secret_Data secret = [] then secret_Data desired else secret_Data secret)
      in case rc_SetControllerReference (ob_Rec c) inst meta of
           Inl e \<Rightarrow> Inl e
         | Inr m \<Rightarrow> Inr \<lparr>secret_Meta = m, secret_Data = dat\<rparr>)"

definition existingGatewayToken :: "'s Cluster \<Rightarrow> ('s hctx, go_error + string) state" where
  "existingGatewayToken c = do {
     inst \<leftarrow> getInst;
     let name = gw_ExistingSecret (spec_Gateway (oci_Spec inst));
     res \<leftarrow> getSecret (ob_Rec c) name (onamespace inst);
     (case res of
        Inl err \<Rightarrow>
          ret (Inl (if isNotFound err then errorf (''gateway.existingSecret '' @ quoteStr name @ '' not found'')
                    else wrapErr ''failed to get gateway existing secret'' err))
      | Inr existing \<Rightarrow> do {
          updMR (\<lambda>m. m\<lparr>mr_GatewayTokenSecret := om_Name (secret_Meta existing)\<rparr>);
          ret (case map_of (secret_Data existing) GatewayTokenSecretKey of
                 Some tok \<Rightarrow> Inr tok
               | None \<Rightarrow> Inl (errorf (''gateway.existingSecret '' @ quoteStr name @ '' missing key '' @ quoteStr GatewayTokenSecretKey))) }) }"

definition generateGatewayToken :: "'s Cluster \<Rightarrow> string \<Rightarrow> ('s hctx, go_error + string) state" where
  "generateGatewayToken c secretName = do {
     inst \<leftarrow> getInst;
     rnd \<leftarrow> randRead c 32;
     (case rnd of
        Inl e \<Rightarrow> ret (Inl (wrapErr ''failed to generate gateway token'' e))
      | Inr tokenBytes \<Rightarrow> do {
          let tokenHex = hexEncode tokenBytes;
          res \<leftarrow> createOrUpdateSecret (ob_Rec c) secretName (onamespace inst)
                   (generatedSecret c inst (BuildGatewayTokenSecret inst tokenHex));
          (case res of
             Inl e \<Rightarrow> ret (Inl (wrapErr ''failed to create gateway token secret'' e))
           | Inr secret \<Rightarrow> do {
               updMR (\<lambda>m. m\<lparr>mr_GatewayTokenSecret := om_Name (secret_Meta secret)\<rparr>);
               event EventNormal ''GatewayTokenCreated'' ''Auto-generated gateway authentication token'';
               ret (Inr tokenHex) }) }) }"

definition reconcileGatewayTokenSecret :: "'s Cluster \<Rightarrow> ('s hctx, go_error + string) state" where
  "reconcileGatewayTokenSecret c = do {
     inst \<leftarrow> getInst;
     (if gw_ExistingSecret (spec_Gateway (oci_Spec inst)) \<noteq> '''' then existingGatewayToken c
      else do {
        let secretName = GatewayTokenSecretName inst;
        res \<leftarrow> getSecret (ob_Rec c) secretName (onamespace inst);
        (case res of
           Inr existing \<Rightarrow> do {
             updMR (\<lambda>m. m\<lparr>mr_GatewayTokenSecret := om_Name (secret_Meta existing)\<rparr>);
             ret (Inr (derefOr '''' (map_of (secret_Data existing) GatewayTokenSecretKey))) }
         | Inl err \<Rightarrow>
             if \<not> isNotFound err then ret (Inl (wrapErr ''failed to get gateway token secret'' err))
             else generateGatewayToken c secretName) }) }"

definition reconcileMeshStateSecret :: "'s Cluster \<Rightarrow> string \<Rightarrow> 's step" where
  "reconcileMeshStateSecret c name = do {
     inst \<leftarrow> getInst;
     res \<leftarrow> createOrUpdateSecret (ob_Rec c) name (onamespace inst)
       (\<lambda>secret.
          let meta = (secret_Meta secret)\<lparr>om_Labels :=
                mergeStringMap (om_Labels (secret_Meta secret)) (om_Labels (secret_Meta (BuildMeshStateSecret inst name)))\<rparr>
          in case rc_SetControllerReference (ob_Rec c) inst meta of
               Inl e \<Rightarrow> Inl e
             | Inr m \<Rightarrow> Inr (secret\<lparr>secret_Meta := m\<rparr>));
     (case res of
        Inl e \<Rightarrow> failStep (wrapErr ''failed to reconcile mesh state secret'' e)
      | Inr secret \<Rightarrow> do { updMR (\<lambda>m. m\<lparr>mr_TailscaleStateSecret := om_Name (secret_Meta secret)\<rparr>); doneStep }) }"

definition reconcileBasicAuthSecret :: "'s Cluster \<Rightarrow> 's step" where
  "reconcileBasicAuthSecret c = do {
     inst \<leftarrow> getInst;
     (case activeBasicAuth inst of
        None \<Rightarrow> doneStep
      | Some ba \<Rightarrow>
          if iba_ExistingSecret ba \<noteq> '''' then do {
            updMR (\<lambda>m. m\<lparr>mr_BasicAuthSecret := iba_ExistingSecret ba\<rparr>);
            doneStep }
          else do {
            let secretName = BasicAuthSecretName inst;
            res \<leftarrow> getSecret (ob_Rec c) secretName (onamespace inst);
            (case res of
               Inr existing \<Rightarrow> do { updMR (\<lambda>m. m\<lparr>mr_BasicAuthSecret := om_Name (secret_Meta existing)\<rparr>); doneStep }
             | Inl err \<Rightarrow>
                 if \<not> isNotFound err then failStep (wrapErr ''failed to get basic auth secret'' err)
                 else do {
                   rnd \<leftarrow> randRead c 20;
                   (case rnd of
                      Inl e \<Rightarrow> failStep (wrapErr ''failed to generate basic auth password'' e)
                    | Inr pwdBytes \<Rightarrow> do {
                        wres \<leftarrow> createOrUpdateSecret (ob_Rec c) secretName (onamespace inst)
                          (generatedSecret c inst (BuildBasicAuthSecret (ob_Sha1 c) inst (hexEncode pwdBytes)));
                        (case wres of
                           Inl e \<Rightarrow> failStep (wrapErr ''failed to create basic auth secret'' e)
                         | Inr secret \<Rightarrow> do {
                             updMR (\<lambda>m. m\<lparr>mr_BasicAuthSecret := om_Name (secret_Meta secret)\<rparr>);
                             event EventNormal ''BasicAuthSecretCreated'' ''Auto-generated Ingress Basic Auth htpasswd Secret'';
                             doneStep }) }) }) }) }"

section \<open>Skill packs\<close>

definition resolvePacks ::
    "'s Cluster \<Rightarrow> (string list \<Rightarrow> ('s, go_error + ResolvedSkillPacks) state) \<Rightarrow> string list \<Rightarrow>
     ('s hctx, go_error + ResolvedSkillPacks) state" where
  "resolvePacks c resolve packs = api (resolve packs) (\<lambda>a. CResolvePacks packs (errOf a))"

definition noPacks :: ResolvedSkillPacks where
  "noPacks = \<lparr>sp_Files = [], sp_PathMapping = [], sp_Directories = [], sp_SkillEntries = [], sp_Workspaces = []\<rparr>"

text \<open>One additional workspace of the loop; the accumulator is packs, errors and count.\<close>

fun resolveWorkspaces ::
    "'s Cluster \<Rightarrow> (string list \<Rightarrow> ('s, go_error + ResolvedSkillPacks) state) \<Rightarrow> (string \<times> string list) list \<Rightarrow>
     ResolvedSkillPacks option \<times> string list \<times> nat \<Rightarrow>
     ('s hctx, ResolvedSkillPacks option \<times> string list \<times> nat) state" where
  "resolveWorkspaces c resolve [] acc = ret acc"
| "resolveWorkspaces c resolve ((wsName, packs) # ws) (skillPacks, errs, n) = do {
     res \<leftarrow> resolvePacks c resolve packs;
     (case res of
        Inl err \<Rightarrow> resolveWorkspaces c resolve ws (skillPacks, errs @ [''workspace '' @ quoteStr wsName @ '': '' @ emsg err], n)
      | Inr resolved \<Rightarrow>
          let sp = derefOr noPacks skillPacks;
              sp' = sp\<lparr>sp_Workspaces := AList.update wsName (Some (SkillPackSet.truncate resolved)) (sp_Workspaces sp)\<rparr>
          in resolveWorkspaces c resolve ws (Some sp', errs, n + length packs)) }"

definition workspacePackNames :: "OpenClawInstance \<Rightarrow> (string \<times> string list) list" where
  "workspacePackNames inst =
     (case spec_Workspace (oci_Spec inst) of
        None \<Rightarrow> []
      | Some ws \<Rightarrow> filter (\<lambda>(_, packs). packs \<noteq> [])
          (map (\<lambda>aw. (aw_Name aw, ExtractPackSkills (aw_Skills aw))) (ws_AdditionalWorkspaces ws)))"

definition resolveSkillPacks :: "'s Cluster \<Rightarrow> ('s hctx, ResolvedSkillPacks option) state" where
  "resolveSkillPacks c = do {
     inst \<leftarrow> getInst;
     let packNames = ExtractPackSkills (spec_Skills (oci_Spec inst));
     let wsPackNames = workspacePackNames inst;
     (if packNames = [] \<and> wsPackNames = [] then ret None
      else case ob_Resolve c of
             None \<Rightarrow> ret None
           | Some resolve \<Rightarrow> do {
               acc \<leftarrow> (if packNames = [] then ret (None, [], 0)
                      else do {
                        res \<leftarrow> resolvePacks c resolve packNames;
                        ret (case res of
                               Inl err \<Rightarrow> (None, [emsg err], 0)
                             | Inr resolved \<Rightarrow> (Some resolved, [], length packNames)) });
               out \<leftarrow> resolveWorkspaces c resolve wsPackNames acc;
               (case out of (skillPacks, errs, n) \<Rightarrow>
                  if errs \<noteq> [] then do {
                    event EventWarning ''SkillPackResolutionFailed''
                      (''Failed to resolve skill packs: '' @ joinStr ''; '' errs @ ''. Instance will start without them.'');
                    observedCondition c ConditionTypeSkillPacksReady ConditionFalse ''ResolutionFailed''
                      (''Failed to resolve skill packs: '' @ joinStr ''; '' errs);
                    ret skillPacks }
                  else do {
                    observedCondition c ConditionTypeSkillPacksReady ConditionTrue ''Resolved''
                      (''Successfully resolved '' @ natStr n @ '' skill pack(s)'');
                    ret skillPacks }) }) }"

end
