(* ===== verification/Workload.thy ===== *)
theory Workload
  imports Provision
begin

text \<open>
  The steps of reconcileResources for the configuration, the volumes, the StatefulSet and what
  exposes it, and computeSecretHash.
\<close>

section \<open>Configuration\<close>

text \<open>The configuration a ConfigMap reference names, and the checks of \<^verbatim>\<open>gateway.auth.mode\<close>.\<close>

definition refKey :: "ConfigMapKeySelector \<Rightarrow> string" where
  "refKey ref = strOr (cmk_Key ref) ''openclaw.json''"

definition isGatewayAuthTrustedProxy :: "'s Cluster \<Rightarrow> ('s hctx, bool) state" where
  "isGatewayAuthTrustedProxy c = do {
     inst \<leftarrow> getInst;
     (case cfg_ConfigMapRef (spec_Config (oci_Spec inst)) of
        Some ref \<Rightarrow> do {
          res \<leftarrow> getConfigMapData c (cmk_Name ref) (onamespace inst);
          ret (case res of
                 Inl _ \<Rightarrow> False
               | Inr dat \<Rightarrow> (case map_of dat (refKey ref) of
                    None \<Rightarrow> False | Some t \<Rightarrow> IsGatewayAuthTrustedProxy (ob_Bytes c t))) }
      | None \<Rightarrow>
          ret (case cfg_Raw (spec_Config (oci_Spec inst)) of
                 None \<Rightarrow> False | Some raw \<Rightarrow> IsGatewayAuthTrustedProxy raw)) }"

definition publishConfigMap :: "'s Cluster \<Rightarrow> PublishedConfigMap outcome \<Rightarrow> 's step" where
  "publishConfigMap c built =
     (case built of
        Panic \<Rightarrow> ret (Some HPanic)
      | Ret desired \<Rightarrow> do {
          inst \<leftarrow> getInst;
          applyThen c ConfigMapK (ConfigMapName inst)
            (\<lambda>i k. adopted c i (withBody (ConfigMapBody (pcm_Data desired)) (withLabels (pcm_Labels desired) k)))
            (\<lambda>k. do {
               updMR (\<lambda>m. m\<lparr>mr_ConfigMap := om_Name (ko_Meta k)\<rparr>);
               readyCondition c ConditionTypeConfigValid ConditionTrue ''ConfigMapCreated'' ''ConfigMap created successfully'';
               doneStep }) })"

definition reconcileConfigMap :: "'s Cluster \<Rightarrow> string \<Rightarrow> ResolvedSkillPacks option \<Rightarrow> 's step" where
  "reconcileConfigMap c gatewayToken skillPacks = do {
     inst \<leftarrow> getInst;
     (case cfg_ConfigMapRef (spec_Config (oci_Spec inst)) of
        Some ref \<Rightarrow> do {
          res \<leftarrow> getConfigMapData c (cmk_Name ref) (onamespace inst);
          (case res of
             Inl err \<Rightarrow> do {
               readyCondition c ConditionTypeConfigValid ConditionFalse ''ConfigMapNotFound''
                 (''External ConfigMap '' @ quoteStr (cmk_Name ref) @ '' not found: '' @ emsg err);
               failStep (wrapErr (''external ConfigMap '' @ quoteStr (cmk_Name ref) @ '' not found'') err) }
           | Inr dat \<Rightarrow>
               (case map_of dat (refKey ref) of
                  None \<Rightarrow> do {
                    readyCondition c ConditionTypeConfigValid ConditionFalse ''ConfigMapKeyNotFound''
                      (''Key '' @ quoteStr (refKey ref) @ '' not found in ConfigMap '' @ quoteStr (cmk_Name ref));
                    failStep (errorf (''key '' @ quoteStr (refKey ref) @ '' not found in ConfigMap '' @ quoteStr (cmk_Name ref))) }
                | Some text' \<Rightarrow>
                    publishConfigMap c (BuildConfigMapFromBytes inst (ob_Bytes c text') gatewayToken skillPacks))) }
      | None \<Rightarrow> publishConfigMap c (BuildConfigMap inst gatewayToken skillPacks)) }"

section \<open>Workspace files\<close>

record resolvedWorkspaceFiles =
  defaultFiles :: gomap
  additionalFiles :: "(string \<times> gomap) list"

text \<open>The first key the loop over the ConfigMap finds that is no valid file name.\<close>

definition invalidKey :: "gomap \<Rightarrow> (string \<times> go_error) option" where
  "invalidKey dat =
     List.find (\<lambda>_. True) (List.map_filter (\<lambda>(k, _). map_option (Pair k) (ValidateWorkspaceFilename k)) dat)"

definition workspaceDegraded :: "'s Cluster \<Rightarrow> string \<Rightarrow> string \<Rightarrow> string \<Rightarrow> string \<Rightarrow> ('s hctx, unit) state" where
  "workspaceDegraded c reason msg evReason evMsg = do {
     observedCondition c ConditionTypeWorkspaceReady ConditionFalse reason msg;
     event EventWarning evReason evMsg }"

text \<open>
  One reference: the files (none if it is missing or invalid) and whether it is degraded, or the
  error that ends the step. \<open>who\<close> and \<open>evWho\<close> are the openings of the texts.
\<close>

definition resolveReference ::
    "'s Cluster \<Rightarrow> string \<Rightarrow> string \<Rightarrow> string \<Rightarrow> string \<Rightarrow> ('s hctx, go_error + gomap option) state" where
  "resolveReference c who evNotFound fetching cmName = do {
     inst \<leftarrow> getInst;
     res \<leftarrow> getConfigMapData c cmName (onamespace inst);
     (case res of
        Inl err \<Rightarrow>
          if isNotFound err then do {
            workspaceDegraded c ''ConfigMapNotFound'' (who @ '' '' @ quoteStr cmName @ '' not found'')
              ''WorkspaceConfigMapNotFound'' evNotFound;
            ret (Inr None) }
          else ret (Inl (wrapErr fetching err))
      | Inr dat \<Rightarrow>
          (case invalidKey dat of
             None \<Rightarrow> ret (Inr (Some dat))
           | Some (key, vErr) \<Rightarrow> do {
               let msg = who @ '' '' @ quoteStr cmName @ '' key '' @ quoteStr key @ '': '' @ emsg vErr;
               workspaceDegraded c ''InvalidFilename'' msg ''InvalidWorkspaceFilename'' msg;
               ret (Inr None) })) }"

definition resolveDefault :: "'s Cluster \<Rightarrow> WorkspaceSpec \<Rightarrow> ('s hctx, go_error + gomap \<times> bool) state" where
  "resolveDefault c ws =
     (case ws_ConfigMapRef ws of
        None \<Rightarrow> ret (Inr ([], False))
      | Some ref \<Rightarrow> do {
          res \<leftarrow> resolveReference c ''Workspace ConfigMap''
            (''Workspace ConfigMap '' @ quoteStr (cmn_Name ref) @ '' referenced by spec.workspace.configMapRef not found'')
            (''fetching workspace configMapRef '' @ quoteStr (cmn_Name ref)) (cmn_Name ref);
          ret (case res of Inl e \<Rightarrow> Inl e | Inr None \<Rightarrow> Inr ([], True) | Inr (Some dat) \<Rightarrow> Inr (dat, False)) })"

fun resolveAdditional ::
    "'s Cluster \<Rightarrow> AdditionalWorkspace list \<Rightarrow> (string \<times> gomap) list \<times> bool \<Rightarrow>
     ('s hctx, go_error + (string \<times> gomap) list \<times> bool) state" where
  "resolveAdditional c [] acc = ret (Inr acc)"
| "resolveAdditional c (aw # aws) (files, degraded) =
     (case aw_ConfigMapRef aw of
        None \<Rightarrow> resolveAdditional c aws (files, degraded)
      | Some ref \<Rightarrow> do {
          let who = ''Additional workspace '' @ quoteStr (aw_Name aw) @ '' ConfigMap'';
          res \<leftarrow> resolveReference c who (who @ '' '' @ quoteStr (cmn_Name ref) @ '' not found'')
            (''fetching additional workspace '' @ quoteStr (aw_Name aw) @ '' configMapRef '' @ quoteStr (cmn_Name ref)) (cmn_Name ref);
          (case res of
             Inl e \<Rightarrow> ret (Inl e)
           | Inr None \<Rightarrow> resolveAdditional c aws (files, True)
           | Inr (Some dat) \<Rightarrow> resolveAdditional c aws (AList.update (aw_Name aw) dat files, degraded)) })"

definition hasConfigMapRef :: "WorkspaceSpec option \<Rightarrow> bool" where
  "hasConfigMapRef w =
     (case w of None \<Rightarrow> False
      | Some ws \<Rightarrow> ws_ConfigMapRef ws \<noteq> None \<or> list_ex (\<lambda>aw. aw_ConfigMapRef aw \<noteq> None) (ws_AdditionalWorkspaces ws))"

definition resolveWorkspaceFiles :: "'s Cluster \<Rightarrow> ('s hctx, go_error + resolvedWorkspaceFiles \<times> bool) state" where
  "resolveWorkspaceFiles c = do {
     inst \<leftarrow> getInst;
     (case spec_Workspace (oci_Spec inst) of
        None \<Rightarrow> ret (Inr (\<lparr>defaultFiles = [], additionalFiles = []\<rparr>, False))
      | Some ws \<Rightarrow> do {
          d \<leftarrow> resolveDefault c ws;
          (case d of
             Inl e \<Rightarrow> ret (Inl e)
           | Inr (dat, degraded) \<Rightarrow> do {
               a \<leftarrow> resolveAdditional c (ws_AdditionalWorkspaces ws) ([], degraded);
               ret (case a of
                      Inl e \<Rightarrow> Inl e
                    | Inr (files, degraded) \<Rightarrow> Inr (\<lparr>defaultFiles = dat, additionalFiles = files\<rparr>, degraded)) }) }) }"

text \<open>The builder never returns nil, so the branch that deletes the ConfigMap is not reached.\<close>

definition reconcileWorkspaceConfigMap ::
    "'s Cluster \<Rightarrow> ResolvedSkillPacks option \<Rightarrow> ('s hctx, go_error + resolvedWorkspaceFiles) state" where
  "reconcileWorkspaceConfigMap c skillPacks = do {
     inst \<leftarrow> getInst;
     out \<leftarrow> resolveWorkspaceFiles c;
     (case out of
        Inl e \<Rightarrow> ret (Inl e)
      | Inr (found, degraded) \<Rightarrow> do {
          (if hasConfigMapRef (spec_Workspace (oci_Spec inst)) \<and> \<not> degraded then
             observedCondition c ConditionTypeWorkspaceReady ConditionTrue ''Resolved''
               (''All workspace ConfigMaps resolved with ''
                @ natStr (length (defaultFiles found) + sum_list (map (\<lambda>(_, fs). length fs) (additionalFiles found)))
                @ '' total file(s)'')
           else ret ());
          updMR (\<lambda>m. m\<lparr>mr_WorkspaceFiles :=
            ManagedWorkspaceFileStatuses (hexEncode \<circ> ob_Sha256 c) inst (defaultFiles found) (additionalFiles found)\<rparr>);
          let desired = BuildWorkspaceConfigMap operatorTexts inst (defaultFiles found) (additionalFiles found) skillPacks;
          res \<leftarrow> applyObj c ConfigMapK (WorkspaceConfigMapName inst) (onamespace inst)
            (\<lambda>k. adopted c inst
               (withBody (ConfigMapBody (map (\<lambda>(k, v). (k, ob_Bytes c v)) (cm_Data desired))) (withLabels (cm_Labels desired) k)));
          ret (case res of Inl e \<Rightarrow> Inl e | Inr _ \<Rightarrow> Inr found) }) }"

section \<open>Volumes\<close>

definition claimObj :: "Claim \<Rightarrow> kobj" where
  "claimObj d =
     \<lparr>ko_Meta = zero_ObjectMeta\<lparr>om_Name := cl_Name d, om_Namespace := cl_Namespace d, om_Labels := cl_Labels d,
        om_Annotations := cl_Annotations d\<rparr>, ko_Body = ClaimBody d\<rparr>"

text \<open>Claims are created once and never updated.\<close>

definition ensureClaim :: "'s Cluster \<Rightarrow> Claim \<Rightarrow> 's step \<Rightarrow> 's step" where
  "ensureClaim c d cont = do {
     inst \<leftarrow> getInst;
     (case adopted c inst (claimObj d) of
        Inl e \<Rightarrow> failStep e
      | Inr pvc \<Rightarrow> do {
          res \<leftarrow> getObj c PVCK (cl_Name d) (cl_Namespace d);
          (case res of
             Inr _ \<Rightarrow> cont
           | Inl err \<Rightarrow>
               if isNotFound err then do {
                 cerr \<leftarrow> createObj c PVCK pvc;
                 (case cerr of Some e \<Rightarrow> failStep e | None \<Rightarrow> cont) }
               else failStep err) }) }"

definition hpaClaims :: "'s Cluster \<Rightarrow> 's step" where
  "hpaClaims c = do {
     inst \<leftarrow> getInst;
     (if mr_PVC (st_ManagedResources (oci_Status inst)) \<noteq> '''' then do {
        res \<leftarrow> getObj c PVCK (PVCName inst) (onamespace inst);
        (case res of
           Inr _ \<Rightarrow> event EventWarning ''OrphanedPVC''
             (''Standalone PVC '' @ quoteStr (PVCName inst) @ '' is no longer used - per-replica PVCs are now managed by StatefulSet VolumeClaimTemplates. Delete the orphaned PVC manually if no longer needed.'')
         | Inl _ \<Rightarrow> ret ());
        updMR (\<lambda>m. m\<lparr>mr_PVC := []\<rparr>) }
      else ret ());
     observedCondition c ConditionTypeStorageReady ConditionTrue ''ManagedByVolumeClaimTemplates''
       ''Per-replica PVCs managed by StatefulSet VolumeClaimTemplates'';
     doneStep }"

definition existingClaim :: "'s Cluster \<Rightarrow> string \<Rightarrow> 's step" where
  "existingClaim c name = do {
     inst \<leftarrow> getInst;
     res \<leftarrow> getObj c PVCK name (onamespace inst);
     (case res of
        Inl err \<Rightarrow>
          if isNotFound err then do {
            observedCondition c ConditionTypeStorageReady ConditionFalse ''ExistingClaimNotFound''
              (''Existing PVC '' @ quoteStr name @ '' not found'');
            failStep (errorf (''existing PVC '' @ quoteStr name @ '' not found'')) }
          else failStep err
      | Inr _ \<Rightarrow> do { updMR (\<lambda>m. m\<lparr>mr_PVC := name\<rparr>); doneStep }) }"

definition reconcilePVC :: "'s Cluster \<Rightarrow> 's step" where
  "reconcilePVC c = do {
     inst \<leftarrow> getInst;
     let claim = pers_ExistingClaim (stor_Persistence (spec_Storage (oci_Spec inst)));
     (if \<not> IsPersistenceEnabled inst then do { updMR (\<lambda>m. m\<lparr>mr_PVC := []\<rparr>); doneStep }
      else if IsHPAEnabled inst then hpaClaims c
      else if claim \<noteq> '''' then existingClaim c claim
      else ensureClaim c (BuildPVC (ob_ValidQuantity c) inst) (do {
             updMR (\<lambda>m. m\<lparr>mr_PVC := PVCName inst\<rparr>);
             readyCondition c ConditionTypeStorageReady ConditionTrue ''PVCCreated'' ''PersistentVolumeClaim created successfully'';
             doneStep })) }"

definition reconcileChromiumPVC :: "'s Cluster \<Rightarrow> 's step" where
  "reconcileChromiumPVC c = do {
     inst \<leftarrow> getInst;
     let ch = spec_Chromium (oci_Spec inst);
     let p = ch_Persistence ch;
     let forget = do { updMR (\<lambda>m. m\<lparr>mr_ChromiumPVC := []\<rparr>); doneStep };
     (if \<not> ch_Enabled ch \<or> \<not> chp_Enabled p then
        (if mr_ChromiumPVC (st_ManagedResources (oci_Status inst)) \<noteq> '''' \<and> chp_ExistingClaim p = ''''
         then deleteThen c isNotFound PVCK (ChromiumPVCName inst) forget else forget)
      else if chp_ExistingClaim p \<noteq> '''' then do { updMR (\<lambda>m. m\<lparr>mr_ChromiumPVC := chp_ExistingClaim p\<rparr>); doneStep }
      else ensureClaim c (BuildChromiumPVC (ob_ValidQuantity c) inst) (do {
             updMR (\<lambda>m. m\<lparr>mr_ChromiumPVC := ChromiumPVCName inst\<rparr>);
             doneStep })) }"

section \<open>Availability\<close>

definition pdbEnabled :: "OpenClawInstance \<Rightarrow> bool" where
  "pdbEnabled inst =
     (case av_PodDisruptionBudget (spec_Availability (oci_Spec inst)) of None \<Rightarrow> True | Some b \<Rightarrow> defaultTrue (pdb_Enabled b))"

definition reconcilePDB :: "'s Cluster \<Rightarrow> 's step" where
  "reconcilePDB c = do {
     inst \<leftarrow> getInst;
     (if \<not> pdbEnabled inst then
        deleteThen c isNotFound PDBK (PDBName inst) (do { updMR (\<lambda>m. m\<lparr>mr_PodDisruptionBudget := []\<rparr>); doneStep })
      else
        applyThen c PDBK (PDBName inst)
          (\<lambda>i k. adopted c i (withBody (PDBBody (BuildPDB i)) (withLabels (pdbo_Labels (BuildPDB i)) k)))
          (\<lambda>k. do { updMR (\<lambda>m. m\<lparr>mr_PodDisruptionBudget := om_Name (ko_Meta k)\<rparr>); doneStep })) }"

text \<open>The builder panics only without an auto-scaling block, which is then not enabled.\<close>

definition reconcileHPA :: "'s Cluster \<Rightarrow> 's step" where
  "reconcileHPA c = do {
     inst \<leftarrow> getInst;
     (if \<not> IsHPAEnabled inst then
        deleteThen c isNotFound HPAK (HPAName inst) (do { updMR (\<lambda>m. m\<lparr>mr_HorizontalPodAutoscaler := []\<rparr>); doneStep })
      else
        (case BuildHPA inst of
           Panic \<Rightarrow> ret (Some HPanic)
         | Ret d \<Rightarrow>
             applyThen c HPAK (HPAName inst) (\<lambda>i k. adopted c i (withBody (HPABody d) (withLabels (hpa_Labels d) k)))
               (\<lambda>k. do { updMR (\<lambda>m. m\<lparr>mr_HorizontalPodAutoscaler := om_Name (ko_Meta k)\<rparr>); doneStep }))) }"

end
