(* ===== verification/Serving.thy ===== *)
theory Serving
  imports Workload
begin

text \<open>
  The steps of reconcileResources for the StatefulSet, the Services and the optional integrations.
  The StatefulSet is built by theory StatefulSet, the dashboards by theory Dashboards.
\<close>

section \<open>StatefulSet\<close>

definition migrateDeploymentToStatefulSet :: "'s Cluster \<Rightarrow> 's step" where
  "migrateDeploymentToStatefulSet c = do {
     inst \<leftarrow> getInst;
     res \<leftarrow> getObj c DeploymentK (DeploymentName inst) (onamespace inst);
     (case res of
        Inl err \<Rightarrow> if isNotFound err then doneStep else failStep err
      | Inr deployment \<Rightarrow>
          if \<not> list_ex (\<lambda>o'. or_UID o' = om_UID (oci_Meta inst)) (om_OwnerReferences (ko_Meta deployment)) then doneStep
          else deleteThen c isNotFound DeploymentK (DeploymentName inst) (do {
            updMR (\<lambda>m. m\<lparr>mr_Deployment := []\<rparr>);
            removeCondition (ob_Rec c) ConditionTypeDeploymentReady;
            event EventNormal ''MigrationDeploymentDeleted'' ''Legacy Deployment deleted, StatefulSet will be created'';
            doneStep })) }"

text \<open>The Secrets whose content is hashed.\<close>

definition secretRefName :: "json \<Rightarrow> string option" where
  "secretRefName ef =
     (case jlookup ef [''secretRef''] of
        None \<Rightarrow> None
      | Some r \<Rightarrow> Some (case jlookup r [''name''] of Some (JStr s) \<Rightarrow> s | _ \<Rightarrow> ''''))"

definition hashedSecretNames :: "OpenClawInstance \<Rightarrow> string list" where
  "hashedSecretNames inst =
     sort (List.map_filter secretRefName (spec_EnvFrom (oci_Spec inst))
           @ [strOr (gw_ExistingSecret (spec_Gateway (oci_Spec inst))) (GatewayTokenSecretName inst)]
           @ (if MeshCredentialSecretName inst \<noteq> '''' then [MeshCredentialSecretName inst] else []))"

definition newline :: string where "newline = [CHR 0x0A]"

definition secretText :: "gomap \<Rightarrow> string" where
  "secretText dat = concat (map (\<lambda>k. k @ ''='' @ derefOr '''' (map_of dat k) @ newline) (sort (map fst dat)))"

text \<open>The loop: the text hashed so far and the names that were not found.\<close>

fun hashSecrets :: "'s Cluster \<Rightarrow> string list \<Rightarrow> string \<times> string list \<Rightarrow> ('s hctx, go_error + string \<times> string list) state" where
  "hashSecrets c [] acc = ret (Inr acc)"
| "hashSecrets c (name # names) (h, missing) = do {
     inst \<leftarrow> getInst;
     res \<leftarrow> getSecret (ob_Rec c) name (onamespace inst);
     (case res of
        Inl err \<Rightarrow>
          if isNotFound err then hashSecrets c names (h @ name @ ''=NOT_FOUND'' @ newline, missing @ [name])
          else ret (Inl (wrapErr (''failed to get secret '' @ name) err))
      | Inr secret \<Rightarrow> hashSecrets c names (h @ secretText (secret_Data secret), missing)) }"

definition computeSecretHash :: "'s Cluster \<Rightarrow> ('s hctx, go_error + string \<times> string list) state" where
  "computeSecretHash c = do {
     inst \<leftarrow> getInst;
     out \<leftarrow> hashSecrets c (hashedSecretNames inst) ([], []);
     ret (case out of
            Inl e \<Rightarrow> Inl e
          | Inr (h, missing) \<Rightarrow> Inr (hexEncode (take 8 (ob_Sha256 c h)), missing)) }"

fun reportMissing :: "string list \<Rightarrow> ('s hctx, unit) state" where
  "reportMissing [] = ret ()"
| "reportMissing (name # names) = do {
     event EventWarning ''SecretNotFound'' (''Secret '' @ quoteStr name @ '' referenced in envFrom is not found'');
     reportMissing names }"

definition secretHash :: "'s Cluster \<Rightarrow> ('s hctx, string) state" where
  "secretHash c = do {
     out \<leftarrow> computeSecretHash c;
     let (hash, missing) = (case out of Inl _ \<Rightarrow> ([], []) | Inr hm \<Rightarrow> hm);
     (if missing \<noteq> [] then do {
        reportMissing missing;
        readyCondition c ConditionTypeSecretsReady ConditionFalse ''SecretsMissing''
          (''Missing secrets: '' @ joinStr '', '' missing) }
      else
        readyCondition c ConditionTypeSecretsReady ConditionTrue ''AllSecretsFound'' ''All referenced secrets exist'');
     ret hash }"

definition gatewaySecretName :: "'s Cluster \<Rightarrow> string \<Rightarrow> ('s hctx, string) state" where
  "gatewaySecretName c gatewayToken = do {
     inst \<leftarrow> getInst;
     (if gatewayToken = '''' then ret ''''
      else do {
        tp \<leftarrow> isGatewayAuthTrustedProxy c;
        ret (if tp then '''' else strOr (gw_ExistingSecret (spec_Gateway (oci_Spec inst))) (GatewayTokenSecretName inst)) }) }"

text \<open>Quantities are compared by value, as \<^verbatim>\<open>apiequality.Semantic\<close> does.\<close>

definition sameClaimSpec :: "(string \<Rightarrow> string \<Rightarrow> bool) \<Rightarrow> ClaimTemplate \<Rightarrow> ClaimTemplate \<Rightarrow> bool" where
  "sameClaimSpec same x y \<longleftrightarrow> vct_AccessModes x = vct_AccessModes y \<and> same (vct_Storage x) (vct_Storage y)
     \<and> vct_StorageClassName x = vct_StorageClassName y \<and> vct_VolumeMode x = vct_VolumeMode y"

definition VolumeClaimTemplatesEqual :: "(string \<Rightarrow> string \<Rightarrow> bool) \<Rightarrow> ClaimTemplate list \<Rightarrow> ClaimTemplate list \<Rightarrow> bool" where
  "VolumeClaimTemplatesEqual same a b \<longleftrightarrow>
     length a = length b \<and> list_all2 (\<lambda>x y. vct_Name x = vct_Name y \<and> sameClaimSpec same x y) a b"

definition secretHashAnnotation :: string where "secretHashAnnotation = ''openclaw.rocks/secret-hash''"

text \<open>The mutate function: the desired spec, except that the autoscaler's replica count is kept.\<close>

definition mutateSts :: "OpenClawInstance \<Rightarrow> StsSpec \<Rightarrow> string \<Rightarrow> body \<Rightarrow> body" where
  "mutateSts inst desired hash existing =
     (let old = (case existing of StatefulSetBody s \<Rightarrow> Some s | _ \<Rightarrow> None);
          replicas = (case old of None \<Rightarrow> None | Some s \<Rightarrow> ss_Replicas s);
          spec = desired\<lparr>ss_StatusReplicas := (case old of None \<Rightarrow> 0 | Some s \<Rightarrow> ss_StatusReplicas s),
                         ss_StatusReadyReplicas := (case old of None \<Rightarrow> 0 | Some s \<Rightarrow> ss_StatusReadyReplicas s)\<rparr>;
          spec = (if IsHPAEnabled inst \<and> \<not> spec_Suspended (oci_Spec inst) \<and> replicas \<noteq> None
                  then spec\<lparr>ss_Replicas := replicas\<rparr> else spec);
          spec = (if hash \<noteq> '''' then spec\<lparr>ss_TemplateAnnotations := AList.update secretHashAnnotation hash (ss_TemplateAnnotations spec)\<rparr>
                  else spec)
      in StatefulSetBody spec)"

definition stsCondition :: "bool \<Rightarrow> int \<times> int \<Rightarrow> Condition" where
  "stsCondition suspended st =
     mkCondition ConditionTypeStatefulSetReady
       (if (if suspended then fst st = 0 else snd st > 0) then ConditionTrue else ConditionFalse)
       (if suspended then if fst st = 0 then ''StatefulSetSuspended'' else ''StatefulSetScalingDown''
        else if snd st > 0 then ''StatefulSetReady'' else ''StatefulSetNotReady'')
       (if suspended then if fst st = 0 then ''StatefulSet scaled to zero (instance suspended)''
                          else ''StatefulSet is scaling down for suspension''
        else if snd st > 0 then ''StatefulSet is ready'' else ''StatefulSet is not ready yet'')"

definition writeSts :: "'s Cluster \<Rightarrow> gomap \<Rightarrow> StsSpec \<Rightarrow> string \<Rightarrow> 's step" where
  "writeSts c lbls desired hash = do {
     inst \<leftarrow> getInst;
     applyThen c StatefulSetK (StatefulSetName inst)
       (\<lambda>i k. adopted c i (withBody (mutateSts i desired hash (ko_Body k)) (withLabels lbls k)))
       (\<lambda>k. do {
          updMR (\<lambda>m. m\<lparr>mr_StatefulSet := om_Name (ko_Meta k)\<rparr>);
          setCondition (ob_Rec c) (stsCondition (spec_Suspended (oci_Spec inst)) (stsStatus (ko_Body k)));
          doneStep }) }"

text \<open>What the builder takes from the cluster, and the desired StatefulSet, normalised.\<close>

definition podParams :: "'s Cluster \<Rightarrow> PodParams" where
  "podParams c =
     \<lparr>pp_ValidQuantity = ob_ValidQuantity c, pp_QuantityValue = ob_QuantityValue c, pp_Sha256 = ob_Sha256 c,
      pp_Marshal = ob_Marshal c, pp_Installer = ob_Installer c\<rparr>"

definition stsSpecOf :: "StatefulSet \<Rightarrow> StsSpec" where
  "stsSpecOf s =
     \<lparr>ss_Replicas = sts_Replicas s, ss_TemplateAnnotations = sts_TemplateAnnotations s,
      ss_VolumeClaimTemplates = sts_VolumeClaimTemplates s, ss_Template = Some s,
      ss_StatusReplicas = 0, ss_StatusReadyReplicas = 0\<rparr>"

definition desiredSts ::
    "'s Cluster \<Rightarrow> OpenClawInstance \<Rightarrow> string \<Rightarrow> ResolvedSkillPacks option \<Rightarrow> resolvedWorkspaceFiles \<Rightarrow> StatefulSet outcome" where
  "desiredSts c inst gwSecretName skillPacks wsFiles =
     (case BuildStatefulSet (podParams c) inst gwSecretName skillPacks (defaultFiles wsFiles) (additionalFiles wsFiles) of
        Panic \<Rightarrow> Panic
      | Ret s \<Rightarrow> Ret (NormalizeStatefulSet s))"

text \<open>Writing it, unless the claim templates of the stored one differ.\<close>

definition replaceSts :: "'s Cluster \<Rightarrow> gomap \<Rightarrow> StsSpec \<Rightarrow> string \<Rightarrow> 's step" where
  "replaceSts c lbls desired hash = do {
     inst \<leftarrow> getInst;
     res \<leftarrow> getObj c StatefulSetK (StatefulSetName inst) (onamespace inst);
     (case res of
        Inr sts \<Rightarrow>
          if \<not> VolumeClaimTemplatesEqual (ob_SameQuantity c)
                (case ko_Body sts of StatefulSetBody s \<Rightarrow> ss_VolumeClaimTemplates s | _ \<Rightarrow> []) (ss_VolumeClaimTemplates desired)
          then do {
            err \<leftarrow> deleteObj c StatefulSetK (StatefulSetName inst) (onamespace inst);
            failStep (case err of
              Some e \<Rightarrow> wrapErr ''deleting StatefulSet for VCT change'' e
            | None \<Rightarrow> errorf ''StatefulSet deleted for VolumeClaimTemplate change, will recreate on next reconcile'') }
          else writeSts c lbls desired hash
      | Inl _ \<Rightarrow> writeSts c lbls desired hash) }"

definition reconcileStatefulSet ::
    "'s Cluster \<Rightarrow> string \<Rightarrow> ResolvedSkillPacks option \<Rightarrow> resolvedWorkspaceFiles \<Rightarrow> 's step" where
  "reconcileStatefulSet c gatewayToken skillPacks wsFiles = do {
     hash \<leftarrow> secretHash c;
     gwSecretName \<leftarrow> gatewaySecretName c gatewayToken;
     inst \<leftarrow> getInst;
     (case desiredSts c inst gwSecretName skillPacks wsFiles of
        Panic \<Rightarrow> ret (Some HPanic)
      | Ret desired \<Rightarrow> replaceSts c (sts_Labels desired) (stsSpecOf desired) hash) }"

section \<open>Services and routes\<close>

definition clusterIPs :: "body \<Rightarrow> string \<times> string list" where
  "clusterIPs b = (case b of ServiceBody s ips \<Rightarrow> (svo_ClusterIP s, ips) | _ \<Rightarrow> ([], []))"

text \<open>The mutate function: the spec of the builder, but for the addresses, which are kept.\<close>

definition mutateService :: "'s Cluster \<Rightarrow> OpenClawInstance \<Rightarrow> kobj \<Rightarrow> go_error + kobj" where
  "mutateService c inst k =
     (let d = BuildService inst; (ip, ips) = clusterIPs (ko_Body k)
      in adopted c inst (withBody (ServiceBody (d\<lparr>svo_ClusterIP := ip\<rparr>) ips)
           (withAnnotations (om_Annotations (svo_Meta d)) (withLabels (om_Labels (svo_Meta d)) k))))"

definition reconcileService :: "'s Cluster \<Rightarrow> 's step" where
  "reconcileService c = do {
     inst \<leftarrow> getInst;
     applyThen c ServiceK (ServiceName inst) (mutateService c)
       (\<lambda>k. do {
          updMR (\<lambda>m. m\<lparr>mr_Service := om_Name (ko_Meta k)\<rparr>);
          let host = om_Name (ko_Meta k) @ ''.'' @ om_Namespace (ko_Meta k) @ ''.svc:'';
          modInst (updStatus (\<lambda>s. s\<lparr>st_GatewayEndpoint := host @ intStr GatewayPort, st_CanvasEndpoint := host @ intStr CanvasPort\<rparr>));
          readyCondition c ConditionTypeServiceReady ConditionTrue ''ServiceCreated'' ''Service created successfully'';
          doneStep }) }"

definition reconcileChromiumCDPService :: "'s Cluster \<Rightarrow> 's step" where
  "reconcileChromiumCDPService c = do {
     inst \<leftarrow> getInst;
     (if \<not> ch_Enabled (spec_Chromium (oci_Spec inst)) then deleteThen c isNotFound ServiceK (ChromiumCDPServiceName inst) doneStep
      else
        applyThen c ServiceK (ChromiumCDPServiceName inst)
          (\<lambda>i k. let d = BuildChromiumCDPService i
                 in adopted c i (withBody (ServiceBody d []) (withLabels (om_Labels (svo_Meta d)) k)))
          (\<lambda>_. doneStep)) }"

text \<open>Its result is only logged by the caller.\<close>

definition reconcileTraefikBasicAuthMiddleware :: "'s Cluster \<Rightarrow> 's step" where
  "reconcileTraefikBasicAuthMiddleware c = do {
     inst \<leftarrow> getInst;
     (case activeBasicAuth inst of
        None \<Rightarrow> doneStep
      | Some ba \<Rightarrow>
          if DetectIngressProvider (ing_ClassName (ingressOf inst)) \<noteq> IngressProviderTraefik then doneStep
          else applyThen c MiddlewareK (oname inst @ ''-basic-auth'')
                 (\<lambda>i k. adopted c i (withBody (MiddlewareBody (basicAuthSecret i ba))
                    (k\<lparr>ko_Meta := (ko_Meta k)\<lparr>om_Labels := Labels i\<rparr>\<rparr>)))
                 (\<lambda>_. doneStep)) }"

definition applyIngress :: "'s Cluster \<Rightarrow> 's step" where
  "applyIngress c = do {
     inst \<leftarrow> getInst;
     applyThen c IngressK (IngressName inst)
       (\<lambda>i k. let d = BuildIngress i
              in adopted c i (withBody (IngressBody d) (withAnnotations (ingo_Annotations d) (withLabels (ingo_Labels d) k))))
       (\<lambda>_. doneStep) }"

definition reconcileIngress :: "'s Cluster \<Rightarrow> 's step" where
  "reconcileIngress c = do {
     inst \<leftarrow> getInst;
     (if \<not> ing_Enabled (ingressOf inst) then deleteThen c isNotFound IngressK (IngressName inst) doneStep
      else andStep (wrapStep ''failed to reconcile basic auth secret'' (reconcileBasicAuthSecret c))
             (do { _ \<leftarrow> reconcileTraefikBasicAuthMiddleware c; applyIngress c })) }"

text \<open>Objects of kinds that need not be installed.\<close>

definition goneOrUnknown :: "'s Cluster \<Rightarrow> go_error \<Rightarrow> bool" where
  "goneOrUnknown c e \<longleftrightarrow> isNotFound e \<or> ob_IsNoMatch c e"

definition applyOptional ::
    "'s Cluster \<Rightarrow> objkind \<Rightarrow> string \<Rightarrow> (OpenClawInstance \<Rightarrow> kobj \<Rightarrow> kobj) \<Rightarrow> 's step \<Rightarrow> (kobj \<Rightarrow> 's step) \<Rightarrow> 's step" where
  "applyOptional c kind n f absent cont = do {
     inst \<leftarrow> getInst;
     res \<leftarrow> applyObj c kind n (onamespace inst) (\<lambda>k. Inr (f inst k));
     (case res of
        Inl e \<Rightarrow> if ob_IsNoMatch c e then absent else failStep e
      | Inr k \<Rightarrow> cont k) }"

text \<open>The labels and annotations of an unstructured object are replaced, not merged.\<close>

definition withMeta :: "gomap \<Rightarrow> kobj \<Rightarrow> kobj" where
  "withMeta lbls k = k\<lparr>ko_Meta := (ko_Meta k)\<lparr>om_Labels := lbls\<rparr>\<rparr>"

definition routeBody :: "OpenClawInstance \<Rightarrow> kobj \<Rightarrow> kobj" where
  "routeBody inst k =
     (case BuildHTTPRoute inst of
        None \<Rightarrow> k
      | Some d \<Rightarrow> ownedOnly inst (withBody (HTTPRouteBody d)
          (k\<lparr>ko_Meta := (ko_Meta k)\<lparr>om_Labels := hro_Labels d, om_Annotations := hro_Annotations d\<rparr>\<rparr>)))"

definition reconcileHTTPRoute :: "'s Cluster \<Rightarrow> 's step" where
  "reconcileHTTPRoute c = do {
     inst \<leftarrow> getInst;
     (if (case net_HTTPRoute (spec_Networking (oci_Spec inst)) of None \<Rightarrow> True | Some s \<Rightarrow> \<not> hr_Enabled s) then
        deleteThen c (goneOrUnknown c) HTTPRouteK (HTTPRouteName inst) (do {
          updMR (\<lambda>m. m\<lparr>mr_HTTPRoute := []\<rparr>);
          removeCondition (ob_Rec c) ConditionTypeHTTPRouteReady;
          doneStep })
      else
        applyOptional c HTTPRouteK (HTTPRouteName inst) routeBody
          (do { readyCondition c ConditionTypeHTTPRouteReady ConditionFalse ''GatewayAPINotInstalled''
                  ''Gateway API CRDs (gateway.networking.k8s.io) are not installed'';
                doneStep })
          (\<lambda>k. do {
             updMR (\<lambda>m. m\<lparr>mr_HTTPRoute := om_Name (ko_Meta k)\<rparr>);
             readyCondition c ConditionTypeHTTPRouteReady ConditionTrue ''HTTPRouteReconciled''
               ''Gateway API HTTPRoute reconciled successfully'';
             event EventNormal ''HTTPRouteReconciled'' ''Gateway API HTTPRoute reconciled successfully'';
             doneStep })) }"

section \<open>Monitoring\<close>

definition reconcileServiceMonitor :: "'s Cluster \<Rightarrow> 's step" where
  "reconcileServiceMonitor c = do {
     inst \<leftarrow> getInst;
     let requested = (case met_ServiceMonitor (metricsOf inst) of None \<Rightarrow> False | Some s \<Rightarrow> sm_Enabled s = Some True);
     let metricsEnabled = IsMetricsEnabled inst;
     (if \<not> requested \<or> \<not> metricsEnabled then
        deleteThen c (goneOrUnknown c) ServiceMonitorK (ServiceMonitorName inst) (do {
          updMR (\<lambda>m. m\<lparr>mr_ServiceMonitor := []\<rparr>);
          (if requested \<and> \<not> metricsEnabled then
             readyCondition c ConditionTypeServiceMonitorReady ConditionFalse ''MetricsDisabled''
               ''spec.observability.metrics.serviceMonitor.enabled requires spec.observability.metrics.enabled''
           else removeCondition (ob_Rec c) ConditionTypeServiceMonitorReady);
          doneStep })
      else
        applyOptional c ServiceMonitorK (ServiceMonitorName inst)
          (\<lambda>i k. ownedOnly i (withBody (ServiceMonitorBody (BuildServiceMonitor i)) (withMeta (smo_Labels (BuildServiceMonitor i)) k)))
          (do { readyCondition c ConditionTypeServiceMonitorReady ConditionFalse ''PrometheusOperatorNotInstalled''
                  ''Prometheus Operator CRDs (monitoring.coreos.com) are not installed'';
                doneStep })
          (\<lambda>k. do {
             updMR (\<lambda>m. m\<lparr>mr_ServiceMonitor := om_Name (ko_Meta k)\<rparr>);
             readyCondition c ConditionTypeServiceMonitorReady ConditionTrue ''ServiceMonitorReconciled''
               ''Prometheus ServiceMonitor reconciled successfully'';
             doneStep })) }"

definition reconcilePrometheusRule :: "'s Cluster \<Rightarrow> 's step" where
  "reconcilePrometheusRule c = do {
     inst \<leftarrow> getInst;
     (if (case met_PrometheusRule (metricsOf inst) of None \<Rightarrow> True | Some s \<Rightarrow> pr_Enabled s \<noteq> Some True) then
        deleteThen c (goneOrUnknown c) PrometheusRuleK (PrometheusRuleName inst)
          (do { updMR (\<lambda>m. m\<lparr>mr_PrometheusRule := []\<rparr>); doneStep })
      else
        applyOptional c PrometheusRuleK (PrometheusRuleName inst)
          (\<lambda>i k. ownedOnly i (withBody (PrometheusRuleBody (BuildPrometheusRule i)) (withMeta (pro_Labels (BuildPrometheusRule i)) k)))
          doneStep
          (\<lambda>k. do {
             updMR (\<lambda>m. m\<lparr>mr_PrometheusRule := om_Name (ko_Meta k)\<rparr>);
             event EventNormal ''PrometheusRuleReconciled'' ''PrometheusRule reconciled successfully'';
             doneStep })) }"

definition applyDashboard ::
    "'s Cluster \<Rightarrow> string \<Rightarrow> (OpenClawInstance \<Rightarrow> DashboardConfigMap) \<Rightarrow> (string \<Rightarrow> 's step) \<Rightarrow> 's step" where
  "applyDashboard c n build cont =
     applyThen c ConfigMapK n
       (\<lambda>i k. let desired = build i
              in adopted c i (withBody (ConfigMapBody (dcm_Data desired))
                   (withAnnotations (dcm_Annotations desired) (withLabels (dcm_Labels desired) k))))
       (\<lambda>k. cont (om_Name (ko_Meta k)))"

definition reconcileGrafanaDashboards :: "'s Cluster \<Rightarrow> 's step" where
  "reconcileGrafanaDashboards c = do {
     inst \<leftarrow> getInst;
     (if (case met_GrafanaDashboard (metricsOf inst) of None \<Rightarrow> True | Some s \<Rightarrow> gd_Enabled s \<noteq> Some True) then
        deleteThen c isNotFound ConfigMapK (GrafanaDashboardOperatorName inst)
          (deleteThen c isNotFound ConfigMapK (GrafanaDashboardInstanceName inst) (do {
             updMR (\<lambda>m. m\<lparr>mr_GrafanaDashboardOperator := [], mr_GrafanaDashboardInstance := []\<rparr>);
             doneStep }))
      else
        applyDashboard c (GrafanaDashboardOperatorName inst) BuildGrafanaDashboardOperator (\<lambda>n. do {
          updMR (\<lambda>m. m\<lparr>mr_GrafanaDashboardOperator := n\<rparr>);
          applyDashboard c (GrafanaDashboardInstanceName inst) BuildGrafanaDashboardInstance (\<lambda>n'. do {
            updMR (\<lambda>m. m\<lparr>mr_GrafanaDashboardInstance := n'\<rparr>);
            event EventNormal ''GrafanaDashboardsReconciled'' ''Grafana dashboards reconciled successfully'';
            doneStep }) })) }"

end
