(* ===== verification/Controller.thy ===== *)
theory Controller
  imports Serving Backup Restore
begin

text \<open>
  The main controller of internal/controller/openclawinstance_controller.go: reconcileResources,
  Reconcile and the functions that map a changed object to the instances to reconcile. Backup,
  restore and auto-update are the handlers of the theories of these names.
\<close>

definition RequeueAfter :: duration where "RequeueAfter = 5 * Minute"
definition ProvisioningRequeueAfter :: duration where "ProvisioningRequeueAfter = 10 * Second"

section \<open>All resources\<close>

definition ClusterDefaultsSingletonName :: string where "ClusterDefaultsSingletonName = ''cluster''"

definition applyClusterDefaults :: "'s Cluster \<Rightarrow> 's step" where
  "applyClusterDefaults c = do {
     res \<leftarrow> api (ob_GetDefaults c) (\<lambda>a. CGetDefaults (errOf a));
     (case res of
        Inl err \<Rightarrow>
          if isNotFound err then doneStep
          else failStep (wrapErr (''get OpenClawClusterDefaults/'' @ ClusterDefaultsSingletonName) err)
      | Inr defaults \<Rightarrow> do {
          modInst (\<lambda>i. i\<lparr>oci_Spec := oci_Spec (ApplyClusterDefaults i (Some defaults))\<rparr>);
          doneStep }) }"

definition meshStateStep :: "'s Cluster \<Rightarrow> 's step" where
  "meshStateStep c = do {
     inst \<leftarrow> getInst;
     (if MeshStateSecretName inst \<noteq> ''''
      then wrapStep ''failed to reconcile mesh state secret'' (reconcileMeshStateSecret c (MeshStateSecretName inst))
      else doneStep) }"

definition restoreStep :: "'s Cluster \<Rightarrow> 's step" where
  "restoreStep c = do {
     out \<leftarrow> reconcileRestore (ob_Rec c);
     ret (case out of (result, done, err) \<Rightarrow>
            if done then None
            else case err of
                   Some e \<Rightarrow> Some (HErr (wrapErr ''failed to reconcile restore'' e))
                 | None \<Rightarrow> Some (HRequeue result)) }"

definition bindConflictEvent :: "('s hctx, unit) state" where
  "bindConflictEvent = do {
     inst \<leftarrow> getInst;
     (if HasGatewayBindConflict inst then
        event EventWarning ''GatewayBindConflict''
          ''gateway.enabled is false but config sets gateway.bind to loopback - the pod will be unreachable because no proxy is running on the external interface''
      else ret ()) }"

definition cronJobStep :: "'s Cluster \<Rightarrow> 's step" where
  "cronJobStep c = do { err \<leftarrow> reconcileBackupCronJob (ob_Rec c); errStep err }"

text \<open>The steps from the volumes to the StatefulSet, and those after it.\<close>

definition workloadSteps ::
    "'s Cluster \<Rightarrow> string \<Rightarrow> ResolvedSkillPacks option \<Rightarrow> resolvedWorkspaceFiles \<Rightarrow> 's step list" where
  "workloadSteps c gatewayToken skillPacks wsFiles =
     [wrapStep ''failed to reconcile PVC'' (reconcilePVC c),
      wrapStep ''failed to reconcile Chromium PVC'' (reconcileChromiumPVC c),
      restoreStep c,
      wrapStep ''failed to reconcile PodDisruptionBudget'' (reconcilePDB c),
      wrapStep ''failed to reconcile HPA'' (reconcileHPA c),
      wrapStep ''failed to migrate Deployment to StatefulSet'' (migrateDeploymentToStatefulSet c),
      wrapStep ''failed to reconcile StatefulSet'' (reconcileStatefulSet c gatewayToken skillPacks wsFiles)]"

definition servingSteps :: "'s Cluster \<Rightarrow> 's step list" where
  "servingSteps c =
     [wrapStep ''failed to reconcile backup CronJob'' (cronJobStep c),
      wrapStep ''failed to reconcile Service'' (reconcileService c),
      wrapStep ''failed to reconcile Chromium CDP Service'' (reconcileChromiumCDPService c),
      wrapStep ''failed to reconcile Ingress'' (reconcileIngress c),
      wrapStep ''failed to reconcile HTTPRoute'' (reconcileHTTPRoute c),
      wrapStep ''failed to reconcile ServiceMonitor'' (reconcileServiceMonitor c),
      wrapStep ''failed to reconcile PrometheusRule'' (reconcilePrometheusRule c),
      wrapStep ''failed to reconcile Grafana dashboards'' (reconcileGrafanaDashboards c)]"

definition configSteps :: "'s Cluster \<Rightarrow> string \<Rightarrow> 's step" where
  "configSteps c gatewayToken = do {
     skillPacks \<leftarrow> resolveSkillPacks c;
     andStep (wrapStep ''failed to reconcile ConfigMap'' (reconcileConfigMap c gatewayToken skillPacks)) (do {
       bindConflictEvent;
       ws \<leftarrow> reconcileWorkspaceConfigMap c skillPacks;
       (case ws of
          Inl e \<Rightarrow> failStep (wrapErr ''failed to reconcile Workspace ConfigMap'' e)
        | Inr wsFiles \<Rightarrow>
            andStep (seqSteps (workloadSteps c gatewayToken skillPacks wsFiles)) (seqSteps (servingSteps c))) }) }"

definition accessSteps :: "'s Cluster \<Rightarrow> 's step list" where
  "accessSteps c =
     [wrapStep ''failed to apply cluster defaults'' (applyClusterDefaults c),
      wrapStep ''failed to reconcile RBAC'' (reconcileRBAC c),
      wrapStep ''failed to reconcile NetworkPolicy'' (reconcileNetworkPolicy c)]"

definition reconcileResources :: "'s Cluster \<Rightarrow> 's step" where
  "reconcileResources c =
     andStep (seqSteps (accessSteps c)) (do {
       tok \<leftarrow> reconcileGatewayTokenSecret c;
       (case tok of
          Inl e \<Rightarrow> failStep (wrapErr ''failed to reconcile gateway token secret'' e)
        | Inr gatewayToken \<Rightarrow> andStep (meshStateStep c) (configSteps c gatewayToken)) })"

section \<open>Reconcile\<close>

text \<open>\<^verbatim>\<open>meta.FindStatusCondition\<close>.\<close>

definition findCondition :: "string \<Rightarrow> Condition list \<Rightarrow> Condition option" where
  "findCondition t cs = List.find (\<lambda>d. cond_Type d = t) cs"

definition retryableConflictResult :: "go_error \<Rightarrow> Result \<times> bool" where
  "retryableConflictResult err = (if isConflict err then (requeueNow, True) else (noResult, False))"

text \<open>\<^verbatim>\<open>LastReconcileTime\<close> and \<^verbatim>\<open>ObservedGeneration\<close>.\<close>

definition observeGeneration :: "'s Cluster \<Rightarrow> ('s hctx, unit) state" where
  "observeGeneration c = do {
     inst \<leftarrow> getInst;
     (if st_ObservedGeneration (oci_Status inst) \<noteq> om_Generation (oci_Meta inst) then do {
        n \<leftarrow> now (ob_Rec c);
        modInst (updStatus (\<lambda>s. s\<lparr>st_LastReconcileTime := Some n\<rparr>)) }
      else ret ());
     modInst (\<lambda>i. updStatus (\<lambda>s. s\<lparr>st_ObservedGeneration := om_Generation (oci_Meta i)\<rparr>) i) }"

text \<open>The status is written only if it changed.\<close>

definition persistChange ::
    "'s Cluster \<Rightarrow> OpenClawInstanceStatus \<Rightarrow> string \<Rightarrow> string \<Rightarrow> Result \<Rightarrow> 's handler" where
  "persistChange c saved reason msg res = do {
     inst \<leftarrow> getInst;
     (if oci_Status inst = saved then ret (res, None)
      else do {
        err \<leftarrow> statusUpdate (ob_Rec c);
        (case err of
           Some e \<Rightarrow> ret (noResult, Some e)
         | None \<Rightarrow> do { event EventNormal reason msg; ret (res, None) }) }) }"

definition reportFailure :: "'s Cluster \<Rightarrow> go_error \<Rightarrow> 's handler" where
  "reportFailure c err = do {
     event EventWarning ''ReconcileFailed'' (emsg err);
     readyCondition c ConditionTypeReady ConditionFalse ''ReconcileFailed'' (emsg err);
     modInst (setPhase PhaseFailed);
     _ \<leftarrow> statusUpdate (ob_Rec c);
     inst \<leftarrow> getInst;
     ret (requeueIn (if st_Phase (oci_Status inst) = PhaseFailed then 2 * Minute else 30 * Second), Some err) }"

text \<open>The phase that the conditions justify; the result says whether the pod is still awaited.\<close>

definition settlePhase :: "'s Cluster \<Rightarrow> ('s hctx, bool) state" where
  "settlePhase c = do {
     inst \<leftarrow> getInst;
     let sts = findCondition ConditionTypeStatefulSetReady (st_Conditions (oci_Status inst));
     let packs = findCondition ConditionTypeSkillPacksReady (st_Conditions (oci_Status inst));
     (if sts = None \<or> cond_Status (the sts) \<noteq> ConditionTrue then do {
        modInst (setPhase PhaseProvisioning);
        readyCondition c ConditionTypeReady ConditionFalse ''StatefulSetNotReady'' ''Waiting for the StatefulSet pod to become ready'';
        ret True }
      else if packs \<noteq> None \<and> cond_Status (the packs) = ConditionFalse then do {
        modInst (setPhase PhaseDegraded);
        readyCondition c ConditionTypeReady ConditionTrue ''ReconcileSucceededDegraded''
          ''Resources reconciled but skill packs unavailable - instance running without skill packs'';
        ret False }
      else do {
        modInst (setPhase PhaseRunning);
        readyCondition c ConditionTypeReady ConditionTrue ''ReconcileSucceeded'' ''All resources reconciled successfully'';
        ret False }) }"

definition finishSuspended :: "'s Cluster \<Rightarrow> OpenClawInstanceStatus \<Rightarrow> 's handler" where
  "finishSuspended c saved = do {
     modInst (setPhase PhaseSuspended);
     readyCondition c ConditionTypeReady ConditionFalse ''Suspended''
       ''Instance is suspended (spec.suspended=true), workload scaled to zero'';
     observeGeneration c;
     persistChange c saved ''Suspended'' ''Instance suspended, workload scaled to zero'' (requeueIn RequeueAfter) }"

definition finishActive :: "'s Cluster \<Rightarrow> 'v semver \<Rightarrow> OpenClawInstanceStatus \<Rightarrow> 's handler" where
  "finishActive c sv saved = do {
     waiting \<leftarrow> settlePhase c;
     observeGeneration c;
     au \<leftarrow> reconcileAutoUpdate (ob_Rec c) sv;
     let auResult = fst au;
     let base = (if waiting then ProvisioningRequeueAfter else RequeueAfter);
     persistChange c saved ''ReconcileSucceeded'' ''All resources reconciled successfully''
       (if res_Requeue auResult then auResult
        else if res_RequeueAfter auResult > 0 \<and> res_RequeueAfter auResult < base then requeueIn (res_RequeueAfter auResult)
        else requeueIn base) }"

definition provision :: "'s Cluster \<Rightarrow> 'v semver \<Rightarrow> OpenClawInstanceStatus \<Rightarrow> ('s hctx, (Result \<times> go_error option) outcome) state" where
  "provision c sv saved = do {
     halted \<leftarrow> reconcileResources c;
     (case halted of
        Some HPanic \<Rightarrow> ret Panic
      | Some (HRequeue result) \<Rightarrow> ret (Ret (result, None))
      | Some (HErr err) \<Rightarrow>
          (case retryableConflictResult err of (res, ok) \<Rightarrow>
             if ok then ret (Ret (res, None))
             else do { out \<leftarrow> reportFailure c err; ret (Ret out) })
      | None \<Rightarrow> do {
          inst \<leftarrow> getInst;
          out \<leftarrow> (if spec_Suspended (oci_Spec inst) then finishSuspended c saved else finishActive c sv saved);
          ret (Ret out) }) }"

text \<open>An update in progress is driven first; it may end the run.\<close>

definition driveThenProvision :: "'s Cluster \<Rightarrow> 'v semver \<Rightarrow> ('s hctx, (Result \<times> go_error option) outcome) state" where
  "driveThenProvision c sv = do {
     inst \<leftarrow> getInst;
     let saved = oci_Status inst;
     (if aus_PendingVersion (au_of inst) \<noteq> '''' \<and> \<not> spec_Suspended (oci_Spec inst) then do {
        au \<leftarrow> reconcileAutoUpdate (ob_Rec c) sv;
        (case snd au of Some e \<Rightarrow> event EventWarning ''AutoUpdateError'' (emsg e) | None \<Rightarrow> ret ());
        (if res_Requeue (fst au) \<or> res_RequeueAfter (fst au) > 0 then do {
           err \<leftarrow> statusUpdate (ob_Rec c);
           ret (Ret (case err of Some e \<Rightarrow> (noResult, Some e) | None \<Rightarrow> (fst au, None))) }
         else provision c sv saved) }
      else provision c sv saved) }"

definition startProvisioning :: "'s Cluster \<Rightarrow> 'v semver \<Rightarrow> ('s hctx, (Result \<times> go_error option) outcome) state" where
  "startProvisioning c sv = do {
     modInst (setPhase PhaseProvisioning);
     err \<leftarrow> statusUpdate (ob_Rec c);
     (case err of
        Some e \<Rightarrow> ret (Ret (noResult, Some e))
      | None \<Rightarrow> do {
          out \<leftarrow> resolveInitialTag (ob_Rec c);
          (case out of
             (_, Some e) \<Rightarrow> ret (Ret (noResult, Some e))
           | (True, None) \<Rightarrow> ret (Ret (requeueNow, None))
           | (False, None) \<Rightarrow> driveThenProvision c sv) }) }"

definition addFinalizer :: "'s Cluster \<Rightarrow> 's handler" where
  "addFinalizer c = do {
     modInst (\<lambda>i. i\<lparr>oci_Meta := (oci_Meta i)\<lparr>om_Finalizers := om_Finalizers (oci_Meta i) @ [FinalizerName]\<rparr>\<rparr>);
     err \<leftarrow> updateInst (ob_Rec c);
     ret (case err of Some e \<Rightarrow> (noResult, Some e) | None \<Rightarrow> (requeueNow, None)) }"

definition markPending :: "'s Cluster \<Rightarrow> 's handler" where
  "markPending c = do {
     modInst (setPhase PhasePending);
     err \<leftarrow> statusUpdate (ob_Rec c);
     ret (case err of Some e \<Rightarrow> (noResult, Some e) | None \<Rightarrow> (requeueNow, None)) }"

definition ReconcileInstance ::
    "'s Cluster \<Rightarrow> 'v semver \<Rightarrow> string \<Rightarrow> string \<Rightarrow> ('s hctx, (Result \<times> go_error option) outcome) state" where
  "ReconcileInstance c sv name ns = do {
     res \<leftarrow> api (ob_GetInstance c name ns) (\<lambda>a. CGetInstance name ns (errOf a));
     (case res of
        Inl err \<Rightarrow> ret (Ret (noResult, if isNotFound err then None else Some err))
      | Inr inst \<Rightarrow> do {
          modInst (\<lambda>_. inst);
          (if om_DeletionTimestamp (oci_Meta inst) \<noteq> None then do {
             out \<leftarrow> reconcileDeleteWithBackup (ob_Rec c);
             ret (Ret out) }
           else if FinalizerName \<notin> set (om_Finalizers (oci_Meta inst)) then do {
             out \<leftarrow> addFinalizer c;
             ret (Ret out) }
           else if st_Phase (oci_Status inst) = '''' then do {
             out \<leftarrow> markPending c;
             ret (Ret out) }
           else if st_Phase (oci_Status inst) = PhasePending then startProvisioning c sv
           else driveThenProvision c sv) }) }"

section \<open>Which instances a changed object concerns\<close>

definition requestFor :: "OpenClawInstance \<Rightarrow> string \<times> string" where
  "requestFor inst = (oname inst, onamespace inst)"

definition usesSecret :: "string \<Rightarrow> OpenClawInstance \<Rightarrow> bool" where
  "usesSecret name inst \<longleftrightarrow>
     list_ex (\<lambda>ef. secretRefName ef = Some name) (spec_EnvFrom (oci_Spec inst))
     \<or> gw_ExistingSecret (spec_Gateway (oci_Spec inst)) = name
     \<or> MeshCredentialSecretName inst = name"

text \<open>The list of the instances in the namespace is the answer of the client, or an error.\<close>

definition findInstancesForSecret :: "go_error + OpenClawInstance list \<Rightarrow> string \<Rightarrow> (string \<times> string) list" where
  "findInstancesForSecret reply name =
     (case reply of Inl _ \<Rightarrow> [] | Inr items \<Rightarrow> map requestFor (filter (usesSecret name) items))"

definition usesConfigMap :: "string \<Rightarrow> OpenClawInstance \<Rightarrow> bool" where
  "usesConfigMap name inst \<longleftrightarrow>
     (case cfg_ConfigMapRef (spec_Config (oci_Spec inst)) of Some ref \<Rightarrow> cmk_Name ref = name | None \<Rightarrow> False)
     \<or> (case spec_Workspace (oci_Spec inst) of
          None \<Rightarrow> False
        | Some ws \<Rightarrow>
            (case ws_ConfigMapRef ws of Some ref \<Rightarrow> cmn_Name ref = name | None \<Rightarrow> False)
            \<or> list_ex (\<lambda>aw. case aw_ConfigMapRef aw of Some ref \<Rightarrow> cmn_Name ref = name | None \<Rightarrow> False)
                 (ws_AdditionalWorkspaces ws))"

definition findInstancesForConfigMap :: "go_error + OpenClawInstance list \<Rightarrow> string \<Rightarrow> (string \<times> string) list" where
  "findInstancesForConfigMap reply name =
     (case reply of Inl _ \<Rightarrow> [] | Inr items \<Rightarrow> map requestFor (filter (usesConfigMap name) items))"

definition findInstancesForClusterDefaults :: "go_error + OpenClawInstance list \<Rightarrow> string \<Rightarrow> (string \<times> string) list" where
  "findInstancesForClusterDefaults reply name =
     (if name \<noteq> ClusterDefaultsSingletonName then []
      else case reply of Inl _ \<Rightarrow> [] | Inr items \<Rightarrow> map requestFor items)"

end
