(* ===== verification/ControllerRules.thy ===== *)
theory ControllerRules
  imports Controller
begin

text \<open>
  Rules for the steps of the main controller: which calls they log (the locale \<open>before_pod\<close> for the
  steps before the write of the StatefulSet) and which parts of the in-memory instance they leave
  alone (the locales \<open>keeper\<close> and \<open>after_pod\<close>).
\<close>

section \<open>What the steps log\<close>

fun stsWrite :: "api_call \<Rightarrow> bool" where
  "stsWrite (CApplyObj StatefulSetK _ _ _ _) = True"
| "stsWrite _ = False"

lemma stsWrite_applyEntry [simp]: "stsWrite (applyEntry kind n ns a) \<longleftrightarrow> kind = StatefulSetK"
  by (cases a; cases kind) (simp_all add: applyEntry_def)

lemma stsWrite_kind [simp]: "kind \<noteq> StatefulSetK \<Longrightarrow> \<not> stsWrite (CApplyObj kind n ns e st)"
  by (cases kind) simp_all

named_theorems step_logs "what the steps of the controller log"

lemma logs_calls [step_logs]:
  "(\<And>e. P (CGetObj kind n ns e)) \<Longrightarrow> logs P (getObj c kind n ns)"
  "(\<And>e. P (CCreateObj kind (om_Name (ko_Meta k)) (om_Namespace (ko_Meta k)) e)) \<Longrightarrow> logs P (createObj c kind k)"
  "(\<And>e. P (CDeleteObj kind n ns e)) \<Longrightarrow> logs P (deleteObj c kind n ns)"
  "(\<And>a. P (applyEntry kind n ns a)) \<Longrightarrow> logs P (applyObj c kind n ns f)"
  "(\<And>e. P (CGetObj ConfigMapK n ns e)) \<Longrightarrow> logs P (getConfigMapData c n ns)"
  by (auto simp: getObj_def createObj_def deleteObj_def applyObj_def getConfigMapData_def intro!: log_rules)

lemma logs_local [step_logs]:
  "logs P (updMR g)" "logs P (readyCondition c t st r m)" "logs P (observedCondition c t st r m)"
  "logs P (setCondition r' cnd)" "logs P (removeCondition r' t)"
  by (auto simp: updMR_def readyCondition_def observedCondition_def handler_defs intro!: log_rules)

lemma logs_andStep [step_logs]: "logs P m \<Longrightarrow> logs P k \<Longrightarrow> logs P (andStep m k)"
  by (auto simp: andStep_def intro!: log_rules)

lemma logs_stops [step_logs]:
  "logs P doneStep" "logs P (failStep e)" "logs P (errStep x)" "logs P m \<Longrightarrow> logs P (wrapStep msg m)"
  by (auto simp: doneStep_def failStep_def errStep_def wrapStep_def intro!: log_rules)

lemma logs_seqSteps: "(\<And>m. m \<in> set ms \<Longrightarrow> logs P m) \<Longrightarrow> logs P (seqSteps ms)"
  by (induction ms) (auto intro!: log_rules step_logs)

lemma logs_applyThen [step_logs]:
  "(\<And>ns a. P (applyEntry kind n ns a)) \<Longrightarrow> (\<And>k. logs P (cont k)) \<Longrightarrow> logs P (applyThen c kind n f cont)"
  "(\<And>ns a. P (applyEntry kind n ns a)) \<Longrightarrow> logs P absent \<Longrightarrow> (\<And>k. logs P (cont k)) \<Longrightarrow>
   logs P (applyOptional c kind n g absent cont)"
  "(\<And>ns e. P (CDeleteObj kind n ns e)) \<Longrightarrow> logs P gone \<Longrightarrow> logs P (deleteThen c ign kind n gone)"
  by (auto simp: applyThen_def applyOptional_def deleteThen_def intro!: log_rules step_logs)

text \<open>
  Predicates on calls that hold of everything but the write of the StatefulSet: every step before
  that write logs only such calls.
\<close>

locale before_pod =
  fixes P :: "api_call \<Rightarrow> bool"
  assumes P: "\<not> stsWrite x \<Longrightarrow> P x"
begin

lemma logs_access: "logs P (applyClusterDefaults c)" "logs P (reconcileRBAC c)" "logs P (reconcileNetworkPolicy c)"
  by (auto simp: applyClusterDefaults_def reconcileRBAC_def reconcileServiceAccount_def reconcileRole_def
      reconcileRoleBinding_def reconcileNetworkPolicy_def Let_def intro!: log_rules step_logs P logs_seqSteps)

lemma logs_secrets: "logs P (getSecret r n ns)" "logs P (createOrUpdateSecret r n ns f)" "logs P (randRead c m)"
  by (auto simp: handler_ops randRead_def intro!: log_rules P)

lemma logs_token: "logs P (reconcileGatewayTokenSecret c)"
  by (auto simp: reconcileGatewayTokenSecret_def existingGatewayToken_def generateGatewayToken_def Let_def
      intro!: log_rules step_logs P logs_secrets)

lemma logs_mesh: "logs P (meshStateStep c)"
  by (auto simp: meshStateStep_def reconcileMeshStateSecret_def Let_def intro!: log_rules step_logs P logs_secrets)

lemma logs_resolveWorkspaces: "logs P (resolveWorkspaces c resolve ws acc)"
  by (induction c resolve ws acc rule: resolveWorkspaces.induct)
    (auto simp: resolvePacks_def Let_def intro!: log_rules P)

lemma logs_packs: "logs P (resolveSkillPacks c)"
  by (auto simp: resolveSkillPacks_def resolvePacks_def Let_def intro!: log_rules step_logs P logs_resolveWorkspaces)

lemma logs_config: "logs P (reconcileConfigMap c token packs)" "logs P bindConflictEvent"
  by (auto simp: reconcileConfigMap_def publishConfigMap_def bindConflictEvent_def Let_def
      intro!: log_rules step_logs P split: outcome.split)

lemma logs_reference: "logs P (resolveReference c who ev fetching n)"
  by (auto simp: resolveReference_def workspaceDegraded_def Let_def intro!: log_rules step_logs P)

lemma logs_resolveAdditional: "logs P (resolveAdditional c aws acc)"
  by (induction c aws acc rule: resolveAdditional.induct)
    (auto simp: Let_def intro!: log_rules logs_reference split: option.split)

lemma logs_workspace: "logs P (reconcileWorkspaceConfigMap c packs)"
  by (auto simp: reconcileWorkspaceConfigMap_def resolveWorkspaceFiles_def resolveDefault_def Let_def
      intro!: log_rules step_logs P logs_reference logs_resolveAdditional)

lemma logs_ensureClaim: "logs P cont \<Longrightarrow> logs P (ensureClaim c d cont)"
  by (auto simp: ensureClaim_def intro!: log_rules step_logs P)

lemma logs_volumes: "logs P (reconcilePVC c)" "logs P (reconcileChromiumPVC c)"
  by (auto simp: reconcilePVC_def reconcileChromiumPVC_def hpaClaims_def existingClaim_def Let_def
      intro!: log_rules step_logs P logs_ensureClaim)

lemma logs_credentials: "logs P (getS3Credentials r)" "logs P (reconcileS3MirrorSecret r creds)" "logs P (getJob r n ns)"
  by (auto simp: getS3Credentials_def reconcileS3MirrorSecret_def getJob_def handler_ops Let_def intro!: log_rules P)

lemma logs_restore: "logs P (restoreStep c)"
  by (auto simp: restoreStep_def reconcileRestore_def restoreWithJob_def pollRestoreJob_def finishRestore_def
      createRestoreJob_def restore_defs handler_defs Let_def intro!: log_rules P logs_credentials split: prod.split)

lemma logs_availability: "logs P (reconcilePDB c)" "logs P (reconcileHPA c)" "logs P (migrateDeploymentToStatefulSet c)"
  by (auto simp: reconcilePDB_def reconcileHPA_def migrateDeploymentToStatefulSet_def
      intro!: log_rules step_logs P split: outcome.split)

lemma logs_serving: "logs P (seqSteps (servingSteps c))"
  by (rule logs_seqSteps)
    (auto simp: servingSteps_def cronJobStep_def reconcileBackupCronJob_def cleanupBackupCronJob_def
      clearBackupCronJob_def scheduledCondition_def getS3Credentials_def reconcileS3MirrorSecret_def
      handler_defs reconcileService_def reconcileChromiumCDPService_def reconcileIngress_def applyIngress_def
      reconcileTraefikBasicAuthMiddleware_def reconcileBasicAuthSecret_def reconcileHTTPRoute_def
      reconcileServiceMonitor_def reconcilePrometheusRule_def reconcileGrafanaDashboards_def applyDashboard_def
      randRead_def Let_def split: prod.split intro!: log_rules step_logs P)

lemma logs_secretHash: "logs P (secretHash c)" "logs P (gatewaySecretName c token)"
proof -
  have "logs P (hashSecrets c names acc)" for names acc
  proof (induction names arbitrary: acc)
    case (Cons name names)
    then show ?case by (cases acc) (auto simp: handler_ops Let_def intro!: log_rules P)
  qed (simp add: log_rules)
  moreover have "logs P (reportMissing names)" for names
    by (induction names) (auto intro!: log_rules P)
  ultimately show "logs P (secretHash c)"
    by (auto simp: secretHash_def computeSecretHash_def Let_def split: prod.split intro!: log_rules step_logs)
  show "logs P (gatewaySecretName c token)"
    by (auto simp: gatewaySecretName_def isGatewayAuthTrustedProxy_def Let_def intro!: log_rules step_logs P)
qed

end

interpretation noPod: before_pod "\<lambda>x. \<not> stsWrite x"
  by unfold_locales simp

interpretation anyCall: before_pod "\<lambda>_. True"
  by unfold_locales simp

section \<open>What the steps keep of the instance\<close>

text \<open>\<open>keeps g m\<close>: \<open>m\<close> leaves the part \<open>g\<close> of the in-memory instance alone.\<close>

named_theorems keep_rules "what the constructs of a handler keep"

definition keeps :: "(OpenClawInstance \<Rightarrow> 'b) \<Rightarrow> ('s hctx, 'a) state \<Rightarrow> bool" where
  "keeps g m \<longleftrightarrow> (\<forall>h. wp m (\<lambda>_ h'. g (cur h') = g (cur h)) h)"

lemma keepsD: "keeps g m \<Longrightarrow> wp m (\<lambda>_ h'. g (cur h') = g (cur h)) h"
  by (simp add: keeps_def)

lemma keeps_basic [keep_rules]:
  "keeps g (ret a)" "keeps g getInst" "keeps g (event t rs m)" "keeps g (api x mk)"
  by (auto simp: keeps_def intro!: wp_rules wp_api)

lemma keeps_modInst: "(\<And>i. g (f i) = g i) \<Longrightarrow> keeps g (modInst f)"
  by (auto simp: keeps_def intro!: wp_rules)

lemma keeps_bind [keep_rules]:
  assumes "keeps g m" "\<And>a. keeps g (f a)"
  shows "keeps g (State_Monad.bind m f)"
  unfolding keeps_def
proof (intro allI wp_bind)
  show "wp m (\<lambda>a. wp (f a) (\<lambda>_ h'. g (cur h') = g (cur h))) h" for h
    using keepsD [OF assms(1)]
    by (rule wp_mono) (rule wp_mono [OF keepsD [OF assms(2)]], simp)
qed

lemma keeps_cases [keep_rules]:
  "keeps g m \<Longrightarrow> keeps g n \<Longrightarrow> keeps g (if b then m else n)"
  "keeps g k \<Longrightarrow> (\<And>y. keeps g (f y)) \<Longrightarrow> keeps g (case x of None \<Rightarrow> k | Some y \<Rightarrow> f y)"
  "(\<And>e. keeps g (f1 e)) \<Longrightarrow> (\<And>y. keeps g (f2 y)) \<Longrightarrow> keeps g (case z of Inl e \<Rightarrow> f1 e | Inr y \<Rightarrow> f2 y)"
  "(\<And>a b. keeps g (p a b)) \<Longrightarrow> keeps g (case q of (a, b) \<Rightarrow> p a b)"
  by (simp_all split: option.split sum.split prod.split)

lemma keeps_steps [keep_rules]:
  "keeps g m \<Longrightarrow> keeps g k \<Longrightarrow> keeps g (andStep m k)"
  "keeps g m \<Longrightarrow> keeps g (wrapStep msg m)" "keeps g doneStep" "keeps g (failStep e)" "keeps g (errStep x)"
  by (auto simp: step_defs intro!: keep_rules)

lemma keeps_seqSteps: "(\<And>m. m \<in> set ms \<Longrightarrow> keeps g m) \<Longrightarrow> keeps g (seqSteps ms)"
  by (induction ms) (auto simp: andStep_def intro!: keep_rules)

lemma keeps_calls [keep_rules]:
  "keeps g (getObj c kind n ns)" "keeps g (createObj c kind k)" "keeps g (deleteObj c kind n ns)"
  "keeps g (applyObj c kind n ns f)" "keeps g (getConfigMapData c n ns)" "keeps g (getSecret r n ns)"
  "keeps g (createOrUpdateSecret r n ns fs)" "keeps g (randRead c m)" "keeps g (getCronJob r n ns)"
  "keeps g (deleteCronJob r cj)" "keeps g (createOrUpdateCronJob r n ns fc)"
  by (simp_all add: getObj_def createObj_def deleteObj_def applyObj_def getConfigMapData_def randRead_def handler_ops keep_rules)

lemma keeps_applyThen [keep_rules]:
  "(\<And>k. keeps g (cont k)) \<Longrightarrow> keeps g (applyThen c kind n f cont)"
  "keeps g absent \<Longrightarrow> (\<And>k. keeps g (cont k)) \<Longrightarrow> keeps g (applyOptional c kind n f' absent cont)"
  "keeps g gone \<Longrightarrow> keeps g (deleteThen c ign kind n gone)"
  by (auto simp: step_defs applyOptional_def intro!: keep_rules)

text \<open>
  A part of the instance that the bookkeeping of the steps does not touch: the managed-resources
  status and the conditions of the types in \<open>T\<close>.
\<close>

locale keeper =
  fixes g :: "OpenClawInstance \<Rightarrow> 'b" and c :: "'s Cluster" and T :: "string set"
  assumes managed: "g (updStatus (\<lambda>s. s\<lparr>st_ManagedResources := f (st_ManagedResources s)\<rparr>) i) = g i"
    and setting: "cond_Type cnd \<in> T \<Longrightarrow>
      g (updStatus (\<lambda>s. s\<lparr>st_Conditions := rc_SetStatusCondition (ob_Rec c) cnd (st_Conditions s)\<rparr>) i) = g i"
    and removing: "t \<in> T \<Longrightarrow>
      g (updStatus (\<lambda>s. s\<lparr>st_Conditions := rc_RemoveStatusCondition (ob_Rec c) t (st_Conditions s)\<rparr>) i) = g i"
begin

lemma keeps_updMR: "keeps g (updMR f)"
  by (simp add: updMR_def keeps_modInst managed)

lemma keeps_conditions:
  "cond_Type cnd \<in> T \<Longrightarrow> keeps g (setCondition (ob_Rec c) cnd)" "t \<in> T \<Longrightarrow> keeps g (removeCondition (ob_Rec c) t)"
  "t \<in> T \<Longrightarrow> keeps g (readyCondition c t st rs m)"
  "t \<in> T \<Longrightarrow> keeps g (observedCondition c t st rs m)"
  by (auto simp: setCondition_def removeCondition_def readyCondition_def observedCondition_def mkCondition_def
      intro!: keep_rules keeps_modInst setting removing)

end

text \<open>The steps after the StatefulSet.\<close>

locale after_pod = keeper +
  assumes later: "{ConditionTypeScheduledBackupReady, ConditionTypeServiceReady, ConditionTypeHTTPRouteReady,
      ConditionTypeServiceMonitorReady} \<subseteq> T"
    and endpoints: "g (updStatus (\<lambda>s. s\<lparr>st_GatewayEndpoint := a, st_CanvasEndpoint := b\<rparr>) i) = g i"
begin

lemma keeps_cron: "keeps g (cronJobStep c)"
  using later
  by (auto simp: cronJobStep_def reconcileBackupCronJob_def cleanupBackupCronJob_def clearBackupCronJob_def
      scheduledCondition_def getS3Credentials_def reconcileS3MirrorSecret_def Let_def mkCondition_def
      updMR_def [symmetric] intro!: keep_rules keeps_conditions keeps_updMR)

lemma keeps_services: "keeps g (reconcileService c)" "keeps g (reconcileChromiumCDPService c)"
  using later
  by (auto simp: reconcileService_def reconcileChromiumCDPService_def Let_def
      intro!: keep_rules keeps_conditions keeps_updMR keeps_modInst endpoints)

lemma keeps_ingress: "keeps g (reconcileIngress c)"
  by (auto simp: reconcileIngress_def applyIngress_def reconcileTraefikBasicAuthMiddleware_def reconcileBasicAuthSecret_def Let_def
      intro!: keep_rules keeps_updMR)

lemma keeps_optional:
  "keeps g (reconcileHTTPRoute c)" "keeps g (reconcileServiceMonitor c)"
  "keeps g (reconcilePrometheusRule c)" "keeps g (reconcileGrafanaDashboards c)"
  using later
  by (auto simp: reconcileHTTPRoute_def reconcileServiceMonitor_def reconcilePrometheusRule_def
      reconcileGrafanaDashboards_def applyDashboard_def Let_def intro!: keep_rules keeps_conditions keeps_updMR)

lemma keeps_serving: "keeps g (seqSteps (servingSteps c))"
  by (rule keeps_seqSteps) (auto simp: servingSteps_def intro!: keep_rules keeps_cron keeps_services keeps_ingress keeps_optional)

end

text \<open>The steps before a restore; the cluster defaults are merged into the spec.\<close>

locale every_condition = keeper +
  assumes every: "T = UNIV"
begin

lemmas keeps_all = keeps_updMR keeps_conditions [unfolded every, OF UNIV_I]

lemma keeps_policy: "keeps g (reconcileRBAC c)" "keeps g (reconcileNetworkPolicy c)"
  by (auto simp: reconcileRBAC_def reconcileServiceAccount_def reconcileRole_def
      reconcileRoleBinding_def reconcileNetworkPolicy_def Let_def
      intro!: keep_rules keeps_all keeps_seqSteps)

lemma keeps_token: "keeps g (reconcileGatewayTokenSecret c)"
  by (auto simp: reconcileGatewayTokenSecret_def existingGatewayToken_def generateGatewayToken_def Let_def
      intro!: keep_rules keeps_all)

lemma keeps_mesh: "keeps g (meshStateStep c)"
  by (auto simp: meshStateStep_def reconcileMeshStateSecret_def Let_def intro!: keep_rules keeps_all)

lemma keeps_resolveWorkspaces: "keeps g (resolveWorkspaces c resolve ws acc)"
proof (induction ws arbitrary: acc)
  case (Cons w ws)
  then show ?case
    by (cases w; cases acc) (auto simp: resolvePacks_def Let_def intro!: keep_rules)
qed (simp add: keep_rules)

lemma keeps_packs: "keeps g (resolveSkillPacks c)"
  by (auto simp: resolveSkillPacks_def resolvePacks_def Let_def intro!: keep_rules keeps_all keeps_resolveWorkspaces)

lemma keeps_config: "keeps g (reconcileConfigMap c token packs)" "keeps g bindConflictEvent"
  by (auto simp: reconcileConfigMap_def publishConfigMap_def bindConflictEvent_def Let_def
      intro!: keep_rules keeps_all split: outcome.split)

lemma keeps_reference: "keeps g (resolveReference c who ev fetching n)"
  by (auto simp: resolveReference_def workspaceDegraded_def Let_def intro!: keep_rules keeps_all)

lemma keeps_resolveAdditional: "keeps g (resolveAdditional c aws acc)"
proof (induction aws arbitrary: acc)
  case (Cons aw aws)
  then show ?case
    by (cases acc) (auto simp: Let_def intro!: keep_rules keeps_reference split: option.split)
qed (simp add: keep_rules)

lemma keeps_workspace: "keeps g (reconcileWorkspaceConfigMap c packs)"
  by (auto simp: reconcileWorkspaceConfigMap_def resolveWorkspaceFiles_def resolveDefault_def Let_def
      intro!: keep_rules keeps_all keeps_reference keeps_resolveAdditional)

lemma keeps_hash: "keeps g (secretHash c)" "keeps g (gatewaySecretName c token)"
proof -
  have "keeps g (hashSecrets c names acc)" for names acc
  proof (induction names arbitrary: acc)
    case (Cons name names)
    then show ?case by (cases acc) (auto simp: Let_def intro!: keep_rules)
  qed (simp add: keep_rules)
  moreover have "keeps g (reportMissing names)" for names
    by (induction names) (auto intro!: keep_rules)
  ultimately show "keeps g (secretHash c)"
    by (auto simp: secretHash_def computeSecretHash_def Let_def split: prod.split intro!: keep_rules keeps_all)
  show "keeps g (gatewaySecretName c token)"
    by (auto simp: gatewaySecretName_def isGatewayAuthTrustedProxy_def Let_def intro!: keep_rules)
qed

lemma keeps_ensureClaim: "keeps g cont \<Longrightarrow> keeps g (ensureClaim c d cont)"
  by (auto simp: ensureClaim_def intro!: keep_rules)

lemma keeps_volumes: "keeps g (reconcilePVC c)" "keeps g (reconcileChromiumPVC c)"
  by (auto simp: reconcilePVC_def reconcileChromiumPVC_def hpaClaims_def existingClaim_def Let_def
      intro!: keep_rules keeps_all keeps_ensureClaim)

end

locale before_restore = every_condition +
  assumes defaults: "g (i\<lparr>oci_Spec := oci_Spec (ApplyClusterDefaults i d)\<rparr>) = g i"
begin

lemma keeps_access: "keeps g (applyClusterDefaults c)" "keeps g (reconcileRBAC c)" "keeps g (reconcileNetworkPolicy c)"
  by (auto simp: applyClusterDefaults_def intro!: keep_rules keeps_modInst defaults keeps_policy)

end

end
