(* ===== verification/ControllerDemo.thy ===== *)
theory ControllerDemo
  imports ControllerRules MemCluster
begin

text \<open>
  A concrete cluster on which a run of the main controller goes through: the objects are answered
  by constants, the Secrets and the instance by the in-memory cluster of theory MemCluster. The
  witnesses of the controller's properties run on it.
\<close>

section \<open>A cluster that answers every call\<close>

text \<open>The replies of an empty cluster whose writes succeed and whose pod is ready at once.\<close>

definition replySts :: StsSpec where
  "replySts = \<lparr>ss_Replicas = Some 1, ss_TemplateAnnotations = [], ss_VolumeClaimTemplates = [], ss_Template = None,
     ss_StatusReplicas = 1, ss_StatusReadyReplicas = 1\<rparr>"

definition replyCluster :: "Mem Cluster" where
  "replyCluster =
     \<lparr>ob_Rec = memRec,
      ob_GetInstance = (\<lambda>n ns. State (\<lambda>s. (Inr (mem_Inst s), s))),
      ob_GetDefaults = ret (Inl (GoErr KNotFound ''not found'')),
      ob_GetConfigMapData = (\<lambda>n ns. ret (Inr [(''openclaw.json'', ''raw'')])),
      ob_Get = (\<lambda>kind n ns. ret (Inl (GoErr KNotFound ''not found''))),
      ob_Create = (\<lambda>kind k. ret None),
      ob_Delete = (\<lambda>kind n ns. ret None),
      ob_CreateOrUpdate = (\<lambda>kind n ns f. ret (Inr
        \<lparr>ko_Meta = zero_ObjectMeta\<lparr>om_Name := n, om_Namespace := ns\<rparr>, ko_Body = StatefulSetBody replySts\<rparr>)),
      ob_IsNoMatch = (\<lambda>_. False),
      ob_RandRead = (\<lambda>n. ret (Inr (replicate n (CHR ''x'')))),
      ob_Resolve = None,
      ob_Bytes = Text,
      ob_Sha256 = (\<lambda>_. ''sha''),
      ob_Sha1 = (\<lambda>_. ''sha''),
      ob_ValidQuantity = (\<lambda>_. True),
      ob_SameQuantity = (\<lambda>a b. a = b), ob_QuantityValue = (\<lambda>_. 0), ob_Marshal = (\<lambda>_. []), ob_Installer = []\<rparr>"

definition replyStart :: "Mem hctx" where
  "replyStart = freshCtx mem_Inst
     \<lparr>mem_Inst = zero_OpenClawInstance\<lparr>oci_Meta := zero_ObjectMeta\<lparr>om_Name := ''claw'', om_Namespace := ''team''\<rparr>\<rparr>,
      mem_Time = 0, mem_Sts = None, mem_Pods = [], mem_Jobs = [], mem_Secrets = [], mem_PVC = None, mem_CronJob = None,
      mem_Latest = ''''\<rparr>"


definition plain :: "OpenClawInstance \<Rightarrow> bool" where
  "plain i \<longleftrightarrow> oci_Spec i = zero_OpenClawInstanceSpec"

definition works :: "(Mem hctx, 'a) state \<Rightarrow> ('a \<Rightarrow> bool) \<Rightarrow> bool" where
  "works m R \<longleftrightarrow> (\<forall>h. plain (cur h) \<longrightarrow> wp m (\<lambda>a h'. R a \<and> plain (cur h')) h)"

lemma works_bind:
  assumes "works m R" "\<And>a. R a \<Longrightarrow> works (f a) S"
  shows "works (State_Monad.bind m f) S"
  unfolding works_def
proof (intro allI impI wp_bind)
  fix h :: "Mem hctx" assume "plain (cur h)"
  with assms(1) show "wp m (\<lambda>a. wp (f a) (\<lambda>b h'. S b \<and> plain (cur h'))) h"
    unfolding works_def by (elim allE impE) (assumption, erule wp_mono, use assms(2) in \<open>auto simp: works_def\<close>)
qed

lemma works_andStep: "works m (\<lambda>a. a = None) \<Longrightarrow> works k R \<Longrightarrow> works (andStep m k) R"
  unfolding andStep_def by (rule works_bind, assumption) simp

lemma works_wrap: "works m (\<lambda>a. a = None) \<Longrightarrow> works (wrapStep msg m) (\<lambda>a. a = None)"
  unfolding wrapStep_def by (rule works_bind, assumption) (auto simp: works_def intro: wp_return)

lemma replyCluster_sel:
  "ob_Rec replyCluster = memRec" "ob_Get replyCluster kind n ns = ret (Inl (GoErr KNotFound ''not found''))"
  "ob_CreateOrUpdate replyCluster kind n ns f = ret (Inr
        \<lparr>ko_Meta = zero_ObjectMeta\<lparr>om_Name := n, om_Namespace := ns\<rparr>, ko_Body = StatefulSetBody replySts\<rparr>)"
  "ob_Create replyCluster kind k = ret None" "ob_Delete replyCluster kind n ns = ret None"
  "ob_GetDefaults replyCluster = ret (Inl (GoErr KNotFound ''not found''))" "ob_Resolve replyCluster = None"
  "ob_RandRead replyCluster m = ret (Inr (replicate m (CHR ''x'')))" "ob_IsNoMatch replyCluster e = False"
  by (simp_all add: replyCluster_def)

lemmas works_simps = applyThen_def applyObj_def getObj_def createObj_def deleteObj_def deleteThen_def updMR_def readyCondition_def
  observedCondition_def setCondition_def removeCondition_def doneStep_def failStep_def errStep_def
  replyCluster_sel adopted_def Let_def andStep_def seqSteps.simps plain_def updStatus_def
  getSecret_def createOrUpdateSecret_def memRec_def memGet_def randRead_def generatedSecret_def isNotFound_def

lemma w_access: "works (seqSteps (accessSteps replyCluster)) (\<lambda>a. a = None)"
  unfolding accessSteps_def seqSteps.simps
  by (intro works_andStep works_wrap)
    (auto simp: works_def works_simps applyClusterDefaults_def reconcileRBAC_def reconcileServiceAccount_def
      reconcileRole_def reconcileRoleBinding_def reconcileNetworkPolicy_def intro!: wp_rules wp_api)


lemma w_token: "works (reconcileGatewayTokenSecret replyCluster) (\<lambda>a. \<not> isl a)"
  by (auto simp: works_def works_simps zero_OpenClawInstanceSpec_def zero_GatewaySpec_def reconcileGatewayTokenSecret_def existingGatewayToken_def generateGatewayToken_def
      split: option.splits sum.splits intro!: wp_rules wp_api)

lemma w_mesh: "works (meshStateStep replyCluster) (\<lambda>a. a = None)"
  by (auto simp: works_def works_simps meshStateStep_def MeshStateSecretName_def  reconcileMeshStateSecret_def wrapStep_def
      split: option.splits sum.splits intro!: wp_rules wp_api)

lemma w_packs: "works (resolveSkillPacks replyCluster) (\<lambda>a. a = None)"
  by (auto simp: works_def works_simps resolveSkillPacks_def intro!: wp_rules wp_api)

lemma w_config: "works (reconcileConfigMap replyCluster token packs) (\<lambda>a. a = None)" "works bindConflictEvent (\<lambda>_. True)"
proof -
  have "\<exists>cm. BuildConfigMap i token packs = Ret cm" if "plain i" for i
    using build_object [of i "[]" token packs] that
    by (auto simp: BuildConfigMap_def rawOrEmpty_def plain_def zero_OpenClawInstanceSpec_def zero_ConfigSpec_def)
  then show "works (reconcileConfigMap replyCluster token packs) (\<lambda>a. a = None)"
    by (fastforce simp: works_def works_simps reconcileConfigMap_def publishConfigMap_def zero_OpenClawInstanceSpec_def zero_ConfigSpec_def
      intro!: wp_rules wp_api)
  show "works bindConflictEvent (\<lambda>_. True)"
    by (auto simp: works_def bindConflictEvent_def intro!: wp_rules)
qed

lemma w_workspace: "works (reconcileWorkspaceConfigMap replyCluster packs) (\<lambda>a. \<not> isl a)"
  by (auto simp: works_def works_simps reconcileWorkspaceConfigMap_def resolveWorkspaceFiles_def hasConfigMapRef_def
      zero_OpenClawInstanceSpec_def intro!: wp_rules wp_api)

lemma w_volumes: "works (reconcilePVC replyCluster) (\<lambda>a. a = None)" "works (reconcileChromiumPVC replyCluster) (\<lambda>a. a = None)"
  by (auto simp: works_def works_simps reconcilePVC_def reconcileChromiumPVC_def ensureClaim_def hpaClaims_def existingClaim_def
      zero_OpenClawInstanceSpec_def zero_StorageSpec_def zero_PersistenceSpec_def  intro!: wp_rules wp_api)

lemma w_restore: "works (restoreStep replyCluster) (\<lambda>a. a = None)"
  by (auto simp: works_def works_simps restoreStep_def reconcileRestore_def zero_OpenClawInstanceSpec_def intro!: wp_rules)

lemma w_availability: "works (reconcilePDB replyCluster) (\<lambda>a. a = None)" "works (reconcileHPA replyCluster) (\<lambda>a. a = None)"
    "works (migrateDeploymentToStatefulSet replyCluster) (\<lambda>a. a = None)"
  by (auto simp: works_def works_simps reconcilePDB_def reconcileHPA_def migrateDeploymentToStatefulSet_def IsHPAEnabled_def
      zero_OpenClawInstanceSpec_def zero_AvailabilitySpec_def intro!: wp_rules wp_api)

interpretation spec: every_condition oci_Spec replyCluster UNIV
  by unfold_locales (simp_all add: updStatus_def)

lemma works_keeps: "keeps oci_Spec m \<Longrightarrow> works m (\<lambda>_. True)"
  using keepsD by (fastforce simp: works_def plain_def elim: wp_mono)

lemma w_write: "works (writeSts replyCluster lbls desired hash) (\<lambda>a. a = None)"
  by (auto simp: works_def works_simps writeSts_def intro!: wp_rules wp_api)

lemma works_isl: "isl a \<Longrightarrow> works m R \<Longrightarrow> works (case a of Inl _ \<Rightarrow> m | Inr y \<Rightarrow> k y) R"
  by (cases a) simp_all

lemma w_replace: "works (replaceSts replyCluster lbls desired hash) (\<lambda>a. a = None)"
  unfolding replaceSts_def
  by (rule works_bind [OF works_keeps [OF keeps_basic(2)]])
    (auto intro!: works_bind [where R = isl] works_isl w_write, auto simp: works_def getObj_def replyCluster_sel plain_def intro!: wp_api)

lemma desired_plain: "plain i \<Longrightarrow> \<exists>s. desiredSts replyCluster i secret packs wsFiles = Ret s"
proof -
  assume "plain i"
  then have "\<exists>cm. BuildConfigMap i [] packs = Ret cm"
    using build_object [of i "[]" "[]" packs]
    by (auto simp: BuildConfigMap_def rawOrEmpty_def plain_def zero_OpenClawInstanceSpec_def zero_ConfigSpec_def)
  then show ?thesis by (auto simp: desiredSts_def BuildStatefulSet_def buildPodAnnotations_def calculateConfigHash_def)
qed

lemma w_desired:
  "works (do { i \<leftarrow> getInst;
               (case desiredSts replyCluster i secret packs wsFiles of
                  Panic \<Rightarrow> ret (Some HPanic)
                | Ret desired \<Rightarrow> replaceSts replyCluster (sts_Labels desired) (stsSpecOf desired) hash) }) (\<lambda>a. a = None)"
  unfolding works_def
proof (intro allI impI)
  fix h :: "Mem hctx" assume h: "plain (cur h)"
  from desired_plain [OF h] obtain s where "desiredSts replyCluster (cur h) secret packs wsFiles = Ret s" by blast
  moreover have "wp (replaceSts replyCluster (sts_Labels s) (stsSpecOf s) hash) (\<lambda>a h'. a = None \<and> plain (cur h')) h"
    using w_replace h by (simp add: works_def)
  ultimately show "wp (do { i \<leftarrow> getInst;
      (case desiredSts replyCluster i secret packs wsFiles of
         Panic \<Rightarrow> ret (Some HPanic)
       | Ret desired \<Rightarrow> replaceSts replyCluster (sts_Labels desired) (stsSpecOf desired) hash) })
     (\<lambda>a h'. a = None \<and> plain (cur h')) h"
    by (auto intro!: wp_rules)
qed

lemma w_sts: "works (reconcileStatefulSet replyCluster token packs wsFiles) (\<lambda>a. a = None)"
  unfolding reconcileStatefulSet_def
  by (rule works_bind [OF works_keeps [OF spec.keeps_hash(1)]], rule works_bind [OF works_keeps [OF spec.keeps_hash(2)]],
      rule w_desired)

lemma w_serving: "works (seqSteps (servingSteps replyCluster)) (\<lambda>a. a = None)"
  unfolding servingSteps_def seqSteps.simps
  by (intro works_andStep works_wrap)
    (auto simp: works_def works_simps cronJobStep_def reconcileBackupCronJob_def cleanupBackupCronJob_def clearBackupCronJob_def
     reconcileService_def reconcileChromiumCDPService_def reconcileIngress_def
      reconcileHTTPRoute_def reconcileServiceMonitor_def reconcilePrometheusRule_def reconcileGrafanaDashboards_def
      getCronJob_def deleteCronJob_def zero_OpenClawInstanceSpec_def zero_BackupSpec_def zero_ChromiumSpec_def
      zero_NetworkingSpec_def zero_IngressSpec_def zero_ObservabilitySpec_def zero_MetricsSpec_def ingressOf_def metricsOf_def
      memPut_def split: option.splits intro!: wp_rules wp_api)

lemma w_config_steps: "works (configSteps replyCluster token) (\<lambda>a. a = None)"
proof -
  have s: "works (seqSteps (workloadSteps replyCluster token packs wsFiles)) (\<lambda>a. a = None)" for packs wsFiles
    unfolding workloadSteps_def seqSteps.simps
    by (intro works_andStep works_wrap w_volumes w_restore w_availability w_sts) (simp add: works_def wp_return)
  show ?thesis
    unfolding configSteps_def
    by (rule works_bind [OF w_packs], intro works_andStep works_wrap w_config, rule works_bind [OF w_config(2)],
        rule works_bind [OF w_workspace])
      (auto simp: isl_def split: sum.split intro!: works_andStep s w_serving)
qed

lemma w_run: "works (reconcileResources replyCluster) (\<lambda>a. a = None)"
  unfolding reconcileResources_def
  by (intro works_andStep w_access, rule works_bind [OF w_token])
    (auto simp: isl_def split: sum.split intro!: works_andStep w_mesh w_config_steps)

lemma replyStart_run: "\<exists>h'. run_state (reconcileResources replyCluster) replyStart = (None, h') \<and> oci_Spec (cur h') = zero_OpenClawInstanceSpec"
proof -
  have "plain (cur replyStart)" by (simp add: plain_def replyStart_def zero_OpenClawInstance_def)
  with w_run have "wp (reconcileResources replyCluster) (\<lambda>a h'. a = None \<and> plain (cur h')) replyStart"
    by (simp add: works_def)
  then show ?thesis by (cases "run_state (reconcileResources replyCluster) replyStart") (simp add: wp_def plain_def)
qed

end
