(* ===== verification/ControllerProps.thy ===== *)
theory ControllerProps
  imports ControllerDemo AutoUpdateProps
begin

text \<open>
  What the main controller guarantees: the order of its writes, the phase it reports, the error
  paths of a run, and the completeness of its watches.
\<close>

section \<open>The order of the writes\<close>

text \<open>
  \<open>before G cs\<close>: every write of the StatefulSet in the log \<open>cs\<close> comes after a call
  that satisfies \<open>G\<close>. A run stays quiet until \<open>G\<close> holds, and then anything may follow.
\<close>

definition before :: "(api_call \<Rightarrow> bool) \<Rightarrow> api_call list \<Rightarrow> bool" where
  "before G cs \<longleftrightarrow> (\<forall>as b bs. cs = as @ b # bs \<longrightarrow> stsWrite b \<longrightarrow> (\<exists>x \<in> set as. G x))"

definition quiet :: "'s hctx \<Rightarrow> bool" where
  "quiet h \<longleftrightarrow> list_all (\<lambda>x. \<not> stsWrite x) (calls h)"

lemma before_quiet: "quiet h \<Longrightarrow> before G (calls h)"
  by (auto simp: before_def quiet_def)

lemma before_after:
  assumes "quiet h" "x \<in> set (calls h)" "G x" "extends P h h'"
  shows "before G (calls h')"
  unfolding before_def
proof (intro allI impI)
  fix as b bs assume cs: "calls h' = as @ b # bs" and b: "stsWrite b"
  from assms(4) obtain cs' where "calls h' = calls h @ cs'" by (auto simp: extends_def)
  with cs have "as @ b # bs = calls h @ cs'" by simp
  then consider zs where "as = calls h @ zs" | zs where "as @ zs = calls h" "zs \<noteq> []" "b = hd zs"
    by (auto simp: append_eq_append_conv2 Cons_eq_append_conv)
  then show "\<exists>x \<in> set as. G x"
  proof cases
    case 1
    with assms(2,3) show ?thesis by auto
  next
    case 2
    then have "b \<in> set (calls h)" by (cases zs) (auto simp flip: 2(1))
    with assms(1) b show ?thesis by (auto simp: quiet_def list_all_iff)
  qed
qed

lemma quiet_extends: "quiet h \<Longrightarrow> extends (\<lambda>x. \<not> stsWrite x) h h' \<Longrightarrow> quiet h'"
  by (auto simp: quiet_def extends_def)

text \<open>A step before the one that makes \<open>G\<close> true, and that step itself.\<close>

lemma before_pass:
  assumes "logs (\<lambda>x. \<not> stsWrite x) m" "quiet h"
    and "\<And>a h'. quiet h' \<Longrightarrow> run_state m h = (a, h') \<Longrightarrow> wp (f a) (\<lambda>_ h''. before G (calls h'')) h'"
  shows "wp (State_Monad.bind m f) (\<lambda>_ h''. before G (calls h'')) h"
  by (rule wp_bind, rule wpI) (use assms wp_run [OF logsD [OF assms(1)]] in \<open>blast intro: quiet_extends\<close>)

definition core :: "OpenClawInstance \<Rightarrow> ObjectMeta \<times> bool \<times> string \<times> string" where
  "core i = (oci_Meta i, networkPolicyEnabled i, spec_RestoreFrom (oci_Spec i), st_RestoredFrom (oci_Status i))"

interpretation parts: before_restore core c UNIV for c
  by unfold_locales
    (auto simp: core_def updStatus_def networkPolicyEnabled_def ApplyClusterDefaults_def Let_def split: option.split)

definition unwritten :: "OpenClawInstance \<Rightarrow> 's hctx \<Rightarrow> bool" where
  "unwritten i h \<longleftrightarrow> quiet h \<and> core (cur h) = core i"

lemma before_bind:
  assumes "logs (\<lambda>x. \<not> stsWrite x) m" "keeps core m" "unwritten i h"
    and "\<And>a h'. unwritten i h' \<Longrightarrow> run_state m h = (a, h') \<Longrightarrow> wp (f a) (\<lambda>_ h''. before G (calls h'')) h'"
  shows "wp (State_Monad.bind m f) (\<lambda>_ h''. before G (calls h'')) h"
proof (rule before_pass)
  show "logs (\<lambda>x. \<not> stsWrite x) m" "quiet h" using assms(1,3) by (auto simp: unwritten_def)
  show "wp (f a) (\<lambda>_ h''. before G (calls h'')) h'" if "quiet h'" "run_state m h = (a, h')" for a h'
    using assms(4) [OF _ that(2)] that assms(3) wp_run [OF keepsD [OF assms(2)] that(2)] by (simp add: unwritten_def)
qed

lemma before_andStep:
  assumes "logs (\<lambda>x. \<not> stsWrite x) m" "keeps core m" "unwritten i h"
    and "\<And>h'. unwritten i h' \<Longrightarrow> run_state m h = (None, h') \<Longrightarrow> wp k (\<lambda>_ h''. before G (calls h'')) h'"
  shows "wp (andStep m k) (\<lambda>_ h''. before G (calls h'')) h"
  unfolding andStep_def
  by (rule before_bind [OF assms(1-3)])
    (auto simp: unwritten_def split: option.split intro!: wp_return before_quiet assms(4))

lemma before_rest:
  "logs (\<lambda>_. True) k \<Longrightarrow> quiet h \<Longrightarrow> x \<in> set (calls h) \<Longrightarrow> G x \<Longrightarrow> wp k (\<lambda>_ h''. before G (calls h'')) h"
  by (rule wp_mono [OF logsD]) (auto intro: before_after)

text \<open>What the rest of a run may log.\<close>

lemma any_sts: "logs (\<lambda>_. True) (reconcileStatefulSet c token packs wsFiles)"
  by (auto simp: reconcileStatefulSet_def replaceSts_def writeSts_def split: outcome.split
      intro!: log_rules step_logs anyCall.logs_secretHash)

lemmas any_serving = anyCall.logs_serving

lemma any_workload: "logs (\<lambda>_. True) (seqSteps (workloadSteps c token packs wsFiles))"
  by (rule logs_seqSteps)
    (auto simp: workloadSteps_def intro!: step_logs any_sts anyCall.logs_volumes anyCall.logs_restore anyCall.logs_availability)

lemma any_config: "logs (\<lambda>_. True) (configSteps c token)"
  by (auto simp: configSteps_def intro!: log_rules step_logs any_serving any_workload anyCall.logs_packs
      anyCall.logs_config anyCall.logs_workspace)

text \<open>What a step that succeeds has logged.\<close>

definition wrote :: "objkind \<Rightarrow> string \<Rightarrow> string \<Rightarrow> api_call \<Rightarrow> bool" where
  "wrote kind n ns x \<longleftrightarrow> (case x of CApplyObj kind' n' ns' None _ \<Rightarrow> kind' = kind \<and> n' = n \<and> ns' = ns | _ \<Rightarrow> False)"

lemma applyThen_logged:
  assumes "\<And>k. logs (\<lambda>_. True) (cont k)"
  shows "wp (applyThen c kind n f cont)
    (\<lambda>a h'. a = None \<longrightarrow> (\<exists>x \<in> set (calls h'). wrote kind n (onamespace (cur h)) x)) h"
proof -
  let ?e = "\<lambda>k. applyEntry kind n (onamespace (cur h)) (Inr k)"
  let ?Q = "\<lambda>a h'. a = None \<longrightarrow> (\<exists>x \<in> set (calls h'). wrote kind n (onamespace (cur h)) x)"
  have "wp (cont k) ?Q (h\<lparr>srv := s, calls := calls h @ [?e k]\<rparr>)" for s k
    by (rule wp_mono [OF wp_logged [OF assms, of "?e k" _ "wrote kind n (onamespace (cur h))"]])
      (auto simp: applyEntry_def wrote_def)
  then show ?thesis
    unfolding applyThen_def applyObj_def failStep_def by (intro wp_rules wp_api) auto
qed

lemma policy_logged:
  "wp (reconcileNetworkPolicy c) (\<lambda>a h'. a = None \<longrightarrow> networkPolicyEnabled (cur h) \<longrightarrow>
     (\<exists>x \<in> set (calls h'). wrote NetworkPolicyK (NetworkPolicyName (cur h)) (onamespace (cur h)) x)) h"
proof (cases "networkPolicyEnabled (cur h)")
  case True
  then show ?thesis
    unfolding reconcileNetworkPolicy_def
    by (auto simp: Let_def intro!: wp_rules step_logs log_rules wp_mono [OF applyThen_logged])
qed (auto intro: wpI)

lemma publish_logged:
  "wp (publishConfigMap c built) (\<lambda>a h'. a = None \<longrightarrow>
     (\<exists>x \<in> set (calls h'). wrote ConfigMapK (ConfigMapName (cur h)) (onamespace (cur h)) x)) h"
  unfolding publishConfigMap_def
  by (cases built) (auto simp: Let_def intro!: wp_rules step_logs log_rules wp_mono [OF applyThen_logged])

lemma config_logged:
  "wp (reconcileConfigMap c token packs) (\<lambda>a h'. a = None \<longrightarrow>
     (\<exists>x \<in> set (calls h'). wrote ConfigMapK (ConfigMapName (cur h)) (onamespace (cur h)) x)) h"
  unfolding reconcileConfigMap_def getConfigMapData_def readyCondition_def handler_defs failStep_def
  by (auto intro!: wp_rules wp_api wp_mono [OF publish_logged])

definition restoreFinished :: "api_call \<Rightarrow> bool" where
  "restoreFinished x \<longleftrightarrow> (case x of CGetJob _ _ (Inr job) \<Rightarrow> isJobFinished job = (True, JobComplete) | _ \<Rightarrow> False)"

definition restoreRequested :: "OpenClawInstance \<Rightarrow> bool" where
  "restoreRequested i \<longleftrightarrow> spec_RestoreFrom (oci_Spec i) \<noteq> [] \<and> st_RestoredFrom (oci_Status i) = []"

definition restoreWaits :: "Result \<times> bool \<times> go_error option \<Rightarrow> 's hctx \<Rightarrow> bool" where
  "restoreWaits out h' \<longleftrightarrow> (fst (snd out) \<longrightarrow> (\<exists>x \<in> set (calls h'). restoreFinished x))"

lemma finishRestore_waits:
  assumes "x \<in> set (calls h)" "restoreFinished x"
  shows "wp (finishRestore r) restoreWaits h"
proof -
  have "logs (\<lambda>_. True) (finishRestore r)"
    by (auto simp: finishRestore_def restore_defs handler_defs intro!: log_rules)
  from wp_logged [OF this assms(1), of restoreFinished, OF assms(2)] show ?thesis by (rule wp_mono) (simp add: restoreWaits_def)
qed

lemma pollRestoreJob_waits:
  assumes "CGetJob jn ns (Inr job) \<in> set (calls h)"
  shows "wp (pollRestoreJob r jn job) restoreWaits h"
  unfolding pollRestoreJob_def restore_defs setCondition_def statusUpdate_def
  by (intro wp_rules wp_writeInst finishRestore_waits)
    (use assms in \<open>auto simp: restoreWaits_def restoreFinished_def dest: isJobFinished_type\<close>)

lemma restoreWithJob_waits: "wp (restoreWithJob r) restoreWaits h"
proof -
  have poll: "wp (pollRestoreJob r jn job) restoreWaits (h\<lparr>srv := s, calls := cs @ [CGetJob jn ns (Inr job)]\<rparr>)" for jn job h s cs ns
    by (rule pollRestoreJob_waits [where ns = ns]) simp
  have create: "wp (createRestoreJob r jn creds) restoreWaits h" for jn creds h
    unfolding createRestoreJob_def restore_defs createJob_def statusUpdate_def
    by (intro wp_rules wp_writeInst wp_api) (simp_all add: restoreWaits_def)
  have job: "wp (do { jobRes \<leftarrow> getJob r jn ns;
      (case jobRes of
         Inl err \<Rightarrow> if \<not> isNotFound err then stop err else createRestoreJob r jn creds
       | Inr existingJob \<Rightarrow> pollRestoreJob r jn existingJob) }) restoreWaits h" for jn ns creds h
    unfolding getJob_def stop_def by (intro wp_rules wp_api create) (auto simp: restoreWaits_def intro: poll)
  show ?thesis
    unfolding restoreWithJob_def wait_def Let_def
    by (rule wp_bind, rule wpI) (auto simp: restoreWaits_def stop_def split: sum.split option.split
        intro!: wp_rules wpI [of "reconcileS3MirrorSecret _ _"] job)
qed

lemma restore_logged:
  "wp (restoreStep c) (\<lambda>a h'. a = None \<longrightarrow> restoreRequested (cur h) \<longrightarrow> (\<exists>x \<in> set (calls h'). restoreFinished x)) h"
proof -
  have "wp (reconcileRestore (ob_Rec c)) (\<lambda>out h'. restoreRequested (cur h) \<longrightarrow> restoreWaits out h') h"
    unfolding reconcileRestore_def persistOrStop_def statusUpdate_def stop_def
    by (intro wp_rules wp_writeInst wp_mono [OF restoreWithJob_waits]) (auto simp: restoreRequested_def restoreWaits_def)
  then show ?thesis
    unfolding restoreStep_def by (intro wp_bind) (erule wp_mono, auto simp: restoreWaits_def intro!: wp_rules split: option.splits)
qed

text \<open>The steps of a run, each quiet and keeping the core of the instance.\<close>

lemmas quiet_steps = noPod.logs_access noPod.logs_token noPod.logs_mesh noPod.logs_packs noPod.logs_config
  noPod.logs_workspace noPod.logs_volumes noPod.logs_restore noPod.logs_availability

lemmas core_steps = parts.keeps_access parts.keeps_token parts.keeps_mesh parts.keeps_packs parts.keeps_config
  parts.keeps_workspace parts.keeps_volumes

text \<open>Sequences of steps are associative, so a run is one chain of steps.\<close>

lemma andStep_assoc: "andStep (andStep m k) l = andStep m (andStep k l)"
  by (simp add: andStep_def State_Monad.bind_assoc option.case_distrib [of "\<lambda>s. State_Monad.bind s _"] cong: option.case_cong)

lemma andStep_done: "andStep doneStep k = k" "andStep (ret None) k = k"
  by (simp_all add: andStep_def doneStep_def)

lemma andStep_seqSteps: "andStep (seqSteps (m # ms)) k = andStep m (andStep (seqSteps ms) k)" "andStep (seqSteps []) k = k"
  by (simp_all add: andStep_assoc andStep_done)

lemma wp_wrapStep: "wp m (\<lambda>a h'. a = None \<longrightarrow> Q h') h \<Longrightarrow> wp (wrapStep msg m) (\<lambda>a h'. a = None \<longrightarrow> Q h') h"
  unfolding wrapStep_def
  proof (intro wp_bind, erule wp_mono, rule wp_return, intro impI)
  fix a h' assume "a = None \<longrightarrow> Q h'" "wrapHalt msg a = None"
  then show "Q h'" by (cases "(msg, a)" rule: wrapHalt.cases) auto
qed

lemma run_logged:
  assumes "wp m (\<lambda>a h'. a = None \<longrightarrow> Q h') h" "run_state (wrapStep msg m) h = (None, h')"
  shows "Q h'"
  using wp_run [OF wp_wrapStep [OF assms(1)] assms(2)] by simp

lemma core_names:
  "core i = core j \<Longrightarrow> oname i = oname j \<and> onamespace i = onamespace j \<and>
     networkPolicyEnabled i = networkPolicyEnabled j \<and> restoreRequested i = restoreRequested j"
  by (simp add: core_def restoreRequested_def)

lemma unwritten_names:
  assumes "unwritten i h"
  shows "NetworkPolicyName (cur h) = NetworkPolicyName i" "ConfigMapName (cur h) = ConfigMapName i"
    "onamespace (cur h) = onamespace i" "networkPolicyEnabled (cur h) = networkPolicyEnabled i"
    "restoreRequested (cur h) = restoreRequested i"
  using core_names [of "cur h" i] assms by (auto simp: unwritten_def NetworkPolicyName_def ConfigMapName_def)

lemma wrapStep_rules: "logs P m \<Longrightarrow> logs P (wrapStep msg m)" "keeps g m \<Longrightarrow> keeps g (wrapStep msg m)"
  by (auto intro: step_logs keep_rules)

text \<open>After a step that logged \<open>G\<close>, the rest of the run is unconstrained.\<close>

lemma before_once:
  assumes "logs (\<lambda>_. True) k" "unwritten i h'" "run_state (wrapStep msg m) h = (None, h')"
    and "wp m (\<lambda>a h'. a = None \<longrightarrow> P \<longrightarrow> (\<exists>x \<in> set (calls h'). G x)) h" "P"
  shows "wp k (\<lambda>_ h''. before G (calls h'')) h'"
  using run_logged [OF assms(4,3)] assms(1,2,5) by (auto simp: unwritten_def intro: before_rest)

lemma any_rest:
  "logs (\<lambda>_. True) (do {
     tok \<leftarrow> reconcileGatewayTokenSecret c;
     (case tok of
        Inl e \<Rightarrow> failStep (wrapErr msg e)
      | Inr gatewayToken \<Rightarrow> andStep (meshStateStep c) (configSteps c gatewayToken)) })"
  by (auto intro!: log_rules step_logs anyCall.logs_token anyCall.logs_mesh any_config)

lemma policy_first:
  assumes "unwritten i h" "networkPolicyEnabled i"
  shows "wp (reconcileResources c) (\<lambda>_ h'. before (wrote NetworkPolicyK (NetworkPolicyName i) (onamespace i)) (calls h')) h"
  unfolding reconcileResources_def accessSteps_def andStep_seqSteps
proof (intro before_andStep wrapStep_rules quiet_steps core_steps)
  show "unwritten i h" by (rule assms(1))
next
  fix h1 h2 h3 :: "'a hctx"
  assume u: "unwritten i h2" "unwritten i h3"
    and r: "run_state (wrapStep ''failed to reconcile NetworkPolicy'' (reconcileNetworkPolicy c)) h2 = (None, h3)"
  note p = policy_logged [of c h2, unfolded unwritten_names [OF u(1)]]
  show "wp (do {
       tok \<leftarrow> reconcileGatewayTokenSecret c;
       (case tok of
          Inl e \<Rightarrow> failStep (wrapErr ''failed to reconcile gateway token secret'' e)
        | Inr gatewayToken \<Rightarrow> andStep (meshStateStep c) (configSteps c gatewayToken)) })
     (\<lambda>_ h'. before (wrote NetworkPolicyK (NetworkPolicyName i) (onamespace i)) (calls h')) h3"
    by (rule before_once [OF any_rest u(2) r p assms(2)])
qed

lemma before_fail: "unwritten i h \<Longrightarrow> wp (failStep e) (\<lambda>_ h'. before G (calls h')) h"
  by (auto simp: failStep_def unwritten_def intro!: wp_return before_quiet)

lemma before_config:
  assumes "unwritten i h" "\<And>token h'. unwritten i h' \<Longrightarrow> wp (configSteps c token) (\<lambda>_ h''. before G (calls h'')) h'"
  shows "wp (reconcileResources c) (\<lambda>_ h'. before G (calls h')) h"
  unfolding reconcileResources_def accessSteps_def andStep_seqSteps
proof (intro before_andStep wrapStep_rules quiet_steps core_steps before_bind)
  show "unwritten i h" by (rule assms(1))
  show "wp (case tok of
          Inl e \<Rightarrow> failStep (wrapErr ''failed to reconcile gateway token secret'' e)
        | Inr gatewayToken \<Rightarrow> andStep (meshStateStep c) (configSteps c gatewayToken)) (\<lambda>_ h'. before G (calls h')) h1"
    if u: "unwritten i h1" for tok h1
  proof (cases tok)
    case (Inl e)
    with u show ?thesis by (simp add: before_fail)
  next
    case (Inr token)
    show ?thesis
      unfolding Inr sum.case by (intro before_andStep quiet_steps core_steps, rule u, erule assms(2))
  qed
qed

lemma any_after_config:
  "logs (\<lambda>_. True) (do {
     bindConflictEvent;
     ws \<leftarrow> reconcileWorkspaceConfigMap c packs;
     (case ws of
        Inl e \<Rightarrow> failStep (wrapErr ''failed to reconcile Workspace ConfigMap'' e)
      | Inr wsFiles \<Rightarrow>
          andStep (seqSteps (workloadSteps c token packs wsFiles)) (seqSteps (servingSteps c))) })"
  by (auto intro!: log_rules step_logs anyCall.logs_config anyCall.logs_workspace any_workload any_serving)

lemma configmap_first:
  fixes c :: "'s Cluster"
  assumes "unwritten i h"
  shows "wp (reconcileResources c) (\<lambda>_ h'. before (wrote ConfigMapK (ConfigMapName i) (onamespace i)) (calls h')) h"
proof (rule before_config [OF assms])
  fix token and h0 :: "'s hctx" assume h0: "unwritten i h0"
  show "wp (configSteps c token) (\<lambda>_ h'. before (wrote ConfigMapK (ConfigMapName i) (onamespace i)) (calls h')) h0"
    unfolding configSteps_def
  proof (intro before_bind [OF _ _ h0] before_andStep wrapStep_rules quiet_steps core_steps)
    fix packs h1 h2
    assume u: "unwritten i h1" "unwritten i h2"
      and r: "run_state (wrapStep ''failed to reconcile ConfigMap'' (reconcileConfigMap c token packs)) h1 = (None, h2)"
    have p: "wp (reconcileConfigMap c token packs) (\<lambda>a h'. a = None \<longrightarrow> True \<longrightarrow>
        (\<exists>x \<in> set (calls h'). wrote ConfigMapK (ConfigMapName i) (onamespace i) x)) h1"
      using config_logged [of c token packs h1, unfolded unwritten_names [OF u(1)]] by simp
    show "wp (do {
         bindConflictEvent;
         ws \<leftarrow> reconcileWorkspaceConfigMap c packs;
         (case ws of
            Inl e \<Rightarrow> failStep (wrapErr ''failed to reconcile Workspace ConfigMap'' e)
          | Inr wsFiles \<Rightarrow>
              andStep (seqSteps (workloadSteps c token packs wsFiles)) (seqSteps (servingSteps c))) })
       (\<lambda>_ h'. before (wrote ConfigMapK (ConfigMapName i) (onamespace i)) (calls h')) h2"
      by (rule before_once [OF any_after_config u(2) r p TrueI])
  qed
qed

text \<open>A step that logs \<open>G\<close> when it succeeds, whatever it does to the instance.\<close>

lemma before_last:
  assumes "logs (\<lambda>x. \<not> stsWrite x) m" "logs (\<lambda>_. True) k" "unwritten i h"
    and "wp m (\<lambda>a h'. a = None \<longrightarrow> P \<longrightarrow> (\<exists>x \<in> set (calls h'). G x)) h" "P"
  shows "wp (andStep m k) (\<lambda>_ h''. before G (calls h'')) h"
  unfolding andStep_def
proof (rule before_pass [OF assms(1)])
  show "quiet h" using assms(3) by (simp add: unwritten_def)
  show "wp (case a of Some x \<Rightarrow> ret (Some x) | None \<Rightarrow> k) (\<lambda>_ h''. before G (calls h'')) h'"
    if "quiet h'" "run_state m h = (a, h')" for a h'
    using wp_run [OF assms(4) that(2)] assms(2,5) that(1)
    by (auto split: option.split intro: before_rest wp_return before_quiet)
qed

lemma restore_first:
  fixes c :: "'s Cluster"
  assumes "unwritten i h" "restoreRequested i"
  shows "wp (reconcileResources c) (\<lambda>_ h'. before restoreFinished (calls h')) h"
proof (rule before_config [OF assms(1)])
  fix token and h0 :: "'s hctx" assume h0: "unwritten i h0"
  have volumes: "wp (andStep (seqSteps (workloadSteps c token packs wsFiles)) (seqSteps (servingSteps c)))
      (\<lambda>_ h'. before restoreFinished (calls h')) h1" if u: "unwritten i h1" for packs wsFiles and h1 :: "'s hctx"
    unfolding workloadSteps_def andStep_seqSteps(1)
  proof (rule before_andStep [OF _ _ u], goal_cases)
    case (3 h2)
    show ?case
    proof (rule before_andStep [OF _ _ 3(1)], goal_cases)
      case (3 h3)
      note u3 = this(1)
      show ?case
        by (rule before_last [OF _ _ u3 restore_logged [of c h3, unfolded unwritten_names [OF u3]] assms(2)])
          (auto intro!: quiet_steps step_logs log_rules any_serving any_sts anyCall.logs_availability)
    qed (intro wrapStep_rules quiet_steps core_steps)+
  qed (intro wrapStep_rules quiet_steps core_steps)+
  show "wp (configSteps c token) (\<lambda>_ h'. before restoreFinished (calls h')) h0"
    unfolding configSteps_def
    by (intro before_bind before_andStep wrapStep_rules quiet_steps core_steps)
     (use h0 in \<open>auto split: sum.split intro: before_fail volumes\<close>)
qed


text \<open>
  C1: the pod is written last. Whenever a run of reconcileResources writes the StatefulSet, the
  network policy (unless it is disabled) and the published ConfigMap of the same instance have been
  written successfully earlier in that run, and if a restore was requested, its Job has been seen
  to be complete: no pod starts unguarded, unconfigured, or on data that is still being restored.
\<close>

theorem pod_written_last:
  fixes c :: "'s Cluster"
  assumes "run_state (reconcileResources c) h = (x, h')" "calls h = []" "calls h' = as @ b # bs" "stsWrite b"
  shows "(networkPolicyEnabled (cur h) \<longrightarrow>
      (\<exists>y \<in> set as. wrote NetworkPolicyK (NetworkPolicyName (cur h)) (onamespace (cur h)) y))
    \<and> (\<exists>y \<in> set as. wrote ConfigMapK (ConfigMapName (cur h)) (onamespace (cur h)) y)
    \<and> (restoreRequested (cur h) \<longrightarrow> (\<exists>y \<in> set as. restoreFinished y))"
proof -
  have u: "unwritten (cur h) h" by (simp add: unwritten_def quiet_def assms(2))
  have b: "\<exists>y \<in> set as. G y" if "wp (reconcileResources c) (\<lambda>_ h'. before G (calls h')) h" for G
    using wp_run [OF that assms(1)] assms(3,4) by (simp add: before_def)
  show ?thesis
    using b [OF policy_first [OF u]] b [OF configmap_first [OF u]] b [OF restore_first [OF u]] by blast
qed

section \<open>The phase\<close>

text \<open>What \<^verbatim>\<open>meta.SetStatusCondition\<close> and \<^verbatim>\<open>meta.RemoveStatusCondition\<close> document.\<close>

definition statusOf :: "string \<Rightarrow> Condition list \<Rightarrow> string option" where
  "statusOf t cs = map_option cond_Status (findCondition t cs)"

definition condition_laws :: "'s Reconciler \<Rightarrow> bool" where
  "condition_laws r \<longleftrightarrow>
     (\<forall>t cnd cs. statusOf t (rc_SetStatusCondition r cnd cs) =
        (if cond_Type cnd = t then Some (cond_Status cnd) else statusOf t cs)) \<and>
     (\<forall>t u cs. u \<noteq> t \<longrightarrow> statusOf t (rc_RemoveStatusCondition r u cs) = statusOf t cs)"

definition podReport :: "OpenClawInstance \<Rightarrow> bool \<times> string option" where
  "podReport i = (spec_Suspended (oci_Spec i), statusOf ConditionTypeStatefulSetReady (st_Conditions (oci_Status i)))"

text \<open>The log has one write of the StatefulSet, and the condition repeats its answer.\<close>

definition podSeen :: "'s hctx \<Rightarrow> bool" where
  "podSeen h \<longleftrightarrow> (\<exists>n ns st. filter stsWrite (calls h) = [CApplyObj StatefulSetK n ns None st]
     \<and> podReport (cur h) = (spec_Suspended (oci_Spec (cur h)), Some (cond_Status (stsCondition (spec_Suspended (oci_Spec (cur h))) st))))"

definition podPost :: "halt option \<Rightarrow> 's hctx \<Rightarrow> bool" where
  "podPost a h \<longleftrightarrow> (a = None \<longrightarrow> podSeen h)"

lemma podPost_bind:
  assumes "logs (\<lambda>x. \<not> stsWrite x) m" "quiet h" "\<And>a h'. quiet h' \<Longrightarrow> wp (f a) podPost h'"
  shows "wp (State_Monad.bind m f) podPost h"
  by (rule wp_bind, rule wpI) (use assms wp_run [OF logsD [OF assms(1)]] in \<open>blast intro: quiet_extends\<close>)

lemma podPost_andStep:
  assumes "logs (\<lambda>x. \<not> stsWrite x) m" "quiet h" "\<And>h'. quiet h' \<Longrightarrow> wp k podPost h'"
  shows "wp (andStep m k) podPost h"
  unfolding andStep_def by (rule podPost_bind [OF assms(1,2)])
    (auto simp: podPost_def split: option.split intro!: wp_return assms(3))

lemma podPost_fail: "wp (failStep e) podPost h"
  by (simp add: failStep_def wp_return podPost_def)

lemma writeSts_post:
  assumes "condition_laws (ob_Rec c)" "quiet h"
  shows "wp (writeSts c lbls desired hash) podPost h"
  unfolding writeSts_def applyThen_def applyObj_def updMR_def setCondition_def doneStep_def failStep_def
  by (intro wp_rules wp_api)
    (use assms in \<open>auto simp: podPost_def podSeen_def podReport_def quiet_def applyEntry_def condition_laws_def
       list_all_iff filter_empty_conv stsCondition_def mkCondition_def updStatus_def\<close>)

lemma replaceSts_post:
  assumes "condition_laws (ob_Rec c)" "quiet h"
  shows "wp (replaceSts c lbls desired hash) podPost h"
  unfolding replaceSts_def
  by (intro podPost_bind [OF _ assms(2)] podPost_bind log_rules step_logs)
    (auto split: sum.split intro!: writeSts_post [OF assms(1)] podPost_bind podPost_fail step_logs)

lemma reconcileStatefulSet_post:
  assumes "condition_laws (ob_Rec c)" "quiet h"
  shows "wp (reconcileStatefulSet c token packs wsFiles) podPost h"
  unfolding reconcileStatefulSet_def
  by (intro podPost_bind [OF _ assms(2)] podPost_bind noPod.logs_secretHash log_rules step_logs)
    (auto split: outcome.split intro!: replaceSts_post [OF assms(1)] wp_return simp: podPost_def)

text \<open>What follows the StatefulSet changes neither the log of its writes nor the condition.\<close>

interpretation bookkeeping: after_pod oci_Spec c UNIV for c
  by unfold_locales (simp_all add: updStatus_def)

lemma spec_after_pod: "keeps oci_Spec (seqSteps (servingSteps c))"
  by (rule bookkeeping.keeps_serving)

lemma podReport_after: "condition_laws (ob_Rec c) \<Longrightarrow> after_pod podReport c (- {ConditionTypeStatefulSetReady})"
  by unfold_locales
    (auto simp: podReport_def updStatus_def condition_laws_def ConditionTypeStatefulSetReady_def
      ConditionTypeScheduledBackupReady_def ConditionTypeServiceReady_def ConditionTypeHTTPRouteReady_def
      ConditionTypeServiceMonitorReady_def)

lemma serving_post:
  assumes "condition_laws (ob_Rec c)" "podSeen h"
  shows "wp (seqSteps (servingSteps c)) podPost h"
proof -
  have k: "keeps podReport (seqSteps (servingSteps c))"
    by (rule after_pod.keeps_serving [OF podReport_after [OF assms(1)]])
  from wp_conj [OF keepsD [OF k, of h] logsD [OF noPod.logs_serving, of c h]] show ?thesis
    by (rule wp_mono) (use assms(2) in \<open>auto simp: podPost_def podSeen_def extends_def podReport_def list_all_iff filter_empty_conv\<close>)
qed

lemma podPost_last:
  assumes "wp m podPost h" "\<And>h'. podSeen h' \<Longrightarrow> wp k podPost h'"
  shows "wp (andStep m k) podPost h"
  unfolding andStep_def
  by (rule wp_bind, rule wp_mono [OF assms(1)]) (auto simp: podPost_def split: option.split intro!: wp_return assms(2))

lemma wrapStep_post: "wp m podPost h \<Longrightarrow> wp (wrapStep msg m) podPost h"
  unfolding podPost_def [abs_def] by (rule wp_wrapStep)

lemma workload_post:
  assumes "condition_laws (ob_Rec c)" "quiet h"
  shows "wp (andStep (seqSteps (workloadSteps c token packs wsFiles)) (seqSteps (servingSteps c))) podPost h"
  unfolding workloadSteps_def andStep_seqSteps
  by (intro podPost_andStep [OF _ assms(2)] podPost_andStep [where m = "wrapStep _ (reconcileChromiumPVC c)"]
      podPost_andStep [where m = "restoreStep c"] podPost_andStep [where m = "wrapStep _ (reconcilePDB c)"]
      podPost_andStep [where m = "wrapStep _ (reconcileHPA c)"]
      podPost_andStep [where m = "wrapStep _ (migrateDeploymentToStatefulSet c)"]
      podPost_last wrapStep_post wrapStep_rules quiet_steps serving_post [OF assms(1)] reconcileStatefulSet_post [OF assms(1)])
    (auto simp: podPost_def intro: wp_return)

lemma config_post:
  assumes "condition_laws (ob_Rec c)" "quiet h"
  shows "wp (configSteps c token) podPost h"
  unfolding configSteps_def
  by (intro podPost_bind [OF _ assms(2)] podPost_bind podPost_andStep wrapStep_rules quiet_steps)
    (auto split: sum.split intro: podPost_fail workload_post [OF assms(1)])

lemma run_post:
  assumes "condition_laws (ob_Rec c)" "quiet h"
  shows "wp (reconcileResources c) podPost h"
  unfolding reconcileResources_def accessSteps_def andStep_seqSteps
  by (intro podPost_andStep [OF _ assms(2)] podPost_andStep podPost_bind wrapStep_rules quiet_steps)
    (auto split: sum.split intro!: podPost_fail podPost_andStep quiet_steps config_post [OF assms(1)])

lemma settlePhase_spec:
  "wp (settlePhase c) (\<lambda>waiting h'. calls h' = calls h
     \<and> waiting = (statusOf ConditionTypeStatefulSetReady (st_Conditions (oci_Status (cur h))) \<noteq> Some ConditionTrue)
     \<and> st_Phase (oci_Status (cur h')) =
         (if waiting then PhaseProvisioning
          else if statusOf ConditionTypeSkillPacksReady (st_Conditions (oci_Status (cur h))) = Some ConditionFalse
          then PhaseDegraded else PhaseRunning)) h"
  unfolding settlePhase_def readyCondition_def setCondition_def Let_def
  by (intro wp_rules) (auto simp: statusOf_def updStatus_def setPhase_def)

definition reportsSuspended :: "OpenClawInstance \<Rightarrow> bool" where
  "reportsSuspended i \<longleftrightarrow> st_Phase (oci_Status i) = PhaseSuspended
     \<and> statusOf ConditionTypeReady (st_Conditions (oci_Status i)) = Some ConditionFalse"

lemma suspended_spec:
  assumes "condition_laws (ob_Rec c)"
  shows "wp (finishSuspended c saved) (\<lambda>_ h2. \<exists>new. calls h2 = calls h @ new
      \<and> (\<forall>i e. CStatusUpdate i e \<in> set new \<longrightarrow> reportsSuspended i)
      \<and> ((\<exists>i e. CStatusUpdate i e \<in> set new) \<or> reportsSuspended (cur h2))) h"
  unfolding finishSuspended_def observeGeneration_def persistChange_def readyCondition_def setCondition_def
    statusUpdate_def now_def
  by (intro wp_rules wp_api wp_writeInst)
    (use assms in \<open>auto simp: condition_laws_def mkCondition_def updStatus_def setPhase_def reportsSuspended_def\<close>)

text \<open>
  C2: the phase is honest. After a run of reconcileResources that went through, the StatefulSet has
  been written exactly once. An instance that is not suspended then settles on the phase that the
  answer to that write justifies: Running or Degraded exactly if a pod was ready in it, and
  Provisioning (with the short interval to the next run) otherwise. A suspended instance settles on
  Suspended with Ready=False whatever the answer said: that is the status the run ends with, or the one
  status it writes. (What an automatic update that is driven afterwards makes of the phase is another
  matter.)
\<close>

theorem phase_honest:
  assumes "condition_laws (ob_Rec c)" "run_state (reconcileResources c) h = (None, h1)" "calls h = []"
  shows "\<exists>n ns replicas ready.
      filter stsWrite (calls h1) = [CApplyObj StatefulSetK n ns None (replicas, ready)]
      \<and> (if spec_Suspended (oci_Spec (cur h1))
         then wp (finishSuspended c saved) (\<lambda>_ h2. \<exists>new. calls h2 = calls h1 @ new
              \<and> (\<forall>i e. CStatusUpdate i e \<in> set new \<longrightarrow> reportsSuspended i)
              \<and> ((\<exists>i e. CStatusUpdate i e \<in> set new) \<or> reportsSuspended (cur h2))) h1
         else wp (settlePhase c) (\<lambda>waiting h2. calls h2 = calls h1
              \<and> (st_Phase (oci_Status (cur h2)) \<in> {PhaseRunning, PhaseDegraded} \<longleftrightarrow> 0 < ready)
              \<and> (st_Phase (oci_Status (cur h2)) = PhaseProvisioning \<longleftrightarrow> ready \<le> 0)
              \<and> (waiting \<longleftrightarrow> ready \<le> 0)) h1)"
proof -
  have "quiet h" by (simp add: quiet_def assms(3))
  from wp_run [OF run_post [OF assms(1) this] assms(2)] obtain n ns replicas ready where
    l: "filter stsWrite (calls h1) = [CApplyObj StatefulSetK n ns None (replicas, ready)]"
    and s: "\<not> spec_Suspended (oci_Spec (cur h1)) \<Longrightarrow>
      statusOf ConditionTypeStatefulSetReady (st_Conditions (oci_Status (cur h1))) =
      Some (if 0 < ready then ConditionTrue else ConditionFalse)"
    by (auto simp: podPost_def podSeen_def podReport_def stsCondition_def mkCondition_def)
  have "wp (settlePhase c) (\<lambda>waiting h2. calls h2 = calls h1
      \<and> (st_Phase (oci_Status (cur h2)) \<in> {PhaseRunning, PhaseDegraded} \<longleftrightarrow> 0 < ready)
      \<and> (st_Phase (oci_Status (cur h2)) = PhaseProvisioning \<longleftrightarrow> ready \<le> 0)
      \<and> (waiting \<longleftrightarrow> ready \<le> 0)) h1" if "\<not> spec_Suspended (oci_Spec (cur h1))"
    by (rule wp_mono [OF settlePhase_spec])
      (use s [OF that] in \<open>auto simp: PhaseRunning_def PhaseDegraded_def PhaseProvisioning_def ConditionTrue_def ConditionFalse_def\<close>)
  with l suspended_spec [OF assms(1), of saved h1] show ?thesis
    by (intro exI [of _ n] exI [of _ ns] exI [of _ replicas] exI [of _ ready]) simp
qed

section \<open>Errors\<close>

text \<open>
  C8: an error of reconcileResources is never swallowed or mistaken. An optimistic-lock conflict
  ends the run with an immediate requeue and nothing else happens: no event, no status write, the
  in-memory instance as it was. Every other error is reported by a warning event with its text,
  then by one status write with phase Failed and Ready=False, and it is returned; a panic
  propagates, and a step that asks to come back later gets exactly the interval it asked for.
\<close>

theorem failures_reported:
  assumes "condition_laws (ob_Rec c)" "run_state (reconcileResources c) h = (Some x, h1)"
    and "run_state (provision c sv saved) h = (out, h2)"
  shows "case x of
      HPanic \<Rightarrow> out = Panic \<and> h2 = h1
    | HRequeue res \<Rightarrow> out = Ret (res, None) \<and> h2 = h1
    | HErr err \<Rightarrow>
        if isConflict err then out = Ret (requeueNow, None) \<and> h2 = h1
        else (\<exists>res i e. out = Ret (res, Some err)
          \<and> calls h2 = calls h1 @ [CEvent EventWarning ''ReconcileFailed'' (emsg err), CStatusUpdate i e]
          \<and> st_Phase (oci_Status i) = PhaseFailed \<and> oci_Spec i = oci_Spec (cur h1)
          \<and> statusOf ConditionTypeReady (st_Conditions (oci_Status i)) = Some ConditionFalse)"
proof (cases x)
  case (HErr err)
  have "wp (reportFailure c err) (\<lambda>out h2. \<exists>res i e. out = (res, Some err)
      \<and> calls h2 = calls h1 @ [CEvent EventWarning ''ReconcileFailed'' (emsg err), CStatusUpdate i e]
      \<and> st_Phase (oci_Status i) = PhaseFailed \<and> oci_Spec i = oci_Spec (cur h1)
      \<and> statusOf ConditionTypeReady (st_Conditions (oci_Status i)) = Some ConditionFalse) h1"
    unfolding reportFailure_def readyCondition_def setCondition_def statusUpdate_def
    by (intro wp_rules wp_writeInst)
      (use assms(1) in \<open>auto simp: updStatus_def setPhase_def condition_laws_def mkCondition_def\<close>)
  with HErr assms(2,3) show ?thesis
    by (cases "run_state (reportFailure c err) h1")
      (auto simp: provision_def State_Monad.bind_def retryableConflictResult_def wp_def split: if_splits)
qed (use assms(2,3) in \<open>auto simp: provision_def State_Monad.bind_def\<close>)

section \<open>The finalizer\<close>

fun objectWrite :: "api_call \<Rightarrow> bool" where
  "objectWrite (CApplyObj _ _ _ _ _) = True"
| "objectWrite (CCreateObj _ _ _ _) = True"
| "objectWrite (CDeleteObj _ _ _ _) = True"
| "objectWrite (CCreateJob _ _) = True"
| "objectWrite (CWriteSecret _ _ _) = True"
| "objectWrite (CWriteCronJob _ _ _) = True"
| "objectWrite (CDeleteCronJob _ _) = True"
| "objectWrite (CPatchSts _ _ _) = True"
| "objectWrite (CUpdateSts _ _) = True"
| "objectWrite (CUpdatePVC _ _) = True"
| "objectWrite _ = False"

text \<open>
  C9: nothing is created for an instance before the finalizer that guarantees its clean-up is
  stored. If a run of Reconcile writes any object, then the instance it read is being deleted, or
  it carries the finalizer and its first phase has been recorded.
\<close>

theorem finalizer_first:
  assumes "run_state (ob_GetInstance c name ns) (srv h) = (Inr inst, s)" "calls h = []"
    and "run_state (ReconcileInstance c sv name ns) h = (out, h')" "x \<in> set (calls h')" "objectWrite x"
  shows "om_DeletionTimestamp (oci_Meta inst) \<noteq> None
    \<or> FinalizerName \<in> set (om_Finalizers (oci_Meta inst)) \<and> st_Phase (oci_Status inst) \<noteq> []"
proof (rule ccontr)
  assume "\<not> ?thesis"
  then have n: "om_DeletionTimestamp (oci_Meta inst) = None"
    "FinalizerName \<notin> set (om_Finalizers (oci_Meta inst)) \<or> st_Phase (oci_Status inst) = []" by auto
  have "wp (ReconcileInstance c sv name ns) (\<lambda>_ h'. list_all (\<lambda>x. \<not> objectWrite x) (calls h')) h"
    unfolding ReconcileInstance_def addFinalizer_def markPending_def updateInst_def statusUpdate_def
    by (intro wp_rules wp_api wp_writeInst) (use n assms(1,2) in auto)
  from wp_run [OF this assms(3)] assms(4,5) show False by (auto simp: list_all_iff)
qed

section \<open>Watches\<close>

lemma ApplyClusterDefaults_frame:
  "oci_Meta (ApplyClusterDefaults inst d) = oci_Meta inst"
  "spec_EnvFrom (oci_Spec (ApplyClusterDefaults inst d)) = spec_EnvFrom (oci_Spec inst)"
  "spec_Gateway (oci_Spec (ApplyClusterDefaults inst d)) = spec_Gateway (oci_Spec inst)"
  "spec_Tailscale (oci_Spec (ApplyClusterDefaults inst d)) = spec_Tailscale (oci_Spec inst)"
  "spec_NetBird (oci_Spec (ApplyClusterDefaults inst d)) = spec_NetBird (oci_Spec inst)"
  by (simp_all add: ApplyClusterDefaults_def Let_def split: option.split)

lemma MeshCredentialSecretName_defaults: "MeshCredentialSecretName (ApplyClusterDefaults inst d) = MeshCredentialSecretName inst"
proof -
  have "CredentialSecretName p (ApplyClusterDefaults inst d) = CredentialSecretName p inst" for p
    by (cases p) (simp_all add: ApplyClusterDefaults_frame)
  then show ?thesis
    by (simp add: MeshCredentialSecretName_def ActiveMeshProvider_def meshProviderEnabled_def ApplyClusterDefaults_frame cong: option.case_cong)
qed

lemma hashedSecretNames_set:
  "set (hashedSecretNames inst) = set (List.map_filter secretRefName (spec_EnvFrom (oci_Spec inst)))
     \<union> {strOr (gw_ExistingSecret (spec_Gateway (oci_Spec inst))) (GatewayTokenSecretName inst)}
     \<union> (if MeshCredentialSecretName inst \<noteq> [] then {MeshCredentialSecretName inst} else {})"
  by (simp add: hashedSecretNames_def)

text \<open>
  C11: a rotated Secret always reaches the pod. The Secrets whose content goes into the pod's hash
  are those of the instance after the cluster defaults are merged, but a change event is matched
  against the stored instance; both agree: apart from the generated token Secret (which the
  instance owns), the event of a Secret yields a request for a listed instance exactly if the
  rendered pod hashes that Secret.
\<close>

theorem secrets_watched:
  assumes "name \<noteq> []" "name \<noteq> GatewayTokenSecretName inst"
  shows "name \<in> set (hashedSecretNames (ApplyClusterDefaults inst d)) \<longleftrightarrow>
    findInstancesForSecret (Inr [inst]) name = [requestFor inst]"
    (is "?hashed \<longleftrightarrow> ?watched")
proof -
  have "?watched \<longleftrightarrow> usesSecret name inst" by (simp add: findInstancesForSecret_def)
  moreover have "list_ex (\<lambda>ef. secretRefName ef = Some name) efs \<longleftrightarrow> name \<in> set (List.map_filter secretRefName efs)" for efs
    by (force simp: List.map_filter_def list_ex_iff image_iff)
  moreover have "hashedSecretNames (ApplyClusterDefaults inst d) = hashedSecretNames inst"
    by (simp add: hashedSecretNames_def ApplyClusterDefaults_frame MeshCredentialSecretName_defaults GatewayTokenSecretName_def)
  ultimately show ?thesis
    using assms by (auto simp: usesSecret_def hashedSecretNames_set strOr_def)
qed

section \<open>Where the code falls short\<close>

text \<open>
  A finished restore ends with two writes whose replies replace the in-memory instance: what
  applyClusterDefaults merged into it is gone for the rest of the run, which writes the StatefulSet.
\<close>

theorem restore_drops_defaults:
  assumes laws: "api_laws r stored" and "run_state (reconcileRestore r) h = ((res, True, err), h')" "restoreRequested (cur h)"
  shows "cur h' = stored (srv h')"
proof -
  have fin: "wp (finishRestore r) (\<lambda>out h'. fst (snd out) \<longrightarrow> cur h' = stored (srv h')) h0" for h0
    unfolding finishRestore_def restore_defs setCondition_def statusUpdate_def
    by (intro wp_rules wp_writeInst wp_patchInst_law [OF laws]) auto
  have poll: "wp (pollRestoreJob r jn job) (\<lambda>out h'. fst (snd out) \<longrightarrow> cur h' = stored (srv h')) h0" for jn job h0
    unfolding pollRestoreJob_def restore_defs setCondition_def statusUpdate_def
    by (intro wp_rules wp_writeInst fin) auto
  have create: "wp (createRestoreJob r jn creds) (\<lambda>out h'. fst (snd out) \<longrightarrow> cur h' = stored (srv h')) h0" for jn creds h0
    unfolding createRestoreJob_def restore_defs createJob_def statusUpdate_def
    by (intro wp_rules wp_writeInst wp_api) simp_all
  have job: "wp (do { jobRes \<leftarrow> getJob r jn ns;
      (case jobRes of
         Inl err \<Rightarrow> if \<not> isNotFound err then stop err else createRestoreJob r jn creds
       | Inr existingJob \<Rightarrow> pollRestoreJob r jn existingJob) }) (\<lambda>out h'. fst (snd out) \<longrightarrow> cur h' = stored (srv h')) h0" for jn ns creds h0
    unfolding getJob_def stop_def by (intro wp_rules wp_api create poll) auto
  have w: "wp (restoreWithJob r) (\<lambda>out h'. fst (snd out) \<longrightarrow> cur h' = stored (srv h')) h0" for h0
    unfolding restoreWithJob_def wait_def Let_def
    by (rule wp_bind, rule wpI) (auto simp: stop_def split: sum.split option.split
        intro!: wp_rules wpI [of "reconcileS3MirrorSecret _ _"] job)
  have "wp (reconcileRestore r) (\<lambda>out h'. fst (snd out) \<longrightarrow> cur h' = stored (srv h')) h"
    unfolding reconcileRestore_def persistOrStop_def statusUpdate_def stop_def
    by (intro wp_rules wp_writeInst w) (use assms(3) in \<open>auto simp: restoreRequested_def\<close>)
  from wp_run [OF this assms(2)] show ?thesis by simp
qed

text \<open>If a Secret cannot be read, the condition still says that all referenced Secrets exist.\<close>

theorem secrets_ready_unread:
  assumes "condition_laws (ob_Rec c)" "run_state (computeSecretHash c) h = (Inl e, h1)"
    and "run_state (secretHash c) h = (hash, h2)"
  shows "statusOf ConditionTypeSecretsReady (st_Conditions (oci_Status (cur h2))) = Some ConditionTrue"
proof -
  have "wp (readyCondition c ConditionTypeSecretsReady ConditionTrue rs msg)
      (\<lambda>_ h2. statusOf ConditionTypeSecretsReady (st_Conditions (oci_Status (cur h2))) = Some ConditionTrue) h1" for rs msg
    unfolding readyCondition_def setCondition_def
    by (intro wp_rules) (use assms(1) in \<open>simp add: condition_laws_def updStatus_def mkCondition_def\<close>)
  note ready = this
  have "wp (secretHash c)
      (\<lambda>_ h2. statusOf ConditionTypeSecretsReady (st_Conditions (oci_Status (cur h2))) = Some ConditionTrue) h"
    unfolding secretHash_def Let_def
  proof (rule wp_bind, rule wpI)
    fix out h' assume "run_state (computeSecretHash c) h = (out, h')"
    with assms(2) have "out = Inl e" "h' = h1" by simp_all
    then show "wp (case case out of Inl _ \<Rightarrow> ([], []) | Inr hm \<Rightarrow> hm of (hash, missing) \<Rightarrow> do {
        (if missing \<noteq> [] then do {
           reportMissing missing;
           readyCondition c ConditionTypeSecretsReady ConditionFalse ''SecretsMissing'' (''Missing secrets: '' @ joinStr '', '' missing) }
         else readyCondition c ConditionTypeSecretsReady ConditionTrue ''AllSecretsFound'' ''All referenced secrets exist'');
        ret hash })
      (\<lambda>_ h2. statusOf ConditionTypeSecretsReady (st_Conditions (oci_Status (cur h2))) = Some ConditionTrue) h'"
      by (simp, intro wp_bind, intro wp_mono [OF ready]) (rule wp_return)
  qed
  from wp_run [OF this assms(3)] show ?thesis .
qed

text \<open>With an ingress class of neither known controller, basic authentication has no effect.\<close>

theorem unknown_class_unprotected:
  assumes "DetectIngressProvider (ing_ClassName (ingressOf inst)) = IngressProviderUnknown"
  shows "buildIngressAnnotations inst = overlay [] (ing_Annotations (ingressOf inst))"
  using assms
  by (simp add: buildIngressAnnotations_def redirectAnnotations_def hstsAnnotations_def rateAnnotations_def
      websocketAnnotations_def basicAuthAnnotations_def Let_def overlay_def split: option.split)

section \<open>A run that goes through\<close>

lemma memRec_conditions: "condition_laws memRec"
proof -
  have f: "List.find (\<lambda>d. cond_Type d = t) (filter (\<lambda>d. cond_Type d \<noteq> u) cs @ xs) =
      (if u = t then List.find (\<lambda>d. cond_Type d = t) xs else List.find (\<lambda>d. cond_Type d = t) (cs @ xs))" for t u cs xs
    by (induction cs) auto
  have g: "List.find P (cs @ [x]) = (case List.find P cs of None \<Rightarrow> if P x then Some x else None | Some y \<Rightarrow> Some y)"
    for P and cs :: "Condition list" and x by (induction cs) simp_all
  have "List.find (\<lambda>d. cond_Type d = t) (filter (\<lambda>d. cond_Type d \<noteq> u) cs) =
      (if u = t then None else List.find (\<lambda>d. cond_Type d = t) cs)" for t u cs
    using f [of t u cs "[]"] by simp
  note k = this
  show ?thesis
    by (auto simp: g k condition_laws_def memRec_def statusOf_def findCondition_def split: option.split)
qed

lemma replyStart_calls: "calls replyStart = []" "cur replyStart = mem_Inst (srv replyStart)"
  by (simp_all add: replyStart_def)

theorem pod_written_last_witness:
  "\<exists>h' as b bs. run_state (reconcileResources replyCluster) replyStart = (None, h') \<and> calls h' = as @ b # bs \<and> stsWrite b
     \<and> (\<exists>y \<in> set as. wrote NetworkPolicyK ''claw'' ''team'' y)"
proof -
  obtain h' where r: "run_state (reconcileResources replyCluster) replyStart = (None, h')" using replyStart_run by blast
  have "quiet replyStart" by (simp add: quiet_def replyStart_calls)
  from wp_run [OF run_post [OF _ this] r] obtain x where "x \<in> set (calls h')" "stsWrite x"
    using memRec_conditions by (fastforce simp: replyCluster_sel podPost_def podSeen_def filter_eq_Cons_iff)
  then obtain as bs where s: "calls h' = as @ x # bs" by (auto dest: split_list)
  have "networkPolicyEnabled (cur replyStart)" "NetworkPolicyName (cur replyStart) = ''claw''" "onamespace (cur replyStart) = ''team''"
    by code_simp+
  with pod_written_last [OF r replyStart_calls(1) s \<open>stsWrite x\<close>] r s \<open>stsWrite x\<close> show ?thesis by auto
qed

theorem phase_honest_witness:
  "\<exists>h1 waiting h2 ready. run_state (reconcileResources replyCluster) replyStart = (None, h1)
     \<and> run_state (settlePhase replyCluster) h1 = (waiting, h2)
     \<and> (st_Phase (oci_Status (cur h2)) \<in> {PhaseRunning, PhaseDegraded} \<longleftrightarrow> 0 < (ready :: int))"
proof -
  obtain h1 where r: "run_state (reconcileResources replyCluster) replyStart = (None, h1)"
    "oci_Spec (cur h1) = zero_OpenClawInstanceSpec" using replyStart_run by blast
  then have "\<not> spec_Suspended (oci_Spec (cur h1))" by (simp add: zero_OpenClawInstanceSpec_def)
  with phase_honest [OF _ r(1) replyStart_calls(1)] memRec_conditions r(1) show ?thesis
    by (cases "run_state (settlePhase replyCluster) h1") (fastforce simp: replyCluster_sel wp_def)
qed

text \<open>A cluster whose writes fail.\<close>

definition brokenCluster :: "Mem Cluster" where
  "brokenCluster = replyCluster\<lparr>ob_CreateOrUpdate := (\<lambda>kind n ns f. ret (Inl (errorf ''down'')))\<rparr>"

definition brokenStart :: "Mem hctx" where
  "brokenStart = freshCtx mem_Inst
     \<lparr>mem_Inst = zero_OpenClawInstance\<lparr>oci_Meta := zero_ObjectMeta\<lparr>om_Name := ''claw'', om_Finalizers := [FinalizerName]\<rparr>,
        oci_Status := zero_OpenClawInstanceStatus\<lparr>st_Phase := PhaseRunning\<rparr>\<rparr>,
      mem_Time = 0, mem_Sts = None, mem_Pods = [], mem_Jobs = [], mem_Secrets = [], mem_PVC = None, mem_CronJob = None,
      mem_Latest = []\<rparr>"

lemma brokenCluster_Rec: "ob_Rec brokenCluster = memRec"
  by (simp add: brokenCluster_def replyCluster_sel)

lemma brokenStart_plain: "plain (cur brokenStart)"
  by (simp add: plain_def brokenStart_def zero_OpenClawInstance_def)

lemma broken_run:
  assumes "plain (cur h)"
  shows "wp (reconcileResources brokenCluster) (\<lambda>a h'. a = Some (HErr (wrapErr ''failed to reconcile RBAC'' (errorf ''down'')))
    \<and> (\<exists>x \<in> set (calls h'). objectWrite x)) h"
proof -
  have sel: "ob_GetDefaults brokenCluster = ret (Inl (GoErr KNotFound ''not found''))"
    "ob_CreateOrUpdate brokenCluster kind n ns f = ret (Inl (errorf ''down''))" for kind n ns f
    by (simp_all add: brokenCluster_def replyCluster_sel)
  show ?thesis
    unfolding reconcileResources_def accessSteps_def andStep_seqSteps
    by (subst andStep_def, subst (2) andStep_def)
      (use assms in \<open>auto simp: wrapStep_def applyClusterDefaults_def sel doneStep_def isNotFound_def reconcileRBAC_def
        reconcileServiceAccount_def andStep_def applyThen_def applyObj_def failStep_def plain_def applyEntry_def
        zero_OpenClawInstanceSpec_def zero_SecuritySpec_def zero_RBACSpec_def intro!: wp_rules wp_api\<close>)
qed

theorem failures_reported_witness:
  "\<exists>out h2 res. run_state (provision brokenCluster sampleSemver zero_OpenClawInstanceStatus) brokenStart = (out, h2)
     \<and> out = Ret (res, Some (wrapErr ''failed to reconcile RBAC'' (errorf ''down'')))"
proof -
  obtain h1 where r: "run_state (reconcileResources brokenCluster) brokenStart
      = (Some (HErr (wrapErr ''failed to reconcile RBAC'' (errorf ''down''))), h1)"
    using broken_run [OF brokenStart_plain] by (cases "run_state (reconcileResources brokenCluster) brokenStart") (auto simp: wp_def)
  obtain out h2 where p: "run_state (provision brokenCluster sampleSemver zero_OpenClawInstanceStatus) brokenStart = (out, h2)"
    by (cases "run_state (provision brokenCluster sampleSemver zero_OpenClawInstanceStatus) brokenStart")
  from failures_reported [OF _ r p] p show ?thesis by (auto simp: brokenCluster_Rec memRec_conditions)
qed

theorem finalizer_first_witness:
  "\<exists>out h' x. run_state (ReconcileInstance brokenCluster sampleSemver ''claw'' []) brokenStart = (out, h')
     \<and> x \<in> set (calls h') \<and> objectWrite x \<and> FinalizerName \<in> set (om_Finalizers (oci_Meta (mem_Inst (srv brokenStart))))"
proof -
  obtain out h' where r: "run_state (ReconcileInstance brokenCluster sampleSemver ''claw'' []) brokenStart = (out, h')"
    by (cases "run_state (ReconcileInstance brokenCluster sampleSemver ''claw'' []) brokenStart")
  have after: "wp m (\<lambda>_ h'. \<exists>x \<in> set (calls h'). objectWrite x) h" if "\<exists>x \<in> set (calls h). objectWrite x" "logs (\<lambda>_. True) m"
    for m :: "(Mem hctx, 'a) state" and h :: "Mem hctx"
    using that wp_logged [OF that(2), of _ _ objectWrite] by blast
  have "wp (provision brokenCluster sampleSemver saved) (\<lambda>_ h'. \<exists>x \<in> set (calls h'). objectWrite x) h"
    if "plain (cur h)" for h saved
    unfolding provision_def
    by (rule wp_bind, rule wp_mono [OF broken_run [OF that]])
      (auto simp: retryableConflictResult_def reportFailure_def intro!: after log_rules step_logs split: prod.split)
  note provision = this
  let ?i = "mem_Inst (srv brokenStart)"
  have g: "run_state (ob_GetInstance brokenCluster ''claw'' []) (srv brokenStart) = (Inr ?i, srv brokenStart)"
    by (simp add: brokenCluster_def replyCluster_def)
  have i: "calls brokenStart = []" "om_DeletionTimestamp (oci_Meta ?i) = None" "FinalizerName \<in> set (om_Finalizers (oci_Meta ?i))"
    "st_Phase (oci_Status ?i) = PhaseRunning" "aus_PendingVersion (au_of ?i) = []" "plain ?i"
    by (simp_all add: brokenStart_def zero_ObjectMeta_def zero_OpenClawInstance_def zero_OpenClawInstanceStatus_def
      zero_AutoUpdateStatus_def plain_def)
  have "wp (ReconcileInstance brokenCluster sampleSemver ''claw'' []) (\<lambda>_ h'. \<exists>x \<in> set (calls h'). objectWrite x) brokenStart"
    unfolding ReconcileInstance_def driveThenProvision_def Let_def
    by (intro wp_rules wp_api)
      (use i in \<open>auto simp: g PhaseRunning_def PhasePending_def intro!: provision\<close>)
  from wp_run [OF this r] obtain x where x: "x \<in> set (calls h')" "objectWrite x" by blast
  with finalizer_first [OF g i(1) r x] r x i show ?thesis by blast
qed

theorem secrets_watched_witness:
  "''shared'' \<in> set (hashedSecretNames (ApplyClusterDefaults (zero_OpenClawInstance\<lparr>oci_Spec := zero_OpenClawInstanceSpec\<lparr>
       spec_Gateway := zero_GatewaySpec\<lparr>gw_ExistingSecret := ''shared''\<rparr>\<rparr>\<rparr>) None))"
proof -
  let ?i = "zero_OpenClawInstance\<lparr>oci_Spec := zero_OpenClawInstanceSpec\<lparr>
       spec_Gateway := zero_GatewaySpec\<lparr>gw_ExistingSecret := ''shared''\<rparr>\<rparr>\<rparr>"
  have "findInstancesForSecret (Inr [?i]) ''shared'' = [requestFor ?i]" "''shared'' \<noteq> GatewayTokenSecretName ?i"
    by code_simp+
  with secrets_watched [of "''shared''" ?i None] show ?thesis by simp
qed

end
