(* ===== verification/PodProps.thy ===== *)
theory PodProps
  imports StatefulSet Webhook
begin

text \<open>
  What the pod promises: its mounts are backed by volumes, its names are unique and its init
  containers run in a fixed order, the writers of the data volume share one user, no container is
  refused for running as root, and the install scripts read as the commands they are meant to be.
\<close>

section \<open>Volumes\<close>

definition declaredVolumes :: "StatefulSet \<Rightarrow> string set" where
  "declaredVolumes sts =
     vol_Name ` set (pod_Volumes (sts_PodSpec sts)) \<union> vct_Name ` set (sts_VolumeClaimTemplates sts)"

definition ownOf :: "podContainer list \<Rightarrow> PodContainer list" where
  "ownOf cs = List.map_filter (\<lambda>c. case c of Own d \<Rightarrow> Some d | Given _ \<Rightarrow> None) cs"

lemma ownOf_simps [simp]: "ownOf (map Own cs @ map Given ds) = cs"
proof -
  have "ownOf (map Given ds) = []" by (induction ds) (simp_all add: ownOf_def List.map_filter_simps)
  then show ?thesis by (induction cs) (simp_all add: ownOf_def List.map_filter_simps)
qed

text \<open>The containers the operator builds, in the order of the pod: init containers first.\<close>

definition operatorContainers :: "StatefulSet \<Rightarrow> PodContainer list" where
  "operatorContainers sts = ownOf (pod_InitContainers (sts_PodSpec sts)) @ ownOf (pod_Containers (sts_PodSpec sts))"

text \<open>The names the operator's volumes and claim templates provide.\<close>

definition provided :: "PodParams \<Rightarrow> OpenClawInstance \<Rightarrow> string set" where
  "provided pp inst = vol_Name ` set (operatorVolumes pp inst) \<union> vct_Name ` set (claimTemplates pp inst)"

lemma volume_names [simp]:
  "vol_Name (emptyDirVolume n) = n" "vol_Name (claimVolume n c) = n" "vol_Name (configMapVolume n c i) = n"
  "vol_Name (secretVolume n s) = n" "vol_Name (limitedDir n f) = n"
  by (simp_all add: emptyDirVolume_def claimVolume_def configMapVolume_def secretVolume_def limitedDir_def)

lemma mount_names [simp]:
  "vm_Name (mnt n p) = n" "vm_Name (mntSub n p s) = n" "vm_Name (readOnly m) = vm_Name m"
  by (simp_all add: mnt_def mntSub_def readOnly_def)

lemmas volume_defs = operatorVolumes_def dataVolumes_def configVolumes_def scratchVolumes_def chromiumVolumes_def
  ollamaVolumes_def caVolumes_def claimTemplates_def

lemma provided_always:
  "''data'' \<in> provided pp inst" "''config'' \<in> provided pp inst" "''workspace-init'' \<in> provided pp inst"
  "''tmp'' \<in> provided pp inst"
  by (simp_all add: provided_def volume_defs hasWorkspaceFiles_def Let_def)

lemma provided_if:
  "IsMetricsEnabled inst \<Longrightarrow> ''otel-collector-config'' \<in> provided pp inst"
  "spec_Skills (oci_Spec inst) \<noteq> [] \<or> hasWorkspaceSkills inst \<Longrightarrow> ''skills-tmp'' \<in> provided pp inst"
  "hasPlugins inst \<Longrightarrow> pluginInstallReadOnly inst \<Longrightarrow> pluginScratchVolume \<in> provided pp inst"
  "rd_Pnpm (spec_RuntimeDeps (oci_Spec inst)) \<Longrightarrow> ''pnpm-tmp'' \<in> provided pp inst"
  "rd_Python (spec_RuntimeDeps (oci_Spec inst)) \<Longrightarrow> ''python-tmp'' \<in> provided pp inst"
  "usesNode inst \<Longrightarrow> ''init-tmp'' \<in> provided pp inst"
  "IsGatewayProxyEnabled inst \<Longrightarrow> ''gateway-proxy-tmp'' \<in> provided pp inst"
  "wt_Enabled (spec_WebTerminal (oci_Spec inst)) \<Longrightarrow> ''web-terminal-tmp'' \<in> provided pp inst"
  "ol_Enabled (spec_Ollama (oci_Spec inst)) \<Longrightarrow> ''ollama-models'' \<in> provided pp inst"
  by (simp_all add: provided_def volume_defs Let_def)

lemma provided_chromium:
  "ch_Enabled (spec_Chromium (oci_Spec inst)) \<Longrightarrow>
   {''chromium-tmp'', ''chromium-shm'', ''chromium-data''} \<subseteq> provided pp inst"
  by (simp add: provided_def operatorVolumes_def chromiumVolumes_def Let_def)

lemma provided_mesh:
  "ActiveMeshProvider inst = Some mesh \<Longrightarrow> vol_Name ` set (PodVolumes mesh) \<subseteq> provided pp inst"
  by (auto simp: provided_def operatorVolumes_def ofMesh_def)

definition caNamed :: "OpenClawInstance \<Rightarrow> bool" where
  "caNamed inst =
     (case sec_CABundle (spec_Security (oci_Spec inst)) of
        None \<Rightarrow> True | Some cab \<Rightarrow> cab_ConfigMapName cab \<noteq> [] \<or> cab_SecretName cab \<noteq> [])"

lemma provided_ca: "caNamed inst \<Longrightarrow> vm_Name ` set (caMounts inst) \<subseteq> provided pp inst"
proof -
  assume "caNamed inst"
  then have "vm_Name ` set (caMounts inst) \<subseteq> vol_Name ` set (caVolumes inst)"
    by (cases "sec_CABundle (spec_Security (oci_Spec inst))") (auto simp: caNamed_def caMounts_def caVolumes_def)
  then show ?thesis by (auto simp: provided_def operatorVolumes_def)
qed

section \<open>Mounts\<close>

definition mountNames :: "PodContainer \<Rightarrow> string set" where
  "mountNames c = vm_Name ` set (con_VolumeMounts c)"

lemma skills_need:
  assumes "buildSkillsInitContainer inst = Some c"
  shows "spec_Skills (oci_Spec inst) \<noteq> [] \<or> hasWorkspaceSkills inst"
proof -
  have "BuildSkillsScript inst \<noteq> []" using assms by (auto simp: buildSkillsInitContainer_def Let_def)
  then have "FilterNonPackSkills (spec_Skills (oci_Spec inst)) \<noteq> [] \<or> workspaceInstalls inst \<noteq> []"
    by (auto simp: BuildSkillsScript_def Let_def)
  moreover have "hasWorkspaceSkills inst" if n: "workspaceInstalls inst \<noteq> []"
  proof -
    from n obtain w where "w \<in> set (workspaceInstalls inst)" by (meson list.set_sel(1))
    then obtain aw where "aw \<in> set (additionalWorkspaces inst)" "sort (FilterNonPackSkills (aw_Skills aw)) \<noteq> []"
      by (auto simp: workspaceInstalls_def)
    then have "aw \<in> set (additionalWorkspaces inst)" "aw_Skills aw \<noteq> []" by (auto simp: FilterNonPackSkills_def)
    then show ?thesis by (auto simp: hasWorkspaceSkills_def list_ex_iff)
  qed
  ultimately show ?thesis by (auto simp: FilterNonPackSkills_def)
qed

lemmas helper_defs = buildDataOwnerInitContainer_def buildConfigInitContainer_def buildUvInitContainer_def
  buildPipInitContainer_def buildPluginRuntimeDepsInitContainer_def buildPnpmInitContainer_def
  buildPythonInitContainer_def buildPluginScratchInitContainer_def buildTailscaleBinInitContainer_def

lemma helper_mounts:
  "mountNames (buildDataOwnerInitContainer inst) = {''data''}"
  "mountNames (buildConfigInitContainer inst script) =
     {''data'', ''config'', ''workspace-init''} \<union> (if usesNode inst then {''init-tmp''} else {})"
  "mountNames (buildUvInitContainer inst) = {''data''}"
  "mountNames (buildPipInitContainer inst) = {''data'', ''tmp''}"
  "mountNames (buildPluginRuntimeDepsInitContainer inst) = {''data''}"
  "mountNames (buildPnpmInitContainer inst) = {''data'', ''pnpm-tmp''} \<union> vm_Name ` set (caMounts inst)"
  "mountNames (buildPythonInitContainer inst) = {''data'', ''python-tmp''} \<union> vm_Name ` set (caMounts inst)"
  "mountNames (buildPluginScratchInitContainer d) = {pluginScratchVolume}"
  "mountNames (buildTailscaleBinInitContainer inst) = {''tailscale-bin''}"
  by (auto simp: mountNames_def helper_defs blankContainer_def configMapKey_def hasWorkspaceFiles_def split: prod.splits)

lemma skills_mounts:
  assumes "buildSkillsInitContainer inst = Some c"
  shows "mountNames c = {''data'', ''skills-tmp''} \<union> vm_Name ` set (caMounts inst)"
proof -
  have "BuildSkillsScript inst \<noteq> []" using assms by (auto simp: buildSkillsInitContainer_def Let_def)
  then show ?thesis
    using assms unfolding buildSkillsInitContainer_def Let_def by (auto simp: mountNames_def blankContainer_def)
qed

lemma plugins_mounts:
  assumes "buildPluginsInitContainer pp inst = Some c"
  shows "mountNames c = {''data''} \<union> vm_Name ` set (caMounts inst)
    \<union> (if pluginInstallReadOnly inst then {pluginScratchVolume} else {})"
proof -
  have "hasPlugins inst" using assms by (cases "hasPlugins inst") (simp_all add: buildPluginsInitContainer_def)
  then have "c = the (buildPluginsInitContainer pp inst)" using assms by simp
  then show ?thesis
    unfolding mountNames_def using \<open>hasPlugins inst\<close> by (simp add: buildPluginsInitContainer_def blankContainer_def Let_def)
qed

lemma sidecar_mounts:
  "mountNames (buildTailscaleContainer pp inst) = {''tailscale-socket'', ''config'', ''tailscale-tmp''}"
  "mountNames (buildNetBirdContainer pp inst) = {''netbird-state''}"
  "mountNames (buildGatewayProxyContainer pp inst) = {''config'', ''gateway-proxy-tmp''}"
  "mountNames (buildChromiumContainer pp inst) =
     {''chromium-tmp'', ''chromium-shm'', ''chromium-data''} \<union> vm_Name ` set (caMounts inst)"
  "mountNames (buildOllamaContainer pp inst) = {''ollama-models''}"
  "mountNames (buildOllamaModelPullInitContainer pp inst) = {''ollama-models''}"
  "mountNames (buildWebTerminalContainer pp inst) = {''data'', ''web-terminal-tmp''}"
  "mountNames (buildOTelCollectorContainer pp inst) = {''otel-collector-config''}"
  by (simp_all add: mountNames_def buildTailscaleContainer_def buildNetBirdContainer_def buildGatewayProxyContainer_def
      buildChromiumContainer_def buildOllamaContainer_def buildOllamaModelPullInitContainer_def ollamaBase_def
      buildWebTerminalContainer_def buildOTelCollectorContainer_def blankContainer_def Let_def)

lemma main_mounts:
  "mountNames (buildMainContainer pp inst secret) \<subseteq>
     {''data'', ''tmp'', ''config''} \<union> vm_Name ` set (caMounts inst) \<union> vm_Name ` set (ofMesh inst MainContainerMounts)
     \<union> vm_Name ` set (spec_ExtraVolumeMounts (oci_Spec inst))"
  by (auto simp: mountNames_def buildMainContainer_def blankContainer_def mainMounts_def)

text \<open>Each container mounts what is provided; the mesh mounts come with the volumes of the provider.\<close>

lemma mesh_mounts:
  "ActiveMeshProvider inst = Some mesh \<Longrightarrow> vm_Name ` set (MainContainerMounts mesh) \<subseteq> provided pp inst"
  "ActiveMeshProvider inst = Some mesh \<Longrightarrow> c \<in> set (SidecarContainers mesh pp inst) \<Longrightarrow> mountNames c \<subseteq> provided pp inst"
  "ActiveMeshProvider inst = Some mesh \<Longrightarrow> c \<in> set (InitContainers mesh inst) \<Longrightarrow> mountNames c \<subseteq> provided pp inst"
  using provided_mesh [of inst mesh pp] provided_always [where pp = pp and inst = inst]
  by (cases mesh; simp add: sidecar_mounts helper_mounts)+

lemma set_optional:
  "x \<in> set (case opt of None \<Rightarrow> [] | Some c \<Rightarrow> f c) \<longleftrightarrow> (\<exists>c. opt = Some c \<and> x \<in> set (f c))"
  by (cases opt) auto

lemma set_if: "x \<in> set (if b then [y] else []) \<longleftrightarrow> b \<and> x = y"
  by auto

lemma setup_cases [consumes 1]:
  assumes "c \<in> set (setupContainers pp inst ext add packs)"
  obtains "c = buildDataOwnerInitContainer inst" | script where "c = buildConfigInitContainer inst script"
    | mesh where "ActiveMeshProvider inst = Some mesh" "c \<in> set (InitContainers mesh inst)"
    | "c = buildUvInitContainer inst" | "c = buildPipInitContainer inst" | "c = buildPluginRuntimeDepsInitContainer inst"
    | "rd_Pnpm (spec_RuntimeDeps (oci_Spec inst))" "c = buildPnpmInitContainer inst"
    | "rd_Python (spec_RuntimeDeps (oci_Spec inst))" "c = buildPythonInitContainer inst"
    | "buildSkillsInitContainer inst = Some c"
    | d where "buildPluginsInitContainer pp inst = Some d" "pluginInstallReadOnly inst" "c = buildPluginScratchInitContainer d"
    | "buildPluginsInitContainer pp inst = Some c"
  using assms unfolding setupContainers_def Let_def ofMesh_def set_append Un_iff set_optional
  by (auto split: if_splits)

lemma plugins_present: "buildPluginsInitContainer pp inst = Some c \<Longrightarrow> hasPlugins inst"
  by (cases "hasPlugins inst") (simp_all add: buildPluginsInitContainer_def)

lemma setup_mounts:
  assumes "caNamed inst" "c \<in> set (setupContainers pp inst ext add packs)"
  shows "mountNames c \<subseteq> provided pp inst"
proof -
  note always = provided_always [where pp = pp and inst = inst] and ca = provided_ca [OF assms(1), of pp]
  from assms(2) show ?thesis
  proof (cases rule: setup_cases)
    case 9
    then show ?thesis using always ca provided_if(2) [OF skills_need] by (simp add: skills_mounts)
  next
    case (10 d)
    then show ?thesis using provided_if(3) plugins_present by (simp add: helper_mounts)
  next
    case 11
    then show ?thesis using always ca provided_if(3) plugins_present by (simp add: plugins_mounts)
  qed (use always ca provided_if mesh_mounts(3) in \<open>auto simp: helper_mounts\<close>)
qed

lemma main_cases [consumes 1]:
  assumes "c \<in> set (ownContainers pp inst secret)"
  obtains "c = buildMainContainer pp inst secret" | "IsGatewayProxyEnabled inst" "c = buildGatewayProxyContainer pp inst"
    | mesh where "ActiveMeshProvider inst = Some mesh" "c \<in> set (SidecarContainers mesh pp inst)"
    | "ol_Enabled (spec_Ollama (oci_Spec inst))" "c = buildOllamaContainer pp inst"
    | "wt_Enabled (spec_WebTerminal (oci_Spec inst))" "c = buildWebTerminalContainer pp inst"
    | "IsMetricsEnabled inst" "c = buildOTelCollectorContainer pp inst"
proof -
  have "c = buildMainContainer pp inst secret \<or> (IsGatewayProxyEnabled inst \<and> c = buildGatewayProxyContainer pp inst)
    \<or> (\<exists>mesh. ActiveMeshProvider inst = Some mesh \<and> c \<in> set (SidecarContainers mesh pp inst))
    \<or> (ol_Enabled (spec_Ollama (oci_Spec inst)) \<and> c = buildOllamaContainer pp inst)
    \<or> (wt_Enabled (spec_WebTerminal (oci_Spec inst)) \<and> c = buildWebTerminalContainer pp inst)
    \<or> (IsMetricsEnabled inst \<and> c = buildOTelCollectorContainer pp inst)"
    using assms
    by (simp only: ownContainers_def ofMesh_def set_append set_simps(2) Un_iff insert_iff set_optional set_if disj_assoc)
  then show thesis using that by (elim disjE conjE exE)
qed

lemma main_containers_mounts:
  assumes "caNamed inst" "c \<in> set (ownContainers pp inst secret)"
  shows "mountNames c \<subseteq> provided pp inst
    \<union> (if c = buildMainContainer pp inst secret then vm_Name ` set (spec_ExtraVolumeMounts (oci_Spec inst)) else {})"
proof -
  note always = provided_always [where pp = pp and inst = inst] and ca = provided_ca [OF assms(1), of pp]
  have mesh: "vm_Name ` set (ofMesh inst MainContainerMounts) \<subseteq> provided pp inst"
    by (cases "ActiveMeshProvider inst") (simp_all add: ofMesh_def mesh_mounts(1))
  have main: "mountNames (buildMainContainer pp inst secret) \<subseteq>
      provided pp inst \<union> vm_Name ` set (spec_ExtraVolumeMounts (oci_Spec inst))"
    by (rule order_trans [OF main_mounts], intro Un_least) (simp_all add: always le_supI1 ca mesh)
  from assms(2) show ?thesis
    by (cases rule: main_cases) (simp_all add: main sidecar_mounts always provided_if le_supI1 [OF mesh_mounts(2)])
qed

lemma withIdentity_fields [simp]:
  "con_Name (withIdentity sc c) = con_Name c" "con_VolumeMounts (withIdentity sc c) = con_VolumeMounts c"
  by (simp_all add: withIdentity_def)

lemma shareIdentity_fields:
  "map con_Name (shareIdentity inst cs) = map con_Name cs"
  "mountNames ` set (shareIdentity inst cs) = mountNames ` set cs"
  by (auto simp: shareIdentity_def Let_def mountNames_def image_image)

lemma init_containers_mounts:
  assumes "caNamed inst" "c \<in> set (ownInitContainers pp inst ext add packs)"
  shows "mountNames c \<subseteq> provided pp inst"
proof -
  consider "mountNames c \<in> mountNames ` set (setupContainers pp inst ext add packs)"
    | "ol_Enabled (spec_Ollama (oci_Spec inst))" "c = buildOllamaModelPullInitContainer pp inst"
    | "ch_Enabled (spec_Chromium (oci_Spec inst))" "mountNames c = mountNames (buildChromiumContainer pp inst)"
    using assms(2) shareIdentity_fields(2) [of inst "setupContainers pp inst ext add packs"]
    unfolding ownInitContainers_def by (auto simp: mountNames_def split: if_splits)
  then show ?thesis
  proof cases
    case 1
    then show ?thesis using setup_mounts [OF assms(1)] by (metis (no_types, lifting) imageE)
  next
    case 3
    then show ?thesis using provided_chromium [where pp = pp and inst = inst] provided_ca [OF assms(1), of pp]
      by (auto simp: sidecar_mounts)
  qed (use provided_if in \<open>auto simp: sidecar_mounts\<close>)
qed

lemma built_fields:
  assumes "BuildStatefulSet pp inst tok packs ext add = Ret sts"
  shows "sts_PodSpec sts = buildPodSpec pp inst tok packs ext add" "sts_VolumeClaimTemplates sts = claimTemplates pp inst"
    "operatorContainers sts = ownInitContainers pp inst ext add packs @ ownContainers pp inst tok"
    "ownOf (pod_InitContainers (sts_PodSpec sts)) = ownInitContainers pp inst ext add packs"
  using assms
  by (auto simp: BuildStatefulSet_def operatorContainers_def buildPodSpec_def buildInitContainers_def buildContainers_def Let_def
      split: outcome.splits)

lemma accepted_ca: "accepts (ValidateCreate x inst) \<Longrightarrow> caNamed inst"
  by (auto simp: ValidateCreate_def validate_def Let_def checkCABundle_def caNamed_def split: option.splits)

text \<open>
  C13: in the pod of an instance the webhook accepts, every mount of a container the operator builds
  names a volume of the pod, or the claim template that stands for it under auto-scaling. The only other
  names are those of spec.extraVolumeMounts, in the main container alone; nothing checks that the spec
  declares volumes for them. So the pod is never rejected for a mount the operator forgot to back.
\<close>

theorem mounts_declared:
  assumes "accepts (ValidateCreate x inst)" "BuildStatefulSet pp inst tok packs ext add = Ret sts"
    and "c \<in> set (operatorContainers sts)"
  shows "vm_Name ` set (con_VolumeMounts c) \<subseteq> declaredVolumes sts
    \<union> (if con_Name c = ''openclaw'' then vm_Name ` set (spec_ExtraVolumeMounts (oci_Spec inst)) else {})"
proof -
  note fields = built_fields [OF assms(2)] and ca = accepted_ca [OF assms(1)]
  have provided: "provided pp inst \<subseteq> declaredVolumes sts"
    by (auto simp: provided_def declaredVolumes_def fields buildPodSpec_def buildVolumes_def Let_def)
  consider "c \<in> set (ownInitContainers pp inst ext add packs)" | "c \<in> set (ownContainers pp inst tok)"
    using assms(3) unfolding fields set_append by blast
  then have "mountNames c \<subseteq> provided pp inst
      \<union> (if c = buildMainContainer pp inst tok then vm_Name ` set (spec_ExtraVolumeMounts (oci_Spec inst)) else {})"
    by cases (use init_containers_mounts [OF ca] main_containers_mounts [OF ca] in blast)+
  moreover have "con_Name (buildMainContainer pp inst tok) = ''openclaw''"
    by (simp add: buildMainContainer_def blankContainer_def Let_def)
  ultimately show ?thesis using provided by (auto simp: mountNames_def split: if_splits)
qed

section \<open>An example\<close>

definition examplePod :: OpenClawInstance where
  "examplePod = zero_OpenClawInstance\<lparr>oci_Spec := zero_OpenClawInstanceSpec\<lparr>
     spec_EnvFrom := [JNull], spec_Image := zero_ImageSpec\<lparr>img_Tag := ''1.0.0''\<rparr>,
     spec_Resources := zero_ResourcesSpec\<lparr>rs_Limits := \<lparr>rl_CPU = ''2'', rl_Memory = ''4Gi''\<rparr>\<rparr>,
     spec_Plugins := [''npm:left-pad''], spec_ExtraVolumes := [emptyDirVolume ''cache''],
     spec_ExtraVolumeMounts := [mnt ''cache'' ''/cache''],
     spec_Security := zero_SecuritySpec\<lparr>
       sec_ContainerSecurityContext := Some (zero_ContainerSecurityContextSpec\<lparr>csc_RunAsUser := Some 2000\<rparr>),
       sec_CABundle := Some (zero_CABundleSpec\<lparr>cab_ConfigMapName := ''corp-ca''\<rparr>)\<rparr>\<rparr>\<rparr>"

definition exampleEnv :: webhookEnv where
  "exampleEnv = \<lparr>wx_QuantityError = Map.empty, wx_StrictVersion = (\<lambda>_. True), wx_DurationError = (\<lambda>_. [])\<rparr>"

definition exampleParams :: PodParams where
  "exampleParams = \<lparr>pp_ValidQuantity = (\<lambda>_. True), pp_QuantityValue = (\<lambda>_. 1024), pp_Sha256 = (\<lambda>s. s),
     pp_Marshal = (\<lambda>_. ''{}''), pp_Installer = []\<rparr>"

lemma examplePod_accepted: "accepts (ValidateCreate exampleEnv examplePod)"
proof -
  have "validate exampleEnv examplePod = Inr (projr (validate exampleEnv examplePod))" by code_simp
  then show ?thesis unfolding ValidateCreate_def accepts_def by blast
qed

lemma built_without_raw:
  assumes "cfg_Raw (spec_Config (oci_Spec inst)) = None"
  shows "\<exists>sts. BuildStatefulSet pp inst tok packs ext add = Ret sts"
proof -
  have "\<exists>cm. BuildConfigMap inst '''' packs = Ret cm"
    using assms enrichConfig_object [of inst "''''" packs "[]"]
    by (simp add: BuildConfigMap_def BuildConfigMapFromBytes_def rawOrEmpty_def)
  then show ?thesis by (auto simp: BuildStatefulSet_def buildPodAnnotations_def calculateConfigHash_def)
qed

lemma examplePod_built: "\<exists>sts. BuildStatefulSet exampleParams examplePod tok packs ext add = Ret sts"
  by (rule built_without_raw) (simp add: examplePod_def zero_OpenClawInstanceSpec_def zero_ConfigSpec_def)

theorem mounts_declared_witness:
  "\<exists>sts. BuildStatefulSet exampleParams examplePod ''token'' None [] [] = Ret sts
     \<and> vm_Name ` set (con_VolumeMounts (buildMainContainer exampleParams examplePod ''token'')) \<subseteq> declaredVolumes sts"
proof -
  obtain sts where sts: "BuildStatefulSet exampleParams examplePod ''token'' None [] [] = Ret sts"
    using examplePod_built by blast
  note fields = built_fields [OF sts]
  have extra: "vm_Name ` set (spec_ExtraVolumeMounts (oci_Spec examplePod)) \<subseteq> declaredVolumes sts"
    unfolding declaredVolumes_def fields by (simp add: examplePod_def buildPodSpec_def buildVolumes_def Let_def)
  have "buildMainContainer exampleParams examplePod ''token'' \<in> set (operatorContainers sts)"
    by (simp add: fields ownContainers_def)
  note mounts_declared [OF examplePod_accepted sts this]
  also have "declaredVolumes sts \<union> (if con_Name (buildMainContainer exampleParams examplePod ''token'') = ''openclaw''
      then vm_Name ` set (spec_ExtraVolumeMounts (oci_Spec examplePod)) else {}) \<subseteq> declaredVolumes sts"
    using extra by simp
  finally show ?thesis using sts by blast
qed

section \<open>Names and order\<close>

text \<open>The order of the init containers, and all the names of the operator's containers.\<close>

definition initOrder :: "string list" where
  "initOrder =
     [DataOwnerInitContainerName, ''init-config'', ''init-tailscale-bin'', ''init-uv'', ''init-pip'',
      ''init-plugin-runtime-deps'', ''init-pnpm'', ''init-python'', ''init-skills'', ''init-plugin-scratch'',
      ''init-plugins'', ''init-ollama'', ''chromium'']"

definition mainOrder :: "string list" where
  "mainOrder = [''openclaw'', ''gateway-proxy'', ''tailscale'', ''netbird'', ''ollama'', ''web-terminal'', ''otel-collector'']"

lemma subseq_if [simp]: "subseq (if b then [x] else []) [x]"
  by simp

lemma subseq_distinct: "subseq xs ys \<Longrightarrow> distinct ys \<Longrightarrow> distinct xs"
  by (induction rule: list_emb.induct) (auto dest: list_emb_set)

lemma helper_names:
  "con_Name (buildDataOwnerInitContainer inst) = DataOwnerInitContainerName"
  "con_Name (buildConfigInitContainer inst script) = ''init-config''"
  "con_Name (buildUvInitContainer inst) = ''init-uv''" "con_Name (buildPipInitContainer inst) = ''init-pip''"
  "con_Name (buildPluginRuntimeDepsInitContainer inst) = ''init-plugin-runtime-deps''"
  "con_Name (buildPnpmInitContainer inst) = ''init-pnpm''" "con_Name (buildPythonInitContainer inst) = ''init-python''"
  "con_Name (buildPluginScratchInitContainer d) = ''init-plugin-scratch''"
  "con_Name (buildTailscaleBinInitContainer inst) = ''init-tailscale-bin''"
  "buildSkillsInitContainer inst = Some c \<Longrightarrow> con_Name c = ''init-skills''"
  "buildPluginsInitContainer pp inst = Some c \<Longrightarrow> con_Name c = ''init-plugins''"
  by (auto simp: helper_defs buildSkillsInitContainer_def buildPluginsInitContainer_def blankContainer_def Let_def
      split: prod.splits if_split_asm)

lemma sidecar_names:
  "con_Name (buildTailscaleContainer pp inst) = ''tailscale''" "con_Name (buildNetBirdContainer pp inst) = ''netbird''"
  "con_Name (buildGatewayProxyContainer pp inst) = ''gateway-proxy''" "con_Name (buildChromiumContainer pp inst) = ''chromium''"
  "con_Name (buildOllamaContainer pp inst) = ''ollama''" "con_Name (buildOllamaModelPullInitContainer pp inst) = ''init-ollama''"
  "con_Name (buildWebTerminalContainer pp inst) = ''web-terminal''"
  "con_Name (buildOTelCollectorContainer pp inst) = ''otel-collector''"
  "con_Name (buildMainContainer pp inst secret) = ''openclaw''"
  by (simp_all add: buildTailscaleContainer_def buildNetBirdContainer_def buildGatewayProxyContainer_def
      buildChromiumContainer_def buildOllamaContainer_def buildOllamaModelPullInitContainer_def ollamaBase_def
      buildWebTerminalContainer_def buildOTelCollectorContainer_def buildMainContainer_def blankContainer_def Let_def)

lemma subseq_segment: "subseq xs xs' \<Longrightarrow> subseq ys ys' \<Longrightarrow> subseq (xs @ ys) (xs' @ ys')"
  by (rule list_emb_append_mono)

lemma subseq_opt: "set xs \<subseteq> {n} \<Longrightarrow> length xs \<le> 1 \<Longrightarrow> subseq xs [n]"
  by (cases xs) auto

lemma names_segment: "subseq (map con_Name cs) ns \<Longrightarrow> subseq (map con_Name ds) ms \<Longrightarrow> subseq (map con_Name (cs @ ds)) (ns @ ms)"
  by (simp add: subseq_segment)

definition setupOrder :: "string list" where
  "setupOrder =
     [DataOwnerInitContainerName] @ [''init-config''] @ [''init-tailscale-bin'']
      @ [''init-uv'', ''init-pip'', ''init-plugin-runtime-deps''] @ [''init-pnpm''] @ [''init-python''] @ [''init-skills'']
      @ [''init-plugin-scratch'', ''init-plugins'']"

lemma setup_names: "subseq (map con_Name (setupContainers pp inst ext add packs)) setupOrder"
  unfolding setupContainers_def setupOrder_def Let_def
proof (intro names_segment)
  show "subseq (map con_Name (ofMesh inst (\<lambda>mesh. InitContainers mesh inst))) [''init-tailscale-bin'']"
  proof (cases "ActiveMeshProvider inst")
    case (Some mesh)
    then show ?thesis by (cases mesh) (simp_all add: ofMesh_def helper_names)
  qed (simp add: ofMesh_def)
qed (auto simp: helper_names split: option.splits)

text \<open>The same for the volumes; the claim template takes the place of the data volume.\<close>

definition volumeOrder :: "string list" where
  "volumeOrder =
     [''data''] @ [''config'', ''otel-collector-config'', ''workspace-init'']
     @ [''skills-tmp'', pluginScratchVolume, ''pnpm-tmp'', ''python-tmp'', ''init-tmp'', ''tmp'', ''gateway-proxy-tmp'']
     @ [''tailscale-socket'', ''tailscale-bin'', ''tailscale-tmp'', ''netbird-state'']
     @ [''chromium-tmp'', ''chromium-shm'', ''chromium-data''] @ [''ollama-models''] @ [''web-terminal-tmp''] @ [''ca-bundle'']"

lemma volume_order:
  "subseq (map vct_Name (claimTemplates pp inst) @ map vol_Name (operatorVolumes pp inst)) volumeOrder"
proof -
  have data: "subseq (map vct_Name (claimTemplates pp inst) @ map vol_Name (dataVolumes inst)) [''data'']"
    by (simp add: claimTemplates_def dataVolumes_def Let_def)
  have config: "subseq (map vol_Name (configVolumes inst)) [''config'', ''otel-collector-config'', ''workspace-init'']"
    by (simp add: configVolumes_def)
  have scratch: "subseq (map vol_Name (scratchVolumes inst))
      ([''skills-tmp''] @ [pluginScratchVolume] @ [''pnpm-tmp''] @ [''python-tmp''] @ [''init-tmp''] @ [''tmp''] @ [''gateway-proxy-tmp''])"
    unfolding scratchVolumes_def map_append by (intro subseq_segment) simp_all
  have mesh: "subseq (map vol_Name (ofMesh inst PodVolumes))
      [''tailscale-socket'', ''tailscale-bin'', ''tailscale-tmp'', ''netbird-state'']"
  proof (cases "ActiveMeshProvider inst")
    case (Some mesh)
    then show ?thesis by (cases mesh) (simp_all add: ofMesh_def)
  qed (simp add: ofMesh_def)
  have chromium: "subseq (map vol_Name (chromiumVolumes inst)) [''chromium-tmp'', ''chromium-shm'', ''chromium-data'']"
    by (simp add: chromiumVolumes_def Let_def)
  have ollama: "subseq (map vol_Name (ollamaVolumes pp inst)) [''ollama-models'']" by (simp add: ollamaVolumes_def Let_def)
  have ca: "subseq (map vol_Name (caVolumes inst)) [''ca-bundle'']" by (simp add: caVolumes_def split: option.splits)
  have "subseq ((map vct_Name (claimTemplates pp inst) @ map vol_Name (dataVolumes inst)) @ map vol_Name (configVolumes inst)
      @ map vol_Name (scratchVolumes inst) @ map vol_Name (ofMesh inst PodVolumes) @ map vol_Name (chromiumVolumes inst)
      @ map vol_Name (ollamaVolumes pp inst)
      @ (if wt_Enabled (spec_WebTerminal (oci_Spec inst)) then [''web-terminal-tmp''] else []) @ map vol_Name (caVolumes inst)) volumeOrder"
    unfolding volumeOrder_def using scratch
    by (intro subseq_segment data config mesh chromium ollama ca) simp_all
  then show ?thesis by (simp add: operatorVolumes_def if_distrib [of "map vol_Name"] cong: if_cong)
qed

lemma volumeOrder_distinct: "distinct volumeOrder"
  by (simp add: volumeOrder_def pluginScratchVolume_def)

text \<open>
  C16: the init containers the operator adds run in one order, whatever is switched on: the data
  volume changes hands first, the configuration is seeded next, the runtimes are installed before the
  skills and these before the plugins, and the browser is last; the init containers of the spec come
  after all of them. The names of the containers the operator builds differ from one another, and so
  do those of its volumes. (The names the spec gives to further containers and volumes are not covered:
  see \<open>reserved_names_incomplete\<close>.)
\<close>

theorem pod_order:
  assumes "BuildStatefulSet pp inst tok packs ext add = Ret sts"
  shows "(\<exists>own. pod_InitContainers (sts_PodSpec sts) = map Own own @ map Given (spec_InitContainers (oci_Spec inst))
        \<and> subseq (map con_Name own) initOrder)
    \<and> distinct (map con_Name (operatorContainers sts))
    \<and> distinct (map vct_Name (sts_VolumeClaimTemplates sts) @ map vol_Name (operatorVolumes pp inst))"
proof -
  have init: "subseq (map con_Name (ownInitContainers pp inst ext add packs)) initOrder"
  proof -
    have "subseq (map con_Name (ownInitContainers pp inst ext add packs))
      (setupOrder @ [''init-ollama''] @ [''chromium''])"
      unfolding ownInitContainers_def
      by (intro names_segment) (simp_all add: shareIdentity_fields(1) setup_names sidecar_names)
    then show ?thesis by (simp add: initOrder_def setupOrder_def)
  qed
  have main: "subseq (map con_Name (ownContainers pp inst tok)) mainOrder"
  proof -
    have mesh: "subseq (map con_Name (ofMesh inst (\<lambda>mesh. SidecarContainers mesh pp inst))) [''tailscale'', ''netbird'']"
    proof (cases "ActiveMeshProvider inst")
      case (Some mesh)
      then show ?thesis by (cases mesh) (simp_all add: ofMesh_def sidecar_names)
    qed (simp add: ofMesh_def)
    have "subseq (map con_Name ([buildMainContainer pp inst tok] @ tl (ownContainers pp inst tok)))
      ([''openclaw''] @ [''gateway-proxy''] @ [''tailscale'', ''netbird''] @ [''ollama''] @ [''web-terminal''] @ [''otel-collector''])"
      unfolding ownContainers_def list.sel by (intro names_segment mesh) (simp_all add: sidecar_names)
    then show ?thesis by (simp add: ownContainers_def mainOrder_def)
  qed
  have names: "subseq (map con_Name (operatorContainers sts)) (initOrder @ mainOrder)"
    unfolding built_fields(3) [OF assms] by (rule names_segment [OF init main])
  moreover have "distinct (initOrder @ mainOrder)" by (simp add: initOrder_def mainOrder_def DataOwnerInitContainerName_def)
  moreover have "distinct (map vct_Name (sts_VolumeClaimTemplates sts) @ map vol_Name (operatorVolumes pp inst))"
    unfolding built_fields(2) [OF assms] by (rule subseq_distinct [OF volume_order volumeOrder_distinct])
  moreover have "pod_InitContainers (sts_PodSpec sts)
      = map Own (ownInitContainers pp inst ext add packs) @ map Given (spec_InitContainers (oci_Spec inst))"
    by (simp add: built_fields(1) [OF assms] buildPodSpec_def buildInitContainers_def Let_def)
  ultimately show ?thesis using subseq_distinct init by blast
qed

theorem pod_order_witness:
  "\<exists>sts. BuildStatefulSet exampleParams examplePod ''token'' None [] [] = Ret sts
     \<and> distinct (map con_Name (operatorContainers sts))"
  using examplePod_built pod_order [of exampleParams examplePod "''token''" None "[]" "[]"] by blast

text \<open>
  The list of reserved names leaves out the init containers of uv, pip, the mesh provider and the
  browser sidecar: an instance whose spec adds an init container of the name init-uv is accepted, and its pod
  has two of that name.
\<close>

definition extraUv :: Container where
  "extraUv = \<lparr>con_Name = ''init-uv'', con_Image = ''busybox'', con_ImagePullPolicy = [], con_Command = [], con_Args = [],
     con_Env = [], con_VolumeMounts = [], con_Other = JNull\<rparr>"

definition twiceNamed :: OpenClawInstance where
  "twiceNamed = examplePod\<lparr>oci_Spec := (oci_Spec examplePod)\<lparr>spec_InitContainers := [extraUv]\<rparr>\<rparr>"

theorem reserved_names_incomplete:
  "accepts (ValidateCreate exampleEnv twiceNamed)
   \<and> (\<exists>sts c d. BuildStatefulSet exampleParams twiceNamed ''token'' None [] [] = Ret sts
      \<and> Own c \<in> set (pod_InitContainers (sts_PodSpec sts)) \<and> Given d \<in> set (pod_InitContainers (sts_PodSpec sts))
      \<and> con_Name c = con_Name d)"
proof
  have "validate exampleEnv twiceNamed = Inr (projr (validate exampleEnv twiceNamed))" by code_simp
  then show "accepts (ValidateCreate exampleEnv twiceNamed)" unfolding ValidateCreate_def accepts_def by blast
  have "cfg_Raw (spec_Config (oci_Spec twiceNamed)) = None"
    by (simp add: twiceNamed_def examplePod_def zero_OpenClawInstanceSpec_def zero_ConfigSpec_def)
  from built_without_raw [OF this] obtain sts where
    sts: "BuildStatefulSet exampleParams twiceNamed ''token'' None [] [] = Ret sts" by blast
  have "buildUvInitContainer twiceNamed \<in> set (setupContainers exampleParams twiceNamed [] [] None)"
    by (simp add: setupContainers_def Let_def)
  then have "''init-uv'' \<in> set (map con_Name (shareIdentity twiceNamed (setupContainers exampleParams twiceNamed [] [] None)))"
    unfolding shareIdentity_fields by (force simp: helper_names)
  then obtain c where "c \<in> set (shareIdentity twiceNamed (setupContainers exampleParams twiceNamed [] [] None))"
    "con_Name c = ''init-uv''"
    unfolding set_map by (elim imageE) simp
  then have "c \<in> set (ownInitContainers exampleParams twiceNamed [] [] None)" "con_Name c = ''init-uv''"
    by (simp_all add: ownInitContainers_def)
  moreover have "extraUv \<in> set (spec_InitContainers (oci_Spec twiceNamed))" "con_Name extraUv = ''init-uv''"
    by (simp_all add: twiceNamed_def extraUv_def)
  ultimately show "\<exists>sts c d. BuildStatefulSet exampleParams twiceNamed ''token'' None [] [] = Ret sts
      \<and> Own c \<in> set (pod_InitContainers (sts_PodSpec sts)) \<and> Given d \<in> set (pod_InitContainers (sts_PodSpec sts))
      \<and> con_Name c = con_Name d"
    using sts by (intro exI [of _ sts] exI [of _ c] exI [of _ extraUv])
      (simp add: built_fields(1) [OF sts] buildPodSpec_def buildInitContainers_def Let_def)
qed

section \<open>Identities\<close>

text \<open>The user of a helper before the identities are shared: none, the main container's, or root.\<close>

lemma helper_security:
  "pc_Security (buildDataOwnerInitContainer inst) =
     Some ((restricted True False (Some 0))\<lparr>sctx_Capabilities := chownOnly, sctx_RunAsGroup := Some 0\<rparr>)"
  "pc_Security (buildConfigInitContainer inst script) = Some (restricted (\<not> usesNode inst) (podRunAsNonRoot inst) None)"
  "pc_Security (buildUvInitContainer inst) = Some (restricted True True None)"
  "pc_Security (buildPipInitContainer inst) = Some (restricted True True None)"
  "pc_Security (buildPluginRuntimeDepsInitContainer inst) = Some (restricted True (podRunAsNonRoot inst) None)"
  "pc_Security (buildPnpmInitContainer inst) = Some (restricted False (podRunAsNonRoot inst) None)"
  "pc_Security (buildPythonInitContainer inst) = Some (restricted False (podRunAsNonRoot inst) None)"
  "pc_Security (buildPluginScratchInitContainer d) = pc_Security d"
  "pc_Security (buildTailscaleBinInitContainer inst) = Some (restricted True (podRunAsNonRoot inst) None)"
  by (simp_all add: helper_defs blankContainer_def split: prod.splits)

lemma optional_security:
  "buildSkillsInitContainer inst = Some c \<Longrightarrow> pc_Security c = Some (restricted False (podRunAsNonRoot inst) None)"
  "buildPluginsInitContainer pp inst = Some c \<Longrightarrow> pc_Security c =
     Some ((restricted (pluginInstallReadOnly inst) (podRunAsNonRoot inst)
       (sctx_RunAsUser (buildContainerSecurityContext inst)))\<lparr>sctx_Seccomp := []\<rparr>)"
  by (auto simp: buildSkillsInitContainer_def buildPluginsInitContainer_def Let_def split: if_split_asm)

lemma sidecar_security:
  "pc_Security (buildTailscaleContainer pp inst) = Some (restricted True (podRunAsNonRoot inst) None)"
  "pc_Security (buildNetBirdContainer pp inst) = Some (restricted True (podRunAsNonRoot inst) None)"
  "pc_Security (buildGatewayProxyContainer pp inst) = Some (restricted True True (Some 101))"
  "pc_Security (buildChromiumContainer pp inst) = Some (restricted False True (Some 65534))"
  "pc_Security (buildOllamaContainer pp inst) = Some (restricted False False (Some 0))"
  "pc_Security (buildOllamaModelPullInitContainer pp inst) = Some (restricted False False (Some 0))"
  "pc_Security (buildWebTerminalContainer pp inst) = Some (restricted False (podRunAsNonRoot inst) (Some 1000))"
  "pc_Security (buildOTelCollectorContainer pp inst) = Some (restricted True True None)"
  "pc_Security (buildMainContainer pp inst secret) = Some (withGroup (buildContainerSecurityContext inst) None)"
  by (simp_all add: buildTailscaleContainer_def buildNetBirdContainer_def buildGatewayProxyContainer_def
      buildChromiumContainer_def buildOllamaContainer_def buildOllamaModelPullInitContainer_def ollamaBase_def
      buildWebTerminalContainer_def buildOTelCollectorContainer_def buildMainContainer_def Let_def)

lemmas security_facts = helper_security optional_security sidecar_security

lemma setup_user:
  assumes "c \<in> set (setupContainers pp inst ext add packs)"
  shows "con_Name c = DataOwnerInitContainerName \<or> ownUser c = None
    \<or> ownUser c = sctx_RunAsUser (buildContainerSecurityContext inst)"
  using assms
proof (cases rule: setup_cases)
  case (3 mesh)
  then show ?thesis by (cases mesh) (simp_all add: ownUser_def security_facts restricted_def)
qed (auto simp: ownUser_def helper_names security_facts restricted_def)

lemma withIdentity_user:
  "ownUser (withIdentity sc c) = (if ownUser c = None \<and> writesData c then sctx_RunAsUser sc else ownUser c)"
  by (simp add: withIdentity_def ownUser_def)

lemma writes_mounts: "writesData c \<Longrightarrow> ''data'' \<in> mountNames c"
  by (force simp: writesData_def mountNames_def list_ex_iff)

lemma data_not_ca: "''data'' \<notin> vm_Name ` set (caMounts inst)"
  by (cases "sec_CABundle (spec_Security (oci_Spec inst))") (simp_all add: caMounts_def)

text \<open>The user a container runs as: its own, or that of the pod.\<close>

definition effectiveUser :: "PodSecurityContext \<Rightarrow> PodContainer \<Rightarrow> int option" where
  "effectiveUser psc c = (case ownUser c of Some u \<Rightarrow> Some u | None \<Rightarrow> pctx_RunAsUser psc)"

lemma dataOwner_user:
  "ownUser c = sctx_RunAsUser (buildContainerSecurityContext inst) \<Longrightarrow>
   effectiveUser (buildPodSecurityContext inst) c = Some (fst (dataOwner inst))"
  by (auto simp: effectiveUser_def dataOwner_def buildPodSecurityContext_def orElse_def derefOr_def Let_def split: option.splits)

text \<open>
  C14: every init container of the operator that writes the data volume runs as the user the main
  container runs as, whether the container security context names that user or leaves it to the pod. The
  one exception hands the volume over, and it does so to exactly that user.
\<close>

theorem data_writers_share_user:
  assumes "BuildStatefulSet pp inst tok packs ext add = Ret sts"
    and "c \<in> set (ownOf (pod_InitContainers (sts_PodSpec sts)))" "writesData c" "con_Name c \<noteq> DataOwnerInitContainerName"
  shows "effectiveUser (pod_SecurityContext (sts_PodSpec sts)) c = Some (fst (dataOwner inst))
    \<and> effectiveUser (pod_SecurityContext (sts_PodSpec sts)) (buildMainContainer pp inst tok) = Some (fst (dataOwner inst))"
proof -
  let ?u = "sctx_RunAsUser (buildContainerSecurityContext inst)"
  have psc: "pod_SecurityContext (sts_PodSpec sts) = buildPodSecurityContext inst"
    by (simp add: built_fields(1) [OF assms(1)] buildPodSpec_def Let_def)
  have "c \<in> set (ownInitContainers pp inst ext add packs)"
    using assms(2) by (simp add: built_fields(4) [OF assms(1)])
  then consider d where "d \<in> set (setupContainers pp inst ext add packs)"
      "c = (if ?u = None then d else withIdentity (buildContainerSecurityContext inst) d)"
    | "c = buildOllamaModelPullInitContainer pp inst" | "mountNames c = mountNames (buildChromiumContainer pp inst)"
    unfolding ownInitContainers_def shareIdentity_def by (auto simp: mountNames_def Let_def split: if_splits)
  then have "ownUser c = ?u"
  proof cases
    case (1 d)
    then have "writesData d" "con_Name d \<noteq> DataOwnerInitContainerName" using assms(3,4) by (simp_all add: writesData_def split: if_splits)
    then show ?thesis using setup_user [OF 1(1)] 1(2) by (auto simp: withIdentity_user)
  qed (use writes_mounts [OF assms(3)] in \<open>simp_all add: sidecar_mounts data_not_ca\<close>)
  moreover have "ownUser (buildMainContainer pp inst tok) = ?u"
    by (simp add: ownUser_def security_facts withGroup_def SecurityContext.defs)
  ultimately show ?thesis unfolding psc by (simp add: dataOwner_user)
qed

theorem data_writers_share_user_witness:
  "\<exists>sts c. BuildStatefulSet exampleParams examplePod ''token'' None [] [] = Ret sts
     \<and> c \<in> set (ownOf (pod_InitContainers (sts_PodSpec sts))) \<and> con_Name c = ''init-uv''
     \<and> effectiveUser (pod_SecurityContext (sts_PodSpec sts)) c = Some 2000"
proof -
  obtain sts where sts: "BuildStatefulSet exampleParams examplePod ''token'' None [] [] = Ret sts"
    using examplePod_built by blast
  have u: "sctx_RunAsUser (buildContainerSecurityContext examplePod) = Some 2000" by code_simp
  define c where "c = withIdentity (buildContainerSecurityContext examplePod) (buildUvInitContainer examplePod)"
  have "buildUvInitContainer examplePod \<in> set (setupContainers exampleParams examplePod [] [] None)"
    by (simp add: setupContainers_def Let_def)
  then have "c \<in> set (shareIdentity examplePod (setupContainers exampleParams examplePod [] [] None))"
    using u by (simp add: shareIdentity_def c_def)
  then have mem: "c \<in> set (ownOf (pod_InitContainers (sts_PodSpec sts)))"
    by (simp add: built_fields(4) [OF sts] ownInitContainers_def)
  have w: "writesData c" "con_Name c = ''init-uv''"
    by (simp_all add: c_def writesData_def helper_names) (simp add: buildUvInitContainer_def mnt_def)
  then have "con_Name c \<noteq> DataOwnerInitContainerName" by (simp add: DataOwnerInitContainerName_def)
  moreover have "fst (dataOwner examplePod) = 2000" using u by (simp add: dataOwner_def Let_def)
  ultimately show ?thesis using data_writers_share_user [OF sts mem w(1)] sts mem w(2) by metis
qed

text \<open>
  The web terminal is the exception among the long-running containers: it mounts the data volume and
  runs as UID 1000 whatever the main container runs as, although the code says they are the same.
\<close>

theorem web_terminal_other_user:
  "ownUser (buildMainContainer exampleParams examplePod secret) = Some 2000
   \<and> ownUser (buildWebTerminalContainer exampleParams examplePod) = Some 1000
   \<and> writesData (buildWebTerminalContainer exampleParams examplePod)"
proof -
  have "sctx_RunAsUser (buildContainerSecurityContext examplePod) = Some 2000" by code_simp
  moreover have "\<not> wt_ReadOnly (spec_WebTerminal (oci_Spec examplePod))" by code_simp
  ultimately show ?thesis
    by (simp add: ownUser_def security_facts withGroup_def SecurityContext.defs restricted_def writesData_def
        buildWebTerminalContainer_def mnt_def Let_def)
qed

section \<open>Root\<close>

text \<open>The kubelet's refusal to run as root what must not.\<close>

definition mustNotBeRoot :: "PodSecurityContext \<Rightarrow> PodContainer \<Rightarrow> bool" where
  "mustNotBeRoot psc c =
     (case (case pc_Security c of None \<Rightarrow> None | Some s \<Rightarrow> sctx_RunAsNonRoot s) of
        Some b \<Rightarrow> b | None \<Rightarrow> pctx_RunAsNonRoot psc = Some True)"

definition refused :: "PodSecurityContext \<Rightarrow> PodContainer \<Rightarrow> bool" where
  "refused psc c \<longleftrightarrow> mustNotBeRoot psc c \<and> effectiveUser psc c = Some 0"

definition rootNames :: "string list" where
  "rootNames = [DataOwnerInitContainerName, ''ollama'', ''init-ollama'']"

text \<open>The spec asks for root: the user its container security context gives to the main container.\<close>

definition asksForRoot :: "OpenClawInstance \<Rightarrow> bool" where
  "asksForRoot inst \<longleftrightarrow> sctx_RunAsUser (buildContainerSecurityContext inst) = Some 0"

text \<open>No escalation, and root only if it is asked for, or under a name of the list and without a promise not to be root.\<close>

definition tame :: "bool \<Rightarrow> PodContainer \<Rightarrow> bool" where
  "tame asked c \<longleftrightarrow> (\<exists>s. pc_Security c = Some s \<and> sctx_AllowPrivilegeEscalation s = Some False
     \<and> (sctx_RunAsUser s = Some 0 \<longrightarrow> asked \<or> con_Name c \<in> set rootNames \<and> sctx_RunAsNonRoot s = Some False))"

lemma tame_restricted: "pc_Security c = Some (restricted ro nr u) \<Longrightarrow> u \<noteq> Some 0 \<or> asked \<Longrightarrow> tame asked c"
  by (auto simp: tame_def restricted_def)

lemma tame_setup:
  assumes "c \<in> set (setupContainers pp inst ext add packs)"
  shows "tame (asksForRoot inst) c"
  using assms
proof (cases rule: setup_cases)
  case 1
  then show ?thesis by (simp add: tame_def security_facts restricted_def rootNames_def helper_names)
next
  case (3 mesh)
  then show ?thesis by (cases mesh) (auto intro: tame_restricted simp: security_facts)
qed (auto simp: tame_def security_facts restricted_def asksForRoot_def)

lemma tame_identity: "tame asked c \<Longrightarrow> sctx_RunAsUser sc = Some 0 \<longrightarrow> asked \<Longrightarrow> tame asked (withIdentity sc c)"
  by (auto simp: tame_def withIdentity_def derefOr_def)

lemma tame_containers:
  assumes "c \<in> set (ownInitContainers pp inst ext add packs @ ownContainers pp inst secret)" "c \<noteq> buildMainContainer pp inst secret"
  shows "tame (asksForRoot inst) c"
proof -
  have "tame (asksForRoot inst) c" if "c \<in> set (ownInitContainers pp inst ext add packs)"
  proof -
    have sh: "tame (asksForRoot inst) d" if "d \<in> set (shareIdentity inst (setupContainers pp inst ext add packs))" for d
      using that tame_setup [of _ pp inst ext add packs]
        tame_identity [of "asksForRoot inst" _ "buildContainerSecurityContext inst"]
      by (auto simp: shareIdentity_def Let_def asksForRoot_def [symmetric] split: if_splits)
    have "tame (asksForRoot inst) (buildOllamaModelPullInitContainer pp inst)"
      "tame (asksForRoot inst) ((buildChromiumContainer pp inst)\<lparr>pc_RestartPolicy := p\<rparr>)" for p
      by (simp_all add: tame_def security_facts sidecar_names restricted_def rootNames_def)
    with sh that show ?thesis unfolding ownInitContainers_def set_append Un_iff set_if by blast
  qed
  moreover have "tame (asksForRoot inst) c" if "c \<in> set (ownContainers pp inst secret)"
    using that
  proof (cases rule: main_cases)
    case (3 mesh)
    then show ?thesis by (cases mesh) (auto intro: tame_restricted simp: security_facts)
  qed (use assms(2) in \<open>simp_all add: tame_def security_facts sidecar_names restricted_def rootNames_def\<close>)
  ultimately show ?thesis using assms(1) by auto
qed

text \<open>
  C12: among the containers the operator builds for an accepted instance, root is the user of the one
  that hands over the data volume and of Ollama's two and of no other, unless the spec asks for it by
  containerSecurityContext.runAsUser 0 (which the webhook accepts, see \<open>container_root_admitted\<close>); if it
  does not, no container is refused by the kubelet for running as root. In either case only the main
  container, which follows the spec, can be allowed to gain privileges.
\<close>

theorem root_is_confined:
  assumes "accepts (ValidateCreate x inst)" "BuildStatefulSet pp inst tok packs ext add = Ret sts" "c \<in> set (operatorContainers sts)"
  shows "(effectiveUser (pod_SecurityContext (sts_PodSpec sts)) c = Some 0 \<longrightarrow> con_Name c \<in> set rootNames \<or> asksForRoot inst)
    \<and> (refused (pod_SecurityContext (sts_PodSpec sts)) c \<longrightarrow> asksForRoot inst)
    \<and> (con_Name c \<noteq> ''openclaw'' \<longrightarrow> (\<exists>s. pc_Security c = Some s \<and> sctx_AllowPrivilegeEscalation s = Some False))"
proof -
  define psc where "psc = buildPodSecurityContext inst"
  have psc: "pod_SecurityContext (sts_PodSpec sts) = psc"
    by (simp add: built_fields(1) [OF assms(2)] buildPodSpec_def psc_def Let_def)
  have user: "pctx_RunAsUser psc \<noteq> Some 0"
    using validate_accepts(1) [of x inst] assms(1)
    by (auto simp: ValidateCreate_def checkRoot_def psc_def buildPodSecurityContext_def orElse_def derefOr_def split: option.splits)
  have c: "c \<in> set (ownInitContainers pp inst ext add packs @ ownContainers pp inst tok)"
    using assms(3) built_fields(3) [OF assms(2)] by simp
  show ?thesis
  proof (cases "c = buildMainContainer pp inst tok")
    case True
    then have "ownUser c = sctx_RunAsUser (buildContainerSecurityContext inst)"
      by (simp add: ownUser_def security_facts withGroup_def SecurityContext.defs)
    then show ?thesis using True user psc
      by (auto simp: effectiveUser_def refused_def sidecar_names asksForRoot_def split: option.splits)
  next
    case False
    have "tame (asksForRoot inst) c" by (rule tame_containers [OF c False])
    then show ?thesis using user psc
      by (auto simp: tame_def effectiveUser_def refused_def mustNotBeRoot_def ownUser_def split: option.splits)
  qed
qed

theorem root_is_confined_witness:
  "\<exists>sts. BuildStatefulSet exampleParams examplePod ''token'' None [] [] = Ret sts
     \<and> \<not> refused (pod_SecurityContext (sts_PodSpec sts)) (buildMainContainer exampleParams examplePod ''token'')"
proof -
  obtain sts where sts: "BuildStatefulSet exampleParams examplePod ''token'' None [] [] = Ret sts"
    using examplePod_built by blast
  have u: "\<not> asksForRoot examplePod" by code_simp
  have "buildMainContainer exampleParams examplePod ''token'' \<in> set (operatorContainers sts)"
    by (simp add: built_fields(3) [OF sts] ownContainers_def)
  with root_is_confined [OF examplePod_accepted sts] sts u show ?thesis by blast
qed

section \<open>The install scripts\<close>

text \<open>The source a plugin entry names: npm if it says so, else ClawHub.\<close>

definition pluginSource :: "string \<Rightarrow> string" where
  "pluginSource entry = (if hasPrefix entry ''npm:'' then entry else ''clawhub:'' @ entry)"

lemma parsePluginEntry_reads:
  "readsAs (parsePluginEntry entry)
     [Word ''openclaw'', Word ''plugins'', Word ''install'', Word ''--force'', Word (pluginSource entry)]"
proof (cases "cutPrefix entry ''npm:''")
  case None
  then have "pluginSource entry = ''clawhub:'' @ entry" by (simp add: pluginSource_def cutPrefix_def hasPrefix_def split: if_splits)
  then show ?thesis using None plugin_line [of "''clawhub:'' @ entry"] by (simp add: parsePluginEntry_def)
next
  case (Some pkg)
  then have e: "entry = ''npm:'' @ pkg" by (simp only: cutPrefix_Some)
  then have "pluginSource entry = ''npm:'' @ pkg" by (simp add: pluginSource_def hasPrefix_def)
  then show ?thesis using Some plugin_line [of "''npm:'' @ pkg"] by (simp add: parsePluginEntry_def)
qed

text \<open>
  C15: the script that installs the plugins is read by a shell as exactly the commands it stands for:
  stop at the first failure, make the directory, and one installation per entry, in order, whose last
  argument is the entry's source - whatever bytes the entry is made of. No entry adds a command, an
  argument or an expansion.
\<close>

theorem plugin_script_commands:
  assumes "spec_Plugins (oci_Spec inst) \<noteq> []"
  shows "shellCommands (BuildPluginsScript inst) = Some
    ([[Word ''set'', Word ''-e''], [Word ''mkdir'', Word ''-p'', Word ''/home/openclaw/.openclaw/extensions'']]
     @ map (\<lambda>entry. [Word ''openclaw'', Word ''plugins'', Word ''install'', Word ''--force'', Word (pluginSource entry)])
         (sort (spec_Plugins (oci_Spec inst))))"
proof -
  have "list_all2 readsAs [''set -e'', ''mkdir -p /home/openclaw/.openclaw/extensions'']
      [[Word ''set'', Word ''-e''], [Word ''mkdir'', Word ''-p'', Word ''/home/openclaw/.openclaw/extensions'']]"
    by (simp add: readsAs_def token_simps)
  from shellCommands_map [OF this parsePluginEntry_reads] assms show ?thesis
    by (simp add: BuildPluginsScript_def Let_def)
qed

theorem plugin_script_commands_witness:
  "shellCommands (BuildPluginsScript (zero_OpenClawInstance\<lparr>oci_Spec := zero_OpenClawInstanceSpec\<lparr>
       spec_Plugins := [''it's; rm -rf /'']\<rparr>\<rparr>))
   = Some [[Word ''set'', Word ''-e''], [Word ''mkdir'', Word ''-p'', Word ''/home/openclaw/.openclaw/extensions''],
       [Word ''openclaw'', Word ''plugins'', Word ''install'', Word ''--force'', Word ''clawhub:it's; rm -rf /'']]"
  by (subst plugin_script_commands) (simp_all add: pluginSource_def hasPrefix_def)

text \<open>
  The readiness script quotes the path of the spec by hand: a path with a quote ends the quotation and
  the rest is read as commands.
\<close>

theorem disk_path_breaks_out:
  "shellCommands (diskPathLine (''/data'' @ squote @ ''; id; '' @ squote)) =
     Some [[Word ''p=/data'', Op (CHR '';''), Word ''id'', Op (CHR '';''), Word []]]"
  by (simp add: shellCommands_def diskPathLine_def squote_def token_simps)

section \<open>The defaults of the API server\<close>

lemma normEnvVar_idem [simp]: "normEnvVar (normEnvVar e) = normEnvVar e"
  by (auto simp: normEnvVar_def update_conv' split: option.splits json.splits if_splits)

lemma update_triv: "map_of m k = Some v \<Longrightarrow> AList.update k v m = m"
  by (induction m) (auto split: if_splits)

lemma map_of_fillIn [simp]:
  "map_of (fillIn k d m) k' = (if k' = k \<and> isZero (map_of m k) then Some d else map_of m k')"
  by (simp add: fillIn_def update_conv')

lemma map_of_onMap [simp]:
  "map_of (onMap k f m) k' =
     (if k' = k then (case asMap (map_of m k) of None \<Rightarrow> map_of m k | Some v \<Rightarrow> Some (JObj (f v))) else map_of m k')"
  by (auto simp: onMap_def update_conv' split: option.splits)

lemma fillIn_fixed: "\<not> isZero (map_of m k) \<Longrightarrow> fillIn k d m = m"
  by (simp add: fillIn_def)

lemma onMap_fixed:
  assumes "\<And>v. map_of m k = Some (JObj v) \<Longrightarrow> f v = v" shows "onMap k f m = m"
proof (cases "asMap (map_of m k)")
  case (Some v)
  then have "map_of m k = Some (JObj v)" by (cases "map_of m k" rule: asMap.cases) simp_all
  then show ?thesis using assms Some by (simp add: onMap_def update_triv)
qed (simp add: onMap_def)

text \<open>What was filled in once needs no filling in, so normalising twice changes nothing more.\<close>

lemma nonzero [simp]:
  "\<not> isZero (Some jsonOne)" "\<not> isZero (Some jsonThree)" "\<not> isZero (Some jsonTen)"
  "isZero (Some (JStr s)) \<longleftrightarrow> s = []" "\<not> isZero (Some (JObj v))"
  by (auto simp: isZero_def jsonOne_def jsonThree_def jsonTen_def)

lemma fill_stays:
  "\<not> isZero (Some d) \<Longrightarrow> \<not> isZero (map_of (fillIn k d m) k)"
  "\<not> isZero (map_of m k) \<Longrightarrow> \<not> isZero (map_of (fillIn k' d m) k)"
  "\<not> isZero (map_of m k) \<Longrightarrow> \<not> isZero (map_of (onMap k' f m) k)"
  by (auto split: option.splits)

lemma normProbeJSON_idem: "normProbeJSON (normProbeJSON p) = normProbeJSON p"
proof -
  define q where "q = normProbeJSON p"
  have "\<not> isZero (map_of q ''timeoutSeconds'')" "\<not> isZero (map_of q ''periodSeconds'')"
    "\<not> isZero (map_of q ''successThreshold'')" "\<not> isZero (map_of q ''failureThreshold'')"
    unfolding q_def normProbeJSON_def by (intro fill_stays(2,3) fill_stays(1) nonzero)+
  moreover have "fillIn ''scheme'' (JStr URISchemeHTTP) v = v" if "map_of q ''httpGet'' = Some (JObj v)" for v
    using that unfolding q_def normProbeJSON_def
    by (auto simp: fillIn_fixed URISchemeHTTP_def split: option.splits if_splits)
  ultimately show ?thesis unfolding q_def [symmetric] by (simp add: normProbeJSON_def [of q] fillIn_fixed onMap_fixed)
qed

lemma normFields_idem: "normFields (normFields m) = normFields m"
proof -
  define q where "q = normFields m"
  have "\<not> isZero (map_of q ''terminationMessagePath'')" "\<not> isZero (map_of q ''terminationMessagePolicy'')"
    unfolding q_def normFields_def
    by (intro fill_stays(2,3) fill_stays(1); simp add: TerminationMessagePathDefault_def TerminationMessageReadFile_def)+
  moreover have "normProbeJSON v = v"
    if "map_of q k = Some (JObj v)" "k \<in> {''livenessProbe'', ''readinessProbe'', ''startupProbe''}" for k v
    using that unfolding q_def normFields_def
    by (auto simp: normProbeJSON_idem split: option.splits if_splits)
  ultimately show ?thesis unfolding q_def [symmetric] by (simp add: normFields_def [of q] fillIn_fixed onMap_fixed)
qed

lemma normPullPolicy_idem [simp]: "normPullPolicy img (normPullPolicy img p) = normPullPolicy img p"
  by (simp add: normPullPolicy_def PullAlways_def PullIfNotPresent_def)

lemma normHandler_idem [simp]: "normHandler (normHandler h) = normHandler h"
  by (cases h) (simp_all add: strOr_def)

lemma normalizeProbe_idem [simp]: "normalizeProbe (normalizeProbe p) = normalizeProbe p"
  by (simp add: normalizeProbe_def orInt_def)

lemma normalizeContainer_idem: "normalizeContainer (normalizeContainer c) = normalizeContainer c"
  by (cases c)
    (simp_all add: normOwn_def normGiven_def normFields_idem strOr_def option.map_comp comp_def cong: option.map_cong)

text \<open>
  Filling in the defaults of the API server twice is filling them in once.
\<close>

theorem normalize_idempotent: "NormalizeStatefulSet (NormalizeStatefulSet s) = NormalizeStatefulSet s"
proof -
  have pod: "normPodSpec (normPodSpec t) = normPodSpec t" for t
    by (simp add: normPodSpec_def comp_def normalizeContainer_idem)
  have tmpl: "normTemplate (normTemplate v) = normTemplate v" for v
    by (simp add: normTemplate_def orElse_def derefOr_def)
  show ?thesis by (simp add: NormalizeStatefulSet_def pod tmpl comp_def)
qed

end
