(* ===== verification/SteadyState.thy ===== *)
theory SteadyState
  imports Controller
begin

text \<open>
  Level-triggered reconciliation: the steps of the controller that write one object bring it to a
  state that they then leave alone. The interface is the locale \<open>object_store\<close>: what
  \<^verbatim>\<open>controllerutil.CreateOrUpdate\<close>, \<^verbatim>\<open>Delete\<close> and
  \<^verbatim>\<open>SetControllerReference\<close> promise about the objects a cluster holds. The API server does not store
  what it is sent: its admission (\<open>admit\<close>) fills in fields that were left open, and it keeps metadata of
  its own. So a step settles only if it leaves nothing open (\<open>complete\<close>). That is shown for the service
  account, role, role binding, network policy, ConfigMaps, disruption budget and autoscaler; the step of
  the Service is shown not to settle. The StatefulSet is left out, because whether
  \<^verbatim>\<open>NormalizeStatefulSet\<close> fills in all the API server would depends on that server's version.
\<close>

section \<open>Merging maps twice\<close>

lemma update_present: "map_of m k = Some v \<Longrightarrow> AList.update k v m = m"
  by (induction m) (auto split: if_splits)

lemma update_swap_present:
  "k \<noteq> k' \<Longrightarrow> k' \<in> fst ` set m \<Longrightarrow> AList.update k' v' (AList.update k v m) = AList.update k v (AList.update k' v' m)"
  by (induction m) auto

lemma overlay_snoc: "overlay m (d @ [(k, v)]) = AList.update k v (overlay m d)"
  by (simp add: overlay_def)

lemma keys_overlay: "fst ` set (overlay m d) = fst ` set m \<union> fst ` set d"
proof (induction d rule: rev_induct)
  case (snoc e d)
  then show ?case by (cases e) (simp add: overlay_snoc dom_update)
qed (simp add: overlay_def)

lemma update_overlay:
  "fst ` set d \<subseteq> fst ` set m \<Longrightarrow> AList.update k v (overlay (AList.update k v m) d) = AList.update k v (overlay m d)"
proof (induction d rule: rev_induct)
  case (snoc e d)
  obtain k' v' where e: "e = (k', v')" by (cases e)
  show ?case
  proof (cases "k' = k")
    case False
    have "k' \<in> fst ` set (overlay m d)" "k' \<in> fst ` set (overlay (AList.update k v m) d)"
      using snoc.prems by (auto simp: e keys_overlay dom_update)
    then have "AList.update k v (AList.update k' v' (overlay (AList.update k v m) d))
        = AList.update k' v' (AList.update k v (overlay (AList.update k v m) d))"
      "AList.update k v (AList.update k' v' (overlay m d)) = AList.update k' v' (AList.update k v (overlay m d))"
      using False by (simp_all add: update_swap_present)
    with snoc show ?thesis by (simp add: e overlay_snoc)
  qed (use snoc in \<open>simp add: e overlay_snoc\<close>)
qed (simp add: overlay_def)

lemma overlay_idem [simp]: "overlay (overlay m d) d = overlay m d"
proof (induction d arbitrary: m rule: rev_induct)
  case (snoc e d)
  obtain k v where e: "e = (k, v)" by (cases e)
  have "AList.update k v (overlay (AList.update k v (overlay m d)) d) = AList.update k v (overlay (overlay m d) d)"
    by (rule update_overlay) (auto simp: keys_overlay)
  with snoc show ?case by (simp add: e overlay_snoc)
qed (simp add: overlay_def)

section \<open>Objects that leave nothing to the API server\<close>

fun completeEgress :: "NetworkPolicyEgressRule \<Rightarrow> bool" where
  "completeEgress (EgressRule peers ports) = list_all (\<lambda>p. npp_Protocol p \<noteq> []) ports"
| "completeEgress (UserEgress j) = False"

definition completePolicy :: "NetworkPolicy \<Rightarrow> bool" where
  "completePolicy np \<longleftrightarrow> netpol_PolicyTypes np \<noteq> []
     \<and> list_all (\<lambda>r. list_all (\<lambda>p. npp_Protocol p \<noteq> []) (nir_Ports r)) (netpol_Ingress np)
     \<and> list_all completeEgress (netpol_Egress np)"

text \<open>
  Every field the API server has a default for is set: the policy types and the protocols of a network
  policy, the lower bound and the metrics of an autoscaler; the first five kinds have none. Nothing is said
  of the kinds with more defaults, nor of rules the user wrote.
\<close>

fun complete :: "body \<Rightarrow> bool" where
  "complete (ServiceAccountBody a) = True"
| "complete (RoleBody rs) = True"
| "complete (RoleBindingBody k n ss) = True"
| "complete (ConfigMapBody d) = True"
| "complete (PDBBody b) = True"
| "complete (NetworkPolicyBody np) = completePolicy np"
| "complete (HPABody h) = (hpa_MinReplicas h \<noteq> None \<and> hpa_Metrics h \<noteq> [])"
| "complete b = False"

definition noUserEgress :: "OpenClawInstance \<Rightarrow> bool" where
  "noUserEgress i \<longleftrightarrow> np_AdditionalEgress (sec_NetworkPolicy (spec_Security (oci_Spec i))) = []"

lemma protocol_set: "npp_Protocol (tcp p) \<noteq> []" "npp_Protocol (udp p) \<noteq> []"
  by (simp_all add: tcp_def udp_def protocol_defs)

lemma mesh_complete: "list_all completeEgress (MeshEgressRules i)"
proof (cases "ActiveMeshProvider i")
  case (Some mesh)
  then show ?thesis by (cases mesh) (simp_all add: MeshEgressRules_def protocol_set)
qed (simp add: MeshEgressRules_def)

lemma policy_complete: "noUserEgress i \<Longrightarrow> complete (NetworkPolicyBody (BuildNetworkPolicy i))"
proof -
  assume "noUserEgress i"
  then have "list_all completeEgress (buildEgressRules i)"
    using mesh_complete [of i, unfolded list_all_iff]
    by (auto simp: buildEgressRules_def noUserEgress_def protocol_set list_all_iff Let_def)
  moreover have "list_all (\<lambda>p. npp_Protocol p \<noteq> []) (networkPolicyIngressPorts i)"
    by (auto simp: networkPolicyIngressPorts_def protocol_set list_all_iff strOr_def ProtocolTCP_def Let_def)
  then have "list_all (\<lambda>r. list_all (\<lambda>p. npp_Protocol p \<noteq> []) (nir_Ports r)) (buildIngressRules i)"
    by (auto simp: buildIngressRules_def buildMetricsIngressRules_def protocol_set list_all_iff Let_def)
  ultimately show ?thesis by (simp add: completePolicy_def BuildNetworkPolicy_def)
qed

lemma hpa_complete: "BuildHPA i = Ret h \<Longrightarrow> complete (HPABody h)"
  by (auto simp: BuildHPA_def split: option.splits)

section \<open>Mutate functions that reach a fixed point\<close>

text \<open>The metadata the operator sets; identity, generation and bookkeeping belong to the server.\<close>

definition sameMeta :: "ObjectMeta \<Rightarrow> ObjectMeta \<Rightarrow> bool" where
  "sameMeta m m' \<longleftrightarrow> om_Name m' = om_Name m \<and> om_Namespace m' = om_Namespace m \<and> om_Labels m' = om_Labels m
     \<and> om_Annotations m' = om_Annotations m \<and> om_OwnerReferences m' = om_OwnerReferences m"

lemma sameMeta_refl [simp]: "sameMeta m m" by (simp add: sameMeta_def)

definition sameObject :: "kobj \<Rightarrow> kobj \<Rightarrow> bool" where
  "sameObject k k' \<longleftrightarrow> ko_Body k' = ko_Body k \<and> sameMeta (ko_Meta k) (ko_Meta k')"

text \<open>What a mutate function makes is complete, and it leaves an object that agrees with it as it is.\<close>

definition settling :: "(kobj \<Rightarrow> 'e + kobj) \<Rightarrow> bool" where
  "settling f \<longleftrightarrow> (\<forall>k k'. f k = Inr k' \<longrightarrow> complete (ko_Body k') \<and> (\<forall>k''. sameObject k' k'' \<longrightarrow> f k'' = Inr k''))"

text \<open>Nothing but the server's own metadata has changed.\<close>

definition undisturbed ::
    "(objkind \<Rightarrow> string \<Rightarrow> string \<Rightarrow> kobj option) \<Rightarrow> (objkind \<Rightarrow> string \<Rightarrow> string \<Rightarrow> kobj option) \<Rightarrow> bool"
  where
  "undisturbed s s' \<longleftrightarrow> (\<forall>kind n ns. rel_option sameObject (s kind n ns) (s' kind n ns))"

text \<open>The object \<^verbatim>\<open>CreateOrUpdate\<close> starts from when there is none.\<close>

definition blankObj :: "string \<Rightarrow> string \<Rightarrow> kobj" where
  "blankObj n ns = \<lparr>ko_Meta = zero_ObjectMeta\<lparr>om_Name := n, om_Namespace := ns\<rparr>, ko_Body = NoBody\<rparr>"

lemma same_object:
  "ko_Body k = b \<Longrightarrow> withBody b k = k"
  "mergeStringMap (om_Labels (ko_Meta k)) d = om_Labels (ko_Meta k) \<Longrightarrow> withLabels d k = k"
  "mergeStringMap (om_Annotations (ko_Meta k)) d = om_Annotations (ko_Meta k) \<Longrightarrow> withAnnotations d k = k"
  by (auto simp: withBody_def withLabels_def withAnnotations_def)

lemma parts_kept [simp]:
  "ko_Body (withBody b k) = b" "ko_Meta (withBody b k) = ko_Meta k" "ko_Body (withLabels d k) = ko_Body k"
  "ko_Body (withAnnotations d k) = ko_Body k"
  "om_Labels (ko_Meta (withLabels d k)) = mergeStringMap (om_Labels (ko_Meta k)) d"
  "om_Annotations (ko_Meta (withLabels d k)) = om_Annotations (ko_Meta k)"
  "om_Annotations (ko_Meta (withAnnotations d k)) = mergeStringMap (om_Annotations (ko_Meta k)) d"
  "om_Labels (ko_Meta (withAnnotations d k)) = om_Labels (ko_Meta k)"
  by (simp_all add: withBody_def withLabels_def withAnnotations_def)

lemma mergeStringMap_idem [simp]: "mergeStringMap (mergeStringMap m d) d = mergeStringMap m d"
  by (simp add: mergeStringMap_def)

lemmas status_defs = updMR_def readyCondition_def observedCondition_def setCondition_def removeCondition_def doneStep_def

locale object_store =
  fixes c :: "'s Cluster" and look :: "'s \<Rightarrow> objkind \<Rightarrow> string \<Rightarrow> string \<Rightarrow> kobj option" and admit :: "body \<Rightarrow> body"
  assumes unchanged: "look s kind n ns = Some k \<Longrightarrow> f k = Inr k \<Longrightarrow> run_state (ob_CreateOrUpdate c kind n ns f) s = (Inr k, s)"
    and written: "run_state (ob_CreateOrUpdate c kind n ns f) s = (Inr k, s') \<Longrightarrow>
      look s' kind n ns = Some k \<and> (\<exists>d. f (derefOr (blankObj n ns) (look s kind n ns)) = Inr d
        \<and> ko_Body k \<in> {ko_Body d, admit (ko_Body d)} \<and> sameMeta (ko_Meta d) (ko_Meta k))"
    and fills: "complete b \<Longrightarrow> admit b = b"
    and absent: "look s kind n ns = None \<Longrightarrow>
      \<exists>e. run_state (ob_Delete c kind n ns) s = (Some e, s) \<and> isNotFound e"
    and deleted: "run_state (ob_Delete c kind n ns) s = (x, s') \<Longrightarrow> x = None \<or> (\<exists>e. x = Some e \<and> isNotFound e) \<Longrightarrow>
      look s' kind n ns = None"
    and adopts: "rc_SetControllerReference (ob_Rec c) inst m = Inr m' \<Longrightarrow>
      om_Labels m' = om_Labels m \<and> om_Annotations m' = om_Annotations m
      \<and> (\<forall>m''. sameMeta m' m'' \<longrightarrow> rc_SetControllerReference (ob_Rec c) inst m'' = Inr m'')"
begin

lemma settling_adopted:
  assumes "\<And>k. complete (ko_Body (g k))"
    and "\<And>k k'. ko_Body k' = ko_Body (g k) \<Longrightarrow> om_Labels (ko_Meta k') = om_Labels (ko_Meta (g k)) \<Longrightarrow>
      om_Annotations (ko_Meta k') = om_Annotations (ko_Meta (g k)) \<Longrightarrow> g k' = k'"
  shows "settling (\<lambda>k. adopted c i (g k))"
  unfolding settling_def
proof (intro allI impI)
  fix k k1 assume "adopted c i (g k) = Inr k1"
  then obtain m where m: "rc_SetControllerReference (ob_Rec c) i (ko_Meta (g k)) = Inr m" and k1: "k1 = (g k)\<lparr>ko_Meta := m\<rparr>"
    by (auto simp: adopted_def split: sum.splits)
  have "adopted c i (g k') = Inr k'" if "sameObject k1 k'" for k'
  proof -
    have k': "ko_Body k' = ko_Body (g k)" "sameMeta m (ko_Meta k')" using that by (simp_all add: k1 sameObject_def)
    then have "g k' = k'" using adopts [OF m] by (intro assms(2)) (simp_all add: sameMeta_def)
    then show ?thesis using adopts [OF m] k'(2) by (simp add: adopted_def)
  qed
  then show "complete (ko_Body k1) \<and> (\<forall>k'. sameObject k1 k' \<longrightarrow> adopted c i (g k') = Inr k')"
    using assms(1) [of k] by (simp add: k1)
qed

text \<open>
  A step settles when a run that ends without an error is followed, from the same instance and with
  the objects as that run left them, by one that ends without an error and changes nothing.
\<close>

definition settlesAt :: "OpenClawInstance \<Rightarrow> 's step \<Rightarrow> bool" where
  "settlesAt i m \<longleftrightarrow>
     (\<forall>h h1 h2. cur h = i \<longrightarrow> run_state m h = (None, h1) \<longrightarrow> cur h2 = i \<longrightarrow> undisturbed (look (srv h1)) (look (srv h2)) \<longrightarrow>
        wp m (\<lambda>a h3. a = None \<and> srv h3 = srv h2) h2)"

definition quiet :: "'s step \<Rightarrow> bool" where
  "quiet m \<longleftrightarrow> (\<forall>h. wp m (\<lambda>a h'. a = None \<and> srv h' = srv h) h)"

lemma quietI: "(\<And>h. wp m (\<lambda>a h'. a = None \<and> srv h' = srv h) h) \<Longrightarrow> quiet m"
  by (simp add: quiet_def)

lemma quiet_run: "quiet m \<Longrightarrow> run_state m h = (a, h1) \<Longrightarrow> a = None \<and> srv h1 = srv h"
  by (auto simp: quiet_def dest: wp_run)

lemma quiet_wp: "quiet m \<Longrightarrow> srv h = s \<Longrightarrow> wp m (\<lambda>a h'. a = None \<and> srv h' = s) h"
  by (auto simp: quiet_def)

lemma settles_getInst: "settlesAt i (m i) \<Longrightarrow> settlesAt i (State_Monad.bind getInst m)"
  by (auto simp: settlesAt_def getInst_def wp_def)

lemma settles_quiet: "quiet m \<Longrightarrow> settlesAt i m"
  by (simp add: settlesAt_def quiet_def)

lemma settles_done: "settlesAt i doneStep"
  by (intro settles_quiet) (auto simp: doneStep_def intro!: quietI wp_rules)

lemma settles_panic: "settlesAt i (ret (Some x))"
  by (simp add: settlesAt_def)

lemma settles_if: "(b \<Longrightarrow> settlesAt i m) \<Longrightarrow> (\<not> b \<Longrightarrow> settlesAt i m') \<Longrightarrow> settlesAt i (if b then m else m')"
  by simp

lemma settles_applyThen:
  assumes f: "settling (f i)" and cont: "\<And>k. quiet (cont k)"
  shows "settlesAt i (applyThen c kind n f cont)"
  unfolding applyThen_def
proof (rule settles_getInst)
  let ?ns = "onamespace i"
  let ?m = "do { res \<leftarrow> applyObj c kind n ?ns (f i); (case res of Inl e \<Rightarrow> failStep e | Inr k \<Rightarrow> cont k) }"
  show "settlesAt i ?m"
    unfolding settlesAt_def
  proof (intro allI impI)
    fix h h1 h2 :: "'s hctx"
    assume run: "run_state ?m h = (None, h1)" and same: "undisturbed (look (srv h1)) (look (srv h2))"
    obtain r s where r: "run_state (ob_CreateOrUpdate c kind n ?ns (f i)) (srv h) = (r, s)" by fastforce
    with run obtain k where k: "r = Inr k"
      by (cases r) (auto simp: applyObj_def api_def failStep_def split: prod.splits)
    let ?h = "h\<lparr>srv := s, calls := calls h @ [applyEntry kind n ?ns (Inr k)]\<rparr>"
    from run r k have "run_state (cont k) ?h = (None, h1)" by (simp add: applyObj_def api_def)
    then have s: "srv h1 = s" using quiet_run [OF cont] by fastforce
    from written [OF r [unfolded k]] obtain d where d: "look s kind n ?ns = Some k"
      "f i (derefOr (blankObj n ?ns) (look (srv h) kind n ?ns)) = Inr d"
      "ko_Body k \<in> {ko_Body d, admit (ko_Body d)}" "sameMeta (ko_Meta d) (ko_Meta k)" by blast
    have fixed: "complete (ko_Body d)" "sameObject d k' \<Longrightarrow> f i k' = Inr k'" for k'
      using f d(2) unfolding settling_def by blast+
    have "ko_Body k = ko_Body d" using d(3) fills [OF fixed(1)] by simp
    moreover have "rel_option sameObject (look (srv h1) kind n ?ns) (look (srv h2) kind n ?ns)"
      using same by (simp add: undisturbed_def)
    then obtain k' where k': "look (srv h2) kind n ?ns = Some k'" "sameObject k k'"
      using d(1) s by (auto simp: option_rel_Some1)
    ultimately have "sameObject d k'" using d(4) by (simp add: sameObject_def sameMeta_def)
    note again = unchanged [where f = "f i", OF k'(1) fixed(2) [OF this]]
    show "wp ?m (\<lambda>a h3. a = None \<and> srv h3 = srv h2) h2"
      unfolding applyObj_def
      by (intro wp_bind wp_api) (use again in \<open>auto intro!: quiet_wp cont\<close>)
  qed
qed

lemma settles_deleteThen:
  assumes cont: "quiet cont"
  shows "settlesAt i (deleteThen c isNotFound kind n cont)"
  unfolding deleteThen_def
proof (rule settles_getInst)
  let ?ns = "onamespace i"
  let ?m = "do { err \<leftarrow> deleteObj c kind n ?ns;
    (case err of None \<Rightarrow> cont | Some e \<Rightarrow> if isNotFound e then cont else failStep e) }"
  show "settlesAt i ?m"
    unfolding settlesAt_def
  proof (intro allI impI)
    fix h h1 h2 :: "'s hctx"
    assume same: "undisturbed (look (srv h1)) (look (srv h2))" and run: "run_state ?m h = (None, h1)"
    obtain x s where x: "run_state (ob_Delete c kind n ?ns) (srv h) = (x, s)" by fastforce
    let ?h = "h\<lparr>srv := s, calls := calls h @ [CDeleteObj kind n ?ns x]\<rparr>"
    have "(x = None \<or> (\<exists>e. x = Some e \<and> isNotFound e)) \<and> run_state cont ?h = (None, h1)"
      using run x by (cases x) (auto simp: deleteObj_def api_def failStep_def split: if_splits)
    moreover from this have "srv h1 = s" using quiet_run [OF cont] by fastforce
    moreover have "rel_option sameObject (look (srv h1) kind n ?ns) (look (srv h2) kind n ?ns)"
      using same by (simp add: undisturbed_def)
    ultimately have "look (srv h2) kind n ?ns = None" using deleted [OF x] by simp
    from absent [OF this] show "wp ?m (\<lambda>a h3. a = None \<and> srv h3 = srv h2) h2"
      unfolding deleteObj_def by (intro wp_bind wp_api) (auto intro!: quiet_wp cont)
  qed
qed

text \<open>The steps, one after the other: their mutate functions settle, and the rest of them only touches the status.\<close>

lemma quiet_status:
  "quiet doneStep" "quiet m \<Longrightarrow> quiet (do { updMR g; m })" "quiet m \<Longrightarrow> quiet (do { modInst u; m })"
  "quiet m \<Longrightarrow> quiet (do { readyCondition c t st r msg; m })" "quiet m \<Longrightarrow> quiet (do { setCondition rc cn; m })"
  "quiet m \<Longrightarrow> quiet (do { removeCondition rc t; m })" "quiet m \<Longrightarrow> quiet (do { event ty r msg; m })"
  by (auto simp: status_defs intro!: quietI wp_rules quiet_wp)

lemmas mutate_defs = Let_def case_prod_beta

lemma settles_access:
  "settlesAt i (reconcileServiceAccount c)" "settlesAt i (reconcileRole c)" "settlesAt i (reconcileRoleBinding c)"
  "noUserEgress i \<Longrightarrow> settlesAt i (reconcileNetworkPolicy c)"
  unfolding reconcileServiceAccount_def reconcileRole_def reconcileRoleBinding_def reconcileNetworkPolicy_def mutate_defs
  by (intro settles_getInst settles_applyThen settles_deleteThen settles_if settling_adopted quiet_status;
      simp add: same_object policy_complete del: complete.simps(6))+

lemma settles_published: "settlesAt i (publishConfigMap c built)"
  unfolding publishConfigMap_def
  by (cases built) (auto simp: same_object intro!: settles_panic settles_getInst settles_applyThen settling_adopted quiet_status)

lemma settles_availability: "settlesAt i (reconcilePDB c)" "settlesAt i (reconcileHPA c)"
  unfolding reconcilePDB_def reconcileHPA_def
  by (auto simp: same_object hpa_complete simp del: complete.simps(7) split: outcome.split
      intro!: settles_panic settles_getInst settles_applyThen settles_deleteThen settling_adopted quiet_status)

lemma settles_dashboard: "settlesAt i (applyDashboard c n build (\<lambda>_. doneStep))"
  unfolding applyDashboard_def mutate_defs
  by (intro settles_applyThen settling_adopted quiet_status) (simp_all add: same_object)

end

section \<open>A cluster that keeps its objects\<close>

type_synonym objects = "objkind \<Rightarrow> string \<Rightarrow> string \<Rightarrow> kobj option"

definition storedAt :: "objects \<Rightarrow> objkind \<Rightarrow> string \<Rightarrow> string \<Rightarrow> kobj option \<Rightarrow> objects" where
  "storedAt s kind n ns x = s(kind := (s kind)(n := (s kind n)(ns := x)))"

lemma storedAt_look [simp]: "storedAt s kind n ns x kind n ns = x"
  by (simp add: storedAt_def)

lemma storedAt_same [simp]: "s kind n ns = x \<Longrightarrow> storedAt s kind n ns x = s"
  by (auto simp: storedAt_def)

definition missing :: go_error where "missing = GoErr KNotFound ''not found''"

text \<open>The surroundings: nothing but the owner reference and the conditions matters here.\<close>

definition idleRec :: "objects Reconciler" where
  "idleRec =
     \<lparr>rc_OperatorNamespace = ''system'', rc_Now = ret 0, rc_StatusUpdate = (\<lambda>i. ret (Inr i)), rc_Update = (\<lambda>i. ret (Inr i)),
      rc_Patch = (\<lambda>_ i. ret (Inr i)), rc_GetSts = (\<lambda>_ _. ret (Inl missing)), rc_PatchSts = (\<lambda>_ _. ret None),
      rc_UpdateSts = (\<lambda>_. ret None), rc_ListPods = (\<lambda>_ _. ret (Inr [])), rc_GetSecret = (\<lambda>_ _. ret (Inl missing)),
      rc_CreateOrUpdateSecret = (\<lambda>_ _ _. ret (Inl missing)), rc_GetJob = (\<lambda>_ _. ret (Inl missing)),
      rc_CreateJob = (\<lambda>_. ret None), rc_GetPVC = (\<lambda>_ _. ret (Inl missing)), rc_UpdatePVC = (\<lambda>_. ret None),
      rc_GetCronJob = (\<lambda>_ _. ret (Inl missing)), rc_DeleteCronJob = (\<lambda>_. ret None),
      rc_CreateOrUpdateCronJob = (\<lambda>_ _ _. ret (Inl missing)),
      rc_SetControllerReference = (\<lambda>i m. Inr (m\<lparr>om_OwnerReferences := [\<lparr>or_UID = om_UID (oci_Meta i), or_Controller = True\<rparr>]\<rparr>)),
      rc_SetStatusCondition = (\<lambda>c cs. filter (\<lambda>d. cond_Type d \<noteq> cond_Type c) cs @ [c]),
      rc_RemoveStatusCondition = (\<lambda>t. filter (\<lambda>d. cond_Type d \<noteq> t)),
      rc_RemoveFinalizer = (\<lambda>f. filter (\<lambda>x. x \<noteq> f)), rc_VersionResolver = None\<rparr>"

text \<open>
  An API server that fills in defaults, allots an address to a Service, and an identity and a generation
  to every object it stores.
\<close>

fun storeAdmit :: "body \<Rightarrow> body" where
  "storeAdmit (ServiceBody s ips) =
     (let ip = strOr (svo_ClusterIP s) ''10.0.0.7''
      in ServiceBody (s\<lparr>svo_ClusterIP := ip, svo_IPFamilies := [''IPv4''], svo_IPFamilyPolicy := Some ''SingleStack'',
           svo_InternalTrafficPolicy := orElse (svo_InternalTrafficPolicy s) ''Cluster''\<rparr>) [ip])"
| "storeAdmit (HPABody h) = HPABody (h\<lparr>hpa_MinReplicas := orElse (hpa_MinReplicas h) 1,
     hpa_Metrics := (if hpa_Metrics h = [] then [(''cpu'', Some 80)] else hpa_Metrics h)\<rparr>)"
| "storeAdmit (NetworkPolicyBody np) = NetworkPolicyBody
     (if netpol_PolicyTypes np = [] then np\<lparr>netpol_PolicyTypes := [''Ingress'']\<rparr> else np)"
| "storeAdmit (StatefulSetBody t) = StatefulSetBody (t\<lparr>ss_Replicas := orElse (ss_Replicas t) 1\<rparr>)"
| "storeAdmit b = b"

lemma storeAdmit_fills: "complete b \<Longrightarrow> storeAdmit b = b"
  by (cases b) (auto simp: completePolicy_def orElse_def)

definition storeMeta :: "ObjectMeta \<Rightarrow> ObjectMeta" where
  "storeMeta m = m\<lparr>om_UID := strOr (om_UID m) ''uid-1'', om_Generation := om_Generation m + 1\<rparr>"

definition storeCluster :: "objects Cluster" where
  "storeCluster =
     \<lparr>ob_Rec = idleRec,
      ob_GetInstance = (\<lambda>_ _. ret (Inl missing)), ob_GetDefaults = ret (Inl missing),
      ob_GetConfigMapData = (\<lambda>_ _. ret (Inl missing)),
      ob_Get = (\<lambda>kind n ns. State (\<lambda>s. (case s kind n ns of None \<Rightarrow> Inl missing | Some k \<Rightarrow> Inr k, s))),
      ob_Create = (\<lambda>kind k. State (\<lambda>s. (None, storedAt s kind (om_Name (ko_Meta k)) (om_Namespace (ko_Meta k)) (Some k)))),
      ob_Delete = (\<lambda>kind n ns. State (\<lambda>s.
        (if s kind n ns = None then Some missing else None, storedAt s kind n ns None))),
      ob_CreateOrUpdate = (\<lambda>kind n ns f. State (\<lambda>s.
        case f (derefOr (blankObj n ns) (s kind n ns)) of
          Inl e \<Rightarrow> (Inl e, s)
        | Inr d \<Rightarrow>
            if s kind n ns = Some d then (Inr d, s)
            else let k = \<lparr>ko_Meta = storeMeta (ko_Meta d), ko_Body = storeAdmit (ko_Body d)\<rparr>
                 in (Inr k, storedAt s kind n ns (Some k)))),
      ob_IsNoMatch = (\<lambda>_. False), ob_RandRead = (\<lambda>n. ret (Inr (replicate n (CHR ''x'')))), ob_Resolve = None,
      ob_Bytes = Text, ob_Sha256 = (\<lambda>_. []), ob_Sha1 = (\<lambda>_. []), ob_ValidQuantity = (\<lambda>_. True),
      ob_SameQuantity = (\<lambda>a b. a = b), ob_QuantityValue = (\<lambda>_. 0), ob_Marshal = (\<lambda>_. []), ob_Installer = []\<rparr>"

interpretation store: object_store storeCluster "\<lambda>s. s" storeAdmit
proof
  show "complete b \<Longrightarrow> storeAdmit b = b" for b by (rule storeAdmit_fills)
qed (auto simp: storeCluster_def idleRec_def missing_def isNotFound_def storeMeta_def sameMeta_def derefOr_def Let_def
      split: sum.splits if_splits option.splits)

section \<open>The property\<close>

text \<open>The steps of the controller that bring one object each into line and leave nothing of it open.\<close>

definition objectWriters ::
    "'s Cluster \<Rightarrow> PublishedConfigMap outcome \<Rightarrow> string \<Rightarrow> (OpenClawInstance \<Rightarrow> DashboardConfigMap) \<Rightarrow> 's step list" where
  "objectWriters c built board build =
     [reconcileServiceAccount c, reconcileRole c, reconcileRoleBinding c, reconcileNetworkPolicy c,
      publishConfigMap c built, reconcilePDB c, reconcileHPA c, applyDashboard c board build (\<lambda>_. doneStep)]"

text \<open>
  C37: the steps for the service account, the role, the role binding, the network policy, the published
  ConfigMap, the disruption budget, the autoscaler and the dashboards reach a steady state, although the
  API server fills in what an object leaves open. After such a step has ended without an error, the same
  step run again from the same instance - with the objects as the first run left them, but for the
  metadata the server keeps - ends without an error and writes nothing: no field with a default is left
  open, labels and annotations are merged to a fixed point, and the owner reference is not added twice.
  Rules the user adds to the network policy are not completed by the operator, so there must be none.
\<close>

theorem second_run_writes_nothing:
  assumes "object_store c look admit" "m \<in> set (objectWriters c built board build)" "noUserEgress (cur h)"
    and "run_state m h = (None, h1)" "cur h2 = cur h" "undisturbed (look (srv h1)) (look (srv h2))"
  shows "\<exists>h3. run_state m h2 = (None, h3) \<and> srv h3 = srv h2"
proof -
  note s = object_store.settles_access [OF assms(1)] object_store.settles_published [OF assms(1)]
    object_store.settles_availability [OF assms(1)] object_store.settles_dashboard [OF assms(1)]
  from assms(2,3) have "object_store.settlesAt look (cur h) m"
    by (auto simp: objectWriters_def s)
  with assms(4-6) have "wp m (\<lambda>a h3. a = None \<and> srv h3 = srv h2) h2"
    by (simp add: object_store.settlesAt_def [OF assms(1)])
  then show ?thesis by (cases "run_state m h2") (simp add: wp_def)
qed

definition storeStart :: "objects hctx" where
  "storeStart = \<lparr>srv = (\<lambda>_ _ _. None),
     cur = zero_OpenClawInstance\<lparr>oci_Meta := zero_ObjectMeta\<lparr>om_Name := ''claw'', om_Namespace := ''team''\<rparr>\<rparr>, calls = []\<rparr>"

text \<open>The first run creates the network policy, the server gives it an identity, the second run writes nothing.\<close>

theorem second_run_writes_nothing_witness:
  "\<exists>h1 h3 k. run_state (reconcileNetworkPolicy storeCluster) storeStart = (None, h1)
     \<and> srv h1 NetworkPolicyK ''claw'' ''team'' = Some k \<and> om_UID (ko_Meta k) = ''uid-1''
     \<and> run_state (reconcileNetworkPolicy storeCluster) (storeStart\<lparr>srv := srv h1\<rparr>) = (None, h3) \<and> srv h3 = srv h1"
proof -
  let ?P = "\<lambda>h1. \<exists>k. srv h1 NetworkPolicyK ''claw'' ''team'' = Some k \<and> om_UID (ko_Meta k) = ''uid-1''"
  have i: "networkPolicyEnabled (cur storeStart)" "noUserEgress (cur storeStart)" by code_simp+
  have "wp (reconcileNetworkPolicy storeCluster) (\<lambda>a h1. a = None \<and> ?P h1) storeStart"
    unfolding reconcileNetworkPolicy_def
    by (intro wp_bind [of getInst] wp_getInst)
      (use i(1) in \<open>auto simp: applyThen_def applyObj_def storeCluster_def idleRec_def adopted_def
        blankObj_def withBody_def withLabels_def storeMeta_def NetworkPolicyName_def Let_def status_defs strOr_def
        storeStart_def zero_OpenClawInstance_def zero_ObjectMeta_def intro!: wp_rules wp_api\<close>)
  then obtain h1 where h1: "run_state (reconcileNetworkPolicy storeCluster) storeStart = (None, h1)" "?P h1"
    by (cases "run_state (reconcileNetworkPolicy storeCluster) storeStart") (auto simp: wp_def)
  have "reconcileNetworkPolicy storeCluster \<in> set (objectWriters storeCluster Panic [] BuildGrafanaDashboardOperator)"
    by (simp add: objectWriters_def)
  moreover have "undisturbed (srv h1) (srv (storeStart\<lparr>srv := srv h1\<rparr>))"
    by (simp add: undisturbed_def sameObject_def option.rel_refl)
  ultimately obtain h3 where "run_state (reconcileNetworkPolicy storeCluster) (storeStart\<lparr>srv := srv h1\<rparr>) = (None, h3)" "srv h3 = srv h1"
    using second_run_writes_nothing [OF store.object_store_axioms _ i(2) h1(1), of _ _ _ "storeStart\<lparr>srv := srv h1\<rparr>"] by fastforce
  with h1 show ?thesis by blast
qed

text \<open>
  The Service has no steady state: beside the addresses, which are kept, its spec is replaced as a whole,
  so everything else the API server has filled in is taken out again, and the object is written on every
  run.
\<close>

theorem service_never_settles:
  assumes "ko_Body k = ServiceBody s ips"
    and "svo_IPFamilies s \<noteq> [] \<or> svo_IPFamilyPolicy s \<noteq> None \<or> svo_InternalTrafficPolicy s \<noteq> None"
  shows "mutateService c i k \<noteq> Inr k"
proof
  let ?b = "ServiceBody ((BuildService i)\<lparr>svo_ClusterIP := svo_ClusterIP s\<rparr>) ips"
  assume "mutateService c i k = Inr k"
  moreover have "mutateService c i k = Inr k' \<Longrightarrow> ko_Body k' = ?b" for k'
    using assms(1) by (auto simp: mutateService_def clusterIPs_def adopted_def Let_def split: sum.splits)
  ultimately have "ServiceBody s ips = ?b" using assms(1) by force
  then have s: "s = (BuildService i)\<lparr>svo_ClusterIP := svo_ClusterIP s\<rparr>" by simp
  have "svo_IPFamilies s = [] \<and> svo_IPFamilyPolicy s = None \<and> svo_InternalTrafficPolicy s = None"
    by (subst (1 2 3) s) (simp add: BuildService_def Let_def)
  with assms(2) show False by simp
qed

end
