(* ===== verification/EntryPoint.thy ===== *)
theory EntryPoint
  imports Client
begin

text \<open>
  What cmd/main.go decides before it starts the manager: the options of the manager, the namespaces
  to watch and what the client's cache is restricted to; and what the controllers register for in
  SetupWithManager. Starting servers, leader election and the OTLP exporter are calls of libraries.
\<close>

section \<open>Flags and options\<close>

record flags =
  fl_MetricsBindAddress :: string
  fl_HealthProbeBindAddress :: string
  fl_LeaderElect :: bool
  fl_MetricsSecure :: bool
  fl_EnableHTTP2 :: bool
  fl_OTLPEndpoint :: string
  fl_OTLPInsecure :: bool
  fl_WatchNamespaces :: string

definition defaultFlags :: flags where
  "defaultFlags =
     \<lparr>fl_MetricsBindAddress = ''0'', fl_HealthProbeBindAddress = '':8081'', fl_LeaderElect = False,
      fl_MetricsSecure = True, fl_EnableHTTP2 = False, fl_OTLPEndpoint = [], fl_OTLPInsecure = True,
      fl_WatchNamespaces = []\<rparr>"

text \<open>\<^verbatim>\<open>TrimSpace\<close> is that of ASCII text; namespace names are ASCII.\<close>

definition parseWatchNamespaces :: "string \<Rightarrow> string list" where
  "parseWatchNamespaces raw =
     (let raw = trimSpace raw
      in if raw = '''' then []
         else fold (\<lambda>ns acc. let ns = trimSpace ns in if ns = '''' \<or> ns \<in> set acc then acc else acc @ [ns])
                (splitByte (CHR '','') raw) [])"

text \<open>
  The kinds of object the cache distinguishes. A map from namespaces to empty configurations is the
  list of its keys.
\<close>

datatype cachedKind = SecretObjects | OtherObjects

record cacheOptions =
  co_DefaultNamespaces :: "string list"
  co_ByObject :: "(cachedKind \<times> string list) list"

definition buildCacheOptions :: "string list \<Rightarrow> string \<Rightarrow> cacheOptions" where
  "buildCacheOptions watchNamespaces operatorNamespace =
     \<lparr>co_DefaultNamespaces = watchNamespaces,
      co_ByObject = [(SecretObjects, List.insert operatorNamespace watchNamespaces)]\<rparr>"

record managerOptions =
  mo_MetricsBindAddress :: string
  mo_SecureServing :: bool
  mo_Authenticated :: bool
  mo_NextProtos :: "string list option"
  mo_HealthProbeBindAddress :: string
  mo_LeaderElection :: bool
  mo_LeaderElectionID :: string
  mo_Cache :: "cacheOptions option"

definition operatorNamespaceOf :: "(string \<rightharpoonup> string) \<Rightarrow> string" where
  "operatorNamespaceOf env = strOr (derefOr '''' (env ''POD_NAMESPACE'')) ''openclaw-operator-system''"

definition managerOptionsOf :: "flags \<Rightarrow> (string \<rightharpoonup> string) \<Rightarrow> managerOptions" where
  "managerOptionsOf f env =
     (let watchNamespaces = parseWatchNamespaces (fl_WatchNamespaces f)
      in \<lparr>mo_MetricsBindAddress = fl_MetricsBindAddress f, mo_SecureServing = fl_MetricsSecure f,
          mo_Authenticated = fl_MetricsSecure f,
          mo_NextProtos = (if fl_EnableHTTP2 f then None else Some [''http/1.1'']),
          mo_HealthProbeBindAddress = fl_HealthProbeBindAddress f, mo_LeaderElection = fl_LeaderElect f,
          mo_LeaderElectionID = ''openclaw-operator.openclaw.rocks'',
          mo_Cache = (if watchNamespaces \<noteq> [] then Some (buildCacheOptions watchNamespaces (operatorNamespaceOf env)) else None)\<rparr>)"

definition otlpEndpointOf :: "flags \<Rightarrow> (string \<rightharpoonup> string) \<Rightarrow> string" where
  "otlpEndpointOf f env = strOr (fl_OTLPEndpoint f) (derefOr '''' (env ''OTEL_EXPORTER_OTLP_ENDPOINT''))"

text \<open>Which objects the cache can hold; without restriction all of them.\<close>

definition cached :: "managerOptions \<Rightarrow> cachedKind \<Rightarrow> string \<Rightarrow> bool" where
  "cached mo kind ns =
     (case mo_Cache mo of
        None \<Rightarrow> True
      | Some co \<Rightarrow> ns \<in> set (derefOr (co_DefaultNamespaces co) (map_of (co_ByObject co) kind)))"

section \<open>Registration\<close>

text \<open>\<^verbatim>\<open>gvkInstalled\<close>: the REST mapper, a parameter, knows the kind.\<close>

datatype registration =
    ForInstance
  | Owns objkind | OwnsSecret | OwnsJob | OwnsCronJob
  | WatchesSecret | WatchesConfigMap | WatchesClusterDefaults

definition gvkInstalled :: "(objkind \<Rightarrow> go_error option) \<Rightarrow> objkind \<Rightarrow> bool" where
  "gvkInstalled mapper gvk \<longleftrightarrow> mapper gvk = None"

definition SetupWithManager :: "(objkind \<Rightarrow> go_error option) \<Rightarrow> registration list" where
  "SetupWithManager mapper =
     [ForInstance, Owns StatefulSetK, Owns DeploymentK, OwnsJob, OwnsCronJob, Owns ServiceK, Owns ConfigMapK,
      Owns PVCK, Owns ServiceAccountK, OwnsSecret, Owns RoleK, Owns RoleBindingK, Owns NetworkPolicyK,
      Owns IngressK, Owns PDBK, Owns HPAK, WatchesSecret, WatchesConfigMap, WatchesClusterDefaults]
     @ (if gvkInstalled mapper ServiceMonitorK then [Owns ServiceMonitorK] else [])"

section \<open>What the flag means\<close>

definition keepNew :: "string \<Rightarrow> string list \<Rightarrow> string list" where
  "keepNew ns acc = (let ns = trimSpace ns in if ns = '''' \<or> ns \<in> set acc then acc else acc @ [ns])"

lemma fold_keepNew:
  "distinct acc \<Longrightarrow> distinct (fold keepNew segs acc)
     \<and> set (fold keepNew segs acc) = set acc \<union> {trimSpace s |s. s \<in> set segs \<and> trimSpace s \<noteq> ''''}"
proof (induction segs arbitrary: acc)
  case (Cons s segs)
  have "distinct (keepNew s acc)" "set (keepNew s acc) = set acc \<union> (if trimSpace s = '''' then {} else {trimSpace s})"
    using Cons.prems by (auto simp: keepNew_def Let_def)
  with Cons.IH [of "keepNew s acc"] show ?case by auto
qed simp

lemma parseWatchNamespaces_fold:
  "parseWatchNamespaces raw =
     (if trimSpace raw = '''' then [] else fold keepNew (splitByte (CHR '','') (trimSpace raw)) [])"
  unfolding parseWatchNamespaces_def keepNew_def by (simp add: Let_def)

lemma fold_keepNew_fresh:
  "distinct (acc @ nss) \<Longrightarrow> (\<And>n. n \<in> set nss \<Longrightarrow> trimSpace n = n \<and> n \<noteq> '''') \<Longrightarrow> fold keepNew nss acc = acc @ nss"
  by (induction nss arbitrary: acc) (auto simp: keepNew_def Let_def)

definition plainNamespace :: "string \<Rightarrow> bool" where
  "plainNamespace n \<longleftrightarrow> n \<noteq> '''' \<and> list_all (\<lambda>x. \<not> asciiSpace x \<and> x \<noteq> CHR '','') n"

lemma trimSpace_plain: "list_all (\<lambda>x. \<not> asciiSpace x) s \<Longrightarrow> trimSpace s = s"
proof -
  assume s: "list_all (\<lambda>x. \<not> asciiSpace x) s"
  have "dropWhile asciiSpace t = t" if "list_all (\<lambda>x. \<not> asciiSpace x) t" for t
    using that by (cases t) auto
  from this [of "rev s"] this [of s] s show ?thesis by (simp add: trimSpace_def list_all_iff)
qed

lemma splitByte_join:
  "nss \<noteq> [] \<Longrightarrow> list_all (\<lambda>n. sep \<notin> set n) nss \<Longrightarrow> splitByte sep (joinStr [sep] nss) = nss"
proof (induction nss rule: induct_list012)
  case (3 x y zs)
  have "splitByte sep (x @ sep # t) = x # splitByte sep t" if "sep \<notin> set x" for x t
    using that by (induction x) auto
  with 3 show ?case by simp
next
  case (2 x)
  then have "sep \<notin> set x" by simp
  then show ?case by (induction x) auto
qed simp

lemma set_joinStr: "set (joinStr sep nss) \<subseteq> set sep \<union> (\<Union>n \<in> set nss. set n)"
  by (induction nss rule: induct_list012) auto

text \<open>
  The namespaces of the flag are distinct and are exactly the non-empty entries of its value,
  trimmed; a list of distinct names written with commas is read back as it is.
\<close>

theorem watch_namespaces_exact:
  "distinct (parseWatchNamespaces raw)"
  "set (parseWatchNamespaces raw) = {trimSpace s |s. s \<in> set (splitByte (CHR '','') (trimSpace raw)) \<and> trimSpace s \<noteq> ''''}"
  "distinct nss \<Longrightarrow> list_all plainNamespace nss \<Longrightarrow> parseWatchNamespaces (joinStr '','' nss) = nss"
proof -
  have none: "trimSpace '''' = ''''" by (simp add: trimSpace_def)
  show "distinct (parseWatchNamespaces raw)"
    by (simp add: parseWatchNamespaces_fold fold_keepNew)
  show "set (parseWatchNamespaces raw) = {trimSpace s |s. s \<in> set (splitByte (CHR '','') (trimSpace raw)) \<and> trimSpace s \<noteq> ''''}"
  proof (cases "trimSpace raw = ''''")
    case True
    then show ?thesis by (auto simp: parseWatchNamespaces_fold none)
  next
    case False
    then show ?thesis by (simp add: parseWatchNamespaces_fold fold_keepNew)
  qed
  assume d: "distinct nss" and p: "list_all plainNamespace nss"
  show "parseWatchNamespaces (joinStr '','' nss) = nss"
  proof (cases "nss = []")
    case False
    have "\<not> asciiSpace (CHR '','')" by (simp add: asciiSpace_def)
    then have "list_all (\<lambda>x. \<not> asciiSpace x) (joinStr '','' nss)"
      using p set_joinStr [of "'',''" nss] unfolding plainNamespace_def list_all_iff by fastforce
    moreover have "joinStr '','' nss \<noteq> ''''"
      using False p by (cases "('','', nss)" rule: joinStr.cases) (auto simp: plainNamespace_def)
    moreover have "splitByte (CHR '','') (joinStr '','' nss) = nss"
      using False p by (intro splitByte_join) (auto simp: plainNamespace_def list_all_iff)
    moreover have "fold keepNew nss [] = nss"
    proof -
      have "trimSpace n = n \<and> n \<noteq> ''''" if "n \<in> set nss" for n
      proof
        from that p have n: "plainNamespace n" by (simp add: list_all_iff)
        then show "n \<noteq> ''''" by (simp add: plainNamespace_def)
        from n show "trimSpace n = n" by (intro trimSpace_plain) (simp add: plainNamespace_def list_all_iff)
      qed
      with d fold_keepNew_fresh [of "[]" nss] show ?thesis by simp
    qed
    ultimately show ?thesis using trimSpace_plain [of "joinStr '','' nss"] by (simp only: parseWatchNamespaces_fold if_False)
  qed (simp add: parseWatchNamespaces_fold trimSpace_def)
qed

text \<open>
  The controller writes routes, middlewares and alert rules, but registers for none of them: a change
  of one does not lead to a run, whatever kinds are installed.
\<close>

theorem unwatched_kinds:
  "Owns kind \<notin> set (SetupWithManager (\<lambda>_. None)) \<longleftrightarrow> kind \<in> {HTTPRouteK, MiddlewareK, PrometheusRuleK}"
  by (cases kind) (simp_all add: SetupWithManager_def gvkInstalled_def)

end
