(* ===== verification/Isolation.thy ===== *)
theory Isolation
  imports SteadyState EntryPoint
begin

text \<open>
  Which namespaces a run of the main controller touches. The interface is the locale
  \<open>addressed_replies\<close>: the server answers with the object it was asked for, in its namespace. Its
  extension \<open>addressed_cluster\<close> adds the read of the instance.
\<close>

section \<open>The namespace of a call\<close>

text \<open>
  \<open>home op ns x\<close>: the object the call \<open>x\<close> names lies in the namespace \<open>ns\<close>. Reading the backup
  credentials in the namespace \<open>op\<close> of the operator is the one exception. Calls that name no
  namespaced object are at home everywhere.
\<close>

fun home :: "string \<Rightarrow> string \<Rightarrow> api_call \<Rightarrow> bool" where
  "home op ns (CStatusUpdate i _) = (onamespace i = ns)"
| "home op ns (CUpdate i _) = (onamespace i = ns)"
| "home op ns (CPatch _ i _) = (onamespace i = ns)"
| "home op ns (CGetSts _ m _) = (m = ns)"
| "home op ns (CPatchSts _ s _) = (om_Namespace (sts_Meta s) = ns)"
| "home op ns (CUpdateSts s _) = (om_Namespace (sts_Meta s) = ns)"
| "home op ns (CListPods m _ _) = (m = ns)"
| "home op ns (CGetSecret n m _) = (m = ns \<or> m = op \<and> n = BackupSecretName)"
| "home op ns (CWriteSecret _ m _) = (m = ns)"
| "home op ns (CGetJob _ m _) = (m = ns)"
| "home op ns (CCreateJob j _) = (om_Namespace (job_Meta j) = ns)"
| "home op ns (CGetPVC _ m _) = (m = ns)"
| "home op ns (CUpdatePVC p _) = (om_Namespace (pvc_Meta p) = ns)"
| "home op ns (CGetCronJob _ m _) = (m = ns)"
| "home op ns (CDeleteCronJob j _) = (om_Namespace (cron_Meta j) = ns)"
| "home op ns (CWriteCronJob _ m _) = (m = ns)"
| "home op ns (CGetInstance _ m _) = (m = ns)"
| "home op ns (CGetObj _ _ m _) = (m = ns)"
| "home op ns (CCreateObj _ _ m _) = (m = ns)"
| "home op ns (CDeleteObj _ _ m _) = (m = ns)"
| "home op ns (CApplyObj _ _ m _ _) = (m = ns)"
| "home op ns _ = True"

lemma home_applyEntry [simp]: "home op ns (applyEntry kind n m a) \<longleftrightarrow> m = ns"
  by (cases a) (simp_all add: applyEntry_def)

section \<open>Steps that stay at home\<close>

definition confined :: "string \<Rightarrow> string \<Rightarrow> ('s hctx, 'a) state \<Rightarrow> bool" where
  "confined op ns m \<longleftrightarrow>
     (\<forall>h. onamespace (cur h) = ns \<longrightarrow> wp m (\<lambda>_ h'. onamespace (cur h') = ns \<and> extends (home op ns) h h') h)"

named_theorems home_rules "what keeps a handler in its namespace"

lemma confinedD: "confined op ns m \<Longrightarrow> onamespace (cur h) = ns \<Longrightarrow>
    wp m (\<lambda>_ h'. onamespace (cur h') = ns \<and> extends (home op ns) h h') h"
  by (simp add: confined_def)

text \<open>Sequences, with what the first part's result is known to be.\<close>

lemma confined_known:
  assumes "\<And>h. onamespace (cur h) = ns \<Longrightarrow>
      wp m (\<lambda>a h'. R a \<and> onamespace (cur h') = ns \<and> extends (home op ns) h h') h"
    and "\<And>a. R a \<Longrightarrow> confined op ns (f a)"
  shows "confined op ns (State_Monad.bind m f)"
  unfolding confined_def
proof (intro allI impI wp_bind)
  fix h :: "'a hctx" assume "onamespace (cur h) = ns"
  from assms(1) [OF this]
  show "wp m (\<lambda>a. wp (f a) (\<lambda>_ h'. onamespace (cur h') = ns \<and> extends (home op ns) h h')) h"
    by (rule wp_mono) (auto intro: wp_mono [OF confinedD [OF assms(2)]] extends_trans)
qed

lemma confined_bind: "confined op ns m \<Longrightarrow> (\<And>a. confined op ns (f a)) \<Longrightarrow> confined op ns (State_Monad.bind m f)"
  by (rule confined_known [where R = "\<lambda>_. True"]) (simp_all add: confinedD)

lemma confined_getInst [home_rules]:
  "(\<And>i. onamespace i = ns \<Longrightarrow> confined op ns (f i)) \<Longrightarrow> confined op ns (State_Monad.bind getInst f)"
  by (rule confined_known [where R = "\<lambda>i. onamespace i = ns"]) (simp_all add: wp_def getInst_def extends_refl)

lemma confined_basic [home_rules]: "confined op ns (ret a)" "confined op ns (event t rs m)"
  by (simp_all add: confined_def wp_def event_def extends_def)

lemma confined_modInst [home_rules]: "(\<And>i. onamespace i = ns \<Longrightarrow> onamespace (g i) = ns) \<Longrightarrow> confined op ns (modInst g)"
  by (auto simp: confined_def intro!: wp_rules extends_refl)

lemma confined_api: "(\<And>a. home op ns (mk a)) \<Longrightarrow> confined op ns (api m mk)"
  by (auto simp: confined_def intro!: wp_api extends_one)

lemma confined_cases [home_rules]:
  "(b \<Longrightarrow> confined op ns m) \<Longrightarrow> (\<not> b \<Longrightarrow> confined op ns n) \<Longrightarrow> confined op ns (if b then m else n)"
  "(x = None \<Longrightarrow> confined op ns k) \<Longrightarrow> (\<And>y. x = Some y \<Longrightarrow> confined op ns (f y)) \<Longrightarrow>
   confined op ns (case x of None \<Rightarrow> k | Some y \<Rightarrow> f y)"
  "(\<And>e. z = Inl e \<Longrightarrow> confined op ns (f1 e)) \<Longrightarrow> (\<And>y. z = Inr y \<Longrightarrow> confined op ns (f2 y)) \<Longrightarrow>
   confined op ns (case z of Inl e \<Rightarrow> f1 e | Inr y \<Rightarrow> f2 y)"
  "(\<And>a b. confined op ns (p a b)) \<Longrightarrow> confined op ns (case q of (a, b) \<Rightarrow> p a b)"
  "confined op ns m \<Longrightarrow> (\<And>d. confined op ns (f' d)) \<Longrightarrow> confined op ns (case built of Panic \<Rightarrow> m | Ret d \<Rightarrow> f' d)"
  "(\<And>e. confined op ns (x1 e)) \<Longrightarrow> (\<And>q. confined op ns (x2 q)) \<Longrightarrow> confined op ns x3 \<Longrightarrow>
   confined op ns (case halted of HErr e \<Rightarrow> x1 e | HRequeue q \<Rightarrow> x2 q | HPanic \<Rightarrow> x3)"
  "confined op ns m \<Longrightarrow> confined op ns n \<Longrightarrow> confined op ns (case flag of True \<Rightarrow> m | False \<Rightarrow> n)"
  by (simp_all split: option.split sum.split prod.split outcome.split halt.split bool.split)

lemma confined_steps [home_rules]:
  "confined op ns doneStep" "confined op ns (failStep e)" "confined op ns (errStep x)"
  "confined op ns m \<Longrightarrow> confined op ns (wrapStep msg m)"
  by (auto simp: doneStep_def failStep_def errStep_def wrapStep_def intro!: home_rules confined_bind)

lemma confined_andStep [home_rules]: "confined op ns m \<Longrightarrow> confined op ns k \<Longrightarrow> confined op ns (andStep m k)"
  by (auto simp: andStep_def intro!: home_rules confined_bind)

lemma confined_seqSteps: "(\<And>m. m \<in> set ms \<Longrightarrow> confined op ns m) \<Longrightarrow> confined op ns (seqSteps ms)"
  by (induction ms) (auto intro!: home_rules)

lemma confined_calls [home_rules]:
  "m = ns \<Longrightarrow> confined op ns (getObj c kind n m)" "m = ns \<Longrightarrow> confined op ns (deleteObj c kind n m)"
  "m = ns \<Longrightarrow> confined op ns (applyObj c kind n m f)" "m = ns \<Longrightarrow> confined op ns (getConfigMapData c n m)"
  "om_Namespace (ko_Meta k) = ns \<Longrightarrow> confined op ns (createObj c kind k)"
  "m = ns \<Longrightarrow> confined op ns (getSecret r n m)" "m = ns \<Longrightarrow> confined op ns (createOrUpdateSecret r n m fs)"
  "m = ns \<Longrightarrow> confined op ns (listPods r m sel)" "m = ns \<Longrightarrow> confined op ns (getJob r n m)"
  "m = ns \<Longrightarrow> confined op ns (createOrUpdateCronJob r n m fc)" "confined op ns (now r)" "confined op ns (randRead c len)"
  "om_Namespace (sts_Meta s) = ns \<Longrightarrow> confined op ns (patchSts r original s)"
  "om_Namespace (sts_Meta s) = ns \<Longrightarrow> confined op ns (updateSts r s)"
  "om_Namespace (job_Meta j) = ns \<Longrightarrow> confined op ns (createJob r j)"
  "om_Namespace (pvc_Meta p) = ns \<Longrightarrow> confined op ns (updatePVC r p)"
  "om_Namespace (cron_Meta cj) = ns \<Longrightarrow> confined op ns (deleteCronJob r cj)"
  by (simp_all add: getObj_def deleteObj_def applyObj_def getConfigMapData_def createObj_def handler_ops getJob_def
      randRead_def confined_api)

lemma confined_status [home_rules]:
  "confined op ns (updMR g)" "confined op ns (readyCondition c t st rs msg)" "confined op ns (observedCondition c t st rs msg)"
  "confined op ns (setCondition r cnd)" "confined op ns (removeCondition r t)"
  by (auto simp: updMR_def readyCondition_def observedCondition_def setCondition_def removeCondition_def intro!: home_rules)

lemma confined_applyThen [home_rules]:
  "(\<And>k. confined op ns (cont k)) \<Longrightarrow> confined op ns (applyThen c kind n f cont)"
  "confined op ns absent \<Longrightarrow> (\<And>k. confined op ns (cont k)) \<Longrightarrow> confined op ns (applyOptional c kind n g absent cont)"
  "confined op ns gone \<Longrightarrow> confined op ns (deleteThen c ign kind n gone)"
  by (auto simp: applyThen_def applyOptional_def deleteThen_def intro!: home_rules confined_bind)

text \<open>The credentials of the operator: the exception.\<close>

lemma confined_credentials [home_rules]: "confined (rc_OperatorNamespace r) ns (getS3Credentials r)"
  by (auto simp: getS3Credentials_def getSecret_def intro!: home_rules confined_bind confined_api)

section \<open>The interfaces\<close>

locale addressed_replies =
  fixes r :: "'s Reconciler"
  assumes status: "run_state (rc_StatusUpdate r i) s = (Inr i', s') \<Longrightarrow> onamespace i' = onamespace i"
    and update: "run_state (rc_Update r i) s = (Inr i', s') \<Longrightarrow> onamespace i' = onamespace i"
    and patch: "run_state (rc_Patch r original i) s = (Inr i', s') \<Longrightarrow> onamespace i' = onamespace i"
    and sts: "run_state (rc_GetSts r n ns) s = (Inr x, s') \<Longrightarrow> om_Namespace (sts_Meta x) = ns"
    and pvc: "run_state (rc_GetPVC r n ns) s = (Inr p, s') \<Longrightarrow> om_Namespace (pvc_Meta p) = ns"
    and cron: "run_state (rc_GetCronJob r n ns) s = (Inr j, s') \<Longrightarrow> om_Namespace (cron_Meta j) = ns"
    and owner: "rc_SetControllerReference r i m = Inr m' \<Longrightarrow> om_Namespace m' = om_Namespace m"
begin

abbreviation stays :: "string \<Rightarrow> ('s hctx, 'a) state \<Rightarrow> bool" where
  "stays \<equiv> confined (rc_OperatorNamespace r)"

lemma stays_writes:
  "stays ns (statusUpdate r)" "stays ns (updateInst r)" "stays ns (patchInst r original)"
  by (auto simp: confined_def statusUpdate_def updateInst_def patchInst_def intro!: wp_writeInst extends_one
      dest: status update patch)

lemma stays_reads:
  "m = ns \<and> (\<forall>res. (\<forall>x. res = Inr x \<longrightarrow> om_Namespace (sts_Meta x) = ns) \<longrightarrow> stays ns (f res)) \<Longrightarrow>
   stays ns (State_Monad.bind (getSts r n m) f)"
  "m = ns \<and> (\<forall>res. (\<forall>x. res = Inr x \<longrightarrow> om_Namespace (pvc_Meta x) = ns) \<longrightarrow> stays ns (g res)) \<Longrightarrow>
   stays ns (State_Monad.bind (getPVC r n m) g)"
  "m = ns \<and> (\<forall>res. (\<forall>x. res = Inr x \<longrightarrow> om_Namespace (cron_Meta x) = ns) \<longrightarrow> stays ns (k res)) \<Longrightarrow>
   stays ns (State_Monad.bind (getCronJob r n m) k)"
  by (rule confined_known [where R = "\<lambda>res. \<forall>x. res = Inr x \<longrightarrow> om_Namespace (sts_Meta x) = ns"],
      auto simp: getSts_def dest: sts intro!: wp_api extends_one)
    (rule confined_known [where R = "\<lambda>res. \<forall>x. res = Inr x \<longrightarrow> om_Namespace (pvc_Meta x) = ns"],
      auto simp: getPVC_def dest: pvc intro!: wp_api extends_one,
     rule confined_known [where R = "\<lambda>res. \<forall>x. res = Inr x \<longrightarrow> om_Namespace (cron_Meta x) = ns"],
      auto simp: getCronJob_def dest: cron intro!: wp_api extends_one)

lemma jobs_at_home:
  "om_Namespace (job_Meta (instanceJob i jn t path creds b)) = onamespace i"
  by (simp add: instanceJob_def buildRcloneJob_def)

lemmas stay_rules = home_rules stays_writes stays_reads

lemma stays_mirror: "stays ns (reconcileS3MirrorSecret r creds)"
  by (auto simp: reconcileS3MirrorSecret_def intro!: stay_rules confined_bind)

lemma stays_persist: "stays ns m \<Longrightarrow> stays ns (persistThen r m)" "stays ns d \<Longrightarrow> stays ns (persistOrStop r d)"
  by (auto simp: persistThen_def persistOrStop_def stop_def intro!: stay_rules confined_bind)

lemma stays_restore: "stays ns (reconcileRestore r)"
  by (auto simp: reconcileRestore_def restoreWithJob_def createRestoreJob_def pollRestoreJob_def finishRestore_def
      stop_def wait_def jobs_at_home owner Let_def intro!: stay_rules confined_bind stays_mirror stays_persist)

lemma stays_finalizer: "stays ns (removeFinalizer r)"
  by (auto simp: removeFinalizer_def orphanPVC_def Let_def intro!: stay_rules confined_bind)

lemma stays_deletion: "stays ns (reconcileDeleteWithBackup r)"
proof -
  have "stays ns (drainThenBackup r)"
    by (auto simp: drainThenBackup_def backupWithJob_def createBackupJob_def pollBackupJob_def terminate_def
        jobs_at_home owner Let_def intro!: stay_rules confined_bind stays_mirror stays_persist stays_finalizer)
  then show ?thesis
    by (auto simp: reconcileDeleteWithBackup_def checkBackupTimeout_def terminate_def Let_def
        intro!: stay_rules confined_bind stays_persist stays_finalizer)
qed

lemma stays_drainSts: "stays ns k \<Longrightarrow> stays ns (drainSts r k)"
  by (auto simp: drainSts_def intro!: stay_rules confined_bind)

lemma stays_driveJob:
  fixes mk :: "s3Credentials \<Rightarrow> ('s hctx, Job) state"
  assumes "\<And>creds (f :: Job \<Rightarrow> 's driver).
    (\<And>j. om_Namespace (job_Meta j) = ns \<Longrightarrow> stays ns (f j)) \<Longrightarrow> stays ns (State_Monad.bind (mk creds) f)"
  shows "stays ns (driveJob r ce jn mk st fl cm)"
  unfolding driveJob_def
  by (rule assms stay_rules stays_mirror | rule confined_bind | simp add: owner)+

lemma stays_mkJob:
  assumes "\<And>j. om_Namespace (job_Meta j) = ns \<Longrightarrow> stays ns (f j)" "onamespace i = ns"
  shows "stays ns (State_Monad.bind (preUpdateJob r i creds) f)"
    "stays ns (State_Monad.bind (ret (instanceJob i jn ty path creds b)) f)"
  unfolding preUpdateJob_def using assms by (auto simp: jobs_at_home intro!: stay_rules confined_bind)

lemma stays_jobs: "stays ns (drivePreUpdateBackup r)" "stays ns (driveRollbackRestore r path)"
  unfolding drivePreUpdateBackup_def driveRollbackRestore_def
  by (rule confined_getInst, rule stays_drainSts, rule stays_driveJob, rule stays_mkJob, assumption+)
    (rule confined_getInst, rule stays_drainSts, rule stays_driveJob, rule stays_mkJob, assumption+)

lemma stays_backupPathOf: "stays ns (backupPathOf r cs)"
  by (induction cs) (auto simp: Let_def intro!: stay_rules confined_bind)

lemma stays_scaleBackUp: "stays ns (scaleBackUp r)"
  by (auto simp: scaleBackUp_def intro!: stay_rules confined_bind)

lemma stays_abort: "stays ns (abortUpdate r reason)"
  by (auto simp: abortUpdate_def intro!: stay_rules confined_bind stays_persist stays_scaleBackUp)

lemma stays_rollback: "stays ns (driveRollback r)"
proof -
  have "stays ns (revertTag r previous)" for previous
    by (auto simp: revertTag_def Let_def intro!: stay_rules confined_bind stays_persist)
  then show ?thesis
    by (auto simp: driveRollback_def Let_def intro!: stay_rules confined_bind stays_abort stays_jobs)
qed

lemma stays_healthCheck: "stays ns (driveHealthCheck r)"
  by (auto simp: driveHealthCheck_def Let_def intro!: stay_rules confined_bind stays_persist)

lemma stays_update: "stays ns (driveUpdateStateMachine r)"
proof -
  have "stays ns (applyUpdate r version needs)" for version needs
    by (auto simp: applyUpdate_def confirmOrHealthCheck_def Let_def
        intro!: stay_rules confined_bind stays_persist stays_abort stays_scaleBackUp)
  then show ?thesis
    by (auto simp: driveUpdateStateMachine_def lastPreUpdateBackupPath_def Let_def
        intro!: stay_rules confined_bind stays_healthCheck stays_rollback stays_abort stays_jobs stays_backupPathOf stays_persist)
qed

lemma stays_version: "stays ns (reconcileAutoUpdate r sv)" "stays ns (resolveInitialTag r)"
  by (auto simp: reconcileAutoUpdate_def shouldCheckForUpdate_def checkVersion_def startUpdate_def resolveInitialTag_def Let_def
      intro!: stay_rules confined_bind confined_api stays_update stays_persist)

lemma stays_cronJob: "stays ns (reconcileBackupCronJob r)"
  by (auto simp: reconcileBackupCronJob_def cleanupBackupCronJob_def clearBackupCronJob_def Let_def
      intro!: stay_rules confined_bind stays_mirror)

end

locale addressed_cluster = addressed_replies "ob_Rec c" for c :: "'s Cluster" +
  assumes instance_at: "run_state (ob_GetInstance c n ns) s = (Inr i, s') \<Longrightarrow> onamespace i = ns"
begin

lemma stays_access: "stays ns (seqSteps (accessSteps c))"
  by (rule confined_seqSteps)
    (auto simp: accessSteps_def applyClusterDefaults_def ApplyClusterDefaults_def reconcileRBAC_def reconcileServiceAccount_def
      reconcileRole_def reconcileRoleBinding_def reconcileNetworkPolicy_def Let_def
      intro!: stay_rules confined_bind confined_api confined_seqSteps)

lemma stays_token: "stays ns (reconcileGatewayTokenSecret c)" "stays ns (meshStateStep c)"
  by (auto simp: reconcileGatewayTokenSecret_def existingGatewayToken_def generateGatewayToken_def meshStateStep_def
      reconcileMeshStateSecret_def Let_def intro!: stay_rules confined_bind)

lemma stays_resolveWorkspaces: "stays ns (resolveWorkspaces c resolve ws acc)"
proof (induction ws arbitrary: acc)
  case (Cons w ws)
  then show ?case
    by (cases w; cases acc) (auto simp: resolvePacks_def Let_def intro!: stay_rules confined_bind confined_api)
qed (simp add: home_rules)

lemma stays_packs: "stays ns (resolveSkillPacks c)"
  by (auto simp: resolveSkillPacks_def resolvePacks_def Let_def
      intro!: stay_rules confined_bind confined_api stays_resolveWorkspaces)

lemma stays_config: "stays ns (reconcileConfigMap c token packs)" "stays ns bindConflictEvent"
  by (auto simp: reconcileConfigMap_def publishConfigMap_def bindConflictEvent_def Let_def
      intro!: stay_rules confined_bind)

lemma stays_reference: "stays ns (resolveReference c who ev fetching n)"
  by (auto simp: resolveReference_def workspaceDegraded_def Let_def intro!: stay_rules confined_bind)

lemma stays_resolveAdditional: "stays ns (resolveAdditional c aws acc)"
proof (induction aws arbitrary: acc)
  case (Cons aw aws)
  then show ?case by (cases acc) (auto simp: Let_def intro!: stay_rules confined_bind stays_reference)
qed (simp add: home_rules)

lemma stays_workspace: "stays ns (reconcileWorkspaceConfigMap c packs)"
  by (auto simp: reconcileWorkspaceConfigMap_def resolveWorkspaceFiles_def resolveDefault_def Let_def
      intro!: stay_rules confined_bind stays_reference stays_resolveAdditional)

lemma adopted_namespace: "adopted c i k = Inr k' \<Longrightarrow> om_Namespace (ko_Meta k') = om_Namespace (ko_Meta k)"
  by (auto simp: adopted_def owner split: sum.splits)

lemma stays_ensureClaim: "cl_Namespace d = ns \<Longrightarrow> stays ns cont \<Longrightarrow> stays ns (ensureClaim c d cont)"
  by (auto simp: ensureClaim_def claimObj_def adopted_namespace intro!: stay_rules confined_bind)

lemma claims_at_home: "cl_Namespace (BuildPVC v i) = onamespace i" "cl_Namespace (BuildChromiumPVC v i) = onamespace i"
  by (simp_all add: BuildPVC_def BuildChromiumPVC_def Let_def)

lemma stays_volumes: "stays ns (reconcilePVC c)" "stays ns (reconcileChromiumPVC c)"
  by (auto simp: reconcilePVC_def reconcileChromiumPVC_def hpaClaims_def existingClaim_def claims_at_home Let_def
      intro!: stay_rules confined_bind stays_ensureClaim)

lemma stays_restoreStep: "stays ns (restoreStep c)"
  by (auto simp: restoreStep_def intro!: stay_rules confined_bind stays_restore)

lemma stays_availability: "stays ns (reconcilePDB c)" "stays ns (reconcileHPA c)" "stays ns (migrateDeploymentToStatefulSet c)"
  by (auto simp: reconcilePDB_def reconcileHPA_def migrateDeploymentToStatefulSet_def
      intro!: stay_rules confined_bind)

lemma stays_hashes: "stays ns (secretHash c)" "stays ns (gatewaySecretName c token)"
proof -
  have "stays ns (hashSecrets c names acc)" for names acc
  proof (induction names arbitrary: acc)
    case (Cons name names)
    then show ?case by (cases acc) (auto intro!: stay_rules confined_bind)
  qed (simp add: home_rules)
  moreover have "stays ns (reportMissing names)" for names
    by (induction names) (auto intro!: stay_rules confined_bind)
  ultimately show "stays ns (secretHash c)"
    by (auto simp: secretHash_def computeSecretHash_def Let_def intro!: stay_rules confined_bind)
  show "stays ns (gatewaySecretName c token)"
    by (auto simp: gatewaySecretName_def isGatewayAuthTrustedProxy_def Let_def intro!: stay_rules confined_bind)
qed

lemma stays_sts: "stays ns (reconcileStatefulSet c token packs files)"
  by (auto simp: reconcileStatefulSet_def replaceSts_def writeSts_def intro!: stay_rules confined_bind stays_hashes)

lemma stays_serving: "stays ns (seqSteps (servingSteps c))"
  by (rule confined_seqSteps)
    (auto simp: servingSteps_def cronJobStep_def reconcileService_def reconcileChromiumCDPService_def reconcileIngress_def
      applyIngress_def reconcileTraefikBasicAuthMiddleware_def reconcileBasicAuthSecret_def reconcileHTTPRoute_def
      reconcileServiceMonitor_def reconcilePrometheusRule_def reconcileGrafanaDashboards_def applyDashboard_def Let_def
      intro!: stay_rules confined_bind stays_cronJob)

lemma stays_resources: "stays ns (reconcileResources c)"
proof -
  have "stays ns (seqSteps (workloadSteps c token packs files))" for token packs files
    by (rule confined_seqSteps)
      (auto simp: workloadSteps_def intro!: stay_rules stays_volumes stays_restoreStep stays_availability stays_sts)
  then show ?thesis
    by (auto simp: reconcileResources_def configSteps_def
        intro!: stay_rules confined_bind stays_access stays_token stays_packs stays_config stays_workspace stays_serving)
qed

lemma stays_run: "stays ns (driveThenProvision c sv)"
  by (auto simp: driveThenProvision_def provision_def reportFailure_def finishSuspended_def finishActive_def settlePhase_def
      observeGeneration_def persistChange_def retryableConflictResult_def Let_def
      intro!: stay_rules confined_bind stays_version stays_resources)

lemma home_run:
  "wp (ReconcileInstance c sv name ns) (\<lambda>_ h'. extends (home (rc_OperatorNamespace (ob_Rec c)) ns) h h') h"
proof -
  have read: "wp (api (ob_GetInstance c name ns) (\<lambda>a. CGetInstance name ns (errOf a)))
      (\<lambda>res h'. extends (home (rc_OperatorNamespace (ob_Rec c)) ns) h h' \<and> (\<forall>i. res = Inr i \<longrightarrow> onamespace i = ns)) h"
    by (auto intro!: wp_api extends_one dest: instance_at)
  have rest: "stays ns (
      if om_DeletionTimestamp (oci_Meta i) \<noteq> None then do { out \<leftarrow> reconcileDeleteWithBackup (ob_Rec c); ret (Ret out) }
      else if FinalizerName \<notin> set (om_Finalizers (oci_Meta i)) then do { out \<leftarrow> addFinalizer c; ret (Ret out) }
      else if st_Phase (oci_Status i) = '''' then do { out \<leftarrow> markPending c; ret (Ret out) }
      else if st_Phase (oci_Status i) = PhasePending then startProvisioning c sv
      else driveThenProvision c sv)" (is "stays ns (?m i)") for i
    by (auto simp: addFinalizer_def markPending_def startProvisioning_def
        intro!: stay_rules confined_bind stays_deletion stays_version stays_run)
  have tail: "wp (?m i) (\<lambda>_ h2. extends (home (rc_OperatorNamespace (ob_Rec c)) ns) h h2) (h'\<lparr>cur := i\<rparr>)"
    if "extends (home (rc_OperatorNamespace (ob_Rec c)) ns) h h'" "onamespace i = ns" for h' i
    by (rule wp_mono [OF confinedD [OF rest]]) (use that in \<open>auto simp: extends_def\<close>)
  show ?thesis
    unfolding ReconcileInstance_def
    by (intro wp_bind wp_mono [OF read] wp_sum wp_return wp_modInst) (blast, rule tail, blast, blast)
qed

end

section \<open>The property\<close>

text \<open>What a call reads, and so asks the cache for; CreateOrUpdate reads before it writes.\<close>

fun reads :: "api_call \<Rightarrow> (cachedKind \<times> string) option" where
  "reads (CGetSecret _ ns _) = Some (SecretObjects, ns)"
| "reads (CWriteSecret _ ns _) = Some (SecretObjects, ns)"
| "reads (CGetSts _ ns _) = Some (OtherObjects, ns)"
| "reads (CListPods ns _ _) = Some (OtherObjects, ns)"
| "reads (CGetJob _ ns _) = Some (OtherObjects, ns)"
| "reads (CGetPVC _ ns _) = Some (OtherObjects, ns)"
| "reads (CGetCronJob _ ns _) = Some (OtherObjects, ns)"
| "reads (CWriteCronJob _ ns _) = Some (OtherObjects, ns)"
| "reads (CGetInstance _ ns _) = Some (OtherObjects, ns)"
| "reads (CGetObj _ _ ns _) = Some (OtherObjects, ns)"
| "reads (CApplyObj _ _ ns _ _) = Some (OtherObjects, ns)"
| "reads _ = None"

definition served :: "managerOptions \<Rightarrow> api_call \<Rightarrow> bool" where
  "served mo x \<longleftrightarrow> (case reads x of None \<Rightarrow> True | Some (kind, ns) \<Rightarrow> cached mo kind ns)"

lemma cached_secrets:
  "cached (managerOptionsOf f env) OtherObjects ns \<Longrightarrow> cached (managerOptionsOf f env) SecretObjects ns"
  "cached (managerOptionsOf f env) SecretObjects (operatorNamespaceOf env)"
  by (auto simp: cached_def managerOptionsOf_def buildCacheOptions_def Let_def)

lemma home_served:
  "home (operatorNamespaceOf env) ns x \<Longrightarrow> cached (managerOptionsOf f env) OtherObjects ns \<Longrightarrow> served (managerOptionsOf f env) x"
  by (cases x) (auto simp: served_def cached_secrets)

text \<open>
  C10: namespaces are kept apart. Whatever the cluster answers, a run for an instance names no object
  outside the namespace of the instance - deletion with its backup, restore, update and every
  reconciled resource included - except for reading the Secret with the backup credentials in the
  namespace of the operator. With the cache that the flag --watch-namespaces leaves, every object the
  run reads lies in a namespace the cache was set up for, if the instance does.
\<close>

theorem namespace_isolation:
  assumes "addressed_cluster c" "rc_OperatorNamespace (ob_Rec c) = operatorNamespaceOf env"
    and "run_state (ReconcileInstance c sv name ns) h = (a, h1)" "cached (managerOptionsOf f env) OtherObjects ns"
  shows "\<exists>cs. calls h1 = calls h @ cs \<and> list_all (home (operatorNamespaceOf env) ns) cs
    \<and> list_all (served (managerOptionsOf f env)) cs"
proof -
  from wp_run [OF addressed_cluster.home_run [OF assms(1)] assms(3)] obtain cs
    where "calls h1 = calls h @ cs" "list_all (home (operatorNamespaceOf env) ns) cs"
    by (auto simp: extends_def assms(2))
  moreover from this(2) have "list_all (served (managerOptionsOf f env)) cs"
    using assms(4) by (auto simp: list_all_iff intro: home_served)
  ultimately show ?thesis by blast
qed

text \<open>A deletion on the cluster of theory SteadyState: the credentials are looked for and not found.\<close>

definition homeCluster :: "objects Cluster" where
  "homeCluster = storeCluster\<lparr>ob_GetInstance := (\<lambda>n ns. ret (Inr (zero_OpenClawInstance
     \<lparr>oci_Meta := zero_ObjectMeta\<lparr>om_Name := n, om_Namespace := ns, om_DeletionTimestamp := Some 0\<rparr>,
      oci_Status := zero_OpenClawInstanceStatus\<lparr>st_Phase := PhaseBackingUp\<rparr>\<rparr>)))\<rparr>"

interpretation atHome: addressed_cluster homeCluster
  by unfold_locales (auto simp: homeCluster_def storeCluster_def idleRec_def)

definition noVersions :: "nat semver" where
  "noVersions = \<lparr>sv_NewVersion = (\<lambda>_. None), sv_GreaterThan = (\<lambda>_ _. False), sv_Prerelease = (\<lambda>_. '''')\<rparr>"

definition homeEnv :: "string \<rightharpoonup> string" where "homeEnv = [''POD_NAMESPACE'' \<mapsto> ''system'']"

definition homeFlags :: flags where "homeFlags = defaultFlags\<lparr>fl_WatchNamespaces := '' team, other,team ''\<rparr>"

lemma home_cache:
  "operatorNamespaceOf homeEnv = ''system''" "cached (managerOptionsOf homeFlags homeEnv) OtherObjects ''team''"
  "\<not> cached (managerOptionsOf homeFlags homeEnv) OtherObjects ''system''"
  by code_simp+

lemma terminate_keeps:
  assumes "x \<in> set (calls h)"
  shows "wp (terminate r) (\<lambda>out. wp (ret (Ret out)) (\<lambda>_ h'. x \<in> set (calls h'))) h"
proof -
  have "logs (\<lambda>_. True) (terminate r)"
    by (auto simp: terminate_def persistThen_def removeFinalizer_def orphanPVC_def handler_ops Let_def intro!: log_rules)
  from wp_logged [OF this, of x h "\<lambda>c. c = x"] assms show ?thesis by (simp add: wp_def)
qed

definition homeInst :: OpenClawInstance where
  "homeInst = zero_OpenClawInstance
     \<lparr>oci_Meta := zero_ObjectMeta\<lparr>om_Name := ''claw'', om_Namespace := ''team'', om_DeletionTimestamp := Some 0\<rparr>,
      oci_Status := zero_OpenClawInstanceStatus\<lparr>st_Phase := PhaseBackingUp\<rparr>\<rparr>"

lemma homeInst_facts:
  "om_DeletionTimestamp (oci_Meta homeInst) = Some 0" "map_of (om_Annotations (oci_Meta homeInst)) k = None"
  "IsPersistenceEnabled homeInst" "st_Phase (oci_Status homeInst) = PhaseBackingUp" "st_BackingUpSince (oci_Status homeInst) = None"
  by (code_simp, simp add: homeInst_def zero_ObjectMeta_def, code_simp+)

lemma home_deletion:
  "wp (ReconcileInstance homeCluster noVersions ''claw'' ''team'')
     (\<lambda>_ h. CGetSecret BackupSecretName ''system'' (Inl missing) \<in> set (calls h)) storeStart"
proof -
  have r: "ob_GetInstance homeCluster ''claw'' ''team'' = ret (Inr homeInst)" "rc_GetSts (ob_Rec homeCluster) n ns = ret (Inl missing)"
    "rc_GetSecret (ob_Rec homeCluster) n ns = ret (Inl missing)" "rc_OperatorNamespace (ob_Rec homeCluster) = ''system''" for n ns
    by (simp_all add: homeCluster_def storeCluster_def idleRec_def homeInst_def)
  have e: "isNotFound missing" "isNotFound (wrapErr m missing)" for m
    by (simp_all add: missing_def isNotFound_def wrapErr_def)
  show ?thesis
    unfolding ReconcileInstance_def reconcileDeleteWithBackup_def checkBackupTimeout_def drainThenBackup_def backupWithJob_def
      getS3Credentials_def getSts_def getSecret_def
    by (auto simp: r e homeInst_facts intro!: wp_rules wp_api terminate_keeps)
qed

theorem namespace_isolation_witness:
  "\<exists>a h1. run_state (ReconcileInstance homeCluster noVersions ''claw'' ''team'') storeStart = (a, h1)
     \<and> CGetSecret BackupSecretName ''system'' (Inl missing) \<in> set (calls h1)
     \<and> list_all (home ''system'' ''team'') (calls h1) \<and> list_all (served (managerOptionsOf homeFlags homeEnv)) (calls h1)"
proof -
  obtain a h1 where run: "run_state (ReconcileInstance homeCluster noVersions ''claw'' ''team'') storeStart = (a, h1)" by fastforce
  have "rc_OperatorNamespace (ob_Rec homeCluster) = operatorNamespaceOf homeEnv"
    by (simp add: homeCluster_def storeCluster_def idleRec_def home_cache)
  from namespace_isolation [OF atHome.addressed_cluster_axioms this run home_cache(2)] obtain cs
    where "calls h1 = calls storeStart @ cs" "list_all (home ''system'' ''team'') cs"
      "list_all (served (managerOptionsOf homeFlags homeEnv)) cs"
    by (auto simp: home_cache)
  moreover have "calls storeStart = []" by (simp add: storeStart_def)
  ultimately show ?thesis using run wp_run [OF home_deletion run] by (intro exI [of _ a] exI [of _ h1]) simp
qed

end
