(* ===== verification/Spec2Isabelle.thy ===== *)
theory Spec2Isabelle
  imports AutoUpdateProps BackupProps SelfConfigProps SkillPacks Webhook ControllerProps PodProps Isolation
begin

text \<open>
  The OpenClaw operator: a Kubernetes controller (Go) that turns a custom resource
  \<^verbatim>\<open>OpenClawInstance\<close> into a StatefulSet with its configuration, storage, network policy,
  services and monitoring, keeps it up to date from an OCI registry, backs it up to S3, restores it,
  and lets the agent in the pod ask for changes of its own spec through
  \<^verbatim>\<open>OpenClawSelfConfig\<close> requests.

  \<^bold>\<open>Parts and how they interact.\<close> The webhook (internal/webhook) validates and defaults an instance
  before it is stored. The main controller (internal/controller/openclawinstance_controller.go)
  reacts to a changed instance: it merges the cluster defaults, handles deletion (backup.go), drives
  a pending update (autoupdate.go), then brings the owned objects into line one after the other
  (reconcileResources), with a restore (restore.go) before the StatefulSet, and records what it did
  in the status. The objects are made by pure builders (internal/resources). Tags come from
  internal/registry, skill packs from internal/skillpacks. A second controller carries out
  self-configuration requests.

  \<^bold>\<open>Theories and the files they model\<close> (paths under src/).
  \<^item> Prelude, GoLib, GoTime, Json, Types: Go strings (lists of bytes), maps as association lists, base64
    and lexical paths, durations in nanoseconds at 64 bits, \<^verbatim>\<open>encoding/json\<close> values, and one record per
    struct of api/v1alpha1, fields in source order.
  \<^item> Common, Network, Resources, Exposure, Workspace, ConfigMap, Dashboards, Scripts, Texts, Pod,
    StatefulSet: the builders of internal/resources - names, images and defaults; mesh, network
    policy and Services; RBAC, HPA, PDB, claims, Secrets; Ingress, HTTPRoute, ServiceMonitor and
    alerts; workspace files; the published configuration; dashboards and metrics; the text of every
    shell script and of the injected files; containers, probes, volumes, the configuration hash and
    the normalisation of the pod.
  \<^item> Client: the record \<open>Reconciler\<close> of the client, clock and helpers a handler sees, and the state
    monad of a handler: a context of the surroundings (\<open>srv\<close>), the instance in memory (\<open>cur\<close>)
    and a log of the API calls made (\<open>calls\<close>). MemCluster is a concrete instance of it.
  \<^item> S3, AutoUpdate, Backup, Restore: s3.go, autoupdate.go, backup.go and restore.go, one definition per
    handler or branch of it; AutoUpdateProps and BackupProps hold their properties.
  \<^item> SelfConfig, SelfConfigController, SelfConfigProps: selfconfig_apply.go,
    selfconfig_managed_fields.go and openclawselfconfig_controller.go; the abstract contract is the
    pair of step relations \<open>verdict\<close> and \<open>sc_trace\<close>.
  \<^item> Objects, Provision, Workload, Serving, Controller: the steps of reconcileResources, each with its
    calls, events, conditions and early returns, then reconcileResources, Reconcile and the watch
    mappings. A step returns None or what ended it (an error or a panic).
    ControllerRules (which calls a step may log, what it keeps of the instance), ControllerDemo (a
    cluster on which a run goes through), ControllerProps, SteadyState and Isolation hold the
    properties. EntryPoint: the options cmd/main.go starts the manager with, and SetupWithManager.
  \<^item> Http, Registry, SkillPacks: registry/resolver.go and skillpacks/resolver.go, over a record of the
    HTTP client, the clock and the parsers.
  \<^item> Webhook: openclawinstance_webhook.go and verified_plugins.go, a sequence of checks.
  \<^item> PodProps: what the pod of an instance promises. This theory: what acceptance by the webhook means
    for the builders.

  \<^bold>\<open>What the lemmas show.\<close>
  \<^item> The order of a run: the pod is written last and only after the network policy, the configuration
    and a requested restore (\<open>pod_written_last\<close>); the phase reported agrees with the pod
    (\<open>phase_honest\<close>); errors, conflicts and panics end as the code intends (\<open>failures_reported\<close>); no
    object is written before the finalizer (\<open>finalizer_first\<close>); a step whose object leaves nothing to
    the defaults of the API server writes nothing when run again (\<open>second_run_writes_nothing\<close>); a run names no object of another namespace but
    the backup credentials, and reads nothing the cache was not set up for (\<open>namespace_isolation\<close>);
    the watches cover the hashed Secrets.
  \<^item> Auto-update: the invariant of reachable states by rule induction (\<open>au_reach\<close>: any number of runs,
    each from a cached copy that carries an update status the server holds or has held), the effect of
    a rollback from any copy, when the health check decides, which versions start an update, the backup
    before it over all the runs of an update (\<open>update_rounds\<close>). The one stale copy excluded from
    \<open>au_reach\<close> is that of a rollback the server has finished: the code counts it again
    (\<open>stale_rollback_counts_again\<close>).
  \<^item> Backup, restore and S3: when the finalizer may go, the exact calls of its removal, restore after its Job,
    backup and restore use the same place, credentials stay out of Jobs, timeouts within bounds.
  \<^item> Self-configuration: a run refines its contract; authorisation, termination in a terminal phase,
    what a patch changes and what it leaves.
  \<^item> Builders: who may connect (\<open>ingress_exact\<close>), what the role grants, what survives of the user's
    configuration, which content a workspace file is seeded with, and for the pod its mounts, order,
    names, users and the commands its plugin script is read as. These are promises about the containers
    and volumes the operator builds (\<open>operatorContainers\<close>, \<open>operatorVolumes\<close>); the init containers,
    sidecars and volumes of the spec are passed on as they are (\<open>Given\<close>), and nothing is claimed of
    them but their place.
  \<^item> Resolvers: the version chosen, at most 102 requests for a listing, the fallback to the cache.
  \<^item> Theorems named after a defect (\<open>claim_names_collide\<close>, \<open>manifest_path_escapes\<close>,
    \<open>disk_path_breaks_out\<close> and others) show on concrete inputs where the code does not do what it
    or its documentation says.

  \<^bold>\<open>Interfaces.\<close> Each is a locale with its client lemmas, interpreted on the definitions of the model:
  \<open>keyed_override\<close> (Chromium arguments, defaults of the environment), \<open>clamped_duration\<close> (three
  parsers of durations), \<open>job_driver\<close> (backup before an update, restore of a rollback),
  \<open>config_stage\<close> (the ten stages of the published configuration and their composition),
  \<open>ttl_cache\<close> (both resolvers), \<open>before_pod\<close>, \<open>keeper\<close> with its extensions \<open>after_pod\<close>,
  \<open>every_condition\<close> and \<open>before_restore\<close> (the steps of the controller), \<open>object_store\<close>: what
  CreateOrUpdate, Delete and SetControllerReference promise, and \<open>addressed_replies\<close> with its
  extension \<open>addressed_cluster\<close>: a reply is the object asked for, in its namespace. The last three are
  interpreted on a cluster that keeps its objects in a map.

  \<^bold>\<open>Counters and bounds.\<close> Recursion is structural or has its termination proof, except where a loop
  reads a text: \<open>parseComponents\<close> counts at most the length of the duration
  (\<open>parseDuration_fuel\<close>: more gives the same result), \<open>jsonStringBody\<close> and \<open>jsonMembers\<close> at most the
  length of the text, of which each call consumes a byte. A listing of tags stops after
  \<open>maxPages\<close> = 100 pages as in the code. Durations and the rollback counter wrap at their width; other
  Go integers are only compared or copied and are \<^typ>\<open>int\<close>.

  \<^bold>\<open>Parameters.\<close> The Kubernetes API server and client, controller-runtime's helpers, the clock and
  random bytes (\<open>Reconciler\<close>, \<open>Cluster\<close>, with the laws \<open>api_laws\<close> and the locales above), SHA-1 and
  SHA-256, the parser of quantities (\<open>PodParams\<close>, \<open>webhookEnv\<close>), the HTTP client and URL parser
  (\<open>http\<close>), the semver library (\<open>semver\<close>), and the text of the plugin installer.
  \<open>object_store\<close> lets the server change what it stores by an admission function, of which it assumes
  only that it leaves an object without open fields (\<open>complete\<close>) as it is, and lets it keep metadata of
  its own. The StatefulSet is outside that property, since what \<^verbatim>\<open>NormalizeStatefulSet\<close> has to
  fill in depends on the version of the server, and so is the Service, which is written on every run
  (\<open>service_never_settles\<close>).

  \<^bold>\<open>Limits of the encodings.\<close> Decoding JSON into a map keeps the last of duplicate keys, where
  \<^verbatim>\<open>encoding/json\<close> merges nested maps; \<^verbatim>\<open>%q\<close> is written for ASCII; a
  request of the HTTP client counts once, whatever redirects it follows; the keys of managed fields are
  read back for names without quotes, backslashes and control characters, as Kubernetes admits them.

  \<^bold>\<open>Not modelled.\<close> The rest of cmd/main.go (starting the manager, its probes and the OTLP exporter: calls
  of libraries), zz_generated.deepcopy.go (generated; deep copies are the identity on values), scheme
  registration and list wrappers, log lines and the recording of Prometheus metrics (written,
  never read by the operator; the metrics themselves are in Dashboards), the JavaScript of
  resources/scripts (it runs in the pod), what a shell does with the commands of a script beyond
  reading them, and concurrency of the two controllers within one process: a run is one sequence of
  calls, with other writers of the cluster acting through the surroundings between two calls.
\<close>

section \<open>The webhook and the rest of the operator\<close>

text \<open>The quantities the webhook accepts, as the builders see them.\<close>

definition validQuantity :: "webhookEnv \<Rightarrow> string \<Rightarrow> bool" where
  "validQuantity x s \<longleftrightarrow> wx_QuantityError x s = None"

text \<open>
  C39: an instance the webhook accepts takes effect as written: the security context of the pod does not name UID 0, at
  most one mesh provider is on, the volume has the size the user gave, and the auto-update interval
  and timeout the user gave are used unclamped.
\<close>

theorem accepted_settings_effective:
  assumes "accepts (validate x inst)"
  shows "pctx_RunAsUser (buildPodSecurityContext inst) \<noteq> Some 0
    \<and> length (EnabledMeshProviders inst) \<le> 1
    \<and> (let size = pers_Size (stor_Persistence (spec_Storage (oci_Spec inst)))
       in cl_Storage (BuildPVC (validQuantity x) inst) = (if size = [] then ''10Gi'' else size))
    \<and> (let s = au_CheckInterval (spec_AutoUpdate (oci_Spec inst))
       in s \<noteq> [] \<longrightarrow> parseDuration s = Some (parseCheckInterval s))
    \<and> (let s = au_HealthCheckTimeout (spec_AutoUpdate (oci_Spec inst))
       in s \<noteq> [] \<longrightarrow> parseDuration s = Some (parseHealthCheckTimeout s))"
proof (intro conjI)
  note acc = validate_accepts [OF assms]
  from acc(1) show "pctx_RunAsUser (buildPodSecurityContext inst) \<noteq> Some 0"
    by (auto simp: checkRoot_def buildPodSecurityContext_def orElse_def derefOr_def split: option.splits)
  from acc(2) show "length (EnabledMeshProviders inst) \<le> 1" by (simp add: checkMesh_def)
  let ?size = "pers_Size (stor_Persistence (spec_Storage (oci_Spec inst)))"
  from acc(4) have "accepts (checkQuantity x (''spec.storage.persistence.size'', ?size))"
    by (simp add: validateResourceQuantities_def instanceQuantities_def Let_def)
  then show "let size = ?size in cl_Storage (BuildPVC (validQuantity x) inst) = (if size = [] then ''10Gi'' else size)"
    by (auto simp: accepts_quantity BuildPVC_def Let_def ParseQuantity_def validQuantity_def)
  show "let s = au_CheckInterval (spec_AutoUpdate (oci_Spec inst)) in s \<noteq> [] \<longrightarrow> parseDuration s = Some (parseCheckInterval s)"
    using accepts_duration [OF acc(5) [unfolded checkInterval_def]] check_interval.parse_exact by (fastforce simp: Let_def)
  show "let s = au_HealthCheckTimeout (spec_AutoUpdate (oci_Spec inst)) in s \<noteq> [] \<longrightarrow> parseDuration s = Some (parseHealthCheckTimeout s)"
    using accepts_duration [OF acc(6) [unfolded checkHealthTimeout_def]] health_timeout.parse_exact by (fastforce simp: Let_def)
qed

definition permissiveEnv :: webhookEnv where
  "permissiveEnv = \<lparr>wx_QuantityError = Map.empty, wx_StrictVersion = (\<lambda>_. True), wx_DurationError = (\<lambda>_. [])\<rparr>"

definition acceptedExample :: OpenClawInstance where
  "acceptedExample = zero_OpenClawInstance\<lparr>oci_Spec := zero_OpenClawInstanceSpec\<lparr>
     spec_Resources := zero_ResourcesSpec\<lparr>rs_Limits := \<lparr>rl_CPU = ''2'', rl_Memory = ''4Gi''\<rparr>\<rparr>,
     spec_Storage := zero_StorageSpec\<lparr>stor_Persistence := zero_PersistenceSpec\<lparr>pers_Size := ''20Gi''\<rparr>\<rparr>,
     spec_Workspace := Some exampleWs\<rparr>\<rparr>"

lemma acceptedExample_accepted: "accepts (validate permissiveEnv acceptedExample)"
proof -
  have "\<not> isl (validate permissiveEnv acceptedExample)" by code_simp
  then show ?thesis by (cases "validate permissiveEnv acceptedExample") auto
qed

theorem accepted_settings_effective_witness:
  "accepts (validate permissiveEnv acceptedExample)
   \<and> cl_Storage (BuildPVC (validQuantity permissiveEnv) acceptedExample) = ''20Gi''
   \<and> pctx_RunAsUser (buildPodSecurityContext acceptedExample) \<noteq> Some 0"
proof -
  have "pers_Size (stor_Persistence (spec_Storage (oci_Spec acceptedExample))) = ''20Gi''" by (simp add: acceptedExample_def)
  with accepted_settings_effective [OF acceptedExample_accepted] acceptedExample_accepted show ?thesis by (simp add: Let_def)
qed

text \<open>
  C38: no path an accepted instance declares leaves its workspace: every initial file, initial
  directory and managed file of the default and the additional workspaces ends inside the workspace
  root, whatever the root; the additional workspaces have distinct names whose keys parse back.
\<close>

theorem accepted_paths_contained:
  assumes "accepts (validate x inst)" "spec_Workspace (oci_Spec inst) = Some ws"
  shows "list_all (\<lambda>paths. \<forall>p \<in> paths. \<forall>root. (\<exists>below. walk root (splitByte (CHR ''/'') p) = below @ root) \<and> \<not> hasPrefix p ''/'')
           (wsPaths ws # map awPaths (ws_AdditionalWorkspaces ws))
    \<and> distinct (map aw_Name (ws_AdditionalWorkspaces ws))
    \<and> (\<forall>aw \<in> set (ws_AdditionalWorkspaces ws). \<forall>f.
         ParseAdditionalWorkspaceCMKey (AdditionalWorkspaceCMKey (aw_Name aw) f) = Some (aw_Name aw, f))"
proof -
  note ws = accepts_workspace [OF validate_accepts(7) [OF assms]]
  note aws = accepts_additional [OF ws(2)]
  show ?thesis
    using ws(1) aws pathOK_inside parse_additional_key by (simp add: list_all_iff)
qed

theorem accepted_paths_contained_witness:
  "accepts (validate permissiveEnv acceptedExample)
   \<and> (\<exists>below. walk [''workspace''] (splitByte (CHR ''/'') ''a/b.md'') = below @ [''workspace''])"
proof -
  have ws: "spec_Workspace (oci_Spec acceptedExample) = Some exampleWs" by (simp add: acceptedExample_def)
  have p: "''a/b.md'' \<in> wsPaths exampleWs" by (simp add: wsPaths_def exampleWs_def)
  from accepted_paths_contained [OF acceptedExample_accepted ws] p acceptedExample_accepted show ?thesis by auto
qed

end
